(* ===== verification/Prelude.thy ===== *)
theory Prelude
  imports Complex_Main "HOL-Library.Word" "HOL-Library.Monad_Syntax" "HOL-Library.Multiset"
begin

text \<open>
  Shared vocabulary of the development: the C integer types, the outcome monad,
  pointers, and the list lemmas that the component theories use.

  An outcome is an \<open>option\<close>: \<open>None\<close> stands for undefined behaviour (a dangling or NULL
  dereference, an access outside an array) or for not returning; \<open>Some x\<close> for a call that
  returns \<open>x\<close>.  A theorem that a call yields \<open>Some\<close> is therefore a memory-safety and
  termination theorem.
\<close>

section \<open>C integer types\<close>

type_synonym u8 = "8 word"
type_synonym u16 = "16 word"
type_synonym u32 = "32 word"
type_synonym u64 = "64 word"
type_synonym size_t = "64 word"

text \<open>An object address; 0 is NULL.\<close>

type_synonym addr = "64 word"

text \<open>
  \<open>c_int\<close> is a C \<open>int\<close> used as a flag or a return code, \<open>time_t\<close> the signed 64-bit seconds
  of the system clock.  Overflow of either is undefined behaviour in C and none of the code
  below does arithmetic that comes near the bounds, so both are read as integers.
\<close>

type_synonym c_int = int
type_synonym time_t = int

text \<open>A C \<open>double\<close> is read as a real number: rounding is not modelled.\<close>

type_synonym c_double = real

text \<open>
  Where the bits of a \<open>double\<close> are stored or sent, it is a word of 64 bits, and how the machine rounds
  and computes is an argument.
\<close>

record c_floats =
  fl_of :: "real \<Rightarrow> u64"
  fl_mul :: "u64 \<Rightarrow> u64 \<Rightarrow> u64"
  fl_add :: "u64 \<Rightarrow> u64 \<Rightarrow> u64"

section \<open>Collections of rules\<close>

named_theorems count_simps \<open>counters as images of list counts\<close>

section \<open>Pointers\<close>

text \<open>Dereference of a node pointer in a store.\<close>

definition deref :: "(addr \<rightharpoonup> 'n) \<Rightarrow> addr \<Rightarrow> 'n option" where
  "deref h p = (if p = 0 then None else h p)"

lemma deref_Some [simp]: "p \<noteq> 0 \<Longrightarrow> deref h p = h p"
  by (simp add: deref_def)

lemma deref_NULL [simp]: "deref h 0 = None"
  by (simp add: deref_def)

section \<open>Free addresses\<close>

text \<open>The first free address among the \<open>n\<close> from \<open>a\<close> on, 0 when there is none.\<close>

fun first_free :: "(addr \<rightharpoonup> 'n) \<Rightarrow> addr \<Rightarrow> nat \<Rightarrow> addr" where
  "first_free h a 0 = 0"
| "first_free h a (Suc n) = (if h a = None then a else first_free h (a + 1) n)"

lemma first_free_None: "first_free h a n = 0 \<or> h (first_free h a n) = None"
  by (induction n arbitrary: a) auto

lemma first_free_hit:
  "i < n \<Longrightarrow> h (a + of_nat i) = None \<Longrightarrow> \<exists>j < n. first_free h a n = a + of_nat j"
proof (induction n arbitrary: a i)
  case (Suc n)
  show ?case
  proof (cases "h a = None")
    case False
    then have "i \<noteq> 0" using Suc.prems(2) by (cases i) auto
    then obtain i' where i': "i = Suc i'" by (cases i) auto
    have "\<exists>j < n. first_free h (a + 1) n = a + 1 + of_nat j"
      by (rule Suc.IH [of i']) (use Suc.prems i' in \<open>simp_all add: ac_simps\<close>)
    then obtain j where "j < n" "first_free h (a + 1) n = a + of_nat (Suc j)" by (auto simp: ac_simps)
    then show ?thesis using False by (intro exI [of _ "Suc j"]) (auto simp del: of_nat_Suc)
  qed (auto intro: exI [of _ 0])
qed simp

lemma first_free_fresh:
  assumes "card (dom h) < n" "n \<le> 2 ^ 32"
  shows "first_free h 1 n \<noteq> 0 \<and> h (first_free h 1 n) = None"
proof -
  have small: "unat (of_nat k :: addr) = k" if "k \<le> n" for k
    using that assms(2) by (simp add: unsigned_of_nat take_bit_nat_eq_self)
  have "\<exists>i < n. h (1 + of_nat i) = None"
  proof (rule ccontr)
    assume "\<not> ?thesis"
    then have "(\<lambda>i. 1 + of_nat i) ` {..<n} \<subseteq> dom h" by (auto simp: dom_def)
    moreover have "inj_on (\<lambda>i. 1 + of_nat i :: addr) {..<n}"
      by (rule inj_onI) (metis add_left_imp_eq less_imp_le_nat lessThan_iff small)
    ultimately have "n \<le> card (dom h)" by (metis card_image card_lessThan card_mono finite)
    with assms(1) show False by simp
  qed
  then obtain i where "i < n" "h (1 + of_nat i) = None" by blast
  from first_free_hit [of i n h 1, OF this] obtain j where j: "j < n" "first_free h 1 n = of_nat (Suc j)" by auto
  then have "unat (first_free h 1 n) = Suc j" using small [of "Suc j"] by simp
  then have "first_free h 1 n \<noteq> 0" by (metis nat.distinct(1) unat_0)
  with first_free_None [of h 1 n] show ?thesis by auto
qed

section \<open>Searching an array\<close>

text \<open>
  The index a loop \<open>for (i = 0; i < n; i++) if (P a[i]) { ...; break; }\<close> stops at.
\<close>

fun first_index :: "('a \<Rightarrow> bool) \<Rightarrow> 'a list \<Rightarrow> nat option" where
  "first_index P [] = None"
| "first_index P (x # xs) = (if P x then Some 0 else map_option Suc (first_index P xs))"

lemma first_index_None: "first_index P xs = None \<longleftrightarrow> (\<forall>x \<in> set xs. \<not> P x)"
  by (induction xs) auto

lemma first_index_SomeD:
  "first_index P xs = Some i \<Longrightarrow> i < length xs \<and> P (xs ! i) \<and> (\<forall>j < i. \<not> P (xs ! j))"
proof (induction xs arbitrary: i)
  case Nil
  then show ?case by simp
next
  case (Cons x xs)
  show ?case
  proof (cases "P x")
    case True
    with Cons.prems show ?thesis by simp
  next
    case False
    with Cons.prems obtain j where j: "first_index P xs = Some j" "i = Suc j" by auto
    from Cons.IH [OF j(1)] False j(2) show ?thesis
      by (auto simp: nth_Cons split: nat.split)
  qed
qed

lemma first_index_Some_ex: "x \<in> set xs \<Longrightarrow> P x \<Longrightarrow> \<exists>i. first_index P xs = Some i"
  using first_index_None [of P xs] by (cases "first_index P xs") auto

lemma first_index_cong_fst:
  "first_index P xs = Some i \<Longrightarrow> x = xs ! i \<Longrightarrow> xs = take i xs @ x # drop (Suc i) xs"
  using first_index_SomeD [of P xs i] by (simp add: id_take_nth_drop)

section \<open>Counting\<close>

abbreviation count_if :: "('a \<Rightarrow> bool) \<Rightarrow> 'a list \<Rightarrow> nat" where
  "count_if P xs \<equiv> length (filter P xs)"

text \<open>
  A C counter that mirrors the number of array elements with a property is the image of that
  number; replacing one element moves it by at most one in each direction, and the wrap-around
  of the machine word is the ring arithmetic of the image.
\<close>

lemma of_nat_count_update [count_simps]:
  assumes "i < length xs"
  shows "(of_nat (count_if P (xs[i := x])) :: 'a :: ring_1)
    = of_nat (count_if P xs) - (if P (xs ! i) then 1 else 0) + (if P x then 1 else 0)"
proof -
  have xs: "xs = take i xs @ xs ! i # drop (Suc i) xs"
    using assms by (simp add: id_take_nth_drop)
  have upd: "xs[i := x] = take i xs @ x # drop (Suc i) xs"
    using assms by (simp add: upd_conv_take_nth_drop)
  have "count_if P (xs[i := x]) + (if P (xs ! i) then 1 else 0)
      = count_if P xs + (if P x then 1 else 0)"
    by (subst (3) xs) (simp add: upd)
  then have "(of_nat (count_if P (xs[i := x]) + (if P (xs ! i) then 1 else 0)) :: 'a)
      = of_nat (count_if P xs + (if P x then 1 else 0))"
    by (rule arg_cong)
  then show ?thesis by (simp split: if_splits) (simp add: algebra_simps)+
qed

lemma of_nat_count_snoc [count_simps]:
  "(of_nat (count_if P (xs @ [x])) :: 'a :: ring_1)
    = of_nat (count_if P xs) + (if P x then 1 else 0)"
  by simp

lemma count_if_mset: "count_if P xs = size (filter_mset P (mset xs))"
  by (simp flip: mset_filter)

lemma count_if_split: "count_if P xs + count_if (\<lambda>x. \<not> P x) xs = length xs"
  by (rule sum_length_filter_compl)

section \<open>Mixed-width arithmetic\<close>

text \<open>Division of signed integers truncates toward zero in C.\<close>

definition c_div :: "int \<Rightarrow> int \<Rightarrow> int" where
  "c_div a b = sgn a * sgn b * (\<bar>a\<bar> div \<bar>b\<bar>)"

text \<open>The remainder that belongs to it; the divisor is not 0.\<close>

definition c_mod :: "int \<Rightarrow> int \<Rightarrow> int" where
  "c_mod a b = a - b * c_div a b"

lemma c_mod_mod: "0 \<le> a \<Longrightarrow> 0 < b \<Longrightarrow> c_mod a b = a mod b"
  by (cases "a = 0") (simp_all add: c_mod_def c_div_def minus_mult_div_eq_mod)

text \<open>\<open>a += b\<close> with a 32-bit \<open>a\<close> and a 64-bit \<open>b\<close>: the sum is formed in 64 bits and truncated.\<close>

lemma mod_add_dvd: "c dvd b \<Longrightarrow> (x + y mod b) mod c = (x + y) mod (c :: int)"
  by (metis mod_add_right_eq mod_mod_cancel)

lemma ucast_sum: "(ucast (ucast (a :: 32 word) + (b :: 64 word)) :: 32 word) = a + ucast b"
  by transfer (simp add: take_bit_eq_mod mod_add_left_eq mod_mod_cancel mod_add_dvd)

text \<open>\<open>(int)n\<close> of a \<open>size_t\<close> that fits.\<close>

lemma sint_ucast_small:
  assumes "unat (n :: 64 word) < 2 ^ 31"
  shows "sint (ucast n :: 32 word) = int (unat n)"
proof -
  have b: "uint n < 2 ^ 31"
    using assms by (metis of_nat_less_iff of_nat_numeral of_nat_power of_nat_unat)
  have u: "uint (ucast n :: 32 word) = uint n"
    using b by (simp add: unsigned_ucast_eq take_bit_int_eq_self_iff)
  have "sint (ucast n :: 32 word) = signed_take_bit 31 (uint (ucast n :: 32 word))"
    by (simp add: sint_uint)
  also have "\<dots> = uint n" unfolding u
    using b by (intro signed_take_bit_int_eq_self) (auto intro: order_trans [OF _ uint_ge_0])
  finally show ?thesis by simp
qed

lemma of_nat_u32_nonzero: "0 < n \<Longrightarrow> n < 2 ^ 32 \<Longrightarrow> (of_nat n :: 32 word) \<noteq> 0"
  by (auto simp: word_of_nat_eq_0_iff dest: nat_dvd_not_less)

lemma ucast_of_nat_32 [simp]: "(ucast (of_nat n :: 64 word) :: 32 word) = of_nat n"
  by transfer simp

lemma unat_ucast_32_64 [simp]: "unat (ucast (x :: 32 word) :: 64 word) = unat x"
proof -
  have "unat x < 2 ^ 64" using unsigned_less [of x, where 'a = nat] by simp
  then show ?thesis by (simp add: unsigned_ucast_eq take_bit_nat_eq_self_iff)
qed

lemma map_update_same: "i < length xs \<Longrightarrow> (map f xs)[i := f (xs ! i)] = map f xs"
  by (metis list_update_id nth_map)

section \<open>Transition systems and invariants\<close>

text \<open>The states a system reaches from its initial states by any interleaving of steps.\<close>

inductive reachable :: "('s \<Rightarrow> bool) \<Rightarrow> ('s \<Rightarrow> 's \<Rightarrow> bool) \<Rightarrow> 's \<Rightarrow> bool"
  for init :: "'s \<Rightarrow> bool" and step :: "'s \<Rightarrow> 's \<Rightarrow> bool" where
  start: "init s \<Longrightarrow> reachable init step s"
| next_state: "reachable init step s \<Longrightarrow> step s t \<Longrightarrow> reachable init step t"

text \<open>The contract of an inductive invariant: it holds initially and every step keeps it.\<close>

locale inductive_invariant =
  fixes init :: "'s \<Rightarrow> bool" and step :: "'s \<Rightarrow> 's \<Rightarrow> bool" and inv :: "'s \<Rightarrow> bool"
  assumes inv_init: "init s \<Longrightarrow> inv s"
    and inv_step: "inv s \<Longrightarrow> step s t \<Longrightarrow> inv t"
begin

lemma inv_reachable: "reachable init step s \<Longrightarrow> inv s"
  by (induction rule: reachable.induct) (auto intro: inv_init inv_step)

end

end
