(* ===== verification/C_String.thy ===== *)
theory C_String
  imports Prelude
begin

text \<open>
  C strings in fixed buffers, as \<open>string.h\<close> and \<open>stdio.h\<close> treat them.  A buffer is the list of
  its bytes; a write outside it is undefined behaviour (\<open>None\<close>).
\<close>

abbreviation NUL :: char where "NUL \<equiv> CHR 0x00"

text \<open>The string a buffer holds: its bytes up to the first NUL, undefined when there is none.\<close>

definition c_str :: "char list \<Rightarrow> string option" where
  "c_str buf = (if NUL \<in> set buf then Some (takeWhile (\<lambda>c. c \<noteq> NUL) buf) else None)"

definition c_strlen :: "char list \<Rightarrow> nat option" where
  "c_strlen buf = map_option length (c_str buf)"

text \<open>\<open>strncpy(buf, s, n)\<close>: exactly \<open>n\<close> bytes are written, padded with NUL.\<close>

definition c_strncpy :: "char list \<Rightarrow> string \<Rightarrow> nat \<Rightarrow> char list option" where
  "c_strncpy buf s n =
     (if n \<le> length buf then Some (take n (s @ replicate n NUL) @ drop n buf) else None)"

text \<open>\<open>strncat(buf, s, n)\<close>: at most \<open>n\<close> bytes of \<open>s\<close> and a NUL behind the string in \<open>buf\<close>.\<close>

definition c_strncat :: "char list \<Rightarrow> string \<Rightarrow> nat \<Rightarrow> char list option" where
  "c_strncat buf s n = do {
     old \<leftarrow> c_str buf;
     let new = old @ take n s @ [NUL];
     if length new \<le> length buf then Some (new @ drop (length new) buf) else None
   }"

text \<open>\<open>snprintf(buf, n, ...)\<close> for a formatted text \<open>s\<close>: the first \<open>n - 1\<close> bytes and a NUL.\<close>

definition c_snprintf :: "char list \<Rightarrow> nat \<Rightarrow> string \<Rightarrow> char list option" where
  "c_snprintf buf n s =
     (if n = 0 then Some buf
      else let new = take (n - 1) s @ [NUL] in
        if length new \<le> length buf then Some (new @ drop (length new) buf) else None)"

lemma c_str_append_NUL [simp]: "NUL \<notin> set s \<Longrightarrow> c_str (s @ NUL # rest) = Some s"
  by (auto simp: c_str_def takeWhile_append intro!: takeWhile_eq_all_conv [THEN iffD2])

lemma c_str_Some: "c_str buf = Some s \<longleftrightarrow> NUL \<notin> set s \<and> (\<exists>rest. buf = s @ NUL # rest)"
proof
  assume "c_str buf = Some s"
  then have "NUL \<in> set buf" and s: "s = takeWhile (\<lambda>c. c \<noteq> NUL) buf"
    by (auto simp: c_str_def split: if_splits)
  then obtain ys zs where ys: "buf = ys @ NUL # zs" "NUL \<notin> set ys"
    by (auto dest: split_list_first)
  from c_str_append_NUL [OF ys(2)] ys \<open>c_str buf = Some s\<close>
  show "NUL \<notin> set s \<and> (\<exists>rest. buf = s @ NUL # rest)" by auto
qed auto

lemma c_str_no_NUL: "c_str buf = Some s \<Longrightarrow> NUL \<notin> set s"
  by (simp add: c_str_Some)

lemma c_str_length: "c_str buf = Some s \<Longrightarrow> length s < length buf"
  by (auto simp: c_str_Some)

lemma c_strncat_str:
  assumes "c_str buf = Some old" "NUL \<notin> set s" "length old + n < length buf"
  shows "\<exists>buf'. c_strncat buf s n = Some buf' \<and> length buf' = length buf \<and>
    c_str buf' = Some (old @ take n s)"
proof -
  have "NUL \<notin> set (old @ take n s)"
    using c_str_no_NUL [OF assms(1)] assms(2) by (auto dest: in_set_takeD)
  then have "c_str ((old @ take n s) @ NUL # drop (Suc (length old + min (length s) n)) buf)
      = Some (old @ take n s)"
    by (rule c_str_append_NUL)
  with assms(1,3) show ?thesis
    by (auto simp: c_strncat_def Let_def)
qed

section \<open>Bytes and characters\<close>

definition char_of_byte :: "u8 \<Rightarrow> char" where "char_of_byte b = char_of (unat b)"
definition byte_of_char :: "char \<Rightarrow> u8" where "byte_of_char c = of_char c"

lemma char_byte_char [simp]: "char_of_byte (byte_of_char c) = c"
proof -
  have "unat (of_nat (of_char c) :: u8) = (of_char c :: nat)"
    by (simp add: unsigned_of_nat take_bit_nat_eq_self)
  then show ?thesis by (simp add: char_of_byte_def byte_of_char_def of_nat_of_char)
qed

end
