(* ===== verification/Task_Types.thy ===== *)
theory Task_Types
  imports Prelude
begin

text \<open>
  The data types every component shares: \<open>include/project.h\<close> (limits, flags, message types),
  \<open>include/task.h\<close> (the task descriptor), \<open>include/errcodes.h\<close> and \<open>include/result.h\<close>.
  A \<open>void *\<close> field is the 64-bit address it holds, 0 for NULL.
\<close>

unbundle bit_operations_syntax

section \<open>project.h\<close>

definition API_VERSION_CURRENT :: u32 where "API_VERSION_CURRENT = 1"
definition MESSAGE_MAGIC :: u32 where "MESSAGE_MAGIC = 0xDA7A1E00"
definition MAX_WORKERS :: nat where "MAX_WORKERS = 1024"
definition MAX_TASK_QUEUE_SIZE :: size_t where "MAX_TASK_QUEUE_SIZE = 65536"

definition TASK_FLAG_CHECKPOINT_ENABLED :: u32 where "TASK_FLAG_CHECKPOINT_ENABLED = push_bit 0 1"
definition TASK_FLAG_HIGH_PRIORITY :: u32 where "TASK_FLAG_HIGH_PRIORITY = push_bit 1 1"
definition TASK_FLAG_VERBOSE_LOGGING :: u32 where "TASK_FLAG_VERBOSE_LOGGING = push_bit 2 1"

definition MSG_TYPE_HEARTBEAT :: u16 where "MSG_TYPE_HEARTBEAT = 0x0001"
definition MSG_TYPE_TASK_SUBMIT :: u16 where "MSG_TYPE_TASK_SUBMIT = 0x0010"
definition MSG_TYPE_TASK_RESULT :: u16 where "MSG_TYPE_TASK_RESULT = 0x0011"
definition MSG_TYPE_TASK_CANCEL :: u16 where "MSG_TYPE_TASK_CANCEL = 0x0012"
definition MSG_TYPE_WORKER_REGISTER :: u16 where "MSG_TYPE_WORKER_REGISTER = 0x0020"
definition MSG_TYPE_WORKER_SHUTDOWN :: u16 where "MSG_TYPE_WORKER_SHUTDOWN = 0x0021"
definition MSG_TYPE_COORDINATOR_CMD :: u16 where "MSG_TYPE_COORDINATOR_CMD = 0x0030"
definition MSG_TYPE_ERROR :: u16 where "MSG_TYPE_ERROR = 0x00FF"

lemmas msg_type_defs =
  MSG_TYPE_HEARTBEAT_def MSG_TYPE_TASK_SUBMIT_def MSG_TYPE_TASK_RESULT_def
  MSG_TYPE_TASK_CANCEL_def MSG_TYPE_WORKER_REGISTER_def MSG_TYPE_WORKER_SHUTDOWN_def
  MSG_TYPE_COORDINATOR_CMD_def MSG_TYPE_ERROR_def

section \<open>task.h\<close>

record task_t =
  t_task_id :: u64
  t_model_id :: u32
  t_input :: addr
  t_input_size :: size_t
  t_output :: addr
  t_output_size :: size_t
  t_meta :: addr
  t_meta_size :: size_t
  t_trace_id :: u64
  t_api_version :: u32
  t_flags :: u32
  t_timeout_secs :: u32

text \<open>The descriptor of all-zero bytes, as \<open>{0}\<close> and \<open>calloc\<close> produce it.\<close>

definition zero_task :: task_t where
  "zero_task = \<lparr>t_task_id = 0, t_model_id = 0, t_input = 0, t_input_size = 0, t_output = 0,
     t_output_size = 0, t_meta = 0, t_meta_size = 0, t_trace_id = 0, t_api_version = 0,
     t_flags = 0, t_timeout_secs = 0\<rparr>"

text \<open>\<open>task->flags & TASK_FLAG_HIGH_PRIORITY\<close> as a condition.\<close>

definition high_priority :: "task_t \<Rightarrow> bool" where
  "high_priority t \<longleftrightarrow> t_flags t AND TASK_FLAG_HIGH_PRIORITY \<noteq> 0"

section \<open>errcodes.h and result.h\<close>

datatype errcode_t =
    OK
  | ERR_INVALID_ARGUMENT
  | ERR_BUFFER_TOO_SMALL
  | ERR_COMPUTATION_FAILED
  | ERR_TIMEOUT
  | ERR_NOT_IMPLEMENTED

fun errcode_value :: "errcode_t \<Rightarrow> u32" where
  "errcode_value OK = 0"
| "errcode_value ERR_INVALID_ARGUMENT = 1"
| "errcode_value ERR_BUFFER_TOO_SMALL = 2"
| "errcode_value ERR_COMPUTATION_FAILED = 3"
| "errcode_value ERR_TIMEOUT = 4"
| "errcode_value ERR_NOT_IMPLEMENTED = 5"

text \<open>
  The \<open>status\<close> field is read from memory and from kernels, so it holds any 32-bit value;
  \<open>diag_msg\<close> is the contents of the fixed 1024-byte buffer.
\<close>

record task_result_t =
  r_task_id :: u64
  r_status :: u32
  r_output :: addr
  r_output_bytes_written :: size_t
  r_exec_time_us :: u64
  r_queue_time_us :: u64
  r_worker_id :: u32
  r_diag_msg :: "u8 list"

definition DIAG_MSG_LEN :: nat where "DIAG_MSG_LEN = 1024"

definition zero_result :: task_result_t where
  "zero_result = \<lparr>r_task_id = 0, r_status = 0, r_output = 0, r_output_bytes_written = 0,
     r_exec_time_us = 0, r_queue_time_us = 0, r_worker_id = 0,
     r_diag_msg = replicate DIAG_MSG_LEN 0\<rparr>"

definition status_to_string :: "u32 \<Rightarrow> string" where
  "status_to_string status =
     (if status = errcode_value OK then ''OK''
      else if status = errcode_value ERR_INVALID_ARGUMENT then ''Invalid argument''
      else if status = errcode_value ERR_BUFFER_TOO_SMALL then ''Buffer too small''
      else if status = errcode_value ERR_COMPUTATION_FAILED then ''Computation failed''
      else if status = errcode_value ERR_TIMEOUT then ''Timeout''
      else if status = errcode_value ERR_NOT_IMPLEMENTED then ''Not implemented''
      else ''Unknown error'')"

end
