(* ===== verification/Byte_Layout.thy ===== *)
theory Byte_Layout
  imports Task_Types
begin

text \<open>
  The bytes of the structures that cross process boundaries, under the ABI the program is built
  for (little-endian, 64-bit pointers, natural alignment): \<open>task_t\<close> has 88 bytes,
  \<open>task_result_t\<close> 1080.  Padding bytes have no defined value, so the encoders take them as an
  argument.
\<close>

unbundle bit_operations_syntax

section \<open>Little-endian integers\<close>

fun le_enc :: "nat \<Rightarrow> 'a :: len word \<Rightarrow> u8 list" where
  "le_enc 0 x = []"
| "le_enc (Suc n) x = ucast x # le_enc n (drop_bit 8 x)"

fun le_dec :: "u8 list \<Rightarrow> 'a :: len word" where
  "le_dec [] = 0"
| "le_dec (b # bs) = ucast b OR push_bit 8 (le_dec bs)"

lemma length_le_enc [simp]: "length (le_enc n x) = n"
  by (induction n arbitrary: x) simp_all

lemma le_enc_Nil [simp]: "le_enc n x = [] \<longleftrightarrow> n = 0"
  by (cases n) simp_all

lemma le_dec_enc_take: "le_dec (le_enc n x) = (take_bit (8 * n) x :: 'a :: len word)"
proof (induction n arbitrary: x)
  case 0
  then show ?case by simp
next
  case (Suc n)
  show ?case unfolding le_enc.simps le_dec.simps Suc.IH
    by (rule bit_word_eqI) (auto simp: bit_simps)
qed

lemma le_roundtrip:
  "le_dec (le_enc 2 (x :: u16)) = x" "le_dec (le_enc 4 (y :: u32)) = y"
  "le_dec (le_enc 8 (z :: u64)) = z"
  by (simp_all add: le_dec_enc_take take_bit_word_eq_self)

section \<open>Reading and writing fields\<close>

text \<open>The field of \<open>n\<close> bytes at an offset.\<close>

definition field :: "nat \<Rightarrow> nat \<Rightarrow> u8 list \<Rightarrow> u8 list" where
  "field off n bs = take n (drop off bs)"

definition rd16 :: "nat \<Rightarrow> u8 list \<Rightarrow> u16" where "rd16 off bs = le_dec (field off 2 bs)"
definition rd32 :: "nat \<Rightarrow> u8 list \<Rightarrow> u32" where "rd32 off bs = le_dec (field off 4 bs)"
definition rd64 :: "nat \<Rightarrow> u8 list \<Rightarrow> u64" where "rd64 off bs = le_dec (field off 8 bs)"

lemmas rd_defs = rd16_def rd32_def rd64_def field_def

section \<open>task_t\<close>

definition sizeof_task :: nat where "sizeof_task = 88"

definition task_bytes :: "u8 list \<Rightarrow> task_t \<Rightarrow> u8 list" where
  "task_bytes pad t =
     le_enc 8 (t_task_id t) @ le_enc 4 (t_model_id t) @ take 4 pad @ le_enc 8 (t_input t) @
     le_enc 8 (t_input_size t) @ le_enc 8 (t_output t) @ le_enc 8 (t_output_size t) @
     le_enc 8 (t_meta t) @ le_enc 8 (t_meta_size t) @ le_enc 8 (t_trace_id t) @
     le_enc 4 (t_api_version t) @ le_enc 4 (t_flags t) @ le_enc 4 (t_timeout_secs t) @ take 4 (drop 4 pad)"

definition task_of_bytes :: "u8 list \<Rightarrow> task_t" where
  "task_of_bytes bs =
     \<lparr>t_task_id = rd64 0 bs, t_model_id = rd32 8 bs, t_input = rd64 16 bs, t_input_size = rd64 24 bs,
      t_output = rd64 32 bs, t_output_size = rd64 40 bs, t_meta = rd64 48 bs,
      t_meta_size = rd64 56 bs, t_trace_id = rd64 64 bs, t_api_version = rd32 72 bs,
      t_flags = rd32 76 bs, t_timeout_secs = rd32 80 bs\<rparr>"

lemma length_task_bytes: "length pad = 8 \<Longrightarrow> length (task_bytes pad t) = sizeof_task"
  by (simp add: task_bytes_def sizeof_task_def)

lemma task_roundtrip: "length pad = 8 \<Longrightarrow> task_of_bytes (task_bytes pad t @ rest) = t"
  by (simp add: task_of_bytes_def task_bytes_def rd_defs le_roundtrip)

section \<open>task_result_t\<close>

definition sizeof_result :: nat where "sizeof_result = 1080"

definition result_bytes :: "u8 list \<Rightarrow> task_result_t \<Rightarrow> u8 list" where
  "result_bytes pad r =
     le_enc 8 (r_task_id r) @ le_enc 4 (r_status r) @ take 4 pad @ le_enc 8 (r_output r) @
     le_enc 8 (r_output_bytes_written r) @ le_enc 8 (r_exec_time_us r) @ le_enc 8 (r_queue_time_us r) @
     le_enc 4 (r_worker_id r) @ r_diag_msg r @ take 4 (drop 4 pad)"

definition result_of_bytes :: "u8 list \<Rightarrow> task_result_t" where
  "result_of_bytes bs =
     \<lparr>r_task_id = rd64 0 bs, r_status = rd32 8 bs, r_output = rd64 16 bs,
      r_output_bytes_written = rd64 24 bs, r_exec_time_us = rd64 32 bs, r_queue_time_us = rd64 40 bs,
      r_worker_id = rd32 48 bs, r_diag_msg = field 52 DIAG_MSG_LEN bs\<rparr>"

lemma length_result_bytes:
  "length pad = 8 \<Longrightarrow> length (r_diag_msg r) = DIAG_MSG_LEN \<Longrightarrow> length (result_bytes pad r) = sizeof_result"
  by (simp add: result_bytes_def sizeof_result_def DIAG_MSG_LEN_def)

lemma result_roundtrip:
  "length pad = 8 \<Longrightarrow> length (r_diag_msg r) = DIAG_MSG_LEN \<Longrightarrow> result_of_bytes (result_bytes pad r) = r"
  by (simp add: result_of_bytes_def result_bytes_def rd_defs le_roundtrip)

section \<open>Arrays of tasks\<close>

text \<open>\<open>memcpy\<close> of \<open>n\<close> consecutive descriptors; the padding of each is \<open>pad\<close>.\<close>

definition tasks_bytes :: "u8 list \<Rightarrow> task_t list \<Rightarrow> u8 list" where
  "tasks_bytes pad ts = concat (map (task_bytes pad) ts)"

text \<open>Reading \<open>batch[i]\<close> for each \<open>i < n\<close>; reading outside the buffer is undefined.\<close>

fun read_tasks :: "nat \<Rightarrow> u8 list \<Rightarrow> task_t list option" where
  "read_tasks 0 bs = Some []"
| "read_tasks (Suc n) bs =
     (if length bs < sizeof_task then None
      else do { ts \<leftarrow> read_tasks n (drop sizeof_task bs); Some (task_of_bytes bs # ts) })"

lemma length_tasks_bytes: "length pad = 8 \<Longrightarrow> length (tasks_bytes pad ts) = length ts * sizeof_task"
  by (induction ts) (simp_all add: tasks_bytes_def length_task_bytes)

lemma read_tasks_bytes:
  assumes "length pad = 8"
  shows "read_tasks (length ts) (tasks_bytes pad ts @ rest) = Some ts"
proof (induction ts)
  case Nil
  then show ?case by simp
next
  case (Cons t ts)
  have "tasks_bytes pad (t # ts) @ rest = task_bytes pad t @ (tasks_bytes pad ts @ rest)"
    by (simp add: tasks_bytes_def)
  with Cons length_task_bytes [OF assms, of t] task_roundtrip [OF assms] show ?case by simp
qed

lemma read_tasks_defined: "read_tasks n bs \<noteq> None \<longleftrightarrow> n * sizeof_task \<le> length bs"
proof (induction n arbitrary: bs)
  case 0
  then show ?case by simp
next
  case (Suc n)
  show ?case
  proof (cases "length bs < sizeof_task")
    case False
    with Suc [of "drop sizeof_task bs"] show ?thesis
      by (cases "read_tasks n (drop sizeof_task bs)") auto
  qed auto
qed

end
