(* ===== verification/Decimal.thy ===== *)
theory Decimal
  imports Prelude
begin

text \<open>
  Decimal numbers as \<open>printf\<close> writes them and \<open>scanf\<close> reads them.
\<close>

definition digit_char :: "nat \<Rightarrow> char" where "digit_char d = char_of (48 + d)"

definition is_digit :: "char \<Rightarrow> bool" where
  "is_digit c \<longleftrightarrow> 48 \<le> (of_char c :: nat) \<and> (of_char c :: nat) \<le> 57"

definition digit_value :: "char \<Rightarrow> nat" where "digit_value c = of_char c - 48"

text \<open>\<open>%lu\<close> of a number.\<close>

fun dec_nat :: "nat \<Rightarrow> string" where
  "dec_nat n = (if n < 10 then [digit_char n] else dec_nat (n div 10) @ [digit_char (n mod 10)])"

declare dec_nat.simps [simp del]

text \<open>\<open>%d\<close> of a number.\<close>

definition dec_int :: "int \<Rightarrow> string" where
  "dec_int n = (if n < 0 then CHR ''-'' # dec_nat (nat (- n)) else dec_nat (nat n))"

text \<open>The value of a string of digits.\<close>

definition digits_value :: "string \<Rightarrow> nat" where
  "digits_value s = fold (\<lambda>c v. 10 * v + digit_value c) s 0"

text \<open>White space of the C locale.\<close>

definition is_space :: "char \<Rightarrow> bool" where
  "is_space c \<longleftrightarrow> (of_char c :: nat) = 32 \<or> (9 \<le> (of_char c :: nat) \<and> (of_char c :: nat) \<le> 13)"

text \<open>
  A conversion \<open>%lu\<close>, \<open>%zu\<close> or \<open>%u\<close>: leading white space is skipped, an optional sign is
  accepted, and at least one digit is needed.  A value that does not fit is \<open>ULONG_MAX\<close>, a
  negative one wraps, as \<open>strtoul\<close> has it; \<open>w\<close> is the width in bits.
\<close>

definition scan_unsigned :: "nat \<Rightarrow> string \<Rightarrow> (nat \<times> string) option" where
  "scan_unsigned w s0 =
     (let s = dropWhile is_space s0;
          neg = (s \<noteq> [] \<and> hd s = CHR ''-'');
          s1 = (if s \<noteq> [] \<and> (hd s = CHR ''-'' \<or> hd s = CHR ''+'') then tl s else s);
          ds = takeWhile is_digit s1; v = digits_value ds
      in if ds = [] then None
         else Some (if v \<ge> 2 ^ 64 then (2 ^ 64 - 1) mod 2 ^ w
                    else if neg then (2 ^ 64 - v) mod 2 ^ w else v mod 2 ^ w,
                    dropWhile is_digit s1))"

section \<open>Reading what was written\<close>

lemma of_char_digit: "d < 10 \<Longrightarrow> (of_char (digit_char d) :: nat) = 48 + d"
  by (simp add: digit_char_def)

lemma digit_char_props: "d < 10 \<Longrightarrow> is_digit (digit_char d)" "d < 10 \<Longrightarrow> digit_value (digit_char d) = d"
  "d < 10 \<Longrightarrow> \<not> is_space (digit_char d)" "d < 10 \<Longrightarrow> digit_char d \<noteq> CHR ''-''"
  "d < 10 \<Longrightarrow> digit_char d \<noteq> CHR ''+''"
proof -
  assume "d < 10"
  note * = of_char_digit [OF this]
  show "is_digit (digit_char d)" "digit_value (digit_char d) = d" "\<not> is_space (digit_char d)"
    using \<open>d < 10\<close> by (simp_all add: is_digit_def digit_value_def is_space_def *)
  show "digit_char d \<noteq> CHR ''-''" "digit_char d \<noteq> CHR ''+''" using * by auto
qed

lemma dec_nat_digits: "\<forall>c \<in> set (dec_nat n). is_digit c"
  by (induction n rule: dec_nat.induct) (subst dec_nat.simps, auto simp: digit_char_props)

lemma dec_nat_value: "digits_value (dec_nat n) = n"
proof (induction n rule: dec_nat.induct)
  case (1 n)
  then show ?case
    by (subst dec_nat.simps) (auto simp: digits_value_def digit_char_props)
qed

lemma dec_nat_nonempty [simp]: "dec_nat n \<noteq> []"
  by (subst dec_nat.simps) simp

lemma digit_not_special: "is_digit c \<Longrightarrow> \<not> is_space c \<and> c \<noteq> CHR ''-'' \<and> c \<noteq> CHR ''+''"
  by (auto simp: is_digit_def is_space_def)

text \<open>A number is read back, whatever follows it, if that is not another digit.\<close>

lemma scan_dec_nat:
  assumes "n < 2 ^ w" "w \<le> 64" "\<forall>c \<in> set sp. is_space c" "rest = [] \<or> \<not> is_digit (hd rest)"
  shows "scan_unsigned w (sp @ dec_nat n @ rest) = Some (n, rest)"
proof -
  let ?d = "dec_nat n"
  have hd: "is_digit (hd ?d)" using dec_nat_digits [of n] by (simp add: list.set_sel)
  have sp: "dropWhile is_space (sp @ ?d @ rest) = ?d @ rest"
    using assms(3) digit_not_special [OF hd] by (cases ?d) (auto simp: dropWhile_append)
  have tw: "takeWhile is_digit (?d @ rest) = ?d" "dropWhile is_digit (?d @ rest) = rest"
    using dec_nat_digits [of n] assms(4)
    by (cases rest; auto simp: takeWhile_append dropWhile_append)+
  have "(2 :: nat) ^ w \<le> 2 ^ 64" using assms(2) by (intro power_increasing) auto
  then have "n < 2 ^ 64" using assms(1) by linarith
  then show ?thesis
    using digit_not_special [OF hd] assms(1)
    by (simp add: scan_unsigned_def Let_def sp tw dec_nat_value)
qed

end
