(* ===== verification/Metadata.thy ===== *)
theory Metadata
  imports C_String Byte_Layout Decimal
begin

text \<open>
  The metadata store (\<open>src/storage/metadata.c\<close>): one file per key in a directory, written and read
  field by field.

  The file system is the map from path to contents; \<open>file_env\<close> holds what the library calls report
  during one operation: which paths can be opened, which \<open>fwrite\<close> succeeds, what \<open>fclose\<close> leaves on
  the disk of the bytes the stream accepted (its result is not looked at by the code) and the
  address \<open>malloc\<close> returns.  The union of an entry is its 4096 bytes, read through the member that
  the type selects; a blob is a block of memory behind a pointer in the union.  Logging is left out.
\<close>

section \<open>Constants and data\<close>

definition META_MAX_KEY_LEN :: nat where "META_MAX_KEY_LEN = 256"
definition META_MAX_VALUE_LEN :: nat where "META_MAX_VALUE_LEN = 4096"
definition META_MAX_TAG_LEN :: nat where "META_MAX_TAG_LEN = 64"
definition META_MAX_TAGS :: nat where "META_MAX_TAGS = 32"

definition META_FILE_MAGIC :: u32 where "META_FILE_MAGIC = 0x4D455441"
definition META_FILE_VERSION :: u32 where "META_FILE_VERSION = 1"

definition META_OK :: c_int where "META_OK = 0"
definition META_ERR_INVALID_ARG :: c_int where "META_ERR_INVALID_ARG = 1"
definition META_ERR_NOT_FOUND :: c_int where "META_ERR_NOT_FOUND = 2"
definition META_ERR_IO :: c_int where "META_ERR_IO = 3"
definition META_ERR_EXISTS :: c_int where "META_ERR_EXISTS = 4"
definition META_ERR_CORRUPT :: c_int where "META_ERR_CORRUPT = 5"

lemmas meta_sizes = META_MAX_KEY_LEN_def META_MAX_VALUE_LEN_def META_MAX_TAG_LEN_def META_MAX_TAGS_def
lemmas meta_codes = META_OK_def META_ERR_INVALID_ARG_def META_ERR_NOT_FOUND_def META_ERR_IO_def
  META_ERR_EXISTS_def META_ERR_CORRUPT_def

text \<open>
  The type of a value is kept as the 32 bits of the enumeration, since it is read from a file as
  such and may be none of the constants.
\<close>

definition META_TYPE_STRING :: u32 where "META_TYPE_STRING = 0"
definition META_TYPE_INT64 :: u32 where "META_TYPE_INT64 = 1"
definition META_TYPE_DOUBLE :: u32 where "META_TYPE_DOUBLE = 2"
definition META_TYPE_BLOB :: u32 where "META_TYPE_BLOB = 3"
definition META_TYPE_TIMESTAMP :: u32 where "META_TYPE_TIMESTAMP = 4"

lemmas meta_types = META_TYPE_STRING_def META_TYPE_INT64_def META_TYPE_DOUBLE_def META_TYPE_BLOB_def
  META_TYPE_TIMESTAMP_def

record metadata_entry =
  me_key :: "char list"
  me_type :: u32
  me_value :: "u8 list"
  me_tags :: "char list list"
  me_tag_count :: u32
  me_created :: u64
  me_modified :: u64

definition zero_entry :: metadata_entry where
  "zero_entry = \<lparr>me_key = replicate META_MAX_KEY_LEN NUL, me_type = 0,
     me_value = replicate META_MAX_VALUE_LEN 0,
     me_tags = replicate META_MAX_TAGS (replicate META_MAX_TAG_LEN NUL), me_tag_count = 0,
     me_created = 0, me_modified = 0\<rparr>"

text \<open>The members of the union; a \<open>double\<close> and a \<open>time_t\<close> are their 64 bits.\<close>

definition value_string :: "metadata_entry \<Rightarrow> char list" where
  "value_string e = map char_of_byte (me_value e)"

definition value_word :: "metadata_entry \<Rightarrow> u64" where "value_word e = rd64 0 (me_value e)"
definition blob_data :: "metadata_entry \<Rightarrow> addr" where "blob_data e = rd64 0 (me_value e)"
definition blob_size :: "metadata_entry \<Rightarrow> size_t" where "blob_size e = rd64 8 (me_value e)"

text \<open>Writing at the front of the union.\<close>

definition set_value :: "u8 list \<Rightarrow> metadata_entry \<Rightarrow> metadata_entry" where
  "set_value bytes e = e\<lparr>me_value := bytes @ drop (length bytes) (me_value e)\<rparr>"

record metadata_store =
  ms_path :: string
  ms_read_only :: c_int

record metadata_query =
  mq_key_prefix :: "string option"
  mq_tag :: "string option"
  mq_type :: u32
  mq_created_after :: time_t
  mq_created_before :: time_t

type_synonym files = "string \<rightharpoonup> u8 list"
type_synonym mem = "addr \<rightharpoonup> u8 list"

record file_env =
  fe_fopen_w :: "string \<Rightarrow> bool"
  fe_fopen_r :: "string \<Rightarrow> bool"
  fe_fwrite :: "nat \<Rightarrow> bool"
  fe_flushed :: "u8 list \<Rightarrow> u8 list"
  fe_unlink :: "string \<Rightarrow> bool"
  fe_malloc :: "mem \<Rightarrow> size_t \<Rightarrow> addr"

section \<open>Names\<close>

text \<open>
  The characters that \<open>sanitise_key\<close> writes, with room for \<open>r\<close> more before the loop ends.  A pair
  of dots is written as two characters at once, also when there is room for one only.
\<close>

fun sanitise_chars :: "nat \<Rightarrow> string \<Rightarrow> string" where
  "sanitise_chars 0 key = []"
| "sanitise_chars (Suc r) [] = []"
| "sanitise_chars (Suc r) (c # cs) =
     (if c = CHR ''/'' \<or> c = CHR 0x5C then CHR ''_'' # sanitise_chars r cs
      else if c = CHR ''.'' \<and> cs \<noteq> [] \<and> hd cs = CHR ''.''
      then CHR ''_'' # CHR ''_'' # sanitise_chars (r - 1) (tl cs)
      else c # sanitise_chars r cs)"

text \<open>The terminator behind them is written outside the buffer when they fill it.\<close>

definition sanitise_key :: "string \<Rightarrow> nat \<Rightarrow> string option" where
  "sanitise_key key safe_size =
     (let safe = sanitise_chars (safe_size - 1) key in if length safe < safe_size then Some safe else None)"

definition PATH_BUFFER :: nat where "PATH_BUFFER = 4096"

definition build_file_path :: "metadata_store \<Rightarrow> string \<Rightarrow> string option" where
  "build_file_path store key = do {
     safe \<leftarrow> sanitise_key key META_MAX_KEY_LEN;
     Some (take (PATH_BUFFER - 1) (ms_path store @ ''/'' @ safe @ ''.meta''))
   }"

section \<open>Writing an entry\<close>

text \<open>
  Consecutive calls of \<open>fwrite\<close> from the \<open>k\<close>-th on: the bytes the stream accepted and whether all
  calls succeeded.
\<close>

fun fwrite_all :: "(nat \<Rightarrow> bool) \<Rightarrow> nat \<Rightarrow> u8 list list \<Rightarrow> u8 list \<times> bool" where
  "fwrite_all ok k [] = ([], True)"
| "fwrite_all ok k (item # items) =
     (if ok k then let (bytes, all) = fwrite_all ok (Suc k) items in (item @ bytes, all) else ([], False))"

definition tag_bytes :: "char list list \<Rightarrow> u8 list" where
  "tag_bytes tags = map byte_of_char (concat tags)"

definition entry_items :: "metadata_entry \<Rightarrow> u8 list list" where
  "entry_items e =
     [le_enc 4 META_FILE_MAGIC, le_enc 4 META_FILE_VERSION, map byte_of_char (me_key e),
      le_enc 4 (me_type e), le_enc 4 (me_tag_count e), le_enc 8 (me_created e), le_enc 8 (me_modified e),
      tag_bytes (me_tags e)]"

text \<open>
  The value, with the code to return and the bytes accepted.  The data of a blob is read from
  memory, which is undefined outside its block.
\<close>

definition write_value :: "file_env \<Rightarrow> mem \<Rightarrow> metadata_entry \<Rightarrow> (c_int \<times> u8 list) option" where
  "write_value fe m e =
     (let report = (\<lambda>(bytes, ok). (if ok then META_OK else META_ERR_IO, bytes)) in
      if me_type e = META_TYPE_STRING then Some (report (fwrite_all (fe_fwrite fe) 8 [me_value e]))
      else if me_type e = META_TYPE_INT64 \<or> me_type e = META_TYPE_DOUBLE \<or> me_type e = META_TYPE_TIMESTAMP
      then Some (report (fwrite_all (fe_fwrite fe) 8 [take 8 (me_value e)]))
      else if me_type e = META_TYPE_BLOB
      then if blob_size e > 0 \<and> blob_data e \<noteq> 0
        then if fe_fwrite fe 8
          then do {
            block \<leftarrow> deref m (blob_data e);
            if length block < unat (blob_size e) then None
            else Some (report (fwrite_all (fe_fwrite fe) 8
              [le_enc 8 (blob_size e), take (unat (blob_size e)) block]))
          }
          else Some (META_ERR_IO, [])
        else Some (report (fwrite_all (fe_fwrite fe) 8 [le_enc 8 (blob_size e)]))
      else Some (META_ERR_INVALID_ARG, []))"

definition write_entry_to_file ::
    "file_env \<Rightarrow> mem \<Rightarrow> string \<Rightarrow> metadata_entry \<Rightarrow> files \<Rightarrow> (c_int \<times> files) option" where
  "write_entry_to_file fe m path e fs =
     (if \<not> fe_fopen_w fe path then Some (META_ERR_IO, fs)
      else let (front, ok) = fwrite_all (fe_fwrite fe) 0 (entry_items e) in
        if \<not> ok then Some (META_ERR_IO, fs(path \<mapsto> fe_flushed fe front))
        else do {
          (rc, bytes) \<leftarrow> write_value fe m e;
          Some (rc, fs(path \<mapsto> fe_flushed fe (front @ bytes)))
        })"

section \<open>Reading an entry\<close>

text \<open>\<open>fread\<close> of one item of \<open>n\<close> bytes: the item and the rest of the file.\<close>

definition fread_item :: "nat \<Rightarrow> u8 list \<Rightarrow> (u8 list \<times> u8 list) option" where
  "fread_item n bytes = (if n \<le> length bytes then Some (take n bytes, drop n bytes) else None)"

fun tag_rows :: "nat \<Rightarrow> u8 list \<Rightarrow> char list list" where
  "tag_rows 0 bytes = []"
| "tag_rows (Suc n) bytes =
     map char_of_byte (take META_MAX_TAG_LEN bytes) # tag_rows n (drop META_MAX_TAG_LEN bytes)"

definition read_fields :: "u8 list \<Rightarrow> (metadata_entry \<times> u8 list) option" where
  "read_fields bytes = do {
     (key, b1) \<leftarrow> fread_item META_MAX_KEY_LEN bytes;
     (type, b2) \<leftarrow> fread_item 4 b1;
     (tag_count, b3) \<leftarrow> fread_item 4 b2;
     (created, b4) \<leftarrow> fread_item 8 b3;
     (modified, b5) \<leftarrow> fread_item 8 b4;
     (tags, b6) \<leftarrow> fread_item (META_MAX_TAGS * META_MAX_TAG_LEN) b5;
     Some (zero_entry\<lparr>me_key := map char_of_byte key, me_type := le_dec type, me_tag_count := le_dec tag_count,
       me_created := le_dec created, me_modified := le_dec modified, me_tags := tag_rows META_MAX_TAGS tags\<rparr>, b6)
   }"

text \<open>
  The value goes into the zeroed union.  What is left of the entry on an error is not read by any
  caller and left out.
\<close>

definition read_blob :: "file_env \<Rightarrow> mem \<Rightarrow> metadata_entry \<Rightarrow> u8 list \<Rightarrow> (c_int + metadata_entry) \<times> mem" where
  "read_blob fe m e bytes =
     (case fread_item 8 bytes of
        None \<Rightarrow> (Inl META_ERR_CORRUPT, m)
      | Some (item, rest) \<Rightarrow>
          let n = (le_dec item :: size_t) in
          if n > 0
          then let p = fe_malloc fe m n in
            if p = 0 then (Inl META_ERR_IO, m)
            else case fread_item (unat n) rest of
                None \<Rightarrow> (Inl META_ERR_CORRUPT, m)
              | Some (block, _) \<Rightarrow> (Inr (set_value (le_enc 8 p @ item) e), m(p \<mapsto> block))
          else (Inr (set_value (le_enc 8 (0 :: addr) @ item) e), m))"

definition read_value :: "file_env \<Rightarrow> mem \<Rightarrow> metadata_entry \<Rightarrow> u8 list \<Rightarrow> (c_int + metadata_entry) \<times> mem" where
  "read_value fe m e bytes =
     (let fixed = (\<lambda>n. case fread_item n bytes of
            None \<Rightarrow> (Inl META_ERR_CORRUPT, m)
          | Some (item, _) \<Rightarrow> (Inr (set_value item e), m)) in
      if me_type e = META_TYPE_STRING then fixed META_MAX_VALUE_LEN
      else if me_type e = META_TYPE_INT64 \<or> me_type e = META_TYPE_DOUBLE \<or> me_type e = META_TYPE_TIMESTAMP
      then fixed 8
      else if me_type e = META_TYPE_BLOB then read_blob fe m e bytes
      else (Inl META_ERR_CORRUPT, m))"

text \<open>A version other than the current one is logged and otherwise ignored.\<close>

definition read_entry_from_file ::
    "file_env \<Rightarrow> mem \<Rightarrow> string \<Rightarrow> files \<Rightarrow> (c_int + metadata_entry) \<times> mem" where
  "read_entry_from_file fe m path fs =
     (case fs path of
        None \<Rightarrow> (Inl META_ERR_NOT_FOUND, m)
      | Some bytes \<Rightarrow>
          if \<not> fe_fopen_r fe path then (Inl META_ERR_NOT_FOUND, m)
          else case do { (magic, b1) \<leftarrow> fread_item 4 bytes; (version, b2) \<leftarrow> fread_item 4 b1;
                 Some (le_dec magic :: u32, b2) } of
              None \<Rightarrow> (Inl META_ERR_CORRUPT, m)
            | Some (magic, rest) \<Rightarrow>
                if magic \<noteq> META_FILE_MAGIC then (Inl META_ERR_CORRUPT, m)
                else case read_fields rest of
                    None \<Rightarrow> (Inl META_ERR_CORRUPT, m)
                  | Some (e, rest') \<Rightarrow> read_value fe m e rest')"
section \<open>Opening and closing\<close>

text \<open>
  \<open>stat\<close> is what the path is (\<open>None\<close> when the call fails, else whether it is a directory).  The
  first component of the result says whether the directory was created.
\<close>

definition metadata_store_open ::
    "string option \<Rightarrow> c_int \<Rightarrow> bool option \<Rightarrow> bool \<Rightarrow> bool \<Rightarrow> bool \<times> metadata_store option" where
  "metadata_store_open path create stat mkdir_ok calloc_ok =
     (case path of
        None \<Rightarrow> (False, None)
      | Some p \<Rightarrow>
          let store = (if calloc_ok then Some \<lparr>ms_path = take (PATH_BUFFER - 1) p, ms_read_only = 0\<rparr> else None) in
          case stat of
            None \<Rightarrow>
              if create = 0 then (False, None)
              else if \<not> mkdir_ok then (False, None)
              else (True, store)
          | Some is_dir \<Rightarrow> if \<not> is_dir then (False, None) else (False, store))"

section \<open>Put, get, delete\<close>

definition metadata_store_put ::
    "file_env \<Rightarrow> mem \<Rightarrow> metadata_store option \<Rightarrow> metadata_entry option \<Rightarrow> files \<Rightarrow> (c_int \<times> files) option" where
  "metadata_store_put fe m store entry fs =
     (case (store, entry) of
        (Some st, Some e) \<Rightarrow>
          if ms_read_only st \<noteq> 0 then Some (META_ERR_INVALID_ARG, fs)
          else do {
            key \<leftarrow> c_str (me_key e);
            if length key = 0 \<or> length key \<ge> META_MAX_KEY_LEN then Some (META_ERR_INVALID_ARG, fs)
            else do {
              path \<leftarrow> build_file_path st key;
              write_entry_to_file fe m path e fs
            }
          }
      | _ \<Rightarrow> Some (META_ERR_INVALID_ARG, fs))"

text \<open>\<open>wanted\<close> says whether the caller passed a buffer for the entry.\<close>

definition metadata_store_get ::
    "file_env \<Rightarrow> mem \<Rightarrow> metadata_store option \<Rightarrow> string option \<Rightarrow> bool \<Rightarrow> files
      \<Rightarrow> ((c_int + metadata_entry) \<times> mem) option" where
  "metadata_store_get fe m store key wanted fs =
     (case (store, key) of
        (Some st, Some k) \<Rightarrow>
          if \<not> wanted then Some (Inl META_ERR_INVALID_ARG, m)
          else do { path \<leftarrow> build_file_path st k; Some (read_entry_from_file fe m path fs) }
      | _ \<Rightarrow> Some (Inl META_ERR_INVALID_ARG, m))"

definition metadata_store_delete ::
    "file_env \<Rightarrow> metadata_store option \<Rightarrow> string option \<Rightarrow> files \<Rightarrow> (c_int \<times> files) option" where
  "metadata_store_delete fe store key fs =
     (case (store, key) of
        (Some st, Some k) \<Rightarrow>
          if ms_read_only st \<noteq> 0 then Some (META_ERR_INVALID_ARG, fs)
          else do {
            path \<leftarrow> build_file_path st k;
            if fs path = None then Some (META_ERR_NOT_FOUND, fs)
            else if fe_unlink fe path then Some (META_OK, fs(path := None))
            else Some (META_ERR_IO, fs)
          }
      | _ \<Rightarrow> Some (META_ERR_INVALID_ARG, fs))"

section \<open>Query\<close>

text \<open>
  Comparison of a buffer with a string as \<open>strcmp\<close> and, for a prefix, \<open>strncmp\<close> do it, up to the
  first difference; reading past the end of the buffer is undefined.
\<close>

fun buffer_equals :: "char list \<Rightarrow> string \<Rightarrow> bool option" where
  "buffer_equals [] s = None"
| "buffer_equals (b # bs) [] = Some (b = NUL)"
| "buffer_equals (b # bs) (c # cs) = (if b \<noteq> c then Some False else buffer_equals bs cs)"

fun buffer_has_prefix :: "char list \<Rightarrow> string \<Rightarrow> bool option" where
  "buffer_has_prefix bs [] = Some True"
| "buffer_has_prefix [] (c # cs) = None"
| "buffer_has_prefix (b # bs) (c # cs) = (if b \<noteq> c then Some False else buffer_has_prefix bs cs)"

text \<open>The loop over the first \<open>n\<close> tags, which is undefined when it runs past the array.\<close>

fun tag_found :: "nat \<Rightarrow> char list list \<Rightarrow> string \<Rightarrow> bool option" where
  "tag_found 0 tags tag = Some False"
| "tag_found (Suc n) [] tag = None"
| "tag_found (Suc n) (row # tags) tag = do {
     found \<leftarrow> buffer_equals row tag;
     if found then Some True else tag_found n tags tag
   }"

text \<open>
  The filters.  \<open>query->type >= 0\<close> compares an enumeration without negative members, which is an
  unsigned integer, and always holds.
\<close>

definition query_match :: "metadata_query option \<Rightarrow> metadata_entry \<Rightarrow> bool option" where
  "query_match query e =
     (case query of
        None \<Rightarrow> Some True
      | Some q \<Rightarrow> do {
          m1 \<leftarrow> (case mq_key_prefix q of None \<Rightarrow> Some True | Some p \<Rightarrow> buffer_has_prefix (me_key e) p);
          let m2 = (m1 \<and> \<not> (mq_type q \<ge> 0 \<and> me_type e \<noteq> mq_type q));
          m3 \<leftarrow> (if m2 then case mq_tag q of
                   None \<Rightarrow> Some True
                 | Some t \<Rightarrow> tag_found (nat (sint (me_tag_count e))) (me_tags e) t
                 else Some False);
          Some (m3 \<and> \<not> (mq_created_after q > 0 \<and> sint (me_created e) < mq_created_after q) \<and>
            \<not> (mq_created_before q > 0 \<and> sint (me_created e) > mq_created_before q))
        })"

definition is_meta_name :: "string \<Rightarrow> bool" where
  "is_meta_name name \<longleftrightarrow> length name \<ge> 6 \<and> drop (length name - 5) name = ''.meta''"

text \<open>
  The loop over the names \<open>readdir\<close> delivers, with room for \<open>n\<close> more results.  The data of a blob
  that does not match is freed.
\<close>

fun query_loop ::
    "file_env \<Rightarrow> metadata_store \<Rightarrow> metadata_query option \<Rightarrow> files \<Rightarrow> string list \<Rightarrow> nat \<Rightarrow> mem
      \<Rightarrow> (metadata_entry list \<times> mem) option" where
  "query_loop fe st q fs [] n m = Some ([], m)"
| "query_loop fe st q fs (name # names) n m =
     (if n = 0 then Some ([], m)
      else if name = ''.'' \<or> name = ''..'' \<or> \<not> is_meta_name name then query_loop fe st q fs names n m
      else case read_entry_from_file fe m (take (PATH_BUFFER - 1) (ms_path st @ ''/'' @ name)) fs of
          (Inl rc, m') \<Rightarrow> query_loop fe st q fs names n m'
        | (Inr e, m') \<Rightarrow> do {
            match \<leftarrow> query_match q e;
            if match then do {
              (es, m'') \<leftarrow> query_loop fe st q fs names (n - 1) m';
              Some (e # es, m'')
            }
            else query_loop fe st q fs names n
              (if me_type e = META_TYPE_BLOB \<and> blob_data e \<noteq> 0 then m'(blob_data e := None) else m')
          })"

text \<open>
  \<open>wanted\<close> says whether the caller passed the result array and the counter, \<open>dir\<close> is what
  \<open>opendir\<close> and \<open>readdir\<close> deliver.
\<close>

definition metadata_store_query ::
    "file_env \<Rightarrow> mem \<Rightarrow> metadata_store option \<Rightarrow> metadata_query option \<Rightarrow> bool \<Rightarrow> size_t \<Rightarrow> string list option
      \<Rightarrow> files \<Rightarrow> (c_int \<times> metadata_entry list \<times> mem) option" where
  "metadata_store_query fe m store query wanted max_results dir fs =
     (case store of
        None \<Rightarrow> Some (META_ERR_INVALID_ARG, [], m)
      | Some st \<Rightarrow>
          if \<not> wanted then Some (META_ERR_INVALID_ARG, [], m)
          else case dir of
              None \<Rightarrow> Some (META_ERR_IO, [], m)
            | Some names \<Rightarrow> do {
                (es, m') \<leftarrow> query_loop fe st query fs names (unat max_results) m;
                Some (META_OK, es, m')
              })"

section \<open>Typed access\<close>

text \<open>The entry the typed put operations build; \<open>now\<close> is the clock.\<close>

definition make_entry :: "u32 \<Rightarrow> string \<Rightarrow> u8 list \<Rightarrow> string option \<Rightarrow> u64 \<Rightarrow> metadata_entry option" where
  "make_entry type key bytes tag now = do {
     kbuf \<leftarrow> c_strncpy (me_key zero_entry) key (META_MAX_KEY_LEN - 1);
     let e = (set_value bytes zero_entry)\<lparr>me_key := kbuf, me_type := type, me_created := now, me_modified := now\<rparr>;
     case tag of
       None \<Rightarrow> Some e
     | Some t \<Rightarrow> do {
         row \<leftarrow> c_strncpy (me_tags e ! 0) t (META_MAX_TAG_LEN - 1);
         Some (e\<lparr>me_tags := (me_tags e)[0 := row], me_tag_count := 1\<rparr>)
       }
   }"

definition metadata_store_put_string ::
    "file_env \<Rightarrow> mem \<Rightarrow> metadata_store option \<Rightarrow> string \<Rightarrow> string \<Rightarrow> string option \<Rightarrow> u64 \<Rightarrow> files
      \<Rightarrow> (c_int \<times> files) option" where
  "metadata_store_put_string fe m store key v tag now fs = do {
     vbuf \<leftarrow> c_strncpy (replicate META_MAX_VALUE_LEN NUL) v (META_MAX_VALUE_LEN - 1);
     e \<leftarrow> make_entry META_TYPE_STRING key (map byte_of_char vbuf) tag now;
     metadata_store_put fe m store (Some e) fs
   }"

definition metadata_store_put_int64 ::
    "file_env \<Rightarrow> mem \<Rightarrow> metadata_store option \<Rightarrow> string \<Rightarrow> u64 \<Rightarrow> string option \<Rightarrow> u64 \<Rightarrow> files
      \<Rightarrow> (c_int \<times> files) option" where
  "metadata_store_put_int64 fe m store key v tag now fs = do {
     e \<leftarrow> make_entry META_TYPE_INT64 key (le_enc 8 v) tag now;
     metadata_store_put fe m store (Some e) fs
   }"

definition metadata_store_put_double ::
    "file_env \<Rightarrow> mem \<Rightarrow> metadata_store option \<Rightarrow> string \<Rightarrow> u64 \<Rightarrow> string option \<Rightarrow> u64 \<Rightarrow> files
      \<Rightarrow> (c_int \<times> files) option" where
  "metadata_store_put_double fe m store key v tag now fs = do {
     e \<leftarrow> make_entry META_TYPE_DOUBLE key (le_enc 8 v) tag now;
     metadata_store_put fe m store (Some e) fs
   }"

text \<open>
  \<open>buf\<close> is the caller's buffer and \<open>value_size\<close> the size it claims; a size of 0 wraps around to
  the largest number.
\<close>

definition metadata_store_get_string ::
    "file_env \<Rightarrow> mem \<Rightarrow> metadata_store option \<Rightarrow> string option \<Rightarrow> char list \<Rightarrow> nat \<Rightarrow> files
      \<Rightarrow> (c_int \<times> char list \<times> mem) option" where
  "metadata_store_get_string fe m store key buf value_size fs = do {
     (r, m') \<leftarrow> metadata_store_get fe m store key True fs;
     case r of
       Inl rc \<Rightarrow> Some (rc, buf, m')
     | Inr e \<Rightarrow>
         if me_type e \<noteq> META_TYPE_STRING then Some (META_ERR_INVALID_ARG, buf, m')
         else if value_size = 0 \<or> value_size > length buf then None
         else if NUL \<notin> set (value_string e) \<and> value_size - 1 > length (value_string e) then None
         else do {
           b \<leftarrow> c_strncpy buf (takeWhile (\<lambda>c. c \<noteq> NUL) (value_string e)) (value_size - 1);
           Some (META_OK, b[value_size - 1 := NUL], m')
         }
   }"

definition get_word ::
    "u32 \<Rightarrow> file_env \<Rightarrow> mem \<Rightarrow> metadata_store option \<Rightarrow> string option \<Rightarrow> u64 \<Rightarrow> files
      \<Rightarrow> (c_int \<times> u64 \<times> mem) option" where
  "get_word type fe m store key old fs = do {
     (r, m') \<leftarrow> metadata_store_get fe m store key True fs;
     case r of
       Inl rc \<Rightarrow> Some (rc, old, m')
     | Inr e \<Rightarrow>
         if me_type e \<noteq> type then Some (META_ERR_INVALID_ARG, old, m')
         else Some (META_OK, value_word e, m')
   }"

definition metadata_store_get_int64 ::
    "file_env \<Rightarrow> mem \<Rightarrow> metadata_store option \<Rightarrow> string option \<Rightarrow> u64 \<Rightarrow> files \<Rightarrow> (c_int \<times> u64 \<times> mem) option" where
  "metadata_store_get_int64 = get_word META_TYPE_INT64"

definition metadata_store_get_double ::
    "file_env \<Rightarrow> mem \<Rightarrow> metadata_store option \<Rightarrow> string option \<Rightarrow> u64 \<Rightarrow> files \<Rightarrow> (c_int \<times> u64 \<times> mem) option" where
  "metadata_store_get_double = get_word META_TYPE_DOUBLE"

section \<open>Tasks and experiments\<close>

definition KEY_BUFFER :: nat where "KEY_BUFFER = 256"

definition task_key :: "u64 \<Rightarrow> string \<Rightarrow> string" where
  "task_key task_id part = take (KEY_BUFFER - 1) (''task.'' @ dec_nat (unat task_id) @ ''.'' @ part)"

text \<open>
  The consecutive puts of integers; their return codes are not looked at.  \<open>fe k\<close> is the
  environment and \<open>now k\<close> the clock of the \<open>k\<close>-th put.
\<close>

fun put_ints ::
    "(nat \<Rightarrow> file_env) \<Rightarrow> (nat \<Rightarrow> u64) \<Rightarrow> mem \<Rightarrow> metadata_store option \<Rightarrow> string option \<Rightarrow> (string \<times> u64) list \<Rightarrow> nat
      \<Rightarrow> files \<Rightarrow> files option" where
  "put_ints fe now m store tag [] k fs = Some fs"
| "put_ints fe now m store tag ((key, v) # kvs) k fs = do {
     (rc, fs') \<leftarrow> metadata_store_put_int64 (fe k) m store key v tag (now k) fs;
     put_ints fe now m store tag kvs (Suc k) fs'
   }"

definition task_ints :: "u64 \<Rightarrow> u32 \<Rightarrow> c_int \<Rightarrow> u64 \<Rightarrow> u64 \<Rightarrow> u32 \<Rightarrow> (string \<times> u64) list" where
  "task_ints task_id model_id status exec_time_us queue_time_us worker_id =
     [(task_key task_id ''model_id'', ucast model_id), (task_key task_id ''status'', of_int status),
      (task_key task_id ''exec_time_us'', exec_time_us), (task_key task_id ''queue_time_us'', queue_time_us),
      (task_key task_id ''worker_id'', ucast worker_id)]"

definition metadata_store_task_info ::
    "(nat \<Rightarrow> file_env) \<Rightarrow> (nat \<Rightarrow> u64) \<Rightarrow> mem \<Rightarrow> metadata_store option \<Rightarrow> u64 \<Rightarrow> u32 \<Rightarrow> c_int \<Rightarrow> u64 \<Rightarrow> u64 \<Rightarrow> u32
      \<Rightarrow> files \<Rightarrow> (c_int \<times> files) option" where
  "metadata_store_task_info fe now m store task_id model_id status exec_time_us queue_time_us worker_id fs = do {
     fs' \<leftarrow> put_ints fe now m store (Some ''task'')
       (task_ints task_id model_id status exec_time_us queue_time_us worker_id) 0 fs;
     Some (META_OK, fs')
   }"

definition experiment_key :: "string \<Rightarrow> string \<Rightarrow> string" where
  "experiment_key eid part = take (KEY_BUFFER - 1) (''experiment.'' @ eid @ ''.'' @ part)"

fun put_strings ::
    "(nat \<Rightarrow> file_env) \<Rightarrow> (nat \<Rightarrow> u64) \<Rightarrow> mem \<Rightarrow> metadata_store option \<Rightarrow> string option \<Rightarrow> (string \<times> string) list \<Rightarrow> nat
      \<Rightarrow> files \<Rightarrow> files option" where
  "put_strings fe now m store tag [] k fs = Some fs"
| "put_strings fe now m store tag ((key, v) # kvs) k fs = do {
     (rc, fs') \<leftarrow> metadata_store_put_string (fe k) m store key v tag (now k) fs;
     put_strings fe now m store tag kvs (Suc k) fs'
   }"

definition metadata_store_experiment ::
    "(nat \<Rightarrow> file_env) \<Rightarrow> (nat \<Rightarrow> u64) \<Rightarrow> mem \<Rightarrow> metadata_store option \<Rightarrow> string \<Rightarrow> string \<Rightarrow> string \<Rightarrow> string option
      \<Rightarrow> files \<Rightarrow> (c_int \<times> files) option" where
  "metadata_store_experiment fe now m store eid description model_name config_json fs = do {
     fs' \<leftarrow> put_strings fe now m store (Some ''experiment'')
       ([(experiment_key eid ''description'', description), (experiment_key eid ''model'', model_name)] @
        (case config_json of None \<Rightarrow> [] | Some j \<Rightarrow> [(experiment_key eid ''config'', j)])) 0 fs;
     Some (META_OK, fs')
   }"

end
