(* ===== verification/Metadata_Props.thy ===== *)
theory Metadata_Props
  imports Metadata
begin

text \<open>
  Properties of the metadata store: the names it makes of keys, the contents of a file as a record
  that writing and reading preserve, the store as a map from names to records, and queries.
\<close>

section \<open>Names\<close>

definition dots_apart :: "char \<Rightarrow> char \<Rightarrow> bool" where
  "dots_apart a b \<longleftrightarrow> \<not> (a = CHR ''.'' \<and> b = CHR ''.'')"

text \<open>A key that is its own file name.\<close>

definition plain_key :: "string \<Rightarrow> bool" where
  "plain_key key \<longleftrightarrow> CHR ''/'' \<notin> set key \<and> CHR 0x5C \<notin> set key \<and> successively dots_apart key"

lemma sanitise_length: "length (sanitise_chars r key) \<le> Suc r"
proof (induction r key rule: sanitise_chars.induct)
  case (3 r c cs)
  then show ?case by (cases r) auto
qed auto

lemma sanitise_length_short: "length key \<le> r \<Longrightarrow> length (sanitise_chars r key) = length key"
proof (induction r key rule: sanitise_chars.induct)
  case (3 r c cs)
  then show ?case by (cases cs) auto
qed auto

lemma sanitise_separators: "c \<in> set (sanitise_chars r key) \<Longrightarrow> c \<noteq> CHR ''/'' \<and> c \<noteq> CHR 0x5C"
  by (induction r key rule: sanitise_chars.induct) (auto split: if_splits)

lemma sanitise_Nil [simp]: "sanitise_chars r [] = []"
  by (cases r) simp_all

lemma sanitise_hd:
  assumes "sanitise_chars r key \<noteq> []" "hd (sanitise_chars r key) = CHR ''.''"
  shows "hd key = CHR ''.''"
  using assms by (cases r; cases key) (auto split: if_splits)

lemma sanitise_dots: "successively dots_apart (sanitise_chars r key)"
proof (induction r key rule: sanitise_chars.induct)
  case (3 r c cs)
  show ?case
    using 3 sanitise_hd [of r cs] by (cases "cs = []") (auto simp: successively_Cons dots_apart_def)
qed auto

lemma sanitise_plain: "plain_key key \<Longrightarrow> length key \<le> r \<Longrightarrow> sanitise_chars r key = key"
proof (induction r key rule: sanitise_chars.induct)
  case (3 r c cs)
  then show ?case by (auto simp: plain_key_def successively_Cons dots_apart_def)
qed auto

lemma no_dot_pair:
  assumes "successively dots_apart s"
  shows "s \<noteq> xs @ ''..'' @ ys"
  using assms by (auto simp: successively_append_iff dots_apart_def)

lemma sanitise_key_short: "length key < n \<Longrightarrow> sanitise_key key n = Some (sanitise_chars (n - 1) key)"
  by (simp add: sanitise_key_def Let_def sanitise_length_short)

lemma sanitise_key_plain: "plain_key key \<Longrightarrow> length key < n \<Longrightarrow> sanitise_key key n = Some key"
  by (simp add: sanitise_key_short sanitise_plain)

text \<open>A pair of dots that begins at the last but one place of the buffer fills it.\<close>

lemma sanitise_fills:
  assumes "CHR ''.'' \<notin> set pre"
  shows "length (sanitise_chars (Suc (length pre)) (pre @ ''..'' @ rest)) = length pre + 2"
  using assms
proof (induction pre)
  case (Cons c pre)
  then show ?case by (cases pre) auto
qed simp

lemma sanitise_key_overflow:
  assumes "length pre + 2 = n" "CHR ''.'' \<notin> set pre"
  shows "sanitise_key (pre @ ''..'' @ rest) n = None"
proof -
  have "n - 1 = Suc (length pre)" using assms(1) by simp
  with sanitise_fills [OF assms(2), of rest] assms(1) show ?thesis by (simp add: sanitise_key_def Let_def)
qed

section \<open>The contents of a file\<close>

datatype meta_value = Text "char list" | Whole u64 | Floating u64 | Moment u64 | Blob "u8 list"

record meta_record =
  mr_key :: "char list"
  mr_value :: meta_value
  mr_tags :: "char list list"
  mr_tag_count :: u32
  mr_created :: u64
  mr_modified :: u64

definition meta_value :: "mem \<Rightarrow> metadata_entry \<Rightarrow> meta_value option" where
  "meta_value m e =
     (if me_type e = META_TYPE_STRING then Some (Text (value_string e))
      else if me_type e = META_TYPE_INT64 then Some (Whole (value_word e))
      else if me_type e = META_TYPE_DOUBLE then Some (Floating (value_word e))
      else if me_type e = META_TYPE_TIMESTAMP then Some (Moment (value_word e))
      else if me_type e = META_TYPE_BLOB
      then if blob_size e = 0 then Some (Blob [])
        else do {
          block \<leftarrow> deref m (blob_data e);
          if length block < unat (blob_size e) then None else Some (Blob (take (unat (blob_size e)) block))
        }
      else None)"

definition entry_record :: "metadata_entry \<Rightarrow> meta_value \<Rightarrow> meta_record" where
  "entry_record e v = \<lparr>mr_key = me_key e, mr_value = v, mr_tags = me_tags e, mr_tag_count = me_tag_count e,
     mr_created = me_created e, mr_modified = me_modified e\<rparr>"

definition record_of :: "mem \<Rightarrow> metadata_entry \<Rightarrow> meta_record option" where
  "record_of m e = map_option (entry_record e) (meta_value m e)"

definition entry_wf :: "metadata_entry \<Rightarrow> bool" where
  "entry_wf e \<longleftrightarrow> length (me_key e) = META_MAX_KEY_LEN \<and> length (me_value e) = META_MAX_VALUE_LEN \<and>
     length (me_tags e) = META_MAX_TAGS \<and> (\<forall>row \<in> set (me_tags e). length row = META_MAX_TAG_LEN)"

text \<open>The record a file holds, read without any memory.\<close>

definition parse_value :: "u32 \<Rightarrow> u8 list \<Rightarrow> meta_value option" where
  "parse_value type bytes =
     (if type = META_TYPE_STRING
      then map_option (\<lambda>(item, _). Text (map char_of_byte item)) (fread_item META_MAX_VALUE_LEN bytes)
      else if type = META_TYPE_INT64 then map_option (\<lambda>(item, _). Whole (le_dec item)) (fread_item 8 bytes)
      else if type = META_TYPE_DOUBLE then map_option (\<lambda>(item, _). Floating (le_dec item)) (fread_item 8 bytes)
      else if type = META_TYPE_TIMESTAMP then map_option (\<lambda>(item, _). Moment (le_dec item)) (fread_item 8 bytes)
      else if type = META_TYPE_BLOB
      then do {
        (item, rest) \<leftarrow> fread_item 8 bytes;
        (block, _) \<leftarrow> fread_item (unat (le_dec item :: size_t)) rest;
        Some (Blob block)
      }
      else None)"

definition file_record :: "u8 list \<Rightarrow> meta_record option" where
  "file_record bytes = do {
     (magic, b1) \<leftarrow> fread_item 4 bytes;
     (version, b2) \<leftarrow> fread_item 4 b1;
     if le_dec magic \<noteq> META_FILE_MAGIC then None
     else do {
       (e, rest) \<leftarrow> read_fields b2;
       map_option (entry_record e) (parse_value (me_type e) rest)
     }
   }"

text \<open>The library calls work and the disk keeps what was written.\<close>

definition reliable :: "file_env \<Rightarrow> bool" where
  "reliable fe \<longleftrightarrow> (\<forall>path. fe_fopen_w fe path) \<and> (\<forall>path. fe_fopen_r fe path) \<and> (\<forall>k. fe_fwrite fe k) \<and>
     (\<forall>bytes. fe_flushed fe bytes = bytes) \<and> (\<forall>path. fe_unlink fe path)"

text \<open>\<open>malloc\<close> finds a block that is not in use, as long as at most \<open>k\<close> blocks are.\<close>

definition fresh_malloc :: "nat \<Rightarrow> file_env \<Rightarrow> bool" where
  "fresh_malloc k fe \<longleftrightarrow>
     (\<forall>m n. card (dom m) \<le> k \<longrightarrow> fe_malloc fe m n \<noteq> 0 \<and> m (fe_malloc fe m n) = None)"

lemma fread_append [simp]: "length a = n \<Longrightarrow> fread_item n (a @ b) = Some (a, b)"
  by (simp add: fread_item_def)

lemma fread_all [simp]: "length a = n \<Longrightarrow> fread_item n a = Some (a, [])"
  by (simp add: fread_item_def)

lemma fread_length: "fread_item n bs = Some (a, b) \<Longrightarrow> length a = n"
  by (auto simp: fread_item_def split: if_splits)

lemma fwrite_all_ok: "\<forall>k. ok k \<Longrightarrow> fwrite_all ok k items = (concat items, True)"
  by (induction items arbitrary: k) simp_all

lemma map_char_byte [simp]: "map (char_of_byte \<circ> byte_of_char) s = s"
  by (simp add: map_idI)

lemma tag_rows_bytes:
  "\<forall>row \<in> set tags. length row = META_MAX_TAG_LEN \<Longrightarrow> tag_rows (length tags) (tag_bytes tags) = tags"
  by (induction tags) (simp_all add: tag_bytes_def)

lemma length_concat_rows: "\<forall>row \<in> set rows. length row = n \<Longrightarrow> length (concat rows) = length rows * n"
  by (induction rows) simp_all

lemma tag_rows_length: "length bytes = n * META_MAX_TAG_LEN \<Longrightarrow>
  length (tag_rows n bytes) = n \<and> (\<forall>row \<in> set (tag_rows n bytes). length row = META_MAX_TAG_LEN)"
proof (induction n arbitrary: bytes)
  case (Suc n)
  from Suc.IH [of "drop META_MAX_TAG_LEN bytes"] Suc.prems show ?case by auto
qed simp

lemma read_fields_items:
  assumes "entry_wf e"
  shows "read_fields (concat (drop 2 (entry_items e)) @ rest) =
    Some (e\<lparr>me_value := replicate META_MAX_VALUE_LEN 0\<rparr>, rest)"
proof -
  from assms have len: "length (me_key e) = META_MAX_KEY_LEN"
    "length (tag_bytes (me_tags e)) = META_MAX_TAGS * META_MAX_TAG_LEN"
    "tag_rows META_MAX_TAGS (tag_bytes (me_tags e)) = me_tags e"
    using tag_rows_bytes [of "me_tags e"] length_concat_rows [of "me_tags e" META_MAX_TAG_LEN]
    by (auto simp: entry_wf_def tag_bytes_def)
  show ?thesis by (simp add: read_fields_def entry_items_def len le_roundtrip zero_entry_def)
qed

lemma entry_items_front: "concat (entry_items e) = le_enc 4 META_FILE_MAGIC @ le_enc 4 META_FILE_VERSION @ concat (drop 2 (entry_items e))"
  by (simp add: entry_items_def)

lemma file_record_items:
  assumes "entry_wf e"
  shows "file_record (concat (entry_items e) @ bytes) = map_option (entry_record e) (parse_value (me_type e) bytes)"
proof -
  have "entry_record (e\<lparr>me_value := v\<rparr>) = entry_record e" for v by (auto simp: entry_record_def)
  with read_fields_items [OF assms] show ?thesis
    unfolding file_record_def entry_items_front by (simp add: le_roundtrip)
qed

text \<open>Writing an entry leaves a file with its record.\<close>

lemma write_value_ok:
  assumes "reliable fe" "entry_wf e" "meta_value m e = Some v"
  shows "\<exists>bytes. write_value fe m e = Some (META_OK, bytes) \<and> parse_value (me_type e) bytes = Some v"
proof -
  have ok: "fwrite_all (fe_fwrite fe) k items = (concat items, True)" "fe_fwrite fe k" for k items
    using assms(1) by (simp_all add: reliable_def fwrite_all_ok)
  have len: "length (me_value e) = META_MAX_VALUE_LEN" using assms(2) by (simp add: entry_wf_def)
  have w: "length (take 8 (me_value e)) = 8" "le_dec (take 8 (me_value e)) = value_word e"
    by (simp_all add: len meta_sizes value_word_def rd_defs)
  show ?thesis
    using assms(3) len w
    by (auto simp: write_value_def meta_value_def parse_value_def Let_def ok value_string_def le_roundtrip
        word_gt_0 deref_def meta_types split: if_splits bind_splits)
qed

lemma write_entry_ok:
  assumes "reliable fe" "entry_wf e" "record_of m e = Some r"
  shows "\<exists>bytes. write_entry_to_file fe m path e fs = Some (META_OK, fs(path \<mapsto> bytes)) \<and> file_record bytes = Some r"
proof -
  from assms(3) obtain v where v: "meta_value m e = Some v" "r = entry_record e v" by (auto simp: record_of_def)
  from write_value_ok [OF assms(1,2) v(1)] obtain bytes where
    b: "write_value fe m e = Some (META_OK, bytes)" "parse_value (me_type e) bytes = Some v" by blast
  have ok: "\<forall>k. fe_fwrite fe k" "fe_fopen_w fe path" "\<And>bs. fe_flushed fe bs = bs"
    using assms(1) by (simp_all add: reliable_def)
  show ?thesis
    by (rule exI [of _ "concat (entry_items e) @ bytes"])
      (simp add: write_entry_to_file_def fwrite_all_ok ok b file_record_items assms(2) v(2))
qed

text \<open>
  Reading a file: the record comes back in an entry, whose blob is in a block of its own; giving
  that block back restores the memory.
\<close>

definition release_blob :: "metadata_entry \<Rightarrow> mem \<Rightarrow> mem" where
  "release_blob e m = (if me_type e = META_TYPE_BLOB \<and> blob_data e \<noteq> 0 then m(blob_data e := None) else m)"

lemma le_dec_item: "length item = 8 \<Longrightarrow> rd64 0 (item @ rest) = le_dec item"
  by (simp add: rd_defs)

lemma set_value_wf: "entry_wf e \<Longrightarrow> length bytes \<le> META_MAX_VALUE_LEN \<Longrightarrow> entry_wf (set_value bytes e)"
  by (simp add: entry_wf_def set_value_def)

lemma entry_record_set_value: "entry_record (set_value bytes e) = entry_record e"
  by (auto simp: entry_record_def set_value_def)

lemma set_value_word:
  assumes "length item = 8"
  shows "value_word (set_value item e) = le_dec item"
  using assms by (simp add: value_word_def set_value_def le_dec_item)

lemma set_value_string:
  assumes "length item = META_MAX_VALUE_LEN" "length (me_value e) = META_MAX_VALUE_LEN"
  shows "value_string (set_value item e) = map char_of_byte item"
  using assms by (simp add: value_string_def set_value_def)

lemma set_value_blob:
  assumes "length item = 8"
  shows "blob_data (set_value (le_enc 8 p @ item) e) = p" "blob_size (set_value (le_enc 8 p @ item) e) = le_dec item"
  using assms by (simp_all add: blob_data_def blob_size_def set_value_def rd_defs le_roundtrip)

lemma set_value_type [simp]: "me_type (set_value bytes e) = me_type e"
  by (simp add: set_value_def)

lemma read_blob_ok:
  assumes "fresh_malloc (card (dom m)) fe" "me_type e = META_TYPE_BLOB" "entry_wf e" "fread_item 8 bytes = Some (item, rest)"
    and "fread_item (unat (le_dec item :: size_t)) rest = Some (block, rest')"
  shows "\<exists>e' m'. read_blob fe m e bytes = (Inr e', m') \<and> meta_value m' e' = Some (Blob block) \<and>
    entry_record e' = entry_record e \<and> entry_wf e' \<and> release_blob e' m' = m"
proof -
  have len: "length item = 8" using fread_length [OF assms(4)] .
  have block: "length block = unat (le_dec item :: size_t)" using fread_length [OF assms(5)] .
  note set = set_value_blob [OF len] set_value_wf [OF assms(3)] entry_record_set_value
  show ?thesis
  proof (cases "(le_dec item :: size_t) = 0")
    case True
    then show ?thesis
      using assms(2,4,5) block
      by (auto simp: read_blob_def Let_def set meta_value_def meta_types len meta_sizes release_blob_def)
  next
    case False
    let ?p = "fe_malloc fe m (le_dec item)"
    have "?p \<noteq> 0" "m ?p = None" using assms(1) by (simp_all add: fresh_malloc_def)
    moreover from this have "m(?p := None) = m" by auto
    ultimately show ?thesis
      using False assms(2,4,5) block
      by (auto simp: read_blob_def Let_def set meta_value_def meta_types len meta_sizes release_blob_def word_gt_0)
  qed
qed

lemma read_value_ok:
  assumes "fresh_malloc (card (dom m)) fe" "entry_wf e" "parse_value (me_type e) bytes = Some v"
  shows "\<exists>e' m'. read_value fe m e bytes = (Inr e', m') \<and> meta_value m' e' = Some v \<and>
    entry_record e' = entry_record e \<and> entry_wf e' \<and> release_blob e' m' = m"
proof (cases "me_type e = META_TYPE_BLOB")
  case True
  with assms(3) obtain item rest block rest' where
    "fread_item 8 bytes = Some (item, rest)" "fread_item (unat (le_dec item :: size_t)) rest = Some (block, rest')"
    "v = Blob block"
    by (auto simp: parse_value_def meta_types split: bind_splits)
  with read_blob_ok [OF assms(1) True assms(2)] True show ?thesis
    by (simp add: read_value_def meta_types)
next
  case False
  define n where "n = (if me_type e = META_TYPE_STRING then META_MAX_VALUE_LEN else 8)"
  from assms(3) False obtain item rest where item: "fread_item n bytes = Some (item, rest)"
    by (auto simp: parse_value_def n_def split: if_splits)
  have len: "length item = n" using fread_length [OF item] .
  have wf: "entry_wf (set_value item e)" using assms(2) by (rule set_value_wf) (simp add: len n_def meta_sizes)
  have "length (me_value e) = META_MAX_VALUE_LEN" using assms(2) by (simp add: entry_wf_def)
  with False item len assms(3) have "meta_value m (set_value item e) = Some v"
    by (auto simp: parse_value_def meta_value_def n_def set_value_word set_value_string split: if_splits)
  moreover have "read_value fe m e bytes = (Inr (set_value item e), m)"
    using False item assms(3) by (auto simp: read_value_def parse_value_def Let_def n_def split: if_splits)
  ultimately show ?thesis using wf False by (simp add: entry_record_set_value release_blob_def)
qed

lemma read_value_corrupt:
  assumes "fresh_malloc (card (dom m)) fe" "parse_value (me_type e) bytes = None"
  shows "read_value fe m e bytes = (Inl META_ERR_CORRUPT, m)"
proof -
  have p: "fe_malloc fe m n \<noteq> 0" for n using assms(1) by (simp add: fresh_malloc_def)
  have pos: "0 < n" if "\<not> unat n \<le> k" for n :: size_t and k using that by (cases "n = 0") (auto simp: word_gt_0)
  show ?thesis
    using assms(2) p
    by (auto intro: pos simp: read_value_def read_blob_def parse_value_def Let_def fread_item_def split: if_splits option.splits)
qed

lemma read_fields_wf: "read_fields bytes = Some (e, rest) \<Longrightarrow> entry_wf e"
  by (auto simp: read_fields_def entry_wf_def zero_entry_def dest!: fread_length tag_rows_length split: bind_splits)

lemma read_entry_record:
  assumes "fresh_malloc (card (dom m)) fe" "fe_fopen_r fe path" "fs path = Some bytes"
  shows "case file_record bytes of
      None \<Rightarrow> read_entry_from_file fe m path fs = (Inl META_ERR_CORRUPT, m)
    | Some r \<Rightarrow> \<exists>e m'. read_entry_from_file fe m path fs = (Inr e, m') \<and> record_of m' e = Some r \<and>
        entry_wf e \<and> release_blob e m' = m"
proof (cases "\<exists>b1 b2 e rest magic version. fread_item 4 bytes = Some (magic, b1) \<and> fread_item 4 b1 = Some (version, b2) \<and>
    le_dec magic = META_FILE_MAGIC \<and> read_fields b2 = Some (e, rest)")
  case True
  then obtain b1 b2 e rest magic version where
    b: "fread_item 4 bytes = Some (magic, b1)" "fread_item 4 b1 = Some (version, b2)"
      "le_dec magic = META_FILE_MAGIC" "read_fields b2 = Some (e, rest)" by blast
  then have *: "file_record bytes = map_option (entry_record e) (parse_value (me_type e) rest)"
    "read_entry_from_file fe m path fs = read_value fe m e rest"
    using assms(2,3) by (simp_all add: file_record_def read_entry_from_file_def)
  show ?thesis
  proof (cases "parse_value (me_type e) rest")
    case None
    with read_value_corrupt [OF assms(1)] show ?thesis by (simp add: *)
  next
    case (Some v)
    from read_value_ok [OF assms(1) read_fields_wf [OF b(4)] this] obtain e' m' where
      "read_value fe m e rest = (Inr e', m')" "meta_value m' e' = Some v" "entry_record e' = entry_record e"
      "entry_wf e'" "release_blob e' m' = m" by blast
    with Some show ?thesis by (simp add: * record_of_def)
  qed
next
  case False
  then have "file_record bytes = None"
    by (auto simp: file_record_def split: bind_splits)
  moreover from False have "read_entry_from_file fe m path fs = (Inl META_ERR_CORRUPT, m)"
    using assms(2,3) by (auto simp: read_entry_from_file_def split: option.splits bind_splits)
  ultimately show ?thesis by simp
qed

end
