(* ===== verification/Metadata_Store.thy ===== *)
theory Metadata_Store
  imports Metadata_Props
begin

text \<open>
  The store as a map from file names to records.  What a client needs of a store is the locale
  \<open>slot_store\<close>; the files of the metadata store are an instance of it.
\<close>

section \<open>The interface\<close>

text \<open>Consecutive puts, the \<open>k\<close>-th under its own conditions.\<close>

fun put_all :: "(nat \<Rightarrow> 'e \<Rightarrow> 's \<Rightarrow> 's option) \<Rightarrow> nat \<Rightarrow> 'e list \<Rightarrow> 's \<Rightarrow> 's option" where
  "put_all put k [] s = Some s"
| "put_all put k (e # es) s = do { s' \<leftarrow> put k e s; put_all put (Suc k) es s' }"

text \<open>
  \<open>c\<close> is the context of all operations, \<open>v\<close> the conditions of one; an entry that is acceptable
  replaces what its slot held and nothing else.
\<close>

locale slot_store =
  fixes works :: "'v \<Rightarrow> bool"
    and acceptable :: "'c \<Rightarrow> 'e \<Rightarrow> bool"
    and slot :: "'e \<Rightarrow> 'n"
    and content :: "'c \<Rightarrow> 'e \<Rightarrow> 'r"
    and put :: "'v \<Rightarrow> 'c \<Rightarrow> 'e \<Rightarrow> 's \<Rightarrow> 's option"
    and view :: "'c \<Rightarrow> 's \<Rightarrow> 'n \<Rightarrow> 'r option"
  assumes put_view: "works v \<Longrightarrow> acceptable c e \<Longrightarrow>
    \<exists>s'. put v c e s = Some s' \<and> view c s' = (view c s)(slot e \<mapsto> content c e)"
begin

lemma put_all_view:
  assumes "\<forall>k. works (v k)" "\<forall>e \<in> set es. acceptable c e" "distinct (map slot es)"
  shows "\<exists>s'. put_all (\<lambda>k. put (v k) c) k es s = Some s' \<and>
    view c s' = view c s ++ map_of (map (\<lambda>e. (slot e, content c e)) es)"
  using assms(2,3)
proof (induction es arbitrary: k s)
  case (Cons e es)
  from put_view [of "v k" c e s] assms(1) Cons.prems obtain s1 where
    s1: "put (v k) c e s = Some s1" "view c s1 = (view c s)(slot e \<mapsto> content c e)" by auto
  from Cons.IH [of "Suc k" s1] Cons.prems obtain s' where
    s': "put_all (\<lambda>k. put (v k) c) (Suc k) es s1 = Some s'"
      "view c s' = view c s1 ++ map_of (map (\<lambda>e. (slot e, content c e)) es)" by auto
  have "slot e \<notin> dom (map_of (map (\<lambda>e. (slot e, content c e)) es))"
    using Cons.prems(2) by (auto simp: dom_map_of_conv_image_fst)
  then have "view c s' = view c s ++ map_of (map (\<lambda>e. (slot e, content c e)) (e # es))"
    unfolding s'(2) s1(2) by (auto simp: map_add_def fun_eq_iff split: option.splits)
  moreover have "put_all (\<lambda>k. put (v k) c) k (e # es) s = Some s'" using s1(1) s'(1) by simp
  ultimately show ?case by blast
qed simp

lemma put_all_lookup:
  assumes "\<forall>k. works (v k)" "\<forall>e \<in> set es. acceptable c e" "distinct (map slot es)"
  shows "\<exists>s'. put_all (\<lambda>k. put (v k) c) k es s = Some s' \<and>
    (\<forall>e \<in> set es. view c s' (slot e) = Some (content c e)) \<and>
    (\<forall>n. n \<notin> slot ` set es \<longrightarrow> view c s' n = view c s n)"
proof -
  let ?l = "map (\<lambda>e. (slot e, content c e)) es"
  have "distinct (map fst ?l)" using assms(3) by (simp add: comp_def)
  then have "map_of ?l (slot e) = Some (content c e)" if "e \<in> set es" for e
    using that by (intro map_of_is_SomeI) auto
  moreover have "map_of ?l n = None" if "n \<notin> slot ` set es" for n
    using that by (auto simp: map_of_eq_None_iff)
  ultimately show ?thesis
    using put_all_view [OF assms, where k = k and s = s] by (auto simp: map_add_def)
qed

end

section \<open>The files as slots\<close>

definition key_name :: "string \<Rightarrow> string" where
  "key_name key = sanitise_chars (META_MAX_KEY_LEN - 1) key"

definition slot_path :: "metadata_store \<Rightarrow> string \<Rightarrow> string" where
  "slot_path st name = take (PATH_BUFFER - 1) (ms_path st @ ''/'' @ name @ ''.meta'')"

text \<open>A directory whose name leaves room for every file name.\<close>

definition store_ok :: "metadata_store \<Rightarrow> bool" where
  "store_ok st \<longleftrightarrow> ms_read_only st = 0 \<and> length (ms_path st) + META_MAX_KEY_LEN + 6 \<le> PATH_BUFFER"

definition disk_view :: "metadata_store \<times> mem \<Rightarrow> files \<Rightarrow> string \<Rightarrow> meta_record option" where
  "disk_view c fs name =
     (if length name < META_MAX_KEY_LEN then Option.bind (fs (slot_path (fst c) name)) file_record else None)"

definition entry_key :: "metadata_entry \<Rightarrow> string" where
  "entry_key e = takeWhile (\<lambda>c. c \<noteq> NUL) (me_key e)"

definition disk_accepts :: "metadata_store \<times> mem \<Rightarrow> metadata_entry \<Rightarrow> bool" where
  "disk_accepts c e \<longleftrightarrow> store_ok (fst c) \<and> entry_wf e \<and> NUL \<in> set (me_key e) \<and> entry_key e \<noteq> [] \<and>
     record_of (snd c) e \<noteq> None"

definition disk_put :: "file_env \<Rightarrow> metadata_store \<times> mem \<Rightarrow> metadata_entry \<Rightarrow> files \<Rightarrow> files option" where
  "disk_put fe c e fs = map_option snd (metadata_store_put fe (snd c) (Some (fst c)) (Some e) fs)"

lemma key_name_length: "length key < META_MAX_KEY_LEN \<Longrightarrow> length (key_name key) = length key"
  by (simp add: key_name_def sanitise_length_short)

lemma key_name_plain: "plain_key key \<Longrightarrow> length key < META_MAX_KEY_LEN \<Longrightarrow> key_name key = key"
  by (simp add: key_name_def sanitise_plain)

lemma key_name_separators: "CHR ''/'' \<notin> set (key_name key)" "CHR 0x5C \<notin> set (key_name key)"
  using sanitise_separators by (auto simp: key_name_def)

lemma build_file_path_short:
  "length key < META_MAX_KEY_LEN \<Longrightarrow> build_file_path st key = Some (slot_path st (key_name key))"
  by (simp add: build_file_path_def sanitise_key_short key_name_def slot_path_def)

lemma slot_path_full:
  assumes "store_ok st" "length name < META_MAX_KEY_LEN"
  shows "slot_path st name = ms_path st @ ''/'' @ name @ ''.meta''"
  using assms by (auto simp: slot_path_def store_ok_def PATH_BUFFER_def meta_sizes)

lemma slot_path_inj:
  assumes "store_ok st" "length n < META_MAX_KEY_LEN" "length n' < META_MAX_KEY_LEN"
  shows "slot_path st n = slot_path st n' \<longleftrightarrow> n = n'"
  using assms by (simp add: slot_path_full)

lemma entry_key_str: "NUL \<in> set (me_key e) \<Longrightarrow> c_str (me_key e) = Some (entry_key e)"
  by (simp add: c_str_def entry_key_def)

lemma entry_key_length: "entry_wf e \<Longrightarrow> NUL \<in> set (me_key e) \<Longrightarrow> length (entry_key e) < META_MAX_KEY_LEN"
  using c_str_length [OF entry_key_str, of e] by (simp add: entry_wf_def)

lemma put_ok:
  assumes "reliable fe" "disk_accepts (st, m) e"
  shows "\<exists>bytes. metadata_store_put fe m (Some st) (Some e) fs =
      Some (META_OK, fs(slot_path st (key_name (entry_key e)) \<mapsto> bytes)) \<and> file_record bytes = record_of m e"
proof -
  from assms(2) obtain r where r: "record_of m e = Some r" by (auto simp: disk_accepts_def)
  have e: "entry_wf e" "NUL \<in> set (me_key e)" "entry_key e \<noteq> []" "ms_read_only st = 0"
    using assms(2) by (simp_all add: disk_accepts_def store_ok_def)
  note len = entry_key_length [OF e(1,2)]
  from write_entry_ok [OF assms(1) e(1) r, of "slot_path st (key_name (entry_key e))" fs] r show ?thesis
    using e(3,4) len by (simp add: metadata_store_put_def entry_key_str [OF e(2)] build_file_path_short)
qed

interpretation disk: slot_store reliable disk_accepts "\<lambda>e. key_name (entry_key e)"
  "\<lambda>c e. the (record_of (snd c) e)" disk_put disk_view
proof
  fix fe :: file_env and c :: "metadata_store \<times> mem" and e fs
  assume fe: "reliable fe" and e: "disk_accepts c e"
  obtain st m where c: "c = (st, m)" by (cases c)
  from put_ok [OF fe e [unfolded c], of fs] obtain bytes where
    p: "metadata_store_put fe m (Some st) (Some e) fs =
      Some (META_OK, fs(slot_path st (key_name (entry_key e)) \<mapsto> bytes))" "file_record bytes = record_of m e" by blast
  have e': "store_ok st" "record_of m e \<noteq> None" "length (key_name (entry_key e)) < META_MAX_KEY_LEN"
    using e entry_key_length by (auto simp: c disk_accepts_def key_name_length)
  let ?fs = "fs(slot_path st (key_name (entry_key e)) \<mapsto> bytes)"
  have "disk_view c ?fs n = ((disk_view c fs)(key_name (entry_key e) \<mapsto> the (record_of (snd c) e))) n" for n
    using e' p(2) slot_path_inj [OF e'(1), of n "key_name (entry_key e)"] by (simp add: disk_view_def c)
  then have "disk_view c ?fs = (disk_view c fs)(key_name (entry_key e) \<mapsto> the (record_of (snd c) e))" by blast
  with p(1) show "\<exists>fs'. disk_put fe c e fs = Some fs' \<and>
      disk_view c fs' = (disk_view c fs)(key_name (entry_key e) \<mapsto> the (record_of (snd c) e))"
    by (intro exI [of _ ?fs]) (simp add: disk_put_def c)
qed

section \<open>Get and delete\<close>

text \<open>What a caller of \<open>metadata_store_get\<close> learns.\<close>

definition got :: "(c_int + metadata_entry) \<times> mem \<Rightarrow> c_int + meta_record" where
  "got = (\<lambda>(r, m). case r of Inl rc \<Rightarrow> Inl rc | Inr e \<Rightarrow> Inr (the (record_of m e)))"

lemma get_refines:
  assumes "store_ok st" "reliable fe" "fresh_malloc (card (dom m)) fe" "length key < META_MAX_KEY_LEN"
  shows "map_option got (metadata_store_get fe m (Some st) (Some key) True fs) = Some (
    case disk_view (st, m) fs (key_name key) of
      Some r \<Rightarrow> Inr r
    | None \<Rightarrow> Inl (if fs (slot_path st (key_name key)) = None then META_ERR_NOT_FOUND else META_ERR_CORRUPT))"
proof -
  let ?p = "slot_path st (key_name key)"
  have len: "length (key_name key) < META_MAX_KEY_LEN" using assms(4) by (simp add: key_name_length)
  have get: "metadata_store_get fe m (Some st) (Some key) True fs = Some (read_entry_from_file fe m ?p fs)"
    using assms(4) by (simp add: metadata_store_get_def build_file_path_short)
  show ?thesis
  proof (cases "fs ?p")
    case None
    then show ?thesis by (simp add: get read_entry_from_file_def got_def disk_view_def)
  next
    case (Some bytes)
    have "fe_fopen_r fe ?p" using assms(2) by (simp add: reliable_def)
    from read_entry_record [OF assms(3) this, of fs bytes] Some show ?thesis
      by (auto simp: get got_def disk_view_def len split: option.splits)
  qed
qed

lemma delete_refines:
  assumes "store_ok st" "reliable fe" "length key < META_MAX_KEY_LEN"
  shows "\<exists>fs'. metadata_store_delete fe (Some st) (Some key) fs =
      Some (if fs (slot_path st (key_name key)) = None then META_ERR_NOT_FOUND else META_OK, fs') \<and>
    disk_view (st, m) fs' = (disk_view (st, m) fs)(key_name key := None)"
proof -
  let ?p = "slot_path st (key_name key)"
  have len: "length (key_name key) < META_MAX_KEY_LEN" using assms(3) by (simp add: key_name_length)
  have view: "disk_view (st, m) (fs(?p := None)) = (disk_view (st, m) fs)(key_name key := None)"
  proof
    fix n
    show "disk_view (st, m) (fs(?p := None)) n = ((disk_view (st, m) fs)(key_name key := None)) n"
      using slot_path_inj [OF assms(1) _ len, of n] len by (auto simp: disk_view_def)
  qed
  have del: "metadata_store_delete fe (Some st) (Some key) fs =
      Some (if fs ?p = None then META_ERR_NOT_FOUND else META_OK, fs(?p := None))"
    using assms by (auto simp: metadata_store_delete_def build_file_path_short store_ok_def reliable_def fun_eq_iff)
  from del view show ?thesis by blast
qed

end
