(* ===== verification/Metadata_Tasks.thy ===== *)
theory Metadata_Tasks
  imports Metadata_Store
begin

text \<open>
  Typed entries, and the entries for a task and for an experiment: which slots they take and what
  can be read back from them.
\<close>

section \<open>Typed entries\<close>

lemma buffer_key:
  assumes "length key < n" "NUL \<notin> set key"
  shows "\<exists>b. c_strncpy (replicate n NUL) key (n - 1) = Some b \<and> length b = n \<and> NUL \<in> set b \<and>
    takeWhile (\<lambda>c. c \<noteq> NUL) b = key"
proof -
  let ?b = "take (n - 1) (key @ replicate (n - 1) NUL) @ drop (n - 1) (replicate n NUL)"
  from assms(1) obtain j where "n = Suc (length key + j)" by (auto simp: less_iff_Suc_add)
  moreover have "drop (n - 1) (replicate n NUL) = [NUL]" using assms(1) by (subst drop_replicate) simp
  ultimately have b: "?b = key @ replicate (n - length key) NUL" by (simp add: replicate_append_same)
  have "takeWhile (\<lambda>c. c \<noteq> NUL) (key @ replicate (n - length key) NUL) = key"
    using assms(2) by (simp add: takeWhile_append)
  with b assms show ?thesis by (simp add: c_strncpy_def)
qed

text \<open>A key that the operations accept as it is.\<close>

definition good_key :: "string \<Rightarrow> bool" where
  "good_key key \<longleftrightarrow> key \<noteq> [] \<and> length key < META_MAX_KEY_LEN \<and> NUL \<notin> set key"

lemma make_entry_ok:
  assumes "good_key key" "length bytes \<le> META_MAX_VALUE_LEN"
  shows "\<exists>e. make_entry type key bytes tag now = Some e \<and> entry_wf e \<and> NUL \<in> set (me_key e) \<and> entry_key e = key \<and>
    me_type e = type \<and> me_value e = me_value (set_value bytes zero_entry)"
proof -
  from assms(1) buffer_key [of key META_MAX_KEY_LEN] obtain b where
    b: "c_strncpy (me_key zero_entry) key (META_MAX_KEY_LEN - 1) = Some b" "length b = META_MAX_KEY_LEN" "NUL \<in> set b"
      "takeWhile (\<lambda>c. c \<noteq> NUL) b = key"
    by (auto simp: good_key_def zero_entry_def)
  let ?e = "(set_value bytes zero_entry)\<lparr>me_key := b, me_type := type, me_created := now, me_modified := now\<rparr>"
  have wf: "entry_wf ?e" using assms(2) b(2) by (simp add: entry_wf_def set_value_def zero_entry_def)
  show ?thesis
  proof (cases tag)
    case None
    with b wf show ?thesis by (simp add: make_entry_def Let_def entry_key_def)
  next
    case (Some t)
    let ?row = "take (META_MAX_TAG_LEN - 1) (t @ replicate (META_MAX_TAG_LEN - 1) NUL) @ [NUL]"
    have tags: "me_tags ?e = replicate META_MAX_TAGS (replicate META_MAX_TAG_LEN NUL)"
      by (simp add: set_value_def zero_entry_def)
    then have row: "c_strncpy (me_tags ?e ! 0) t (META_MAX_TAG_LEN - 1) = Some ?row"
      by (simp add: c_strncpy_def meta_sizes)
    have "entry_wf (?e\<lparr>me_tags := (me_tags ?e)[0 := ?row], me_tag_count := 1\<rparr>)"
      using wf by (auto simp: entry_wf_def meta_sizes dest!: set_update_subset_insert [THEN subsetD])
    with b row Some show ?thesis by (simp add: make_entry_def Let_def entry_key_def)
  qed
qed

section \<open>Integers\<close>

definition int_entry :: "string option \<Rightarrow> u64 \<Rightarrow> string \<times> u64 \<Rightarrow> metadata_entry" where
  "int_entry tag now kv = the (make_entry META_TYPE_INT64 (fst kv) (le_enc 8 (snd kv)) tag now)"

lemma int_entry_facts:
  assumes "good_key key" "store_ok st"
  shows "make_entry META_TYPE_INT64 key (le_enc 8 v) tag now = Some (int_entry tag now (key, v))"
    "entry_key (int_entry tag now (key, v)) = key" "disk_accepts (st, m) (int_entry tag now (key, v))"
    "\<exists>r. record_of m (int_entry tag now (key, v)) = Some r \<and> mr_value r = Whole v"
proof -
  from make_entry_ok [OF assms(1), of "le_enc 8 v" META_TYPE_INT64 tag now] obtain e where
    e: "make_entry META_TYPE_INT64 key (le_enc 8 v) tag now = Some e" "entry_wf e" "NUL \<in> set (me_key e)"
      "entry_key e = key" "me_type e = META_TYPE_INT64" "me_value e = me_value (set_value (le_enc 8 v) zero_entry)"
    by (auto simp: meta_sizes)
  have i: "int_entry tag now (key, v) = e" using e(1) by (simp add: int_entry_def)
  have "value_word e = v"
    using set_value_word [of "le_enc 8 v" zero_entry] e(6) by (simp add: value_word_def le_roundtrip)
  then have r: "record_of m e = Some (entry_record e (Whole v))"
    using e(5) by (simp add: record_of_def meta_value_def meta_types)
  show "make_entry META_TYPE_INT64 key (le_enc 8 v) tag now = Some (int_entry tag now (key, v))"
    "entry_key (int_entry tag now (key, v)) = key"
    using e(1,4) by (simp_all add: i)
  show "disk_accepts (st, m) (int_entry tag now (key, v))"
    using e(2-4) r assms by (simp add: i disk_accepts_def good_key_def)
  show "\<exists>r. record_of m (int_entry tag now (key, v)) = Some r \<and> mr_value r = Whole v"
    using r by (simp add: i entry_record_def)
qed

fun int_entries :: "(nat \<Rightarrow> u64) \<Rightarrow> string option \<Rightarrow> nat \<Rightarrow> (string \<times> u64) list \<Rightarrow> metadata_entry list" where
  "int_entries now tag k [] = []"
| "int_entries now tag k (kv # kvs) = int_entry tag (now k) kv # int_entries now tag (Suc k) kvs"

lemma put_ints_all:
  assumes "\<forall>kv \<in> set kvs. good_key (fst kv)" "store_ok st"
  shows "put_ints fe now m (Some st) tag kvs k fs =
    put_all (\<lambda>k. disk_put (fe k) (st, m)) k (int_entries now tag k kvs) fs"
  using assms(1)
proof (induction kvs arbitrary: k fs)
  case (Cons kv kvs)
  obtain key v where kv: "kv = (key, v)" by (cases kv)
  have "make_entry META_TYPE_INT64 key (le_enc 8 v) tag (now k) = Some (int_entry tag (now k) (key, v))"
    using int_entry_facts(1) [of key st] Cons.prems assms(2) kv by simp
  then show ?case
    using Cons by (cases "metadata_store_put (fe k) m (Some st) (Some (int_entry tag (now k) (key, v))) fs")
      (auto simp: kv metadata_store_put_int64_def disk_put_def)
qed simp

lemma int_entries_slots:
  assumes "\<forall>kv \<in> set kvs. good_key (fst kv)" "store_ok st"
  shows "map (\<lambda>e. key_name (entry_key e)) (int_entries now tag k kvs) = map (\<lambda>kv. key_name (fst kv)) kvs"
    "\<forall>e \<in> set (int_entries now tag k kvs). disk_accepts (st, m) e"
    "\<forall>(key, v) \<in> set kvs. \<exists>e \<in> set (int_entries now tag k kvs). entry_key e = key \<and>
       (\<exists>r. record_of m e = Some r \<and> mr_value r = Whole v)"
proof -
  have "map (\<lambda>e. key_name (entry_key e)) (int_entries now tag k kvs) = map (\<lambda>kv. key_name (fst kv)) kvs \<and>
    (\<forall>e \<in> set (int_entries now tag k kvs). disk_accepts (st, m) e) \<and>
    (\<forall>(key, v) \<in> set kvs. \<exists>e \<in> set (int_entries now tag k kvs). entry_key e = key \<and>
       (\<exists>r. record_of m e = Some r \<and> mr_value r = Whole v))"
    using assms(1)
  proof (induction kvs arbitrary: k)
    case (Cons kv kvs)
    obtain key v where kv: "kv = (key, v)" by (cases kv)
    with Cons.prems have "good_key key" by simp
    note facts = int_entry_facts(2) [OF this assms(2), where v = v and tag = tag and now = "now k"]
      int_entry_facts(3,4) [OF this assms(2), where v = v and tag = tag and now = "now k" and m = m]
    from Cons kv facts show ?case by fastforce
  qed simp
  then show "map (\<lambda>e. key_name (entry_key e)) (int_entries now tag k kvs) = map (\<lambda>kv. key_name (fst kv)) kvs"
    "\<forall>e \<in> set (int_entries now tag k kvs). disk_accepts (st, m) e"
    "\<forall>(key, v) \<in> set kvs. \<exists>e \<in> set (int_entries now tag k kvs). entry_key e = key \<and>
       (\<exists>r. record_of m e = Some r \<and> mr_value r = Whole v)"
    by blast+
qed

text \<open>The slot of a key holds an integer, and \<open>metadata_store_get_int64\<close> reads it.\<close>

definition holds_int :: "metadata_store \<Rightarrow> mem \<Rightarrow> files \<Rightarrow> string \<Rightarrow> u64 \<Rightarrow> bool" where
  "holds_int st m fs key v \<longleftrightarrow> (\<exists>r. disk_view (st, m) fs (key_name key) = Some r \<and> mr_value r = Whole v)"

lemma meta_value_whole: "meta_value m e = Some (Whole v) \<Longrightarrow> me_type e = META_TYPE_INT64 \<and> value_word e = v"
  by (auto simp: meta_value_def split: if_splits bind_splits)

lemma get_int64_holds:
  assumes "holds_int st m fs key v" "store_ok st" "reliable fe" "fresh_malloc (card (dom m)) fe" "length key < META_MAX_KEY_LEN"
  shows "metadata_store_get_int64 fe m (Some st) (Some key) old fs = Some (META_OK, v, m)"
proof -
  let ?p = "slot_path st (key_name key)"
  from assms(1) obtain r bytes where r: "fs ?p = Some bytes" "file_record bytes = Some r" "mr_value r = Whole v"
    by (auto simp: holds_int_def disk_view_def split: if_splits bind_splits)
  have open_ok: "fe_fopen_r fe ?p" using assms(3) by (simp add: reliable_def)
  from read_entry_record [of m fe ?p fs bytes, OF assms(4) open_ok r(1)] r(2) obtain e m' where
    e: "read_entry_from_file fe m ?p fs = (Inr e, m')" "record_of m' e = Some r" "release_blob e m' = m" by auto
  from e(2) r(3) have "meta_value m' e = Some (Whole v)" by (auto simp: record_of_def entry_record_def)
  then have v: "me_type e = META_TYPE_INT64" "value_word e = v" using meta_value_whole by blast+
  with e(3) have "m' = m" by (simp add: release_blob_def meta_types)
  with e(1) v assms(5) show ?thesis
    by (simp add: metadata_store_get_int64_def get_word_def metadata_store_get_def build_file_path_short)
qed

lemma put_ints_recorded:
  assumes "store_ok st" "\<forall>k. reliable (fe k)" "\<forall>kv \<in> set kvs. good_key (fst kv)"
    and "distinct (map (\<lambda>kv. key_name (fst kv)) kvs)"
  shows "\<exists>fs'. put_ints fe now m (Some st) tag kvs k fs = Some fs' \<and>
    (\<forall>(key, v) \<in> set kvs. holds_int st m fs' key v) \<and>
    (\<forall>n. n \<notin> (\<lambda>kv. key_name (fst kv)) ` set kvs \<longrightarrow> disk_view (st, m) fs' n = disk_view (st, m) fs n)"
proof -
  let ?es = "int_entries now tag k kvs"
  note es = int_entries_slots [OF assms(3,1), of now tag k]
  have slots: "(\<lambda>e. key_name (entry_key e)) ` set ?es = (\<lambda>kv. key_name (fst kv)) ` set kvs"
    using arg_cong [OF es(1), of set] by simp
  have "distinct (map (\<lambda>e. key_name (entry_key e)) ?es)" unfolding es(1) by (rule assms(4))
  from disk.put_all_lookup [OF assms(2) es(2) [of m] this, where k = k and s = fs] obtain fs' where
    fs': "put_all (\<lambda>k. disk_put (fe k) (st, m)) k ?es fs = Some fs'"
      "\<forall>e \<in> set ?es. disk_view (st, m) fs' (key_name (entry_key e)) = Some (the (record_of m e))"
      "\<forall>n. n \<notin> (\<lambda>kv. key_name (fst kv)) ` set kvs \<longrightarrow> disk_view (st, m) fs' n = disk_view (st, m) fs n"
    by (auto simp: slots)
  have "holds_int st m fs' key v" if "(key, v) \<in> set kvs" for key v
    using es(3) [of m] fs'(2) that by (fastforce simp: holds_int_def)
  with fs' show ?thesis by (auto simp: put_ints_all [OF assms(3,1)])
qed

section \<open>The entries for a task\<close>

lemma length_dec_nat: "n < 10 ^ Suc k \<Longrightarrow> length (dec_nat n) \<le> Suc k"
proof (induction k arbitrary: n)
  case 0
  then show ?case by (simp add: dec_nat.simps [of n])
next
  case (Suc k)
  have "n div 10 < 10 ^ Suc k" using Suc.prems by (simp add: div_less_iff_less_mult)
  from Suc.IH [OF this] show ?case by (subst dec_nat.simps) auto
qed

lemma length_dec_u64: "length (dec_nat (unat (x :: u64))) \<le> 20"
proof -
  have "unat x < 10 ^ Suc 19" using unsigned_less [of x, where ?'a = nat] by simp
  from length_dec_nat [OF this] show ?thesis by simp
qed

lemma dec_nat_inj: "dec_nat a = dec_nat b \<longleftrightarrow> a = b"
  using dec_nat_value by metis

lemma digit_plain: "is_digit c \<Longrightarrow> c \<noteq> CHR ''.'' \<and> c \<noteq> CHR ''/'' \<and> c \<noteq> CHR 0x5C \<and> c \<noteq> NUL"
  by (auto simp: is_digit_def)

lemma successively_no_dot: "CHR ''.'' \<notin> set s \<Longrightarrow> successively dots_apart s"
  by (induction s) (auto simp: successively_Cons dots_apart_def)

text \<open>The fields of a task's entries: short, and without dots and separators.\<close>

definition plain_part :: "string \<Rightarrow> bool" where
  "plain_part part \<longleftrightarrow> length part \<le> 20 \<and> (\<forall>c \<in> set part. c \<noteq> CHR ''.'' \<and> c \<noteq> CHR ''/'' \<and> c \<noteq> CHR 0x5C \<and> c \<noteq> NUL)"

lemma task_key_full:
  assumes "plain_part part"
  shows "task_key tid part = ''task.'' @ dec_nat (unat tid) @ ''.'' @ part" "good_key (task_key tid part)"
    "plain_key (task_key tid part)" "key_name (task_key tid part) = task_key tid part"
proof -
  let ?d = "dec_nat (unat tid)"
  have d: "c \<noteq> CHR ''.'' \<and> c \<noteq> CHR ''/'' \<and> c \<noteq> CHR 0x5C \<and> c \<noteq> NUL" if "c \<in> set ?d" for c
    using dec_nat_digits [of "unat tid"] that digit_plain by blast
  have len: "length ?d + length part \<le> 40"
    using length_dec_u64 [of tid] assms by (auto simp: plain_part_def)
  then show full: "task_key tid part = ''task.'' @ ?d @ ''.'' @ part"
    by (simp add: task_key_def KEY_BUFFER_def)
  show good: "good_key (task_key tid part)"
    using len assms d unfolding full by (auto simp: good_key_def meta_sizes plain_part_def)
  have "successively dots_apart (?d @ ''.'' @ part)"
  proof -
    have "successively dots_apart ?d" using d by (intro successively_no_dot) blast
    moreover have "last ?d \<noteq> CHR ''.''" using d [of "last ?d"] by simp
    moreover have "CHR ''.'' \<notin> set part" using assms by (auto simp: plain_part_def)
    then have "successively dots_apart (CHR ''.'' # part)"
      using successively_no_dot [of part] by (cases part) (auto simp: dots_apart_def)
    ultimately show ?thesis by (simp add: successively_append_iff dots_apart_def)
  qed
  moreover have "hd (?d @ ''.'' @ part) \<noteq> CHR ''.''" using d [of "hd ?d"] by simp
  ultimately have "successively dots_apart (''task.'' @ ?d @ ''.'' @ part)"
    by (simp add: successively_Cons dots_apart_def)
  then show plain: "plain_key (task_key tid part)"
    using assms d unfolding full by (auto simp: plain_key_def plain_part_def)
  show "key_name (task_key tid part) = task_key tid part"
    using key_name_plain [OF plain] good by (simp add: good_key_def)
qed

lemma task_key_inj:
  assumes "plain_part p" "plain_part p'"
  shows "task_key tid p = task_key tid' p' \<longleftrightarrow> tid = tid' \<and> p = p'"
proof
  assume eq: "task_key tid p = task_key tid' p'"
  let ?d = "dec_nat (unat tid)" and ?d' = "dec_nat (unat tid')"
  from eq have e: "?d @ CHR ''.'' # p = ?d' @ CHR ''.'' # p'" by (simp add: task_key_full(1) assms)
  have tw: "takeWhile is_digit (dec_nat n @ CHR ''.'' # r) = dec_nat n" for n r
    using dec_nat_digits [of n] by (simp add: takeWhile_append is_digit_def) 
  have "?d = ?d'" using arg_cong [OF e, of "takeWhile is_digit"] unfolding tw .
  with e show "tid = tid' \<and> p = p'" by (simp add: dec_nat_inj word_unat_eq_iff)
qed simp

definition task_parts :: "string list" where
  "task_parts = [''model_id'', ''status'', ''exec_time_us'', ''queue_time_us'', ''worker_id'']"

lemma task_parts_plain: "part \<in> set task_parts \<Longrightarrow> plain_part part"
  by (auto simp: task_parts_def plain_part_def)

text \<open>
  \<open>metadata_store_task_info\<close>: the five entries of the task hold what it was given, and the slots of
  all other keys, those of other tasks among them, are untouched.
\<close>

lemma task_info_holds:
  assumes "store_ok st" "\<forall>k. reliable (fe k)"
  shows "\<exists>fs'. metadata_store_task_info fe now m (Some st) tid mid status exec_us queue_us wid fs = Some (META_OK, fs') \<and>
    (\<forall>(key, v) \<in> set (task_ints tid mid status exec_us queue_us wid). holds_int st m fs' key v) \<and>
    (\<forall>n. n \<notin> task_key tid ` set task_parts \<longrightarrow> disk_view (st, m) fs' n = disk_view (st, m) fs n)"
proof -
  let ?kvs = "task_ints tid mid status exec_us queue_us wid"
  note full = task_key_full [OF task_parts_plain]
  have keys: "map fst ?kvs = map (task_key tid) task_parts" by (simp add: task_ints_def task_parts_def)
  have good: "\<forall>kv \<in> set ?kvs. good_key (fst kv)"
  proof
    fix kv assume "kv \<in> set ?kvs"
    then have "fst kv \<in> set (map fst ?kvs)" by simp
    then show "good_key (fst kv)" unfolding keys using full(2) by auto
  qed
  have names: "map (\<lambda>kv. key_name (fst kv)) ?kvs = map (task_key tid) task_parts"
  proof -
    have "map (\<lambda>kv. key_name (fst kv)) ?kvs = map key_name (map fst ?kvs)" by simp
    also have "\<dots> = map (task_key tid) task_parts" unfolding keys using full(4) by simp
    finally show ?thesis .
  qed
  have "distinct (map (task_key tid) task_parts)"
    by (auto simp: distinct_map inj_on_def task_key_inj task_parts_plain) (simp add: task_parts_def)
  then have distinct: "distinct (map (\<lambda>kv. key_name (fst kv)) ?kvs)" unfolding names .
  have image: "(\<lambda>kv. key_name (fst kv)) ` set ?kvs = task_key tid ` set task_parts"
    using arg_cong [OF names, of set] by simp
  from put_ints_recorded [OF assms good distinct, of now m "Some ''task''" 0 fs] show ?thesis
    unfolding image metadata_store_task_info_def by auto
qed

end
