(* ===== verification/Metadata_Query.thy ===== *)
theory Metadata_Query
  imports Metadata_Tasks
begin

text \<open>
  Queries: what \<open>metadata_store_query\<close> delivers, in terms of the records of the files.
\<close>

definition buffer_str :: "char list \<Rightarrow> string" where
  "buffer_str buf = takeWhile (\<lambda>c. c \<noteq> NUL) buf"

fun value_type :: "meta_value \<Rightarrow> u32" where
  "value_type (Text s) = META_TYPE_STRING"
| "value_type (Whole v) = META_TYPE_INT64"
| "value_type (Floating v) = META_TYPE_DOUBLE"
| "value_type (Moment v) = META_TYPE_TIMESTAMP"
| "value_type (Blob b) = META_TYPE_BLOB"

text \<open>A record as the put operations write it: terminated strings and a tag count within the array.\<close>

definition record_ok :: "meta_record \<Rightarrow> bool" where
  "record_ok r \<longleftrightarrow> NUL \<in> set (mr_key r) \<and> (\<forall>row \<in> set (mr_tags r). NUL \<in> set row) \<and>
     sint (mr_tag_count r) \<le> int (length (mr_tags r))"

definition query_ok :: "metadata_query \<Rightarrow> bool" where
  "query_ok q \<longleftrightarrow> (\<forall>p. mq_key_prefix q = Some p \<longrightarrow> NUL \<notin> set p) \<and> (\<forall>t. mq_tag q = Some t \<longrightarrow> NUL \<notin> set t)"

definition record_match :: "metadata_query \<Rightarrow> meta_record \<Rightarrow> bool" where
  "record_match q r \<longleftrightarrow>
     (\<forall>p. mq_key_prefix q = Some p \<longrightarrow> take (length p) (buffer_str (mr_key r)) = p) \<and>
     value_type (mr_value r) = mq_type q \<and>
     (\<forall>t. mq_tag q = Some t \<longrightarrow> t \<in> buffer_str ` set (take (nat (sint (mr_tag_count r))) (mr_tags r))) \<and>
     (mq_created_after q > 0 \<longrightarrow> mq_created_after q \<le> sint (mr_created r)) \<and>
     (mq_created_before q > 0 \<longrightarrow> sint (mr_created r) \<le> mq_created_before q)"

text \<open>The entries that the typed put operations build are such records.\<close>

lemma make_entry_record_ok:
  assumes "make_entry type key bytes tag now = Some e" "NUL \<in> set (me_key e)"
  shows "record_ok (entry_record e v)"
proof -
  let ?zero = "replicate META_MAX_TAGS (replicate META_MAX_TAG_LEN NUL)"
  have tags: "(me_tags e = ?zero \<and> me_tag_count e = 0) \<or>
      (\<exists>row. me_tags e = ?zero[0 := row] \<and> NUL \<in> set row \<and> me_tag_count e = 1)"
    using assms(1) by (cases tag) (auto intro!: exI simp: make_entry_def Let_def set_value_def zero_entry_def c_strncpy_def
        meta_sizes split: bind_splits if_splits)
  then have "\<forall>row \<in> set (me_tags e). NUL \<in> set row"
    by (auto simp: meta_sizes dest!: set_update_subset_insert [THEN subsetD])
  with tags assms(2) show ?thesis by (auto simp: record_ok_def entry_record_def meta_sizes)
qed

lemma buffer_equals_str:
  "NUL \<in> set buf \<Longrightarrow> NUL \<notin> set s \<Longrightarrow> buffer_equals buf s = Some (buffer_str buf = s)"
  by (induction buf s rule: buffer_equals.induct) (auto simp: buffer_str_def)

lemma buffer_has_prefix_str:
  "NUL \<in> set buf \<Longrightarrow> NUL \<notin> set p \<Longrightarrow> buffer_has_prefix buf p = Some (take (length p) (buffer_str buf) = p)"
  by (induction buf p rule: buffer_has_prefix.induct) (auto simp: buffer_str_def)

lemma tag_found_rows:
  assumes "\<forall>row \<in> set rows. NUL \<in> set row" "NUL \<notin> set t" "n \<le> length rows"
  shows "tag_found n rows t = Some (t \<in> buffer_str ` set (take n rows))"
  using assms
proof (induction n rows t rule: tag_found.induct)
  case (3 n row rows t)
  then show ?case by (auto simp: buffer_equals_str)
qed auto

lemma meta_value_type: "meta_value m e = Some v \<Longrightarrow> value_type v = me_type e"
  by (auto simp: meta_value_def split: if_splits bind_splits)

lemma query_match_record:
  assumes "record_of m e = Some r" "record_ok r" "query_ok q"
  shows "query_match (Some q) e = Some (record_match q r)"
proof -
  from assms(1) obtain v where v: "meta_value m e = Some v" "r = entry_record e v" by (auto simp: record_of_def)
  have t: "mr_key r = me_key e" "mr_tags r = me_tags e" "mr_tag_count r = me_tag_count e" "mr_created r = me_created e"
    "value_type (mr_value r) = me_type e"
    using meta_value_type [OF v(1)] by (simp_all add: v(2) entry_record_def)
  have key: "(case mq_key_prefix q of None \<Rightarrow> Some True | Some p \<Rightarrow> buffer_has_prefix (me_key e) p)
      = Some (\<forall>p. mq_key_prefix q = Some p \<longrightarrow> take (length p) (buffer_str (me_key e)) = p)"
    using assms(2,3) by (auto simp: record_ok_def query_ok_def t buffer_has_prefix_str split: option.split)
  have tags: "(case mq_tag q of None \<Rightarrow> Some True | Some t \<Rightarrow> tag_found (nat (sint (me_tag_count e))) (me_tags e) t)
      = Some (\<forall>t. mq_tag q = Some t \<longrightarrow> t \<in> buffer_str ` set (take (nat (sint (me_tag_count e))) (me_tags e)))"
    using assms(2,3) by (auto simp: record_ok_def query_ok_def t tag_found_rows split: option.split)
  show ?thesis
    unfolding query_match_def record_match_def t option.case key
    by (auto simp: tags)
qed

section \<open>The loop\<close>

definition query_path :: "metadata_store \<Rightarrow> string \<Rightarrow> string" where
  "query_path st name = take (PATH_BUFFER - 1) (ms_path st @ ''/'' @ name)"

text \<open>The records of the directory, in the order in which it is read.\<close>

definition dir_record :: "metadata_store \<Rightarrow> files \<Rightarrow> string \<Rightarrow> meta_record option" where
  "dir_record st fs name = (if is_meta_name name then Option.bind (fs (query_path st name)) file_record else None)"

definition matches :: "metadata_query option \<Rightarrow> meta_record \<Rightarrow> bool" where
  "matches q r = (case q of None \<Rightarrow> True | Some q \<Rightarrow> record_match q r)"

lemma query_match_matches:
  assumes "record_of m e = Some r" "record_ok r" "\<forall>q'. q = Some q' \<longrightarrow> query_ok q'"
  shows "query_match q e = Some (matches q r)"
  using assms by (cases q) (auto simp: matches_def query_match_record query_match_def [of None])

lemma release_blob_le: "release_blob e m' = m \<Longrightarrow> m \<subseteq>\<^sub>m m'"
  by (auto simp: release_blob_def map_le_def split: if_splits)

lemma release_blob_card: "release_blob e m' = m \<Longrightarrow> card (dom m') \<le> Suc (card (dom m))"
proof -
  assume "release_blob e m' = m"
  then have "dom m' \<subseteq> insert (blob_data e) (dom m)" by (auto simp: release_blob_def split: if_splits)
  then have "card (dom m') \<le> card (insert (blob_data e) (dom m))" by (simp add: card_mono)
  also have "\<dots> \<le> Suc (card (dom m))" by (rule card_insert_le_m1) simp_all
  finally show ?thesis .
qed

lemma fresh_malloc_mono: "fresh_malloc k fe \<Longrightarrow> j \<le> k \<Longrightarrow> fresh_malloc j fe"
  by (simp add: fresh_malloc_def)

lemma record_of_mono: "record_of m e = Some r \<Longrightarrow> m \<subseteq>\<^sub>m m' \<Longrightarrow> record_of m' e = Some r"
proof -
  assume r: "record_of m e = Some r" and le: "m \<subseteq>\<^sub>m m'"
  have "m' p = Some b" if "m p = Some b" for p b using le that by (metis domI map_le_def)
  with r show ?thesis
    by (auto simp: record_of_def meta_value_def deref_def split: if_splits bind_splits)
qed

lemma read_dir_entry:
  assumes "reliable fe" "fresh_malloc (card (dom m)) fe" "is_meta_name name"
  shows "case dir_record st fs name of
      None \<Rightarrow> \<exists>rc. read_entry_from_file fe m (query_path st name) fs = (Inl rc, m)
    | Some r \<Rightarrow> \<exists>e m'. read_entry_from_file fe m (query_path st name) fs = (Inr e, m') \<and>
        record_of m' e = Some r \<and> release_blob e m' = m"
proof (cases "fs (query_path st name)")
  case None
  then show ?thesis using assms(3) by (simp add: dir_record_def read_entry_from_file_def)
next
  case (Some bytes)
  have "fe_fopen_r fe (query_path st name)" using assms(1) by (simp add: reliable_def)
  from read_entry_record [of m fe "query_path st name" fs bytes, OF assms(2) this Some] Some assms(3) show ?thesis
    by (auto simp: dir_record_def split: option.splits)
qed

text \<open>One name of the directory: a name without a record is skipped, a record is kept or given back.\<close>

lemma query_loop_skip:
  assumes "reliable fe" "fresh_malloc (card (dom m)) fe" "dir_record st fs name = None"
  shows "query_loop fe st q fs (name # names) n m = (if n = 0 then Some ([], m) else query_loop fe st q fs names n m)"
  using assms read_dir_entry [OF assms(1,2), where name = name and st = st and fs = fs] by (auto simp: query_path_def)

lemma query_loop_record:
  assumes "reliable fe" "fresh_malloc (card (dom m)) fe" "\<forall>q'. q = Some q' \<longrightarrow> query_ok q'"
    and r: "dir_record st fs name = Some r" "record_ok r" and n: "n \<noteq> 0"
  obtains e m' where "record_of m' e = Some r" "release_blob e m' = m"
    "query_loop fe st q fs (name # names) n m =
       (if matches q r then do { (es, m'') \<leftarrow> query_loop fe st q fs names (n - 1) m'; Some (e # es, m'') }
        else query_loop fe st q fs names n m)"
proof -
  have meta: "is_meta_name name" using r(1) by (auto simp: dir_record_def split: if_splits)
  then have dots: "name \<noteq> ''.''" "name \<noteq> ''..''" by (auto simp: is_meta_name_def)
  from read_dir_entry [OF assms(1,2) meta, where st = st and fs = fs] r(1) obtain e m' where
    e: "read_entry_from_file fe m (query_path st name) fs = (Inr e, m')" "record_of m' e = Some r" "release_blob e m' = m"
    by auto
  have "query_match q e = Some (matches q r)" using query_match_matches [OF e(2) r(2) assms(3)] by simp
  with n meta dots e(1,3) show thesis
    by (intro that [OF e(2,3)]) (simp add: query_path_def release_blob_def)
qed

lemma query_loop_records:
  assumes "reliable fe" "fresh_malloc k fe" "\<forall>q'. q = Some q' \<longrightarrow> query_ok q'"
    and "\<forall>name \<in> set names. \<forall>r. dir_record st fs name = Some r \<longrightarrow> record_ok r" "card (dom m) + length names \<le> k"
  shows "\<exists>es m'. query_loop fe st q fs names n m = Some (es, m') \<and> m \<subseteq>\<^sub>m m' \<and>
    map (record_of m') es = map Some (take n (filter (matches q) (List.map_filter (dir_record st fs) names)))"
  using assms(4,5)
proof (induction names arbitrary: n m)
  case Nil
  then show ?case by (simp add: List.map_filter_simps)
next
  case (Cons name names)
  have ih: "\<exists>es m'. query_loop fe st q fs names n m = Some (es, m') \<and> m \<subseteq>\<^sub>m m' \<and>
    map (record_of m') es = map Some (take n (filter (matches q) (List.map_filter (dir_record st fs) names)))"
    if "card (dom m) + length names \<le> k" for n m
    by (rule Cons.IH) (use Cons.prems that in simp_all)
  have fresh: "fresh_malloc (card (dom m)) fe" using fresh_malloc_mono [OF assms(2)] Cons.prems(2) by simp
  consider "n = 0" | (skip) "n \<noteq> 0" "dir_record st fs name = None"
    | (found) r where "n \<noteq> 0" "dir_record st fs name = Some r" by blast
  then show ?case
  proof cases
    case skip
    have "query_loop fe st q fs (name # names) n m = query_loop fe st q fs names n m"
      unfolding query_loop_skip [OF assms(1) fresh skip(2)] using skip(1) by simp
    with ih [of m n] Cons.prems(2) skip(2) show ?thesis by (simp add: List.map_filter_simps)
  next
    case found
    from Cons.prems(1) found(2) have "record_ok r" by simp
    from query_loop_record [OF assms(1) fresh assms(3) found(2) this found(1)] obtain e m' where
      e: "record_of m' e = Some r" "release_blob e m' = m" and
      step: "query_loop fe st q fs (name # names) n m =
        (if matches q r then do { (es, m'') \<leftarrow> query_loop fe st q fs names (n - 1) m'; Some (e # es, m'') }
         else query_loop fe st q fs names n m)" .
    show ?thesis
    proof (cases "matches q r")
      case True
      from ih [of m' "n - 1"] release_blob_card [OF e(2)] Cons.prems(2) obtain es m'' where
        l: "query_loop fe st q fs names (n - 1) m' = Some (es, m'')" "m' \<subseteq>\<^sub>m m''"
          "map (record_of m'') es = map Some (take (n - 1) (filter (matches q) (List.map_filter (dir_record st fs) names)))"
        by auto
      have "m \<subseteq>\<^sub>m m''" using release_blob_le [OF e(2)] l(2) by (rule map_le_trans)
      with True step l record_of_mono [OF e(1) l(2)] found show ?thesis
        by (cases n) (auto simp: List.map_filter_simps)
    next
      case False
      with step ih [of m n] Cons.prems(2) found show ?thesis by (simp add: List.map_filter_simps)
    qed
  qed simp
qed

text \<open>A query without results gives back all memory.\<close>

lemma query_loop_nothing:
  assumes "reliable fe" "fresh_malloc (card (dom m)) fe" "query_loop fe st q fs names n m = Some ([], m')"
  shows "m' = m"
  using assms(3)
proof (induction names)
  case (Cons name names)
  show ?case
  proof (cases "n = 0 \<or> \<not> is_meta_name name")
    case True
    with Cons show ?thesis by (auto split: if_splits)
  next
    case False
    then have meta: "is_meta_name name" "n \<noteq> 0" by simp_all
    then have dots: "name \<noteq> ''.''" "name \<noteq> ''..''" by (auto simp: is_meta_name_def)
    from read_dir_entry [OF assms(1,2) meta(1), of st fs] Cons meta dots show ?thesis
      by (fastforce simp: query_path_def release_blob_def split: option.splits bind_splits if_splits prod.splits)
  qed
qed simp

text \<open>
  The query of the documentation for entries of any type, with \<open>-1\<close> as the type, finds
  nothing: the number is compared as an unsigned one, so that the filter is never off, and no entry
  has that type.
\<close>

theorem query_any_type_finds_nothing:
  assumes "reliable fe" "fresh_malloc (card (dom m) + length names) fe" "query_ok q" "mq_type q = -1"
    and "\<forall>name \<in> set names. \<forall>r. dir_record st fs name = Some r \<longrightarrow> record_ok r"
  shows "metadata_store_query fe m (Some st) (Some q) True max_results (Some names) fs = Some (META_OK, [], m)"
proof -
  have "value_type v \<noteq> -1" for v by (cases v) (simp_all add: meta_types)
  then have none: "filter (matches (Some q)) rs = []" for rs
    using assms(4) by (auto simp: matches_def record_match_def filter_empty_conv)
  have "\<forall>q'. Some q = Some q' \<longrightarrow> query_ok q'" using assms(3) by simp
  from query_loop_records [OF assms(1,2) this assms(5) order.refl, where n = "unat max_results"] none obtain m' where
    "query_loop fe st (Some q) fs names (unat max_results) m = Some ([], m')" by auto
  moreover from query_loop_nothing [OF assms(1) _ this] have "m' = m" using fresh_malloc_mono [OF assms(2)] by simp
  ultimately show ?thesis by (simp add: metadata_store_query_def)
qed

end
