(* ===== verification/Metadata_Typed.thy ===== *)
theory Metadata_Typed
  imports Metadata_Query
begin

text \<open>
  The typed put and get operations of the metadata store: what was put under a key is read back by the
  get operation of its type, and refused by the others.
\<close>

section \<open>Values in slots\<close>

definition slot_value :: "metadata_store \<Rightarrow> mem \<Rightarrow> files \<Rightarrow> string \<Rightarrow> meta_value option" where
  "slot_value st m fs key = map_option mr_value (disk_view (st, m) fs (key_name key))"

text \<open>Files as the put operations write them.\<close>

definition files_ok :: "files \<Rightarrow> bool" where
  "files_ok fs \<longleftrightarrow> (\<forall>p bytes r. fs p = Some bytes \<longrightarrow> file_record bytes = Some r \<longrightarrow> record_ok r)"

lemma files_ok_dir: "files_ok fs \<Longrightarrow> dir_record st fs name = Some r \<Longrightarrow> record_ok r"
  by (auto simp: files_ok_def dir_record_def split: if_splits bind_splits)

lemma put_made:
  assumes "store_ok st" "reliable fe" "good_key key" "length bytes \<le> META_MAX_VALUE_LEN"
    and "make_entry type key bytes tag now = Some e" "meta_value m e = Some v"
  obtains fs' where "metadata_store_put fe m (Some st) (Some e) fs = Some (META_OK, fs')"
    "disk_view (st, m) fs' = (disk_view (st, m) fs)(key_name key \<mapsto> entry_record e v)"
    "files_ok fs \<longrightarrow> files_ok fs'"
proof -
  have e: "entry_wf e" "NUL \<in> set (me_key e)" "entry_key e = key"
    using make_entry_ok [OF assms(3,4), of type tag now] assms(5) by auto
  have acc: "disk_accepts (st, m) e"
    using assms e by (simp add: disk_accepts_def record_of_def good_key_def)
  from put_ok [OF assms(2) acc, of fs] obtain b where
    put: "metadata_store_put fe m (Some st) (Some e) fs = Some (META_OK, fs(slot_path st (key_name key) \<mapsto> b))"
      "file_record b = record_of m e" unfolding e(3) by blast
  have "disk_view (st, m) (fs(slot_path st (key_name key) \<mapsto> b)) = (disk_view (st, m) fs)(key_name key \<mapsto> entry_record e v)"
    using disk.put_view [OF assms(2) acc, of fs] put(1) assms(6) by (simp add: disk_put_def record_of_def e(3))
  moreover have "record_ok (entry_record e v)" using make_entry_record_ok [OF assms(5) e(2)] .
  then have "files_ok fs \<longrightarrow> files_ok (fs(slot_path st (key_name key) \<mapsto> b))"
    using put(2) assms(6) by (auto simp: files_ok_def record_of_def)
  ultimately show thesis using put(1) by (intro that)
qed

text \<open>
  \<open>metadata_store_get\<close> on a slot that holds a value: an entry of that value, and no memory is left
  behind unless the value is a blob.
\<close>

lemma get_slot:
  assumes "slot_value st m fs key = Some v" "store_ok st" "reliable fe" "fresh_malloc (card (dom m)) fe"
    and "length key < META_MAX_KEY_LEN" "\<And>b. v \<noteq> Blob b"
  obtains e where "metadata_store_get fe m (Some st) (Some key) True fs = Some (Inr e, m)" "meta_value m e = Some v"
    "me_type e = value_type v"
proof -
  let ?p = "slot_path st (key_name key)"
  from assms(1) obtain r bytes where r: "fs ?p = Some bytes" "file_record bytes = Some r" "mr_value r = v"
    by (auto simp: slot_value_def disk_view_def split: if_splits bind_splits)
  have open_ok: "fe_fopen_r fe ?p" using assms(3) by (simp add: reliable_def)
  from read_entry_record [of m fe ?p fs bytes, OF assms(4) open_ok r(1)] r(2) obtain e m' where
    e: "read_entry_from_file fe m ?p fs = (Inr e, m')" "record_of m' e = Some r" "release_blob e m' = m" by auto
  from e(2) r(3) have v: "meta_value m' e = Some v" by (auto simp: record_of_def entry_record_def)
  have t: "me_type e = value_type v" using meta_value_type [OF v] by simp
  then have "me_type e \<noteq> META_TYPE_BLOB" using assms(6) by (cases v) (auto simp: meta_types)
  with e(3) have "m' = m" by (simp add: release_blob_def)
  with e(1) v t assms(5) show thesis
    by (intro that [of e]) (simp_all add: metadata_store_get_def build_file_path_short)
qed

section \<open>Strings\<close>

lemma strncpy_cut: "c_strncpy buf s n = c_strncpy buf (take n s) n"
  by (simp add: c_strncpy_def min_def)

lemma put_string_ok:
  assumes "store_ok st" "reliable fe" "good_key key" "NUL \<notin> set v"
  obtains fs' b r where "metadata_store_put_string fe m (Some st) key v tag now fs = Some (META_OK, fs')"
    "disk_view (st, m) fs' = (disk_view (st, m) fs)(key_name key \<mapsto> r)" "mr_value r = Text b"
    "NUL \<in> set b" "takeWhile (\<lambda>c. c \<noteq> NUL) b = take (META_MAX_VALUE_LEN - 1) v" "files_ok fs \<longrightarrow> files_ok fs'"
proof -
  let ?v = "take (META_MAX_VALUE_LEN - 1) v"
  have "length ?v < META_MAX_VALUE_LEN" "NUL \<notin> set ?v" using assms(4) by (auto simp: meta_sizes dest: in_set_takeD)
  from buffer_key [OF this] obtain b where
    b: "c_strncpy (replicate META_MAX_VALUE_LEN NUL) v (META_MAX_VALUE_LEN - 1) = Some b" "length b = META_MAX_VALUE_LEN"
      "NUL \<in> set b" "takeWhile (\<lambda>c. c \<noteq> NUL) b = ?v"
    using strncpy_cut [of "replicate META_MAX_VALUE_LEN NUL" v "META_MAX_VALUE_LEN - 1"] by auto
  have len: "length (map byte_of_char b) \<le> META_MAX_VALUE_LEN" using b(2) by simp
  from make_entry_ok [OF assms(3) len, of META_TYPE_STRING tag now] obtain e where
    e: "make_entry META_TYPE_STRING key (map byte_of_char b) tag now = Some e" "me_type e = META_TYPE_STRING"
      "me_value e = me_value (set_value (map byte_of_char b) zero_entry)" by auto
  have "value_string e = b"
    using set_value_string [of "map byte_of_char b" zero_entry] e(3) b(2)
    by (simp add: value_string_def zero_entry_def o_def)
  then have v: "meta_value m e = Some (Text b)" using e(2) by (simp add: meta_value_def)
  obtain fs' where "metadata_store_put fe m (Some st) (Some e) fs = Some (META_OK, fs')"
    "disk_view (st, m) fs' = (disk_view (st, m) fs)(key_name key \<mapsto> entry_record e (Text b))" "files_ok fs \<longrightarrow> files_ok fs'"
    by (rule put_made [OF assms(1-3) len e(1) v])
  with b e(1) show thesis
    by (intro that [of fs' "entry_record e (Text b)" b]) (simp_all add: metadata_store_put_string_def entry_record_def)
qed

lemma c_str_strncpy:
  assumes "NUL \<notin> set s" "0 < n" "n \<le> length buf"
  obtains b where "c_strncpy buf s (n - 1) = Some b" "length b = length buf" "c_str (b[n - 1 := NUL]) = Some (take (n - 1) s)"
proof -
  let ?front = "take (n - 1) (s @ replicate (n - 1) NUL)"
  let ?b = "?front @ drop (n - 1) buf"
  have len: "length ?front = n - 1" "length ?b = length buf" using assms(3) by auto
  have "drop (n - 1) buf \<noteq> []" using assms(2,3) by simp
  then obtain c cs where c: "drop (n - 1) buf = c # cs" by (cases "drop (n - 1) buf") auto
  have upd: "?b[n - 1 := NUL] = ?front @ NUL # cs"
    using list_update_length [of ?front c cs NUL] unfolding len(1) c .
  have "c_str (?front @ NUL # cs) = Some (takeWhile (\<lambda>c. c \<noteq> NUL) ?front)"
    by (auto simp: c_str_def takeWhile_append)
  also have "takeWhile (\<lambda>c. c \<noteq> NUL) ?front = take (n - 1) s"
  proof (cases "n - 1 \<le> length s")
    case True
    then show ?thesis using assms(1) by (auto simp: takeWhile_eq_all_conv dest: in_set_takeD)
  next
    case False
    then show ?thesis using assms(1) by (simp add: takeWhile_append)
  qed
  finally have "c_str (?b[n - 1 := NUL]) = Some (take (n - 1) s)" unfolding upd .
  with len(2) show thesis using assms(3) by (intro that [of ?b]) (simp_all add: c_strncpy_def)
qed

lemma get_string_ok:
  assumes "slot_value st m fs key = Some (Text b)" "NUL \<in> set b" "store_ok st" "reliable fe" "fresh_malloc (card (dom m)) fe"
    and "length key < META_MAX_KEY_LEN" "0 < n" "n \<le> length buf"
  obtains buf' where "metadata_store_get_string fe m (Some st) (Some key) buf n fs = Some (META_OK, buf', m)"
    "c_str buf' = Some (take (n - 1) (takeWhile (\<lambda>c. c \<noteq> NUL) b))"
proof -
  obtain e where e: "metadata_store_get fe m (Some st) (Some key) True fs = Some (Inr e, m)" "meta_value m e = Some (Text b)"
      "me_type e = META_TYPE_STRING"
    using get_slot [OF assms(1,3-6)] by auto
  then have v: "value_string e = b" by (simp add: meta_value_def)
  have "NUL \<notin> set (takeWhile (\<lambda>c. c \<noteq> NUL) b)" by (auto dest: set_takeWhileD)
  from c_str_strncpy [OF this assms(7,8)] obtain b' where
    "c_strncpy buf (takeWhile (\<lambda>c. c \<noteq> NUL) b) (n - 1) = Some b'"
    "c_str (b'[n - 1 := NUL]) = Some (take (n - 1) (takeWhile (\<lambda>c. c \<noteq> NUL) b))" by blast
  with e v assms(2,7,8) show thesis
    by (intro that [of "b'[n - 1 := NUL]"]) (simp_all add: metadata_store_get_string_def)
qed

section \<open>Numbers\<close>

lemma put_word:
  assumes "store_ok st" "reliable fe" "good_key key"
    and "\<And>e. me_type e = type \<Longrightarrow> value_word e = v \<Longrightarrow> meta_value m e = Some val"
  obtains e fs' where "make_entry type key (le_enc 8 v) tag now = Some e"
    "metadata_store_put fe m (Some st) (Some e) fs = Some (META_OK, fs')"
    "disk_view (st, m) fs' = (disk_view (st, m) fs)(key_name key \<mapsto> entry_record e val)" "files_ok fs \<longrightarrow> files_ok fs'"
proof -
  have len: "length (le_enc 8 v) \<le> META_MAX_VALUE_LEN" by (simp add: meta_sizes)
  from make_entry_ok [OF assms(3) len, of type tag now] obtain e where
    e: "make_entry type key (le_enc 8 v) tag now = Some e" "me_type e = type"
      "me_value e = me_value (set_value (le_enc 8 v) zero_entry)" by auto
  have "value_word e = v"
    using set_value_word [of "le_enc 8 v" zero_entry] e(3) by (simp add: value_word_def le_roundtrip)
  then have "meta_value m e = Some val" using assms(4) e(2) by blast
  with put_made [OF assms(1-3) len e(1)] e(1) that show thesis by blast
qed

lemma put_int64_ok:
  assumes "store_ok st" "reliable fe" "good_key key"
  obtains fs' r where "metadata_store_put_int64 fe m (Some st) key v tag now fs = Some (META_OK, fs')"
    "disk_view (st, m) fs' = (disk_view (st, m) fs)(key_name key \<mapsto> r)" "mr_value r = Whole v" "files_ok fs \<longrightarrow> files_ok fs'"
proof -
  have "meta_value m e = Some (Whole v)" if "me_type e = META_TYPE_INT64" "value_word e = v" for e
    using that by (simp add: meta_value_def meta_types)
  then obtain e fs' where "make_entry META_TYPE_INT64 key (le_enc 8 v) tag now = Some e"
    "metadata_store_put fe m (Some st) (Some e) fs = Some (META_OK, fs')"
    "disk_view (st, m) fs' = (disk_view (st, m) fs)(key_name key \<mapsto> entry_record e (Whole v))" "files_ok fs \<longrightarrow> files_ok fs'"
    by (rule put_word [OF assms])
  then show thesis
    by (intro that [of fs' "entry_record e (Whole v)"]) (simp_all add: metadata_store_put_int64_def entry_record_def)
qed

lemma put_double_ok:
  assumes "store_ok st" "reliable fe" "good_key key"
  obtains fs' r where "metadata_store_put_double fe m (Some st) key v tag now fs = Some (META_OK, fs')"
    "disk_view (st, m) fs' = (disk_view (st, m) fs)(key_name key \<mapsto> r)" "mr_value r = Floating v" "files_ok fs \<longrightarrow> files_ok fs'"
proof -
  have "meta_value m e = Some (Floating v)" if "me_type e = META_TYPE_DOUBLE" "value_word e = v" for e
    using that by (simp add: meta_value_def meta_types)
  then obtain e fs' where "make_entry META_TYPE_DOUBLE key (le_enc 8 v) tag now = Some e"
    "metadata_store_put fe m (Some st) (Some e) fs = Some (META_OK, fs')"
    "disk_view (st, m) fs' = (disk_view (st, m) fs)(key_name key \<mapsto> entry_record e (Floating v))" "files_ok fs \<longrightarrow> files_ok fs'"
    by (rule put_word [OF assms])
  then show thesis
    by (intro that [of fs' "entry_record e (Floating v)"]) (simp_all add: metadata_store_put_double_def entry_record_def)
qed

lemma get_word_ok:
  assumes "slot_value st m fs key = Some val" "store_ok st" "reliable fe" "fresh_malloc (card (dom m)) fe"
    and "length key < META_MAX_KEY_LEN"
  shows "val = Whole v \<Longrightarrow> metadata_store_get_int64 fe m (Some st) (Some key) old fs = Some (META_OK, v, m)"
    "val = Floating v \<Longrightarrow> metadata_store_get_double fe m (Some st) (Some key) old fs = Some (META_OK, v, m)"
proof -
  have "\<exists>e. metadata_store_get fe m (Some st) (Some key) True fs = Some (Inr e, m) \<and> meta_value m e = Some val \<and>
      me_type e = value_type val" if "\<And>b. val \<noteq> Blob b"
    using get_slot [OF assms that] by blast
  then show "val = Whole v \<Longrightarrow> metadata_store_get_int64 fe m (Some st) (Some key) old fs = Some (META_OK, v, m)"
    "val = Floating v \<Longrightarrow> metadata_store_get_double fe m (Some st) (Some key) old fs = Some (META_OK, v, m)"
    by (auto simp: metadata_store_get_int64_def metadata_store_get_double_def get_word_def meta_value_def meta_types)
qed

text \<open>A value of another type is refused, and the caller's variable is not touched.\<close>

lemma get_wrong_type:
  assumes "slot_value st m fs key = Some val" "store_ok st" "reliable fe" "fresh_malloc (card (dom m)) fe"
    and "length key < META_MAX_KEY_LEN" "\<And>b. val \<noteq> Blob b"
  shows "value_type val \<noteq> META_TYPE_STRING \<Longrightarrow>
      metadata_store_get_string fe m (Some st) (Some key) buf n fs = Some (META_ERR_INVALID_ARG, buf, m)"
    "value_type val \<noteq> META_TYPE_INT64 \<Longrightarrow>
      metadata_store_get_int64 fe m (Some st) (Some key) old fs = Some (META_ERR_INVALID_ARG, old, m)"
    "value_type val \<noteq> META_TYPE_DOUBLE \<Longrightarrow>
      metadata_store_get_double fe m (Some st) (Some key) old fs = Some (META_ERR_INVALID_ARG, old, m)"
proof -
  obtain e where "metadata_store_get fe m (Some st) (Some key) True fs = Some (Inr e, m)" "me_type e = value_type val"
    using get_slot [OF assms] by metis
  then show "value_type val \<noteq> META_TYPE_STRING \<Longrightarrow>
      metadata_store_get_string fe m (Some st) (Some key) buf n fs = Some (META_ERR_INVALID_ARG, buf, m)"
    "value_type val \<noteq> META_TYPE_INT64 \<Longrightarrow>
      metadata_store_get_int64 fe m (Some st) (Some key) old fs = Some (META_ERR_INVALID_ARG, old, m)"
    "value_type val \<noteq> META_TYPE_DOUBLE \<Longrightarrow>
      metadata_store_get_double fe m (Some st) (Some key) old fs = Some (META_ERR_INVALID_ARG, old, m)"
    by (simp_all add: metadata_store_get_string_def metadata_store_get_int64_def metadata_store_get_double_def get_word_def)
qed

end
