(* ===== verification/Transport.thy ===== *)
theory Transport
  imports Byte_Layout
begin

text \<open>
  \<open>src/net/transport.h\<close> and \<open>transport.c\<close>: the message envelope and the dispatcher over a
  table of backend functions.
\<close>

section \<open>Data\<close>

datatype transport_type = TRANSPORT_TYPE_MPI | TRANSPORT_TYPE_ZMQ

fun transport_type_value :: "transport_type \<Rightarrow> c_int" where
  "transport_type_value TRANSPORT_TYPE_MPI = 0"
| "transport_type_value TRANSPORT_TYPE_ZMQ = 1"

datatype transport_role = TRANSPORT_ROLE_COORDINATOR | TRANSPORT_ROLE_WORKER

record message_header =
  h_magic :: u32
  h_version :: u16
  h_msg_type :: u16
  h_task_id :: u64
  h_payload_len :: u32

text \<open>The payload is \<open>None\<close> for a NULL pointer, otherwise the bytes of the allocated block.\<close>

record message_t =
  m_header :: message_header
  m_payload :: "u8 list option"
  m_payload_capacity :: size_t

record transport_config =
  tc_type :: c_int
  tc_role :: transport_role
  tc_endpoint :: "string option"
  tc_timeout_ms :: c_int
  tc_max_workers :: c_int

record transport_stats =
  ts_messages_sent :: u64
  ts_messages_received :: u64
  ts_bytes_sent :: u64
  ts_bytes_received :: u64
  ts_errors :: u64

definition zero_transport_stats :: transport_stats where
  "zero_transport_stats = \<lparr>ts_messages_sent = 0, ts_messages_received = 0, ts_bytes_sent = 0,
     ts_bytes_received = 0, ts_errors = 0\<rparr>"

definition ENVELOPE_VERSION :: u16 where "ENVELOPE_VERSION = 1"

section \<open>The bytes of the header\<close>

text \<open>The header is packed: no padding, 20 bytes.\<close>

definition sizeof_header :: nat where "sizeof_header = 20"

definition header_bytes :: "message_header \<Rightarrow> u8 list" where
  "header_bytes h = le_enc 4 (h_magic h) @ le_enc 2 (h_version h) @ le_enc 2 (h_msg_type h) @
     le_enc 8 (h_task_id h) @ le_enc 4 (h_payload_len h)"

definition header_of_bytes :: "u8 list \<Rightarrow> message_header" where
  "header_of_bytes bs = \<lparr>h_magic = rd32 0 bs, h_version = rd16 4 bs, h_msg_type = rd16 6 bs,
     h_task_id = rd64 8 bs, h_payload_len = rd32 16 bs\<rparr>"

lemma length_header_bytes [simp]: "length (header_bytes h) = sizeof_header"
  by (simp add: header_bytes_def sizeof_header_def)

lemma header_roundtrip [simp]: "header_of_bytes (header_bytes h) = h"
  by (simp add: header_of_bytes_def header_bytes_def rd_defs le_roundtrip)

section \<open>Messages\<close>

text \<open>
  \<open>calloc_ok\<close> says whether the envelope is allocated, \<open>block\<close> is what \<open>malloc\<close> returns for the
  payload: NULL, or a block with arbitrary contents.
\<close>

definition message_alloc :: "size_t \<Rightarrow> bool \<Rightarrow> u8 list option \<Rightarrow> message_t option" where
  "message_alloc payload_capacity calloc_ok block =
     (if \<not> calloc_ok then None
      else if payload_capacity > 0 \<and> block = None then None
      else Some \<lparr>m_header = \<lparr>h_magic = MESSAGE_MAGIC, h_version = ENVELOPE_VERSION, h_msg_type = 0,
          h_task_id = 0, h_payload_len = 0\<rparr>,
        m_payload = (if payload_capacity > 0 then block else None),
        m_payload_capacity = payload_capacity\<rparr>)"

definition message_set_header :: "message_t option \<Rightarrow> u16 \<Rightarrow> u64 \<Rightarrow> message_t option" where
  "message_set_header msg msg_type task_id =
     map_option (\<lambda>m. m\<lparr>m_header := (m_header m)\<lparr>h_msg_type := msg_type, h_task_id := task_id\<rparr>\<rparr>) msg"

definition message_validate :: "message_t option \<Rightarrow> c_int" where
  "message_validate msg =
     (case msg of
        None \<Rightarrow> -1
      | Some m \<Rightarrow>
          if h_magic (m_header m) \<noteq> MESSAGE_MAGIC then -2
          else if h_version (m_header m) \<noteq> ENVELOPE_VERSION then -3
          else if ucast (h_payload_len (m_header m)) > m_payload_capacity m then -4
          else 0)"

text \<open>
  A message that owns its memory: a payload block is there exactly when the capacity is not zero,
  and has that many bytes.
\<close>

definition message_wf :: "message_t \<Rightarrow> bool" where
  "message_wf m \<longleftrightarrow>
     (case m_payload m of
        None \<Rightarrow> m_payload_capacity m = 0
      | Some bs \<Rightarrow> m_payload_capacity m \<noteq> 0 \<and> length bs = unat (m_payload_capacity m))"

lemma message_alloc_wf:
  assumes "message_alloc n ok block = Some m" "\<And>bs. block = Some bs \<Longrightarrow> length bs = unat n"
  shows "message_wf m" "message_validate (Some m) = 0" "m_payload_capacity m = n"
  using assms
  by (auto simp: message_alloc_def message_wf_def message_validate_def word_gt_0
      split: if_splits option.splits)

text \<open>A valid message has all the bytes its header announces.\<close>

lemma message_valid_payload:
  assumes "message_validate (Some m) = 0" "message_wf m" "h_payload_len (m_header m) \<noteq> 0"
  obtains bs where "m_payload m = Some bs" "unat (h_payload_len (m_header m)) \<le> length bs"
proof -
  let ?len = "h_payload_len (m_header m)"
  have le: "ucast ?len \<le> m_payload_capacity m"
    using assms(1) by (auto simp: message_validate_def not_less split: if_splits)
  then have un: "unat ?len \<le> unat (m_payload_capacity m)"
    by (simp add: word_le_nat_alt)
  have "unat ?len \<noteq> 0" using assms(3) by (simp add: unat_eq_zero)
  then have "m_payload_capacity m \<noteq> 0" using un by (metis le_zero_eq unat_0)
  with assms(2) un show thesis
    by (auto simp: message_wf_def intro: that split: option.splits)
qed

section \<open>The dispatcher\<close>

text \<open>
  A backend is a table of functions on its implementation state, any of which may be missing.
  Each returns its result and the new state; the outer option is the outcome.  \<open>get_stats\<close> and
  \<open>worker_count\<close>, \<open>get_rank\<close> only read.
\<close>

record 'i vtable =
  v_shutdown :: "('i option \<Rightarrow> (c_int \<times> 'i option) option) option"
  v_send :: "('i option \<Rightarrow> message_t option \<Rightarrow> c_int \<Rightarrow> (c_int \<times> 'i option) option) option"
  v_recv :: "('i option \<Rightarrow> c_int option \<Rightarrow> (message_t option \<times> c_int option \<times> 'i option) option) option"
  v_poll :: "('i option \<Rightarrow> c_int \<Rightarrow> (c_int \<times> 'i option) option) option"
  v_broadcast :: "('i option \<Rightarrow> message_t option \<Rightarrow> (c_int \<times> 'i option) option) option"
  v_get_stats :: "('i option \<Rightarrow> transport_stats option \<Rightarrow> transport_stats option) option"
  v_worker_count :: "('i option \<Rightarrow> c_int) option"
  v_get_rank :: "('i option \<Rightarrow> c_int) option"

record 'i transport =
  tr_type :: transport_type
  tr_vtable :: "'i vtable option"
  tr_impl :: "'i option"

text \<open>The backends that are compiled in are arguments; \<open>None\<close> for one that is not.\<close>

definition transport_init ::
    "(transport_config \<Rightarrow> c_int \<times> 'i transport option) option
      \<Rightarrow> (transport_config \<Rightarrow> c_int \<times> 'i transport option) option
      \<Rightarrow> bool \<Rightarrow> transport_config option \<Rightarrow> c_int \<times> 'i transport option" where
  "transport_init init_mpi init_zmq out_not_null config =
     (case config of
        None \<Rightarrow> (-1, None)
      | Some cfg \<Rightarrow>
          if \<not> out_not_null then (-1, None)
          else if tc_type cfg = transport_type_value TRANSPORT_TYPE_MPI
          then (case init_mpi of Some f \<Rightarrow> f cfg | None \<Rightarrow> (-3, None))
          else if tc_type cfg = transport_type_value TRANSPORT_TYPE_ZMQ
          then (case init_zmq of Some f \<Rightarrow> f cfg | None \<Rightarrow> (-4, None))
          else (-2, None))"

text \<open>\<open>if (!t || !t->vtable) return err; if (!vtable->f) return err; return vtable->f(t, ...)\<close>\<close>

definition dispatch ::
    "('i vtable \<Rightarrow> 'f option) \<Rightarrow> 'r \<Rightarrow> ('f \<Rightarrow> 'i option \<Rightarrow> 'r) \<Rightarrow> 'i transport option \<Rightarrow> 'r" where
  "dispatch entry err call t =
     (case t of
        None \<Rightarrow> err
      | Some tr \<Rightarrow>
          case tr_vtable tr of
            None \<Rightarrow> err
          | Some vt \<Rightarrow> (case entry vt of None \<Rightarrow> err | Some f \<Rightarrow> call f (tr_impl tr)))"

definition transport_shutdown :: "'i transport option \<Rightarrow> (c_int \<times> 'i option) option" where
  "transport_shutdown t = dispatch v_shutdown (Some (-1, Option.bind t tr_impl)) (\<lambda>f i. f i) t"

definition transport_send ::
    "'i transport option \<Rightarrow> message_t option \<Rightarrow> c_int \<Rightarrow> (c_int \<times> 'i option) option" where
  "transport_send t msg dst_rank =
     dispatch v_send (Some (-1, Option.bind t tr_impl)) (\<lambda>f i. f i msg dst_rank) t"

text \<open>\<open>src_rank\<close> is the contents of the caller's variable, \<open>None\<close> for a NULL pointer.\<close>

definition transport_recv ::
    "'i transport option \<Rightarrow> c_int option \<Rightarrow> (message_t option \<times> c_int option \<times> 'i option) option" where
  "transport_recv t src_rank =
     dispatch v_recv (Some (None, src_rank, Option.bind t tr_impl)) (\<lambda>f i. f i src_rank) t"

definition transport_poll :: "'i transport option \<Rightarrow> c_int \<Rightarrow> (c_int \<times> 'i option) option" where
  "transport_poll t timeout_ms =
     dispatch v_poll (Some (-1, Option.bind t tr_impl)) (\<lambda>f i. f i timeout_ms) t"

definition transport_broadcast :: "'i transport option \<Rightarrow> message_t option \<Rightarrow> (c_int \<times> 'i option) option" where
  "transport_broadcast t msg =
     dispatch v_broadcast (Some (-1, Option.bind t tr_impl)) (\<lambda>f i. f i msg) t"

definition transport_get_stats ::
    "'i transport option \<Rightarrow> transport_stats option \<Rightarrow> transport_stats option" where
  "transport_get_stats t stats = dispatch v_get_stats stats (\<lambda>f i. f i stats) t"

definition transport_worker_count :: "'i transport option \<Rightarrow> c_int" where
  "transport_worker_count t = dispatch v_worker_count (-1) (\<lambda>f i. f i) t"

definition transport_get_rank :: "'i transport option \<Rightarrow> c_int" where
  "transport_get_rank t = dispatch v_get_rank (-1) (\<lambda>f i. f i) t"

section \<open>Names\<close>

definition transport_type_to_string :: "c_int \<Rightarrow> string" where
  "transport_type_to_string type =
     (if type = transport_type_value TRANSPORT_TYPE_MPI then ''MPI''
      else if type = transport_type_value TRANSPORT_TYPE_ZMQ then ''ZeroMQ''
      else ''Unknown'')"

definition message_type_to_string :: "u16 \<Rightarrow> string" where
  "message_type_to_string type =
     (if type = MSG_TYPE_HEARTBEAT then ''HEARTBEAT''
      else if type = MSG_TYPE_TASK_SUBMIT then ''TASK_SUBMIT''
      else if type = MSG_TYPE_TASK_RESULT then ''TASK_RESULT''
      else if type = MSG_TYPE_TASK_CANCEL then ''TASK_CANCEL''
      else if type = MSG_TYPE_WORKER_REGISTER then ''WORKER_REGISTER''
      else if type = MSG_TYPE_WORKER_SHUTDOWN then ''WORKER_SHUTDOWN''
      else if type = MSG_TYPE_COORDINATOR_CMD then ''COORDINATOR_CMD''
      else if type = MSG_TYPE_ERROR then ''ERROR''
      else ''UNKNOWN'')"

section \<open>Messages on the wire\<close>

text \<open>The frames of a message.\<close>

definition frames :: "message_t \<Rightarrow> (u8 list \<times> bool) list" where
  "frames m =
     (let n = h_payload_len (m_header m) in
      (header_bytes (m_header m), n > 0) #
      (if n > 0 then case m_payload m of Some bs \<Rightarrow> [(take (unat n) bs, False)] | None \<Rightarrow> [] else []))"

text \<open>The message that arrives: the same header, and exactly the announced bytes.\<close>

definition delivered :: "message_t \<Rightarrow> message_t" where
  "delivered m =
     (let n = h_payload_len (m_header m) in
      m\<lparr>m_payload := (if n > 0 then map_option (take (unat n)) (m_payload m) else None),
        m_payload_capacity := ucast n\<rparr>)"

lemma delivered_exact:
  assumes "message_wf m" "m_payload_capacity m = ucast (h_payload_len (m_header m))"
  shows "delivered m = m"
proof (cases "m_payload m")
  case None
  with assms show ?thesis by (cases m) (auto simp: delivered_def Let_def message_wf_def)
next
  case (Some bs)
  then have "length bs = unat (h_payload_len (m_header m))" "m_payload_capacity m \<noteq> 0"
    using assms by (simp_all add: message_wf_def)
  moreover have "h_payload_len (m_header m) \<noteq> 0" using assms(2) calculation(2) by auto
  ultimately show ?thesis using Some assms(2) by (cases m) (simp add: delivered_def Let_def word_gt_0)
qed

text \<open>
  What a caller can rely on in a received message: it is valid, it owns its memory, and the
  payload block has exactly the announced length.
\<close>

definition complete_message :: "message_t \<Rightarrow> bool" where
  "complete_message m \<longleftrightarrow> message_validate (Some m) = 0 \<and> message_wf m \<and>
     m_payload_capacity m = ucast (h_payload_len (m_header m))"

end
