(* ===== verification/Transport_ZMQ.thy ===== *)
theory Transport_ZMQ
  imports Transport C_String Decimal
begin

text \<open>
  \<open>src/net/transport_zmq.c\<close>: the ZeroMQ backend.  The library itself is not part of the
  repository; what it does during a call is the environment record \<open>zmq_env\<close>: the outcomes of
  the coming \<open>zmq_recv\<close> calls (a whole frame or an \<open>errno\<close>; an exhausted list is a timeout),
  whether each coming \<open>zmq_send\<close> is accepted, the log of the accepted frames with their
  \<open>ZMQ_SNDMORE\<close> flag, the clock and the allocator.  Every definition takes it as part of the
  state, so it ranges over all behaviours of the library.
\<close>

section \<open>Data\<close>

definition IDENTITY_LEN :: nat where "IDENTITY_LEN = 64"
definition ENDPOINT_LEN :: nat where "ENDPOINT_LEN = 256"
definition DEFAULT_ENDPOINT :: string where "DEFAULT_ENDPOINT = ''tcp://127.0.0.1:5555''"
definition EAGAIN :: c_int where "EAGAIN = 11"

record worker_entry =
  we_identity :: "char list"
  we_last_heartbeat :: u64
  we_active :: c_int

record zmq_env =
  e_rx :: "(u8 list + c_int) list"
  e_tx :: "bool list"
  e_sent :: "(u8 list \<times> bool) list"
  e_clock :: u64
  e_poll :: "c_int + bool"
  e_setsockopt_ok :: bool
  e_calloc_ok :: bool
  e_malloc :: "size_t \<Rightarrow> u8 list option"

text \<open>
  \<open>z_workers\<close> has the live entries of the array; \<open>z_worker_lock\<close> tells whether the mutex is
  held.  The entries beyond the count are the zero bytes \<open>calloc\<close> left there.
\<close>

record zmq_transport =
  z_role :: transport_role
  z_timeout_ms :: c_int
  z_stats :: transport_stats
  z_endpoint :: "char list"
  z_workers :: "worker_entry list"
  z_worker_lock :: bool
  z_identity :: "char list"
  z_worker_id :: c_int
  z_env :: zmq_env

section \<open>Calls of the library\<close>

text \<open>\<open>zmq_send\<close>: accepted (\<open>rc \<ge> 0\<close>) or not.\<close>

definition zmq_send :: "zmq_transport \<Rightarrow> u8 list \<Rightarrow> bool \<Rightarrow> bool \<times> zmq_transport" where
  "zmq_send z bytes sndmore =
     (let e = z_env z; ok = (case e_tx e of [] \<Rightarrow> True | b # _ \<Rightarrow> b);
          e' = e\<lparr>e_tx := tl (e_tx e), e_sent := (if ok then e_sent e @ [(bytes, sndmore)] else e_sent e)\<rparr>
      in (ok, z\<lparr>z_env := e'\<rparr>))"

text \<open>
  \<open>zmq_recv\<close> into a buffer: a frame, of which the caller sees the length and as many bytes as
  fit, or an \<open>errno\<close>.
\<close>

definition zmq_recv :: "zmq_transport \<Rightarrow> (u8 list + c_int) \<times> zmq_transport" where
  "zmq_recv z =
     (let e = z_env z in
      case e_rx e of [] \<Rightarrow> (Inr EAGAIN, z) | r # rs \<Rightarrow> (r, z\<lparr>z_env := e\<lparr>e_rx := rs\<rparr>\<rparr>))"

definition count_error :: "zmq_transport \<Rightarrow> zmq_transport" where
  "count_error z = z\<lparr>z_stats := (z_stats z)\<lparr>ts_errors := ts_errors (z_stats z) + 1\<rparr>\<rparr>"

text \<open>\<open>pthread_mutex_lock\<close> of a mutex the thread already holds does not return.\<close>

definition lock :: "zmq_transport \<Rightarrow> zmq_transport option" where
  "lock z = (if z_worker_lock z then None else Some (z\<lparr>z_worker_lock := True\<rparr>))"

definition unlock :: "zmq_transport \<Rightarrow> zmq_transport" where
  "unlock z = z\<lparr>z_worker_lock := False\<rparr>"

section \<open>The registry of identities\<close>

text \<open>The index of the entry whose identity is \<open>strcmp\<close>-equal to the given buffer.\<close>

fun find_identity :: "worker_entry list \<Rightarrow> char list \<Rightarrow> nat option option" where
  "find_identity [] identity = Some None"
| "find_identity (e # es) identity = do {
     a \<leftarrow> c_str (we_identity e);
     b \<leftarrow> c_str identity;
     if a = b then Some (Some 0)
     else do { r \<leftarrow> find_identity es identity; Some (map_option Suc r) }
   }"

definition zmq_register_worker :: "zmq_transport \<Rightarrow> char list \<Rightarrow> (c_int \<times> zmq_transport) option" where
  "zmq_register_worker z0 identity = do {
     z \<leftarrow> lock z0;
     found \<leftarrow> find_identity (z_workers z) identity;
     case found of
       Some i \<Rightarrow> Some (int i, unlock (z\<lparr>z_workers := (z_workers z)
          [i := (z_workers z ! i)\<lparr>we_last_heartbeat := e_clock (z_env z), we_active := 1\<rparr>]\<rparr>))
     | None \<Rightarrow>
         if length (z_workers z) \<ge> MAX_WORKERS then Some (-1, unlock z)
         else do {
           s \<leftarrow> c_str identity;
           buf \<leftarrow> c_strncpy (replicate IDENTITY_LEN NUL) s (IDENTITY_LEN - 1);
           Some (int (length (z_workers z)), unlock (z\<lparr>z_workers := z_workers z @
             [\<lparr>we_identity = buf, we_last_heartbeat = e_clock (z_env z), we_active = 1\<rparr>]\<rparr>))
         }
   }"

definition zmq_update_heartbeat :: "zmq_transport \<Rightarrow> char list \<Rightarrow> zmq_transport option" where
  "zmq_update_heartbeat z0 identity = do {
     z \<leftarrow> lock z0;
     found \<leftarrow> find_identity (z_workers z) identity;
     case found of
       Some i \<Rightarrow> Some (unlock (z\<lparr>z_workers := (z_workers z)
          [i := (z_workers z ! i)\<lparr>we_last_heartbeat := e_clock (z_env z)\<rparr>]\<rparr>))
     | None \<Rightarrow> Some (unlock z)
   }"

section \<open>Send\<close>

text \<open>The identity frame of the coordinator: \<open>Inl\<close> is an early return.\<close>

definition send_identity :: "zmq_transport \<Rightarrow> c_int \<Rightarrow> (c_int \<times> zmq_transport + zmq_transport) option" where
  "send_identity z0 dst_rank =
     (if z_role z0 = TRANSPORT_ROLE_COORDINATOR
      then if dst_rank < 0 \<or> dst_rank \<ge> int (length (z_workers z0)) then Some (Inl (-3, z0))
        else do {
          z \<leftarrow> lock z0;
          s \<leftarrow> c_str (we_identity (z_workers z ! nat dst_rank));
          let (ok, z') = zmq_send z (map byte_of_char s) True;
          if \<not> ok then Some (Inl (-4, count_error (unlock z'))) else Some (Inr (unlock z'))
        }
      else Some (Inr z0))"

text \<open>Header and payload; the bytes of the payload must be there.\<close>

definition send_content :: "zmq_transport \<Rightarrow> message_t \<Rightarrow> (c_int \<times> zmq_transport) option" where
  "send_content z m =
     (let h = m_header m; n = unat (h_payload_len h);
          (ok, z1) = zmq_send z (header_bytes h) (h_payload_len h > 0) in
      if \<not> ok then Some (-5, count_error z1)
      else do {
        (failed, z2) \<leftarrow> (case m_payload m of
          Some bs \<Rightarrow>
            if h_payload_len h > 0
            then if n \<le> length bs
              then let (ok', z') = zmq_send z1 (take n bs) False in Some (\<not> ok', z')
              else None
            else Some (False, z1)
        | None \<Rightarrow> Some (False, z1));
        if failed then Some (-6, count_error z2)
        else Some (0, z2\<lparr>z_stats := (z_stats z2)
          \<lparr>ts_messages_sent := ts_messages_sent (z_stats z2) + 1,
           ts_bytes_sent := ts_bytes_sent (z_stats z2) + (of_nat sizeof_header + ucast (h_payload_len h))\<rparr>\<rparr>)
      })"

fun transport_zmq_send ::
    "zmq_transport option \<Rightarrow> message_t option \<Rightarrow> c_int \<Rightarrow> (c_int \<times> zmq_transport option) option" where
  "transport_zmq_send None msg dst_rank = Some (-1, None)"
| "transport_zmq_send (Some z) None dst_rank = Some (-1, Some z)"
| "transport_zmq_send (Some z) (Some m) dst_rank =
     (if message_validate (Some m) \<noteq> 0 then Some (-2, Some z)
      else do {
        r \<leftarrow> send_identity z dst_rank;
        case r of
          Inl (rc, z') \<Rightarrow> Some (rc, Some z')
        | Inr z1 \<Rightarrow> do { (rc, z') \<leftarrow> send_content z1 m; Some (rc, Some z') }
      })"

section \<open>Receive\<close>

definition receive_failed :: "c_int \<Rightarrow> zmq_transport \<Rightarrow> zmq_transport" where
  "receive_failed errno z = (if errno \<noteq> EAGAIN then count_error z else z)"

text \<open>
  The identity frame of the coordinator, into a buffer of 64 zero bytes of which 63 are offered;
  the terminator is written at the length of the frame, which is undefined behind the buffer.
\<close>

definition recv_identity :: "zmq_transport \<Rightarrow> (zmq_transport + char list \<times> nat \<times> zmq_transport) option" where
  "recv_identity z =
     (let zero = replicate IDENTITY_LEN NUL in
      if z_role z = TRANSPORT_ROLE_COORDINATOR
      then case zmq_recv z of
          (Inr errno, z') \<Rightarrow> Some (Inl (receive_failed errno z'))
        | (Inl frame, z') \<Rightarrow>
            let got = map char_of_byte (take (IDENTITY_LEN - 1) frame);
                buf = got @ drop (length got) zero
            in if length frame < IDENTITY_LEN
               then Some (Inr (buf[length frame := NUL], length frame, z')) else None
      else Some (Inr (zero, 0, z)))"

text \<open>Header, payload and validation: \<open>Inl\<close> is a return of NULL.\<close>

definition recv_content :: "zmq_transport \<Rightarrow> zmq_transport + message_t \<times> zmq_transport" where
  "recv_content z =
     (case zmq_recv z of
        (Inr errno, z1) \<Rightarrow> Inl (receive_failed errno z1)
      | (Inl frame, z1) \<Rightarrow>
          if length frame \<noteq> sizeof_header then Inl (count_error z1)
          else let header = header_of_bytes frame; len = h_payload_len header in
            case message_alloc (ucast len) (e_calloc_ok (z_env z1)) (e_malloc (z_env z1) (ucast len)) of
              None \<Rightarrow> Inl z1
            | Some m0 \<Rightarrow>
                let m = m0\<lparr>m_header := header\<rparr>;
                    r = (if len > 0
                         then case zmq_recv z1 of
                             (Inr errno, z2) \<Rightarrow> Inl (count_error z2)
                           | (Inl bytes, z2) \<Rightarrow>
                               if of_nat (length bytes) \<noteq> len then Inl (count_error z2)
                               else Inr (m\<lparr>m_payload := map_option (\<lambda>block. take (unat len) bytes @
                                 drop (length (take (unat len) bytes)) block) (m_payload m)\<rparr>, z2)
                         else Inr (m, z1))
                in case r of
                     Inl z2 \<Rightarrow> Inl z2
                   | Inr (m', z2) \<Rightarrow> if message_validate (Some m') \<noteq> 0 then Inl z2 else Inr (m', z2))"

text \<open>The coordinator's registration of the sender, and the rank it is known by.\<close>

definition recv_sender ::
    "zmq_transport \<Rightarrow> char list \<Rightarrow> nat \<Rightarrow> u16 \<Rightarrow> c_int option \<Rightarrow> (c_int option \<times> zmq_transport) option" where
  "recv_sender z identity identity_len msg_type src_rank =
     (if z_role z = TRANSPORT_ROLE_COORDINATOR \<and> identity_len > 0
      then do {
        (src1, z1) \<leftarrow>
          (if msg_type = MSG_TYPE_WORKER_REGISTER
           then do { (id, z') \<leftarrow> zmq_register_worker z identity; Some (map_option (\<lambda>_. id) src_rank, z') }
           else if msg_type = MSG_TYPE_HEARTBEAT
           then do { z' \<leftarrow> zmq_update_heartbeat z identity; Some (src_rank, z') }
           else Some (src_rank, z));
        if src1 = None then Some (src1, z1)
        else do {
          z2 \<leftarrow> lock z1;
          found \<leftarrow> find_identity (z_workers z2) identity;
          Some (case found of Some i \<Rightarrow> Some (int i) | None \<Rightarrow> src1, unlock z2)
        }
      }
      else Some (src_rank, z))"

fun transport_zmq_recv ::
    "zmq_transport option \<Rightarrow> c_int option \<Rightarrow> (message_t option \<times> c_int option \<times> zmq_transport option) option"
where
  "transport_zmq_recv None src_rank = Some (None, src_rank, None)"
| "transport_zmq_recv (Some z) src_rank =
     (if \<not> e_setsockopt_ok (z_env z) then Some (None, src_rank, Some z)
      else do {
        r \<leftarrow> recv_identity z;
        case r of
          Inl z' \<Rightarrow> Some (None, src_rank, Some z')
        | Inr (identity, identity_len, z1) \<Rightarrow>
            case recv_content z1 of
              Inl z' \<Rightarrow> Some (None, src_rank, Some z')
            | Inr (m, z2) \<Rightarrow> do {
                (src', z3) \<leftarrow> recv_sender z2 identity identity_len (h_msg_type (m_header m)) src_rank;
                let st = z_stats z3;
                Some (Some m, src', Some (z3\<lparr>z_stats := st
                  \<lparr>ts_messages_received := ts_messages_received st + 1,
                   ts_bytes_received := ts_bytes_received st +
                     (of_nat sizeof_header + ucast (h_payload_len (m_header m)))\<rparr>\<rparr>))
              }
      })"

section \<open>Poll, broadcast and queries\<close>

text \<open>\<open>e_poll\<close> is what \<open>zmq_poll\<close> does: a negative code, or whether a message is ready.\<close>

fun transport_zmq_poll :: "zmq_transport option \<Rightarrow> c_int \<Rightarrow> c_int" where
  "transport_zmq_poll None timeout_ms = -1"
| "transport_zmq_poll (Some z) timeout_ms =
     (case e_poll (z_env z) of Inl rc \<Rightarrow> -2 | Inr ready \<Rightarrow> if ready then 1 else 0)"

text \<open>The loop over the entries from index \<open>i\<close>, counting the failed sends.\<close>

fun broadcast_loop :: "zmq_transport \<Rightarrow> message_t \<Rightarrow> nat \<Rightarrow> nat \<Rightarrow> c_int \<Rightarrow> (c_int \<times> zmq_transport) option" where
  "broadcast_loop z m i 0 errors = Some (errors, z)"
| "broadcast_loop z m i (Suc n) errors =
     (if we_active (z_workers z ! i) \<noteq> 0
      then do {
        (rc, z') \<leftarrow> transport_zmq_send (Some z) (Some m) (int i);
        broadcast_loop (the z') m (Suc i) n (if rc \<noteq> 0 then errors + 1 else errors)
      }
      else broadcast_loop z m (Suc i) n errors)"

fun transport_zmq_broadcast ::
    "zmq_transport option \<Rightarrow> message_t option \<Rightarrow> (c_int \<times> zmq_transport option) option" where
  "transport_zmq_broadcast None msg = Some (-1, None)"
| "transport_zmq_broadcast (Some z) None = Some (-1, Some z)"
| "transport_zmq_broadcast (Some z) (Some m) =
     (if z_role z \<noteq> TRANSPORT_ROLE_COORDINATOR then Some (-2, Some z)
      else do {
        z1 \<leftarrow> lock z;
        (errors, z2) \<leftarrow> broadcast_loop z1 m 0 (length (z_workers z1)) 0;
        Some (if errors > 0 then -3 else 0, Some (unlock z2))
      })"

fun transport_zmq_get_stats :: "zmq_transport option \<Rightarrow> transport_stats option \<Rightarrow> transport_stats option" where
  "transport_zmq_get_stats None stats = stats"
| "transport_zmq_get_stats (Some z) None = None"
| "transport_zmq_get_stats (Some z) (Some _) = Some (z_stats z)"

fun transport_zmq_worker_count :: "zmq_transport option \<Rightarrow> c_int" where
  "transport_zmq_worker_count None = -1"
| "transport_zmq_worker_count (Some z) =
     (if z_role z \<noteq> TRANSPORT_ROLE_COORDINATOR then -2 else int (length (z_workers z)))"

fun transport_zmq_get_rank :: "zmq_transport option \<Rightarrow> c_int" where
  "transport_zmq_get_rank None = -1"
| "transport_zmq_get_rank (Some z) = z_worker_id z"

section \<open>Shutdown and initialisation\<close>

text \<open>
  A worker announces that it leaves; then the socket is closed and the transport freed.  The
  result is the return code and the environment with the frames sent last.
\<close>

fun transport_zmq_shutdown :: "zmq_transport option \<Rightarrow> c_int \<times> zmq_env option" where
  "transport_zmq_shutdown None = (-1, None)"
| "transport_zmq_shutdown (Some z) =
     (0, Some (z_env
       (if z_role z = TRANSPORT_ROLE_WORKER
        then case message_set_header (message_alloc 0 (e_calloc_ok (z_env z)) None) MSG_TYPE_WORKER_SHUTDOWN 0 of
            Some m \<Rightarrow> snd (zmq_send z (header_bytes (m_header m)) False)
          | None \<Rightarrow> z
        else z)))"

text \<open>\<open>snprintf(buf, len, "worker-%d-%lu", getpid(), time(NULL))\<close>\<close>

definition generate_identity :: "char list \<Rightarrow> nat \<Rightarrow> c_int \<Rightarrow> u64 \<Rightarrow> char list option" where
  "generate_identity buf len pid now =
     c_snprintf buf len (''worker-'' @ dec_int pid @ ''-'' @ dec_nat (unat now))"

text \<open>Which of the calls of the initialisation succeed.\<close>

record zmq_init_env =
  i_calloc_zmq :: bool
  i_ctx_new :: bool
  i_socket :: bool
  i_bind :: bool
  i_set_identity :: bool
  i_connect :: bool
  i_calloc_transport :: bool
  i_malloc_vtable :: bool
  i_pid :: c_int
  i_time :: u64

text \<open>Creating the socket of a role; the result is a code (0 for success) and the identity.\<close>

definition open_socket :: "transport_role \<Rightarrow> zmq_init_env \<Rightarrow> char list \<Rightarrow> (c_int \<times> char list) option" where
  "open_socket role ie identity =
     (if role = TRANSPORT_ROLE_COORDINATOR
      then if \<not> i_socket ie then Some (-5, identity)
        else if \<not> i_bind ie then Some (-6, identity)
        else Some (0, identity)
      else if \<not> i_socket ie then Some (-7, identity)
        else do {
          identity' \<leftarrow> generate_identity identity IDENTITY_LEN (i_pid ie) (i_time ie);
          if \<not> i_set_identity ie then Some (-8, identity')
          else if \<not> i_connect ie then Some (-9, identity')
          else Some (0, identity')
        })"

definition zmq_vtable :: "zmq_transport vtable" where
  "zmq_vtable = \<lparr>
     v_shutdown = Some (\<lambda>i. Some (fst (transport_zmq_shutdown i), None)),
     v_send = Some transport_zmq_send,
     v_recv = Some transport_zmq_recv,
     v_poll = Some (\<lambda>i timeout_ms. Some (transport_zmq_poll i timeout_ms, i)),
     v_broadcast = Some transport_zmq_broadcast,
     v_get_stats = Some transport_zmq_get_stats,
     v_worker_count = Some transport_zmq_worker_count,
     v_get_rank = Some transport_zmq_get_rank\<rparr>"

definition transport_init_zmq ::
    "zmq_init_env \<Rightarrow> zmq_env \<Rightarrow> bool \<Rightarrow> transport_config option
      \<Rightarrow> (c_int \<times> zmq_transport transport option) option" where
  "transport_init_zmq ie env out_not_null config =
     (case config of
        None \<Rightarrow> Some (-1, None)
      | Some cfg \<Rightarrow>
          if \<not> out_not_null then Some (-1, None)
          else if \<not> i_calloc_zmq ie then Some (-3, None)
          else if \<not> i_ctx_new ie then Some (-4, None)
          else do {
            endpoint \<leftarrow> c_strncpy (replicate ENDPOINT_LEN NUL)
              (case tc_endpoint cfg of Some e \<Rightarrow> e | None \<Rightarrow> DEFAULT_ENDPOINT) (ENDPOINT_LEN - 1);
            (rc, identity) \<leftarrow> open_socket (tc_role cfg) ie (replicate IDENTITY_LEN NUL);
            if rc \<noteq> 0 then Some (rc, None)
            else if \<not> i_calloc_transport ie then Some (-4, None)
            else if \<not> i_malloc_vtable ie then Some (-4, None)
            else Some (0, Some \<lparr>tr_type = TRANSPORT_TYPE_ZMQ, tr_vtable = Some zmq_vtable,
              tr_impl = Some \<lparr>z_role = tc_role cfg, z_timeout_ms = tc_timeout_ms cfg,
                z_stats = zero_transport_stats, z_endpoint = endpoint, z_workers = [],
                z_worker_lock = False, z_identity = identity, z_worker_id = 0, z_env = env\<rparr>\<rparr>)
          })"

end
