(* ===== verification/Transport_ZMQ_Props.thy ===== *)
theory Transport_ZMQ_Props
  imports Transport_ZMQ
begin

text \<open>
  The ZeroMQ backend: its registry is a list of distinct identities in which a rank never
  changes, what one side sends the other side receives, and everything a peer can put on the
  wire other than an overlong identity is handled without undefined behaviour.
\<close>

section \<open>The registry\<close>

abbreviation ident :: "worker_entry \<Rightarrow> string option" where
  "ident e \<equiv> c_str (we_identity e)"

definition zmq_inv :: "zmq_transport \<Rightarrow> bool" where
  "zmq_inv z \<longleftrightarrow>
     (\<forall>e \<in> set (z_workers z). length (we_identity e) = IDENTITY_LEN \<and> ident e \<noteq> None) \<and>
     distinct (map ident (z_workers z)) \<and> length (z_workers z) \<le> MAX_WORKERS \<and> \<not> z_worker_lock z"

text \<open>The rank under which an identity is known.\<close>

definition rank_of :: "zmq_transport \<Rightarrow> string \<Rightarrow> nat option" where
  "rank_of z s = first_index (\<lambda>e. ident e = Some s) (z_workers z)"

lemma find_identity_index:
  "c_str identity = Some s \<Longrightarrow> \<forall>e \<in> set es. ident e \<noteq> None
    \<Longrightarrow> find_identity es identity = Some (first_index (\<lambda>e. ident e = Some s) es)"
  by (induction es) auto

lemma find_identity_rank:
  "zmq_inv z \<Longrightarrow> c_str identity = Some s \<Longrightarrow> find_identity (z_workers z) identity = Some (rank_of z s)"
  unfolding rank_of_def by (rule find_identity_index) (auto simp: zmq_inv_def)

lemma lock_simps [simp]:
  "z_workers (z\<lparr>z_worker_lock := b\<rparr>) = z_workers z"
  "zmq_inv z \<Longrightarrow> lock z = Some (z\<lparr>z_worker_lock := True\<rparr>)"
  "zmq_inv z \<Longrightarrow> unlock (z\<lparr>z_worker_lock := True\<rparr>) = z"
  by (auto simp: lock_def unlock_def zmq_inv_def)

lemma rank_of_bound: "rank_of z s = Some i \<Longrightarrow> i < length (z_workers z)"
  unfolding rank_of_def using first_index_SomeD by fastforce

lemma rank_of_ident: "rank_of z s = Some i \<Longrightarrow> ident (z_workers z ! i) = Some s"
  unfolding rank_of_def using first_index_SomeD by fastforce

lemma strncpy_zero:
  assumes "NUL \<notin> set s" "length s < n"
  shows "\<exists>buf. c_strncpy (replicate n NUL) s (n - 1) = Some buf \<and> length buf = n \<and> c_str buf = Some s"
proof -
  have "take (n - 1) (s @ replicate (n - 1) NUL) @ drop (n - 1) (replicate n NUL)
      = s @ replicate (n - 1 - length s) NUL @ [NUL]"
    using assms(2) by (auto simp: min_def replicate_append_same)
  also have "\<dots> = s @ NUL # replicate (n - 1 - length s) NUL" by (simp add: replicate_append_same)
  finally show ?thesis using assms by (auto simp: c_strncpy_def)
qed

lemma first_index_append:
  "first_index P (xs @ ys) = (case first_index P xs of Some i \<Rightarrow> Some i
     | None \<Rightarrow> map_option (\<lambda>i. i + length xs) (first_index P ys))"
  by (induction xs) (auto simp: option.map_comp o_def option.map_ident split: option.splits)

lemma first_index_map: "first_index P (map f xs) = first_index (P \<circ> f) xs"
  by (induction xs) auto

lemma rank_of_map: "rank_of z s = first_index (\<lambda>x. x = Some s) (map ident (z_workers z))"
  by (simp add: rank_of_def first_index_map o_def)

text \<open>An update of an entry that leaves its identity alone.\<close>

lemma update_entry:
  assumes "zmq_inv z" "we_identity e = we_identity (z_workers z ! i)" "i < length (z_workers z)"
  shows "zmq_inv (z\<lparr>z_workers := (z_workers z)[i := e]\<rparr>)"
    "rank_of (z\<lparr>z_workers := (z_workers z)[i := e]\<rparr>) = rank_of z"
proof -
  have m: "map ident ((z_workers z)[i := e]) = map ident (z_workers z)"
    using assms(2,3) map_update_same [of i "z_workers z" ident] by (simp add: map_update)
  show "rank_of (z\<lparr>z_workers := (z_workers z)[i := e]\<rparr>) = rank_of z"
    by (simp add: fun_eq_iff rank_of_map m)
  have "\<forall>e' \<in> set ((z_workers z)[i := e]). length (we_identity e') = IDENTITY_LEN \<and> ident e' \<noteq> None"
    using assms set_update_subset_insert [of "z_workers z" i e] nth_mem [OF assms(3)]
    by (auto simp: zmq_inv_def dest!: subsetD)
  with assms(1) m show "zmq_inv (z\<lparr>z_workers := (z_workers z)[i := e]\<rparr>)"
    by (simp add: zmq_inv_def)
qed

text \<open>
  Registration returns the rank of the identity: the old one, or the next free one, or \<open>-1\<close> when
  the registry is full.
\<close>

lemma register_known:
  assumes "zmq_inv z" "c_str identity = Some s" "rank_of z s = Some i"
  obtains z' where "zmq_register_worker z identity = Some (int i, z')" "zmq_inv z'"
    "rank_of z' = rank_of z" "z_env z' = z_env z" "z_role z' = z_role z" "z_stats z' = z_stats z"
proof -
  let ?e = "(z_workers z ! i)\<lparr>we_last_heartbeat := e_clock (z_env z), we_active := 1\<rparr>"
  let ?z = "z\<lparr>z_workers := (z_workers z)[i := ?e]\<rparr>"
  note upd = update_entry [OF assms(1) _ rank_of_bound [OF assms(3)], of ?e]
  have "zmq_register_worker z identity = Some (int i, ?z)"
    using find_identity_rank [OF assms(1,2)] assms(1,3)
    by (simp add: zmq_register_worker_def unlock_def zmq_inv_def)
  then show thesis using upd by (rule that) simp_all
qed

lemma register_no_room:
  assumes "zmq_inv z" "c_str identity = Some s" "rank_of z s = None" "length (z_workers z) = MAX_WORKERS"
  shows "zmq_register_worker z identity = Some (-1, z)"
  using find_identity_rank [OF assms(1,2)] assms by (simp add: zmq_register_worker_def)

lemma register_new:
  assumes "zmq_inv z" "c_str identity = Some s" "rank_of z s = None" "length (z_workers z) < MAX_WORKERS"
    "length s < IDENTITY_LEN"
  obtains z' where "zmq_register_worker z identity = Some (int (length (z_workers z)), z')" "zmq_inv z'"
    "rank_of z' = (rank_of z)(s \<mapsto> length (z_workers z))" "z_env z' = z_env z" "z_role z' = z_role z"
    "z_stats z' = z_stats z"
proof -
  from strncpy_zero [OF c_str_no_NUL [OF assms(2)] assms(5)] obtain buf where
    buf: "c_strncpy (replicate IDENTITY_LEN NUL) s (IDENTITY_LEN - 1) = Some buf"
      "length buf = IDENTITY_LEN" "c_str buf = Some s"
    by blast
  let ?e = "\<lparr>we_identity = buf, we_last_heartbeat = e_clock (z_env z), we_active = 1\<rparr>"
  let ?z = "z\<lparr>z_workers := z_workers z @ [?e]\<rparr>"
  have new: "Some s \<notin> set (map ident (z_workers z))"
    using assms(3) by (auto simp: rank_of_def first_index_None)
  show thesis
  proof (rule that [of ?z])
    show "zmq_register_worker z identity = Some (int (length (z_workers z)), ?z)"
      using find_identity_rank [OF assms(1,2)] assms buf
      by (simp add: zmq_register_worker_def unlock_def zmq_inv_def)
    show "zmq_inv ?z" using assms(1,4) buf new by (auto simp: zmq_inv_def)
    show "rank_of ?z = (rank_of z)(s \<mapsto> length (z_workers z))"
      using assms(3) buf(3)
      by (auto simp: fun_eq_iff rank_of_def first_index_append split: option.split)
  qed simp_all
qed

text \<open>Ranks are only ever added.\<close>

lemma register_ranks:
  assumes "zmq_inv z" "c_str identity = Some s" "length s < IDENTITY_LEN"
  obtains rc z' where "zmq_register_worker z identity = Some (rc, z')" "zmq_inv z'"
    "rank_of z \<subseteq>\<^sub>m rank_of z'" "rc = (case rank_of z' s of Some i \<Rightarrow> int i | None \<Rightarrow> -1)"
    "z_env z' = z_env z" "z_role z' = z_role z" "z_stats z' = z_stats z"
proof (cases "rank_of z s")
  case None
  show thesis
  proof (cases "length (z_workers z) < MAX_WORKERS")
    case True
    from register_new [OF assms(1,2) None True assms(3)] obtain z' where
      z': "zmq_register_worker z identity = Some (int (length (z_workers z)), z')" "zmq_inv z'"
        "rank_of z' = (rank_of z)(s \<mapsto> length (z_workers z))" "z_env z' = z_env z"
        "z_role z' = z_role z" "z_stats z' = z_stats z" .
    have "rank_of z \<subseteq>\<^sub>m rank_of z'" using z'(3) None by (auto simp: map_le_def)
    from that [OF z'(1,2) this _ z'(4-6)] z'(3) show thesis by simp
  next
    case False
    then have "length (z_workers z) = MAX_WORKERS" using assms(1) by (simp add: zmq_inv_def)
    from register_no_room [OF assms(1,2) None this] assms(1) None show thesis by (intro that) auto
  qed
next
  case (Some i)
  from register_known [OF assms(1,2) Some] Some show thesis by (metis that map_le_refl option.simps(5))
qed

lemma heartbeat_ranks:
  assumes "zmq_inv z" "c_str identity = Some s"
  obtains z' where "zmq_update_heartbeat z identity = Some z'" "zmq_inv z'" "rank_of z' = rank_of z"
    "z_env z' = z_env z" "z_role z' = z_role z" "z_stats z' = z_stats z"
proof (cases "rank_of z s")
  case None
  with find_identity_rank [OF assms] assms(1) show thesis
    by (intro that [of z]) (simp_all add: zmq_update_heartbeat_def)
next
  case (Some i)
  let ?e = "(z_workers z ! i)\<lparr>we_last_heartbeat := e_clock (z_env z)\<rparr>"
  note upd = update_entry [OF assms(1) _ rank_of_bound [OF Some], of ?e]
  have "zmq_update_heartbeat z identity = Some (z\<lparr>z_workers := (z_workers z)[i := ?e]\<rparr>)"
    using find_identity_rank [OF assms] assms(1) Some
    by (simp add: zmq_update_heartbeat_def unlock_def zmq_inv_def)
  then show thesis using upd by (rule that) simp_all
qed

section \<open>The sender of a message\<close>

text \<open>
  The rank reported for a sender with a valid identity: its rank in the registry after the call,
  and whatever the variable held before when the sender is unknown (\<open>-1\<close> for a registration that
  found no room).
\<close>

definition reported_rank :: "zmq_transport \<Rightarrow> string \<Rightarrow> u16 \<Rightarrow> c_int \<Rightarrow> c_int" where
  "reported_rank z s msg_type old =
     (case rank_of z s of
        Some i \<Rightarrow> int i
      | None \<Rightarrow> if msg_type = MSG_TYPE_WORKER_REGISTER then -1 else old)"

lemma recv_sender_ok:
  assumes inv: "zmq_inv z" and s: "c_str identity = Some s" "length s < IDENTITY_LEN"
    and coord: "z_role z = TRANSPORT_ROLE_COORDINATOR" and len: "0 < identity_len"
  obtains z' where "recv_sender z identity identity_len mt (Some old) = Some (Some (reported_rank z' s mt old), z')"
    "zmq_inv z'" "rank_of z \<subseteq>\<^sub>m rank_of z'" "z_env z' = z_env z" "z_stats z' = z_stats z"
    "z_role z' = z_role z"
    "mt = MSG_TYPE_WORKER_REGISTER \<and> length (z_workers z) < MAX_WORKERS \<longrightarrow> rank_of z' s \<noteq> None"
proof -
  have tail: "do { z2 \<leftarrow> lock z1; found \<leftarrow> find_identity (z_workers z2) identity;
        Some (case found of Some i \<Rightarrow> Some (int i) | None \<Rightarrow> Some r, unlock z2) }
      = Some (Some (case rank_of z1 s of Some i \<Rightarrow> int i | None \<Rightarrow> r), z1)" if "zmq_inv z1" for z1 r
    using find_identity_rank [OF that s(1)] that by (auto split: option.split)
  consider (reg) "mt = MSG_TYPE_WORKER_REGISTER" | (hb) "mt = MSG_TYPE_HEARTBEAT"
      "mt \<noteq> MSG_TYPE_WORKER_REGISTER" | (other) "mt \<noteq> MSG_TYPE_WORKER_REGISTER" "mt \<noteq> MSG_TYPE_HEARTBEAT"
    by blast
  then show thesis
  proof cases
    case reg
    from register_ranks [OF inv s] obtain rc z1 where
      z1: "zmq_register_worker z identity = Some (rc, z1)" "zmq_inv z1" "rank_of z \<subseteq>\<^sub>m rank_of z1"
        "rc = (case rank_of z1 s of Some i \<Rightarrow> int i | None \<Rightarrow> -1)" "z_env z1 = z_env z"
        "z_role z1 = z_role z" "z_stats z1 = z_stats z" .
    have known: "rank_of z1 s \<noteq> None" if "length (z_workers z) < MAX_WORKERS"
    proof (cases "rank_of z s")
      case None
      from register_new [OF inv s(1) None that s(2)] z1(1) show ?thesis by (metis fun_upd_same option.inject option.simps(3) prod.inject)
    next
      case (Some i)
      with z1(3) show ?thesis by (auto simp: map_le_def dom_def)
    qed
    show thesis
    proof (rule that [of z1])
      show "recv_sender z identity identity_len mt (Some old) = Some (Some (reported_rank z1 s mt old), z1)"
        using reg z1(1,4) tail [OF z1(2), of rc] coord len
        by (auto simp: recv_sender_def reported_rank_def split: option.splits)
    qed (use z1 known in simp_all)
  next
    case hb
    from heartbeat_ranks [OF inv s(1)] obtain z1 where
      z1: "zmq_update_heartbeat z identity = Some z1" "zmq_inv z1" "rank_of z1 = rank_of z"
        "z_env z1 = z_env z" "z_role z1 = z_role z" "z_stats z1 = z_stats z" .
    show thesis
    proof (rule that [of z1])
      show "recv_sender z identity identity_len mt (Some old) = Some (Some (reported_rank z1 s mt old), z1)"
        using hb z1(1) tail [OF z1(2), of old] coord len
        by (simp add: recv_sender_def reported_rank_def)
    qed (use z1 hb in \<open>simp_all\<close>)
  next
    case other
    show thesis
    proof (rule that [of z])
      show "recv_sender z identity identity_len mt (Some old) = Some (Some (reported_rank z s mt old), z)"
        using other tail [OF inv, of old] coord len by (simp add: recv_sender_def reported_rank_def)
    qed (use inv other in simp_all)
  qed
qed

section \<open>Round trip\<close>

lemma send_content_frames:
  assumes "message_validate (Some m) = 0" "message_wf m" "e_tx (z_env z) = []"
  obtains z' where "send_content z m = Some (0, z')" "e_sent (z_env z') = e_sent (z_env z) @ frames m"
    "z_workers z' = z_workers z" "z_worker_lock z' = z_worker_lock z"
    "ts_messages_sent (z_stats z') = ts_messages_sent (z_stats z) + 1" "e_tx (z_env z') = []"
    "z_role z' = z_role z" "z_env z' = (z_env z)\<lparr>e_tx := [], e_sent := e_sent (z_env z) @ frames m\<rparr>"
proof -
  let ?st = "(z_stats z)\<lparr>ts_messages_sent := ts_messages_sent (z_stats z) + 1,
    ts_bytes_sent := ts_bytes_sent (z_stats z) +
      (of_nat sizeof_header + ucast (h_payload_len (m_header m)))\<rparr>"
  let ?z = "z\<lparr>z_env := (z_env z)\<lparr>e_tx := [], e_sent := e_sent (z_env z) @ frames m\<rparr>, z_stats := ?st\<rparr>"
  have "send_content z m = Some (0, ?z)"
  proof (cases "h_payload_len (m_header m) = 0")
    case True
    with assms(3) show ?thesis
      by (auto simp: send_content_def frames_def zmq_send_def Let_def split: option.split)
  next
    case False
    from message_valid_payload [OF assms(1,2) False] obtain bs where
      "m_payload m = Some bs" "unat (h_payload_len (m_header m)) \<le> length bs" .
    with False assms(3) show ?thesis
      by (simp add: send_content_def frames_def zmq_send_def Let_def word_gt_0)
  qed
  then show thesis by (rule that) simp_all
qed

text \<open>The allocator serves a request of \<open>n\<close> bytes with a block of that size.\<close>

definition malloc_serves :: "zmq_env \<Rightarrow> size_t \<Rightarrow> bool" where
  "malloc_serves e n \<longleftrightarrow> (\<exists>block. e_malloc e n = Some block \<and> length block = unat n)"

lemma recv_content_frames:
  assumes m: "message_validate (Some m) = 0" "message_wf m"
    and rx: "e_rx (z_env z) = map (Inl \<circ> fst) (frames m) @ rest"
    and alloc: "e_calloc_ok (z_env z)" "malloc_serves (z_env z) (ucast (h_payload_len (m_header m)))"
  shows "recv_content z = Inr (delivered m, z\<lparr>z_env := (z_env z)\<lparr>e_rx := rest\<rparr>\<rparr>)"
proof (cases "h_payload_len (m_header m) = 0")
  case True
  with assms show ?thesis
    by (cases m) (auto simp: recv_content_def frames_def zmq_recv_def Let_def message_alloc_def
        delivered_def message_validate_def split: if_splits)
next
  case False
  from message_valid_payload [OF m False] obtain bs where
    bs: "m_payload m = Some bs" "unat (h_payload_len (m_header m)) \<le> length bs" .
  obtain block where block: "e_malloc (z_env z) (ucast (h_payload_len (m_header m))) = Some block"
      "length block = unat (h_payload_len (m_header m))"
    using alloc(2) by (auto simp: malloc_serves_def)
  have pos: "(ucast (h_payload_len (m_header m)) :: 64 word) > 0"
    using False by (simp add: word_gt_0 flip: unat_eq_zero)
  have hdr: "h_magic (m_header m) = MESSAGE_MAGIC" "h_version (m_header m) = ENVELOPE_VERSION"
    using m(1) by (auto simp: message_validate_def split: if_splits)
  show ?thesis
    using bs block pos hdr False rx alloc(1)
    by (cases m) (simp add: recv_content_def frames_def zmq_recv_def message_alloc_def
        delivered_def message_validate_def word_gt_0 min_def Let_def)
qed

section \<open>Receiving anything\<close>

definition allocator_ok :: "zmq_env \<Rightarrow> bool" where
  "allocator_ok e \<longleftrightarrow> (\<forall>n block. e_malloc e n = Some block \<longrightarrow> length block = unat n)"

lemma zmq_recv_frame:
  "z_workers (snd (zmq_recv z)) = z_workers z" "z_role (snd (zmq_recv z)) = z_role z"
  "z_worker_lock (snd (zmq_recv z)) = z_worker_lock z"
  "e_malloc (z_env (snd (zmq_recv z))) = e_malloc (z_env z)"
  by (simp_all add: zmq_recv_def Let_def split: list.split)

lemma count_error_simps [simp]:
  "z_workers (count_error z) = z_workers z" "z_role (count_error z) = z_role z"
  "z_worker_lock (count_error z) = z_worker_lock z" "z_env (count_error z) = z_env z"
  by (simp_all add: count_error_def)

lemma receive_failed_simps [simp]:
  "z_workers (receive_failed e z) = z_workers z" "z_role (receive_failed e z) = z_role z"
  "z_worker_lock (receive_failed e z) = z_worker_lock z"
  by (simp_all add: receive_failed_def)

text \<open>Two states with the same registry.\<close>

definition same_registry :: "zmq_transport \<Rightarrow> zmq_transport \<Rightarrow> bool" where
  "same_registry z z' \<longleftrightarrow> z_workers z' = z_workers z \<and> z_role z' = z_role z \<and>
     z_worker_lock z' = z_worker_lock z"

lemma same_registryD:
  "same_registry z z' \<Longrightarrow> zmq_inv z' = zmq_inv z" "same_registry z z' \<Longrightarrow> rank_of z' = rank_of z"
  by (auto simp: same_registry_def zmq_inv_def rank_of_def fun_eq_iff)

lemma zmq_recv_registry: "zmq_recv z = (r, z') \<Longrightarrow> same_registry z z' \<and> e_malloc (z_env z') = e_malloc (z_env z)"
  using zmq_recv_frame [of z] by (simp add: same_registry_def)

lemma recv_content_registry:
  assumes "recv_content z = Inl z' \<or> recv_content z = Inr (m, z')"
  shows "same_registry z z'"
  using assms zmq_recv_registry
  by (auto simp: recv_content_def Let_def same_registry_def
      split: prod.splits sum.splits if_splits option.splits)

lemma recv_content_complete:
  assumes "allocator_ok (z_env z)" "recv_content z = Inr (m, z')"
  shows "complete_message m"
proof -
  obtain frame z1 where f: "zmq_recv z = (Inl frame, z1)" "length frame = sizeof_header"
    using assms(2) by (auto simp: recv_content_def Let_def split: prod.splits sum.splits if_splits)
  let ?h = "header_of_bytes frame"
  let ?len = "h_payload_len ?h"
  have al: "allocator_ok (z_env z1)"
    using assms(1) zmq_recv_registry [OF f(1)] by (simp add: allocator_ok_def)
  obtain m0 where m0: "message_alloc (ucast ?len) (e_calloc_ok (z_env z1)) (e_malloc (z_env z1) (ucast ?len)) = Some m0"
    using assms(2) f by (auto simp: recv_content_def Let_def split: option.splits)
  have wf: "message_wf m0" "m_payload_capacity m0 = ucast ?len"
    using message_alloc_wf [OF m0] al by (auto simp: allocator_ok_def)
  have valid: "message_validate (Some m) = 0" "m_header m = ?h" "m_payload_capacity m = m_payload_capacity m0"
    "m_payload m = m_payload m0 \<or> (\<exists>bytes. of_nat (length bytes) = ?len \<and>
       m_payload m = map_option (\<lambda>block. take (unat ?len) bytes @ drop (length (take (unat ?len) bytes)) block) (m_payload m0))"
    using assms(2) f m0
    by (auto simp: recv_content_def Let_def split: option.splits if_splits prod.splits sum.splits)
  have "message_wf m" using valid(3,4) wf by (auto simp: message_wf_def split: option.splits)
  with valid wf show ?thesis by (simp add: complete_message_def)
qed

text \<open>The identity a frame stands for.\<close>

definition frame_identity :: "u8 list \<Rightarrow> string" where
  "frame_identity frame = takeWhile (\<lambda>c. c \<noteq> NUL) (map char_of_byte frame)"

lemma recv_identity_frame:
  assumes "z_role z = TRANSPORT_ROLE_COORDINATOR" "zmq_recv z = (Inl frame, z')"
    "length frame < IDENTITY_LEN"
  obtains buf where "recv_identity z = Some (Inr (buf, length frame, z'))"
    "c_str buf = Some (frame_identity frame)" "length (frame_identity frame) < IDENTITY_LEN"
proof -
  let ?got = "map char_of_byte frame"
  let ?buf = "?got @ replicate (IDENTITY_LEN - length frame) NUL"
  have rep: "replicate (IDENTITY_LEN - length frame) NUL = NUL # replicate (IDENTITY_LEN - length frame - 1) NUL"
    using assms(3) by (metis Suc_diff_1 replicate_Suc zero_less_diff)
  have same: "?buf[length frame := NUL] = ?buf" by (simp add: list_update_append rep)
  have "take (IDENTITY_LEN - 1) frame = frame" using assms(3) by simp
  then have "recv_identity z = Some (Inr (?buf, length frame, z'))"
    using assms same by (simp add: recv_identity_def Let_def)
  moreover have "c_str ?buf = Some (frame_identity frame)"
    by (auto simp: c_str_def frame_identity_def rep takeWhile_append takeWhile_eq_all_conv [THEN iffD2])
  moreover have "length (frame_identity frame) < IDENTITY_LEN"
    using assms(3) length_takeWhile_le [of "\<lambda>c. c \<noteq> NUL" ?got] by (simp add: frame_identity_def)
  ultimately show thesis by (rule that)
qed

text \<open>
  Whatever arrives, a call returns, the registry stays well formed, no rank changes, and what is
  handed to the caller is complete; the one condition is on the length of the identity frame.
\<close>

definition identity_fits :: "zmq_transport \<Rightarrow> bool" where
  "identity_fits z \<longleftrightarrow>
     (z_role z = TRANSPORT_ROLE_COORDINATOR \<longrightarrow>
        (\<forall>frame z'. zmq_recv z = (Inl frame, z') \<longrightarrow> length frame < IDENTITY_LEN))"

lemma recv_identity_cases:
  assumes "identity_fits z"
  obtains z' where "recv_identity z = Some (Inl z')" "same_registry z z'"
  | buf n s z' where "recv_identity z = Some (Inr (buf, n, z'))" "same_registry z z'"
      "c_str buf = Some s" "length s < IDENTITY_LEN" "e_malloc (z_env z') = e_malloc (z_env z)"
proof (cases "z_role z = TRANSPORT_ROLE_COORDINATOR")
  case False
  then have "recv_identity z = Some (Inr (replicate IDENTITY_LEN NUL, 0, z))"
    by (simp add: recv_identity_def)
  then show thesis
    by (rule that(2) [of _ _ _ "[]"]) (simp_all add: same_registry_def c_str_def IDENTITY_LEN_def)
next
  case True
  obtain r z' where r: "zmq_recv z = (r, z')" by fastforce
  note reg = zmq_recv_registry [OF r]
  show thesis
  proof (cases r)
    case (Inl frame)
    with assms True r have "length frame < IDENTITY_LEN" by (auto simp: identity_fits_def)
    from recv_identity_frame [OF True _ this, of z'] r Inl reg show thesis by (metis that(2))
  next
    case (Inr errno)
    with True r reg show thesis
      by (intro that(1) [of "receive_failed errno z'"]) (simp_all add: recv_identity_def same_registry_def)
  qed
qed

lemma recv_sender_registry:
  assumes "zmq_inv z" "c_str identity = Some s" "length s < IDENTITY_LEN"
  obtains src' z' where "recv_sender z identity n mt src = Some (src', z')" "zmq_inv z'"
    "rank_of z \<subseteq>\<^sub>m rank_of z'" "z_env z' = z_env z" "z_role z' = z_role z" "(src' = None) = (src = None)"
proof (cases "z_role z = TRANSPORT_ROLE_COORDINATOR \<and> n > 0")
  case False
  then show thesis using assms(1) by (intro that [of src z]) (auto simp: recv_sender_def)
next
  case coord: True
  show thesis
  proof (cases src)
    case (Some old)
    from coord have c: "z_role z = TRANSPORT_ROLE_COORDINATOR" "0 < n" by auto
    obtain z' where "recv_sender z identity n mt (Some old) = Some (Some (reported_rank z' s mt old), z')"
        "zmq_inv z'" "rank_of z \<subseteq>\<^sub>m rank_of z'" "z_env z' = z_env z" "z_stats z' = z_stats z" "z_role z' = z_role z"
      by (rule recv_sender_ok [OF assms c, of mt old])
    with Some show thesis by (intro that [of "Some (reported_rank z' s mt old)" z']) auto
  next
    case None
    from register_ranks [OF assms] obtain rc z1 where
      z1: "zmq_register_worker z identity = Some (rc, z1)" "zmq_inv z1" "rank_of z \<subseteq>\<^sub>m rank_of z1"
        "rc = (case rank_of z1 s of Some i \<Rightarrow> int i | None \<Rightarrow> -1)" "z_env z1 = z_env z"
        "z_role z1 = z_role z" "z_stats z1 = z_stats z" .
    from heartbeat_ranks [OF assms(1,2)] obtain z2 where
      z2: "zmq_update_heartbeat z identity = Some z2" "zmq_inv z2" "rank_of z2 = rank_of z"
        "z_env z2 = z_env z" "z_role z2 = z_role z" "z_stats z2 = z_stats z" .
    show thesis
      using coord None z1 z2 assms(1)
      by (intro that [of None "if mt = MSG_TYPE_WORKER_REGISTER then z1
            else if mt = MSG_TYPE_HEARTBEAT then z2 else z"])
        (auto simp: recv_sender_def)
  qed
qed

lemma zmq_inv_stats [simp]: "zmq_inv (z\<lparr>z_stats := st\<rparr>) = zmq_inv z" "rank_of (z\<lparr>z_stats := st\<rparr>) = rank_of z"
  by (auto simp: zmq_inv_def rank_of_def fun_eq_iff)

lemma transport_zmq_recv_total:
  assumes inv: "zmq_inv z" and "identity_fits z" "allocator_ok (z_env z)"
  obtains msg src' z' where "transport_zmq_recv (Some z) src = Some (msg, src', Some z')" "zmq_inv z'"
    "rank_of z \<subseteq>\<^sub>m rank_of z'" "\<And>m. msg = Some m \<Longrightarrow> complete_message m"
proof (cases "e_setsockopt_ok (z_env z)")
  case False
  then show thesis using inv by (intro that [of None src z]) auto
next
  case ok: True
  from assms(2) show thesis
  proof (cases rule: recv_identity_cases)
    case (1 z')
    then show thesis using inv ok same_registryD [OF 1(2)] by (intro that [of None src z']) auto
  next
    case (2 buf n s z1)
    have inv1: "zmq_inv z1" "rank_of z1 = rank_of z" using same_registryD [OF 2(2)] inv by auto
    have al: "allocator_ok (z_env z1)" using assms(3) 2(5) by (simp add: allocator_ok_def)
    show thesis
    proof (cases "recv_content z1")
      case (Inl z')
      then show thesis
        using same_registryD [OF recv_content_registry, of z1 z'] inv1 2(1) ok
        by (intro that [of None src z']) auto
    next
      case (Inr mz)
      obtain m z2 where m: "mz = (m, z2)" by (cases mz)
      have inv2: "zmq_inv z2" "rank_of z2 = rank_of z"
        using same_registryD [OF recv_content_registry, of z1 z2] Inr m inv1 by auto
      from recv_sender_registry [OF inv2(1) 2(3,4)] obtain src' z3 where
        z3: "recv_sender z2 buf n (h_msg_type (m_header m)) src = Some (src', z3)" "zmq_inv z3"
          "rank_of z2 \<subseteq>\<^sub>m rank_of z3" "z_env z3 = z_env z2" "z_role z3 = z_role z2"
          "(src' = None) = (src = None)" .
      let ?z = "z3\<lparr>z_stats := (z_stats z3)\<lparr>ts_messages_received := ts_messages_received (z_stats z3) + 1,
        ts_bytes_received := ts_bytes_received (z_stats z3) +
          (of_nat sizeof_header + ucast (h_payload_len (m_header m)))\<rparr>\<rparr>"
      show thesis
        using z3 inv2(2) ok 2(1) Inr m recv_content_complete [OF al Inr [unfolded m]]
        by (intro that [of "Some m" src' ?z]) (auto simp: Let_def)
    qed
  qed
qed

section \<open>From worker to coordinator and back\<close>

text \<open>
  The frames a worker's DEALER socket sent reach the coordinator's ROUTER socket behind the
  worker's identity; the coordinator gets the message, and the sender's rank.
\<close>

lemma worker_to_coordinator:
  assumes m: "message_validate (Some m) = 0" "message_wf m"
    and c: "zmq_inv c" "z_role c = TRANSPORT_ROLE_COORDINATOR" "e_setsockopt_ok (z_env c)"
      "e_calloc_ok (z_env c)" "malloc_serves (z_env c) (ucast (h_payload_len (m_header m)))"
    and id: "0 < length s" "length s < IDENTITY_LEN" "NUL \<notin> set s"
    and rx: "e_rx (z_env c) = Inl (map byte_of_char s) # map (Inl \<circ> fst) (frames m) @ rest"
  obtains c' where "transport_zmq_recv (Some c) (Some old)
      = Some (Some (delivered m), Some (reported_rank c' s (h_msg_type (m_header m)) old), Some c')"
    "zmq_inv c'" "rank_of c \<subseteq>\<^sub>m rank_of c'" "e_rx (z_env c') = rest"
    "h_msg_type (m_header m) = MSG_TYPE_WORKER_REGISTER \<and> length (z_workers c) < MAX_WORKERS
      \<longrightarrow> rank_of c' s \<noteq> None"
    "z_env c' = (z_env c)\<lparr>e_rx := rest\<rparr>" "z_role c' = TRANSPORT_ROLE_COORDINATOR"
proof -
  let ?frame = "map byte_of_char s"
  let ?c1 = "c\<lparr>z_env := (z_env c)\<lparr>e_rx := map (Inl \<circ> fst) (frames m) @ rest\<rparr>\<rparr>"
  let ?c2 = "c\<lparr>z_env := (z_env c)\<lparr>e_rx := rest\<rparr>\<rparr>"
  have "map char_of_byte (map byte_of_char s) = s" by (simp add: o_def)
  then have fid: "frame_identity ?frame = s"
    unfolding frame_identity_def using id(3) by (auto simp: takeWhile_eq_all_conv)
  have "zmq_recv c = (Inl ?frame, ?c1)" using rx by (simp add: zmq_recv_def)
  from recv_identity_frame [OF c(2) this] id(2) fid obtain buf where
    buf: "recv_identity c = Some (Inr (buf, length s, ?c1))" "c_str buf = Some s"
    by auto
  have "recv_content ?c1 = Inr (delivered m, ?c1\<lparr>z_env := (z_env ?c1)\<lparr>e_rx := rest\<rparr>\<rparr>)"
    by (rule recv_content_frames [OF m]) (use c in \<open>auto simp: malloc_serves_def\<close>)
  then have content: "recv_content ?c1 = Inr (delivered m, ?c2)" by simp
  have inv2: "zmq_inv ?c2" "rank_of ?c2 = rank_of c"
    using c(1) by (auto simp: zmq_inv_def rank_of_def fun_eq_iff)
  have role2: "z_role ?c2 = TRANSPORT_ROLE_COORDINATOR" using c(2) by simp
  obtain c3 where c3: "recv_sender ?c2 buf (length s) (h_msg_type (m_header m)) (Some old)
        = Some (Some (reported_rank c3 s (h_msg_type (m_header m)) old), c3)"
      "zmq_inv c3" "rank_of ?c2 \<subseteq>\<^sub>m rank_of c3" "z_env c3 = z_env ?c2"
      "z_stats c3 = z_stats ?c2" "z_role c3 = z_role ?c2"
      "h_msg_type (m_header m) = MSG_TYPE_WORKER_REGISTER \<and> length (z_workers ?c2) < MAX_WORKERS
        \<longrightarrow> rank_of c3 s \<noteq> None"
    by (rule recv_sender_ok [OF inv2(1) buf(2) id(2) role2 id(1), of "h_msg_type (m_header m)" old])
  let ?c4 = "c3\<lparr>z_stats := (z_stats c3)\<lparr>ts_messages_received := ts_messages_received (z_stats c3) + 1,
    ts_bytes_received := ts_bytes_received (z_stats c3) +
      (of_nat sizeof_header + ucast (h_payload_len (m_header m)))\<rparr>\<rparr>"
  have hdr: "m_header (delivered m) = m_header m" by (simp add: delivered_def Let_def)
  have rr: "reported_rank ?c4 s (h_msg_type (m_header m)) old = reported_rank c3 s (h_msg_type (m_header m)) old"
    by (simp add: reported_rank_def)
  show thesis
    by (rule that [of ?c4])
      (use c3 buf(1) content c(2,3) hdr rr inv2(2) in \<open>auto simp: Let_def\<close>)
qed

text \<open>The coordinator addresses a message with the identity that has the rank.\<close>

lemma coordinator_send:
  assumes m: "message_validate (Some m) = 0" "message_wf m"
    and c: "zmq_inv c" "z_role c = TRANSPORT_ROLE_COORDINATOR" "e_tx (z_env c) = []"
    and i: "rank_of c s = Some i"
  obtains c' where "transport_zmq_send (Some c) (Some m) (int i) = Some (0, Some c')" "zmq_inv c'"
    "rank_of c' = rank_of c"
    "e_sent (z_env c') = e_sent (z_env c) @ (map byte_of_char s, True) # frames m"
    "z_env c' = (z_env c)\<lparr>e_sent := e_sent (z_env c) @ (map byte_of_char s, True) # frames m\<rparr>"
    "z_role c' = TRANSPORT_ROLE_COORDINATOR" "same_registry c c'"
proof -
  let ?c1 = "c\<lparr>z_env := (z_env c)\<lparr>e_tx := [], e_sent := e_sent (z_env c) @ [(map byte_of_char s, True)]\<rparr>\<rparr>"
  have unlock: "\<not> z_worker_lock c" using c(1) by (simp add: zmq_inv_def)
  have "send_identity c (int i) = Some (Inr ?c1)"
    using c rank_of_bound [OF i] rank_of_ident [OF i] unlock
    by (simp add: send_identity_def zmq_send_def unlock_def Let_def)
  moreover obtain c2 where c2: "send_content ?c1 m = Some (0, c2)"
      "e_sent (z_env c2) = e_sent (z_env ?c1) @ frames m" "z_workers c2 = z_workers ?c1"
      "z_worker_lock c2 = z_worker_lock ?c1" "z_role c2 = z_role ?c1"
      "z_env c2 = (z_env ?c1)\<lparr>e_tx := [], e_sent := e_sent (z_env ?c1) @ frames m\<rparr>"
    by (rule send_content_frames [OF m, of ?c1]) (use c(3) in simp_all)
  ultimately have "transport_zmq_send (Some c) (Some m) (int i) = Some (0, Some c2)"
    using m(1) by simp
  moreover have "same_registry c c2" using c2 by (simp add: same_registry_def)
  ultimately show thesis
    using c2(2,5,6) c by (intro that [of c2]) (simp_all add: same_registryD)
qed

text \<open>A worker takes the frames from its DEALER socket, without an identity.\<close>

lemma coordinator_to_worker:
  assumes m: "message_validate (Some m) = 0" "message_wf m"
    and w: "z_role w = TRANSPORT_ROLE_WORKER" "e_setsockopt_ok (z_env w)" "e_calloc_ok (z_env w)"
      "malloc_serves (z_env w) (ucast (h_payload_len (m_header m)))"
    and rx: "e_rx (z_env w) = map (Inl \<circ> fst) (frames m) @ rest"
  obtains w' where "transport_zmq_recv (Some w) src = Some (Some (delivered m), src, Some w')"
    "e_rx (z_env w') = rest" "z_role w' = z_role w" "e_sent (z_env w') = e_sent (z_env w)"
    "e_tx (z_env w') = e_tx (z_env w)"
    "z_env w' = (z_env w)\<lparr>e_rx := rest\<rparr>" "same_registry w w'"
proof -
  let ?w1 = "w\<lparr>z_env := (z_env w)\<lparr>e_rx := rest\<rparr>\<rparr>"
  let ?w2 = "?w1\<lparr>z_stats := (z_stats ?w1)\<lparr>ts_messages_received := ts_messages_received (z_stats ?w1) + 1,
    ts_bytes_received := ts_bytes_received (z_stats ?w1) +
      (of_nat sizeof_header + ucast (h_payload_len (m_header m)))\<rparr>\<rparr>"
  have "recv_content w = Inr (delivered m, ?w1)" using recv_content_frames [OF m rx w(3,4)] .
  moreover have "m_header (delivered m) = m_header m" by (simp add: delivered_def Let_def)
  ultimately show thesis
    using w(1,2) by (intro that [of ?w2]) (simp_all add: recv_identity_def recv_sender_def Let_def same_registry_def)
qed

text \<open>A worker's own sends need no identity frame.\<close>

lemma worker_send:
  assumes m: "message_validate (Some m) = 0" "message_wf m"
    and w: "z_role w = TRANSPORT_ROLE_WORKER" "e_tx (z_env w) = []"
  obtains w' where "transport_zmq_send (Some w) (Some m) dst = Some (0, Some w')"
    "e_sent (z_env w') = e_sent (z_env w) @ frames m" "e_tx (z_env w') = []" "z_role w' = z_role w"
    "z_env w' = (z_env w)\<lparr>e_tx := [], e_sent := e_sent (z_env w) @ frames m\<rparr>" "same_registry w w'"
proof -
  obtain w' where "send_content w m = Some (0, w')" "e_sent (z_env w') = e_sent (z_env w) @ frames m"
      "e_tx (z_env w') = []" "z_role w' = z_role w"
      "z_env w' = (z_env w)\<lparr>e_tx := [], e_sent := e_sent (z_env w) @ frames m\<rparr>"
      "z_workers w' = z_workers w" "z_worker_lock w' = z_worker_lock w"
    by (rule send_content_frames [OF m w(2)])
  with m(1) w(1) show thesis by (intro that [of w']) (simp_all add: send_identity_def same_registry_def)
qed

section \<open>Broadcast\<close>

text \<open>
  The broadcast holds the mutex while it calls the send function, which takes the same mutex: no
  broadcast to a registry with an active worker returns.
\<close>

lemma send_while_locked:
  "z_worker_lock z \<Longrightarrow> z_role z = TRANSPORT_ROLE_COORDINATOR \<Longrightarrow> message_validate (Some m) = 0
    \<Longrightarrow> i < length (z_workers z) \<Longrightarrow> transport_zmq_send (Some z) (Some m) (int i) = None"
  by (simp add: send_identity_def lock_def)

lemma broadcast_loop_stuck:
  assumes "z_worker_lock z" "z_role z = TRANSPORT_ROLE_COORDINATOR" "message_validate (Some m) = 0"
    "i + n = length (z_workers z)" "i \<le> j" "j < i + n" "we_active (z_workers z ! j) \<noteq> 0"
  shows "broadcast_loop z m i n errors = None"
  using assms(4-6)
proof (induction n arbitrary: i errors)
  case 0
  then show ?case by simp
next
  case (Suc n)
  show ?case
  proof (cases "we_active (z_workers z ! i) \<noteq> 0")
    case True
    with Suc.prems send_while_locked [OF assms(1-3), of i] show ?thesis by simp
  next
    case False
    then have "j \<noteq> i" using assms(7) by auto
    with False Suc.prems Suc.IH [of "Suc i"] show ?thesis by simp
  qed
qed

lemma broadcast_stuck:
  assumes "zmq_inv z" "z_role z = TRANSPORT_ROLE_COORDINATOR" "message_validate (Some m) = 0"
    "j < length (z_workers z)" "we_active (z_workers z ! j) \<noteq> 0"
  shows "transport_zmq_broadcast (Some z) (Some m) = None"
proof -
  let ?z = "z\<lparr>z_worker_lock := True\<rparr>"
  have "broadcast_loop ?z m 0 (length (z_workers ?z)) 0 = None"
    by (rule broadcast_loop_stuck [where j = j]) (use assms in simp_all)
  with assms(1,2) show ?thesis by simp
qed

end
