(* ===== verification/Transport_Interface.thy ===== *)
theory Transport_Interface
  imports Transport_ZMQ_Props
begin

text \<open>
  What coordinator and worker rely on when they call the transport layer, as a locale over a
  backend's table of functions, and its interpretation on the ZeroMQ backend.
\<close>

section \<open>The interface\<close>

text \<open>A transport that runs on a table, with an implementation state that is in order.\<close>

definition runs_on :: "'i vtable \<Rightarrow> ('i \<Rightarrow> bool) \<Rightarrow> 'i transport \<Rightarrow> bool" where
  "runs_on vt ok tr \<longleftrightarrow> tr_vtable tr = Some vt \<and> (\<exists>i. tr_impl tr = Some i \<and> ok i)"

locale transport_backend =
  fixes vt :: "'i vtable" and ok :: "'i \<Rightarrow> bool"
    and tsend :: "'i option \<Rightarrow> message_t option \<Rightarrow> c_int \<Rightarrow> (c_int \<times> 'i option) option"
    and trecv :: "'i option \<Rightarrow> c_int option \<Rightarrow> (message_t option \<times> c_int option \<times> 'i option) option"
  assumes has_send: "v_send vt = Some tsend"
    and has_recv: "v_recv vt = Some trecv"
    and send_total: "ok i \<Longrightarrow> message_validate (Some m) = 0 \<Longrightarrow> message_wf m
      \<Longrightarrow> \<exists>rc i'. tsend (Some i) (Some m) dst = Some (rc, Some i') \<and> ok i'"
    and recv_total: "ok i \<Longrightarrow> \<exists>msg src i'. trecv (Some i) (Some old) = Some (msg, Some src, Some i') \<and>
      ok i' \<and> (\<forall>m. msg = Some m \<longrightarrow> complete_message m)"
begin

lemma transport_send_total:
  assumes "runs_on vt ok tr" "message_validate (Some m) = 0" "message_wf m"
  obtains rc i' where "transport_send (Some tr) (Some m) dst = Some (rc, i')"
    "runs_on vt ok (tr\<lparr>tr_impl := i'\<rparr>)"
proof -
  from assms(1) obtain i where i: "tr_vtable tr = Some vt" "tr_impl tr = Some i" "ok i"
    by (auto simp: runs_on_def)
  from send_total [OF i(3) assms(2,3), of dst] obtain rc i' where
    "tsend (Some i) (Some m) dst = Some (rc, Some i')" "ok i'" by blast
  with i show thesis
    by (intro that [of rc "Some i'"]) (simp_all add: transport_send_def dispatch_def has_send runs_on_def)
qed

lemma transport_recv_total:
  assumes "runs_on vt ok tr"
  obtains msg src i' where "transport_recv (Some tr) (Some old) = Some (msg, Some src, i')"
    "runs_on vt ok (tr\<lparr>tr_impl := i'\<rparr>)" "\<forall>m. msg = Some m \<longrightarrow> complete_message m"
proof -
  from assms obtain i where i: "tr_vtable tr = Some vt" "tr_impl tr = Some i" "ok i"
    by (auto simp: runs_on_def)
  from recv_total [OF i(3), of old] obtain msg src i' where
    "trecv (Some i) (Some old) = Some (msg, Some src, Some i')" "ok i'" "\<forall>m. msg = Some m \<longrightarrow> complete_message m"
    by blast
  with i show thesis
    by (intro that [of msg src "Some i'"]) (simp_all add: transport_recv_def dispatch_def has_recv runs_on_def)
qed

end

section \<open>What peers send\<close>

text \<open>
  The frames that arrive from peers that run this program: whole messages, each behind an
  identity of at most 63 bytes on the coordinator's socket, with timeouts and errors in between.
\<close>

inductive peer_stream :: "transport_role \<Rightarrow> (u8 list + c_int) list \<Rightarrow> bool" where
  silent: "peer_stream role []"
| failure: "peer_stream role rest \<Longrightarrow> peer_stream role (Inr errno # rest)"
| from_worker: "length identity < IDENTITY_LEN \<Longrightarrow> message_validate (Some m) = 0 \<Longrightarrow> message_wf m
    \<Longrightarrow> peer_stream TRANSPORT_ROLE_COORDINATOR rest
    \<Longrightarrow> peer_stream TRANSPORT_ROLE_COORDINATOR (Inl identity # map (Inl \<circ> fst) (frames m) @ rest)"
| from_coordinator: "message_validate (Some m) = 0 \<Longrightarrow> message_wf m
    \<Longrightarrow> peer_stream TRANSPORT_ROLE_WORKER rest
    \<Longrightarrow> peer_stream TRANSPORT_ROLE_WORKER (map (Inl \<circ> fst) (frames m) @ rest)"

definition zmq_ok :: "zmq_transport \<Rightarrow> bool" where
  "zmq_ok z \<longleftrightarrow> zmq_inv z \<and> e_calloc_ok (z_env z) \<and> (\<forall>n. malloc_serves (z_env z) n) \<and>
     peer_stream (z_role z) (e_rx (z_env z))"

section \<open>Sending\<close>

definition rx_frame :: "zmq_transport \<Rightarrow> zmq_transport \<Rightarrow> bool" where
  "rx_frame z z' \<longleftrightarrow> same_registry z z' \<and> e_rx (z_env z') = e_rx (z_env z) \<and>
     e_calloc_ok (z_env z') = e_calloc_ok (z_env z) \<and> e_malloc (z_env z') = e_malloc (z_env z)"

lemma zmq_ok_frame: "rx_frame z z' \<Longrightarrow> zmq_ok z \<Longrightarrow> zmq_ok z'"
  using same_registryD [of z z']
  by (auto simp: zmq_ok_def rx_frame_def malloc_serves_def same_registry_def)

lemma zmq_send_frame: "zmq_send z bytes sndmore = (b, z') \<Longrightarrow> rx_frame z z'"
  by (auto simp: zmq_send_def Let_def rx_frame_def same_registry_def)

lemma rx_frame_trans: "rx_frame z z' \<Longrightarrow> rx_frame z' z'' \<Longrightarrow> rx_frame z z''"
  by (simp add: rx_frame_def same_registry_def)

lemma rx_frame_more [simp]: "rx_frame z (count_error z') = rx_frame z z'" "rx_frame z (z'\<lparr>z_stats := st\<rparr>) = rx_frame z z'"
  by (simp_all add: rx_frame_def same_registry_def)

lemma send_content_total:
  assumes "message_validate (Some m) = 0" "message_wf m"
  obtains rc z' where "send_content z m = Some (rc, z')" "rx_frame z z'"
proof -
  obtain b1 z1 where z1: "zmq_send z (header_bytes (m_header m)) (h_payload_len (m_header m) > 0) = (b1, z1)"
    by fastforce
  note f1 = zmq_send_frame [OF z1]
  show thesis
  proof (cases "b1 \<and> h_payload_len (m_header m) \<noteq> 0")
    case False
    with z1 f1 show thesis
      by (cases b1; cases "m_payload m") (auto simp: send_content_def Let_def intro: that)
  next
    case True
    from message_valid_payload [OF assms] True obtain bs where
      bs: "m_payload m = Some bs" "unat (h_payload_len (m_header m)) \<le> length bs" by blast
    obtain b2 z2 where z2: "zmq_send z1 (take (unat (h_payload_len (m_header m))) bs) False = (b2, z2)"
      by fastforce
    note f2 = rx_frame_trans [OF f1 zmq_send_frame [OF z2]]
    from True z1 bs z2 f2 show thesis
      by (cases b2) (auto simp: send_content_def Let_def word_gt_0 intro: that)
  qed
qed

lemma send_identity_total:
  assumes "zmq_inv z"
  obtains rc z' where "send_identity z dst = Some (Inl (rc, z'))" "rx_frame z z'"
  | z' where "send_identity z dst = Some (Inr z')" "rx_frame z z'"
proof (cases "z_role z = TRANSPORT_ROLE_COORDINATOR \<and> 0 \<le> dst \<and> dst < int (length (z_workers z))")
  case False
  have refl: "rx_frame z z" by (simp add: rx_frame_def same_registry_def)
  from False show thesis
    by (cases "z_role z = TRANSPORT_ROLE_COORDINATOR")
      (auto simp: send_identity_def intro: that(1) [OF _ refl] that(2) [OF _ refl])
next
  case True
  then have "nat dst < length (z_workers z)" by auto
  then obtain s where s: "ident (z_workers z ! nat dst) = Some s"
    using assms nth_mem by (fastforce simp: zmq_inv_def)
  obtain b z1 where z1: "zmq_send (z\<lparr>z_worker_lock := True\<rparr>) (map byte_of_char s) True = (b, z1)" by fastforce
  have "rx_frame (z\<lparr>z_worker_lock := True\<rparr>) z1" by (rule zmq_send_frame [OF z1])
  then have f: "rx_frame z (unlock z1)"
    using assms by (simp add: rx_frame_def same_registry_def unlock_def zmq_inv_def)
  have f': "rx_frame z (count_error (unlock z1))" using f by simp
  from True assms s z1 show thesis
    by (cases b) (auto simp: send_identity_def Let_def not_le intro: that(1) [OF _ f'] that(2) [OF _ f])
qed

lemma transport_zmq_send_frame:
  assumes inv: "zmq_inv z" and "message_validate (Some m) = 0" "message_wf m"
  shows "\<exists>rc z'. transport_zmq_send (Some z) (Some m) dst = Some (rc, Some z') \<and> rx_frame z z'"
proof (cases rule: send_identity_total [OF inv, of dst])
  case (1 rc z')
  with assms(2) show ?thesis by simp
next
  case (2 z1)
  obtain rc z2 where z2: "send_content z1 m = Some (rc, z2)" "rx_frame z1 z2"
    by (rule send_content_total [OF assms(2,3)])
  from rx_frame_trans [OF 2(2) z2(2)] 2 z2 assms(2) show ?thesis by simp
qed

lemma transport_zmq_send_total:
  assumes "zmq_ok z" "message_validate (Some m) = 0" "message_wf m"
  shows "\<exists>rc z'. transport_zmq_send (Some z) (Some m) dst = Some (rc, Some z') \<and> zmq_ok z'"
  using transport_zmq_send_frame [OF _ assms(2,3), of z dst] assms(1) zmq_ok_frame [of z]
  by (auto simp: zmq_ok_def simp del: transport_zmq_send.simps)

section \<open>Receiving\<close>

lemma message_validate_delivered:
  assumes "message_validate (Some m) = 0" "message_wf m"
  shows "complete_message (delivered m)"
proof (cases "h_payload_len (m_header m) = 0")
  case True
  with assms show ?thesis
    by (auto simp: complete_message_def delivered_def message_wf_def message_validate_def Let_def
        split: if_splits)
next
  case False
  from message_valid_payload [OF assms False] obtain bs where
    "m_payload m = Some bs" "unat (h_payload_len (m_header m)) \<le> length bs" .
  moreover have "(ucast (h_payload_len (m_header m)) :: 64 word) \<noteq> 0"
    using False by (simp flip: unat_eq_zero)
  ultimately show ?thesis using assms False
    by (auto simp: complete_message_def delivered_def message_wf_def message_validate_def word_gt_0
        min_def Let_def split: if_splits)
qed

lemma recv_rest:
  assumes "recv_identity z = Some (Inr (buf, n, z1))" "recv_content z1 = Inr (m, z2)"
    and "e_setsockopt_ok (z_env z)" "zmq_inv z2" "c_str buf = Some s" "length s < IDENTITY_LEN"
  obtains src z3 where "transport_zmq_recv (Some z) (Some old) = Some (Some m, Some src, Some z3)"
    "zmq_inv z3" "z_env z3 = z_env z2" "z_role z3 = z_role z2"
proof -
  obtain src' z3 where z3: "recv_sender z2 buf n (h_msg_type (m_header m)) (Some old) = Some (src', z3)"
      "zmq_inv z3" "rank_of z2 \<subseteq>\<^sub>m rank_of z3" "z_env z3 = z_env z2" "z_role z3 = z_role z2"
      "(src' = None) = (Some old = None)"
    by (rule recv_sender_registry [OF assms(4-6)])
  then obtain src where src: "src' = Some src" by auto
  let ?z = "z3\<lparr>z_stats := (z_stats z3)\<lparr>ts_messages_received := ts_messages_received (z_stats z3) + 1,
    ts_bytes_received := ts_bytes_received (z_stats z3) +
      (of_nat sizeof_header + ucast (h_payload_len (m_header m)))\<rparr>\<rparr>"
  from z3 src assms(1-3) show thesis by (intro that [of src ?z]) (simp_all add: Let_def)
qed

lemma zmq_inv_rx [simp]: "zmq_inv (z\<lparr>z_env := e\<rparr>) = zmq_inv z"
  by (simp add: zmq_inv_def)

text \<open>The three things that a receive call can meet: nothing, an error, a message.\<close>

lemma recv_errno:
  assumes "zmq_recv z = (Inr errno, z')" "e_setsockopt_ok (z_env z)"
  shows "transport_zmq_recv (Some z) (Some old) = Some (None, Some old, Some (receive_failed errno z'))"
  using assms by (cases "z_role z") (simp_all add: recv_identity_def recv_content_def)

lemma recv_message_ok:
  assumes ok: "zmq_ok z" and setsockopt: "e_setsockopt_ok (z_env z)"
    and identity: "recv_identity z = Some (Inr (buf, n, z\<lparr>z_env := (z_env z)\<lparr>e_rx := map (Inl \<circ> fst) (frames m) @ rest\<rparr>\<rparr>))"
      "c_str buf = Some s" "length s < IDENTITY_LEN"
    and m: "message_validate (Some m) = 0" "message_wf m" and rest: "peer_stream (z_role z) rest"
  shows "\<exists>msg src z'. transport_zmq_recv (Some z) (Some old) = Some (msg, Some src, Some z') \<and>
    zmq_ok z' \<and> (\<forall>m. msg = Some m \<longrightarrow> complete_message m)"
proof -
  have z: "zmq_inv z" "e_calloc_ok (z_env z)" "\<And>n. malloc_serves (z_env z) n"
    using ok by (auto simp: zmq_ok_def)
  let ?z1 = "z\<lparr>z_env := (z_env z)\<lparr>e_rx := map (Inl \<circ> fst) (frames m) @ rest\<rparr>\<rparr>"
  let ?z2 = "z\<lparr>z_env := (z_env z)\<lparr>e_rx := rest\<rparr>\<rparr>"
  have "malloc_serves (z_env ?z1) (ucast (h_payload_len (m_header m)))"
    using z(3) [of "ucast (h_payload_len (m_header m))"] by (simp add: malloc_serves_def)
  then have "recv_content ?z1 = Inr (delivered m, ?z1\<lparr>z_env := (z_env ?z1)\<lparr>e_rx := rest\<rparr>\<rparr>)"
    by (intro recv_content_frames [OF m]) (use z in simp_all)
  then have content: "recv_content ?z1 = Inr (delivered m, ?z2)" by simp
  have inv2: "zmq_inv ?z2" using z(1) by simp
  obtain src z3 where
    "transport_zmq_recv (Some z) (Some old) = Some (Some (delivered m), Some src, Some z3)"
    "zmq_inv z3" "z_env z3 = z_env ?z2" "z_role z3 = z_role ?z2"
    by (rule recv_rest [OF identity(1) content setsockopt inv2 identity(2,3)])
  moreover have "complete_message (delivered m)" by (rule message_validate_delivered [OF m])
  ultimately show ?thesis using z rest by (auto simp: zmq_ok_def malloc_serves_def)
qed

lemma transport_zmq_recv_ok:
  assumes "zmq_ok z"
  shows "\<exists>msg src z'. transport_zmq_recv (Some z) (Some old) = Some (msg, Some src, Some z') \<and>
    zmq_ok z' \<and> (\<forall>m. msg = Some m \<longrightarrow> complete_message m)"
proof (cases "e_setsockopt_ok (z_env z)")
  case False
  with assms show ?thesis by simp
next
  case ok: True
  have "peer_stream (z_role z) (e_rx (z_env z))" using assms by (simp add: zmq_ok_def)
  then show ?thesis
  proof cases
    case silent
    then have "zmq_recv z = (Inr EAGAIN, z)" by (simp add: zmq_recv_def)
    from recv_errno [OF this ok] assms show ?thesis by (simp add: receive_failed_def)
  next
    case (failure rest errno)
    let ?z = "z\<lparr>z_env := (z_env z)\<lparr>e_rx := rest\<rparr>\<rparr>"
    have "zmq_recv z = (Inr errno, ?z)" using failure by (simp add: zmq_recv_def)
    moreover have "zmq_ok (receive_failed errno ?z)" using assms failure
      by (auto simp: zmq_ok_def zmq_inv_def malloc_serves_def receive_failed_def count_error_def)
    ultimately show ?thesis using recv_errno [OF _ ok] by blast
  next
    case (from_worker identity m rest)
    let ?z1 = "z\<lparr>z_env := (z_env z)\<lparr>e_rx := map (Inl \<circ> fst) (frames m) @ rest\<rparr>\<rparr>"
    have "zmq_recv z = (Inl identity, ?z1)" using from_worker by (simp add: zmq_recv_def)
    then obtain buf where buf: "recv_identity z = Some (Inr (buf, length identity, ?z1))"
        "c_str buf = Some (frame_identity identity)" "length (frame_identity identity) < IDENTITY_LEN"
      by (rule recv_identity_frame [OF from_worker(1) _ from_worker(3)])
    from recv_message_ok [OF assms ok buf from_worker(4,5)] from_worker show ?thesis by simp
  next
    case (from_coordinator m rest)
    have "recv_identity z = Some (Inr (replicate IDENTITY_LEN NUL, 0,
        z\<lparr>z_env := (z_env z)\<lparr>e_rx := map (Inl \<circ> fst) (frames m) @ rest\<rparr>\<rparr>))"
      using from_coordinator(1,2) by (simp add: recv_identity_def)
    from recv_message_ok [OF assms ok this, of "[]"] from_coordinator show ?thesis
      by (simp add: c_str_def IDENTITY_LEN_def)
  qed
qed

interpretation zmq_backend: transport_backend zmq_vtable zmq_ok transport_zmq_send transport_zmq_recv
  by unfold_locales
    (simp_all add: zmq_vtable_def transport_zmq_send_total transport_zmq_recv_ok
      del: transport_zmq_send.simps transport_zmq_recv.simps)

end
