(* ===== verification/Task_Queue.thy ===== *)
theory Task_Queue
  imports Task_Types
begin

text \<open>
  \<open>src/runtime/task_queue.c\<close>: the priority queue of tasks that coordinator and worker share,
  modelled with its pointers.  \<open>q_nodes\<close> is the part of the C heap that holds task nodes: a node
  is live exactly when its address is in the domain, \<open>malloc\<close> adds an address and \<open>free\<close> removes
  one.  The loops that chase \<open>next\<close> pointers are \<open>partial_function\<close>s: \<open>None\<close> is a dangling
  dereference or a cycle.

  Every operation runs between \<open>pthread_mutex_lock\<close> and \<open>pthread_mutex_unlock\<close> of the queue's
  mutex, so an operation is one atomic step of the queue; \<open>Task_Queue_Threads\<close> interleaves them.
  The log calls are left out.
\<close>

section \<open>State\<close>

record task_node =
  n_task :: task_t
  n_next :: addr
  n_priority :: c_int

type_synonym node_store = "addr \<rightharpoonup> task_node"

record task_queue =
  q_head :: addr
  q_tail :: addr
  q_size :: size_t
  q_max_size :: size_t
  q_allow_duplicates :: c_int
  q_shutting_down :: c_int
  q_total_enqueued :: u64
  q_total_dequeued :: u64
  q_high_priority_count :: u64
  q_blocked_threads :: u64
  q_nodes :: node_store

record task_queue_config =
  cfg_max_size :: size_t
  cfg_allow_duplicates :: c_int

record task_queue_stats =
  qs_current_size :: size_t
  qs_max_size :: size_t
  qs_total_enqueued :: u64
  qs_total_dequeued :: u64
  qs_high_priority_count :: u64
  qs_blocked_threads :: u64

definition default_config :: task_queue_config where
  "default_config = \<lparr>cfg_max_size = MAX_TASK_QUEUE_SIZE, cfg_allow_duplicates = 1\<rparr>"

section \<open>Creation\<close>

text \<open>\<open>calloc_ok\<close> is whether the allocation of the queue structure succeeds.\<close>

definition task_queue_create :: "task_queue_config option \<Rightarrow> bool \<Rightarrow> task_queue option" where
  "task_queue_create config calloc_ok =
     (let cfg = (case config of Some c \<Rightarrow> c | None \<Rightarrow> default_config) in
      if \<not> calloc_ok then None
      else Some \<lparr>q_head = 0, q_tail = 0, q_size = 0, q_max_size = cfg_max_size cfg,
        q_allow_duplicates = cfg_allow_duplicates cfg, q_shutting_down = 0,
        q_total_enqueued = 0, q_total_dequeued = 0, q_high_priority_count = 0,
        q_blocked_threads = 0, q_nodes = Map.empty\<rparr>)"

section \<open>Loops over the node list\<close>

partial_function (option) task_exists :: "node_store \<Rightarrow> addr \<Rightarrow> u64 \<Rightarrow> bool option" where
  "task_exists h node tid =
     (if node = 0 then Some False
      else do {
        n \<leftarrow> h node;
        if t_task_id (n_task n) = tid then Some True
        else task_exists h (n_next n) tid
      })"

text \<open>\<open>while (node) { next = node->next; free(node); node = next; freed++; }\<close>\<close>

partial_function (option) free_nodes :: "node_store \<Rightarrow> addr \<Rightarrow> size_t \<Rightarrow> (size_t \<times> node_store) option" where
  "free_nodes h node freed =
     (if node = 0 then Some (freed, h)
      else do {
        n \<leftarrow> h node;
        free_nodes (h(node := None)) (n_next n) (freed + 1)
      })"

text \<open>\<open>while (curr && curr->priority == 1) { prev = curr; curr = curr->next; }\<close>\<close>

partial_function (option) last_high :: "node_store \<Rightarrow> addr \<Rightarrow> addr \<Rightarrow> (addr \<times> addr) option" where
  "last_high h prev cur =
     (if cur = 0 then Some (prev, cur)
      else do {
        n \<leftarrow> h cur;
        if n_priority n = 1 then last_high h cur (n_next n)
        else Some (prev, cur)
      })"

text \<open>The search of \<open>task_queue_remove_by_id\<close>: \<open>Some (prev, cur)\<close> at a node with the id.\<close>

partial_function (option) find_node ::
    "node_store \<Rightarrow> addr \<Rightarrow> addr \<Rightarrow> u64 \<Rightarrow> (addr \<times> addr) option option" where
  "find_node h prev cur tid =
     (if cur = 0 then Some None
      else do {
        n \<leftarrow> h cur;
        if t_task_id (n_task n) = tid then Some (Some (prev, cur))
        else find_node h cur (n_next n) tid
      })"

section \<open>Enqueue\<close>

text \<open>Writing \<open>p->next = v\<close>.\<close>

definition set_next :: "node_store \<Rightarrow> addr \<Rightarrow> addr \<Rightarrow> node_store option" where
  "set_next h p v = do { n \<leftarrow> deref h p; Some (h(p \<mapsto> n\<lparr>n_next := v\<rparr>)) }"

text \<open>
  The insertion of an allocated node by priority.  \<open>node\<close> is the address \<open>malloc\<close> returned,
  already filled with the task, a NULL \<open>next\<close> and the priority.
\<close>

definition insert_high :: "task_queue \<Rightarrow> addr \<Rightarrow> task_queue option" where
  "insert_high q node = do {
     head_is_normal \<leftarrow> (if q_head q = 0 then Some True
        else do { hd \<leftarrow> deref (q_nodes q) (q_head q); Some (n_priority hd = 0) });
     q' \<leftarrow> (if head_is_normal
       then do {
         h \<leftarrow> set_next (q_nodes q) node (q_head q);
         Some (q\<lparr>q_nodes := h, q_head := node, q_tail := (if q_tail q = 0 then node else q_tail q)\<rparr>)
       }
       else do {
         (prev, cur) \<leftarrow> last_high (q_nodes q) 0 (q_head q);
         h \<leftarrow> set_next (q_nodes q) node cur;
         h' \<leftarrow> (if prev \<noteq> 0 then set_next h prev node else Some h);
         n \<leftarrow> deref h' node;
         Some (q\<lparr>q_nodes := h', q_tail := (if n_next n = 0 then node else q_tail q)\<rparr>)
       });
     Some (q'\<lparr>q_high_priority_count := q_high_priority_count q' + 1\<rparr>)
   }"

definition insert_normal :: "task_queue \<Rightarrow> addr \<Rightarrow> task_queue option" where
  "insert_normal q node =
     (if q_head q = 0 then Some (q\<lparr>q_head := node, q_tail := node\<rparr>)
      else do {
        h \<leftarrow> set_next (q_nodes q) (q_tail q) node;
        Some (q\<lparr>q_nodes := h, q_tail := node\<rparr>)
      })"

text \<open>\<open>malloc_result\<close> is the address \<open>malloc\<close> returns for the new node, 0 on failure.\<close>

fun task_queue_enqueue ::
    "task_queue option \<Rightarrow> task_t option \<Rightarrow> addr \<Rightarrow> (c_int \<times> task_queue option) option" where
  "task_queue_enqueue None task malloc_result = Some (-1, None)"
| "task_queue_enqueue (Some q) None malloc_result = Some (-1, Some q)"
| "task_queue_enqueue (Some q) (Some task) malloc_result =
     (if q_shutting_down q \<noteq> 0 then Some (-1, Some q)
      else if q_max_size q > 0 \<and> q_size q \<ge> q_max_size q then Some (-2, Some q)
      else do {
        dup \<leftarrow> (if q_allow_duplicates q \<noteq> 0 then Some False
                else task_exists (q_nodes q) (q_head q) (t_task_id task));
        if dup then Some (-3, Some q)
        else if malloc_result = 0 then Some (-1, Some q)
        else do {
          let node = malloc_result;
          let priority = (if t_flags task AND TASK_FLAG_HIGH_PRIORITY \<noteq> 0 then 1 else 0);
          let q1 = q\<lparr>q_nodes := (q_nodes q)
            (node \<mapsto> \<lparr>n_task = task, n_next = 0, n_priority = priority\<rparr>)\<rparr>;
          q2 \<leftarrow> (if priority = 1 then insert_high q1 node else insert_normal q1 node);
          Some (0, Some (q2\<lparr>q_size := q_size q2 + 1, q_total_enqueued := q_total_enqueued q2 + 1\<rparr>))
        }
      })"

section \<open>Dequeue and peek\<close>

text \<open>The removal of the head node, the code \<open>task_queue_dequeue\<close> and
  \<open>task_queue_dequeue_wait\<close> share.\<close>

definition remove_head :: "task_queue \<Rightarrow> (task_t \<times> task_queue) option" where
  "remove_head q = do {
     n \<leftarrow> deref (q_nodes q) (q_head q);
     let q1 = q\<lparr>q_head := n_next n\<rparr>;
     let q2 = (if q_head q1 = 0 then q1\<lparr>q_tail := 0\<rparr> else q1);
     let q3 = (if n_priority n = 1
               then q2\<lparr>q_high_priority_count := q_high_priority_count q2 - 1\<rparr> else q2);
     Some (n_task n, q3\<lparr>q_size := q_size q3 - 1, q_total_dequeued := q_total_dequeued q3 + 1,
       q_nodes := (q_nodes q3)(q_head q := None)\<rparr>)
   }"

text \<open>
  \<open>task\<close> is the caller's buffer: \<open>None\<close> for a NULL pointer, \<open>Some\<close> of its contents otherwise.
  The result holds the return code, the queue and the contents of the buffer afterwards.
\<close>

fun task_queue_dequeue ::
    "task_queue option \<Rightarrow> task_t option \<Rightarrow> (c_int \<times> task_queue option \<times> task_t option) option" where
  "task_queue_dequeue None task = Some (-1, None, task)"
| "task_queue_dequeue (Some q) None = Some (-1, Some q, None)"
| "task_queue_dequeue (Some q) (Some buf) =
     (if q_head q = 0 then Some (-1, Some q, Some buf)
      else do { (t, q') \<leftarrow> remove_head q; Some (0, Some q', Some t) })"

fun task_queue_peek ::
    "task_queue option \<Rightarrow> task_t option \<Rightarrow> (c_int \<times> task_t option) option" where
  "task_queue_peek None task = Some (-1, task)"
| "task_queue_peek (Some q) None = Some (-1, None)"
| "task_queue_peek (Some q) (Some buf) =
     (if q_head q = 0 then Some (-1, Some buf)
      else do { n \<leftarrow> deref (q_nodes q) (q_head q); Some (0, Some (n_task n)) })"

section \<open>Removal by id\<close>

fun task_queue_remove_by_id ::
    "task_queue option \<Rightarrow> u64 \<Rightarrow> (c_int \<times> task_queue option) option" where
  "task_queue_remove_by_id None tid = Some (-1, None)"
| "task_queue_remove_by_id (Some q) tid = do {
     found \<leftarrow> find_node (q_nodes q) 0 (q_head q) tid;
     case found of
       None \<Rightarrow> Some (-1, Some q)
     | Some (prev, cur) \<Rightarrow> do {
         n \<leftarrow> deref (q_nodes q) cur;
         q1 \<leftarrow> (if prev \<noteq> 0
                then do { h \<leftarrow> set_next (q_nodes q) prev (n_next n); Some (q\<lparr>q_nodes := h\<rparr>) }
                else Some (q\<lparr>q_head := n_next n\<rparr>));
         let q2 = (if cur = q_tail q1 then q1\<lparr>q_tail := prev\<rparr> else q1);
         let q3 = (if n_priority n = 1
                   then q2\<lparr>q_high_priority_count := q_high_priority_count q2 - 1\<rparr> else q2);
         Some (0, Some (q3\<lparr>q_size := q_size q3 - 1, q_nodes := (q_nodes q3)(cur := None)\<rparr>))
       }
   }"

section \<open>Queries, clearing and destruction\<close>

fun task_queue_is_empty :: "task_queue option \<Rightarrow> c_int" where
  "task_queue_is_empty None = 1"
| "task_queue_is_empty (Some q) = (if q_size q = 0 then 1 else 0)"

fun task_queue_is_full :: "task_queue option \<Rightarrow> c_int" where
  "task_queue_is_full None = 0"
| "task_queue_is_full (Some q) =
     (if q_max_size q = 0 then 0 else if q_size q \<ge> q_max_size q then 1 else 0)"

fun task_queue_size :: "task_queue option \<Rightarrow> size_t" where
  "task_queue_size None = 0"
| "task_queue_size (Some q) = q_size q"

fun task_queue_get_stats ::
    "task_queue option \<Rightarrow> task_queue_stats option \<Rightarrow> task_queue_stats option" where
  "task_queue_get_stats None stats = stats"
| "task_queue_get_stats (Some q) None = None"
| "task_queue_get_stats (Some q) (Some _) = Some
     \<lparr>qs_current_size = q_size q, qs_max_size = q_max_size q,
      qs_total_enqueued = q_total_enqueued q, qs_total_dequeued = q_total_dequeued q,
      qs_high_priority_count = q_high_priority_count q, qs_blocked_threads = q_blocked_threads q\<rparr>"

fun task_queue_clear :: "task_queue option \<Rightarrow> (size_t \<times> task_queue option) option" where
  "task_queue_clear None = Some (0, None)"
| "task_queue_clear (Some q) = do {
     (count, h) \<leftarrow> free_nodes (q_nodes q) (q_head q) 0;
     Some (count, Some (q\<lparr>q_nodes := h, q_head := 0, q_tail := 0, q_size := 0,
       q_high_priority_count := 0\<rparr>))
   }"

text \<open>
  Destruction returns the number of freed nodes and the nodes that are left in the heap.  The
  code destroys the mutex and the condition variables and frees the queue right after the
  broadcast; a thread that is still inside \<open>task_queue_dequeue_wait\<close> then returns to freed
  memory, so a non-zero \<open>blocked_threads\<close> is undefined behaviour.
\<close>

fun task_queue_destroy :: "task_queue option \<Rightarrow> (size_t \<times> node_store) option" where
  "task_queue_destroy None = Some (0, Map.empty)"
| "task_queue_destroy (Some q) =
     (if q_blocked_threads q \<noteq> 0 then None else free_nodes (q_nodes q) (q_head q) 0)"

section \<open>Blocking dequeue\<close>

text \<open>
  The absolute deadline of \<open>task_queue_dequeue_wait\<close>, from the clock \<open>(sec, nsec)\<close> and a
  non-negative timeout; \<open>/\<close> and \<open>%\<close> agree with \<open>div\<close> and \<open>mod\<close> there.
\<close>

definition deadline :: "int \<times> int \<Rightarrow> c_int \<Rightarrow> int \<times> int" where
  "deadline now timeout_ms =
     (let sec = fst now + timeout_ms div 1000;
          nsec = snd now + (timeout_ms mod 1000) * 1000000
      in if nsec \<ge> 1000000000 then (sec + 1, nsec - 1000000000) else (sec, nsec))"

definition ETIMEDOUT :: c_int where "ETIMEDOUT = 110"

text \<open>
  The call is a sequence of critical sections, cut where \<open>pthread_cond_wait\<close> or
  \<open>pthread_cond_timedwait\<close> gives up the mutex.  A section either blocks again or returns a code
  and, on 0, a task.
\<close>

datatype wait_result = Blocked task_queue | Returned c_int "task_t option" task_queue

text \<open>From the loop test on: block, or leave the loop and finish the call.\<close>

definition wait_test :: "task_queue \<Rightarrow> wait_result option" where
  "wait_test q =
     (if q_head q = 0 \<and> q_shutting_down q = 0 then Some (Blocked q)
      else let q1 = q\<lparr>q_blocked_threads := q_blocked_threads q - 1\<rparr> in
        if q_shutting_down q1 \<noteq> 0 then Some (Returned (-2) None q1)
        else do { (t, q2) \<leftarrow> remove_head q1; Some (Returned 0 (Some t) q2) })"

text \<open>From entry to the first wait.\<close>

definition wait_enter :: "task_queue \<Rightarrow> wait_result option" where
  "wait_enter q = wait_test (q\<lparr>q_blocked_threads := q_blocked_threads q + 1\<rparr>)"

text \<open>From the return of the wait function with code \<open>rc\<close> to the next wait or the end.\<close>

definition wait_wake :: "c_int \<Rightarrow> task_queue \<Rightarrow> wait_result option" where
  "wait_wake rc q =
     (if rc = ETIMEDOUT
      then Some (Returned (-1) None (q\<lparr>q_blocked_threads := q_blocked_threads q - 1\<rparr>))
      else wait_test q)"

text \<open>
  The whole call against an environment: each element of \<open>wakes\<close> is one return of the wait
  function, with its code and what the other threads did to the queue meanwhile.  When the list
  is exhausted the caller is still blocked.
\<close>

fun wait_loop :: "wait_result \<Rightarrow> (c_int \<times> (task_queue \<Rightarrow> task_queue)) list \<Rightarrow> wait_result option" where
  "wait_loop (Returned rc t q) wakes = Some (Returned rc t q)"
| "wait_loop (Blocked q) [] = Some (Blocked q)"
| "wait_loop (Blocked q) ((rc, others) # wakes) =
     do { r \<leftarrow> wait_wake rc (others q); wait_loop r wakes }"

definition task_queue_dequeue_wait ::
    "task_queue option \<Rightarrow> bool \<Rightarrow> (c_int \<times> (task_queue \<Rightarrow> task_queue)) list
      \<Rightarrow> (c_int + wait_result) option" where
  "task_queue_dequeue_wait queue task_not_null wakes =
     (case queue of
        None \<Rightarrow> Some (Inl (-2))
      | Some q \<Rightarrow>
          if \<not> task_not_null then Some (Inl (-2))
          else do { r \<leftarrow> wait_enter q; r' \<leftarrow> wait_loop r wakes; Some (Inr r') })"

end
