(* ===== verification/Task_Queue_Refine.thy ===== *)
theory Task_Queue_Refine
  imports Task_Queue
begin

text \<open>
  The pointer structure of \<open>Task_Queue\<close> against its abstract meaning, a list of tasks with the
  high-priority ones in front.  \<open>lseg\<close> describes a chain of nodes, \<open>tq_repr\<close> the whole queue
  object over its node addresses, \<open>tq_inv\<close> is the representation invariant and \<open>tq_tasks\<close> the
  abstraction function.  Each operation is shown to be defined (no dangling access, loops stop),
  to keep the invariant, and to act on \<open>tq_tasks\<close> as its specification says.
\<close>

section \<open>Chains of nodes\<close>

fun lseg :: "node_store \<Rightarrow> addr \<Rightarrow> addr list \<Rightarrow> addr \<Rightarrow> bool" where
  "lseg h p [] q \<longleftrightarrow> p = q"
| "lseg h p (a # as) q \<longleftrightarrow>
     p = a \<and> a \<noteq> 0 \<and> (case h a of None \<Rightarrow> False | Some n \<Rightarrow> lseg h (n_next n) as q)"

definition task_at :: "node_store \<Rightarrow> addr \<Rightarrow> task_t" where
  "task_at h a = n_task (the (h a))"

definition prio_at :: "node_store \<Rightarrow> addr \<Rightarrow> c_int" where
  "prio_at h a = n_priority (the (h a))"

lemma task_at_upd [simp]: "task_at (h(b \<mapsto> n)) a = (if a = b then n_task n else task_at h a)"
  by (simp add: task_at_def)

lemma prio_at_upd [simp]: "prio_at (h(b \<mapsto> n)) a = (if a = b then n_priority n else prio_at h a)"
  by (simp add: prio_at_def)

lemma task_at_clear [simp]: "a \<noteq> b \<Longrightarrow> task_at (h(b := None)) a = task_at h a"
  by (simp add: task_at_def)

lemma prio_at_clear [simp]: "a \<noteq> b \<Longrightarrow> prio_at (h(b := None)) a = prio_at h a"
  by (simp add: prio_at_def)

lemma map_task_at_clear [simp]: "b \<notin> set as \<Longrightarrow> map (task_at (h(b := None))) as = map (task_at h) as"
  by (auto simp: task_at_def)

lemma lseg_append: "lseg h p (as @ bs) q \<longleftrightarrow> (\<exists>r. lseg h p as r \<and> lseg h r bs q)"
  by (induction as arbitrary: p) (auto split: option.splits)

lemma lseg_upd [simp]: "a \<notin> set as \<Longrightarrow> lseg (h(a := v)) p as q \<longleftrightarrow> lseg h p as q"
  by (induction as arbitrary: p) (auto split: option.splits)

lemma lseg_nonnull: "lseg h p as q \<Longrightarrow> 0 \<notin> set as"
  by (induction as arbitrary: p) (auto split: option.splits)

lemma lseg_dom: "lseg h p as q \<Longrightarrow> set as \<subseteq> dom h"
  by (induction as arbitrary: p) (auto split: option.splits)

lemma lseg_head: "lseg h p as 0 \<Longrightarrow> p = (if as = [] then 0 else hd as)"
  by (cases as) auto

lemma lseg_null [simp]: "lseg h 0 as q \<longleftrightarrow> as = [] \<and> q = 0"
  by (cases as) auto

lemma lseg_Cons_next:
  "lseg h p (a # as) q \<Longrightarrow> \<exists>n. h a = Some n \<and> lseg h (n_next n) as q \<and> p = a \<and> a \<noteq> 0"
  by (auto split: option.splits)

lemma lseg_len_bound:
  fixes as :: "addr list"
  assumes "distinct as" "0 \<notin> set as"
  shows "length as < 2 ^ 64"
proof -
  have "length as = card (set as)" using assms(1) by (simp add: distinct_card)
  also have "\<dots> < card (UNIV :: addr set)"
  proof (rule psubset_card_mono)
    show "set as \<subset> (UNIV :: addr set)" using assms(2) by blast
  qed simp
  also have "\<dots> = 2 ^ 64" by (simp add: card_word)
  finally show ?thesis .
qed

section \<open>The loops on a chain\<close>

lemma task_exists_lseg:
  "lseg h p as 0 \<Longrightarrow> task_exists h p tid = Some (\<exists>a \<in> set as. t_task_id (task_at h a) = tid)"
  by (induction as arbitrary: p)
    (auto simp: task_exists.simps task_at_def split: option.splits)

lemma last_high_lseg:
  assumes "lseg h p as 0"
  shows "last_high h prev p =
    (let bs = takeWhile (\<lambda>a. prio_at h a = 1) as; cs = dropWhile (\<lambda>a. prio_at h a = 1) as
     in Some (if bs = [] then prev else last bs, if cs = [] then 0 else hd cs))"
  using assms
proof (induction as arbitrary: p prev)
  case Nil
  then show ?case by (simp add: last_high.simps)
next
  case (Cons a as)
  then obtain n where n: "h a = Some n" "lseg h (n_next n) as 0" "p = a" "a \<noteq> 0"
    using lseg_Cons_next by blast
  with Cons.IH [OF n(2), of a] show ?case
    by (simp add: last_high.simps [of h prev a] prio_at_def Let_def)
qed

lemma find_node_hit:
  assumes "lseg h p (bs @ c # cs) 0" "\<And>b. b \<in> set bs \<Longrightarrow> t_task_id (task_at h b) \<noteq> tid"
    and "t_task_id (task_at h c) = tid"
  shows "find_node h prev p tid = Some (Some (if bs = [] then prev else last bs, c))"
  using assms
proof (induction bs arbitrary: p prev)
  case Nil
  then show ?case
    by (auto simp: find_node.simps task_at_def split: option.splits)
next
  case (Cons b bs)
  then obtain n where n: "h b = Some n" "lseg h (n_next n) (bs @ c # cs) 0" "p = b" "b \<noteq> 0"
    using lseg_Cons_next [of h p b "bs @ c # cs" 0] by auto
  moreover have "t_task_id (n_task n) \<noteq> tid"
    using Cons.prems(2) [of b] n(1) by (simp add: task_at_def)
  moreover have "find_node h b (n_next n) tid = Some (Some (if bs = [] then b else last bs, c))"
    using n(2) Cons.prems(2,3) by (intro Cons.IH) auto
  ultimately show ?case by (simp add: find_node.simps [of h prev b])
qed

lemma find_node_miss:
  "lseg h p as 0 \<Longrightarrow> \<forall>a \<in> set as. t_task_id (task_at h a) \<noteq> tid
    \<Longrightarrow> find_node h prev p tid = Some None"
  by (induction as arbitrary: p prev)
    (auto simp: find_node.simps task_at_def split: option.splits)

lemma free_nodes_lseg:
  "lseg h p as 0 \<Longrightarrow> distinct as
    \<Longrightarrow> free_nodes h p k = Some (k + of_nat (length as), h |` (- set as))"
proof (induction as arbitrary: p h k)
  case Nil
  then show ?case by (simp add: free_nodes.simps)
next
  case (Cons a as)
  then obtain n where n: "h a = Some n" "lseg h (n_next n) as 0" "p = a" "a \<noteq> 0"
    using lseg_Cons_next by blast
  have "free_nodes (h(a := None)) (n_next n) (k + 1)
      = Some (k + 1 + of_nat (length as), h(a := None) |` (- set as))"
  proof (rule Cons.IH)
    show "lseg (h(a := None)) (n_next n) as 0"
      using Cons.prems(2) n(2) by (intro lseg_upd [THEN iffD2]) auto
    show "distinct as" using Cons.prems(2) by simp
  qed
  moreover have "h(a := None) |` (- set as) = h |` (- set (a # as))"
    by (auto simp: restrict_map_def fun_eq_iff)
  ultimately show ?case
    using n by (simp add: free_nodes.simps [of h a] add_ac)
qed

section \<open>Splicing\<close>

lemma lseg_insert:
  assumes "lseg h p (bs @ cs) 0" "bs \<noteq> []" "distinct (bs @ cs)" "a \<noteq> 0" "a \<notin> set (bs @ cs)"
    and "n_next n = (if cs = [] then 0 else hd cs)" "h (last bs) = Some m"
  shows "lseg (h(a \<mapsto> n, last bs \<mapsto> m\<lparr>n_next := a\<rparr>)) p (bs @ a # cs) 0"
proof -
  obtain bs' b where bs: "bs = bs' @ [b]" using assms(2) by (cases bs rule: rev_cases) auto
  with assms(1) obtain r where r: "lseg h p bs' r" "lseg h r (b # cs) 0"
    by (auto simp: lseg_append)
  then have "r = b" "b \<noteq> 0" and cs: "lseg h (n_next m) cs 0"
    using assms(7) bs by auto
  moreover have "n_next m = n_next n" using lseg_head [OF cs] assms(6) by simp
  ultimately show ?thesis
    using r assms(3-5,7) bs by (auto simp: lseg_append split: if_splits)
qed

lemma lseg_delete:
  assumes "lseg h p (bs @ c # cs) 0" "distinct (bs @ c # cs)" "h c = Some n"
  shows "if bs = [] then lseg (h(c := None)) (n_next n) cs 0
    else \<exists>m. h (last bs) = Some m \<and>
      lseg ((h(last bs \<mapsto> m\<lparr>n_next := n_next n\<rparr>))(c := None)) p (bs @ cs) 0"
proof (cases bs rule: rev_cases)
  case Nil
  with assms show ?thesis by simp
next
  case (snoc bs' b)
  with assms(1) obtain r where r: "lseg h p bs' r" "lseg h r (b # c # cs) 0"
    by (auto simp: lseg_append)
  then obtain m where m: "h b = Some m" "r = b" "b \<noteq> 0" "lseg h (n_next n) cs 0"
    using assms(3) by (auto split: option.splits)
  with r snoc assms(2) show ?thesis
    by (auto simp: lseg_append fun_upd_twist)
qed

section \<open>Abstract queue contents\<close>

text \<open>
  The specification: a list of tasks in service order.  A high-priority task goes behind the
  high-priority tasks and in front of the others, a normal task to the end.
\<close>

definition high_first :: "task_t list \<Rightarrow> bool" where
  "high_first ts \<longleftrightarrow> sorted_wrt (\<lambda>t u. high_priority u \<longrightarrow> high_priority t) ts"

definition pq_insert :: "task_t \<Rightarrow> task_t list \<Rightarrow> task_t list" where
  "pq_insert t ts =
     (if high_priority t
      then filter high_priority ts @ [t] @ filter (\<lambda>u. \<not> high_priority u) ts
      else ts @ [t])"

lemma high_first_Nil [simp]: "high_first []"
  by (simp add: high_first_def)

lemma high_first_Cons:
  "high_first (t # ts) \<longleftrightarrow> (high_priority t \<or> (\<forall>u \<in> set ts. \<not> high_priority u)) \<and> high_first ts"
  by (auto simp: high_first_def)

lemma high_first_append:
  "high_first (ts @ us) \<longleftrightarrow> high_first ts \<and> high_first us \<and>
     (\<forall>t \<in> set ts. \<forall>u \<in> set us. high_priority u \<longrightarrow> high_priority t)"
  by (auto simp: high_first_def sorted_wrt_append)

lemma high_first_takeWhile:
  "high_first ts \<Longrightarrow> takeWhile high_priority ts = filter high_priority ts"
  by (induction ts) (auto simp: high_first_Cons filter_empty_conv)

lemma high_first_dropWhile:
  "high_first ts \<Longrightarrow> dropWhile high_priority ts = filter (\<lambda>u. \<not> high_priority u) ts"
  by (induction ts) (auto simp: high_first_Cons)

lemma pq_insert_split:
  "high_first ts \<Longrightarrow> high_priority t
    \<Longrightarrow> pq_insert t ts = takeWhile high_priority ts @ t # dropWhile high_priority ts"
  by (simp add: pq_insert_def high_first_takeWhile high_first_dropWhile)

lemma high_first_filters: "high_first (filter high_priority ts)"
    "high_first (filter (\<lambda>u. \<not> high_priority u) ts)"
  by (induction ts) (auto simp: high_first_Cons)

lemma pq_insert_high_first: "high_first ts \<Longrightarrow> high_first (pq_insert t ts)"
  by (auto simp: pq_insert_def high_first_append high_first_Cons high_first_filters)

lemma mset_pq_insert [simp]: "mset (pq_insert t ts) = add_mset t (mset ts)"
  by (simp add: pq_insert_def)

lemma length_pq_insert [simp]: "length (pq_insert t ts) = Suc (length ts)"
  by (metis mset_pq_insert size_add_mset size_mset)

lemma set_pq_insert [simp]: "set (pq_insert t ts) = insert t (set ts)"
  by (metis mset_pq_insert set_mset_add_mset_insert set_mset_mset)

lemma count_pq_insert:
  "count_if P (pq_insert t ts) = count_if P ts + (if P t then 1 else 0)"
  by (simp add: count_if_mset)

section \<open>The representation invariant\<close>

definition tq_shape :: "node_store \<Rightarrow> addr \<Rightarrow> addr \<Rightarrow> addr list \<Rightarrow> bool" where
  "tq_shape h p e as \<longleftrightarrow>
     lseg h p as 0 \<and> distinct as \<and> dom h = set as \<and> e = (if as = [] then 0 else last as) \<and>
     (\<forall>a \<in> set as. prio_at h a = (if high_priority (task_at h a) then 1 else 0)) \<and>
     high_first (map (task_at h) as)"

definition tq_repr :: "task_queue \<Rightarrow> addr list \<Rightarrow> bool" where
  "tq_repr q as \<longleftrightarrow>
     tq_shape (q_nodes q) (q_head q) (q_tail q) as \<and>
     q_size q = of_nat (length as) \<and>
     q_high_priority_count q = of_nat (count_if high_priority (map (task_at (q_nodes q)) as))"

definition tq_inv :: "task_queue \<Rightarrow> bool" where
  "tq_inv q \<longleftrightarrow> (\<exists>as. tq_repr q as)"

text \<open>The tasks met on a walk along the \<open>next\<close> pointers from the head.\<close>

partial_function (option) walk :: "node_store \<Rightarrow> addr \<Rightarrow> task_t list option" where
  "walk h p =
     (if p = 0 then Some []
      else do { n \<leftarrow> h p; ts \<leftarrow> walk h (n_next n); Some (n_task n # ts) })"

definition tq_tasks :: "task_queue \<Rightarrow> task_t list" where
  "tq_tasks q = (case walk (q_nodes q) (q_head q) of None \<Rightarrow> [] | Some ts \<Rightarrow> ts)"

lemma walk_null: "walk h 0 = Some []"
  by (simp add: walk.simps)

lemma walk_lseg: "lseg h p as 0 \<Longrightarrow> walk h p = Some (map (task_at h) as)"
  by (induction as arbitrary: p)
    (auto simp: walk.simps task_at_def split: option.splits)

lemma tq_tasks_repr: "tq_repr q as \<Longrightarrow> tq_tasks q = map (task_at (q_nodes q)) as"
  by (auto simp: tq_repr_def tq_shape_def tq_tasks_def dest: walk_lseg)

lemma tq_repr_bound: "tq_repr q as \<Longrightarrow> length as < 2 ^ 64"
  unfolding tq_repr_def tq_shape_def using lseg_nonnull lseg_len_bound by blast

lemma tq_invE:
  assumes "tq_inv q"
  obtains as where "tq_repr q as" "tq_tasks q = map (task_at (q_nodes q)) as" "length as < 2 ^ 64"
  using assms tq_tasks_repr tq_repr_bound unfolding tq_inv_def by blast

lemma tq_inv_size: "tq_inv q \<Longrightarrow> unat (q_size q) = length (tq_tasks q)"
  by (erule tq_invE) (simp add: tq_repr_def unat_of_nat)

lemma tq_inv_head: "tq_inv q \<Longrightarrow> q_head q = 0 \<longleftrightarrow> tq_tasks q = []"
  by (erule tq_invE) (auto simp: tq_repr_def tq_shape_def dest: lseg_head lseg_nonnull)

lemma tq_inv_high_first: "tq_inv q \<Longrightarrow> high_first (tq_tasks q)"
  by (erule tq_invE) (simp add: tq_repr_def tq_shape_def)

lemma tq_inv_high_count:
  "tq_inv q \<Longrightarrow> q_high_priority_count q = of_nat (count_if high_priority (tq_tasks q))"
  by (erule tq_invE) (simp add: tq_repr_def)

lemma shape_mem: "tq_shape h p e as \<Longrightarrow> b \<in> set as \<Longrightarrow> b \<noteq> 0 \<and> (\<exists>n. h b = Some n)"
  using lseg_nonnull lseg_dom by (fastforce simp: tq_shape_def)

section \<open>Creation\<close>

lemma tq_create:
  assumes "task_queue_create cfg True = Some q"
  shows "tq_inv q \<and> tq_tasks q = [] \<and> q_shutting_down q = 0 \<and> q_blocked_threads q = 0"
proof -
  have "tq_repr q []" "q_shutting_down q = 0" "q_blocked_threads q = 0"
    using assms by (auto simp: task_queue_create_def tq_repr_def tq_shape_def Let_def)
  then show ?thesis using tq_tasks_repr by (auto simp: tq_inv_def)
qed

section \<open>Enqueue\<close>

lemma set_next_Some [simp]: "p \<noteq> 0 \<Longrightarrow> h p = Some n \<Longrightarrow> set_next h p v = Some (h(p \<mapsto> n\<lparr>n_next := v\<rparr>))"
  by (simp add: set_next_def)

lemma shape_push:
  assumes "tq_shape h p e as" "a \<noteq> 0" "h a = None" "n_next n = p"
    and "n_priority n = (if high_priority (n_task n) then 1 else 0)"
    and "high_first (n_task n # map (task_at h) as)"
  shows "tq_shape (h(a \<mapsto> n)) a (if e = 0 then a else e) (a # as)"
    and "map (task_at (h(a \<mapsto> n))) (a # as) = n_task n # map (task_at h) as"
proof -
  have a: "a \<notin> set as" using assms(1,3) by (auto simp: tq_shape_def)
  then show m: "map (task_at (h(a \<mapsto> n))) (a # as) = n_task n # map (task_at h) as" by auto
  have "e = 0 \<longleftrightarrow> as = []"
    using assms(1) lseg_nonnull [of h p as 0] by (metis last_in_set tq_shape_def)
  then show "tq_shape (h(a \<mapsto> n)) a (if e = 0 then a else e) (a # as)"
    unfolding tq_shape_def m using assms a by (auto simp: tq_shape_def)
qed

lemma shape_insert:
  assumes "tq_shape h p e (bs @ cs)" "bs \<noteq> []" "a \<noteq> 0" "h a = None"
    and "n_next n = (if cs = [] then 0 else hd cs)" "h (last bs) = Some m"
    and "n_priority n = (if high_priority (n_task n) then 1 else 0)"
    and "high_first (map (task_at h) bs @ n_task n # map (task_at h) cs)"
  shows "tq_shape (h(a \<mapsto> n, last bs \<mapsto> m\<lparr>n_next := a\<rparr>)) p (if cs = [] then a else e) (bs @ a # cs)"
    and "map (task_at (h(a \<mapsto> n, last bs \<mapsto> m\<lparr>n_next := a\<rparr>))) (bs @ a # cs)
      = map (task_at h) bs @ n_task n # map (task_at h) cs"
proof -
  let ?h = "h(a \<mapsto> n, last bs \<mapsto> m\<lparr>n_next := a\<rparr>)"
  have a: "a \<notin> set (bs @ cs)" using assms(1,4) by (auto simp: tq_shape_def)
  have lb: "last bs \<in> set bs" using assms(2) by simp
  have m: "n_task m = task_at h (last bs)" "n_priority m = prio_at h (last bs)"
    using assms(6) by (simp_all add: task_at_def prio_at_def)
  then have t: "task_at ?h b = task_at h b" "prio_at ?h b = prio_at h b" if "b \<noteq> a" for b
    using that by auto
  have ta: "task_at ?h a = n_task n" "prio_at ?h a = n_priority n"
    using a lb by (auto simp: task_at_def prio_at_def)
  have "map (task_at ?h) bs = map (task_at h) bs" "map (task_at ?h) cs = map (task_at h) cs"
    using a m by auto
  then show m: "map (task_at ?h) (bs @ a # cs)
      = map (task_at h) bs @ n_task n # map (task_at h) cs"
    using ta by simp
  have "lseg ?h p (bs @ a # cs) 0"
    using assms a by (intro lseg_insert) (auto simp: tq_shape_def)
  moreover have "dom ?h = set (bs @ a # cs)"
    using assms(1) lb by (auto simp: tq_shape_def)
  moreover have "prio_at ?h b = (if high_priority (task_at ?h b) then 1 else 0)"
    if "b \<in> set (bs @ a # cs)" for b
    using that assms(1,7) t ta by (cases "b = a") (auto simp: tq_shape_def)
  ultimately show "tq_shape ?h p (if cs = [] then a else e) (bs @ a # cs)"
    unfolding tq_shape_def m using assms(1,8) a by (auto simp: tq_shape_def)
qed

lemma shape_prio0:
  assumes "tq_shape h p e as" "b \<in> set as"
  shows "prio_at h b = 0 \<longleftrightarrow> \<not> high_priority (task_at h b)"
  using assms by (auto simp: tq_shape_def)

text \<open>The state right after \<open>malloc\<close>, with the new node filled in and not yet linked.\<close>

definition with_node :: "task_queue \<Rightarrow> addr \<Rightarrow> task_t \<Rightarrow> task_queue" where
  "with_node q a t = q\<lparr>q_nodes := (q_nodes q)(a \<mapsto> \<lparr>n_task = t, n_next = 0,
     n_priority = (if high_priority t then 1 else 0)\<rparr>)\<rparr>"

lemma last_high_shape:
  assumes "tq_shape h p e as" "h a = None"
  obtains bs cs where "as = bs @ cs"
    "last_high (h(a \<mapsto> n)) 0 p = Some (if bs = [] then 0 else last bs, if cs = [] then 0 else hd cs)"
    "map (task_at h) bs = takeWhile high_priority (map (task_at h) as)"
    "map (task_at h) cs = dropWhile high_priority (map (task_at h) as)"
proof -
  let ?h = "h(a \<mapsto> n)" and ?P = "high_priority \<circ> task_at h"
  have a: "a \<notin> set as" using assms by (auto simp: tq_shape_def)
  have prio: "(prio_at ?h b = 1) = ?P b" if "b \<in> set as" for b
    using that a assms(1) by (auto simp: tq_shape_def)
  have tw: "takeWhile (\<lambda>b. prio_at ?h b = 1) as = takeWhile ?P as"
    "dropWhile (\<lambda>b. prio_at ?h b = 1) as = dropWhile ?P as"
    by (rule takeWhile_cong [OF refl prio] dropWhile_cong [OF refl prio], assumption)+
  have "lseg ?h p as 0" using assms(1) a by (simp add: tq_shape_def)
  from last_high_lseg [OF this, of 0]
  have "last_high ?h 0 p = Some (if takeWhile ?P as = [] then 0 else last (takeWhile ?P as),
      if dropWhile ?P as = [] then 0 else hd (dropWhile ?P as))"
    unfolding tw Let_def .
  then show thesis
    by (intro that [of "takeWhile ?P as" "dropWhile ?P as"]) (simp_all add: takeWhile_map dropWhile_map)
qed

text \<open>A task of high priority goes to the front of a queue that holds none of its kind.\<close>

lemma insert_high_front:
  assumes "tq_shape (q_nodes q) (q_head q) (q_tail q) as" "a \<noteq> 0" "q_nodes q a = None"
    and t: "high_priority t" and front: "as = [] \<or> \<not> high_priority (task_at (q_nodes q) (hd as))"
  obtains h p e as' where "insert_high (with_node q a t) a
      = Some (q\<lparr>q_nodes := h, q_head := p, q_tail := e,
          q_high_priority_count := q_high_priority_count q + 1\<rparr>)"
    "tq_shape h p e as'" "map (task_at h) as' = pq_insert t (map (task_at (q_nodes q)) as)"
proof -
  let ?h = "q_nodes q" and ?n = "\<lparr>n_task = t, n_next = q_head q, n_priority = 1 :: c_int\<rparr>"
  let ?ts = "map (task_at ?h) as"
  have hf: "high_first ?ts" using assms(1) by (simp add: tq_shape_def)
  have push: "pq_insert t ?ts = t # ?ts" "high_first (t # ?ts)"
    using pq_insert_split [OF hf t] hf t front by (cases as; auto simp: high_first_Cons)+
  have hd: "q_head q = (if as = [] then 0 else hd as)" "q_head q = 0 \<longleftrightarrow> as = []"
    using assms(1) lseg_head [of ?h "q_head q" as] lseg_null by (auto simp: tq_shape_def)
  then have "insert_high (with_node q a t) a
    = Some (q\<lparr>q_nodes := ?h(a \<mapsto> ?n), q_head := a,
        q_tail := (if q_tail q = 0 then a else q_tail q),
        q_high_priority_count := q_high_priority_count q + 1\<rparr>)"
    using front assms shape_prio0 [OF assms(1), of "hd as"]
    by (cases as) (auto simp: insert_high_def with_node_def prio_at_def tq_shape_def split: option.splits)
  then show thesis
    by (rule that [of _ _ _ "a # as"]) (use shape_push [OF assms(1-3), of ?n] push t in simp_all)
qed

text \<open>Otherwise it goes behind the last of them.\<close>

lemma insert_high_behind:
  assumes "tq_shape (q_nodes q) (q_head q) (q_tail q) as" "a \<noteq> 0" "q_nodes q a = None"
    and t: "high_priority t" and ne: "as \<noteq> []" "high_priority (task_at (q_nodes q) (hd as))"
  obtains h p e as' where "insert_high (with_node q a t) a
      = Some (q\<lparr>q_nodes := h, q_head := p, q_tail := e,
          q_high_priority_count := q_high_priority_count q + 1\<rparr>)"
    "tq_shape h p e as'" "map (task_at h) as' = pq_insert t (map (task_at (q_nodes q)) as)"
proof -
  let ?h = "q_nodes q" and ?n = "\<lparr>n_task = t, n_next = 0, n_priority = 1 :: c_int\<rparr>"
  let ?ts = "map (task_at ?h) as"
  obtain bs cs where split: "as = bs @ cs"
    "last_high (?h(a \<mapsto> ?n)) 0 (q_head q)
      = Some (if bs = [] then 0 else last bs, if cs = [] then 0 else hd cs)"
    "map (task_at ?h) bs = takeWhile high_priority ?ts"
    "map (task_at ?h) cs = dropWhile high_priority ?ts"
    using last_high_shape [OF assms(1,3), of ?n] by blast
  have hf: "high_first ?ts" using assms(1) by (simp add: tq_shape_def)
  have ins: "pq_insert t ?ts = map (task_at ?h) bs @ t # map (task_at ?h) cs"
    using pq_insert_split [OF hf t] unfolding split(3,4) .
  have bs: "bs \<noteq> []" using split(3) ne by (cases as) auto
  obtain m where m: "?h (last bs) = Some m" "last bs \<noteq> 0"
    using shape_mem [OF assms(1), of "last bs"] bs split(1) by auto
  obtain k where k: "?h (hd as) = Some k" "n_priority k \<noteq> 0" "hd as \<noteq> 0"
    using shape_prio0 [OF assms(1), of "hd as"] shape_mem [OF assms(1), of "hd as"] ne
    by (auto simp: prio_at_def)
  have hd: "q_head q = hd as" using assms(1) ne lseg_head [of ?h "q_head q" as] by (simp add: tq_shape_def)
  have other: "last bs \<noteq> a" "hd as \<noteq> a" using m k assms(3) by auto
  let ?nx = "if cs = [] then 0 else hd cs"
  let ?h' = "?h(a \<mapsto> ?n\<lparr>n_next := ?nx\<rparr>, last bs \<mapsto> m\<lparr>n_next := a\<rparr>)"
  have nx: "?nx = 0 \<longleftrightarrow> cs = []"
    using shape_mem [OF assms(1), of "hd cs"] split(1) by auto
  have eval: "insert_high (with_node q a t) a = Some (q\<lparr>q_nodes := ?h', q_head := q_head q,
      q_tail := (if cs = [] then a else q_tail q),
      q_high_priority_count := q_high_priority_count q + 1\<rparr>)"
    using split(2) bs m hd k other assms(2,4) nx by (simp add: insert_high_def with_node_def)
  have "tq_shape ?h (q_head q) (q_tail q) (bs @ cs)" using assms(1) split(1) by simp
  from shape_insert [OF this bs assms(2,3) _ m(1), of "?n\<lparr>n_next := ?nx\<rparr>"]
  have shape: "tq_shape ?h' (q_head q) (if cs = [] then a else q_tail q) (bs @ a # cs)"
    "map (task_at ?h') (bs @ a # cs) = pq_insert t ?ts"
    using pq_insert_high_first [OF hf, of t] t unfolding ins by simp_all
  show thesis by (rule that [OF eval shape])
qed

lemma insert_high_shape:
  assumes "tq_shape (q_nodes q) (q_head q) (q_tail q) as" "a \<noteq> 0" "q_nodes q a = None"
    and "high_priority t"
  obtains h p e as' where "insert_high (with_node q a t) a
      = Some (q\<lparr>q_nodes := h, q_head := p, q_tail := e,
          q_high_priority_count := q_high_priority_count q + 1\<rparr>)"
    "tq_shape h p e as'" "map (task_at h) as' = pq_insert t (map (task_at (q_nodes q)) as)"
proof (cases "as = [] \<or> \<not> high_priority (task_at (q_nodes q) (hd as))")
  case True
  then show thesis by (rule insert_high_front [OF assms]) (rule that)
next
  case False
  then have "as \<noteq> []" "high_priority (task_at (q_nodes q) (hd as))" by simp_all
  then show thesis by (rule insert_high_behind [OF assms]) (rule that)
qed

lemma insert_normal_shape:
  assumes "tq_shape (q_nodes q) (q_head q) (q_tail q) as" "a \<noteq> 0" "q_nodes q a = None"
    and "\<not> high_priority t"
  obtains h p e as' where "insert_normal (with_node q a t) a
      = Some (q\<lparr>q_nodes := h, q_head := p, q_tail := e\<rparr>)"
    "tq_shape h p e as'" "map (task_at h) as' = pq_insert t (map (task_at (q_nodes q)) as)"
proof (cases "as = []")
  case True
  then have "q_head q = 0" "q_nodes q = Map.empty" using assms(1) by (auto simp: tq_shape_def)
  moreover from this have "insert_normal (with_node q a t) a
    = Some (q\<lparr>q_nodes := [a \<mapsto> \<lparr>n_task = t, n_next = 0, n_priority = 0\<rparr>], q_head := a, q_tail := a\<rparr>)"
    using assms(4) by (simp add: insert_normal_def with_node_def)
  moreover have "tq_shape [a \<mapsto> \<lparr>n_task = t, n_next = 0, n_priority = 0\<rparr>] a a [a]"
    using assms(2,4) by (simp add: tq_shape_def high_first_Cons)
  ultimately show thesis
    using True assms(4) by (intro that) (auto simp: pq_insert_def)
next
  case False
  let ?h = "q_nodes q" and ?n = "\<lparr>n_task = t, n_next = 0, n_priority = 0 :: c_int\<rparr>"
  obtain m where m: "?h (last as) = Some m" "last as \<noteq> 0"
    using shape_mem [OF assms(1) last_in_set [OF False]] by auto
  then have e: "q_tail q = last as" "q_head q \<noteq> 0" "last as \<noteq> a"
    using assms(1,3) False by (auto simp: tq_shape_def)
  have ins: "pq_insert t (map (task_at ?h) as) = map (task_at ?h) as @ [t]"
    using assms(4) by (simp add: pq_insert_def)
  have "high_first (map (task_at ?h) as)" using assms(1) by (simp add: tq_shape_def)
  from pq_insert_high_first [OF this, of t]
  have hf': "high_first (map (task_at ?h) as @ [t])" unfolding ins .
  have "insert_normal (with_node q a t) a
    = Some (q\<lparr>q_nodes := ?h(a \<mapsto> ?n, last as \<mapsto> m\<lparr>n_next := a\<rparr>), q_head := q_head q, q_tail := a\<rparr>)"
    using e m assms(4) by (simp add: insert_normal_def with_node_def)
  then show thesis
    using shape_insert [of ?h "q_head q" "q_tail q" as "[]" a ?n m] assms False m hf' ins
    by (intro that) auto
qed

text \<open>
  When the queue takes a task: it is not shutting down, has room, and, where duplicates are
  refused, no queued task has the id.
\<close>

definition tq_accepts :: "task_queue \<Rightarrow> task_t \<Rightarrow> bool" where
  "tq_accepts q t \<longleftrightarrow>
     q_shutting_down q = 0 \<and> \<not> (q_max_size q > 0 \<and> q_size q \<ge> q_max_size q) \<and>
     (q_allow_duplicates q \<noteq> 0 \<or> t_task_id t \<notin> t_task_id ` set (tq_tasks q))"

text \<open>The fields no queue operation on the contents writes.\<close>

definition tq_frame :: "task_queue \<Rightarrow> task_queue \<Rightarrow> bool" where
  "tq_frame q q' \<longleftrightarrow>
     q_max_size q' = q_max_size q \<and> q_allow_duplicates q' = q_allow_duplicates q \<and>
     q_shutting_down q' = q_shutting_down q \<and> q_blocked_threads q' = q_blocked_threads q"

lemma tq_dup:
  assumes "tq_inv q"
  shows "task_exists (q_nodes q) (q_head q) tid = Some (tid \<in> t_task_id ` set (tq_tasks q))"
  using assms by (elim tq_invE) (auto simp: tq_repr_def tq_shape_def task_exists_lseg image_iff)

lemma insert_shape:
  assumes "tq_repr q as" "a \<noteq> 0" "q_nodes q a = None"
  obtains h p e as' where
    "(if high_priority t then insert_high (with_node q a t) a else insert_normal (with_node q a t) a)
      = Some (q\<lparr>q_nodes := h, q_head := p, q_tail := e, q_high_priority_count :=
          q_high_priority_count q + (if high_priority t then 1 else 0)\<rparr>)"
    "tq_shape h p e as'" "map (task_at h) as' = pq_insert t (map (task_at (q_nodes q)) as)"
proof (cases "high_priority t")
  case True
  from assms(1) have "tq_shape (q_nodes q) (q_head q) (q_tail q) as" by (simp add: tq_repr_def)
  then show thesis
    by (rule insert_high_shape [OF _ assms(2,3) True]) (rule that, simp_all add: True)
next
  case False
  from assms(1) have "tq_shape (q_nodes q) (q_head q) (q_tail q) as" by (simp add: tq_repr_def)
  then show thesis
    by (rule insert_normal_shape [OF _ assms(2,3) False]) (rule that, simp_all add: False)
qed

lemma enqueue_ok:
  assumes "tq_inv q" "tq_accepts q t" "a \<noteq> 0" "q_nodes q a = None"
  shows "\<exists>q'. task_queue_enqueue (Some q) (Some t) a = Some (0, Some q') \<and> tq_inv q' \<and>
    tq_tasks q' = pq_insert t (tq_tasks q) \<and> tq_frame q q' \<and>
    q_total_enqueued q' = q_total_enqueued q + 1 \<and> q_total_dequeued q' = q_total_dequeued q"
proof -
  obtain as where as: "tq_repr q as" "tq_tasks q = map (task_at (q_nodes q)) as"
    using assms(1) tq_invE by blast
  obtain h p e as' where ins:
    "(if high_priority t then insert_high (with_node q a t) a else insert_normal (with_node q a t) a)
      = Some (q\<lparr>q_nodes := h, q_head := p, q_tail := e, q_high_priority_count :=
          q_high_priority_count q + (if high_priority t then 1 else 0)\<rparr>)"
    and shape: "tq_shape h p e as'"
    and map: "map (task_at h) as' = pq_insert t (map (task_at (q_nodes q)) as)"
    by (rule insert_shape [OF as(1) assms(3,4), where t = t])
  let ?q = "q\<lparr>q_nodes := h, q_head := p, q_tail := e, q_high_priority_count :=
      q_high_priority_count q + (if high_priority t then 1 else 0),
      q_size := q_size q + 1, q_total_enqueued := q_total_enqueued q + 1\<rparr>"
  have len: "length as' = Suc (length as)"
    using arg_cong [OF map, of length] by simp
  have cnt: "count_if high_priority (map (task_at h) as')
      = count_if high_priority (map (task_at (q_nodes q)) as) + (if high_priority t then 1 else 0)"
    unfolding map by (rule count_pq_insert)
  have repr: "tq_repr ?q as'"
    using as(1) shape len cnt by (auto simp: tq_repr_def simp del: length_map)
  have "task_queue_enqueue (Some q) (Some t) a = Some (0, Some ?q)"
    using assms(2,3) ins tq_dup [OF assms(1), of "t_task_id t"]
    by (simp add: tq_accepts_def with_node_def high_priority_def Let_def split: if_splits)
  moreover have "tq_tasks ?q = pq_insert t (tq_tasks q)"
    using tq_tasks_repr [OF repr] map as(2) by simp
  ultimately show ?thesis using repr by (auto simp: tq_inv_def tq_frame_def)
qed

text \<open>Every branch of the call, errors included: the code it returns, and that an error leaves
  the queue as it was.\<close>

definition enqueue_code :: "task_queue \<Rightarrow> task_t \<Rightarrow> addr \<Rightarrow> c_int" where
  "enqueue_code q t a =
     (if q_shutting_down q \<noteq> 0 then -1
      else if q_max_size q > 0 \<and> q_size q \<ge> q_max_size q then -2
      else if q_allow_duplicates q = 0 \<and> t_task_id t \<in> t_task_id ` set (tq_tasks q) then -3
      else if a = 0 then -1 else 0)"

lemma enqueue_code_0: "enqueue_code q t a = 0 \<longleftrightarrow> tq_accepts q t \<and> a \<noteq> 0"
  by (auto simp: enqueue_code_def tq_accepts_def)

lemma enqueue_err:
  assumes "tq_inv q" "enqueue_code q t a \<noteq> 0"
  shows "task_queue_enqueue (Some q) (Some t) a = Some (enqueue_code q t a, Some q)"
  using assms(2) tq_dup [OF assms(1), of "t_task_id t"]
  by (simp add: enqueue_code_def split: if_splits)

section \<open>Dequeue and peek\<close>

lemma shape_pop:
  assumes "tq_shape h p e (a # as)"
  obtains n where "h a = Some n" "p = a" "a \<noteq> 0" "n_task n = task_at h a"
    "n_priority n = (if high_priority (n_task n) then 1 else 0)"
    "n_next n = 0 \<longleftrightarrow> as = []"
    "tq_shape (h(a := None)) (n_next n) (if n_next n = 0 then 0 else e) as"
proof -
  obtain n where n: "h a = Some n" "lseg h (n_next n) as 0" "p = a" "a \<noteq> 0"
    using assms lseg_Cons_next [of h p a as 0] by (auto simp: tq_shape_def)
  moreover have t: "n_task n = task_at h a" "n_priority n = (if high_priority (n_task n) then 1 else 0)"
    using assms n by (auto simp: tq_shape_def task_at_def prio_at_def)
  moreover have null: "n_next n = 0 \<longleftrightarrow> as = []" using n(2) by (cases as) auto
  moreover have a: "a \<notin> set as" using assms by (simp add: tq_shape_def)
  have "tq_shape (h(a := None)) (n_next n) (if n_next n = 0 then 0 else e) as"
    unfolding tq_shape_def
  proof (intro conjI)
    show "lseg (h(a := None)) (n_next n) as 0" using n(2) a by (rule lseg_upd [THEN iffD2, rotated])
    show "\<forall>b \<in> set as. prio_at (h(a := None)) b
        = (if high_priority (task_at (h(a := None)) b) then 1 else 0)"
      using assms a by (auto simp: tq_shape_def task_at_def prio_at_def)
    show "high_first (map (task_at (h(a := None))) as)"
      using assms a by (simp add: tq_shape_def high_first_Cons)
  qed (use assms a null in \<open>auto simp: tq_shape_def\<close>)
  ultimately show thesis using that by blast
qed

lemma remove_head_ok:
  assumes "tq_inv q" "tq_tasks q = t # ts"
  shows "\<exists>q'. remove_head q = Some (t, q') \<and> tq_inv q' \<and> tq_tasks q' = ts \<and> tq_frame q q' \<and>
    q_total_dequeued q' = q_total_dequeued q + 1 \<and> q_total_enqueued q' = q_total_enqueued q"
proof -
  obtain bs where bs: "tq_repr q bs" "map (task_at (q_nodes q)) bs = t # ts"
    using assms tq_invE by metis
  then obtain a as where as: "tq_repr q (a # as)" "t = task_at (q_nodes q) a"
      "ts = map (task_at (q_nodes q)) as"
    by (auto simp: map_eq_Cons_conv)
  obtain n where n: "q_nodes q a = Some n" "q_head q = a" "a \<noteq> 0" "n_task n = t"
    "n_priority n = (if high_priority (n_task n) then 1 else 0)"
    "n_next n = 0 \<longleftrightarrow> as = []"
    and shape: "tq_shape ((q_nodes q)(a := None)) (n_next n) (if n_next n = 0 then 0 else q_tail q) as"
    using as by (auto simp: tq_repr_def elim: shape_pop)
  let ?q = "q\<lparr>q_head := n_next n, q_tail := (if n_next n = 0 then 0 else q_tail q),
      q_high_priority_count := q_high_priority_count q - (if high_priority t then 1 else 0),
      q_size := q_size q - 1, q_total_dequeued := q_total_dequeued q + 1,
      q_nodes := (q_nodes q)(a := None)\<rparr>"
  have a: "a \<notin> set as" using as(1) by (simp add: tq_repr_def tq_shape_def)
  have "remove_head q = Some (t, ?q)"
    using n by (simp add: remove_head_def)
  moreover have repr: "tq_repr ?q as"
    using as(1,2) shape a by (simp add: tq_repr_def)
  moreover have "tq_tasks ?q = ts" using tq_tasks_repr [OF repr] a as(3) by simp
  ultimately show ?thesis by (auto simp: tq_inv_def tq_frame_def)
qed

lemma dequeue_ok:
  assumes "tq_inv q" "tq_tasks q = t # ts"
  shows "\<exists>q'. task_queue_dequeue (Some q) (Some buf) = Some (0, Some q', Some t) \<and> tq_inv q' \<and>
    tq_tasks q' = ts \<and> tq_frame q q' \<and> q_total_dequeued q' = q_total_dequeued q + 1 \<and>
    q_total_enqueued q' = q_total_enqueued q"
  using remove_head_ok [OF assms] tq_inv_head [OF assms(1)] assms(2) by auto

lemma dequeue_empty:
  "tq_inv q \<Longrightarrow> tq_tasks q = []
    \<Longrightarrow> task_queue_dequeue (Some q) (Some buf) = Some (-1, Some q, Some buf)"
  using tq_inv_head [of q] by simp

lemma peek_ok:
  "tq_inv q \<Longrightarrow> task_queue_peek (Some q) (Some buf) =
     Some (case tq_tasks q of [] \<Rightarrow> (-1, Some buf) | t # ts \<Rightarrow> (0, Some t))"
proof (cases "tq_tasks q")
  case (Cons t ts)
  assume inv: "tq_inv q"
  then obtain q' where "remove_head q = Some (t, q')" using remove_head_ok [OF _ Cons] by blast
  then have "\<exists>n. deref (q_nodes q) (q_head q) = Some n \<and> n_task n = t"
    by (auto simp: remove_head_def Let_def split: bind_splits if_splits)
  with Cons tq_inv_head [OF inv] show ?thesis by auto
qed (use tq_inv_head [of q] in simp)

section \<open>Removal by id\<close>

fun remove_task :: "u64 \<Rightarrow> task_t list \<Rightarrow> task_t list" where
  "remove_task tid [] = []"
| "remove_task tid (t # ts) = (if t_task_id t = tid then ts else t # remove_task tid ts)"

lemma remove_task_split:
  "\<forall>u \<in> set us. t_task_id u \<noteq> tid \<Longrightarrow> t_task_id t = tid \<Longrightarrow> remove_task tid (us @ t # vs) = us @ vs"
  by (induction us) auto

lemma remove_task_absent: "\<forall>u \<in> set us. t_task_id u \<noteq> tid \<Longrightarrow> remove_task tid us = us"
  by (induction us) auto

lemma shape_delete:
  assumes "tq_shape h p e (bs @ c # cs)" "bs \<noteq> []" "h c = Some n"
  shows "\<exists>m. h (last bs) = Some m \<and>
      tq_shape ((h(last bs \<mapsto> m\<lparr>n_next := n_next n\<rparr>))(c := None)) p
        (if cs = [] then last bs else e) (bs @ cs) \<and>
      map (task_at ((h(last bs \<mapsto> m\<lparr>n_next := n_next n\<rparr>))(c := None))) (bs @ cs)
        = map (task_at h) (bs @ cs)"
proof -
  obtain m where m: "h (last bs) = Some m"
      "lseg ((h(last bs \<mapsto> m\<lparr>n_next := n_next n\<rparr>))(c := None)) p (bs @ cs) 0"
    using lseg_delete [of h p bs c cs n] assms by (auto simp: tq_shape_def)
  let ?h = "(h(last bs \<mapsto> m\<lparr>n_next := n_next n\<rparr>))(c := None)"
  have lb: "last bs \<in> set bs" and c: "c \<notin> set (bs @ cs)"
    using assms(1,2) by (auto simp: tq_shape_def)
  have t: "task_at ?h b = task_at h b" "prio_at ?h b = prio_at h b" if "b \<in> set (bs @ cs)" for b
    using that c m(1) by (auto simp: task_at_def prio_at_def)
  then have map: "map (task_at ?h) (bs @ cs) = map (task_at h) (bs @ cs)" by simp
  have "dom ?h = set (bs @ cs)" using assms(1) lb c by (auto simp: tq_shape_def)
  moreover have "\<forall>b \<in> set (bs @ cs). prio_at ?h b = (if high_priority (task_at ?h b) then 1 else 0)"
    using assms(1) t by (simp add: tq_shape_def)
  moreover have "high_first (map (task_at ?h) (bs @ cs))"
    unfolding map using assms(1) by (auto simp: tq_shape_def high_first_append high_first_Cons)
  ultimately have "tq_shape ?h p (if cs = [] then last bs else e) (bs @ cs)"
    unfolding tq_shape_def using m(2) assms(1,2) by (auto simp: tq_shape_def)
  with m(1) map show ?thesis by blast
qed

lemma remove_hit:
  assumes "tq_repr q (bs @ c # cs)" "\<And>b. b \<in> set bs \<Longrightarrow> t_task_id (task_at (q_nodes q) b) \<noteq> tid"
    and "t_task_id (task_at (q_nodes q) c) = tid"
  obtains q' where "task_queue_remove_by_id (Some q) tid = Some (0, Some q')" "tq_repr q' (bs @ cs)"
    "map (task_at (q_nodes q')) (bs @ cs) = map (task_at (q_nodes q)) (bs @ cs)" "tq_frame q q'"
    "q_total_enqueued q' = q_total_enqueued q" "q_total_dequeued q' = q_total_dequeued q"
proof -
  let ?h = "q_nodes q"
  have shape: "tq_shape ?h (q_head q) (q_tail q) (bs @ c # cs)" using assms(1) by (simp add: tq_repr_def)
  then obtain n where n: "?h c = Some n" "c \<noteq> 0" using shape_mem [of _ _ _ _ c] by fastforce
  have prio: "n_priority n = (if high_priority (task_at ?h c) then 1 else 0)"
    using shape n by (auto simp: tq_shape_def prio_at_def)
  have find: "find_node ?h 0 (q_head q) tid = Some (Some (if bs = [] then 0 else last bs, c))"
    using shape assms(2,3) by (intro find_node_hit) (auto simp: tq_shape_def)
  have tail: "c = q_tail q \<longleftrightarrow> cs = []"
    using shape last_in_set [of cs] by (auto simp: tq_shape_def)
  let ?upd = "\<lambda>h p e. q\<lparr>q_nodes := h(c := None), q_head := p, q_tail := e,
      q_high_priority_count := q_high_priority_count q - (if high_priority (task_at ?h c) then 1 else 0),
      q_size := q_size q - 1\<rparr>"
  show thesis
  proof (cases "bs = []")
    case True
    have shape': "tq_shape (?h(c := None)) (n_next n) (if cs = [] then 0 else q_tail q) cs"
      using shape n True by (auto elim: shape_pop)
    have c: "c \<notin> set cs" using shape by (simp add: tq_shape_def)
    have "task_queue_remove_by_id (Some q) tid
        = Some (0, Some (?upd ?h (n_next n) (if cs = [] then 0 else q_tail q)))"
      using find n prio tail True by simp
    moreover have "tq_repr (?upd ?h (n_next n) (if cs = [] then 0 else q_tail q)) (bs @ cs)"
      using shape' c assms(1) True by (simp add: tq_repr_def)
    ultimately show thesis by (rule that) (use c True in \<open>simp_all add: tq_frame_def\<close>)
  next
    case False
    obtain m where m: "?h (last bs) = Some m"
      and shape': "tq_shape ((?h(last bs \<mapsto> m\<lparr>n_next := n_next n\<rparr>))(c := None)) (q_head q)
        (if cs = [] then last bs else q_tail q) (bs @ cs)"
      and map: "map (task_at ((?h(last bs \<mapsto> m\<lparr>n_next := n_next n\<rparr>))(c := None))) (bs @ cs)
        = map (task_at ?h) (bs @ cs)"
      using shape_delete [OF shape False n(1)] by blast
    have sz: "q_size q - 1 = of_nat (length (bs @ cs))"
      using assms(1) by (simp add: tq_repr_def)
    have ct: "q_high_priority_count q - (if high_priority (task_at ?h c) then 1 else 0)
        = of_nat (count_if high_priority
            (map (task_at ((?h(last bs \<mapsto> m\<lparr>n_next := n_next n\<rparr>))(c := None))) (bs @ cs)))"
      unfolding map using assms(1) by (simp add: tq_repr_def)
    have "last bs \<noteq> 0" using shape_mem [OF shape, of "last bs"] False by simp
    then have "task_queue_remove_by_id (Some q) tid
        = Some (0, Some (?upd (?h(last bs \<mapsto> m\<lparr>n_next := n_next n\<rparr>)) (q_head q)
            (if cs = [] then last bs else q_tail q)))"
      using find n prio tail m False by simp
    moreover have "tq_repr (?upd (?h(last bs \<mapsto> m\<lparr>n_next := n_next n\<rparr>)) (q_head q)
            (if cs = [] then last bs else q_tail q)) (bs @ cs)"
      unfolding tq_repr_def using shape' sz ct by (simp del: map_append filter_append length_append)
    ultimately show thesis by (rule that) (use map in \<open>simp_all add: tq_frame_def\<close>)
  qed
qed

lemma remove_ok:
  assumes "tq_inv q" "tid \<in> t_task_id ` set (tq_tasks q)"
  shows "\<exists>q'. task_queue_remove_by_id (Some q) tid = Some (0, Some q') \<and> tq_inv q' \<and>
    tq_tasks q' = remove_task tid (tq_tasks q) \<and> tq_frame q q' \<and>
    q_total_enqueued q' = q_total_enqueued q \<and> q_total_dequeued q' = q_total_dequeued q"
proof -
  obtain as where as: "tq_repr q as" "tq_tasks q = map (task_at (q_nodes q)) as"
    using assms(1) tq_invE by blast
  then have "\<exists>a \<in> set as. t_task_id (task_at (q_nodes q) a) = tid" using assms(2) by auto
  from split_list_first_prop [OF this]
  obtain bs c cs where split: "as = bs @ c # cs" "t_task_id (task_at (q_nodes q) c) = tid"
      "\<forall>b \<in> set bs. t_task_id (task_at (q_nodes q) b) \<noteq> tid"
    by blast
  obtain q' where q': "task_queue_remove_by_id (Some q) tid = Some (0, Some q')"
      "tq_repr q' (bs @ cs)"
      "map (task_at (q_nodes q')) (bs @ cs) = map (task_at (q_nodes q)) (bs @ cs)"
      "tq_frame q q'" "q_total_enqueued q' = q_total_enqueued q"
      "q_total_dequeued q' = q_total_dequeued q"
    by (rule remove_hit [OF as(1) [unfolded split(1)] bspec [OF split(3)] split(2)])
  then have "tq_tasks q' = remove_task tid (tq_tasks q)"
    using tq_tasks_repr [OF q'(2)] as(2) split by (simp add: remove_task_split)
  with q' show ?thesis by (auto simp: tq_inv_def)
qed

lemma remove_absent:
  "tq_inv q \<Longrightarrow> tid \<notin> t_task_id ` set (tq_tasks q)
    \<Longrightarrow> task_queue_remove_by_id (Some q) tid = Some (-1, Some q)"
proof (erule tq_invE)
  fix as
  assume "tid \<notin> t_task_id ` set (tq_tasks q)" "tq_repr q as" "tq_tasks q = map (task_at (q_nodes q)) as"
  then have "find_node (q_nodes q) 0 (q_head q) tid = Some None"
    by (intro find_node_miss) (auto simp: tq_repr_def tq_shape_def)
  then show "task_queue_remove_by_id (Some q) tid = Some (-1, Some q)" by simp
qed

section \<open>Clearing and destruction\<close>

lemma clear_ok:
  assumes "tq_inv q"
  shows "\<exists>q'. task_queue_clear (Some q) = Some (of_nat (length (tq_tasks q)), Some q') \<and>
    tq_inv q' \<and> tq_tasks q' = [] \<and> tq_frame q q' \<and> q_nodes q' = Map.empty"
proof -
  obtain as where as: "tq_repr q as" "tq_tasks q = map (task_at (q_nodes q)) as"
    using assms(1) tq_invE by blast
  then have "q_nodes q |` (- set as) = Map.empty"
    by (auto simp: tq_repr_def tq_shape_def restrict_map_def fun_eq_iff)
  with as have "task_queue_clear (Some q) = Some (of_nat (length (tq_tasks q)),
      Some (q\<lparr>q_nodes := Map.empty, q_head := 0, q_tail := 0, q_size := 0,
        q_high_priority_count := 0\<rparr>))"
    by (auto simp: tq_repr_def tq_shape_def free_nodes_lseg)
  moreover have "tq_repr (q\<lparr>q_nodes := Map.empty, q_head := 0, q_tail := 0, q_size := 0,
      q_high_priority_count := 0\<rparr>) []"
    by (simp add: tq_repr_def tq_shape_def)
  ultimately show ?thesis using tq_tasks_repr by (fastforce simp: tq_inv_def tq_frame_def)
qed

lemma destroy_ok:
  assumes "tq_inv q" "q_blocked_threads q = 0"
  shows "task_queue_destroy (Some q) = Some (of_nat (length (tq_tasks q)), Map.empty)"
proof -
  obtain as where as: "tq_repr q as" "tq_tasks q = map (task_at (q_nodes q)) as"
    using assms(1) tq_invE by blast
  then have "q_nodes q |` (- set as) = Map.empty"
    by (auto simp: tq_repr_def tq_shape_def restrict_map_def fun_eq_iff)
  with as assms(2) show ?thesis by (auto simp: tq_repr_def tq_shape_def free_nodes_lseg)
qed

end
