(* ===== verification/Queue_Interface.thy ===== *)
theory Queue_Interface
  imports Task_Queue_Refine
begin

text \<open>
  What the coordinator and the worker rely on when they use a task queue, as a locale over an
  abstract queue type, the loops they run over it, and the interpretation of the locale on the
  pointer model of \<open>task_queue.c\<close>.
\<close>

section \<open>The loops of the clients\<close>

text \<open>
  \<open>for (i = 0; i < n; i++) if (dequeue(queue, &batch[i]) != 0) break;\<close> with the dequeued tasks
  collected in order.
\<close>

fun dequeue_upto ::
    "('q \<Rightarrow> (c_int \<times> 'q \<times> task_t) option) \<Rightarrow> nat \<Rightarrow> 'q \<Rightarrow> (task_t list \<times> 'q) option" where
  "dequeue_upto deq 0 q = Some ([], q)"
| "dequeue_upto deq (Suc n) q = do {
     (rc, q', t) \<leftarrow> deq q;
     if rc \<noteq> 0 then Some ([], q')
     else do { (ts, q'') \<leftarrow> dequeue_upto deq n q'; Some (t # ts, q'') }
   }"

text \<open>
  \<open>for (j = 0; j < n; j++) enqueue(queue, &batch[j]);\<close> with the return codes collected.
  \<open>malloc\<close> is the address the allocator returns in the current state of the queue.
\<close>

fun enqueue_all ::
    "('q \<Rightarrow> task_t \<Rightarrow> addr \<Rightarrow> (c_int \<times> 'q) option) \<Rightarrow> ('q \<Rightarrow> addr) \<Rightarrow> task_t list \<Rightarrow> 'q
      \<Rightarrow> (c_int list \<times> 'q) option" where
  "enqueue_all enq malloc [] q = Some ([], q)"
| "enqueue_all enq malloc (t # ts) q = do {
     (rc, q') \<leftarrow> enq q t (malloc q);
     (rcs, q'') \<leftarrow> enqueue_all enq malloc ts q';
     Some (rc # rcs, q'')
   }"

section \<open>The interface\<close>

definition has_room :: "nat option \<Rightarrow> nat \<Rightarrow> bool" where
  "has_room cap n \<longleftrightarrow> (case cap of None \<Rightarrow> True | Some k \<Rightarrow> n < k)"

locale task_queue_interface =
  fixes invar :: "'q \<Rightarrow> bool"
    and contents :: "'q \<Rightarrow> task_t list"
    and deq :: "'q \<Rightarrow> (c_int \<times> 'q \<times> task_t) option"
    and enq :: "'q \<Rightarrow> task_t \<Rightarrow> addr \<Rightarrow> (c_int \<times> 'q) option"
    and fresh :: "'q \<Rightarrow> addr \<Rightarrow> bool"
    and closed :: "'q \<Rightarrow> bool"
    and capacity :: "'q \<Rightarrow> nat option"
    and unique_ids :: "'q \<Rightarrow> bool"
  assumes deq_empty: "invar q \<Longrightarrow> contents q = [] \<Longrightarrow> \<exists>t. deq q = Some (-1, q, t)"
    and deq_Cons: "invar q \<Longrightarrow> contents q = t # ts \<Longrightarrow>
      \<exists>q'. deq q = Some (0, q', t) \<and> invar q' \<and> contents q' = ts \<and> closed q' = closed q \<and>
        capacity q' = capacity q \<and> unique_ids q' = unique_ids q"
    and enq_ok: "invar q \<Longrightarrow> fresh q a \<Longrightarrow> \<not> closed q
      \<Longrightarrow> has_room (capacity q) (length (contents q))
      \<Longrightarrow> unique_ids q \<longrightarrow> t_task_id t \<notin> t_task_id ` set (contents q) \<Longrightarrow>
      \<exists>q'. enq q t a = Some (0, q') \<and> invar q' \<and> contents q' = pq_insert t (contents q) \<and>
        closed q' = closed q \<and> capacity q' = capacity q \<and> unique_ids q' = unique_ids q"
    and enq_total: "invar q \<Longrightarrow> a = 0 \<or> fresh q a \<Longrightarrow>
      \<exists>rc q'. enq q t a = Some (rc, q') \<and> invar q' \<and> (rc \<noteq> 0 \<longrightarrow> q' = q) \<and>
        (rc = 0 \<longrightarrow> contents q' = pq_insert t (contents q)) \<and>
        closed q' = closed q \<and> capacity q' = capacity q \<and> unique_ids q' = unique_ids q"
begin

lemma dequeue_upto_take:
  "invar q \<Longrightarrow> \<exists>q'. dequeue_upto deq n q = Some (take n (contents q), q') \<and> invar q' \<and>
     contents q' = drop n (contents q) \<and> closed q' = closed q \<and> capacity q' = capacity q \<and>
     unique_ids q' = unique_ids q"
proof (induction n arbitrary: q)
  case 0
  then show ?case by simp
next
  case (Suc n)
  show ?case
  proof (cases "contents q")
    case Nil
    with Suc.prems obtain t where "deq q = Some (-1, q, t)" using deq_empty by blast
    with Nil Suc.prems show ?thesis by simp
  next
    case (Cons t ts)
    with Suc.prems obtain q1 where q1: "deq q = Some (0, q1, t)" "invar q1" "contents q1 = ts"
        "closed q1 = closed q" "capacity q1 = capacity q" "unique_ids q1 = unique_ids q"
      using deq_Cons by blast
    from Suc.IH [OF q1(2)] q1 Cons show ?thesis by auto
  qed
qed

text \<open>A loop of enqueues is always defined, and inserts exactly the tasks it reports as taken.\<close>

lemma enqueue_all_total:
  assumes "\<And>q. malloc q = 0 \<or> fresh q (malloc q)"
  shows "invar q \<Longrightarrow> \<exists>rcs q'. enqueue_all enq malloc ts q = Some (rcs, q') \<and> invar q' \<and>
    length rcs = length ts \<and>
    contents q' = fold pq_insert (map fst (filter (\<lambda>(t, rc). rc = 0) (zip ts rcs))) (contents q)"
proof (induction ts arbitrary: q)
  case Nil
  then show ?case by simp
next
  case (Cons t ts)
  obtain rc q1 where q1: "enq q t (malloc q) = Some (rc, q1)" "invar q1" "rc \<noteq> 0 \<longrightarrow> q1 = q"
      "rc = 0 \<longrightarrow> contents q1 = pq_insert t (contents q)"
    using enq_total [OF Cons.prems assms [of q]] by blast
  from Cons.IH [OF q1(2)] q1 show ?case
    by (cases "rc = 0") fastforce+
qed

text \<open>With room, an allocator that does not fail and fresh ids, nothing is lost.\<close>

lemma enqueue_all_ok:
  assumes "\<And>q. invar q \<Longrightarrow> length (contents q) < limit \<Longrightarrow> fresh q (malloc q)"
  shows "invar q \<Longrightarrow> \<not> closed q \<Longrightarrow> length (contents q) + length ts \<le> limit
    \<Longrightarrow> (\<And>k. capacity q = Some k \<Longrightarrow> length (contents q) + length ts \<le> k)
    \<Longrightarrow> unique_ids q \<longrightarrow> distinct (map t_task_id ts) \<and>
        t_task_id ` set ts \<inter> t_task_id ` set (contents q) = {}
    \<Longrightarrow> \<exists>rcs q'. enqueue_all enq malloc ts q = Some (rcs, q') \<and> invar q' \<and>
          contents q' = fold pq_insert ts (contents q) \<and> closed q' = closed q \<and>
          capacity q' = capacity q \<and> unique_ids q' = unique_ids q"
proof (induction ts arbitrary: q)
  case Nil
  then show ?case by simp
next
  case (Cons t ts)
  have room: "has_room (capacity q) (length (contents q))"
    using Cons.prems(4) by (auto simp: has_room_def split: option.split)
  have fr: "fresh q (malloc q)" using assms [OF Cons.prems(1)] Cons.prems(3) by simp
  obtain q1 where q1: "enq q t (malloc q) = Some (0, q1)" "invar q1"
      "contents q1 = pq_insert t (contents q)" "closed q1 = closed q" "capacity q1 = capacity q"
      "unique_ids q1 = unique_ids q"
    using enq_ok [OF Cons.prems(1) fr Cons.prems(2) room, of t] Cons.prems(5) by auto
  have "\<exists>rcs q'. enqueue_all enq malloc ts q1 = Some (rcs, q') \<and> invar q' \<and>
          contents q' = fold pq_insert ts (contents q1) \<and> closed q' = closed q1 \<and>
          capacity q' = capacity q1 \<and> unique_ids q' = unique_ids q1"
  proof (rule Cons.IH [OF q1(2)])
    show "\<not> closed q1" using q1(4) Cons.prems(2) by simp
    show "length (contents q1) + length ts \<le> limit" using Cons.prems(3) q1(3) by simp
    show "length (contents q1) + length ts \<le> k" if "capacity q1 = Some k" for k
      using Cons.prems(4) [of k] that q1(3,5) by simp
    show "unique_ids q1 \<longrightarrow> distinct (map t_task_id ts) \<and>
        t_task_id ` set ts \<inter> t_task_id ` set (contents q1) = {}"
      using Cons.prems(5) unfolding q1(3,6) by auto
  qed
  with q1 show ?case by auto
qed

end

section \<open>The pointer model provides the interface\<close>

definition heap_deq :: "task_queue \<Rightarrow> (c_int \<times> task_queue \<times> task_t) option" where
  "heap_deq q = do {
     (rc, q', t) \<leftarrow> task_queue_dequeue (Some q) (Some zero_task);
     Some (rc, the q', the t)
   }"

definition heap_enq :: "task_queue \<Rightarrow> task_t \<Rightarrow> addr \<Rightarrow> (c_int \<times> task_queue) option" where
  "heap_enq q t a = do { (rc, q') \<leftarrow> task_queue_enqueue (Some q) (Some t) a; Some (rc, the q') }"

definition heap_fresh :: "task_queue \<Rightarrow> addr \<Rightarrow> bool" where
  "heap_fresh q a \<longleftrightarrow> a \<noteq> 0 \<and> q_nodes q a = None"

definition heap_capacity :: "task_queue \<Rightarrow> nat option" where
  "heap_capacity q = (if q_max_size q = 0 then None else Some (unat (q_max_size q)))"

lemma tq_frame_queries:
  "tq_frame q q' \<Longrightarrow> (q_shutting_down q' \<noteq> 0) = (q_shutting_down q \<noteq> 0) \<and>
     heap_capacity q' = heap_capacity q \<and> (q_allow_duplicates q' = 0) = (q_allow_duplicates q = 0)"
  by (simp add: tq_frame_def heap_capacity_def)

lemma tq_full_interface:
  "tq_inv q \<Longrightarrow> (q_max_size q > 0 \<and> q_size q \<ge> q_max_size q)
     \<longleftrightarrow> \<not> has_room (heap_capacity q) (length (tq_tasks q))"
  using tq_inv_size [of q]
  by (cases "q_max_size q = 0")
    (simp_all add: has_room_def heap_capacity_def word_gt_0 word_le_nat_alt not_less)

lemma tq_accepts_interface:
  "tq_inv q \<Longrightarrow> tq_accepts q t \<longleftrightarrow> q_shutting_down q = 0 \<and>
     has_room (heap_capacity q) (length (tq_tasks q)) \<and>
     (q_allow_duplicates q = 0 \<longrightarrow> t_task_id t \<notin> t_task_id ` set (tq_tasks q))"
  unfolding tq_accepts_def by (simp only: tq_full_interface) blast

interpretation heap_queue: task_queue_interface tq_inv tq_tasks heap_deq heap_enq heap_fresh
  "\<lambda>q. q_shutting_down q \<noteq> 0" heap_capacity "\<lambda>q. q_allow_duplicates q = 0"
proof unfold_locales
  fix q :: task_queue
  assume "tq_inv q" "tq_tasks q = []"
  then show "\<exists>t. heap_deq q = Some (-1, q, t)"
    using dequeue_empty by (simp add: heap_deq_def del: task_queue_dequeue.simps)
next
  fix q t ts
  assume "tq_inv q" "tq_tasks q = t # ts"
  from dequeue_ok [OF this, of zero_task]
  show "\<exists>q'. heap_deq q = Some (0, q', t) \<and> tq_inv q' \<and> tq_tasks q' = ts \<and>
      (q_shutting_down q' \<noteq> 0) = (q_shutting_down q \<noteq> 0) \<and> heap_capacity q' = heap_capacity q \<and>
      (q_allow_duplicates q' = 0) = (q_allow_duplicates q = 0)"
    using tq_frame_queries by (fastforce simp: heap_deq_def simp del: task_queue_dequeue.simps)
next
  fix q a and t :: task_t
  assume inv: "tq_inv q" and "heap_fresh q a" "\<not> q_shutting_down q \<noteq> 0"
    "has_room (heap_capacity q) (length (tq_tasks q))"
    "q_allow_duplicates q = 0 \<longrightarrow> t_task_id t \<notin> t_task_id ` set (tq_tasks q)"
  then have "tq_accepts q t" "a \<noteq> 0" "q_nodes q a = None"
    using tq_accepts_interface by (auto simp: heap_fresh_def)
  from enqueue_ok [OF inv this]
  show "\<exists>q'. heap_enq q t a = Some (0, q') \<and> tq_inv q' \<and> tq_tasks q' = pq_insert t (tq_tasks q) \<and>
      (q_shutting_down q' \<noteq> 0) = (q_shutting_down q \<noteq> 0) \<and> heap_capacity q' = heap_capacity q \<and>
      (q_allow_duplicates q' = 0) = (q_allow_duplicates q = 0)"
    using tq_frame_queries by (fastforce simp: heap_enq_def simp del: task_queue_enqueue.simps)
next
  fix q a and t :: task_t
  assume inv: "tq_inv q" and a: "a = 0 \<or> heap_fresh q a"
  show "\<exists>rc q'. heap_enq q t a = Some (rc, q') \<and> tq_inv q' \<and> (rc \<noteq> 0 \<longrightarrow> q' = q) \<and>
      (rc = 0 \<longrightarrow> tq_tasks q' = pq_insert t (tq_tasks q)) \<and>
      (q_shutting_down q' \<noteq> 0) = (q_shutting_down q \<noteq> 0) \<and> heap_capacity q' = heap_capacity q \<and>
      (q_allow_duplicates q' = 0) = (q_allow_duplicates q = 0)"
  proof (cases "enqueue_code q t a = 0")
    case True
    then have "tq_accepts q t" "a \<noteq> 0" "q_nodes q a = None"
      using a by (auto simp: enqueue_code_0 heap_fresh_def)
    from enqueue_ok [OF inv this] show ?thesis
      using tq_frame_queries by (fastforce simp: heap_enq_def simp del: task_queue_enqueue.simps)
  next
    case False
    from enqueue_err [OF inv False] False inv show ?thesis
      by (simp add: heap_enq_def del: task_queue_enqueue.simps)
  qed
qed

end
