(* ===== verification/Resource_Limits.thy ===== *)
theory Resource_Limits
  imports Decimal
begin

text \<open>
  \<open>src/runtime/resource_limits.h\<close> and \<open>resource_limits.c\<close>: resource accounting of a worker.
  What the operating system reports during a call is an argument.  Each function body that takes
  the mutex is one critical section.
\<close>

section \<open>Data\<close>

datatype resource_type =
    RESOURCE_CPU_TIME
  | RESOURCE_MEMORY
  | RESOURCE_DISK_SPACE
  | RESOURCE_OPEN_FILES
  | RESOURCE_TASKS_RUNNING

datatype limit_status = LIMIT_OK | LIMIT_WARNING | LIMIT_EXCEEDED | LIMIT_CRITICAL

fun limit_status_value :: "limit_status \<Rightarrow> nat" where
  "limit_status_value LIMIT_OK = 0"
| "limit_status_value LIMIT_WARNING = 1"
| "limit_status_value LIMIT_EXCEEDED = 2"
| "limit_status_value LIMIT_CRITICAL = 3"

text \<open>The order of the enumeration, in which the checks are compared.\<close>

instantiation limit_status :: linorder
begin

definition less_eq_limit_status :: "limit_status \<Rightarrow> limit_status \<Rightarrow> bool" where
  "less_eq_limit_status a b \<longleftrightarrow> limit_status_value a \<le> limit_status_value b"

definition less_limit_status :: "limit_status \<Rightarrow> limit_status \<Rightarrow> bool" where
  "less_limit_status a b \<longleftrightarrow> limit_status_value a < limit_status_value b"

instance
proof
  fix a b :: limit_status
  show "a \<le> b \<Longrightarrow> b \<le> a \<Longrightarrow> a = b"
    by (cases a; cases b) (simp_all add: less_eq_limit_status_def)
qed (auto simp: less_eq_limit_status_def less_limit_status_def)

end

record resource_stats =
  rs_cpu_usage_percent :: c_double
  rs_cpu_time_us :: u64
  rs_memory_rss_bytes :: size_t
  rs_memory_virt_bytes :: size_t
  rs_memory_peak_bytes :: size_t
  rs_num_threads :: c_int
  rs_open_files :: c_int
  rs_tasks_completed :: u64
  rs_tasks_failed :: u64
  rs_tasks_running :: u32

definition zero_resource_stats :: resource_stats where
  "zero_resource_stats = \<lparr>rs_cpu_usage_percent = 0, rs_cpu_time_us = 0, rs_memory_rss_bytes = 0,
     rs_memory_virt_bytes = 0, rs_memory_peak_bytes = 0, rs_num_threads = 0, rs_open_files = 0,
     rs_tasks_completed = 0, rs_tasks_failed = 0, rs_tasks_running = 0\<rparr>"

record resource_limits_config =
  rc_max_memory_bytes :: size_t
  rc_warn_memory_bytes :: size_t
  rc_max_cpu_time_us :: u64
  rc_max_cpu_percent :: c_double
  rc_max_concurrent_tasks :: u32
  rc_min_disk_space_bytes :: size_t
  rc_max_open_files :: c_int
  rc_enforce_hard_limits :: c_int

text \<open>A \<open>timeval\<close> or \<open>timespec\<close> is a pair; \<open>rusage\<close> keeps the user and system times and \<open>ru_maxrss\<close>.\<close>

record rusage =
  ru_utime :: "u64 \<times> u64"
  ru_stime :: "u64 \<times> u64"
  ru_maxrss :: u64

record resource_limits =
  rl_max_memory_bytes :: size_t
  rl_warn_memory_bytes :: size_t
  rl_max_cpu_time_us :: u64
  rl_max_cpu_percent :: c_double
  rl_max_concurrent_tasks :: u32
  rl_min_disk_space_bytes :: size_t
  rl_max_open_files :: c_int
  rl_enforce_hard_limits :: c_int
  rl_stats :: resource_stats
  rl_tasks_running :: u32
  rl_last_rusage :: rusage
  rl_last_update_time :: "u64 \<times> u64"
  rl_cpu_percent :: c_double

text \<open>
  What the operating system reports: the lines of \<open>/proc/self/status\<close> as \<open>fgets\<close> delivers them
  (\<open>None\<close> when it cannot be opened), the resource usage and the clock (\<open>None\<close> when the call
  fails), the names in \<open>/proc/self/fd\<close>, the soft limit on files and the file system status as
  (\<open>f_bavail\<close>, \<open>f_frsize\<close>).
\<close>

record os_report =
  os_status :: "string list option"
  os_rusage :: "rusage option"
  os_clock :: "(u64 \<times> u64) option"
  os_fds :: "string list option"
  os_rlimit :: "u64 option"
  os_statvfs :: "(u64 \<times> u64) option"

section \<open>Creation\<close>

definition resource_default_config :: resource_limits_config where
  "resource_default_config = \<lparr>rc_max_memory_bytes = 4096 * 1024 * 1024,
     rc_warn_memory_bytes = 3072 * 1024 * 1024, rc_max_cpu_time_us = 0, rc_max_cpu_percent = 90,
     rc_max_concurrent_tasks = 8, rc_min_disk_space_bytes = 10 * 1024 * 1024 * 1024,
     rc_max_open_files = 1024, rc_enforce_hard_limits = 1\<rparr>"

text \<open>\<open>usage\<close> and \<open>now\<close> are the contents of the two structures after the system calls.\<close>

definition resource_limits_create ::
    "resource_limits_config option \<Rightarrow> bool \<Rightarrow> rusage \<Rightarrow> u64 \<times> u64 \<Rightarrow> resource_limits option" where
  "resource_limits_create config calloc_ok usage now =
     (let cfg = (case config of Some c \<Rightarrow> c | None \<Rightarrow> resource_default_config) in
      if \<not> calloc_ok then None
      else Some \<lparr>rl_max_memory_bytes = rc_max_memory_bytes cfg,
        rl_warn_memory_bytes = rc_warn_memory_bytes cfg, rl_max_cpu_time_us = rc_max_cpu_time_us cfg,
        rl_max_cpu_percent = rc_max_cpu_percent cfg,
        rl_max_concurrent_tasks = rc_max_concurrent_tasks cfg,
        rl_min_disk_space_bytes = rc_min_disk_space_bytes cfg, rl_max_open_files = rc_max_open_files cfg,
        rl_enforce_hard_limits = rc_enforce_hard_limits cfg, rl_stats = zero_resource_stats,
        rl_tasks_running = 0, rl_last_rusage = usage, rl_last_update_time = now, rl_cpu_percent = 0\<rparr>)"

section \<open>Measurements\<close>

definition starts_with :: "string \<Rightarrow> string \<Rightarrow> bool" where
  "starts_with prefix line \<longleftrightarrow> take (length prefix) line = prefix"

text \<open>The reading of one line: \<open>rss\<close> and \<open>virt\<close> so far, and after the line.\<close>

definition memory_line :: "string \<Rightarrow> size_t \<times> size_t \<Rightarrow> size_t \<times> size_t" where
  "memory_line line rv =
     (let (rss, virt) = rv in
      if starts_with ''VmRSS:'' line
      then case scan_unsigned 64 (drop 6 line) of
          Some (kb, _) \<Rightarrow> (of_nat kb * 1024, virt) | None \<Rightarrow> (rss, virt)
      else if starts_with ''VmSize:'' line
      then case scan_unsigned 64 (drop 7 line) of
          Some (kb, _) \<Rightarrow> (rss, of_nat kb * 1024) | None \<Rightarrow> (rss, virt)
      else (rss, virt))"

definition resource_limits_get_memory_usage :: "os_report \<Rightarrow> c_int \<times> (size_t \<times> size_t) option" where
  "resource_limits_get_memory_usage os =
     (case os_status os of
        None \<Rightarrow>
          (case os_rusage os of
             Some u \<Rightarrow> (0, Some (ru_maxrss u * 1024, 0))
           | None \<Rightarrow> (-1, None))
      | Some lines \<Rightarrow> (0, Some (fold memory_line lines (0, 0))))"

definition timeval_us :: "u64 \<times> u64 \<Rightarrow> u64" where
  "timeval_us tv = fst tv * 1000000 + snd tv"

definition timespec_us :: "u64 \<times> u64 \<Rightarrow> u64" where
  "timespec_us ts = fst ts * 1000000 + snd ts div 1000"

definition resource_limits_get_cpu_time :: "os_report \<Rightarrow> c_int \<times> (u64 \<times> u64) option" where
  "resource_limits_get_cpu_time os =
     (case os_rusage os of
        None \<Rightarrow> (-1, None)
      | Some u \<Rightarrow> (0, Some (timeval_us (ru_utime u), timeval_us (ru_stime u))))"

fun resource_limits_get_cpu_percent :: "resource_limits option \<Rightarrow> c_double" where
  "resource_limits_get_cpu_percent None = -1"
| "resource_limits_get_cpu_percent (Some l) = rl_cpu_percent l"

definition resource_limits_get_disk_space :: "os_report \<Rightarrow> u64" where
  "resource_limits_get_disk_space os =
     (case os_statvfs os of None \<Rightarrow> 0 | Some (bavail, frsize) \<Rightarrow> bavail * frsize)"

definition resource_limits_get_open_files :: "os_report \<Rightarrow> c_int" where
  "resource_limits_get_open_files os =
     (case os_fds os of
        None \<Rightarrow> (case os_rlimit os of Some cur \<Rightarrow> sint (ucast (cur div 2) :: 32 word) | None \<Rightarrow> -1)
      | Some names \<Rightarrow> int (count_if (\<lambda>name. name \<noteq> [] \<and> is_digit (hd name)) names))"

text \<open>The thread count, from the first line that has one.\<close>

definition scan_int :: "string \<Rightarrow> int option" where
  "scan_int s0 =
     (let s = dropWhile is_space s0;
          neg = (s \<noteq> [] \<and> hd s = CHR ''-'');
          s1 = (if s \<noteq> [] \<and> (hd s = CHR ''-'' \<or> hd s = CHR ''+'') then tl s else s);
          ds = takeWhile is_digit s1
      in if ds = [] then None else Some (if neg then - int (digits_value ds) else int (digits_value ds)))"

fun thread_line :: "string list \<Rightarrow> c_int \<Rightarrow> c_int" where
  "thread_line [] old = old"
| "thread_line (line # lines) old =
     (if starts_with ''Threads:'' line
      then case scan_int (drop 8 line) of Some n \<Rightarrow> n | None \<Rightarrow> old
      else thread_line lines old)"

section \<open>Update\<close>

definition update_memory :: "os_report \<Rightarrow> resource_stats \<Rightarrow> resource_stats" where
  "update_memory os st =
     (case resource_limits_get_memory_usage os of
        (rc, Some (rss, virt)) \<Rightarrow>
          let st1 = st\<lparr>rs_memory_rss_bytes := rss, rs_memory_virt_bytes := virt\<rparr> in
          if rss > rs_memory_peak_bytes st1 then st1\<lparr>rs_memory_peak_bytes := rss\<rparr> else st1
      | (rc, None) \<Rightarrow> st)"

definition update_cpu :: "os_report \<Rightarrow> resource_limits \<Rightarrow> resource_limits" where
  "update_cpu os l =
     (case (os_rusage os, os_clock os) of
        (Some u, Some now) \<Rightarrow>
          let user_delta = timeval_us (ru_utime u) - timeval_us (ru_utime (rl_last_rusage l));
              sys_delta = timeval_us (ru_stime u) - timeval_us (ru_stime (rl_last_rusage l));
              wall_delta = timespec_us now - timespec_us (rl_last_update_time l);
              l1 = (if wall_delta > 0
                    then let p = real (unat (user_delta + sys_delta)) / real (unat wall_delta) * 100
                         in l\<lparr>rl_cpu_percent := p, rl_stats := (rl_stats l)\<lparr>rs_cpu_usage_percent := p\<rparr>\<rparr>
                    else l)
          in l1\<lparr>rl_stats := (rl_stats l1)\<lparr>rs_cpu_time_us :=
                  timeval_us (ru_utime u) + timeval_us (ru_stime u)\<rparr>,
                rl_last_rusage := u, rl_last_update_time := now\<rparr>
      | _ \<Rightarrow> l)"

fun resource_limits_update :: "os_report \<Rightarrow> resource_limits option \<Rightarrow> c_int \<times> resource_limits option" where
  "resource_limits_update os None = (-1, None)"
| "resource_limits_update os (Some l) =
     (let l1 = update_cpu os (l\<lparr>rl_stats := update_memory os (rl_stats l)\<rparr>);
          fds = resource_limits_get_open_files os;
          st1 = (if fds \<ge> 0 then (rl_stats l1)\<lparr>rs_open_files := fds\<rparr> else rl_stats l1);
          st2 = (case os_status os of
                   Some lines \<Rightarrow> st1\<lparr>rs_num_threads := thread_line lines (rs_num_threads st1)\<rparr>
                 | None \<Rightarrow> st1)
      in (0, Some (l1\<lparr>rl_stats := st2\<lparr>rs_tasks_running := rl_tasks_running l1\<rparr>\<rparr>)))"

section \<open>Checks\<close>

fun check_resource :: "os_report \<Rightarrow> resource_limits \<Rightarrow> resource_type \<Rightarrow> limit_status" where
  "check_resource os l RESOURCE_MEMORY =
     (if rl_max_memory_bytes l > 0
      then if rs_memory_rss_bytes (rl_stats l) \<ge> rl_max_memory_bytes l then LIMIT_EXCEEDED
        else if rs_memory_rss_bytes (rl_stats l) \<ge> rl_warn_memory_bytes l then LIMIT_WARNING
        else LIMIT_OK
      else LIMIT_OK)"
| "check_resource os l RESOURCE_CPU_TIME =
     (if rl_max_cpu_percent l > 0
      then if rl_cpu_percent l \<ge> rl_max_cpu_percent l then LIMIT_EXCEEDED
        else if rl_cpu_percent l \<ge> rl_max_cpu_percent l * (8 / 10) then LIMIT_WARNING
        else LIMIT_OK
      else LIMIT_OK)"
| "check_resource os l RESOURCE_TASKS_RUNNING =
     (if rl_tasks_running l \<ge> rl_max_concurrent_tasks l then LIMIT_EXCEEDED
      else if real (unat (rl_tasks_running l)) \<ge> real (unat (rl_max_concurrent_tasks l)) * (8 / 10)
      then LIMIT_WARNING
      else LIMIT_OK)"
| "check_resource os l RESOURCE_DISK_SPACE =
     (let available = resource_limits_get_disk_space os in
      if available > 0 \<and> available < rl_min_disk_space_bytes l then LIMIT_EXCEEDED
      else if available > 0 \<and> available < rl_min_disk_space_bytes l * 2 then LIMIT_WARNING
      else LIMIT_OK)"
| "check_resource os l RESOURCE_OPEN_FILES =
     (if rl_max_open_files l > 0 \<and> rs_open_files (rl_stats l) \<ge> rl_max_open_files l then LIMIT_EXCEEDED
      else if rl_max_open_files l > 0 \<and>
        real_of_int (rs_open_files (rl_stats l)) \<ge> real_of_int (rl_max_open_files l) * (8 / 10)
      then LIMIT_WARNING
      else LIMIT_OK)"

fun resource_limits_check :: "os_report \<Rightarrow> resource_limits option \<Rightarrow> resource_type \<Rightarrow> limit_status" where
  "resource_limits_check os None type = LIMIT_OK"
| "resource_limits_check os (Some l) type = check_resource os l type"

text \<open>\<open>for (...) if (statuses[i] > worst) worst = statuses[i];\<close>\<close>

definition worst_status :: "limit_status list \<Rightarrow> limit_status" where
  "worst_status statuses = fold (\<lambda>s worst. if s > worst then s else worst) statuses LIMIT_OK"

fun resource_limits_check_all ::
    "os_report \<Rightarrow> resource_limits option \<Rightarrow> limit_status \<times> resource_limits option" where
  "resource_limits_check_all os None = (LIMIT_OK, None)"
| "resource_limits_check_all os (Some l) =
     (let l' = snd (resource_limits_update os (Some l)) in
      (worst_status (map (resource_limits_check os l')
         [RESOURCE_MEMORY, RESOURCE_CPU_TIME, RESOURCE_TASKS_RUNNING, RESOURCE_DISK_SPACE,
          RESOURCE_OPEN_FILES]), l'))"

fun resource_limits_get_stats ::
    "resource_limits option \<Rightarrow> resource_stats option \<Rightarrow> resource_stats option" where
  "resource_limits_get_stats None stats = stats"
| "resource_limits_get_stats (Some l) None = None"
| "resource_limits_get_stats (Some l) (Some _) = Some (rl_stats l)"

section \<open>Task slots\<close>

fun resource_limits_reserve_task :: "resource_limits option \<Rightarrow> c_int \<times> resource_limits option" where
  "resource_limits_reserve_task None = (-1, None)"
| "resource_limits_reserve_task (Some l) =
     (if rl_tasks_running l \<ge> rl_max_concurrent_tasks l then (-1, Some l)
      else (0, Some (l\<lparr>rl_tasks_running := rl_tasks_running l + 1\<rparr>)))"

fun resource_limits_release_task :: "resource_limits option \<Rightarrow> bool \<Rightarrow> resource_limits option" where
  "resource_limits_release_task None task_success = None"
| "resource_limits_release_task (Some l) task_success =
     (let l1 = (if rl_tasks_running l > 0 then l\<lparr>rl_tasks_running := rl_tasks_running l - 1\<rparr> else l);
          st = rl_stats l1
      in Some (l1\<lparr>rl_stats :=
           (if task_success then st\<lparr>rs_tasks_completed := rs_tasks_completed st + 1\<rparr>
            else st\<lparr>rs_tasks_failed := rs_tasks_failed st + 1\<rparr>)\<rparr>))"

section \<open>Changing limits\<close>

fun resource_limits_set_soft_limit ::
    "resource_limits option \<Rightarrow> resource_type \<Rightarrow> u64 \<Rightarrow> c_int \<times> resource_limits option" where
  "resource_limits_set_soft_limit None type v = (-1, None)"
| "resource_limits_set_soft_limit (Some l) type v =
     (case type of
        RESOURCE_MEMORY \<Rightarrow> (0, Some (l\<lparr>rl_warn_memory_bytes := v\<rparr>))
      | _ \<Rightarrow> (-1, Some l))"

fun resource_limits_set_hard_limit ::
    "resource_limits option \<Rightarrow> resource_type \<Rightarrow> u64 \<Rightarrow> c_int \<times> resource_limits option" where
  "resource_limits_set_hard_limit None type v = (-1, None)"
| "resource_limits_set_hard_limit (Some l) type v =
     (case type of
        RESOURCE_MEMORY \<Rightarrow> (0, Some (l\<lparr>rl_max_memory_bytes := v\<rparr>))
      | RESOURCE_TASKS_RUNNING \<Rightarrow> (0, Some (l\<lparr>rl_max_concurrent_tasks := ucast v\<rparr>))
      | _ \<Rightarrow> (-1, Some l))"

fun resource_limits_reset_stats :: "resource_limits option \<Rightarrow> resource_limits option" where
  "resource_limits_reset_stats None = None"
| "resource_limits_reset_stats (Some l) =
     Some (l\<lparr>rl_stats := (rl_stats l)\<lparr>rs_tasks_completed := 0, rs_tasks_failed := 0,
       rs_memory_peak_bytes := rs_memory_rss_bytes (rl_stats l)\<rparr>\<rparr>)"

definition resource_limit_status_string :: "nat \<Rightarrow> string" where
  "resource_limit_status_string status =
     (if status = limit_status_value LIMIT_OK then ''OK''
      else if status = limit_status_value LIMIT_WARNING then ''WARNING''
      else if status = limit_status_value LIMIT_EXCEEDED then ''EXCEEDED''
      else if status = limit_status_value LIMIT_CRITICAL then ''CRITICAL''
      else ''UNKNOWN'')"

end
