(* ===== verification/Resource_Limits_Props.thy ===== *)
theory Resource_Limits_Props
  imports Resource_Limits
begin

text \<open>
  Task slots never exceed the limit under any interleaving of reservations and releases, the
  measurements read what the kernel writes, and the checks report the worst status.
\<close>

section \<open>Slots\<close>

text \<open>What a client of the limiter relies on.\<close>

locale task_slots =
  fixes running :: "'l \<Rightarrow> nat" and capacity :: "'l \<Rightarrow> nat"
    and reserve :: "'l \<Rightarrow> c_int \<times> 'l" and release :: "'l \<Rightarrow> bool \<Rightarrow> 'l"
  assumes reserve_ok: "running l < capacity l \<Longrightarrow>
      \<exists>l'. reserve l = (0, l') \<and> running l' = running l + 1 \<and> capacity l' = capacity l"
    and reserve_full: "\<not> running l < capacity l \<Longrightarrow> reserve l = (-1, l)"
    and release_running: "running (release l b) = running l - 1"
    and release_capacity: "capacity (release l b) = capacity l"
begin

lemma reserve_bound:
  assumes "reserve l = (rc, l')" "running l \<le> capacity l"
  shows "running l' \<le> capacity l'" "capacity l' = capacity l"
    "running l' = (if rc = 0 then running l + 1 else running l)"
  using assms reserve_ok [of l] reserve_full [of l] by (cases "running l < capacity l"; auto)+

lemma bracket:
  assumes "reserve l = (0, l')"
  shows "running (release l' b) = running l" "capacity (release l' b) = capacity l"
  using assms reserve_ok [of l] reserve_full [of l]
  by (cases "running l < capacity l"; auto simp: release_running release_capacity)+

end

definition slots_running :: "resource_limits \<Rightarrow> nat" where
  "slots_running l = unat (rl_tasks_running l)"

definition slots_capacity :: "resource_limits \<Rightarrow> nat" where
  "slots_capacity l = unat (rl_max_concurrent_tasks l)"

definition reserve_slot :: "resource_limits \<Rightarrow> c_int \<times> resource_limits" where
  "reserve_slot l = map_prod id the (resource_limits_reserve_task (Some l))"

definition release_slot :: "resource_limits \<Rightarrow> bool \<Rightarrow> resource_limits" where
  "release_slot l b = the (resource_limits_release_task (Some l) b)"

lemma unat_inc: "unat (x :: 32 word) < unat (y :: 32 word) \<Longrightarrow> unat (x + 1) = unat x + 1"
proof -
  assume "unat x < unat y"
  moreover have "unat y < 2 ^ LENGTH(32)" by (rule unsigned_less)
  ultimately have "unat x + unat (1 :: 32 word) < 2 ^ LENGTH(32)" by simp
  then show ?thesis by (simp only: unat_add_lem) simp
qed

lemma unat_dec: "unat ((if x > 0 then x - 1 else x) :: 32 word) = unat x - 1"
  by (cases "x = 0") (auto simp: word_gt_0 unat_minus_one)

interpretation limiter: task_slots slots_running slots_capacity reserve_slot release_slot
proof unfold_locales
  fix l
  assume "slots_running l < slots_capacity l"
  then show "\<exists>l'. reserve_slot l = (0, l') \<and> slots_running l' = slots_running l + 1 \<and>
      slots_capacity l' = slots_capacity l"
    using unat_inc [of "rl_tasks_running l" "rl_max_concurrent_tasks l"]
    by (simp add: reserve_slot_def slots_running_def slots_capacity_def word_le_nat_alt)
next
  fix l
  assume "\<not> slots_running l < slots_capacity l"
  then show "reserve_slot l = (-1, l)"
    by (simp add: reserve_slot_def slots_running_def slots_capacity_def word_le_nat_alt)
next
  fix l b
  show "slots_running (release_slot l b) = slots_running l - 1"
    using unat_dec [of "rl_tasks_running l"]
    by (simp add: release_slot_def slots_running_def Let_def split: if_splits)
  show "slots_capacity (release_slot l b) = slots_capacity l"
    by (simp add: release_slot_def slots_capacity_def Let_def)
qed

section \<open>Many threads\<close>

text \<open>
  A limiter shared by threads; \<open>held\<close> is the number of slots they hold.  Only a thread that holds
  a slot releases one.
\<close>

inductive slot_step :: "resource_limits \<times> nat \<Rightarrow> resource_limits \<times> nat \<Rightarrow> bool" where
  reserve: "resource_limits_reserve_task (Some l) = (rc, Some l')
    \<Longrightarrow> slot_step (l, held) (l', if rc = 0 then held + 1 else held)"
| release: "0 < held \<Longrightarrow> resource_limits_release_task (Some l) b = Some l'
    \<Longrightarrow> slot_step (l, held) (l', held - 1)"
| update: "resource_limits_update os (Some l) = (rc, Some l') \<Longrightarrow> slot_step (l, held) (l', held)"
| reset: "resource_limits_reset_stats (Some l) = Some l' \<Longrightarrow> slot_step (l, held) (l', held)"

definition slot_init :: "resource_limits \<times> nat \<Rightarrow> bool" where
  "slot_init s \<longleftrightarrow> snd s = 0 \<and> (\<exists>cfg usage now. resource_limits_create cfg True usage now = Some (fst s))"

definition slot_inv :: "resource_limits \<times> nat \<Rightarrow> bool" where
  "slot_inv s \<longleftrightarrow> slots_running (fst s) = snd s \<and> snd s \<le> slots_capacity (fst s)"

lemma update_slots:
  assumes "resource_limits_update os (Some l) = (rc, Some l')"
  shows "slots_running l' = slots_running l" "slots_capacity l' = slots_capacity l"
proof -
  have "rl_tasks_running (update_cpu os l1) = rl_tasks_running l1"
    "rl_max_concurrent_tasks (update_cpu os l1) = rl_max_concurrent_tasks l1" for l1
    by (simp_all add: update_cpu_def Let_def split: option.split)
  with assms show "slots_running l' = slots_running l" "slots_capacity l' = slots_capacity l"
    by (auto simp: slots_running_def slots_capacity_def Let_def)
qed

lemma slot_inv_step:
  assumes "slot_inv s" "slot_step s t"
  shows "slot_inv t"
  using assms(2)
proof cases
  case (reserve l rc l' held)
  then have "reserve_slot l = (rc, l')" by (simp add: reserve_slot_def)
  from limiter.reserve_bound [OF this] reserve assms(1) show ?thesis by (auto simp: slot_inv_def)
next
  case (release held l b l')
  then have "release_slot l b = l'" by (simp add: release_slot_def)
  with limiter.release_running [of l b] limiter.release_capacity [of l b] release assms(1)
  show ?thesis by (auto simp: slot_inv_def)
next
  case (update os l rc l' held)
  from update_slots [OF update(3)] update assms(1) show ?thesis by (simp add: slot_inv_def)
next
  case (reset l l' held)
  then show ?thesis using assms(1) by (auto simp: slot_inv_def slots_running_def slots_capacity_def)
qed

interpretation slot_system: inductive_invariant slot_init slot_step slot_inv
proof unfold_locales
  show "slot_inv s" if "slot_init s" for s
    using that by (cases s) (auto simp: slot_init_def slot_inv_def slots_running_def resource_limits_create_def Let_def)
qed (fact slot_inv_step)

section \<open>Measurements\<close>

text \<open>A line of \<open>/proc/self/status\<close>, as the kernel writes it.\<close>

definition status_line :: "string \<Rightarrow> string \<Rightarrow> nat \<Rightarrow> string \<Rightarrow> string" where
  "status_line label pad n unit = label @ pad @ dec_nat n @ unit"

lemma memory_line_rss:
  assumes "n < 2 ^ 54" "\<forall>c \<in> set pad. is_space c" "rest = [] \<or> \<not> is_digit (hd rest)"
  shows "memory_line (status_line ''VmRSS:'' pad n rest) (rss, virt) = (of_nat (n * 1024), virt)"
proof -
  have "scan_unsigned 64 (pad @ dec_nat n @ rest) = Some (n, rest)"
    by (rule scan_dec_nat) (use assms in simp_all)
  then show ?thesis by (simp add: memory_line_def status_line_def starts_with_def)
qed

lemma memory_line_virt:
  assumes "n < 2 ^ 54" "\<forall>c \<in> set pad. is_space c" "rest = [] \<or> \<not> is_digit (hd rest)"
  shows "memory_line (status_line ''VmSize:'' pad n rest) (rss, virt) = (rss, of_nat (n * 1024))"
proof -
  have "scan_unsigned 64 (pad @ dec_nat n @ rest) = Some (n, rest)"
    by (rule scan_dec_nat) (use assms in simp_all)
  then show ?thesis by (simp add: memory_line_def status_line_def starts_with_def)
qed

lemma memory_line_other:
  "\<not> starts_with ''VmRSS:'' line \<Longrightarrow> \<not> starts_with ''VmSize:'' line \<Longrightarrow> memory_line line rv = rv"
  by (simp add: memory_line_def split_beta)

lemma memory_fold_other:
  "\<forall>line \<in> set lines. \<not> starts_with ''VmRSS:'' line \<and> \<not> starts_with ''VmSize:'' line
    \<Longrightarrow> fold memory_line lines rv = rv"
  by (induction lines arbitrary: rv) (auto simp: memory_line_other)

section \<open>Statistics and checks\<close>

text \<open>The peak is the largest resident size seen.\<close>

lemma update_memory_peak:
  "rs_memory_peak_bytes (update_memory os st) \<ge> rs_memory_peak_bytes st"
  "rs_memory_rss_bytes st \<le> rs_memory_peak_bytes st
    \<Longrightarrow> rs_memory_rss_bytes (update_memory os st) \<le> rs_memory_peak_bytes (update_memory os st)"
  by (auto simp: update_memory_def Let_def not_less split: prod.split option.split)

lemma worst_status_upper: "s \<in> set statuses \<Longrightarrow> s \<le> worst_status statuses"
proof -
  have gen: "w \<le> fold (\<lambda>s worst. if s > worst then s else worst) xs w \<and>
      (\<forall>s \<in> set xs. s \<le> fold (\<lambda>s worst. if s > worst then s else worst) xs w)" for xs and w :: limit_status
    by (induction xs arbitrary: w) (auto, (meson less_imp_le order_trans linorder_not_less)+)
  show "s \<in> set statuses \<Longrightarrow> s \<le> worst_status statuses" using gen by (auto simp: worst_status_def)
qed

lemma worst_status_in: "worst_status statuses = LIMIT_OK \<or> worst_status statuses \<in> set statuses"
proof -
  have "fold (\<lambda>s worst. if s > worst then s else worst) xs w = w \<or>
      fold (\<lambda>s worst. if s > worst then s else worst) xs w \<in> set xs" for xs and w :: limit_status
    by (induction xs arbitrary: w) auto
  then show ?thesis by (auto simp: worst_status_def)
qed

end
