(* ===== verification/Worker_Registry.thy ===== *)
theory Worker_Registry
  imports C_String
begin

text \<open>
  \<open>src/coordinator/worker_registry.h\<close> and \<open>worker_registry.c\<close>: what the coordinator knows
  about a worker, and the names of states and capabilities.
\<close>

unbundle bit_operations_syntax

datatype worker_state =
  WORKER_STATE_UNKNOWN | WORKER_STATE_IDLE | WORKER_STATE_BUSY | WORKER_STATE_DEAD

fun worker_state_value :: "worker_state \<Rightarrow> c_int" where
  "worker_state_value WORKER_STATE_UNKNOWN = 0"
| "worker_state_value WORKER_STATE_IDLE = 1"
| "worker_state_value WORKER_STATE_BUSY = 2"
| "worker_state_value WORKER_STATE_DEAD = 3"

definition WORKER_CAP_MPI_CLUSTER :: u32 where "WORKER_CAP_MPI_CLUSTER = push_bit 0 1"
definition WORKER_CAP_GPU :: u32 where "WORKER_CAP_GPU = push_bit 1 1"
definition WORKER_CAP_LARGE_MEMORY :: u32 where "WORKER_CAP_LARGE_MEMORY = push_bit 2 1"
definition WORKER_CAP_CHECKPOINT :: u32 where "WORKER_CAP_CHECKPOINT = push_bit 3 1"

record worker_info =
  w_worker_id :: u32
  w_state :: worker_state
  w_last_heartbeat :: time_t
  w_registered :: time_t
  w_num_local_ranks :: u32
  w_max_batch_size :: u32
  w_capabilities :: u32
  w_tasks_running :: u32
  w_tasks_completed :: u32
  w_tasks_failed :: u32
  w_total_cpu_time_us :: u64
  w_total_queue_time_us :: u64
  w_avg_task_time_ms :: c_double

definition zero_worker :: worker_info where
  "zero_worker = \<lparr>w_worker_id = 0, w_state = WORKER_STATE_UNKNOWN, w_last_heartbeat = 0,
     w_registered = 0, w_num_local_ranks = 0, w_max_batch_size = 0, w_capabilities = 0,
     w_tasks_running = 0, w_tasks_completed = 0, w_tasks_failed = 0, w_total_cpu_time_us = 0,
     w_total_queue_time_us = 0, w_avg_task_time_ms = 0\<rparr>"

definition worker_state_to_string :: "c_int \<Rightarrow> string" where
  "worker_state_to_string state =
     (if state = worker_state_value WORKER_STATE_UNKNOWN then ''UNKNOWN''
      else if state = worker_state_value WORKER_STATE_IDLE then ''IDLE''
      else if state = worker_state_value WORKER_STATE_BUSY then ''BUSY''
      else if state = worker_state_value WORKER_STATE_DEAD then ''DEAD''
      else ''INVALID'')"

text \<open>
  One \<open>if (caps & FLAG) { strncat(buf, first ? NAME : "|" NAME, ...); first = 0; }\<close> block, on
  the buffer and the \<open>first\<close> flag.
\<close>

definition append_cap ::
    "u32 \<Rightarrow> u32 \<times> string \<Rightarrow> nat \<Rightarrow> char list \<times> bool \<Rightarrow> (char list \<times> bool) option" where
  "append_cap caps flag_name buf_size st =
     (let (flag, name) = flag_name; (buf, first) = st in
      if caps AND flag \<noteq> 0
      then do {
        len \<leftarrow> c_strlen buf;
        buf' \<leftarrow> c_strncat buf (if first then name else CHR ''|'' # name) (buf_size - len - 1);
        Some (buf', False)
      }
      else Some (buf, first))"

definition cap_names :: "(u32 \<times> string) list" where
  "cap_names = [(WORKER_CAP_MPI_CLUSTER, ''MPI''), (WORKER_CAP_GPU, ''GPU''),
     (WORKER_CAP_LARGE_MEMORY, ''LARGE_MEM''), (WORKER_CAP_CHECKPOINT, ''CHECKPOINT'')]"

fun append_caps :: "u32 \<Rightarrow> (u32 \<times> string) list \<Rightarrow> nat \<Rightarrow> char list \<times> bool \<Rightarrow> (char list \<times> bool) option" where
  "append_caps caps [] n st = Some st"
| "append_caps caps (f # fs) n st = do { st' \<leftarrow> append_cap caps f n st; append_caps caps fs n st' }"

text \<open>\<open>buf = None\<close> is a NULL buffer; otherwise \<open>buf\<close> has the \<open>buf_size\<close> bytes the caller owns.\<close>

definition worker_capabilities_to_string :: "u32 \<Rightarrow> char list option \<Rightarrow> nat \<Rightarrow> char list option option" where
  "worker_capabilities_to_string caps buf buf_size =
     (case buf of
        None \<Rightarrow> Some None
      | Some b \<Rightarrow>
          if buf_size = 0 then Some (Some b)
          else do {
            (b', first) \<leftarrow> append_caps caps cap_names buf_size (b[0 := NUL], True);
            if first then map_option Some (c_strncpy b' ''NONE'' (buf_size - 1))
            else Some (Some b')
          })"

section \<open>Properties\<close>

text \<open>The text the function means to produce.\<close>

fun join_caps :: "u32 \<Rightarrow> (u32 \<times> string) list \<Rightarrow> bool \<Rightarrow> string" where
  "join_caps caps [] first = []"
| "join_caps caps ((flag, name) # fs) first =
     (if caps AND flag \<noteq> 0
      then (if first then name else CHR ''|'' # name) @ join_caps caps fs False
      else join_caps caps fs first)"

lemma append_caps_take:
  assumes "length buf = n" "0 < n" "c_str buf = Some (take (n - 1) s)"
    and "\<forall>(flag, name) \<in> set fs. NUL \<notin> set name"
  shows "\<exists>buf' first'. append_caps caps fs n (buf, first) = Some (buf', first') \<and>
    length buf' = n \<and> c_str buf' = Some (take (n - 1) (s @ join_caps caps fs first)) \<and>
    (first' \<longleftrightarrow> first \<and> (\<forall>(flag, name) \<in> set fs. caps AND flag = 0))"
  using assms
proof (induction fs arbitrary: buf s first)
  case Nil
  then show ?case by simp
next
  case (Cons f fs)
  obtain flag name where f: "f = (flag, name)" by (cases f)
  show ?case
  proof (cases "caps AND flag = 0")
    case True
    with Cons.IH [OF Cons.prems(1-3), of first] Cons.prems(4) f show ?thesis
      by (auto simp: append_cap_def)
  next
    case False
    let ?add = "if first then name else CHR ''|'' # name"
    let ?len = "min (n - 1) (length s)"
    have len: "c_strlen buf = Some ?len" using Cons.prems(3) by (simp add: c_strlen_def min.commute)
    have "NUL \<notin> set ?add" using Cons.prems(4) f by auto
    moreover have "length (take (n - 1) s) + (n - ?len - 1) < length buf"
      using Cons.prems(1,2) by simp
    ultimately obtain buf1 where buf1: "c_strncat buf ?add (n - ?len - 1) = Some buf1"
        "length buf1 = n" "c_str buf1 = Some (take (n - 1) s @ take (n - ?len - 1) ?add)"
      using c_strncat_str [OF Cons.prems(3), of ?add "n - ?len - 1"] Cons.prems(1) by blast
    have str: "take (n - 1) s @ take (n - ?len - 1) ?add = take (n - 1) (s @ ?add)"
      by (cases "n - 1 \<le> length s") (auto simp: min_def)
    obtain buf' first' where "append_caps caps fs n (buf1, False) = Some (buf', first')"
        "length buf' = n" "c_str buf' = Some (take (n - 1) ((s @ ?add) @ join_caps caps fs False))"
        "\<not> first'"
      using Cons.IH [OF buf1(2) Cons.prems(2), of "s @ ?add" False] buf1(3) Cons.prems(4)
      unfolding str by auto
    with False len buf1 f show ?thesis by (auto simp: append_cap_def)
  qed
qed

lemma c_str_cleared: "0 < n \<Longrightarrow> length b = n \<Longrightarrow> c_str (b[0 := NUL]) = Some []"
  by (cases b) (auto simp: c_str_def)

end
