(* ===== verification/Executor.thy ===== *)
theory Executor
  imports Byte_Layout C_String Decimal
begin

text \<open>
  \<open>src/worker/executor.c\<close>: running one task or a batch of tasks through the Fortran kernel.
  \<open>fortran_model_run_v1\<close> is declared in \<open>include/fortran_api.h\<close> and supplied by whoever links
  the program; it is the argument \<open>krn\<close>, a function of the arguments it is called with that
  returns the 32-bit code.
\<close>

type_synonym fortran_kernel = "addr \<Rightarrow> size_t \<Rightarrow> addr \<Rightarrow> size_t \<Rightarrow> addr \<Rightarrow> size_t \<Rightarrow> u64 \<Rightarrow> 32 word"

text \<open>A reading of the monotonic clock, in seconds and nanoseconds.\<close>

type_synonym timespec = "int \<times> int"

text \<open>
  \<open>(end.tv_sec - start.tv_sec) * 1000000UL + (end.tv_nsec - start.tv_nsec) / 1000UL\<close>: the unsigned
  constants make both terms unsigned, the difference of the nanoseconds included.
\<close>

definition executor_elapsed_us :: "timespec \<Rightarrow> timespec \<Rightarrow> u64" where
  "executor_elapsed_us start end_t =
     of_int (fst end_t - fst start) * 1000000 + of_int (snd end_t - snd start) div 1000"

definition kernel_error_text :: "32 word \<Rightarrow> string" where
  "kernel_error_text rc = ''Fortran kernel returned error code '' @ dec_int (sint rc)"

text \<open>\<open>snprintf\<close> into the zeroed diagnostic buffer.\<close>

definition write_diag :: "string \<Rightarrow> u8 list" where
  "write_diag text = (let bytes = map byte_of_char (take (DIAG_MSG_LEN - 1) text) in
     bytes @ replicate (DIAG_MSG_LEN - length bytes) 0)"

text \<open>\<open>start\<close> and \<open>end_t\<close> are the two readings of the clock.\<close>

fun executor_execute_task ::
    "fortran_kernel \<Rightarrow> timespec \<Rightarrow> timespec \<Rightarrow> task_t option \<Rightarrow> task_result_t option \<Rightarrow> c_int \<times> task_result_t option"
where
  "executor_execute_task krn start end_t None result = (-1, result)"
| "executor_execute_task krn start end_t (Some task) None = (-1, None)"
| "executor_execute_task krn start end_t (Some task) (Some _) =
     (let r0 = zero_result\<lparr>r_task_id := t_task_id task\<rparr> in
      if t_input task = 0 \<or> t_input_size task = 0
      then (-2, Some (r0\<lparr>r_status := errcode_value ERR_INVALID_ARGUMENT\<rparr>))
      else if t_output task = 0 \<or> t_output_size task = 0
      then (-3, Some (r0\<lparr>r_status := errcode_value ERR_INVALID_ARGUMENT\<rparr>))
      else
        let rc = krn (t_input task) (t_input_size task) (t_output task) (t_output_size task)
                   (t_meta task) (t_meta_size task) (t_trace_id task);
            r1 = r0\<lparr>r_exec_time_us := executor_elapsed_us start end_t, r_status := rc,
                   r_output := t_output task, r_output_bytes_written := t_output_size task\<rparr>
        in (0, Some (if rc = errcode_value OK then r1
                     else r1\<lparr>r_diag_msg := write_diag (kernel_error_text rc)\<rparr>)))"

text \<open>The loop over the tasks, each with its clock readings: the results and the number of successes.\<close>

fun batch_loop ::
    "fortran_kernel \<Rightarrow> (task_t \<times> timespec \<times> timespec) list \<Rightarrow> c_int \<Rightarrow> task_result_t list \<times> c_int" where
  "batch_loop krn [] success = ([], success)"
| "batch_loop krn ((task, start, end_t) # rest) success =
     (let (rc, r) = executor_execute_task krn start end_t (Some task) (Some zero_result);
          result = the r;
          success' = (if rc = 0 \<and> r_status result = errcode_value OK then success + 1 else success);
          (rs, n) = batch_loop krn rest success'
      in (result # rs, n))"

text \<open>\<open>tasks = None\<close> is a NULL array; the results are what the caller's array holds afterwards.\<close>

definition executor_execute_batch ::
    "fortran_kernel \<Rightarrow> (task_t \<times> timespec \<times> timespec) list option \<Rightarrow> bool \<Rightarrow> c_int \<times> task_result_t list" where
  "executor_execute_batch krn tasks results_not_null =
     (case tasks of
        None \<Rightarrow> (0, [])
      | Some ts \<Rightarrow>
          if \<not> results_not_null \<or> ts = [] then (0, [])
          else let (rs, n) = batch_loop krn ts 0 in (n, rs))"

section \<open>Properties\<close>

text \<open>A task that reaches the kernel.\<close>

definition runnable :: "task_t \<Rightarrow> bool" where
  "runnable t \<longleftrightarrow> t_input t \<noteq> 0 \<and> t_input_size t \<noteq> 0 \<and> t_output t \<noteq> 0 \<and> t_output_size t \<noteq> 0"

definition run_kernel :: "fortran_kernel \<Rightarrow> task_t \<Rightarrow> 32 word" where
  "run_kernel krn t = krn (t_input t) (t_input_size t) (t_output t) (t_output_size t) (t_meta t)
     (t_meta_size t) (t_trace_id t)"

definition task_succeeds :: "fortran_kernel \<Rightarrow> task_t \<Rightarrow> bool" where
  "task_succeeds krn t \<longleftrightarrow> runnable t \<and> run_kernel krn t = 0"

lemma execute_task_result:
  "\<exists>rc r. executor_execute_task krn start end_t (Some t) (Some r0) = (rc, Some r) \<and>
     r_task_id r = t_task_id t \<and> (rc = 0 \<longleftrightarrow> runnable t) \<and>
     (rc = 0 \<and> r_status r = errcode_value OK \<longleftrightarrow> task_succeeds krn t)"
  by (auto simp: runnable_def task_succeeds_def run_kernel_def Let_def)

lemma batch_loop_results:
  "batch_loop krn ts n =
     (map (\<lambda>(t, start, end_t). the (snd (executor_execute_task krn start end_t (Some t) (Some zero_result)))) ts,
      n + int (count_if (\<lambda>(t, _). task_succeeds krn t) ts))"
proof (induction ts arbitrary: n)
  case Nil
  then show ?case by simp
next
  case (Cons x ts)
  obtain t start end_t where x: "x = (t, start, end_t)" by (cases x) auto
  obtain rc r where r: "executor_execute_task krn start end_t (Some t) (Some zero_result) = (rc, Some r)"
      "(rc = 0 \<and> r_status r = errcode_value OK) = task_succeeds krn t"
    using execute_task_result by metis
  show ?case
    using r(2) unfolding x by (simp add: Cons.IH r(1) del: executor_execute_task.simps)
qed

text \<open>
  The elapsed time is right when the nanoseconds do not decrease.  When they do, the difference
  wraps before the division.
\<close>

lemma executor_elapsed_exact:
  assumes "fst start \<le> fst end_t" "snd start \<le> snd end_t"
    "(fst end_t - fst start) * 1000000 + (snd end_t - snd start) div 1000 < 2 ^ 64"
    "snd end_t - snd start < 2 ^ 64"
  shows "uint (executor_elapsed_us start end_t)
    = (fst end_t - fst start) * 1000000 + (snd end_t - snd start) div 1000"
proof -
  let ?s = "fst end_t - fst start" and ?n = "snd end_t - snd start"
  have "(of_int d :: u64) div 1000 = of_int (d div 1000)" if "0 \<le> d" "d < 2 ^ 64" for d
  proof -
    have "uint ((of_int d :: u64) div 1000) = d div 1000"
      using that by (simp add: uint_div unsigned_of_int take_bit_int_eq_self)
    then show ?thesis by (metis word_of_int_uint)
  qed
  from this [of ?n] assms have "executor_elapsed_us start end_t = of_int (?s * 1000000 + ?n div 1000)"
    by (simp only: executor_elapsed_us_def of_int_add of_int_mult of_int_numeral)
  moreover have nonneg: "0 \<le> ?s * 1000000 + ?n div 1000" using assms(1,2) by simp
  moreover have "uint (of_int k :: u64) = k" if "0 \<le> k" "k < 2 ^ 64" for k
    using that by (simp add: unsigned_of_int take_bit_int_eq_self)
  ultimately show ?thesis using assms(3) by metis
qed

end
