(* ===== verification/Worker.thy ===== *)
theory Worker
  imports Transport_Interface Queue_Interface Resource_Limits_Props Worker_Registry Executor
begin

text \<open>
  \<open>src/worker/main.c\<close>: the messages a worker sends, and one pass of its main loop, for a
  standalone worker and for the head of an MPI cluster.  The transport is any backend behind the
  table of \<open>transport.c\<close>.  What the environment does during a pass is the record \<open>worker_env\<close>:
  the clocks, the allocator, the operating system's report, the padding bytes of the structures
  copied into messages, and the results waiting from the MPI ranks.
\<close>

section \<open>Building messages\<close>

text \<open>
  \<open>message_alloc(n)\<close>, \<open>memcpy\<close> of all \<open>n\<close> bytes into the payload, \<open>message_set_header\<close>, and
  \<open>payload_len = n\<close>: what every sender in coordinator and worker does.
\<close>

definition packed_message ::
    "bool \<Rightarrow> (size_t \<Rightarrow> u8 list option) \<Rightarrow> u16 \<Rightarrow> u64 \<Rightarrow> u8 list \<Rightarrow> message_t option" where
  "packed_message calloc_ok malloc msg_type task_id bytes =
     (let n = of_nat (length bytes) :: size_t in
      map_option (\<lambda>m. m\<lparr>m_payload := map_option (\<lambda>_. bytes) (m_payload m),
          m_header := (m_header m)\<lparr>h_payload_len := ucast n\<rparr>\<rparr>)
        (message_set_header (message_alloc n calloc_ok (malloc n)) msg_type task_id))"

text \<open>\<open>rc = transport_send(trans, msg, dst); message_free(msg);\<close>\<close>

definition send_packed ::
    "'i transport \<Rightarrow> message_t option \<Rightarrow> c_int \<Rightarrow> (c_int \<times> 'i transport) option" where
  "send_packed tr msg dst =
     (case msg of
        None \<Rightarrow> Some (-1, tr)
      | Some m \<Rightarrow> do {
          (rc, i) \<leftarrow> transport_send (Some tr) (Some m) dst;
          Some (rc, tr\<lparr>tr_impl := i\<rparr>)
        })"

section \<open>Data\<close>

datatype worker_mode = WORKER_MODE_STANDALONE | WORKER_MODE_CLUSTER_HEAD

record 'i worker =
  wk_mode :: worker_mode
  wk_transport :: "'i transport"
  wk_queue :: task_queue
  wk_limits :: "resource_limits option"
  wk_last_heartbeat :: time_t
  wk_mpi_size :: c_int
  wk_next_worker :: c_int
  wk_distributed :: "(c_int \<times> task_t) list"

record worker_env =
  ve_now :: time_t
  ve_src :: c_int
  ve_calloc :: bool
  ve_malloc :: "size_t \<Rightarrow> u8 list option"
  ve_malloc_node :: "task_queue \<Rightarrow> addr"
  ve_start :: timespec
  ve_end :: timespec
  ve_os :: os_report
  ve_pad :: "u8 list"
  ve_results :: "task_result_t list"

section \<open>Sending\<close>

definition send_registration ::
    "worker_env \<Rightarrow> 'i transport \<Rightarrow> u32 \<Rightarrow> u32 \<Rightarrow> u32 \<Rightarrow> (c_int \<times> 'i transport) option" where
  "send_registration ve tr num_local_ranks max_batch_size capabilities =
     send_packed tr (packed_message (ve_calloc ve) (ve_malloc ve) MSG_TYPE_WORKER_REGISTER 0
       (le_enc 4 num_local_ranks @ le_enc 4 max_batch_size @ le_enc 4 capabilities)) 0"

definition send_heartbeat :: "worker_env \<Rightarrow> 'i transport \<Rightarrow> (c_int \<times> 'i transport) option" where
  "send_heartbeat ve tr =
     send_packed tr (packed_message (ve_calloc ve) (ve_malloc ve) MSG_TYPE_HEARTBEAT 0 []) 0"

definition send_result :: "worker_env \<Rightarrow> 'i transport \<Rightarrow> task_result_t \<Rightarrow> (c_int \<times> 'i transport) option" where
  "send_result ve tr r =
     send_packed tr (packed_message (ve_calloc ve) (ve_malloc ve) MSG_TYPE_TASK_RESULT (r_task_id r)
       (result_bytes (ve_pad ve) r)) 0"

text \<open>What a worker announces about itself, by mode.\<close>

definition worker_capabilities :: "worker_mode \<Rightarrow> c_int \<Rightarrow> u32 \<times> u32 \<times> u32" where
  "worker_capabilities mode mpi_size =
     (if mode = WORKER_MODE_CLUSTER_HEAD
      then (of_int mpi_size, of_int (mpi_size * 5), 0 OR WORKER_CAP_MPI_CLUSTER)
      else (1, 10, 0))"

section \<open>Executing\<close>

text \<open>
  The elapsed time here is computed with signed constants: the difference of the nanoseconds may
  be negative and the quotient is rounded toward zero.
\<close>

definition worker_elapsed_us :: "timespec \<Rightarrow> timespec \<Rightarrow> u64" where
  "worker_elapsed_us start end_t =
     of_int ((fst end_t - fst start) * 1000000 + c_div (snd end_t - snd start) 1000)"

definition execute_task_standalone :: "worker_env \<Rightarrow> task_t \<Rightarrow> task_result_t" where
  "execute_task_standalone ve task =
     zero_result\<lparr>r_task_id := t_task_id task, r_worker_id := 0, r_status := 0,
       r_exec_time_us := worker_elapsed_us (ve_start ve) (ve_end ve)\<rparr>"

text \<open>The pass of an MPI rank over one task it received.\<close>

definition mpi_rank_execute :: "c_int \<Rightarrow> timespec \<Rightarrow> timespec \<Rightarrow> task_t \<Rightarrow> task_result_t" where
  "mpi_rank_execute mpi_rank start end_t task =
     zero_result\<lparr>r_task_id := t_task_id task, r_worker_id := of_int mpi_rank, r_status := 0,
       r_exec_time_us := worker_elapsed_us start end_t\<rparr>"

text \<open>
  The loop of an MPI rank.  Each event is one probe: nothing there, or a message from the head with
  its tag (999 ends the loop) and the task it carries, with the two readings of the clock.  The
  result is the list of results sent back, and whether the loop was ended by the head.
\<close>

fun run_mpi_worker ::
    "c_int \<Rightarrow> ((c_int \<times> task_t) option \<times> timespec \<times> timespec) list \<Rightarrow> task_result_t list \<times> bool" where
  "run_mpi_worker mpi_rank [] = ([], False)"
| "run_mpi_worker mpi_rank ((None, start, end_t) # events) = run_mpi_worker mpi_rank events"
| "run_mpi_worker mpi_rank ((Some (tag, task), start, end_t) # events) =
     (if tag = 999 then ([], True)
      else let (rs, stopped) = run_mpi_worker mpi_rank events
           in (mpi_rank_execute mpi_rank start end_t task # rs, stopped))"

text \<open>
  \<open>MPI_Send\<close> of a task to a rank, with tag 0: \<open>wk_distributed\<close> has the tasks that were sent to the
  ranks, in this order.
\<close>

definition distribute_to_mpi_worker :: "c_int \<Rightarrow> task_t \<Rightarrow> 'i worker \<Rightarrow> 'i worker" where
  [simp]: "distribute_to_mpi_worker worker_rank task w = w\<lparr>wk_distributed := wk_distributed w @ [(worker_rank, task)]\<rparr>"

text \<open>The ranks that \<open>shutdown_mpi_workers\<close> sends the tag 999 to.\<close>

definition shutdown_mpi_workers :: "c_int \<Rightarrow> c_int list" where
  [simp]: "shutdown_mpi_workers mpi_size = [1..mpi_size - 1]"

section \<open>One pass of the main loop\<close>

definition worker_heartbeat :: "worker_env \<Rightarrow> 'i worker \<Rightarrow> 'i worker option" where
  "worker_heartbeat ve w =
     (if ve_now ve - wk_last_heartbeat w \<ge> 10
      then do {
        (rc, tr) \<leftarrow> send_heartbeat ve (wk_transport w);
        Some (w\<lparr>wk_transport := tr, wk_last_heartbeat := ve_now ve\<rparr>)
      }
      else Some w)"

text \<open>
  The tasks of a received batch: a count, then the descriptors.  A count that the payload does
  not bear out reads outside the payload.
\<close>

definition unpack_batch :: "message_t \<Rightarrow> task_t list option" where
  "unpack_batch m =
     (if unat (h_payload_len (m_header m)) < 4 then Some []
      else do {
        bytes \<leftarrow> m_payload m;
        if length bytes < 4 then None
        else read_tasks (unat (rd32 0 bytes)) (drop 4 bytes)
      })"

definition worker_receive :: "worker_env \<Rightarrow> 'i worker \<Rightarrow> 'i worker option" where
  "worker_receive ve w = do {
     (msg, src, i) \<leftarrow> transport_recv (Some (wk_transport w)) (Some (ve_src ve));
     let w1 = w\<lparr>wk_transport := (wk_transport w)\<lparr>tr_impl := i\<rparr>\<rparr>;
     case msg of
       None \<Rightarrow> Some w1
     | Some m \<Rightarrow>
         if h_msg_type (m_header m) = MSG_TYPE_TASK_SUBMIT
         then do {
           ts \<leftarrow> unpack_batch m;
           (rcs, q) \<leftarrow> enqueue_all heap_enq (ve_malloc_node ve) ts (wk_queue w1);
           Some (w1\<lparr>wk_queue := q\<rparr>)
         }
         else Some w1
   }"

text \<open>
  The task at the head of the local queue; the flag says whether the pass goes on behind the
  \<open>if\<close> (\<open>continue\<close> skips the rest of it).  The choice of the next rank divides by
  \<open>mpi_size - 1\<close>.
\<close>

definition worker_process :: "worker_env \<Rightarrow> 'i worker \<Rightarrow> ('i worker \<times> bool) option" where
  "worker_process ve w = do {
     (rc, q, task) \<leftarrow> heap_deq (wk_queue w);
     let w1 = w\<lparr>wk_queue := q\<rparr>;
     if rc \<noteq> 0 then Some (w1, True)
     else
       let (reserved, l) = resource_limits_reserve_task (wk_limits w1) in
       if reserved \<noteq> 0
       then do {
         (rc', q') \<leftarrow> heap_enq (wk_queue w1) task (ve_malloc_node ve (wk_queue w1));
         Some (w1\<lparr>wk_queue := q', wk_limits := l\<rparr>, False)
       }
       else if wk_mode w1 = WORKER_MODE_CLUSTER_HEAD
       then if wk_mpi_size w1 - 1 = 0 then None
         else Some ((distribute_to_mpi_worker (wk_next_worker w1) task w1)
           \<lparr>wk_next_worker := c_mod (wk_next_worker w1) (wk_mpi_size w1 - 1) + 1,
            wk_limits := resource_limits_release_task l True\<rparr>, False)
       else do {
         let result = execute_task_standalone ve task;
         (rc', tr) \<leftarrow> send_result ve (wk_transport w1) result;
         Some (w1\<lparr>wk_transport := tr, wk_limits := resource_limits_release_task l (r_status result = 0)\<rparr>, True)
       }
   }"

text \<open>\<open>while (collect_from_mpi_worker(&result) == 0) send_result(...);\<close>\<close>

fun collect_results :: "worker_env \<Rightarrow> 'i transport \<Rightarrow> task_result_t list \<Rightarrow> 'i transport option" where
  "collect_results ve tr [] = Some tr"
| "collect_results ve tr (r # rs) = do {
     (rc, tr') \<leftarrow> send_result ve tr r;
     collect_results ve tr' rs
   }"

definition worker_finish :: "worker_env \<Rightarrow> 'i worker \<Rightarrow> 'i worker option" where
  "worker_finish ve w = do {
     tr \<leftarrow> (if wk_mode w = WORKER_MODE_CLUSTER_HEAD
            then collect_results ve (wk_transport w) (ve_results ve) else Some (wk_transport w));
     Some (w\<lparr>wk_transport := tr, wk_limits := snd (resource_limits_update (ve_os ve) (wk_limits w))\<rparr>)
   }"

definition worker_pass :: "worker_env \<Rightarrow> 'i worker \<Rightarrow> 'i worker option" where
  "worker_pass ve w = do {
     w1 \<leftarrow> worker_heartbeat ve w;
     w2 \<leftarrow> worker_receive ve w1;
     (w3, goes_on) \<leftarrow> worker_process ve w2;
     if goes_on then worker_finish ve w3 else Some w3
   }"

section \<open>Start\<close>

definition worker_queue_config :: task_queue_config where
  "worker_queue_config = \<lparr>cfg_max_size = 1000, cfg_allow_duplicates = 0\<rparr>"

definition worker_limits_config :: resource_limits_config where
  "worker_limits_config = \<lparr>rc_max_memory_bytes = 4 * 1024 * 1024 * 1024, rc_warn_memory_bytes = 0,
     rc_max_cpu_time_us = 0, rc_max_cpu_percent = 90, rc_max_concurrent_tasks = 8,
     rc_min_disk_space_bytes = 0, rc_max_open_files = 0, rc_enforce_hard_limits = 1\<rparr>"

text \<open>
  The state in front of the main loop: the queue, the limiter (whose creation may fail) and the
  registration.  \<open>tr\<close> is the initialised transport.
\<close>

definition worker_start ::
    "worker_env \<Rightarrow> worker_mode \<Rightarrow> c_int \<Rightarrow> 'i transport \<Rightarrow> bool \<Rightarrow> bool \<Rightarrow> rusage \<Rightarrow> u64 \<times> u64 \<Rightarrow> 'i worker option"
where
  "worker_start ve mode mpi_size tr queue_ok limits_ok usage clock = do {
     q \<leftarrow> task_queue_create (Some worker_queue_config) queue_ok;
     let l = resource_limits_create (Some worker_limits_config) limits_ok usage clock;
     let (ranks, batch, caps) = worker_capabilities mode mpi_size;
     (rc, tr') \<leftarrow> send_registration ve tr ranks batch caps;
     Some \<lparr>wk_mode = mode, wk_transport = tr', wk_queue = q, wk_limits = l,
       wk_last_heartbeat = ve_now ve, wk_mpi_size = mpi_size, wk_next_worker = 1, wk_distributed = []\<rparr>
   }"

section \<open>The whole run\<close>

text \<open>The passes of the main loop until the signal handler clears \<open>running\<close>.\<close>

fun worker_run :: "worker_env list \<Rightarrow> 'i worker \<Rightarrow> 'i worker option" where
  "worker_run [] w = Some w"
| "worker_run (ve # ves) w = do { w' \<leftarrow> worker_pass ve w; worker_run ves w' }"

text \<open>
  The end of \<open>run_worker\<close>: the ranks the head sends the shutdown tag to, the queue nodes left in
  the heap, and the result of the transport's shutdown.
\<close>

definition worker_stop :: "'i worker \<Rightarrow> (c_int list \<times> node_store \<times> c_int) option" where
  "worker_stop w = do {
     (freed, left) \<leftarrow> task_queue_destroy (Some (wk_queue w));
     (rc, i) \<leftarrow> transport_shutdown (Some (wk_transport w));
     Some (if wk_mode w = WORKER_MODE_CLUSTER_HEAD then shutdown_mpi_workers (wk_mpi_size w) else [], left, rc)
   }"

text \<open>\<open>main\<close> makes rank 0 the head of a cluster when there are other ranks.\<close>

definition worker_mode_of :: "c_int \<Rightarrow> worker_mode" where
  "worker_mode_of mpi_size = (if mpi_size > 1 then WORKER_MODE_CLUSTER_HEAD else WORKER_MODE_STANDALONE)"

end
