(* ===== verification/Scheduler.thy ===== *)
theory Scheduler
  imports Worker_Registry
begin

text \<open>
  \<open>src/coordinator/scheduler.h\<close> and \<open>scheduler.c\<close>: the registry of workers and the tracking of
  tasks.  The arrays \<open>workers\<close> and \<open>tasks\<close> are the lists of their live entries, so that
  \<open>worker_count\<close> and \<open>task_count\<close> are the lengths; an entry beyond the count is never read
  before it is overwritten.  Each call of \<open>time(NULL)\<close> is an argument.  A handle is \<open>None\<close> when
  NULL.  Each function body is one critical section of the scheduler's mutex.
\<close>

section \<open>Data\<close>

datatype scheduling_policy =
    SCHED_POLICY_ROUND_ROBIN
  | SCHED_POLICY_LOAD_BALANCED
  | SCHED_POLICY_LOCALITY
  | SCHED_POLICY_PRIORITY

record scheduler_config =
  sc_max_workers :: size_t
  sc_heartbeat_timeout_secs :: c_int
  sc_scheduling_policy :: scheduling_policy

record task_info =
  ti_task_id :: u64
  ti_worker_id :: u32
  ti_submitted :: time_t
  ti_started :: time_t
  ti_status :: c_int

record scheduler_stats =
  st_total_workers :: size_t
  st_active_workers :: size_t
  st_idle_workers :: size_t
  st_busy_workers :: size_t
  st_dead_workers :: size_t
  st_tasks_scheduled :: u64
  st_tasks_completed :: u64
  st_tasks_failed :: u64

definition zero_stats :: scheduler_stats where
  "zero_stats = \<lparr>st_total_workers = 0, st_active_workers = 0, st_idle_workers = 0,
     st_busy_workers = 0, st_dead_workers = 0, st_tasks_scheduled = 0, st_tasks_completed = 0,
     st_tasks_failed = 0\<rparr>"

record scheduler =
  s_policy :: scheduling_policy
  s_heartbeat_timeout_secs :: c_int
  s_max_workers :: size_t
  s_workers :: "worker_info list"
  s_tasks :: "task_info list"
  s_max_tasks :: size_t
  s_stats :: scheduler_stats

definition MAX_TRACKED_TASKS :: size_t where "MAX_TRACKED_TASKS = 100000"

section \<open>Creation\<close>

text \<open>
  The three flags say which of the three \<open>calloc\<close> calls succeed.  The result is the new
  scheduler, if any; every path that fails has freed what it allocated.
\<close>

fun scheduler_create ::
    "scheduler_config option \<Rightarrow> bool \<Rightarrow> bool \<Rightarrow> bool \<Rightarrow> scheduler option" where
  "scheduler_create None sched_ok workers_ok tasks_ok = None"
| "scheduler_create (Some config) sched_ok workers_ok tasks_ok =
     (if \<not> sched_ok then None
      else if \<not> workers_ok then None
      else if \<not> tasks_ok then None
      else Some \<lparr>s_policy = sc_scheduling_policy config,
        s_heartbeat_timeout_secs = sc_heartbeat_timeout_secs config,
        s_max_workers = sc_max_workers config, s_workers = [], s_tasks = [],
        s_max_tasks = MAX_TRACKED_TASKS, s_stats = zero_stats\<rparr>)"

section \<open>Workers\<close>

text \<open>The index of the entry for a worker in the array.\<close>

definition worker_index :: "worker_info list \<Rightarrow> u32 \<Rightarrow> nat option" where
  "worker_index ws wid = first_index (\<lambda>w. w_worker_id w = wid) ws"

text \<open>\<open>now\<close> and \<open>now'\<close> are the two readings of the clock.\<close>

fun scheduler_register_worker ::
    "scheduler option \<Rightarrow> worker_info option \<Rightarrow> time_t \<Rightarrow> time_t \<Rightarrow> c_int \<times> scheduler option" where
  "scheduler_register_worker None info now now' = (-1, None)"
| "scheduler_register_worker (Some s) None now now' = (-1, Some s)"
| "scheduler_register_worker (Some s) (Some info) now now' =
     (if length (s_workers s) \<ge> unat (s_max_workers s) then (-2, Some s)
      else case worker_index (s_workers s) (w_worker_id info) of
        Some i \<Rightarrow>
          (0, Some (s\<lparr>s_workers := (s_workers s)
            [i := info\<lparr>w_state := WORKER_STATE_IDLE, w_last_heartbeat := now\<rparr>]\<rparr>))
      | None \<Rightarrow>
          (0, Some (s\<lparr>s_workers := s_workers s @
                [info\<lparr>w_state := WORKER_STATE_IDLE, w_last_heartbeat := now, w_registered := now'\<rparr>],
              s_stats := (s_stats s)\<lparr>st_total_workers := st_total_workers (s_stats s) + 1,
                st_active_workers := st_active_workers (s_stats s) + 1,
                st_idle_workers := st_idle_workers (s_stats s) + 1\<rparr>\<rparr>)))"

text \<open>The bookkeeping when a worker that is not dead leaves or dies.\<close>

definition retire_stats :: "worker_state \<Rightarrow> scheduler_stats \<Rightarrow> scheduler_stats" where
  "retire_stats state st =
     (let st1 = st\<lparr>st_active_workers := st_active_workers st - 1\<rparr> in
      if state = WORKER_STATE_IDLE
      then st1\<lparr>st_idle_workers := st_idle_workers st1 - 1\<rparr>
      else if state = WORKER_STATE_BUSY
      then st1\<lparr>st_busy_workers := st_busy_workers st1 - 1\<rparr>
      else st1)"

fun scheduler_unregister_worker :: "scheduler option \<Rightarrow> u32 \<Rightarrow> c_int \<times> scheduler option" where
  "scheduler_unregister_worker None wid = (-1, None)"
| "scheduler_unregister_worker (Some s) wid =
     (case worker_index (s_workers s) wid of
        None \<Rightarrow> (-2, Some s)
      | Some i \<Rightarrow>
          let ws = s_workers s; n = length ws;
              st = (if w_state (ws ! i) \<noteq> WORKER_STATE_DEAD
                    then retire_stats (w_state (ws ! i)) (s_stats s) else s_stats s);
              ws' = (if i < n - 1 then ws[i := ws ! (n - 1)] else ws)
          in (0, Some (s\<lparr>s_workers := take (n - 1) ws', s_stats := st\<rparr>)))"

fun scheduler_update_heartbeat :: "scheduler option \<Rightarrow> u32 \<Rightarrow> time_t \<Rightarrow> scheduler option" where
  "scheduler_update_heartbeat None wid now = None"
| "scheduler_update_heartbeat (Some s) wid now =
     (case worker_index (s_workers s) wid of
        None \<Rightarrow> Some s
      | Some i \<Rightarrow>
          let w = (s_workers s ! i)\<lparr>w_last_heartbeat := now\<rparr>; st = s_stats s in
          if w_state w = WORKER_STATE_DEAD
          then Some (s\<lparr>s_workers := (s_workers s)[i := w\<lparr>w_state := WORKER_STATE_IDLE\<rparr>],
            s_stats := st\<lparr>st_dead_workers := st_dead_workers st - 1,
              st_active_workers := st_active_workers st + 1,
              st_idle_workers := st_idle_workers st + 1\<rparr>\<rparr>)
          else Some (s\<lparr>s_workers := (s_workers s)[i := w]\<rparr>))"

text \<open>\<open>tasks_running\<close> is 32 bits wide, \<open>task_count\<close> 64: the sum is truncated.\<close>

fun scheduler_mark_worker_busy :: "scheduler option \<Rightarrow> u32 \<Rightarrow> size_t \<Rightarrow> scheduler option" where
  "scheduler_mark_worker_busy None wid task_count = None"
| "scheduler_mark_worker_busy (Some s) wid task_count =
     (case worker_index (s_workers s) wid of
        None \<Rightarrow> Some s
      | Some i \<Rightarrow>
          let w = s_workers s ! i; st = s_stats s;
              idle = (w_state w = WORKER_STATE_IDLE);
              w1 = (if idle then w\<lparr>w_state := WORKER_STATE_BUSY\<rparr> else w);
              st1 = (if idle then st\<lparr>st_idle_workers := st_idle_workers st - 1,
                       st_busy_workers := st_busy_workers st + 1\<rparr> else st)
          in Some (s\<lparr>s_workers := (s_workers s)
                [i := w1\<lparr>w_tasks_running := ucast (ucast (w_tasks_running w1) + task_count)\<rparr>],
              s_stats := st1\<rparr>))"

definition release_stats :: "scheduler_stats \<Rightarrow> scheduler_stats" where
  "release_stats st = st\<lparr>st_busy_workers := st_busy_workers st - 1,
     st_idle_workers := st_idle_workers st + 1\<rparr>"

fun scheduler_mark_worker_idle :: "scheduler option \<Rightarrow> u32 \<Rightarrow> scheduler option" where
  "scheduler_mark_worker_idle None wid = None"
| "scheduler_mark_worker_idle (Some s) wid =
     (case worker_index (s_workers s) wid of
        None \<Rightarrow> Some s
      | Some i \<Rightarrow>
          let w = s_workers s ! i; busy = (w_state w = WORKER_STATE_BUSY);
              w1 = (if busy then w\<lparr>w_state := WORKER_STATE_IDLE\<rparr> else w)
          in Some (s\<lparr>s_workers := (s_workers s)[i := w1\<lparr>w_tasks_running := 0\<rparr>],
              s_stats := (if busy then release_stats (s_stats s) else s_stats s)\<rparr>))"

text \<open>
  The loop of \<open>scheduler_get_idle_workers\<close>, with \<open>cnt\<close> entries copied so far and \<open>limit\<close>
  the value of \<open>(int)max_workers\<close>.
\<close>

fun idle_loop :: "worker_info list \<Rightarrow> c_int \<Rightarrow> c_int \<Rightarrow> worker_info list" where
  "idle_loop [] cnt limit = []"
| "idle_loop (w # ws) cnt limit =
     (if \<not> cnt < limit then []
      else if w_state w = WORKER_STATE_IDLE then w # idle_loop ws (cnt + 1) limit
      else idle_loop ws cnt limit)"

text \<open>
  The result is the number of entries written to the caller's array, and those entries.
  \<open>(int)max_workers\<close> keeps the low 32 bits as a signed number.
\<close>

fun scheduler_get_idle_workers ::
    "scheduler option \<Rightarrow> bool \<Rightarrow> size_t \<Rightarrow> c_int \<times> worker_info list" where
  "scheduler_get_idle_workers None workers_not_null max_workers = (0, [])"
| "scheduler_get_idle_workers (Some s) workers_not_null max_workers =
     (if \<not> workers_not_null then (0, [])
      else let out = idle_loop (s_workers s) 0 (sint (ucast max_workers :: 32 word))
           in (int (length out), out))"

section \<open>Tasks\<close>

fun scheduler_track_task ::
    "scheduler option \<Rightarrow> u64 \<Rightarrow> u32 \<Rightarrow> time_t \<Rightarrow> time_t \<Rightarrow> c_int \<times> scheduler option" where
  "scheduler_track_task None tid wid now now' = (-1, None)"
| "scheduler_track_task (Some s) tid wid now now' =
     (if length (s_tasks s) \<ge> unat (s_max_tasks s) then (-2, Some s)
      else (0, Some (s\<lparr>s_tasks := s_tasks s @ [\<lparr>ti_task_id = tid, ti_worker_id = wid,
              ti_submitted = now, ti_started = now', ti_status = -1\<rparr>],
            s_stats := (s_stats s)\<lparr>st_tasks_scheduled := st_tasks_scheduled (s_stats s) + 1\<rparr>\<rparr>)))"

text \<open>The update of the worker the completed task ran on, with the statistics.\<close>

definition complete_on_worker ::
    "c_int \<Rightarrow> worker_info \<Rightarrow> scheduler_stats \<Rightarrow> worker_info \<times> scheduler_stats" where
  "complete_on_worker status w st =
     (let w1 = (if w_tasks_running w > 0 then w\<lparr>w_tasks_running := w_tasks_running w - 1\<rparr> else w);
          (w2, st2) =
            (if status = 0
             then (w1\<lparr>w_tasks_completed := w_tasks_completed w1 + 1\<rparr>,
                   st\<lparr>st_tasks_completed := st_tasks_completed st + 1\<rparr>)
             else (w1\<lparr>w_tasks_failed := w_tasks_failed w1 + 1\<rparr>,
                   st\<lparr>st_tasks_failed := st_tasks_failed st + 1\<rparr>))
      in if w_tasks_running w2 = 0 \<and> w_state w2 = WORKER_STATE_BUSY
         then (w2\<lparr>w_state := WORKER_STATE_IDLE\<rparr>, release_stats st2)
         else (w2, st2))"

fun scheduler_mark_task_complete ::
    "scheduler option \<Rightarrow> u64 \<Rightarrow> c_int \<Rightarrow> c_int \<times> scheduler option" where
  "scheduler_mark_task_complete None tid status = (-1, None)"
| "scheduler_mark_task_complete (Some s) tid status =
     (case first_index (\<lambda>t. ti_task_id t = tid) (s_tasks s) of
        None \<Rightarrow> (-2, Some s)
      | Some i \<Rightarrow>
          let s1 = s\<lparr>s_tasks := (s_tasks s)[i := (s_tasks s ! i)\<lparr>ti_status := status\<rparr>]\<rparr> in
          case worker_index (s_workers s1) (ti_worker_id (s_tasks s1 ! i)) of
            None \<Rightarrow> (0, Some s1)
          | Some j \<Rightarrow>
              let (w, st) = complete_on_worker status (s_workers s1 ! j) (s_stats s1)
              in (0, Some (s1\<lparr>s_workers := (s_workers s1)[j := w], s_stats := st\<rparr>)))"

section \<open>Timeouts\<close>

definition timed_out :: "time_t \<Rightarrow> c_int \<Rightarrow> worker_info \<Rightarrow> bool" where
  "timed_out now timeout w \<longleftrightarrow> now - w_last_heartbeat w > timeout"

text \<open>The loop of \<open>scheduler_check_timeouts\<close>: workers, statistics, number of workers that died.\<close>

fun timeout_loop ::
    "time_t \<Rightarrow> c_int \<Rightarrow> worker_info list \<Rightarrow> scheduler_stats \<Rightarrow> c_int
      \<Rightarrow> worker_info list \<times> scheduler_stats \<times> c_int" where
  "timeout_loop now timeout [] st dead = ([], st, dead)"
| "timeout_loop now timeout (w # ws) st dead =
     (if w_state w = WORKER_STATE_DEAD \<or> \<not> timed_out now timeout w
      then let (ws', st', dead') = timeout_loop now timeout ws st dead in (w # ws', st', dead')
      else let st1 = retire_stats (w_state w) st;
               st2 = st1\<lparr>st_dead_workers := st_dead_workers st1 + 1\<rparr>;
               (ws', st', dead') = timeout_loop now timeout ws st2 (dead + 1)
           in (w\<lparr>w_state := WORKER_STATE_DEAD\<rparr> # ws', st', dead'))"

fun scheduler_check_timeouts :: "scheduler option \<Rightarrow> time_t \<Rightarrow> c_int \<times> scheduler option" where
  "scheduler_check_timeouts None now = (0, None)"
| "scheduler_check_timeouts (Some s) now =
     (let (ws, st, dead) =
            timeout_loop now (s_heartbeat_timeout_secs s) (s_workers s) (s_stats s) 0
      in (dead, Some (s\<lparr>s_workers := ws, s_stats := st\<rparr>)))"

section \<open>Statistics and destruction\<close>

fun scheduler_get_stats :: "scheduler option \<Rightarrow> scheduler_stats option \<Rightarrow> scheduler_stats option" where
  "scheduler_get_stats None out = out"
| "scheduler_get_stats (Some s) None = None"
| "scheduler_get_stats (Some s) (Some out) = Some (s_stats s)"

text \<open>Destruction frees the two arrays and the scheduler: no scheduler is left.\<close>

fun scheduler_destroy :: "scheduler option \<Rightarrow> scheduler option" where
  "scheduler_destroy sched = None"

end
