(* ===== verification/Coordinator.thy ===== *)
theory Coordinator
  imports Worker Scheduler
begin

text \<open>
  \<open>src/coordinator/main.c\<close>: the handlers of the coordinator and one pass of its main loop.  The
  transport is any backend behind the table of \<open>transport.c\<close>.  Each call of \<open>time(NULL)\<close> reads
  a later value of \<open>co_time\<close>; a branch that makes fewer calls skips values.  The metadata store is represented by the calls made to it.
\<close>

section \<open>Data\<close>

text \<open>The arguments of one call of \<open>metadata_store_task_info\<close>.\<close>

record task_info_call =
  mc_task_id :: u64
  mc_model_id :: u32
  mc_status :: c_int
  mc_exec_time_us :: u64
  mc_queue_time_us :: u64
  mc_worker_id :: u32

text \<open>\<open>co_meta\<close> is \<open>None\<close> when the metadata store could not be opened.\<close>

record 'i coordinator =
  co_transport :: "'i transport"
  co_sched :: "scheduler option"
  co_queue :: task_queue
  co_meta :: "task_info_call list option"
  co_time :: "nat \<Rightarrow> time_t"
  co_ticks :: nat

record coord_env =
  ce_src :: c_int
  ce_calloc :: bool
  ce_malloc :: "size_t \<Rightarrow> u8 list option"
  ce_malloc_node :: "task_queue \<Rightarrow> addr"
  ce_pad :: "u8 list"

definition now :: "'i coordinator \<Rightarrow> time_t" where
  "now c = co_time c (co_ticks c)"

definition later :: "'i coordinator \<Rightarrow> time_t" where
  "later c = co_time c (co_ticks c + 1)"

definition tick :: "nat \<Rightarrow> 'i coordinator \<Rightarrow> 'i coordinator" where
  "tick n c = c\<lparr>co_ticks := co_ticks c + n\<rparr>"

section \<open>Handlers\<close>

text \<open>
  The registration payload: three 32-bit numbers, read when at least 12 bytes are announced;
  reading outside the payload is undefined.
\<close>

definition registration_info :: "c_int \<Rightarrow> time_t \<Rightarrow> message_t \<Rightarrow> worker_info option" where
  "registration_info worker_id t m =
     (let info = zero_worker\<lparr>w_worker_id := of_int worker_id, w_last_heartbeat := t,
            w_state := WORKER_STATE_IDLE\<rparr> in
      do {
        info1 \<leftarrow> (case m_payload m of
          Some bytes \<Rightarrow>
            if h_payload_len (m_header m) \<ge> 12
            then if length bytes < 12 then None
              else Some (info\<lparr>w_num_local_ranks := rd32 0 bytes, w_max_batch_size := rd32 4 bytes,
                w_capabilities := rd32 8 bytes\<rparr>)
            else Some info
        | None \<Rightarrow> Some info);
        let info2 = (if w_num_local_ranks info1 = 0 then info1\<lparr>w_num_local_ranks := 1\<rparr> else info1);
        Some (if w_max_batch_size info2 = 0 then info2\<lparr>w_max_batch_size := 10\<rparr> else info2)
      })"

definition handle_worker_register :: "c_int \<Rightarrow> message_t \<Rightarrow> 'i coordinator \<Rightarrow> 'i coordinator option" where
  "handle_worker_register worker_id m c = do {
     info \<leftarrow> registration_info worker_id (now c) m;
     let c1 = tick 1 c;
     let (rc, s) = scheduler_register_worker (co_sched c1) (Some info) (now c1) (later c1);
     Some (tick 2 (c1\<lparr>co_sched := s\<rparr>))
   }"

definition handle_heartbeat :: "c_int \<Rightarrow> 'i coordinator \<Rightarrow> 'i coordinator" where
  "handle_heartbeat worker_id c =
     tick 1 (c\<lparr>co_sched := scheduler_update_heartbeat (co_sched c) (of_int worker_id) (now c)\<rparr>)"

definition handle_task_result :: "c_int \<Rightarrow> message_t \<Rightarrow> 'i coordinator \<Rightarrow> 'i coordinator option" where
  "handle_task_result worker_id m c =
     (case m_payload m of
        None \<Rightarrow> Some c
      | Some bytes \<Rightarrow>
          if unat (h_payload_len (m_header m)) < sizeof_result then Some c
          else if length bytes < sizeof_result then None
          else let r = result_of_bytes bytes;
                   (rc, s) = scheduler_mark_task_complete (co_sched c) (r_task_id r) (sint (r_status r))
               in Some (c\<lparr>co_sched := s, co_meta := map_option (\<lambda>calls. calls @
                    [\<lparr>mc_task_id = r_task_id r, mc_model_id = 0, mc_status = sint (r_status r),
                      mc_exec_time_us = r_exec_time_us r, mc_queue_time_us = r_queue_time_us r,
                      mc_worker_id = of_int worker_id\<rparr>]) (co_meta c)\<rparr>))"

section \<open>Batches\<close>

text \<open>The size of the array \<open>batch\<close> in the scheduling loop.\<close>

definition BATCH_ARRAY :: nat where "BATCH_ARRAY = 100"

text \<open>
  \<open>create_task_batch\<close>, with \<open>i\<close> tasks in the array and \<open>n\<close> more wanted.  A task dequeued into
  \<open>batch[i]\<close> with \<open>i\<close> at the size of the array or beyond is written outside it.
\<close>

fun create_task_batch :: "task_queue \<Rightarrow> nat \<Rightarrow> nat \<Rightarrow> (task_t list \<times> task_queue) option" where
  "create_task_batch q i 0 = Some ([], q)"
| "create_task_batch q i (Suc n) = do {
     (rc, q1, t) \<leftarrow> heap_deq q;
     if rc \<noteq> 0 then Some ([], q1)
     else if i \<ge> BATCH_ARRAY then None
     else do { (ts, q2) \<leftarrow> create_task_batch q1 (Suc i) n; Some (t # ts, q2) }
   }"

definition batch_payload :: "u8 list \<Rightarrow> task_t list \<Rightarrow> u8 list" where
  "batch_payload pad batch = le_enc 4 (of_nat (length batch) :: u32) @ tasks_bytes pad batch"

definition send_task_batch ::
    "coord_env \<Rightarrow> 'i transport \<Rightarrow> u32 \<Rightarrow> task_t list \<Rightarrow> (c_int \<times> 'i transport) option" where
  "send_task_batch ce tr worker_id batch =
     send_packed tr (packed_message (ce_calloc ce) (ce_malloc ce) MSG_TYPE_TASK_SUBMIT
       (t_task_id (hd batch)) (batch_payload (ce_pad ce) batch)) (sint worker_id)"

section \<open>One pass of the main loop\<close>

definition coordinator_receive :: "coord_env \<Rightarrow> 'i coordinator \<Rightarrow> 'i coordinator option" where
  "coordinator_receive ce c = do {
     (msg, src, i) \<leftarrow> transport_recv (Some (co_transport c)) (Some (ce_src ce));
     let c1 = c\<lparr>co_transport := (co_transport c)\<lparr>tr_impl := i\<rparr>\<rparr>;
     case msg of
       None \<Rightarrow> Some c1
     | Some m \<Rightarrow>
         let src_worker = the src; mt = h_msg_type (m_header m) in
         if mt = MSG_TYPE_WORKER_REGISTER then handle_worker_register src_worker m c1
         else if mt = MSG_TYPE_HEARTBEAT then Some (handle_heartbeat src_worker c1)
         else if mt = MSG_TYPE_TASK_RESULT then handle_task_result src_worker m c1
         else Some c1
   }"

text \<open>The tracking of a batch that was sent: two readings of the clock for each task.\<close>

fun track_batch :: "u32 \<Rightarrow> task_t list \<Rightarrow> 'i coordinator \<Rightarrow> 'i coordinator" where
  "track_batch wid [] c = c"
| "track_batch wid (t # ts) c =
     track_batch wid ts
       (tick 2 (c\<lparr>co_sched := snd (scheduler_track_task (co_sched c) (t_task_id t) wid (now c) (later c))\<rparr>))"

text \<open>
  One idle worker: the tasks it is sent (none when the send fails and they go back to the queue)
  and the new state.
\<close>

definition serve_worker :: "coord_env \<Rightarrow> worker_info \<Rightarrow> 'i coordinator \<Rightarrow> (task_t list \<times> 'i coordinator) option"
where
  "serve_worker ce w c = do {
     let max_batch = (if w_max_batch_size w > 0 then unat (w_max_batch_size w) else 10);
     (batch, q) \<leftarrow> create_task_batch (co_queue c) 0 max_batch;
     let c1 = c\<lparr>co_queue := q\<rparr>;
     if batch = [] then Some ([], c1)
     else do {
       (rc, tr) \<leftarrow> send_task_batch ce (co_transport c1) (w_worker_id w) batch;
       let c2 = c1\<lparr>co_transport := tr\<rparr>;
       if rc = 0
       then Some (batch, track_batch (w_worker_id w) batch (c2\<lparr>co_sched :=
         scheduler_mark_worker_busy (co_sched c2) (w_worker_id w) (of_nat (length batch))\<rparr>))
       else do {
         (rcs, q') \<leftarrow> enqueue_all heap_enq (ce_malloc_node ce) batch (co_queue c2);
         Some ([], c2\<lparr>co_queue := q'\<rparr>)
       }
     }
   }"

text \<open>The loop over the idle workers, while the queue has tasks: the dispatches in order.\<close>

fun serve_workers ::
    "coord_env \<Rightarrow> worker_info list \<Rightarrow> 'i coordinator \<Rightarrow> ((u32 \<times> task_t list) list \<times> 'i coordinator) option"
where
  "serve_workers ce [] c = Some ([], c)"
| "serve_workers ce (w # ws) c =
     (if task_queue_is_empty (Some (co_queue c)) \<noteq> 0 then Some ([], c)
      else do {
        (sent, c1) \<leftarrow> serve_worker ce w c;
        (rest, c2) \<leftarrow> serve_workers ce ws c1;
        Some ((w_worker_id w, sent) # rest, c2)
      })"

definition coordinator_pass ::
    "coord_env \<Rightarrow> 'i coordinator \<Rightarrow> ((u32 \<times> task_t list) list \<times> 'i coordinator) option" where
  "coordinator_pass ce c = do {
     c1 \<leftarrow> coordinator_receive ce c;
     let idle = snd (scheduler_get_idle_workers (co_sched c1) True 256);
     (sent, c2) \<leftarrow> serve_workers ce idle c1;
     Some (sent, tick 1 (c2\<lparr>co_sched := snd (scheduler_check_timeouts (co_sched c2) (now c2))\<rparr>))
   }"

section \<open>Loading tasks\<close>

text \<open>
  \<open>sscanf(line, "%lu %u %zu %zu", ...)\<close>; the white space of the format is skipped by the
  conversions anyway.
\<close>

definition scan_task :: "string \<Rightarrow> task_t option" where
  "scan_task line = do {
     (task_id, s1) \<leftarrow> scan_unsigned 64 line;
     (model_id, s2) \<leftarrow> scan_unsigned 32 s1;
     (input_size, s3) \<leftarrow> scan_unsigned 64 s2;
     (output_size, s4) \<leftarrow> scan_unsigned 64 s3;
     Some (zero_task\<lparr>t_task_id := of_nat task_id, t_model_id := of_nat model_id, t_input := 0,
       t_input_size := of_nat input_size, t_output := 0, t_output_size := of_nat output_size,
       t_api_version := API_VERSION_CURRENT, t_trace_id := of_nat task_id, t_timeout_secs := 300,
       t_flags := 0\<rparr>)
   }"

text \<open>
  The lines as \<open>fgets\<close> delivers them, the number of tasks taken so far and the queue.
\<close>

fun load_lines :: "(task_queue \<Rightarrow> addr) \<Rightarrow> string list \<Rightarrow> c_int \<Rightarrow> task_queue \<Rightarrow> (c_int \<times> task_queue) option" where
  "load_lines malloc [] taken q = Some (taken, q)"
| "load_lines malloc (line # lines) taken q =
     (case scan_task line of
        None \<Rightarrow> load_lines malloc lines taken q
      | Some t \<Rightarrow> do {
          (rc, q') \<leftarrow> heap_enq q t (malloc q);
          load_lines malloc lines (if rc = 0 then taken + 1 else taken) q'
        })"

definition load_tasks_from_file ::
    "(task_queue \<Rightarrow> addr) \<Rightarrow> string list option \<Rightarrow> task_queue \<Rightarrow> (c_int \<times> task_queue) option" where
  "load_tasks_from_file malloc file q =
     (case file of None \<Rightarrow> Some (-1, q) | Some lines \<Rightarrow> load_lines malloc lines 0 q)"

section \<open>Start\<close>

definition coordinator_queue_config :: task_queue_config where
  "coordinator_queue_config = \<lparr>cfg_max_size = 10000, cfg_allow_duplicates = 0\<rparr>"

definition coordinator_sched_config :: scheduler_config where
  "coordinator_sched_config = \<lparr>sc_max_workers = 256, sc_heartbeat_timeout_secs = 30,
     sc_scheduling_policy = SCHED_POLICY_LOAD_BALANCED\<rparr>"

text \<open>
  The state in front of the main loop.  \<open>log_fatal\<close> aborts, so a queue or scheduler that cannot be
  created ends the program (\<open>None\<close>).
\<close>

definition coordinator_start ::
    "'i transport \<Rightarrow> bool \<Rightarrow> bool \<Rightarrow> bool \<Rightarrow> (nat \<Rightarrow> time_t) \<Rightarrow> 'i coordinator option" where
  "coordinator_start tr queue_ok sched_ok meta_ok clock = do {
     q \<leftarrow> task_queue_create (Some coordinator_queue_config) queue_ok;
     s \<leftarrow> scheduler_create (Some coordinator_sched_config) sched_ok sched_ok sched_ok;
     Some \<lparr>co_transport = tr, co_sched = Some s, co_queue = q,
       co_meta = (if meta_ok then Some [] else None), co_time = clock, co_ticks = 0\<rparr>
   }"

section \<open>The whole run\<close>

text \<open>The passes of the main loop until the signal handler clears \<open>running\<close>: all dispatches.\<close>

fun coordinator_run ::
    "coord_env list \<Rightarrow> 'i coordinator \<Rightarrow> ((u32 \<times> task_t list) list \<times> 'i coordinator) option" where
  "coordinator_run [] c = Some ([], c)"
| "coordinator_run (ce # ces) c = do {
     (sent, c1) \<leftarrow> coordinator_pass ce c;
     (rest, c2) \<leftarrow> coordinator_run ces c1;
     Some (sent @ rest, c2)
   }"

text \<open>The end of \<open>run_coordinator\<close>: the queue nodes left in the heap and the transport's code.\<close>

definition coordinator_stop :: "'i coordinator \<Rightarrow> (node_store \<times> c_int) option" where
  "coordinator_stop c = do {
     (freed, left) \<leftarrow> task_queue_destroy (Some (co_queue c));
     (rc, i) \<leftarrow> transport_shutdown (Some (co_transport c));
     Some (left, rc)
   }"

text \<open>
  \<open>load_tasks_from_file\<close> with a queue that has been freed: the first line that is a task makes the
  enqueue take the mutex of a freed object.
\<close>

definition load_into_freed :: "string list option \<Rightarrow> c_int option" where
  "load_into_freed file =
     (case file of
        None \<Rightarrow> Some (-1)
      | Some lines \<Rightarrow> if List.map_filter scan_task lines \<noteq> [] then None else Some 0)"

text \<open>
  \<open>main\<close> behind the parsing of the command line: the coordinator runs to its end, and only then is
  the task file loaded, if one was given (\<open>task_queue\<close> still holds the address of the queue that
  \<open>run_coordinator\<close> freed).  \<open>file\<close> is what \<open>fopen\<close> finds.
\<close>

definition coordinator_main ::
    "'i transport \<Rightarrow> (nat \<Rightarrow> time_t) \<Rightarrow> coord_env list \<Rightarrow> bool \<Rightarrow> string list option
      \<Rightarrow> ((u32 \<times> task_t list) list \<times> c_int) option" where
  "coordinator_main tr clock ces task_file_given file = do {
     c \<leftarrow> coordinator_start tr True True True clock;
     (sent, c') \<leftarrow> coordinator_run ces c;
     (left, rc) \<leftarrow> coordinator_stop c';
     loaded \<leftarrow> (if task_file_given then load_into_freed file else Some 0);
     Some (sent, 0)
   }"

end
