(* ===== verification/Queue_Client.thy ===== *)
theory Queue_Client
  imports Queue_Interface
begin

text \<open>
  The queues of coordinator and worker in use: well formed, open, within their capacity, and
  without duplicate ids where the configuration forbids them.  A task taken out can always be put
  back.
\<close>

definition client_queue :: "task_queue \<Rightarrow> bool" where
  "client_queue q \<longleftrightarrow> tq_inv q \<and> q_shutting_down q = 0 \<and>
     (q_allow_duplicates q = 0 \<longrightarrow> distinct (map t_task_id (tq_tasks q))) \<and>
     (\<exists>k. heap_capacity q = Some k \<and> length (tq_tasks q) \<le> k \<and> k \<le> 2 ^ 32)"

text \<open>
  The allocator of queue nodes: what it returns is NULL or an address that is not in use, and it
  does not fail while the queue has fewer than \<open>2 ^ 32\<close> nodes.
\<close>

definition node_allocator :: "(task_queue \<Rightarrow> addr) \<Rightarrow> bool" where
  "node_allocator malloc \<longleftrightarrow> (\<forall>q. malloc q = 0 \<or> heap_fresh q (malloc q)) \<and>
     (\<forall>q. tq_inv q \<and> length (tq_tasks q) < 2 ^ 32 \<longrightarrow> heap_fresh q (malloc q))"

text \<open>Such an allocator: the first free address, searched from 1.\<close>

definition first_fit :: "task_queue \<Rightarrow> addr" where
  "first_fit q = first_free (q_nodes q) 1 (Suc (unat (q_size q)))"

lemma node_allocator_first_fit: "node_allocator first_fit"
  unfolding node_allocator_def
proof (intro conjI allI impI)
  fix q
  show "first_fit q = 0 \<or> heap_fresh q (first_fit q)"
    using first_free_None [of "q_nodes q" 1 "Suc (unat (q_size q))"] by (auto simp: first_fit_def heap_fresh_def)
next
  fix q
  assume q: "tq_inv q \<and> length (tq_tasks q) < 2 ^ 32"
  then obtain as where as: "tq_repr q as" "length as = length (tq_tasks q)" by (metis tq_invE length_map)
  have n: "unat (q_size q) = length as" "length as < 2 ^ 32" using tq_inv_size [of q] q as(2) by auto
  have "dom (q_nodes q) = set as" "distinct as" using as(1) by (auto simp: tq_repr_def tq_shape_def)
  then have "card (dom (q_nodes q)) \<le> unat (q_size q)" by (simp add: n(1) distinct_card)
  then show "heap_fresh q (first_fit q)"
    using first_free_fresh [of "q_nodes q" "Suc (unat (q_size q))"] n by (auto simp: first_fit_def heap_fresh_def)
qed

text \<open>Queues that differ only in their contents.\<close>

definition same_config :: "task_queue \<Rightarrow> task_queue \<Rightarrow> bool" where
  "same_config q q' \<longleftrightarrow> heap_capacity q' = heap_capacity q \<and>
     (q_allow_duplicates q' = 0) = (q_allow_duplicates q = 0) \<and>
     (q_shutting_down q' \<noteq> 0) = (q_shutting_down q \<noteq> 0)"

lemma same_config_trans: "same_config q q' \<Longrightarrow> same_config q' q'' \<Longrightarrow> same_config q q''"
  by (simp add: same_config_def)

lemma client_queue_shrink:
  assumes "client_queue q" "same_config q q'" "tq_inv q'" "tq_tasks q' = drop n (tq_tasks q)"
  shows "client_queue q'"
proof -
  have "distinct (map t_task_id (drop n (tq_tasks q)))" if "q_allow_duplicates q = 0"
    using assms(1) that by (simp add: client_queue_def drop_map [symmetric] distinct_drop)
  with assms show ?thesis by (auto simp: client_queue_def same_config_def)
qed

lemma client_queue_create:
  assumes "task_queue_create (Some cfg) True = Some q" "0 < cfg_max_size cfg" "unat (cfg_max_size cfg) \<le> 2 ^ 32"
  shows "client_queue q" "tq_tasks q = []"
proof -
  have "tq_inv q" "tq_tasks q = []" using tq_create [OF assms(1)] by auto
  moreover have "q_shutting_down q = 0" "q_max_size q = cfg_max_size cfg"
    using assms(1) by (auto simp: task_queue_create_def Let_def)
  ultimately show "client_queue q" "tq_tasks q = []"
    using assms(2,3) by (auto simp: client_queue_def heap_capacity_def)
qed

lemma take_upto_ok:
  assumes "client_queue q"
  obtains q' where "dequeue_upto heap_deq n q = Some (take n (tq_tasks q), q')" "client_queue q'"
    "tq_tasks q' = drop n (tq_tasks q)" "same_config q q'"
proof -
  have "tq_inv q" using assms by (simp add: client_queue_def)
  from heap_queue.dequeue_upto_take [OF this, of n] obtain q' where
    q': "dequeue_upto heap_deq n q = Some (take n (tq_tasks q), q')" "tq_inv q'"
      "tq_tasks q' = drop n (tq_tasks q)" "same_config q q'"
    by (auto simp: same_config_def)
  from client_queue_shrink [OF assms q'(4,2,3)] q' show thesis by (intro that) auto
qed

lemma deq_cases:
  assumes "client_queue q"
  obtains t where "heap_deq q = Some (-1, q, t)" "tq_tasks q = []"
  | t ts q' where "heap_deq q = Some (0, q', t)" "tq_tasks q = t # ts" "tq_tasks q' = ts"
      "client_queue q'" "same_config q q'"
proof (cases "tq_tasks q")
  case Nil
  have "tq_inv q" using assms by (simp add: client_queue_def)
  from heap_queue.deq_empty [OF this Nil] Nil that(1) show thesis by auto
next
  case (Cons t ts)
  have "tq_inv q" using assms by (simp add: client_queue_def)
  from heap_queue.deq_Cons [OF this Cons] obtain q' where
    q': "heap_deq q = Some (0, q', t)" "tq_inv q'" "tq_tasks q' = ts" "same_config q q'"
    by (auto simp: same_config_def)
  have "client_queue q'" by (rule client_queue_shrink [OF assms q'(4,2), of 1]) (use q' Cons in simp)
  with q' Cons that(2) show thesis by blast
qed

lemma enq_any:
  assumes "client_queue q" "a = 0 \<or> heap_fresh q a"
  obtains rc q' where "heap_enq q t a = Some (rc, q')" "client_queue q'" "same_config q q'"
    "rc \<noteq> 0 \<longrightarrow> q' = q" "rc = 0 \<longrightarrow> tq_tasks q' = pq_insert t (tq_tasks q)"
proof (cases "enqueue_code q t a = 0")
  case False
  have "tq_inv q" using assms(1) by (simp add: client_queue_def)
  from enqueue_err [OF this False] False assms(1) show thesis
    by (intro that [of "enqueue_code q t a" q])
      (simp_all add: heap_enq_def same_config_def del: task_queue_enqueue.simps)
next
  case True
  have inv: "tq_inv q" using assms(1) by (simp add: client_queue_def)
  have acc: "tq_accepts q t" "a \<noteq> 0" "q_nodes q a = None"
    using True assms(2) by (auto simp: enqueue_code_0 heap_fresh_def)
  from enqueue_ok [OF inv acc] obtain q' where
    q': "heap_enq q t a = Some (0, q')" "tq_inv q'" "tq_tasks q' = pq_insert t (tq_tasks q)" "same_config q q'"
    using tq_frame_queries by (fastforce simp: heap_enq_def same_config_def simp del: task_queue_enqueue.simps)
  have room: "has_room (heap_capacity q) (length (tq_tasks q))"
    and dup: "q_allow_duplicates q = 0 \<longrightarrow> t_task_id t \<notin> t_task_id ` set (tq_tasks q)"
    using acc(1) tq_accepts_interface [OF inv] by auto
  have "mset (map t_task_id (pq_insert t (tq_tasks q))) = mset (map t_task_id (t # tq_tasks q))"
    by (simp add: mset_pq_insert)
  then have "distinct (map t_task_id (tq_tasks q')) = distinct (map t_task_id (t # tq_tasks q))"
    unfolding q'(3) by (rule mset_eq_imp_distinct_iff)
  with assms(1) dup have "q_allow_duplicates q = 0 \<longrightarrow> distinct (map t_task_id (tq_tasks q'))"
    by (auto simp: client_queue_def)
  moreover have "length (tq_tasks q') = Suc (length (tq_tasks q))" using q'(3) by simp
  ultimately have "client_queue q'"
    using q' assms(1) room by (auto simp: client_queue_def same_config_def has_room_def)
  with q' show thesis by (intro that [of 0 q']) auto
qed

text \<open>
  Tasks for which there is room, with ids that are new where that matters, go in one by one, and
  none is refused.
\<close>

lemma fold_pq_insert_mset: "mset (fold pq_insert ts us) = mset ts + mset us"
  by (induction ts arbitrary: us) (simp_all add: mset_pq_insert)

lemma enqueue_new_ok:
  assumes "client_queue q" "node_allocator malloc" "heap_capacity q = Some k"
    and "length (tq_tasks q) + length ts \<le> k"
    and "q_allow_duplicates q = 0 \<longrightarrow> distinct (map t_task_id (ts @ tq_tasks q))"
  obtains rcs q' where "enqueue_all heap_enq malloc ts q = Some (rcs, q')" "client_queue q'"
    "tq_tasks q' = fold pq_insert ts (tq_tasks q)" "same_config q q'"
proof -
  have inv: "tq_inv q" "\<not> q_shutting_down q \<noteq> 0" and k: "k \<le> 2 ^ 32"
    using assms(1,3) by (auto simp: client_queue_def)
  have room: "length (tq_tasks q) + length ts \<le> k'" if "heap_capacity q = Some k'" for k' using that assms(3,4) by simp
  have limit: "length (tq_tasks q) + length ts \<le> 2 ^ 32" using assms(4) k by simp
  have fresh: "\<And>q. tq_inv q \<Longrightarrow> length (tq_tasks q) < 2 ^ 32 \<Longrightarrow> heap_fresh q (malloc q)"
    using assms(2) by (auto simp: node_allocator_def)
  have ids: "q_allow_duplicates q = 0 \<longrightarrow> distinct (map t_task_id ts) \<and>
      t_task_id ` set ts \<inter> t_task_id ` set (tq_tasks q) = {}"
    using assms(5) by auto
  from heap_queue.enqueue_all_ok [OF fresh inv limit room ids] obtain rcs q' where
    q': "enqueue_all heap_enq malloc ts q = Some (rcs, q')" "tq_inv q'"
      "tq_tasks q' = fold pq_insert ts (tq_tasks q)" "same_config q q'"
    by (auto simp: same_config_def)
  have mset: "mset (tq_tasks q') = mset (ts @ tq_tasks q)" using q'(3) by (simp add: fold_pq_insert_mset)
  have "distinct (map t_task_id (tq_tasks q'))" if "q_allow_duplicates q = 0"
    using assms(5) that mset by (metis mset_eq_imp_distinct_iff mset_map)
  moreover have "length (tq_tasks q') = length (tq_tasks q) + length ts" using mset_eq_length [OF mset] by simp
  ultimately have "client_queue q'" using q' inv assms(3,4) k by (auto simp: client_queue_def same_config_def)
  with q' show thesis by (intro that) auto
qed

text \<open>Tasks that were at the front can always be put back.\<close>

lemma requeue_ok:
  assumes "client_queue q0" "tq_tasks q0 = ts @ tq_tasks q" "same_config q0 q" "client_queue q"
    and "node_allocator malloc"
  obtains rcs q' where "enqueue_all heap_enq malloc ts q = Some (rcs, q')" "client_queue q'"
    "mset (tq_tasks q') = mset (tq_tasks q0)" "same_config q q'"
proof -
  obtain k where k: "heap_capacity q = Some k" "length (tq_tasks q) + length ts \<le> k"
    using assms(1-3) by (auto simp: client_queue_def same_config_def)
  have ids: "q_allow_duplicates q = 0 \<longrightarrow> distinct (map t_task_id (ts @ tq_tasks q))"
    using assms(1-3) by (simp add: client_queue_def same_config_def)
  obtain rcs q' where "enqueue_all heap_enq malloc ts q = Some (rcs, q')" "client_queue q'"
      "tq_tasks q' = fold pq_insert ts (tq_tasks q)" "same_config q q'"
    by (rule enqueue_new_ok [OF assms(4,5) k ids])
  with assms(2) show thesis by (intro that) (simp_all add: fold_pq_insert_mset)
qed

text \<open>Any tasks, with an allocator that may fail: exactly those reported as taken are in.\<close>

lemma enqueue_all_any:
  assumes "\<And>q. malloc q = 0 \<or> heap_fresh q (malloc q)"
  shows "client_queue q \<Longrightarrow> \<exists>rcs q'. enqueue_all heap_enq malloc ts q = Some (rcs, q') \<and>
    client_queue q' \<and> length rcs = length ts \<and> same_config q q' \<and>
    mset (tq_tasks q') = mset (map fst (filter (\<lambda>(t, rc). rc = 0) (zip ts rcs))) + mset (tq_tasks q)"
proof (induction ts arbitrary: q)
  case Nil
  then show ?case by (simp add: same_config_def)
next
  case (Cons t ts)
  obtain rc q1 where q1: "heap_enq q t (malloc q) = Some (rc, q1)" "client_queue q1" "same_config q q1"
      "rc \<noteq> 0 \<longrightarrow> q1 = q" "rc = 0 \<longrightarrow> tq_tasks q1 = pq_insert t (tq_tasks q)"
    by (rule enq_any [OF Cons.prems assms])
  from Cons.IH [OF q1(2)] obtain rcs q2 where
    q2: "enqueue_all heap_enq malloc ts q1 = Some (rcs, q2)" "client_queue q2" "length rcs = length ts"
      "same_config q1 q2"
      "mset (tq_tasks q2) = mset (map fst (filter (\<lambda>(t, rc). rc = 0) (zip ts rcs))) + mset (tq_tasks q1)"
    by blast
  have "mset (tq_tasks q2) = mset (map fst (filter (\<lambda>(t, rc). rc = 0) (zip (t # ts) (rc # rcs)))) + mset (tq_tasks q)"
    using q1(4,5) q2(5) by (cases "rc = 0") simp_all
  moreover have "enqueue_all heap_enq malloc (t # ts) q = Some (rc # rcs, q2)" using q1(1) q2(1) by simp
  ultimately show ?case using q2(2,3) same_config_trans [OF q1(3) q2(4)]
    by (intro exI [of _ "rc # rcs"] exI [of _ q2]) simp
qed

end
