(* ===== verification/Worker_Props.thy ===== *)
theory Worker_Props
  imports Worker Queue_Client
begin

text \<open>
  A pass of the worker's loop is defined and keeps the worker in order, whatever well-framed
  messages arrive, as long as each batch has the tasks its count announces; tasks are neither
  lost nor duplicated by a pass.
\<close>

section \<open>Messages\<close>

definition alloc_law :: "(size_t \<Rightarrow> u8 list option) \<Rightarrow> bool" where
  "alloc_law malloc \<longleftrightarrow> (\<forall>n block. malloc n = Some block \<longrightarrow> length block = unat n)"

lemma unat_of_nat_64: "n < 2 ^ 32 \<Longrightarrow> unat (of_nat n :: 64 word) = n"
  by (simp add: unsigned_of_nat take_bit_nat_eq_self)

lemma unat_of_nat_32: "n < 2 ^ 32 \<Longrightarrow> unat (of_nat n :: 32 word) = n"
  by (simp add: unsigned_of_nat take_bit_nat_eq_self)

lemma of_nat_64_pos: "0 < n \<Longrightarrow> n < 2 ^ 32 \<Longrightarrow> (of_nat n :: 64 word) > 0"
  using unat_of_nat_64 [of n] by (auto simp: word_gt_0)

lemma ucast_of_nat_64: "n < 2 ^ 32 \<Longrightarrow> (ucast (of_nat n :: 32 word) :: 64 word) = of_nat n"
  by (rule word_unat_eq_iff [THEN iffD2]) (simp add: unat_of_nat_32 unat_of_nat_64)

text \<open>A packed message carries exactly its bytes.\<close>

definition carries :: "message_t \<Rightarrow> u16 \<Rightarrow> u64 \<Rightarrow> u8 list \<Rightarrow> bool" where
  "carries m mt tid bytes \<longleftrightarrow> complete_message m \<and> h_msg_type (m_header m) = mt \<and>
     h_task_id (m_header m) = tid \<and> unat (h_payload_len (m_header m)) = length bytes \<and>
     m_payload m = (if bytes = [] then None else Some bytes)"

lemma packed_message_carries:
  assumes "length bytes < 2 ^ 32" "alloc_law malloc" "packed_message ok malloc mt tid bytes = Some m"
  shows "carries m mt tid bytes"
proof -
  let ?n = "of_nat (length bytes) :: size_t"
  have un: "unat ?n = length bytes" "unat (ucast ?n :: 32 word) = length bytes"
    "(ucast (ucast ?n :: 32 word) :: 64 word) = ?n"
    using assms(1) by (simp_all add: unat_of_nat_64 unat_of_nat_32 ucast_of_nat_64)
  have pos: "?n > 0 \<longleftrightarrow> bytes \<noteq> []" using of_nat_64_pos [of "length bytes"] assms(1) by auto
  from assms(3) obtain m0 where m0: "message_alloc ?n ok (malloc ?n) = Some m0"
    and m: "m = m0\<lparr>m_header := (m_header m0)\<lparr>h_msg_type := mt, h_task_id := tid, h_payload_len := ucast ?n\<rparr>,
      m_payload := map_option (\<lambda>_. bytes) (m_payload m0)\<rparr>"
    by (auto simp: packed_message_def message_set_header_def Let_def)
  have p: "m_payload m0 = (if bytes = [] then None else malloc ?n)" "bytes \<noteq> [] \<Longrightarrow> malloc ?n \<noteq> None"
    "m_payload_capacity m0 = ?n" "h_magic (m_header m0) = MESSAGE_MAGIC" "h_version (m_header m0) = ENVELOPE_VERSION"
    using m0 pos by (auto simp: message_alloc_def split: if_splits)
  have wf: "message_wf m" using p un pos
    by (cases "bytes = []") (auto simp: m message_wf_def)
  show ?thesis
    using p un wf by (auto simp: carries_def complete_message_def m message_validate_def split: if_splits)
qed

lemma packed_message_total:
  assumes "ok" "bytes \<noteq> [] \<Longrightarrow> malloc (of_nat (length bytes)) \<noteq> None"
  obtains m where "packed_message ok malloc mt tid bytes = Some m"
  using assms
  by (cases "bytes = []") (auto simp: packed_message_def message_set_header_def message_alloc_def Let_def)

text \<open>The frames of such a message deliver it unchanged.\<close>

lemma carries_delivered: "carries m mt tid bytes \<Longrightarrow> delivered m = m"
  by (rule delivered_exact) (simp_all add: carries_def complete_message_def)

section \<open>Sending is defined\<close>

context transport_backend
begin

lemma send_packed_total:
  assumes "runs_on vt ok tr" "\<And>m. msg = Some m \<Longrightarrow> complete_message m"
  obtains rc tr' where "send_packed tr msg dst = Some (rc, tr')" "runs_on vt ok tr'"
proof (cases msg)
  case None
  with assms show thesis by (intro that) (auto simp: send_packed_def)
next
  case (Some m)
  with assms(2) have m: "message_validate (Some m) = 0" "message_wf m" by (auto simp: complete_message_def)
  obtain rc i' where "transport_send (Some tr) (Some m) dst = Some (rc, i')"
      "runs_on vt ok (tr\<lparr>tr_impl := i'\<rparr>)"
    by (rule transport_send_total [OF assms(1) m])
  with Some show thesis by (intro that) (auto simp: send_packed_def)
qed

end

definition env_ok :: "worker_env \<Rightarrow> bool" where
  "env_ok ve \<longleftrightarrow> alloc_law (ve_malloc ve) \<and> length (ve_pad ve) = 8 \<and>
     node_allocator (ve_malloc_node ve) \<and>
     (\<forall>r \<in> set (ve_results ve). length (r_diag_msg r) = DIAG_MSG_LEN)"

lemma packed_complete:
  assumes "env_ok ve" "length bytes < 2 ^ 32"
  shows "packed_message (ve_calloc ve) (ve_malloc ve) mt tid bytes = Some m \<Longrightarrow> complete_message m"
  using packed_message_carries [of bytes "ve_malloc ve"] assms by (auto simp: env_ok_def carries_def)

context transport_backend
begin

lemma send_bytes_total:
  assumes "runs_on vt ok tr" "env_ok ve" "length bytes < 2 ^ 32"
  shows "\<exists>rc tr'. send_packed tr (packed_message (ve_calloc ve) (ve_malloc ve) mt tid bytes) dst
    = Some (rc, tr') \<and> runs_on vt ok tr'"
proof -
  have "packed_message (ve_calloc ve) (ve_malloc ve) mt tid bytes = Some m \<Longrightarrow> complete_message m" for m
    by (rule packed_complete [OF assms(2,3)])
  then obtain rc tr' where "send_packed tr (packed_message (ve_calloc ve) (ve_malloc ve) mt tid bytes) dst
      = Some (rc, tr')" "runs_on vt ok tr'"
    by (rule send_packed_total [OF assms(1)])
  then show ?thesis by blast
qed

lemma send_heartbeat_total:
  assumes "runs_on vt ok tr" "env_ok ve"
  shows "\<exists>rc tr'. send_heartbeat ve tr = Some (rc, tr') \<and> runs_on vt ok tr'"
  unfolding send_heartbeat_def by (rule send_bytes_total [OF assms]) simp

lemma send_result_total:
  assumes "runs_on vt ok tr" "env_ok ve" "length (r_diag_msg r) = DIAG_MSG_LEN"
  shows "\<exists>rc tr'. send_result ve tr r = Some (rc, tr') \<and> runs_on vt ok tr'"
  unfolding send_result_def
proof (rule send_bytes_total [OF assms(1,2)])
  have "length (result_bytes (ve_pad ve) r) = sizeof_result"
    using assms(2,3) by (intro length_result_bytes) (simp_all add: env_ok_def)
  then show "length (result_bytes (ve_pad ve) r) < 2 ^ 32" by (simp add: sizeof_result_def)
qed

lemma collect_results_total:
  assumes "env_ok ve"
  shows "runs_on vt ok tr \<Longrightarrow> \<forall>r \<in> set rs. length (r_diag_msg r) = DIAG_MSG_LEN
    \<Longrightarrow> \<exists>tr'. collect_results ve tr rs = Some tr' \<and> runs_on vt ok tr'"
proof (induction rs arbitrary: tr)
  case Nil
  then show ?case by simp
next
  case (Cons r rs)
  obtain rc tr1 where tr1: "send_result ve tr r = Some (rc, tr1)" "runs_on vt ok tr1"
    using send_result_total [OF Cons.prems(1) assms, of r] Cons.prems(2) by auto
  from Cons.IH [OF tr1(2)] Cons.prems(2) tr1(1) show ?case by auto
qed

end

section \<open>Batches\<close>

text \<open>A batch whose count its payload bears out.\<close>

definition batch_fits :: "message_t \<Rightarrow> bool" where
  "batch_fits m \<longleftrightarrow>
     (h_msg_type (m_header m) = MSG_TYPE_TASK_SUBMIT \<and> 4 \<le> unat (h_payload_len (m_header m)) \<longrightarrow>
      (\<forall>bytes. m_payload m = Some bytes \<longrightarrow> 4 + unat (rd32 0 bytes) * sizeof_task \<le> length bytes))"

lemma complete_payload:
  assumes "complete_message m" "h_payload_len (m_header m) \<noteq> 0"
  obtains bytes where "m_payload m = Some bytes" "length bytes = unat (h_payload_len (m_header m))"
proof -
  have "message_validate (Some m) = 0" "message_wf m" using assms(1) by (auto simp: complete_message_def)
  from message_valid_payload [OF this assms(2)] obtain bytes where "m_payload m = Some bytes" .
  moreover from this have "length bytes = unat (h_payload_len (m_header m))"
    using assms(1) by (simp add: complete_message_def message_wf_def)
  ultimately show thesis by (rule that)
qed

text \<open>Unpacking a complete batch is defined exactly when the count is borne out.\<close>

lemma unpack_defined:
  assumes "complete_message m" "h_msg_type (m_header m) = MSG_TYPE_TASK_SUBMIT"
  shows "unpack_batch m \<noteq> None \<longleftrightarrow> batch_fits m"
proof (cases "unat (h_payload_len (m_header m)) < 4")
  case True
  then show ?thesis by (simp add: unpack_batch_def batch_fits_def)
next
  case False
  then have "h_payload_len (m_header m) \<noteq> 0" by auto
  from complete_payload [OF assms(1) this] obtain bytes where
    b: "m_payload m = Some bytes" "length bytes = unat (h_payload_len (m_header m))" .
  have "read_tasks n (drop 4 bytes) \<noteq> None \<longleftrightarrow> n * sizeof_task \<le> length bytes - 4" for n
    using read_tasks_defined [of n "drop 4 bytes"] by simp
  then show ?thesis using False b assms(2)
    by (auto simp: unpack_batch_def batch_fits_def)
qed

section \<open>One pass\<close>

text \<open>The transport delivers only batches that fit.\<close>

definition batches_fit :: "'i transport \<Rightarrow> bool" where
  "batches_fit tr \<longleftrightarrow> (\<forall>old m src i. transport_recv (Some tr) (Some old) = Some (Some m, src, i) \<longrightarrow> batch_fits m)"

text \<open>The rank the head of a cluster hands its next task to is one of the other ranks.\<close>

definition head_ranks :: "'i worker \<Rightarrow> bool" where
  "head_ranks w \<longleftrightarrow>
     (wk_mode w = WORKER_MODE_CLUSTER_HEAD \<longrightarrow>
        1 \<le> wk_next_worker w \<and> wk_next_worker w < wk_mpi_size w \<and>
        (\<forall>(rank, t) \<in> set (wk_distributed w). 1 \<le> rank \<and> rank < wk_mpi_size w))"

lemma next_rank: "1 \<le> i \<Longrightarrow> i < n \<Longrightarrow> 1 \<le> c_mod i (n - 1) + 1 \<and> c_mod i (n - 1) + 1 < n"
proof -
  assume "1 \<le> i" "i < n"
  then have "c_mod i (n - 1) = i mod (n - 1)" "0 \<le> i mod (n - 1)" "i mod (n - 1) < n - 1"
    by (simp_all add: c_mod_mod)
  then show ?thesis by simp
qed

text \<open>A worker whose transport, queue and choice of ranks are in order.\<close>

definition worker_ok :: "'i vtable \<Rightarrow> ('i \<Rightarrow> bool) \<Rightarrow> 'i worker \<Rightarrow> bool" where
  "worker_ok vt ok w \<longleftrightarrow> runs_on vt ok (wk_transport w) \<and> client_queue (wk_queue w) \<and> head_ranks w"

lemma limits_cases:
  obtains "resource_limits_reserve_task l = (-1, l)"
  | l0 l1 where "l = Some l0" "resource_limits_reserve_task l = (0, Some l1)" "reserve_slot l0 = (0, l1)"
proof (cases l)
  case None
  then show thesis by (intro that(1)) simp
next
  case (Some l0)
  then show thesis
    by (cases "rl_tasks_running l0 \<ge> rl_max_concurrent_tasks l0")
      (auto simp: reserve_slot_def intro: that)
qed

context transport_backend
begin

lemma worker_heartbeat_ok:
  assumes "worker_ok vt ok w" "env_ok ve"
  obtains w' where "worker_heartbeat ve w = Some w'" "worker_ok vt ok w'" "wk_queue w' = wk_queue w"
    "wk_limits w' = wk_limits w" "wk_mode w' = wk_mode w"
proof (cases "ve_now ve - wk_last_heartbeat w \<ge> 10")
  case True
  from assms have "runs_on vt ok (wk_transport w)" by (simp add: worker_ok_def)
  from send_heartbeat_total [OF this assms(2)] obtain rc tr where
    "send_heartbeat ve (wk_transport w) = Some (rc, tr)" "runs_on vt ok tr" by blast
  with True assms(1) show thesis
    by (intro that [of "w\<lparr>wk_transport := tr, wk_last_heartbeat := ve_now ve\<rparr>"])
      (simp_all add: worker_heartbeat_def worker_ok_def head_ranks_def)
next
  case False
  with assms(1) show thesis by (intro that [of w]) (simp_all add: worker_heartbeat_def)
qed

lemma worker_receive_ok:
  assumes "worker_ok vt ok w" "env_ok ve" "batches_fit (wk_transport w)"
  obtains w' ts where "worker_receive ve w = Some w'" "worker_ok vt ok w'" "wk_limits w' = wk_limits w"
    "mset (tq_tasks (wk_queue w')) = mset ts + mset (tq_tasks (wk_queue w))" "wk_mode w' = wk_mode w"
proof -
  have tr: "runs_on vt ok (wk_transport w)" and q: "client_queue (wk_queue w)" and ranks: "head_ranks w"
    using assms(1) by (auto simp: worker_ok_def)
  obtain msg src i where r: "transport_recv (Some (wk_transport w)) (Some (ve_src ve)) = Some (msg, Some src, i)"
      "runs_on vt ok ((wk_transport w)\<lparr>tr_impl := i\<rparr>)" "\<forall>m. msg = Some m \<longrightarrow> complete_message m"
    by (rule transport_recv_total [OF tr])
  let ?w = "w\<lparr>wk_transport := (wk_transport w)\<lparr>tr_impl := i\<rparr>\<rparr>"
  note outcome = that
  have quiet: thesis if "worker_receive ve w = Some ?w"
    using that r(2) q ranks by (intro outcome [of ?w "[]"]) (simp_all add: worker_ok_def head_ranks_def)
  show thesis
  proof (cases "\<exists>m. msg = Some m \<and> h_msg_type (m_header m) = MSG_TYPE_TASK_SUBMIT")
    case False
    then show thesis using r(1) by (intro quiet) (auto simp: worker_receive_def Let_def split: option.split)
  next
    case True
    then obtain m where m: "msg = Some m" "h_msg_type (m_header m) = MSG_TYPE_TASK_SUBMIT" by blast
    have "batch_fits m" using assms(3) r(1) m(1) unfolding batches_fit_def by blast
    then obtain ts where ts: "unpack_batch m = Some ts"
      using unpack_defined [OF _ m(2)] r(3) m(1) by blast
    have mal: "\<And>q. ve_malloc_node ve q = 0 \<or> heap_fresh q (ve_malloc_node ve q)"
      using assms(2) by (simp add: env_ok_def node_allocator_def)
    from enqueue_all_any [OF mal q, of ts] obtain rcs q' where
      q': "enqueue_all heap_enq (ve_malloc_node ve) ts (wk_queue w) = Some (rcs, q')" "client_queue q'"
        "mset (tq_tasks q') = mset (map fst (filter (\<lambda>(t, rc). rc = 0) (zip ts rcs))) + mset (tq_tasks (wk_queue w))"
      by blast
    show thesis
      by (rule that [of "?w\<lparr>wk_queue := q'\<rparr>" "map fst (filter (\<lambda>(t, rc). rc = 0) (zip ts rcs))"]) 
        (use r m ts q' ranks in \<open>simp_all add: worker_receive_def worker_ok_def head_ranks_def Let_def\<close>)
  qed
qed

text \<open>A task that got a slot is given to the next rank of the cluster, or executed and answered.\<close>

lemma worker_process_slot:
  assumes w: "worker_ok vt ok w" "env_ok ve" and q: "heap_deq (wk_queue w) = Some (0, q1, t)" "client_queue q1"
    and lim: "resource_limits_reserve_task (wk_limits w) = (0, Some l1)"
  obtains w' b c where "worker_process ve w = Some (w', b)" "worker_ok vt ok w'" "wk_queue w' = q1"
    "wk_limits w' = Some (release_slot l1 c)"
proof -
  have tr: "runs_on vt ok (wk_transport w)" and ranks: "head_ranks w" using w(1) by (auto simp: worker_ok_def)
  show thesis
  proof (cases "wk_mode w = WORKER_MODE_CLUSTER_HEAD")
    case True
    let ?w = "w\<lparr>wk_queue := q1, wk_limits := resource_limits_release_task (Some l1) True,
      wk_distributed := wk_distributed w @ [(wk_next_worker w, t)],
      wk_next_worker := c_mod (wk_next_worker w) (wk_mpi_size w - 1) + 1\<rparr>"
    have "wk_mpi_size w - 1 \<noteq> 0" and "head_ranks ?w"
      using ranks True next_rank [of "wk_next_worker w" "wk_mpi_size w"] by (auto simp: head_ranks_def)
    with True q lim tr show thesis
      by (intro that [of ?w False True])
        (simp_all add: worker_process_def worker_ok_def release_slot_def Let_def)
  next
    case False
    let ?r = "execute_task_standalone ve t"
    have "length (r_diag_msg ?r) = DIAG_MSG_LEN" by (simp add: execute_task_standalone_def zero_result_def)
    from send_result_total [OF tr w(2) this] obtain rc tr' where
      s: "send_result ve (wk_transport w) ?r = Some (rc, tr')" "runs_on vt ok tr'" by blast
    from q lim False s ranks show thesis
      by (intro that [of "w\<lparr>wk_queue := q1, wk_transport := tr',
          wk_limits := resource_limits_release_task (Some l1) (r_status ?r = 0)\<rparr>" True "r_status ?r = 0"])
        (simp_all add: worker_process_def worker_ok_def head_ranks_def release_slot_def Let_def)
  qed
qed

text \<open>
  Processing takes at most the task at the head: it is executed or distributed, or put back when
  no slot is free.  The slots are as before.
\<close>

lemma worker_process_ok:
  assumes "worker_ok vt ok w" "env_ok ve"
  obtains w' b gone where "worker_process ve w = Some (w', b)" "worker_ok vt ok w'"
    "mset (tq_tasks (wk_queue w)) = mset gone + mset (tq_tasks (wk_queue w'))" "length gone \<le> 1"
    "map_option slots_running (wk_limits w') = map_option slots_running (wk_limits w)"
proof -
  have tr: "runs_on vt ok (wk_transport w)" and q: "client_queue (wk_queue w)" and ranks: "head_ranks w"
    using assms(1) by (auto simp: worker_ok_def)
  have node: "node_allocator (ve_malloc_node ve)" using assms(2) by (simp add: env_ok_def)
  from q show thesis
  proof (cases rule: deq_cases)
    case (1 t)
    with assms(1) show thesis
      by (intro that [of w True "[]"]) (simp_all add: worker_process_def Let_def)
  next
    case (2 t ts q1)
    let ?w1 = "w\<lparr>wk_queue := q1\<rparr>"
    show thesis
    proof (cases rule: limits_cases [of "wk_limits w"])
      case lim: 1
      obtain rcs q2 where q2: "enqueue_all heap_enq (ve_malloc_node ve) [t] q1 = Some (rcs, q2)" "client_queue q2"
          "mset (tq_tasks q2) = mset (tq_tasks (wk_queue w))"
        by (rule requeue_ok [OF q, of "[t]" q1, OF _ 2(5,4) node]) (use 2 in simp_all)
      then obtain rc where "heap_enq q1 t (ve_malloc_node ve q1) = Some (rc, q2)"
        by (auto split: bind_splits)
      with 2 lim q2 tr ranks show thesis
        by (intro that [of "?w1\<lparr>wk_queue := q2, wk_limits := wk_limits w\<rparr>" False "[]"])
          (simp_all add: worker_process_def worker_ok_def head_ranks_def Let_def)
    next
      case lim: (2 l0 l1)
      obtain w' b c where "worker_process ve w = Some (w', b)" "worker_ok vt ok w'" "wk_queue w' = q1"
          "wk_limits w' = Some (release_slot l1 c)"
        using worker_process_slot [OF assms] 2 lim by blast
      with 2 lim limiter.bracket [OF lim(3), of c] show thesis by (intro that [of w' b "[t]"]) simp_all
    qed
  qed
qed

lemma worker_finish_ok:
  assumes "worker_ok vt ok w" "env_ok ve"
  obtains w' where "worker_finish ve w = Some w'" "worker_ok vt ok w'" "wk_queue w' = wk_queue w"
    "map_option slots_running (wk_limits w') = map_option slots_running (wk_limits w)"
proof -
  have tr: "runs_on vt ok (wk_transport w)" using assms(1) by (simp add: worker_ok_def)
  have "\<forall>r \<in> set (ve_results ve). length (r_diag_msg r) = DIAG_MSG_LEN" using assms(2) by (simp add: env_ok_def)
  from collect_results_total [OF assms(2) tr this] obtain tr' where
    tr': "collect_results ve (wk_transport w) (ve_results ve) = Some tr'" "runs_on vt ok tr'" by blast
  let ?tr = "if wk_mode w = WORKER_MODE_CLUSTER_HEAD then tr' else wk_transport w"
  let ?l = "snd (resource_limits_update (ve_os ve) (wk_limits w))"
  have slots: "map_option slots_running ?l = map_option slots_running (wk_limits w)"
  proof (cases "wk_limits w")
    case (Some l)
    obtain rc l' where l': "resource_limits_update (ve_os ve) (Some l) = (rc, Some l')" by (simp add: Let_def)
    with update_slots(1) [OF l'] Some show ?thesis by (simp del: resource_limits_update.simps)
  qed simp
  show thesis
    by (rule that [of "w\<lparr>wk_transport := ?tr, wk_limits := ?l\<rparr>"])
      (use tr tr' assms(1) slots in \<open>simp_all add: worker_finish_def worker_ok_def head_ranks_def\<close>)
qed

lemma worker_pass_ok:
  assumes "worker_ok vt ok w" "env_ok ve"
    and fit: "\<And>w1. worker_heartbeat ve w = Some w1 \<Longrightarrow> batches_fit (wk_transport w1)"
  obtains w' new gone where "worker_pass ve w = Some w'" "worker_ok vt ok w'"
    "mset (tq_tasks (wk_queue w)) + mset new = mset gone + mset (tq_tasks (wk_queue w'))"
    "length gone \<le> 1" "map_option slots_running (wk_limits w') = map_option slots_running (wk_limits w)"
proof -
  obtain w1 where w1: "worker_heartbeat ve w = Some w1" "worker_ok vt ok w1" "wk_queue w1 = wk_queue w"
      "wk_limits w1 = wk_limits w"
    by (rule worker_heartbeat_ok [OF assms(1,2)])
  obtain w2 new where w2: "worker_receive ve w1 = Some w2" "worker_ok vt ok w2" "wk_limits w2 = wk_limits w1"
      "mset (tq_tasks (wk_queue w2)) = mset new + mset (tq_tasks (wk_queue w1))"
    by (rule worker_receive_ok [OF w1(2) assms(2) fit [OF w1(1)]])
  obtain w3 b gone where w3: "worker_process ve w2 = Some (w3, b)" "worker_ok vt ok w3"
      "mset (tq_tasks (wk_queue w2)) = mset gone + mset (tq_tasks (wk_queue w3))" "length gone \<le> 1"
      "map_option slots_running (wk_limits w3) = map_option slots_running (wk_limits w2)"
    by (rule worker_process_ok [OF w2(2) assms(2)])
  obtain w4 where w4: "worker_finish ve w3 = Some w4" "worker_ok vt ok w4" "wk_queue w4 = wk_queue w3"
      "map_option slots_running (wk_limits w4) = map_option slots_running (wk_limits w3)"
    by (rule worker_finish_ok [OF w3(2) assms(2)])
  show thesis
    by (rule that [of "if b then w4 else w3" new gone])
      (use w1 w2 w3 w4 in \<open>auto simp: worker_pass_def\<close>)
qed

end

end
