(* ===== verification/Scheduler_Registry.thy ===== *)
theory Scheduler_Registry
  imports Scheduler
begin

text \<open>
  What \<open>scheduler.c\<close> promises, over an abstract state: the array of workers is a finite map from
  ids to entries (\<open>registry\<close>), and every operation is a map operation on it.  The statistics
  are the numbers of workers in each state.
\<close>

section \<open>The array of workers as a map\<close>

primrec registry :: "worker_info list \<Rightarrow> u32 \<rightharpoonup> worker_info" where
  "registry [] = Map.empty"
| "registry (w # ws) = (registry ws)(w_worker_id w \<mapsto> w)"

lemma registry_index:
  "registry ws wid = map_option ((!) ws) (worker_index ws wid)"
  unfolding worker_index_def
  by (induction ws) (auto simp: option.map_comp o_def)

lemma worker_index_bound: "worker_index ws wid = Some i \<Longrightarrow> i < length ws"
  unfolding worker_index_def using first_index_SomeD by fastforce

lemma worker_index_id: "worker_index ws wid = Some i \<Longrightarrow> w_worker_id (ws ! i) = wid"
  unfolding worker_index_def using first_index_SomeD by fastforce

lemma worker_index_None: "worker_index ws wid = None \<longleftrightarrow> wid \<notin> w_worker_id ` set ws"
  unfolding worker_index_def first_index_None by auto

lemma registry_id: "registry ws wid = Some w \<Longrightarrow> w_worker_id w = wid"
  by (induction ws) (auto split: if_splits)

lemma dom_registry: "dom (registry ws) = w_worker_id ` set ws"
proof -
  have "(\<exists>w. registry ws wid = Some w) \<longleftrightarrow> wid \<in> w_worker_id ` set ws" for wid
    by (induction ws) auto
  then show ?thesis by (auto simp: dom_def)
qed

lemma registry_update:
  "worker_index ws (w_worker_id w) = Some i \<Longrightarrow> registry (ws[i := w]) = (registry ws)(w_worker_id w \<mapsto> w)"
proof (induction ws arbitrary: i)
  case Nil
  then show ?case by (simp add: worker_index_def)
next
  case (Cons v ws)
  then show ?case
    by (cases "w_worker_id v = w_worker_id w") (auto simp: worker_index_def fun_upd_twist)
qed

lemma registry_snoc:
  "w_worker_id w \<notin> w_worker_id ` set ws \<Longrightarrow> registry (ws @ [w]) = (registry ws)(w_worker_id w \<mapsto> w)"
  by (induction ws) (auto simp: fun_upd_twist)

text \<open>With distinct ids the map says exactly which entries the array has.\<close>

lemma registry_iff:
  "distinct (map w_worker_id ws) \<Longrightarrow> registry ws wid = Some w \<longleftrightarrow> w \<in> set ws \<and> w_worker_id w = wid"
  by (induction ws) (auto simp: image_iff)

lemma registry_eqI:
  assumes "distinct (map w_worker_id ws)" "distinct (map w_worker_id vs)" "set ws = set vs"
  shows "registry ws = registry vs"
proof
  fix wid
  show "registry ws wid = registry vs wid"
    using registry_iff [OF assms(1), of wid] registry_iff [OF assms(2), of wid] assms(3)
    by (metis not_None_eq)
qed

text \<open>The removal that swaps the last entry into the gap.\<close>

definition swap_remove :: "nat \<Rightarrow> 'a list \<Rightarrow> 'a list" where
  "swap_remove i xs = (let n = length xs in take (n - 1) (if i < n - 1 then xs[i := xs ! (n - 1)] else xs))"

lemma last_split: "xs \<noteq> [] \<Longrightarrow> xs = butlast xs @ [xs ! (length xs - 1)]"
  by (metis append_butlast_last_id last_conv_nth)

lemma swap_remove_mset:
  assumes "i < length xs"
  shows "mset xs = add_mset (xs ! i) (mset (swap_remove i xs))"
proof (cases "i < length xs - 1")
  case True
  define ys where "ys = butlast xs"
  have "xs \<noteq> []" using assms by auto
  then have xs: "xs = ys @ [xs ! (length xs - 1)]"
    unfolding ys_def by (rule last_split)
  have i: "i < length ys" "ys ! i = xs ! i" using True by (simp_all add: ys_def nth_butlast)
  have "swap_remove i xs = ys[i := xs ! (length xs - 1)]"
    using True by (simp add: swap_remove_def ys_def take_update_swap butlast_conv_take Let_def)
  moreover have "mset xs = add_mset (xs ! (length xs - 1)) (mset ys)"
    by (subst xs) simp
  moreover have "xs ! i \<in># mset ys" using i nth_mem by fastforce
  ultimately show ?thesis using i by (simp add: mset_update)
next
  case False
  then have i: "i = length xs - 1" using assms by simp
  have "xs \<noteq> []" using assms by auto
  then have xs: "xs = butlast xs @ [xs ! i]" unfolding i by (rule last_split)
  have "mset xs = add_mset (xs ! i) (mset (butlast xs))"
    by (subst xs) simp
  with False show ?thesis by (simp add: swap_remove_def butlast_conv_take Let_def)
qed

lemma swap_remove_length: "length (swap_remove i xs) = length xs - 1"
  by (simp add: swap_remove_def Let_def)

lemma swap_remove_distinct:
  assumes "i < length xs" "distinct (map f xs)"
  shows "distinct (map f (swap_remove i xs))" "f (xs ! i) \<notin> f ` set (swap_remove i xs)"
proof -
  have "mset (map f xs) = mset (map f (xs ! i # swap_remove i xs))"
    using swap_remove_mset [OF assms(1)] by simp
  then have "distinct (map f (xs ! i # swap_remove i xs))"
    using assms(2) by (metis mset_eq_imp_distinct_iff)
  then show "distinct (map f (swap_remove i xs))" "f (xs ! i) \<notin> f ` set (swap_remove i xs)"
    by auto
qed

lemma registry_swap_remove:
  assumes "worker_index ws wid = Some i" "distinct (map w_worker_id ws)"
  shows "registry (swap_remove i ws) = (registry ws)(wid := None)"
proof -
  have i: "i < length ws" and id: "w_worker_id (ws ! i) = wid"
    using assms(1) worker_index_bound worker_index_id by auto
  let ?vs = "ws ! i # swap_remove i ws"
  have "set ws = set ?vs" using swap_remove_mset [OF i] by (metis mset.simps(2) mset_eq_setD)
  moreover have "distinct (map w_worker_id ?vs)" using swap_remove_distinct [OF i assms(2)] by auto
  ultimately have "registry ws = registry ?vs" by (intro registry_eqI assms(2)) auto
  moreover have "registry (swap_remove i ws) wid = None"
    using swap_remove_distinct(2) [OF i assms(2)] id dom_registry by (metis domIff)
  ultimately show ?thesis using id by (auto simp: fun_eq_iff)
qed


section \<open>The invariant\<close>

text \<open>
  The arrays respect their capacity, no two entries share an id, and every entry has a state the
  scheduler sets itself.
\<close>

definition sched_inv :: "scheduler \<Rightarrow> bool" where
  "sched_inv s \<longleftrightarrow>
     length (s_workers s) \<le> unat (s_max_workers s) \<and> length (s_tasks s) \<le> unat (s_max_tasks s) \<and>
     distinct (map w_worker_id (s_workers s)) \<and>
     (\<forall>w \<in> set (s_workers s). w_state w \<noteq> WORKER_STATE_UNKNOWN)"

definition count_state :: "worker_state \<Rightarrow> worker_info list \<Rightarrow> nat" where
  "count_state state ws = count_if (\<lambda>w. w_state w = state) ws"

text \<open>The gauges of the statistics are the numbers of workers in each state.\<close>

definition gauges_ok :: "worker_info list \<Rightarrow> scheduler_stats \<Rightarrow> bool" where
  "gauges_ok ws st \<longleftrightarrow>
     st_idle_workers st = of_nat (count_state WORKER_STATE_IDLE ws) \<and>
     st_busy_workers st = of_nat (count_state WORKER_STATE_BUSY ws) \<and>
     st_dead_workers st = of_nat (count_state WORKER_STATE_DEAD ws) \<and>
     st_active_workers st = of_nat (count_if (\<lambda>w. w_state w \<noteq> WORKER_STATE_DEAD) ws)"

abbreviation ind :: "bool \<Rightarrow> 64 word" where "ind b \<equiv> (if b then 1 else 0)"

lemma gauges_update:
  assumes "gauges_ok ws st" "i < length ws"
    and "st_idle_workers st' = st_idle_workers st - ind (w_state (ws ! i) = WORKER_STATE_IDLE)
      + ind (w_state w = WORKER_STATE_IDLE)"
    and "st_busy_workers st' = st_busy_workers st - ind (w_state (ws ! i) = WORKER_STATE_BUSY)
      + ind (w_state w = WORKER_STATE_BUSY)"
    and "st_dead_workers st' = st_dead_workers st - ind (w_state (ws ! i) = WORKER_STATE_DEAD)
      + ind (w_state w = WORKER_STATE_DEAD)"
    and "st_active_workers st' = st_active_workers st - ind (w_state (ws ! i) \<noteq> WORKER_STATE_DEAD)
      + ind (w_state w \<noteq> WORKER_STATE_DEAD)"
  shows "gauges_ok (ws[i := w]) st'"
  using assms unfolding gauges_ok_def count_state_def by (simp only: of_nat_count_update)

lemma gauges_snoc:
  "gauges_ok ws st \<Longrightarrow> w_state w = WORKER_STATE_IDLE
    \<Longrightarrow> st_idle_workers st' = st_idle_workers st + 1
    \<Longrightarrow> st_active_workers st' = st_active_workers st + 1
    \<Longrightarrow> st_busy_workers st' = st_busy_workers st \<Longrightarrow> st_dead_workers st' = st_dead_workers st
    \<Longrightarrow> gauges_ok (ws @ [w]) st'"
  by (simp add: gauges_ok_def count_state_def)

lemma sched_inv_update:
  assumes "sched_inv s" "worker_index (s_workers s) (w_worker_id w) = Some i"
    and "w_state w \<noteq> WORKER_STATE_UNKNOWN"
    and "s_workers s' = (s_workers s)[i := w]" "s_max_workers s' = s_max_workers s"
    and "length (s_tasks s') \<le> unat (s_max_tasks s')"
  shows "sched_inv s'"
proof -
  have i: "i < length (s_workers s)" "w_worker_id (s_workers s ! i) = w_worker_id w"
    using assms(2) worker_index_bound worker_index_id by auto
  have "map w_worker_id (s_workers s') = map w_worker_id (s_workers s)"
    using i assms(4) by (simp add: map_update list_update_same_conv)
  moreover have "\<forall>v \<in> set (s_workers s'). w_state v \<noteq> WORKER_STATE_UNKNOWN"
    using assms(1,3,4) set_update_subset_insert [of "s_workers s" i w] by (auto simp: sched_inv_def)
  ultimately show ?thesis using assms by (simp add: sched_inv_def)
qed

end
