(* ===== verification/Scheduler_Refine.thy ===== *)
theory Scheduler_Refine
  imports Scheduler_Registry
begin

text \<open>
  The operations of \<open>scheduler.c\<close> refine map operations on the registry, keep the invariant and
  keep the gauges equal to the numbers of workers in each state.
\<close>

abbreviation reg :: "scheduler \<Rightarrow> u32 \<rightharpoonup> worker_info" where
  "reg s \<equiv> registry (s_workers s)"

abbreviation gauges :: "scheduler \<Rightarrow> bool" where
  "gauges s \<equiv> gauges_ok (s_workers s) (s_stats s)"

section \<open>Operations that change one entry\<close>

text \<open>
  Four operations look a worker up, replace its entry by \<open>f\<close> of it, and adjust the statistics by
  \<open>g\<close>.  The laws they need: the id stays, and the gauges move with the state.
\<close>

definition on_worker ::
    "(worker_info \<Rightarrow> worker_info) \<Rightarrow> (worker_info \<Rightarrow> scheduler_stats \<Rightarrow> scheduler_stats) \<Rightarrow> u32
      \<Rightarrow> scheduler \<Rightarrow> scheduler" where
  "on_worker f g wid s =
     (case worker_index (s_workers s) wid of
        None \<Rightarrow> s
      | Some i \<Rightarrow> s\<lparr>s_workers := (s_workers s)[i := f (s_workers s ! i)],
          s_stats := g (s_workers s ! i) (s_stats s)\<rparr>)"

locale worker_update =
  fixes f :: "worker_info \<Rightarrow> worker_info" and g :: "worker_info \<Rightarrow> scheduler_stats \<Rightarrow> scheduler_stats"
  assumes keeps_id: "w_worker_id (f w) = w_worker_id w"
    and keeps_known: "w_state w \<noteq> WORKER_STATE_UNKNOWN \<Longrightarrow> w_state (f w) \<noteq> WORKER_STATE_UNKNOWN"
    and moves_idle: "st_idle_workers (g w st) = st_idle_workers st
      - ind (w_state w = WORKER_STATE_IDLE) + ind (w_state (f w) = WORKER_STATE_IDLE)"
    and moves_busy: "st_busy_workers (g w st) = st_busy_workers st
      - ind (w_state w = WORKER_STATE_BUSY) + ind (w_state (f w) = WORKER_STATE_BUSY)"
    and moves_dead: "st_dead_workers (g w st) = st_dead_workers st
      - ind (w_state w = WORKER_STATE_DEAD) + ind (w_state (f w) = WORKER_STATE_DEAD)"
    and moves_active: "st_active_workers (g w st) = st_active_workers st
      - ind (w_state w \<noteq> WORKER_STATE_DEAD) + ind (w_state (f w) \<noteq> WORKER_STATE_DEAD)"
    and keeps_scheduled: "st_tasks_scheduled (g w st) = st_tasks_scheduled st"
begin

lemma on_worker_index:
  assumes "worker_index ws wid = Some i"
  shows "i < length ws" "worker_index ws (w_worker_id (f (ws ! i))) = Some i"
    "w_worker_id (f (ws ! i)) = wid" "registry ws wid = Some (ws ! i)"
  using assms worker_index_bound worker_index_id by (auto simp: keeps_id registry_index)

lemma on_worker_reg:
  "reg (on_worker f g wid s) = (reg s)(wid := map_option f (reg s wid))"
proof (cases "worker_index (s_workers s) wid")
  case None
  then show ?thesis by (auto simp: on_worker_def registry_index fun_eq_iff)
next
  case (Some i)
  note * = on_worker_index [OF Some]
  from Some show ?thesis using registry_update [OF *(2)] *(3,4) by (simp add: on_worker_def)
qed

lemma on_worker_inv:
  assumes "sched_inv s"
  shows "sched_inv (on_worker f g wid s)"
proof (cases "worker_index (s_workers s) wid")
  case None
  with assms show ?thesis by (simp add: on_worker_def)
next
  case (Some i)
  note * = on_worker_index [OF Some]
  have "w_state (f (s_workers s ! i)) \<noteq> WORKER_STATE_UNKNOWN"
    using assms *(1) by (intro keeps_known) (simp add: sched_inv_def)
  from sched_inv_update [OF assms *(2) this, of "on_worker f g wid s"] assms Some show ?thesis
    by (auto simp: on_worker_def sched_inv_def)
qed

lemma on_worker_gauges:
  assumes "gauges s"
  shows "gauges (on_worker f g wid s)"
proof (cases "worker_index (s_workers s) wid")
  case None
  with assms show ?thesis by (simp add: on_worker_def)
next
  case (Some i)
  have "gauges_ok ((s_workers s)[i := f (s_workers s ! i)]) (g (s_workers s ! i) (s_stats s))"
    by (rule gauges_update [OF assms on_worker_index(1) [OF Some]])
      (rule moves_idle moves_busy moves_dead moves_active)+
  with Some show ?thesis by (simp add: on_worker_def)
qed

lemma on_worker_frame:
  "s_tasks (on_worker f g wid s) = s_tasks s" "s_max_tasks (on_worker f g wid s) = s_max_tasks s"
  "s_max_workers (on_worker f g wid s) = s_max_workers s"
  "st_tasks_scheduled (s_stats (on_worker f g wid s)) = st_tasks_scheduled (s_stats s)"
  "map w_worker_id (s_workers (on_worker f g wid s)) = map w_worker_id (s_workers s)"
proof -
  show "map w_worker_id (s_workers (on_worker f g wid s)) = map w_worker_id (s_workers s)"
    by (auto simp: on_worker_def map_update keeps_id list_update_same_conv
      dest: worker_index_bound split: option.split)
qed (simp_all add: on_worker_def keeps_scheduled split: option.split)

lemmas on_worker_facts = on_worker_reg on_worker_inv on_worker_gauges on_worker_frame

end

text \<open>A heartbeat: the time of the last contact, and a dead worker comes back idle.\<close>

definition revive :: "time_t \<Rightarrow> worker_info \<Rightarrow> worker_info" where
  "revive now w = w\<lparr>w_last_heartbeat := now,
     w_state := (if w_state w = WORKER_STATE_DEAD then WORKER_STATE_IDLE else w_state w)\<rparr>"

definition revive_stats :: "worker_info \<Rightarrow> scheduler_stats \<Rightarrow> scheduler_stats" where
  "revive_stats w st = (if w_state w = WORKER_STATE_DEAD
     then st\<lparr>st_dead_workers := st_dead_workers st - 1,
       st_active_workers := st_active_workers st + 1, st_idle_workers := st_idle_workers st + 1\<rparr>
     else st)"

interpretation heartbeat: worker_update "revive now" revive_stats for now
  by unfold_locales (auto simp: revive_def revive_stats_def)

lemma update_heartbeat_eq:
  "scheduler_update_heartbeat (Some s) wid now = Some (on_worker (revive now) revive_stats wid s)"
  by (auto simp: on_worker_def revive_def revive_stats_def Let_def split: option.split)

text \<open>Tasks were sent: an idle worker becomes busy, and the tasks add to those running.\<close>

definition occupy :: "size_t \<Rightarrow> worker_info \<Rightarrow> worker_info" where
  "occupy n w = w\<lparr>w_state := (if w_state w = WORKER_STATE_IDLE then WORKER_STATE_BUSY else w_state w),
     w_tasks_running := w_tasks_running w + ucast n\<rparr>"

definition occupy_stats :: "worker_info \<Rightarrow> scheduler_stats \<Rightarrow> scheduler_stats" where
  "occupy_stats w st = (if w_state w = WORKER_STATE_IDLE
     then st\<lparr>st_idle_workers := st_idle_workers st - 1, st_busy_workers := st_busy_workers st + 1\<rparr>
     else st)"

interpretation busy: worker_update "occupy n" occupy_stats for n
  by unfold_locales (auto simp: occupy_def occupy_stats_def)

lemma mark_worker_busy_eq:
  "scheduler_mark_worker_busy (Some s) wid n = Some (on_worker (occupy n) occupy_stats wid s)"
  by (auto simp: on_worker_def occupy_def occupy_stats_def Let_def ucast_sum split: option.split)

text \<open>A worker that is made idle has nothing running.\<close>

definition vacate :: "worker_info \<Rightarrow> worker_info" where
  "vacate w = w\<lparr>w_state := (if w_state w = WORKER_STATE_BUSY then WORKER_STATE_IDLE else w_state w),
     w_tasks_running := 0\<rparr>"

definition vacate_stats :: "worker_info \<Rightarrow> scheduler_stats \<Rightarrow> scheduler_stats" where
  "vacate_stats w st = (if w_state w = WORKER_STATE_BUSY then release_stats st else st)"

interpretation idle: worker_update vacate vacate_stats
  by unfold_locales (auto simp: vacate_def vacate_stats_def release_stats_def)

lemma mark_worker_idle_eq:
  "scheduler_mark_worker_idle (Some s) wid = Some (on_worker vacate vacate_stats wid s)"
  by (auto simp: on_worker_def vacate_def vacate_stats_def Let_def split: option.split)

text \<open>A task ended on the worker.\<close>

definition finish :: "c_int \<Rightarrow> worker_info \<Rightarrow> worker_info" where
  "finish status w =
     (let n = (if w_tasks_running w = 0 then 0 else w_tasks_running w - 1) in
      w\<lparr>w_tasks_running := n,
        w_tasks_completed := w_tasks_completed w + (if status = 0 then 1 else 0),
        w_tasks_failed := w_tasks_failed w + (if status = 0 then 0 else 1),
        w_state := (if n = 0 \<and> w_state w = WORKER_STATE_BUSY then WORKER_STATE_IDLE else w_state w)\<rparr>)"

definition finish_stats :: "c_int \<Rightarrow> worker_info \<Rightarrow> scheduler_stats \<Rightarrow> scheduler_stats" where
  "finish_stats status w st = snd (complete_on_worker status w st)"

lemma fst_complete: "fst (complete_on_worker status w st) = finish status w"
  by (simp add: complete_on_worker_def finish_def Let_def word_gt_0)

interpretation completion: worker_update "finish status" "finish_stats status" for status
  by unfold_locales
    (auto simp: finish_def finish_stats_def complete_on_worker_def release_stats_def word_gt_0 Let_def)

section \<open>Tracking\<close>

lemma track_task_ok:
  assumes "sched_inv s" "length (s_tasks s) < unat (s_max_tasks s)"
  obtains s' where "scheduler_track_task (Some s) tid wid now now' = (0, Some s')" "sched_inv s'"
    "s_workers s' = s_workers s" "gauges s' = gauges s" "s_max_tasks s' = s_max_tasks s"
    "s_tasks s' = s_tasks s @ [\<lparr>ti_task_id = tid, ti_worker_id = wid, ti_submitted = now,
       ti_started = now', ti_status = -1\<rparr>]"
    "s_stats s' = (s_stats s)\<lparr>st_tasks_scheduled := st_tasks_scheduled (s_stats s) + 1\<rparr>"
    "s_max_workers s' = s_max_workers s"
proof (rule that)
  show "scheduler_track_task (Some s) tid wid now now' = (0, Some (s\<lparr>s_tasks := s_tasks s @
      [\<lparr>ti_task_id = tid, ti_worker_id = wid, ti_submitted = now, ti_started = now', ti_status = -1\<rparr>],
      s_stats := (s_stats s)\<lparr>st_tasks_scheduled := st_tasks_scheduled (s_stats s) + 1\<rparr>\<rparr>))"
    using assms by simp
qed (use assms in \<open>simp_all add: sched_inv_def gauges_ok_def\<close>)

text \<open>The status of a tracked task, of the first entry with its id.\<close>

definition task_entry :: "scheduler \<Rightarrow> u64 \<Rightarrow> nat option" where
  "task_entry s tid = first_index (\<lambda>t. ti_task_id t = tid) (s_tasks s)"

text \<open>
  Completion writes the status of that entry, and applies \<open>finish\<close> to the worker the entry
  names, if that worker is still registered.
\<close>

lemma mark_task_complete_eq:
  "scheduler_mark_task_complete (Some s) tid status =
     (case task_entry s tid of
        None \<Rightarrow> (-2, Some s)
      | Some i \<Rightarrow> (0, Some (on_worker (finish status) (finish_stats status) (ti_worker_id (s_tasks s ! i))
          (s\<lparr>s_tasks := (s_tasks s)[i := (s_tasks s ! i)\<lparr>ti_status := status\<rparr>]\<rparr>))))"
proof (cases "task_entry s tid")
  case None
  then show ?thesis by (simp add: task_entry_def)
next
  case (Some i)
  then have "i < length (s_tasks s)" using first_index_SomeD by (fastforce simp: task_entry_def)
  then show ?thesis using Some
    by (auto simp: task_entry_def on_worker_def finish_stats_def Let_def split_beta fst_complete
        split: option.split)
qed

lemma sched_inv_tasks:
  "sched_inv s \<Longrightarrow> length ts = length (s_tasks s) \<Longrightarrow> sched_inv (s\<lparr>s_tasks := ts\<rparr>)"
  by (simp add: sched_inv_def)

lemma worker_count: "sched_inv s \<Longrightarrow> length (s_workers s) = card (dom (reg s))"
  unfolding sched_inv_def dom_registry by (metis distinct_card length_map list.set_map)

section \<open>Registration\<close>

definition enrol :: "worker_info \<Rightarrow> time_t \<Rightarrow> time_t \<Rightarrow> worker_info option \<Rightarrow> worker_info" where
  "enrol info now now' old =
     (let w = info\<lparr>w_state := WORKER_STATE_IDLE, w_last_heartbeat := now\<rparr> in
      case old of None \<Rightarrow> w\<lparr>w_registered := now'\<rparr> | Some _ \<Rightarrow> w)"

lemma register_full:
  "length (s_workers s) \<ge> unat (s_max_workers s)
    \<Longrightarrow> scheduler_register_worker (Some s) (Some info) now now' = (-2, Some s)"
  by simp

lemma register_ok:
  assumes "sched_inv s" "length (s_workers s) < unat (s_max_workers s)"
  obtains s' where "scheduler_register_worker (Some s) (Some info) now now' = (0, Some s')"
    "sched_inv s'" "s_tasks s' = s_tasks s"
    "reg s' = (reg s)(w_worker_id info \<mapsto> enrol info now now' (reg s (w_worker_id info)))"
    "gauges s \<Longrightarrow> \<forall>w. reg s (w_worker_id info) = Some w \<longrightarrow> w_state w = WORKER_STATE_IDLE \<Longrightarrow> gauges s'"
    "s_max_workers s' = s_max_workers s"
proof (cases "worker_index (s_workers s) (w_worker_id info)")
  case None
  let ?w = "info\<lparr>w_state := WORKER_STATE_IDLE, w_last_heartbeat := now, w_registered := now'\<rparr>"
  have new: "w_worker_id ?w \<notin> w_worker_id ` set (s_workers s)"
    using None by (simp add: worker_index_None)
  have "reg s (w_worker_id info) = None" using None by (simp add: registry_index)
  then have e: "enrol info now now' (reg s (w_worker_id info)) = ?w" by (simp add: enrol_def)
  let ?s = "s\<lparr>s_workers := s_workers s @ [?w],
    s_stats := (s_stats s)\<lparr>st_total_workers := st_total_workers (s_stats s) + 1,
      st_active_workers := st_active_workers (s_stats s) + 1,
      st_idle_workers := st_idle_workers (s_stats s) + 1\<rparr>\<rparr>"
  show thesis
  proof (rule that [of ?s])
    show "reg ?s = (reg s)(w_worker_id info \<mapsto> enrol info now now' (reg s (w_worker_id info)))"
      using registry_snoc [OF new] e by simp
    show "gauges ?s" if "gauges s" using that by (simp add: gauges_snoc [of "s_workers s" "s_stats s"])
  qed (use assms None new in \<open>simp_all add: sched_inv_def\<close>)
next
  case (Some i)
  let ?w = "info\<lparr>w_state := WORKER_STATE_IDLE, w_last_heartbeat := now\<rparr>"
  have i: "i < length (s_workers s)" using Some by (rule worker_index_bound)
  have old: "reg s (w_worker_id info) = Some (s_workers s ! i)" using Some by (simp add: registry_index)
  then have e: "enrol info now now' (reg s (w_worker_id info)) = ?w" by (simp add: enrol_def)
  let ?s = "s\<lparr>s_workers := (s_workers s)[i := ?w]\<rparr>"
  have inv: "sched_inv ?s"
    by (rule sched_inv_update [OF assms(1), of ?w i]) (use Some assms(1) in \<open>simp_all add: sched_inv_def\<close>)
  show thesis
  proof (rule that [of ?s])
    show "reg ?s = (reg s)(w_worker_id info \<mapsto> enrol info now now' (reg s (w_worker_id info)))"
      using registry_update [of "s_workers s" ?w i] Some e by simp
    show "gauges ?s" if "gauges s"
      "\<forall>w. reg s (w_worker_id info) = Some w \<longrightarrow> w_state w = WORKER_STATE_IDLE"
      using gauges_update [OF that(1) i, of "s_stats s" ?w] that(2) old by simp
  qed (use assms Some inv in simp_all)
qed

section \<open>Unregistration\<close>

lemma unregister_unknown:
  "wid \<notin> dom (reg s) \<Longrightarrow> scheduler_unregister_worker (Some s) wid = (-2, Some s)"
  by (simp add: dom_registry worker_index_None [symmetric])

lemma gauges_remove:
  assumes "gauges_ok ws st" "mset ws = add_mset w (mset ws')" "w_state w \<noteq> WORKER_STATE_DEAD"
  shows "gauges_ok ws' (retire_stats (w_state w) st)"
  using assms unfolding gauges_ok_def count_state_def count_if_mset
  by (auto simp: retire_stats_def Let_def split: if_splits)

lemma unregister_ok:
  assumes "sched_inv s" "reg s wid = Some w"
  obtains s' where "scheduler_unregister_worker (Some s) wid = (0, Some s')" "sched_inv s'"
    "reg s' = (reg s)(wid := None)" "s_tasks s' = s_tasks s" "s_max_workers s' = s_max_workers s"
    "gauges s \<Longrightarrow> w_state w \<noteq> WORKER_STATE_DEAD \<Longrightarrow> gauges s'"
proof -
  from assms(2) obtain i where i: "worker_index (s_workers s) wid = Some i" "w = s_workers s ! i"
    by (auto simp: registry_index)
  have len: "i < length (s_workers s)" using i(1) by (rule worker_index_bound)
  have dist: "distinct (map w_worker_id (s_workers s))" using assms(1) by (simp add: sched_inv_def)
  note m = swap_remove_mset [OF len]
  let ?st = "if w_state w \<noteq> WORKER_STATE_DEAD then retire_stats (w_state w) (s_stats s) else s_stats s"
  let ?s = "s\<lparr>s_workers := swap_remove i (s_workers s), s_stats := ?st\<rparr>"
  show thesis
  proof (rule that [of ?s])
    show "scheduler_unregister_worker (Some s) wid = (0, Some ?s)"
      using i by (simp add: swap_remove_def Let_def)
    show "reg ?s = (reg s)(wid := None)" using registry_swap_remove [OF i(1) dist] by simp
    have "set (swap_remove i (s_workers s)) \<subseteq> set (s_workers s)"
      using arg_cong [OF m, of set_mset] by auto
    then show "sched_inv ?s"
      using assms(1) swap_remove_distinct(1) [OF len dist] swap_remove_length [of i "s_workers s"]
      by (auto simp: sched_inv_def)
    show "gauges ?s" if "gauges s" "w_state w \<noteq> WORKER_STATE_DEAD"
      using gauges_remove [OF that(1) m] that(2) i(2) by simp
  qed simp_all
qed

section \<open>Timeouts\<close>

definition expires :: "time_t \<Rightarrow> c_int \<Rightarrow> worker_info \<Rightarrow> bool" where
  "expires now timeout w \<longleftrightarrow> w_state w \<noteq> WORKER_STATE_DEAD \<and> timed_out now timeout w"

definition expire :: "time_t \<Rightarrow> c_int \<Rightarrow> worker_info \<Rightarrow> worker_info" where
  "expire now timeout w = (if expires now timeout w then w\<lparr>w_state := WORKER_STATE_DEAD\<rparr> else w)"

lemma expire_id [simp]: "w_worker_id (expire now timeout w) = w_worker_id w"
  by (simp add: expire_def)

lemma expire_known:
  "w_state w \<noteq> WORKER_STATE_UNKNOWN \<Longrightarrow> w_state (expire now timeout w) \<noteq> WORKER_STATE_UNKNOWN"
  by (simp add: expire_def)

lemma timeout_loop_result:
  "fst (timeout_loop now timeout ws st dead) = map (expire now timeout) ws"
  "snd (snd (timeout_loop now timeout ws st dead)) = dead + int (count_if (expires now timeout) ws)"
  by (induction ws arbitrary: st dead) (auto simp: expire_def expires_def split_beta Let_def)

lemma timeout_loop_gauges:
  "gauges_ok (ps @ ws) st
    \<Longrightarrow> gauges_ok (ps @ map (expire now timeout) ws) (fst (snd (timeout_loop now timeout ws st dead)))"
proof (induction ws arbitrary: ps st dead)
  case Nil
  then show ?case by simp
next
  case (Cons w ws)
  show ?case
  proof (cases "expires now timeout w")
    case False
    then have "timeout_loop now timeout (w # ws) st dead =
        (let (ws', st', dead') = timeout_loop now timeout ws st dead in (w # ws', st', dead'))"
      by (simp add: expires_def)
    with Cons.IH [of "ps @ [w]" st dead] Cons.prems False show ?thesis
      by (simp add: split_beta expire_def)
  next
    case True
    let ?st = "(retire_stats (w_state w) st)\<lparr>st_dead_workers :=
      st_dead_workers (retire_stats (w_state w) st) + 1\<rparr>"
    have "gauges_ok ((ps @ w # ws)[length ps := w\<lparr>w_state := WORKER_STATE_DEAD\<rparr>]) ?st"
      by (rule gauges_update [OF Cons.prems]) (use True in \<open>auto simp: retire_stats_def expires_def Let_def\<close>)
    then have "gauges_ok ((ps @ [expire now timeout w]) @ ws) ?st"
      using True by (simp add: expire_def)
    from Cons.IH [OF this, of "dead + 1"] True show ?thesis
      by (simp add: split_beta Let_def expires_def)
  qed
qed

lemma registry_map:
  "(\<And>w. w_worker_id (f w) = w_worker_id w) \<Longrightarrow> registry (map f ws) = (\<lambda>wid. map_option f (registry ws wid))"
  by (induction ws) (auto simp: fun_eq_iff)

lemma check_timeouts_ok:
  assumes "sched_inv s"
  obtains s' where "scheduler_check_timeouts (Some s) now
      = (int (count_if (expires now (s_heartbeat_timeout_secs s)) (s_workers s)), Some s')"
    "sched_inv s'" "reg s' = (\<lambda>wid. map_option (expire now (s_heartbeat_timeout_secs s)) (reg s wid))"
    "s_tasks s' = s_tasks s" "gauges s \<Longrightarrow> gauges s'" "s_max_workers s' = s_max_workers s"
proof -
  let ?t = "s_heartbeat_timeout_secs s"
  let ?st = "fst (snd (timeout_loop now ?t (s_workers s) (s_stats s) 0))"
  let ?s = "s\<lparr>s_workers := map (expire now ?t) (s_workers s), s_stats := ?st\<rparr>"
  show thesis
  proof (rule that [of ?s])
    show "scheduler_check_timeouts (Some s) now
        = (int (count_if (expires now ?t) (s_workers s)), Some ?s)"
      by (simp add: split_beta timeout_loop_result)
    show "sched_inv ?s" using assms expire_known by (auto simp: sched_inv_def o_def)
    show "gauges ?s" if "gauges s"
      using timeout_loop_gauges [of "[]" "s_workers s" "s_stats s"] that by simp
  qed (simp_all add: registry_map)
qed

section \<open>Choosing idle workers\<close>

lemma idle_loop_take:
  "idle_loop ws cnt limit = take (nat (limit - cnt)) (filter (\<lambda>w. w_state w = WORKER_STATE_IDLE) ws)"
proof (induction ws arbitrary: cnt)
  case Nil
  then show ?case by simp
next
  case (Cons w ws)
  have "nat (limit - cnt) = Suc (nat (limit - (cnt + 1)))" if "cnt < limit" using that by simp
  with Cons show ?case by auto
qed

lemma get_idle_workers_take:
  assumes "unat n < 2 ^ 31"
  shows "scheduler_get_idle_workers (Some s) True n =
    (let ws = take (unat n) (filter (\<lambda>w. w_state w = WORKER_STATE_IDLE) (s_workers s))
     in (int (length ws), ws))"
  using sint_ucast_small [OF assms] by (simp add: idle_loop_take)

end
