(* ===== verification/Scheduler_Steps.thy ===== *)
theory Scheduler_Steps
  imports Scheduler_Refine
begin

text \<open>
  A scheduler in use: any sequence of calls, by any number of threads (each call holds the
  mutex throughout).  \<open>sched_step\<close> has every call; \<open>orderly_step\<close> leaves out two of them, a
  registration of a worker that is registered and not idle, and an unregistration of a dead
  worker, which the code does without adjusting the statistics.
\<close>

definition sched_init :: "scheduler \<Rightarrow> bool" where
  "sched_init s \<longleftrightarrow> (\<exists>config. scheduler_create (Some config) True True True = Some s)"

inductive sched_step :: "scheduler \<Rightarrow> scheduler \<Rightarrow> bool" where
  register: "scheduler_register_worker (Some s) (Some info) now now' = (rc, Some s') \<Longrightarrow> sched_step s s'"
| unregister: "scheduler_unregister_worker (Some s) wid = (rc, Some s') \<Longrightarrow> sched_step s s'"
| heartbeat: "scheduler_update_heartbeat (Some s) wid now = Some s' \<Longrightarrow> sched_step s s'"
| mark_busy: "scheduler_mark_worker_busy (Some s) wid n = Some s' \<Longrightarrow> sched_step s s'"
| mark_idle: "scheduler_mark_worker_idle (Some s) wid = Some s' \<Longrightarrow> sched_step s s'"
| track: "scheduler_track_task (Some s) tid wid now now' = (rc, Some s') \<Longrightarrow> sched_step s s'"
| complete: "scheduler_mark_task_complete (Some s) tid status = (rc, Some s') \<Longrightarrow> sched_step s s'"
| timeouts: "scheduler_check_timeouts (Some s) now = (n, Some s') \<Longrightarrow> sched_step s s'"

inductive orderly_step :: "scheduler \<Rightarrow> scheduler \<Rightarrow> bool" where
  register: "\<forall>w. reg s (w_worker_id info) = Some w \<longrightarrow> w_state w = WORKER_STATE_IDLE
    \<Longrightarrow> scheduler_register_worker (Some s) (Some info) now now' = (rc, Some s') \<Longrightarrow> orderly_step s s'"
| unregister: "\<forall>w. reg s wid = Some w \<longrightarrow> w_state w \<noteq> WORKER_STATE_DEAD
    \<Longrightarrow> scheduler_unregister_worker (Some s) wid = (rc, Some s') \<Longrightarrow> orderly_step s s'"
| heartbeat: "scheduler_update_heartbeat (Some s) wid now = Some s' \<Longrightarrow> orderly_step s s'"
| mark_busy: "scheduler_mark_worker_busy (Some s) wid n = Some s' \<Longrightarrow> orderly_step s s'"
| mark_idle: "scheduler_mark_worker_idle (Some s) wid = Some s' \<Longrightarrow> orderly_step s s'"
| track: "scheduler_track_task (Some s) tid wid now now' = (rc, Some s') \<Longrightarrow> orderly_step s s'"
| complete: "scheduler_mark_task_complete (Some s) tid status = (rc, Some s') \<Longrightarrow> orderly_step s s'"
| timeouts: "scheduler_check_timeouts (Some s) now = (n, Some s') \<Longrightarrow> orderly_step s s'"

section \<open>Structure\<close>

lemma sched_inv_init: "sched_init s \<Longrightarrow> sched_inv s"
  by (auto simp: sched_init_def sched_inv_def)

lemma complete_inv:
  assumes "sched_inv s" "scheduler_mark_task_complete (Some s) tid status = (rc, Some s')"
  shows "sched_inv s'"
  using assms completion.on_worker_inv sched_inv_tasks
  by (fastforce simp: mark_task_complete_eq simp del: scheduler_mark_task_complete.simps
      split: option.splits)

lemma sched_inv_step:
  assumes "sched_inv s" "sched_step s s'"
  shows "sched_inv s'"
  using assms(2)
proof cases
  case (register info now now' rc)
  then show ?thesis
    using register_ok [OF assms(1)] register_full assms(1)
    by (metis not_le_imp_less option.inject prod.inject)
next
  case (unregister wid rc)
  then show ?thesis
    using unregister_ok [OF assms(1)] unregister_unknown assms(1)
    by (metis domIff not_None_eq option.inject prod.inject)
next
  case (track tid wid now now' rc)
  then show ?thesis using assms(1) by (auto simp: sched_inv_def split: if_splits)
next
  case (timeouts now n)
  then show ?thesis using check_timeouts_ok [OF assms(1)] by (metis option.inject prod.inject)
next
  case (complete tid status rc)
  then show ?thesis by (rule complete_inv [OF assms(1)])
qed (use assms(1) in \<open>auto simp: update_heartbeat_eq mark_worker_busy_eq mark_worker_idle_eq
    simp del: scheduler_update_heartbeat.simps scheduler_mark_worker_busy.simps
      scheduler_mark_worker_idle.simps
    intro: heartbeat.on_worker_inv busy.on_worker_inv idle.on_worker_inv\<close>)

interpretation sched_structure: inductive_invariant sched_init sched_step sched_inv
  by unfold_locales (fact sched_inv_init, fact sched_inv_step)

section \<open>Statistics\<close>

lemma orderly_imp_step: "orderly_step s s' \<Longrightarrow> sched_step s s'"
  by (induction rule: orderly_step.induct) (auto intro: sched_step.intros simp del: scheduler_register_worker.simps
    scheduler_unregister_worker.simps scheduler_update_heartbeat.simps scheduler_mark_worker_busy.simps
    scheduler_mark_worker_idle.simps scheduler_track_task.simps scheduler_mark_task_complete.simps
    scheduler_check_timeouts.simps)

definition sched_stats_inv :: "scheduler \<Rightarrow> bool" where
  "sched_stats_inv s \<longleftrightarrow> sched_inv s \<and> gauges s \<and>
     st_tasks_scheduled (s_stats s) = of_nat (length (s_tasks s))"

lemma retire_scheduled [simp]: "st_tasks_scheduled (retire_stats state st) = st_tasks_scheduled st"
  by (simp add: retire_stats_def Let_def)

lemma timeout_scheduled:
  "st_tasks_scheduled (fst (snd (timeout_loop now timeout ws st dead))) = st_tasks_scheduled st"
  by (induction ws arbitrary: st dead) (simp_all add: split_beta Let_def)

text \<open>Only tracking changes the number of scheduled tasks and of tracked entries.\<close>

definition track_count :: "scheduler \<Rightarrow> bool" where
  "track_count s \<longleftrightarrow> st_tasks_scheduled (s_stats s) = of_nat (length (s_tasks s))"

lemma track_count_step:
  assumes "track_count s" "sched_step s s'"
  shows "track_count s'"
  using assms(2)
proof cases
  case (complete tid status rc)
  then show ?thesis using assms(1) completion.on_worker_frame
    by (auto simp: mark_task_complete_eq track_count_def simp del: scheduler_mark_task_complete.simps
        split: option.splits)
next
  case (timeouts now n)
  then show ?thesis using assms(1) by (auto simp: track_count_def timeout_scheduled split_beta)
next
  case (unregister wid rc)
  then show ?thesis using assms(1) by (auto simp: track_count_def Let_def split: option.splits)
qed (use assms(1) in \<open>auto simp: track_count_def update_heartbeat_eq mark_worker_busy_eq mark_worker_idle_eq
      heartbeat.on_worker_frame busy.on_worker_frame idle.on_worker_frame
    simp del: scheduler_update_heartbeat.simps scheduler_mark_worker_busy.simps
      scheduler_mark_worker_idle.simps split: if_splits option.splits\<close>)

lemma gauges_step:
  assumes inv: "sched_inv s" and "gauges s" "orderly_step s s'"
  shows "gauges s'"
  using assms(3)
proof cases
  case (register info now now' rc)
  show ?thesis
  proof (cases "length (s_workers s) \<ge> unat (s_max_workers s)")
    case True
    with register assms(2) show ?thesis by simp
  next
    case False
    with register assms(2) show ?thesis
      using register_ok [OF inv, of info now now'] by (metis not_le_imp_less option.inject prod.inject)
  qed
next
  case (unregister wid rc)
  show ?thesis
  proof (cases "reg s wid")
    case None
    with unregister assms(2) show ?thesis using unregister_unknown [of wid s] by auto
  next
    case (Some w)
    with unregister assms(2) show ?thesis
      using unregister_ok [OF inv Some] by (metis option.inject prod.inject)
  qed
next
  case (timeouts now n)
  then show ?thesis using check_timeouts_ok [OF inv, of now] assms(2) by (metis option.inject prod.inject)
next
  case (track tid wid now now' rc)
  then show ?thesis using assms(2) by (auto simp: gauges_ok_def split: if_splits)
next
  case (complete tid status rc)
  then show ?thesis using assms(2)
    by (auto simp: mark_task_complete_eq simp del: scheduler_mark_task_complete.simps
        split: option.splits intro!: completion.on_worker_gauges)
qed (use assms(2) in \<open>auto simp: update_heartbeat_eq mark_worker_busy_eq mark_worker_idle_eq
    simp del: scheduler_update_heartbeat.simps scheduler_mark_worker_busy.simps
      scheduler_mark_worker_idle.simps
    intro: heartbeat.on_worker_gauges busy.on_worker_gauges idle.on_worker_gauges\<close>)

interpretation sched_statistics: inductive_invariant sched_init orderly_step sched_stats_inv
proof unfold_locales
  show "sched_stats_inv s" if "sched_init s" for s
    using that sched_inv_init [OF that]
    by (auto simp: sched_init_def sched_stats_inv_def gauges_ok_def count_state_def zero_stats_def)
  show "sched_stats_inv t" if "sched_stats_inv s" "orderly_step s t" for s t
    using that gauges_step [of s t] sched_inv_step [OF _ orderly_imp_step] track_count_step [OF _ orderly_imp_step]
    by (auto simp: sched_stats_inv_def track_count_def)
qed

section \<open>The life of a batch\<close>

text \<open>
  What the coordinator does with a batch it has sent to a worker, and what happens as the
  results come in.
\<close>

text \<open>The tracking loop: each task id with the two readings of the clock.\<close>

fun track_all :: "scheduler option \<Rightarrow> (u64 \<times> time_t \<times> time_t) list \<Rightarrow> u32 \<Rightarrow> scheduler option" where
  "track_all s [] wid = s"
| "track_all s ((tid, now, now') # rest) wid =
     track_all (snd (scheduler_track_task s tid wid now now')) rest wid"

fun complete_all :: "scheduler option \<Rightarrow> (u64 \<times> c_int) list \<Rightarrow> scheduler option" where
  "complete_all s [] = s"
| "complete_all s ((tid, status) # rs) =
     complete_all (snd (scheduler_mark_task_complete s tid status)) rs"

lemma track_all_ok:
  assumes "sched_inv s" "length (s_tasks s) + length ts \<le> unat (s_max_tasks s)"
  shows "\<exists>s'. track_all (Some s) ts wid = Some s' \<and> sched_inv s' \<and> s_workers s' = s_workers s \<and>
    map ti_task_id (s_tasks s') = map ti_task_id (s_tasks s) @ map fst ts \<and>
    map ti_worker_id (s_tasks s') = map ti_worker_id (s_tasks s) @ replicate (length ts) wid \<and>
    (gauges s \<longrightarrow> gauges s')"
  using assms
proof (induction ts arbitrary: s)
  case Nil
  then show ?case by simp
next
  case (Cons x ts)
  obtain tid now now' where x: "x = (tid, now, now')" by (metis prod_cases3)
  obtain s1 where s1: "scheduler_track_task (Some s) tid wid now now' = (0, Some s1)" "sched_inv s1"
      "s_workers s1 = s_workers s" "gauges s1 = gauges s" "s_max_tasks s1 = s_max_tasks s"
      "s_tasks s1 = s_tasks s @ [\<lparr>ti_task_id = tid, ti_worker_id = wid, ti_submitted = now,
         ti_started = now', ti_status = -1\<rparr>]"
    using track_task_ok [OF Cons.prems(1), of tid wid now now'] Cons.prems(2) by auto
  from Cons.IH [OF s1(2)] s1 Cons.prems(2) x show ?case
    by (simp del: scheduler_track_task.simps)
qed

text \<open>The worker the tracking table names for a task.\<close>

definition tracked_on :: "scheduler \<Rightarrow> u64 \<Rightarrow> u32 option" where
  "tracked_on s tid = map_of (zip (map ti_task_id (s_tasks s)) (map ti_worker_id (s_tasks s))) tid"

lemma map_of_first_index:
  "map_of (zip (map f xs) (map g xs)) k = map_option (\<lambda>i. g (xs ! i)) (first_index (\<lambda>x. f x = k) xs)"
  by (induction xs) (auto simp: option.map_comp o_def)

lemma tracked_on_entry: "tracked_on s tid = map_option (\<lambda>i. ti_worker_id (s_tasks s ! i)) (task_entry s tid)"
  by (simp add: tracked_on_def task_entry_def map_of_first_index)

lemma complete_tracked:
  assumes "tracked_on s tid = Some wid"
  obtains s' where "scheduler_mark_task_complete (Some s) tid status = (0, Some s')"
    "reg s' = (reg s)(wid := map_option (finish status) (reg s wid))"
    "tracked_on s' = tracked_on s" "sched_inv s \<Longrightarrow> sched_inv s'" "gauges s \<Longrightarrow> gauges s'"
proof -
  from assms obtain i where i: "task_entry s tid = Some i" "ti_worker_id (s_tasks s ! i) = wid"
    by (auto simp: tracked_on_entry)
  have len: "i < length (s_tasks s)" using i(1) first_index_SomeD by (fastforce simp: task_entry_def)
  let ?s = "s\<lparr>s_tasks := (s_tasks s)[i := (s_tasks s ! i)\<lparr>ti_status := status\<rparr>]\<rparr>"
  let ?s' = "on_worker (finish status) (finish_stats status) wid ?s"
  show thesis
  proof (rule that [of ?s'])
    show "scheduler_mark_task_complete (Some s) tid status = (0, Some ?s')"
      using i by (simp add: mark_task_complete_eq del: scheduler_mark_task_complete.simps)
    show "reg ?s' = (reg s)(wid := map_option (finish status) (reg s wid))"
      by (simp add: completion.on_worker_reg)
    show "tracked_on ?s' = tracked_on s"
      using len by (simp add: tracked_on_def fun_eq_iff completion.on_worker_frame map_update map_update_same)
    show "sched_inv ?s'" if "sched_inv s"
      using that by (intro completion.on_worker_inv sched_inv_tasks) simp_all
    show "gauges ?s'" if "gauges s" using that by (intro completion.on_worker_gauges) simp
  qed
qed

lemma complete_all_tracked:
  assumes "\<forall>(tid, status) \<in> set rs. tracked_on s tid = Some wid" "sched_inv s"
  shows "\<exists>s'. complete_all (Some s) rs = Some s' \<and> sched_inv s' \<and> (gauges s \<longrightarrow> gauges s') \<and>
    reg s' = (reg s)(wid := map_option (fold finish (map snd rs)) (reg s wid))"
  using assms
proof (induction rs arbitrary: s)
  case Nil
  then show ?case by (auto simp: fun_eq_iff option.map_ident)
next
  case (Cons r rs)
  obtain tid status where r: "r = (tid, status)" by (cases r)
  with Cons.prems(1) have "tracked_on s tid = Some wid" by simp
  from complete_tracked [OF this, of status] obtain s1 where
      s1: "scheduler_mark_task_complete (Some s) tid status = (0, Some s1)"
      "reg s1 = (reg s)(wid := map_option (finish status) (reg s wid))"
      "tracked_on s1 = tracked_on s" "sched_inv s \<Longrightarrow> sched_inv s1" "gauges s \<Longrightarrow> gauges s1"
    by blast
  have "\<forall>(tid, status) \<in> set rs. tracked_on s1 tid = Some wid" using Cons.prems(1) s1(3) by simp
  from Cons.IH [OF this s1(4) [OF Cons.prems(2)]] obtain s2 where
      s2: "complete_all (Some s1) rs = Some s2" "sched_inv s2" "gauges s1 \<longrightarrow> gauges s2"
      "reg s2 = (reg s1)(wid := map_option (fold finish (map snd rs)) (reg s1 wid))"
    by blast
  have "complete_all (Some s) (r # rs) = Some s2"
    using r s1(1) s2(1) by (simp del: scheduler_mark_task_complete.simps)
  moreover have "reg s2 = (reg s)(wid := map_option (fold finish (map snd (r # rs))) (reg s wid))"
    using s2(4) s1(2) r by (simp add: option.map_comp o_def)
  ultimately show ?case using s1(5) s2(2,3) by blast
qed

text \<open>A busy worker with as many running tasks as results to come ends up idle.\<close>

lemma fold_finish:
  assumes "w_state w = WORKER_STATE_BUSY" "w_tasks_running w = of_nat (length sts)"
    "0 < length sts" "length sts < 2 ^ 32"
  shows "fold finish sts w = w\<lparr>w_state := WORKER_STATE_IDLE, w_tasks_running := 0,
    w_tasks_completed := w_tasks_completed w + of_nat (count_if (\<lambda>st. st = 0) sts),
    w_tasks_failed := w_tasks_failed w + of_nat (count_if (\<lambda>st. st \<noteq> 0) sts)\<rparr>"
  using assms
proof (induction sts arbitrary: w)
  case Nil
  then show ?case by simp
next
  case (Cons st sts)
  show ?case
  proof (cases sts)
    case Nil
    then show ?thesis using Cons.prems by (simp add: finish_def)
  next
    case (Cons st' sts')
    then have pos: "0 < length sts" by simp
    have run: "w_tasks_running w \<noteq> 0" "w_tasks_running w - 1 = of_nat (length sts)"
        "(of_nat (length sts) :: 32 word) \<noteq> 0"
      using Cons.prems(2-4) of_nat_u32_nonzero [of "length (st # sts)"]
        of_nat_u32_nonzero [OF pos] by auto
    have w1: "finish st w = w\<lparr>w_tasks_running := of_nat (length sts),
        w_tasks_completed := w_tasks_completed w + (if st = 0 then 1 else 0),
        w_tasks_failed := w_tasks_failed w + (if st = 0 then 0 else 1)\<rparr>"
      using run Cons.prems(1) by (simp add: finish_def)
    have "fold finish sts (finish st w) = (finish st w)\<lparr>w_state := WORKER_STATE_IDLE,
        w_tasks_running := 0, w_tasks_completed := w_tasks_completed (finish st w)
          + of_nat (count_if (\<lambda>st. st = 0) sts),
        w_tasks_failed := w_tasks_failed (finish st w) + of_nat (count_if (\<lambda>st. st \<noteq> 0) sts)\<rparr>"
      by (rule Cons.IH) (use Cons.prems pos w1 in simp_all)
    then show ?thesis by (simp add: w1 ac_simps)
  qed
qed

lemma map_of_replicate: "tid \<in> set T \<Longrightarrow> map_of (zip T (replicate (length T) v)) tid = Some v"
  by (induction T) auto

lemma tracked_on_append:
  assumes "map ti_task_id (s_tasks s') = map ti_task_id (s_tasks s) @ T"
    and "map ti_worker_id (s_tasks s') = map ti_worker_id (s_tasks s) @ replicate (length T) wid"
    and "tracked_on s tid = None" "tid \<in> set T"
  shows "tracked_on s' tid = Some wid"
  using assms unfolding tracked_on_def
  by (simp add: map_add_def map_of_replicate del: map_of_zip_is_None)

text \<open>The whole life of a batch of tasks on an idle worker, the results in any order.\<close>

lemma batch_life:
  assumes inv: "sched_inv s" and w: "reg s wid = Some w" "w_state w = WORKER_STATE_IDLE"
      "w_tasks_running w = 0"
    and ts: "ts \<noteq> []" "length ts < 2 ^ 32" "length (s_tasks s) + length ts \<le> unat (s_max_tasks s)"
      "\<forall>(tid, now) \<in> set ts. tracked_on s tid = None"
    and rs: "mset (map fst rs) = mset (map fst ts)"
  obtains s1 s2 s3 where
    "scheduler_mark_worker_busy (Some s) wid (of_nat (length ts)) = Some s1"
    "track_all (Some s1) ts wid = Some s2" "complete_all (Some s2) rs = Some s3"
    "reg s2 = (reg s)(wid \<mapsto> w\<lparr>w_state := WORKER_STATE_BUSY, w_tasks_running := of_nat (length ts)\<rparr>)"
    "reg s3 = (reg s)(wid \<mapsto> w\<lparr>
       w_tasks_completed := w_tasks_completed w + of_nat (count_if (\<lambda>r. snd r = 0) rs),
       w_tasks_failed := w_tasks_failed w + of_nat (count_if (\<lambda>r. snd r \<noteq> 0) rs)\<rparr>)"
    "sched_inv s3" "gauges s \<Longrightarrow> gauges s3" "sched_inv s2" "\<forall>tid \<in> set (map fst ts). tracked_on s2 tid = Some wid"
proof -
  let ?n = "of_nat (length ts) :: size_t"
  let ?s1 = "on_worker (occupy ?n) occupy_stats wid s"
  let ?w = "w\<lparr>w_state := WORKER_STATE_BUSY, w_tasks_running := of_nat (length ts)\<rparr>"
  note s1 = busy.on_worker_frame [of ?n wid s] busy.on_worker_inv [OF inv, of ?n wid]
    busy.on_worker_gauges [of s ?n wid] busy.on_worker_reg [of ?n wid s]
  have "occupy ?n w = ?w" using w by (simp add: occupy_def)
  then have reg1: "reg ?s1 = (reg s)(wid \<mapsto> ?w)" using s1(8) w(1) by simp
  obtain s2 where s2: "track_all (Some ?s1) ts wid = Some s2" "sched_inv s2" "s_workers s2 = s_workers ?s1"
      "map ti_task_id (s_tasks s2) = map ti_task_id (s_tasks s) @ map fst ts"
      "map ti_worker_id (s_tasks s2) = map ti_worker_id (s_tasks s) @ replicate (length (map fst ts)) wid"
      "gauges ?s1 \<longrightarrow> gauges s2"
    using track_all_ok [OF s1(6), of ts wid] ts(3) s1(1,2) by auto
  have set: "set (map fst rs) = set (map fst ts)" and len: "length rs = length ts"
    using mset_eq_setD [OF rs] mset_eq_length [OF rs] by simp_all
  have tracked: "\<forall>tid \<in> set (map fst ts). tracked_on s2 tid = Some wid"
    using ts(4) by (intro ballI tracked_on_append [OF s2(4,5)]) auto
  then have "\<forall>(tid, status) \<in> set rs. tracked_on s2 tid = Some wid" using set by force
  from complete_all_tracked [OF this s2(2)] obtain s3 where s3: "complete_all (Some s2) rs = Some s3"
      "sched_inv s3" "gauges s2 \<longrightarrow> gauges s3"
      "reg s3 = (reg s2)(wid := map_option (fold finish (map snd rs)) (reg s2 wid))"
    by blast
  have "fold finish (map snd rs) ?w = ?w\<lparr>w_state := WORKER_STATE_IDLE, w_tasks_running := 0,
      w_tasks_completed := w_tasks_completed ?w + of_nat (count_if (\<lambda>st. st = 0) (map snd rs)),
      w_tasks_failed := w_tasks_failed ?w + of_nat (count_if (\<lambda>st. st \<noteq> 0) (map snd rs))\<rparr>"
    by (rule fold_finish) (use ts len in simp_all)
  then have "fold finish (map snd rs) ?w = w\<lparr>
      w_tasks_completed := w_tasks_completed w + of_nat (count_if (\<lambda>r. snd r = 0) rs),
      w_tasks_failed := w_tasks_failed w + of_nat (count_if (\<lambda>r. snd r \<noteq> 0) rs)\<rparr>"
    using w(2,3) by (cases w) (simp add: filter_map o_def)
  moreover have reg2: "reg s2 = (reg s)(wid \<mapsto> ?w)" using s2(3) reg1 by simp
  ultimately have "reg s3 = (reg s)(wid \<mapsto> w\<lparr>
      w_tasks_completed := w_tasks_completed w + of_nat (count_if (\<lambda>r. snd r = 0) rs),
      w_tasks_failed := w_tasks_failed w + of_nat (count_if (\<lambda>r. snd r \<noteq> 0) rs)\<rparr>)"
    using s3(4) by simp
  then show thesis
    using s1(7) s2(2,6) s3(3) tracked by (intro that [OF mark_worker_busy_eq s2(1) s3(1) reg2 _ s3(2)]) blast+
qed

end
