(* ===== verification/Coordinator_Props.thy ===== *)
theory Coordinator_Props
  imports Coordinator Worker_Props Scheduler_Steps
begin

text \<open>
  A pass of the coordinator's loop is defined, keeps every invariant, and loses no task: what
  leaves the queue was sent to a worker, is tracked by the scheduler, or is back in the queue.
  The condition is that no worker asks for batches larger than the array they are built in.
\<close>

section \<open>Building a batch\<close>

lemma create_task_batch_upto:
  "i + n \<le> BATCH_ARRAY \<Longrightarrow> create_task_batch q i n = dequeue_upto heap_deq n q"
proof (induction n arbitrary: q i)
  case 0
  then show ?case by simp
next
  case (Suc n)
  have "create_task_batch q' (Suc i) n = dequeue_upto heap_deq n q'" for q' using Suc by simp
  moreover have "\<not> BATCH_ARRAY \<le> i" using Suc.prems by simp
  ultimately show ?case by (simp cong: if_cong)
qed

lemma create_task_batch_ok:
  assumes "client_queue q" "n \<le> BATCH_ARRAY"
  obtains q' where "create_task_batch q 0 n = Some (take n (tq_tasks q), q')" "client_queue q'"
    "tq_tasks q' = drop n (tq_tasks q)" "same_config q q'"
proof -
  obtain q' where "dequeue_upto heap_deq n q = Some (take n (tq_tasks q), q')" "client_queue q'"
      "tq_tasks q' = drop n (tq_tasks q)" "same_config q q'"
    by (rule take_upto_ok [OF assms(1)])
  with create_task_batch_upto [of 0 n q] assms(2) show thesis by (intro that) simp_all
qed

text \<open>A larger batch from a longer queue is written outside the array.\<close>

lemma create_task_batch_overflow:
  "client_queue q \<Longrightarrow> i \<le> BATCH_ARRAY \<Longrightarrow> BATCH_ARRAY < i + n \<Longrightarrow> BATCH_ARRAY < i + length (tq_tasks q)
    \<Longrightarrow> create_task_batch q i n = None"
proof (induction n arbitrary: q i)
  case 0
  then show ?case by simp
next
  case (Suc n)
  from Suc.prems(1) show ?case
  proof (cases rule: deq_cases)
    case (1 t)
    with Suc.prems show ?thesis by simp
  next
    case (2 t ts q')
    show ?thesis
    proof (cases "i \<ge> BATCH_ARRAY")
      case True
      with 2 show ?thesis by simp
    next
      case False
      with 2 Suc.prems Suc.IH [of q' "Suc i"] show ?thesis by simp
    qed
  qed
qed

section \<open>The batch message\<close>

definition coord_env_ok :: "coord_env \<Rightarrow> bool" where
  "coord_env_ok ce \<longleftrightarrow> alloc_law (ce_malloc ce) \<and> length (ce_pad ce) = 8 \<and>
     node_allocator (ce_malloc_node ce)"

lemma length_batch_payload:
  "length pad = 8 \<Longrightarrow> length (batch_payload pad ts) = 4 + length ts * sizeof_task"
  by (simp add: batch_payload_def length_tasks_bytes)

lemma batch_payload_small:
  "length pad = 8 \<Longrightarrow> length ts \<le> BATCH_ARRAY \<Longrightarrow> length (batch_payload pad ts) < 2 ^ 32"
  by (simp add: length_batch_payload sizeof_task_def BATCH_ARRAY_def)

text \<open>What a worker unpacks from a batch message is the batch.\<close>

lemma unpack_batch_payload:
  assumes "carries m mt tid (batch_payload pad ts)" "length pad = 8" "length ts < 2 ^ 32"
  shows "unpack_batch m = Some ts"
proof -
  let ?b = "batch_payload pad ts"
  have p: "m_payload m = Some ?b" "unat (h_payload_len (m_header m)) = length ?b"
    using assms(1) length_batch_payload [OF assms(2), of ts] by (auto simp: carries_def)
  have "rd32 0 ?b = of_nat (length ts)"
    by (simp add: rd_defs batch_payload_def le_roundtrip)
  then have n: "unat (rd32 0 ?b) = length ts" using assms(3) by (simp add: unat_of_nat_32)
  have "drop 4 ?b = tasks_bytes pad ts" by (simp add: batch_payload_def)
  then have "read_tasks (length ts) (drop 4 ?b) = Some ts"
    using read_tasks_bytes [OF assms(2), of ts "[]"] by simp
  then show ?thesis using p n length_batch_payload [OF assms(2), of ts]
    by (simp add: unpack_batch_def)
qed

section \<open>The scheduler in the loop\<close>

text \<open>No worker asks for more than the array holds.\<close>

definition sched_fits :: "scheduler \<Rightarrow> bool" where
  "sched_fits s \<longleftrightarrow> sched_inv s \<and>
     (\<forall>wid w. reg s wid = Some w \<longrightarrow> unat (w_max_batch_size w) \<le> BATCH_ARRAY)"

lemma idle_workers_fit:
  assumes "sched_fits s"
  shows "\<forall>w \<in> set (snd (scheduler_get_idle_workers (Some s) True 256)). unat (w_max_batch_size w) \<le> BATCH_ARRAY"
proof
  fix w
  assume "w \<in> set (snd (scheduler_get_idle_workers (Some s) True 256))"
  then have "w \<in> set (s_workers s)"
    using get_idle_workers_take [of 256 s] by (auto simp: Let_def dest: in_set_takeD)
  moreover have "distinct (map w_worker_id (s_workers s))" using assms by (simp add: sched_fits_def sched_inv_def)
  ultimately have "reg s (w_worker_id w) = Some w" by (simp add: registry_iff)
  then show "unat (w_max_batch_size w) \<le> BATCH_ARRAY" using assms by (auto simp: sched_fits_def)
qed

lemma sched_fits_update:
  assumes "sched_fits s" "sched_inv s'" "reg s' = (reg s)(wid := map_option f (reg s wid))"
    "\<And>w. w_max_batch_size (f w) = w_max_batch_size w"
  shows "sched_fits s'"
  using assms by (auto simp: sched_fits_def)

lemma sched_fits_busy: "sched_fits s \<Longrightarrow> \<exists>s'. scheduler_mark_worker_busy (Some s) wid n = Some s' \<and> sched_fits s'"
  unfolding mark_worker_busy_eq
  by (intro exI conjI, rule refl)
    (rule sched_fits_update [OF _ busy.on_worker_inv busy.on_worker_reg], auto simp: sched_fits_def occupy_def)

lemma sched_fits_heartbeat: "sched_fits s \<Longrightarrow> \<exists>s'. scheduler_update_heartbeat (Some s) wid t = Some s' \<and> sched_fits s'"
  unfolding update_heartbeat_eq
  by (intro exI conjI, rule refl)
    (rule sched_fits_update [OF _ heartbeat.on_worker_inv heartbeat.on_worker_reg], auto simp: sched_fits_def revive_def)

lemma sched_fits_complete:
  assumes "sched_fits s"
  shows "\<exists>rc s'. scheduler_mark_task_complete (Some s) tid st = (rc, Some s') \<and> sched_fits s'"
proof (cases "task_entry s tid")
  case None
  with assms show ?thesis by (simp add: mark_task_complete_eq del: scheduler_mark_task_complete.simps)
next
  case (Some i)
  let ?s = "s\<lparr>s_tasks := (s_tasks s)[i := (s_tasks s ! i)\<lparr>ti_status := st\<rparr>]\<rparr>"
  have fits: "sched_fits ?s" using assms sched_inv_tasks [of s] by (auto simp: sched_fits_def)
  have "sched_fits (on_worker (finish st) (finish_stats st) (ti_worker_id (s_tasks s ! i)) ?s)"
    by (rule sched_fits_update [OF fits completion.on_worker_inv completion.on_worker_reg])
      (use fits in \<open>auto simp: sched_fits_def finish_def Let_def\<close>)
  with Some show ?thesis by (simp add: mark_task_complete_eq del: scheduler_mark_task_complete.simps)
qed

lemma sched_fits_track:
  assumes "sched_fits s"
  shows "\<exists>rc s'. scheduler_track_task (Some s) tid wid t t' = (rc, Some s') \<and> sched_fits s'"
  using assms by (auto simp: sched_fits_def sched_inv_def)

lemma sched_fits_timeouts:
  assumes "sched_fits s"
  shows "\<exists>n s'. scheduler_check_timeouts (Some s) t = (n, Some s') \<and> sched_fits s'"
proof -
  have inv: "sched_inv s" using assms by (simp add: sched_fits_def)
  obtain s' where "scheduler_check_timeouts (Some s) t
        = (int (count_if (expires t (s_heartbeat_timeout_secs s)) (s_workers s)), Some s')" "sched_inv s'"
      "reg s' = (\<lambda>wid. map_option (expire t (s_heartbeat_timeout_secs s)) (reg s wid))"
    by (rule check_timeouts_ok [OF inv])
  with assms show ?thesis by (auto simp: sched_fits_def expire_def split: if_splits)
qed

lemma sched_fits_register:
  assumes "sched_fits s" "unat (w_max_batch_size info) \<le> BATCH_ARRAY"
  shows "\<exists>rc s'. scheduler_register_worker (Some s) (Some info) t t' = (rc, Some s') \<and> sched_fits s'"
proof (cases "length (s_workers s) < unat (s_max_workers s)")
  case False
  with assms(1) show ?thesis by simp
next
  case True
  have inv: "sched_inv s" using assms by (simp add: sched_fits_def)
  obtain s' where "scheduler_register_worker (Some s) (Some info) t t' = (0, Some s')" "sched_inv s'"
      "reg s' = (reg s)(w_worker_id info \<mapsto> enrol info t t' (reg s (w_worker_id info)))"
    by (rule register_ok [OF inv True])
  with assms show ?thesis
    by (auto simp: sched_fits_def enrol_def Let_def split: option.splits if_splits)
qed

section \<open>Sending a batch\<close>

definition coord_queue_sched :: "'i coordinator \<Rightarrow> bool" where
  "coord_queue_sched c \<longleftrightarrow> client_queue (co_queue c) \<and> (\<exists>s. co_sched c = Some s \<and> sched_fits s)"

lemma track_batch_ok:
  "\<exists>s. co_sched c = Some s \<and> sched_fits s \<Longrightarrow>
    \<exists>s. co_sched (track_batch wid ts c) = Some s \<and> sched_fits s"
proof (induction ts arbitrary: c)
  case Nil
  then show ?case by simp
next
  case (Cons t ts)
  then obtain s where s: "co_sched c = Some s" "sched_fits s" by blast
  from sched_fits_track [OF s(2)] obtain rc s' where
    s': "scheduler_track_task (Some s) (t_task_id t) wid (now c) (later c) = (rc, Some s')" "sched_fits s'"
    by blast
  show ?case using s s' by (auto intro!: Cons.IH simp: tick_def simp del: scheduler_track_task.simps)
qed

lemma track_batch_frame [simp]:
  "co_queue (track_batch wid ts c) = co_queue c" "co_transport (track_batch wid ts c) = co_transport c"
  "co_meta (track_batch wid ts c) = co_meta c"
  by (induction ts arbitrary: c) (simp_all add: tick_def)

context transport_backend
begin

lemma send_task_batch_total:
  assumes "runs_on vt ok tr" "coord_env_ok ce" "length batch \<le> BATCH_ARRAY"
  shows "\<exists>rc tr'. send_task_batch ce tr wid batch = Some (rc, tr') \<and> runs_on vt ok tr'"
proof -
  let ?b = "batch_payload (ce_pad ce) batch"
  have small: "length ?b < 2 ^ 32" and law: "alloc_law (ce_malloc ce)"
    using assms(2,3) batch_payload_small by (auto simp: coord_env_ok_def)
  have "packed_message (ce_calloc ce) (ce_malloc ce) MSG_TYPE_TASK_SUBMIT (t_task_id (hd batch)) ?b = Some m
      \<Longrightarrow> complete_message m" for m
    using packed_message_carries [OF small law] by (auto simp: carries_def)
  then obtain rc tr' where "send_task_batch ce tr wid batch = Some (rc, tr')" "runs_on vt ok tr'"
    unfolding send_task_batch_def by (rule send_packed_total [OF assms(1)])
  then show ?thesis by blast
qed

text \<open>One idle worker: the tasks of the queue are sent or still there.\<close>

lemma serve_worker_ok:
  assumes c: "runs_on vt ok (co_transport c)" "coord_queue_sched c" and ce: "coord_env_ok ce"
    and w: "unat (w_max_batch_size w) \<le> BATCH_ARRAY"
  obtains sent c' where "serve_worker ce w c = Some (sent, c')" "runs_on vt ok (co_transport c')"
    "coord_queue_sched c'" "mset (tq_tasks (co_queue c)) = mset sent + mset (tq_tasks (co_queue c'))"
proof -
  let ?n = "if w_max_batch_size w > 0 then unat (w_max_batch_size w) else 10"
  have n: "?n \<le> BATCH_ARRAY" using w by (simp add: BATCH_ARRAY_def)
  have q: "client_queue (co_queue c)" using c(2) by (simp add: coord_queue_sched_def)
  obtain s where s: "co_sched c = Some s" "sched_fits s" using c(2) by (auto simp: coord_queue_sched_def)
  obtain q1 where q1: "create_task_batch (co_queue c) 0 ?n = Some (take ?n (tq_tasks (co_queue c)), q1)"
      "client_queue q1" "tq_tasks q1 = drop ?n (tq_tasks (co_queue c))" "same_config (co_queue c) q1"
    by (rule create_task_batch_ok [OF q n])
  define batch where "batch = take ?n (tq_tasks (co_queue c))"
  have split: "tq_tasks (co_queue c) = batch @ tq_tasks q1" using q1(3) by (simp add: batch_def)
  have made: "create_task_batch (co_queue c) 0 ?n = Some (batch, q1)" using q1(1) by (simp add: batch_def)
  show thesis
  proof (cases "batch = []")
    case True
    with made split q1(2) c show thesis
      by (intro that [of "[]" "c\<lparr>co_queue := q1\<rparr>"]) (simp_all add: serve_worker_def coord_queue_sched_def Let_def)
  next
    case False
    have "length batch \<le> BATCH_ARRAY" using n by (simp add: batch_def)
    from send_task_batch_total [OF c(1) ce this, of "w_worker_id w"] obtain rc tr where
      tr: "send_task_batch ce (co_transport c) (w_worker_id w) batch = Some (rc, tr)" "runs_on vt ok tr"
      by blast
    show thesis
    proof (cases "rc = 0")
      case True
      from sched_fits_busy [OF s(2)] obtain s1 where
        s1: "scheduler_mark_worker_busy (Some s) (w_worker_id w) (of_nat (length batch)) = Some s1" "sched_fits s1"
        by blast
      let ?c = "c\<lparr>co_queue := q1, co_transport := tr, co_sched := Some s1\<rparr>"
      have "\<exists>s. co_sched (track_batch (w_worker_id w) batch ?c) = Some s \<and> sched_fits s"
        by (rule track_batch_ok) (use s1 in simp)
      then show thesis
        using False made split q1(2) tr True s(1) s1(1)
        by (intro that [of batch "track_batch (w_worker_id w) batch ?c"])
          (simp_all add: serve_worker_def coord_queue_sched_def Let_def del: scheduler_mark_worker_busy.simps)
    next
      case fail: False
      have fresh: "node_allocator (ce_malloc_node ce)" using ce by (simp add: coord_env_ok_def)
      obtain rcs q2 where q2: "enqueue_all heap_enq (ce_malloc_node ce) batch q1 = Some (rcs, q2)" "client_queue q2"
          "mset (tq_tasks q2) = mset (tq_tasks (co_queue c))"
        by (rule requeue_ok [OF q split q1(4,2) fresh])
      with False fail made tr c s show thesis
        by (intro that [of "[]" "c\<lparr>co_queue := q2, co_transport := tr\<rparr>"])
          (simp_all add: serve_worker_def coord_queue_sched_def Let_def)
    qed
  qed
qed

lemma serve_workers_ok:
  assumes "coord_env_ok ce"
  shows "runs_on vt ok (co_transport c) \<Longrightarrow> coord_queue_sched c
    \<Longrightarrow> \<forall>w \<in> set ws. unat (w_max_batch_size w) \<le> BATCH_ARRAY
    \<Longrightarrow> \<exists>sent c'. serve_workers ce ws c = Some (sent, c') \<and> runs_on vt ok (co_transport c') \<and>
      coord_queue_sched c' \<and>
      mset (tq_tasks (co_queue c)) = mset (concat (map snd sent)) + mset (tq_tasks (co_queue c'))"
proof (induction ws arbitrary: c)
  case Nil
  then show ?case by simp
next
  case (Cons w ws)
  show ?case
  proof (cases "task_queue_is_empty (Some (co_queue c)) \<noteq> 0")
    case True
    with Cons.prems show ?thesis by (simp del: task_queue_is_empty.simps)
  next
    case False
    obtain sent c1 where c1: "serve_worker ce w c = Some (sent, c1)" "runs_on vt ok (co_transport c1)"
        "coord_queue_sched c1" "mset (tq_tasks (co_queue c)) = mset sent + mset (tq_tasks (co_queue c1))"
      by (rule serve_worker_ok [OF Cons.prems(1,2) assms]) (use Cons.prems(3) in auto)
    have "\<forall>w \<in> set ws. unat (w_max_batch_size w) \<le> BATCH_ARRAY" using Cons.prems(3) by simp
    from Cons.IH [OF c1(2,3) this] obtain rest c2 where
      "serve_workers ce ws c1 = Some (rest, c2)" "runs_on vt ok (co_transport c2)" "coord_queue_sched c2"
      "mset (tq_tasks (co_queue c1)) = mset (concat (map snd rest)) + mset (tq_tasks (co_queue c2))"
      by blast
    with False c1 show ?thesis by (simp del: task_queue_is_empty.simps)
  qed
qed

end

section \<open>Receiving\<close>

text \<open>A registration whose batch size fits the array.\<close>

definition registration_fits :: "message_t \<Rightarrow> bool" where
  "registration_fits m \<longleftrightarrow>
     (h_msg_type (m_header m) = MSG_TYPE_WORKER_REGISTER \<longrightarrow>
      (\<forall>bytes. m_payload m = Some bytes \<longrightarrow> unat (rd32 4 bytes) \<le> BATCH_ARRAY))"

definition registrations_fit :: "'i transport \<Rightarrow> bool" where
  "registrations_fit tr \<longleftrightarrow>
     (\<forall>old m src i. transport_recv (Some tr) (Some old) = Some (Some m, src, i) \<longrightarrow> registration_fits m)"

lemma registration_info_ok:
  assumes "complete_message m" "registration_fits m" "h_msg_type (m_header m) = MSG_TYPE_WORKER_REGISTER"
  obtains info where "registration_info wid t m = Some info" "unat (w_max_batch_size info) \<le> BATCH_ARRAY"
    "w_worker_id info = of_int wid" "0 < w_num_local_ranks info" "0 < w_max_batch_size info"
proof -
  have len: "12 \<le> length bytes" if "m_payload m = Some bytes" "h_payload_len (m_header m) \<ge> 12" for bytes
  proof -
    have "length bytes = unat (h_payload_len (m_header m))"
      using assms(1) that(1) by (simp add: complete_message_def message_wf_def)
    then show ?thesis using that(2) by (simp add: word_le_nat_alt)
  qed
  have fit: "unat (rd32 4 bytes) \<le> BATCH_ARRAY" if "m_payload m = Some bytes" for bytes
    using assms(2,3) that by (simp add: registration_fits_def)
  have big: "10 \<le> BATCH_ARRAY" by (simp add: BATCH_ARRAY_def)
  have "\<exists>info. registration_info wid t m = Some info \<and> unat (w_max_batch_size info) \<le> BATCH_ARRAY \<and>
      w_worker_id info = of_int wid \<and> 0 < w_num_local_ranks info \<and> 0 < w_max_batch_size info"
    using len fit big
    by (cases "m_payload m"; cases "h_payload_len (m_header m) \<ge> 12")
      (auto simp: registration_info_def zero_worker_def Let_def word_gt_0 not_less)
  with that show thesis by blast
qed

lemma handle_task_result_ok:
  assumes "complete_message m" "coord_queue_sched c"
  shows "\<exists>c'. handle_task_result wid m c = Some c' \<and> coord_queue_sched c' \<and>
    co_transport c' = co_transport c \<and> co_queue c' = co_queue c"
proof -
  obtain s where s: "co_sched c = Some s" "sched_fits s" using assms(2) by (auto simp: coord_queue_sched_def)
  have len: "sizeof_result \<le> length bytes"
    if "m_payload m = Some bytes" "sizeof_result \<le> unat (h_payload_len (m_header m))" for bytes
    using assms(1) that by (simp add: complete_message_def message_wf_def)
  show ?thesis
  proof (cases "m_payload m")
    case None
    with assms(2) show ?thesis by (simp add: handle_task_result_def)
  next
    case (Some bytes)
    let ?r = "result_of_bytes bytes"
    from sched_fits_complete [OF s(2)] obtain rc s' where
      "scheduler_mark_task_complete (Some s) (r_task_id ?r) (sint (r_status ?r)) = (rc, Some s')" "sched_fits s'"
      by blast
    with Some s assms(2) len [OF Some] show ?thesis
      by (cases "unat (h_payload_len (m_header m)) < sizeof_result")
        (simp_all add: handle_task_result_def coord_queue_sched_def Let_def del: scheduler_mark_task_complete.simps)
  qed
qed

lemma handle_worker_register_ok:
  assumes m: "complete_message m" "registration_fits m" "h_msg_type (m_header m) = MSG_TYPE_WORKER_REGISTER"
    and c: "coord_queue_sched c"
  shows "\<exists>c'. handle_worker_register wid m c = Some c' \<and> coord_queue_sched c' \<and>
    co_transport c' = co_transport c \<and> co_queue c' = co_queue c"
proof -
  obtain s where s: "co_sched c = Some s" "sched_fits s" using c by (auto simp: coord_queue_sched_def)
  obtain info where info: "registration_info wid (now c) m = Some info" "unat (w_max_batch_size info) \<le> BATCH_ARRAY"
    by (rule registration_info_ok [OF m])
  from sched_fits_register [OF s(2) info(2)] obtain rc s' where
    "scheduler_register_worker (Some s) (Some info) (now (tick 1 c)) (later (tick 1 c)) = (rc, Some s')" "sched_fits s'"
    by blast
  with info(1) s(1) c show ?thesis
    by (simp add: handle_worker_register_def coord_queue_sched_def tick_def Let_def
        del: scheduler_register_worker.simps)
qed

lemma handle_heartbeat_ok:
  assumes c: "coord_queue_sched c"
  shows "coord_queue_sched (handle_heartbeat wid c) \<and>
    co_transport (handle_heartbeat wid c) = co_transport c \<and> co_queue (handle_heartbeat wid c) = co_queue c"
proof -
  obtain s where s: "co_sched c = Some s" "sched_fits s" using c by (auto simp: coord_queue_sched_def)
  from sched_fits_heartbeat [OF s(2)] obtain s' where
    "scheduler_update_heartbeat (Some s) (of_int wid) (now c) = Some s'" "sched_fits s'" by blast
  with s(1) c show ?thesis
    by (simp add: handle_heartbeat_def coord_queue_sched_def tick_def del: scheduler_update_heartbeat.simps)
qed

lemma coordinator_receive_queue:
  assumes "coordinator_receive ce c = Some c'"
  shows "co_queue c' = co_queue c"
  using assms
  by (auto simp: coordinator_receive_def handle_worker_register_def handle_heartbeat_def handle_task_result_def tick_def Let_def
      split: bind_splits option.splits if_splits prod.splits)

context transport_backend
begin

lemma coordinator_receive_ok:
  assumes c: "runs_on vt ok (co_transport c)" "coord_queue_sched c" and fit: "registrations_fit (co_transport c)"
  obtains c' where "coordinator_receive ce c = Some c'" "runs_on vt ok (co_transport c')" "coord_queue_sched c'"
    "co_queue c' = co_queue c"
proof -
  obtain msg src i where r: "transport_recv (Some (co_transport c)) (Some (ce_src ce)) = Some (msg, Some src, i)"
      "runs_on vt ok ((co_transport c)\<lparr>tr_impl := i\<rparr>)" "\<forall>m. msg = Some m \<longrightarrow> complete_message m"
    by (rule transport_recv_total [OF c(1)])
  let ?c1 = "c\<lparr>co_transport := (co_transport c)\<lparr>tr_impl := i\<rparr>\<rparr>"
  have c1: "coord_queue_sched ?c1" using c(2) by (simp add: coord_queue_sched_def)
  show thesis
  proof (cases msg)
    case None
    with r c1 show thesis by (intro that [of ?c1]) (simp_all add: coordinator_receive_def Let_def)
  next
    case (Some m)
    have m: "complete_message m" "registration_fits m"
      using r(1,3) Some fit by (auto simp: registrations_fit_def)
    note handlers = handle_worker_register_ok [OF m _ c1, of src] handle_heartbeat_ok [OF c1, of src]
      handle_task_result_ok [OF m(1) c1, of src]
    have "\<exists>c'. coordinator_receive ce c = Some c' \<and> coord_queue_sched c' \<and>
        co_transport c' = co_transport ?c1 \<and> co_queue c' = co_queue ?c1"
      using r(1) Some handlers c1
      by (simp add: coordinator_receive_def Let_def)
    then show thesis using that r(2) by auto
  qed
qed

text \<open>One pass of the coordinator.\<close>

lemma coordinator_pass_ok:
  assumes c: "runs_on vt ok (co_transport c)" "coord_queue_sched c" and fit: "registrations_fit (co_transport c)"
    and ce: "coord_env_ok ce"
  obtains sent c' where "coordinator_pass ce c = Some (sent, c')" "runs_on vt ok (co_transport c')"
    "coord_queue_sched c'"
    "mset (tq_tasks (co_queue c)) = mset (concat (map snd sent)) + mset (tq_tasks (co_queue c'))"
proof -
  obtain c1 where c1: "coordinator_receive ce c = Some c1" "runs_on vt ok (co_transport c1)"
      "coord_queue_sched c1" "co_queue c1 = co_queue c"
    by (rule coordinator_receive_ok [OF c fit])
  obtain s1 where s1: "co_sched c1 = Some s1" "sched_fits s1" using c1(3) by (auto simp: coord_queue_sched_def)
  let ?idle = "snd (scheduler_get_idle_workers (co_sched c1) True 256)"
  have "\<forall>w \<in> set ?idle. unat (w_max_batch_size w) \<le> BATCH_ARRAY"
    using idle_workers_fit [OF s1(2)] s1(1) by simp
  from serve_workers_ok [OF ce c1(2,3) this] obtain sent c2 where
    c2: "serve_workers ce ?idle c1 = Some (sent, c2)" "runs_on vt ok (co_transport c2)" "coord_queue_sched c2"
      "mset (tq_tasks (co_queue c1)) = mset (concat (map snd sent)) + mset (tq_tasks (co_queue c2))"
    by blast
  obtain s2 where s2: "co_sched c2 = Some s2" "sched_fits s2" using c2(3) by (auto simp: coord_queue_sched_def)
  from sched_fits_timeouts [OF s2(2)] obtain n s3 where
    s3: "scheduler_check_timeouts (Some s2) (now c2) = (n, Some s3)" "sched_fits s3" by blast
  show thesis
    by (rule that [of sent "tick 1 (c2\<lparr>co_sched := Some s3\<rparr>)"])
      (use c1 c2 s2 s3 in \<open>simp_all add: coordinator_pass_def coord_queue_sched_def tick_def
        del: scheduler_check_timeouts.simps scheduler_get_idle_workers.simps\<close>)
qed

end
section \<open>Loading tasks\<close>

lemma load_lines_enqueue:
  "load_lines malloc lines taken q = do {
     (rcs, q') \<leftarrow> enqueue_all heap_enq malloc (List.map_filter scan_task lines) q;
     Some (taken + int (count_if (\<lambda>rc. rc = 0) rcs), q')
   }"
proof (induction lines arbitrary: taken q)
  case Nil
  then show ?case by simp
next
  case (Cons line lines)
  show ?case
  proof (cases "scan_task line")
    case None
    with Cons show ?thesis by simp
  next
    case (Some t)
    with Cons show ?thesis by (cases "heap_enq q t (malloc q)") (auto simp: ac_simps split: bind_splits)
  qed
qed

lemma load_lines_ok:
  assumes "client_queue q" "node_allocator malloc" "heap_capacity q = Some k"
    and "length (tq_tasks q) + length (List.map_filter scan_task lines) \<le> k"
    and "distinct (map t_task_id (List.map_filter scan_task lines @ tq_tasks q))"
  obtains q' where "load_lines malloc lines 0 q = Some (int (length (List.map_filter scan_task lines)), q')"
    "client_queue q'" "tq_tasks q' = fold pq_insert (List.map_filter scan_task lines) (tq_tasks q)"
proof -
  let ?ts = "List.map_filter scan_task lines"
  obtain rcs q' where q': "enqueue_all heap_enq malloc ?ts q = Some (rcs, q')" "client_queue q'"
      "tq_tasks q' = fold pq_insert ?ts (tq_tasks q)"
    by (rule enqueue_new_ok [OF assms(1-4)]) (use assms(5) in simp)
  have mal: "\<And>q. malloc q = 0 \<or> heap_fresh q (malloc q)" using assms(2) by (simp add: node_allocator_def)
  have len: "length rcs = length ?ts"
    and m: "mset (tq_tasks q') = mset (map fst (filter (\<lambda>(t, rc). rc = 0) (zip ?ts rcs))) + mset (tq_tasks q)"
    using enqueue_all_any [OF mal assms(1), of ?ts] q'(1) by auto
  have zip: "count_if (\<lambda>(t, rc). P rc) (zip xs ys) = count_if P ys" if "length ys = length xs" for P xs and ys :: "c_int list"
    using that by (induction xs ys rule: list_induct2') auto
  have "length (tq_tasks q') = count_if (\<lambda>rc. rc = 0) rcs + length (tq_tasks q)"
    using mset_eq_length [of "tq_tasks q'" "map fst (filter (\<lambda>(t, rc). rc = 0) (zip ?ts rcs)) @ tq_tasks q"] m
      zip [OF len, of "\<lambda>rc. rc = 0"]
    by (simp add: split_beta)
  moreover have "length (tq_tasks q') = length ?ts + length (tq_tasks q)"
    using arg_cong [OF fold_pq_insert_mset, of size ?ts "tq_tasks q"] q'(3) by simp
  ultimately show thesis using q' by (intro that [of q']) (simp_all add: load_lines_enqueue)
qed

text \<open>A line with the four numbers of a task, with white space in front of each.\<close>

lemma scan_task_line:
  assumes "\<forall>c \<in> set (s1 @ s2 @ s3 @ s4). is_space c" "s2 \<noteq> []" "s3 \<noteq> []" "s4 \<noteq> []"
    and "rest = [] \<or> \<not> is_digit (hd rest)"
  shows "scan_task (s1 @ dec_nat (unat tid) @ s2 @ dec_nat (unat model) @ s3 @ dec_nat (unat insz) @ s4 @
      dec_nat (unat outsz) @ rest)
    = Some (zero_task\<lparr>t_task_id := tid, t_model_id := model, t_input_size := insz, t_output_size := outsz,
        t_api_version := API_VERSION_CURRENT, t_trace_id := tid, t_timeout_secs := 300\<rparr>)"
proof -
  have next_digit: "s @ r = [] \<or> \<not> is_digit (hd (s @ r))" if "s \<noteq> []" "\<forall>c \<in> set s. is_space c" for s r
    using that digit_not_special by (cases s) auto
  have w64: "unat (x :: u64) < 2 ^ 64" and w32: "unat (y :: u32) < 2 ^ 32" for x y
    using unsigned_less [of x, where 'a = nat] unsigned_less [of y, where 'a = nat] by simp_all
  have sp: "\<forall>c \<in> set s1. is_space c" "\<forall>c \<in> set s2. is_space c" "\<forall>c \<in> set s3. is_space c" "\<forall>c \<in> set s4. is_space c"
    using assms(1) by auto
  let ?r4 = "s4 @ dec_nat (unat outsz) @ rest"
  let ?r3 = "s3 @ dec_nat (unat insz) @ ?r4"
  let ?r2 = "s2 @ dec_nat (unat model) @ ?r3"
  have "scan_unsigned 64 (s1 @ dec_nat (unat tid) @ ?r2) = Some (unat tid, ?r2)"
    by (rule scan_dec_nat [OF w64 order_refl sp(1)]) (rule next_digit [OF assms(2) sp(2)])
  moreover have "scan_unsigned 32 ?r2 = Some (unat model, ?r3)"
    by (rule scan_dec_nat [OF w32 _ sp(2)], simp, rule next_digit [OF assms(3) sp(3)])
  moreover have "scan_unsigned 64 ?r3 = Some (unat insz, ?r4)"
    by (rule scan_dec_nat [OF w64 order_refl sp(3)]) (rule next_digit [OF assms(4) sp(4)])
  moreover have "scan_unsigned 64 ?r4 = Some (unat outsz, rest)"
    by (rule scan_dec_nat [OF w64 order_refl sp(4) assms(5)])
  ultimately show ?thesis unfolding scan_task_def by (simp add: zero_task_def)
qed

section \<open>A run without tasks\<close>

text \<open>A coordinator whose queue is empty at the start dispatches nothing.\<close>

lemma run_without_tasks:
  assumes "coordinator_run ces c = Some (sent, c')" "tq_inv (co_queue c)" "tq_tasks (co_queue c) = []"
  shows "sent = []"
  using assms
proof (induction ces arbitrary: c sent)
  case (Cons ce ces)
  from Cons.prems(1) obtain sent1 c1 rest where
    c1: "coordinator_pass ce c = Some (sent1, c1)" "coordinator_run ces c1 = Some (rest, c')" "sent = sent1 @ rest"
    by (auto split: bind_splits)
  then obtain c2 where c2: "coordinator_receive ce c = Some c2"
    by (auto simp: coordinator_pass_def split: bind_splits)
  have q: "co_queue c2 = co_queue c" by (rule coordinator_receive_queue [OF c2])
  have "task_queue_is_empty (Some (co_queue c2)) \<noteq> 0"
    using Cons.prems(2,3) tq_inv_size [of "co_queue c"] q by (auto simp: unat_eq_zero)
  then have "serve_workers ce ws c2 = Some ([], c2)" for ws by (cases ws) (auto simp del: task_queue_is_empty.simps)
  with c1(1) c2 have s1: "sent1 = []" "co_queue c1 = co_queue c2"
    by (auto simp: coordinator_pass_def tick_def simp del: scheduler_check_timeouts.simps scheduler_get_idle_workers.simps)
  from Cons.IH [OF c1(2)] Cons.prems(2,3) q s1 c1(3) show ?case by simp
qed simp

lemma coordinator_main_idle:
  assumes "coordinator_main tr clock ces given lines = Some (sent, rc)"
  shows "sent = []"
proof -
  from assms obtain c c' where c: "coordinator_start tr True True True clock = Some c" "coordinator_run ces c = Some (sent, c')"
    by (auto simp: coordinator_main_def split: bind_splits)
  then have create: "task_queue_create (Some coordinator_queue_config) True = Some (co_queue c)"
    by (auto simp: coordinator_start_def split: bind_splits)
  from run_without_tasks [OF c(2)] tq_create [OF create] show ?thesis by blast
qed

lemma coordinator_main_uses_freed:
  assumes "List.map_filter scan_task lines \<noteq> []"
  shows "coordinator_main tr clock ces True (Some lines) = None"
  using assms by (cases "coordinator_main tr clock ces True (Some lines)")
    (auto simp: coordinator_main_def load_into_freed_def split: bind_splits)

end
