(* ===== verification/Cluster_Links.thy ===== *)
theory Cluster_Links
  imports Coordinator_Props
begin

text \<open>
  Coordinator and worker on the two ends of a ZeroMQ connection: what a worker packs into a message
  reaches the coordinator's handlers, and what the coordinator packs reaches the worker's queue.
\<close>

section \<open>Transports on the ZeroMQ backend\<close>

definition zmq_on :: "zmq_transport \<Rightarrow> zmq_transport transport" where
  "zmq_on z = \<lparr>tr_type = TRANSPORT_TYPE_ZMQ, tr_vtable = Some zmq_vtable, tr_impl = Some z\<rparr>"

text \<open>The frames that wait in the socket of an endpoint.\<close>

definition receiving :: "(u8 list + c_int) list \<Rightarrow> zmq_transport \<Rightarrow> zmq_transport" where
  "receiving frs z = z\<lparr>z_env := (z_env z)\<lparr>e_rx := frs\<rparr>\<rparr>"

lemma zmq_on_send: "transport_send (Some (zmq_on z)) msg dst = transport_zmq_send (Some z) msg dst"
  by (simp add: transport_send_def dispatch_def zmq_on_def zmq_vtable_def)

lemma zmq_on_recv: "transport_recv (Some (zmq_on z)) src = transport_zmq_recv (Some z) src"
  by (simp add: transport_recv_def dispatch_def zmq_on_def zmq_vtable_def)

lemma zmq_on_impl [simp]: "(zmq_on z)\<lparr>tr_impl := Some z'\<rparr> = zmq_on z'" "tr_impl (zmq_on z) = Some z"
  by (simp_all add: zmq_on_def)

lemma runs_on_zmq [simp]: "runs_on zmq_vtable zmq_ok (zmq_on z) = zmq_ok z"
  by (simp add: runs_on_def zmq_on_def)

lemma receiving_simps [simp]:
  "z_role (receiving frs z) = z_role z" "z_workers (receiving frs z) = z_workers z"
  "zmq_inv (receiving frs z) = zmq_inv z" "rank_of (receiving frs z) = rank_of z"
  "e_rx (z_env (receiving frs z)) = frs" "e_setsockopt_ok (z_env (receiving frs z)) = e_setsockopt_ok (z_env z)"
  "e_calloc_ok (z_env (receiving frs z)) = e_calloc_ok (z_env z)"
  "malloc_serves (z_env (receiving frs z)) n = malloc_serves (z_env z) n"
  by (simp_all add: receiving_def rank_of_def fun_eq_iff malloc_serves_def)

text \<open>An endpoint in a given role whose library calls succeed.\<close>

definition endpoint_up :: "transport_role \<Rightarrow> zmq_transport \<Rightarrow> bool" where
  "endpoint_up role z \<longleftrightarrow> z_role z = role \<and> zmq_inv z \<and> e_tx (z_env z) = [] \<and> e_setsockopt_ok (z_env z) \<and>
     e_calloc_ok (z_env z) \<and> (\<forall>n. malloc_serves (z_env z) n)"

text \<open>An allocator that serves every request.\<close>

definition allocates :: "bool \<Rightarrow> (size_t \<Rightarrow> u8 list option) \<Rightarrow> bool" where
  "allocates calloc_ok malloc \<longleftrightarrow> calloc_ok \<and> (\<forall>n. \<exists>block. malloc n = Some block \<and> length block = unat n)"

lemma packed_message_made:
  assumes "allocates ok malloc" "length bytes < 2 ^ 32"
  obtains m where "packed_message ok malloc mt tid bytes = Some m" "carries m mt tid bytes" "delivered m = m"
    "message_validate (Some m) = 0" "message_wf m"
proof -
  have "ok" using assms(1) by (simp add: allocates_def)
  moreover have "malloc (of_nat (length bytes)) \<noteq> None"
    using assms(1) unfolding allocates_def by (metis option.distinct(1))
  ultimately obtain m where m: "packed_message ok malloc mt tid bytes = Some m"
    using packed_message_total [of ok bytes malloc mt tid] by blast
  have "alloc_law malloc" unfolding alloc_law_def
  proof (intro allI impI)
    fix n block
    assume "malloc n = Some block"
    then show "length block = unat n" using assms(1) unfolding allocates_def by (metis option.inject)
  qed
  from packed_message_carries [OF assms(2) this m] m carries_delivered show thesis
    by (intro that [of m]) (auto simp: carries_def complete_message_def)
qed

section \<open>Worker to coordinator\<close>

lemma packed_to_coordinator:
  assumes "endpoint_up TRANSPORT_ROLE_WORKER w" "endpoint_up TRANSPORT_ROLE_COORDINATOR c"
    and "allocates ok malloc" "length bytes < 2 ^ 32"
    and "0 < length s" "length s < IDENTITY_LEN" "NUL \<notin> set s"
  obtains w' new c' m where
    "send_packed (zmq_on w) (packed_message ok malloc mt tid bytes) dst = Some (0, zmq_on w')"
    "e_sent (z_env w') = e_sent (z_env w) @ new"
    "transport_recv (Some (zmq_on (receiving (Inl (map byte_of_char s) # map (Inl \<circ> fst) new @ rest) c))) (Some old)
      = Some (Some m, Some (reported_rank c' s mt old), Some c')"
    "carries m mt tid bytes" "zmq_inv c'" "rank_of c \<subseteq>\<^sub>m rank_of c'" "e_rx (z_env c') = rest"
    "mt = MSG_TYPE_WORKER_REGISTER \<and> length (z_workers c) < MAX_WORKERS \<longrightarrow> rank_of c' s \<noteq> None"
proof -
  obtain m where m: "packed_message ok malloc mt tid bytes = Some m" "carries m mt tid bytes" "delivered m = m"
      "message_validate (Some m) = 0" "message_wf m"
    by (rule packed_message_made [OF assms(3,4)])
  have mt: "h_msg_type (m_header m) = mt" using m(2) by (simp add: carries_def)
  have w: "z_role w = TRANSPORT_ROLE_WORKER" "e_tx (z_env w) = []" using assms(1) by (auto simp: endpoint_up_def)
  obtain w' where w': "transport_zmq_send (Some w) (Some m) dst = Some (0, Some w')"
      "e_sent (z_env w') = e_sent (z_env w) @ frames m"
    by (rule worker_send [OF m(4,5) w])
  let ?c = "receiving (Inl (map byte_of_char s) # map (Inl \<circ> fst) (frames m) @ rest) c"
  have c: "zmq_inv ?c" "z_role ?c = TRANSPORT_ROLE_COORDINATOR" "e_setsockopt_ok (z_env ?c)" "e_calloc_ok (z_env ?c)"
    "malloc_serves (z_env ?c) (ucast (h_payload_len (m_header m)))"
    "e_rx (z_env ?c) = Inl (map byte_of_char s) # map (Inl \<circ> fst) (frames m) @ rest"
    using assms(2) by (simp_all add: endpoint_up_def)
  obtain c' where c': "transport_zmq_recv (Some ?c) (Some old)
      = Some (Some (delivered m), Some (reported_rank c' s (h_msg_type (m_header m)) old), Some c')"
    "zmq_inv c'" "rank_of ?c \<subseteq>\<^sub>m rank_of c'" "e_rx (z_env c') = rest"
    "h_msg_type (m_header m) = MSG_TYPE_WORKER_REGISTER \<and> length (z_workers ?c) < MAX_WORKERS \<longrightarrow> rank_of c' s \<noteq> None"
    by (rule worker_to_coordinator [OF m(4,5) c(1-5) assms(5-7) c(6), of old])
  show thesis
  proof (rule that [of w' "frames m" m c'])
    show "send_packed (zmq_on w) (packed_message ok malloc mt tid bytes) dst = Some (0, zmq_on w')"
      using m(1) w'(1) by (simp add: send_packed_def zmq_on_send del: transport_zmq_send.simps)
    show "transport_recv (Some (zmq_on ?c)) (Some old) = Some (Some m, Some (reported_rank c' s mt old), Some c')"
      using c'(1) m(3) mt by (simp add: zmq_on_recv del: transport_zmq_recv.simps)
  qed (use w'(2) m(2) c' mt in simp_all)
qed

section \<open>Coordinator to worker\<close>

lemma packed_to_worker:
  assumes "endpoint_up TRANSPORT_ROLE_COORDINATOR c" "endpoint_up TRANSPORT_ROLE_WORKER w"
    and "allocates ok malloc" "length bytes < 2 ^ 32" "rank_of c s = Some i"
  obtains c' new w' m where
    "send_packed (zmq_on c) (packed_message ok malloc mt tid bytes) (int i) = Some (0, zmq_on c')"
    "e_sent (z_env c') = e_sent (z_env c) @ (map byte_of_char s, True) # new" "rank_of c' = rank_of c"
    "transport_recv (Some (zmq_on (receiving (map (Inl \<circ> fst) new @ rest) w))) (Some old)
      = Some (Some m, Some old, Some w')"
    "carries m mt tid bytes" "e_rx (z_env w') = rest"
proof -
  obtain m where m: "packed_message ok malloc mt tid bytes = Some m" "carries m mt tid bytes" "delivered m = m"
      "message_validate (Some m) = 0" "message_wf m"
    by (rule packed_message_made [OF assms(3,4)])
  have c: "zmq_inv c" "z_role c = TRANSPORT_ROLE_COORDINATOR" "e_tx (z_env c) = []"
    using assms(1) by (auto simp: endpoint_up_def)
  obtain c' where c': "transport_zmq_send (Some c) (Some m) (int i) = Some (0, Some c')" "zmq_inv c'"
      "rank_of c' = rank_of c" "e_sent (z_env c') = e_sent (z_env c) @ (map byte_of_char s, True) # frames m"
    by (rule coordinator_send [OF m(4,5) c assms(5)])
  let ?w = "receiving (map (Inl \<circ> fst) (frames m) @ rest) w"
  have w: "z_role ?w = TRANSPORT_ROLE_WORKER" "e_setsockopt_ok (z_env ?w)" "e_calloc_ok (z_env ?w)"
    "malloc_serves (z_env ?w) (ucast (h_payload_len (m_header m)))"
    "e_rx (z_env ?w) = map (Inl \<circ> fst) (frames m) @ rest"
    using assms(2) by (simp_all add: endpoint_up_def)
  obtain w' where w': "transport_zmq_recv (Some ?w) (Some old) = Some (Some (delivered m), Some old, Some w')"
      "e_rx (z_env w') = rest"
    by (rule coordinator_to_worker [OF m(4,5) w, of "Some old"])
  show thesis
  proof (rule that [of c' "frames m" m w'])
    show "send_packed (zmq_on c) (packed_message ok malloc mt tid bytes) (int i) = Some (0, zmq_on c')"
      using m(1) c'(1) by (simp add: send_packed_def zmq_on_send del: transport_zmq_send.simps)
    show "transport_recv (Some (zmq_on ?w)) (Some old) = Some (Some m, Some old, Some w')"
      using w'(1) m(3) by (simp add: zmq_on_recv del: transport_zmq_recv.simps)
  qed (use c' m(2) w'(2) in simp_all)
qed

end
