(* ===== verification/Programs.thy ===== *)
theory Programs
  imports Coordinator_Props Worker_Props
begin

text \<open>
  The two programs from the command line on: \<open>main\<close> and the beginning of \<open>run_coordinator\<close> and
  \<open>run_worker\<close>.  A fatal log message aborts the program (\<open>None\<close>); the texts that \<open>--help\<close> prints are
  left out.
\<close>

section \<open>The coordinator\<close>

text \<open>The endpoint and the task file; \<open>None\<close> when the help was asked for.\<close>

fun coordinator_args :: "string list \<Rightarrow> string \<Rightarrow> string option \<Rightarrow> (string \<times> string option) option" where
  "coordinator_args [] endpoint task_file = Some (endpoint, task_file)"
| "coordinator_args [a] endpoint task_file = (if a = ''--help'' then None else Some (endpoint, task_file))"
| "coordinator_args (a # b # rest) endpoint task_file =
     (if a = ''--endpoint'' then coordinator_args rest b task_file
      else if a = ''--tasks'' then coordinator_args rest endpoint (Some b)
      else if a = ''--help'' then None
      else coordinator_args (b # rest) endpoint task_file)"

definition coordinator_transport_config :: "string \<Rightarrow> transport_config" where
  "coordinator_transport_config endpoint =
     \<lparr>tc_type = transport_type_value TRANSPORT_TYPE_ZMQ, tc_role = TRANSPORT_ROLE_COORDINATOR,
      tc_endpoint = Some endpoint, tc_timeout_ms = 1000, tc_max_workers = 256\<rparr>"

text \<open>
  \<open>init_zmq\<close> is the backend's initialisation, \<open>fopen\<close> the lines of the files that can be opened.
\<close>

definition coordinator_program ::
    "(transport_config \<Rightarrow> c_int \<times> 'i transport option) \<Rightarrow> (nat \<Rightarrow> time_t) \<Rightarrow> coord_env list \<Rightarrow> bool
      \<Rightarrow> (string \<Rightarrow> string list option) \<Rightarrow> string list \<Rightarrow> ((u32 \<times> task_t list) list \<times> c_int) option" where
  "coordinator_program init_zmq clock ces log_ok fopen args =
     (if \<not> log_ok then Some ([], 1)
      else case coordinator_args args ''tcp://0.0.0.0:5555'' None of
          None \<Rightarrow> Some ([], 0)
        | Some (endpoint, task_file) \<Rightarrow>
            (case transport_init None (Some init_zmq) True (Some (coordinator_transport_config endpoint)) of
               (rc, Some tr) \<Rightarrow>
                 if rc \<noteq> 0 then None
                 else coordinator_main tr clock ces (task_file \<noteq> None) (Option.bind task_file fopen)
             | (rc, None) \<Rightarrow> None))"

section \<open>The worker\<close>

fun worker_args :: "string list \<Rightarrow> string \<Rightarrow> string option" where
  "worker_args [] endpoint = Some endpoint"
| "worker_args [a] endpoint = (if a = ''--help'' then None else Some endpoint)"
| "worker_args (a # b # rest) endpoint =
     (if a = ''--coordinator'' then worker_args rest b
      else if a = ''--help'' then None
      else worker_args (b # rest) endpoint)"

definition worker_transport_config :: "string \<Rightarrow> transport_config" where
  "worker_transport_config endpoint =
     \<lparr>tc_type = transport_type_value TRANSPORT_TYPE_ZMQ, tc_role = TRANSPORT_ROLE_WORKER,
      tc_endpoint = Some endpoint, tc_timeout_ms = 1000, tc_max_workers = 0\<rparr>"

text \<open>
  The main worker (rank 0, or a process without MPI, for which \<open>mpi_size\<close> is 1): the exit code and
  the ranks that were told to stop.
\<close>

definition worker_program ::
    "(transport_config \<Rightarrow> c_int \<times> 'i transport option) \<Rightarrow> worker_env \<Rightarrow> c_int \<Rightarrow> bool \<Rightarrow> bool \<Rightarrow> rusage \<Rightarrow> u64 \<times> u64
      \<Rightarrow> worker_env list \<Rightarrow> string list \<Rightarrow> (c_int \<times> c_int list) option" where
  "worker_program init_zmq ve mpi_size queue_ok limits_ok usage clock ves args =
     (case worker_args args ''tcp://127.0.0.1:5555'' of
        None \<Rightarrow> Some (0, [])
      | Some endpoint \<Rightarrow>
          (case transport_init None (Some init_zmq) True (Some (worker_transport_config endpoint)) of
             (rc, Some tr) \<Rightarrow>
               if rc \<noteq> 0 then None
               else do {
                 w \<leftarrow> worker_start ve (worker_mode_of mpi_size) mpi_size tr queue_ok limits_ok usage clock;
                 w' \<leftarrow> worker_run ves w;
                 (told, left, rc') \<leftarrow> worker_stop w';
                 Some (0, told)
               }
           | (rc, None) \<Rightarrow> None))"

text \<open>
  \<open>main\<close>: a rank above 0 executes the tasks of the head until it is told to stop, rank 0 is the main
  worker.  The result is the exit code, the ranks that were told to stop and the results sent to the head.
\<close>

definition worker_main ::
    "c_int \<Rightarrow> ((c_int \<times> task_t) option \<times> timespec \<times> timespec) list
      \<Rightarrow> (transport_config \<Rightarrow> c_int \<times> 'i transport option) \<Rightarrow> worker_env \<Rightarrow> c_int \<Rightarrow> bool \<Rightarrow> bool \<Rightarrow> rusage \<Rightarrow> u64 \<times> u64
      \<Rightarrow> worker_env list \<Rightarrow> string list \<Rightarrow> (c_int \<times> c_int list \<times> task_result_t list) option" where
  "worker_main mpi_rank events init_zmq ve mpi_size queue_ok limits_ok usage clock ves args =
     (if mpi_rank > 0 then Some (0, [], fst (run_mpi_worker mpi_rank events))
      else map_option (\<lambda>(rc, told). (rc, told, [])) (worker_program init_zmq ve mpi_size queue_ok limits_ok usage clock ves args))"

section \<open>Options\<close>

text \<open>
  A command line made of options with their values, in any order and with any repetitions: the last
  value of each option counts, and a word that is no option is skipped.
\<close>

datatype coordinator_option = Endpoint string | Tasks string | Other string

fun option_words :: "coordinator_option \<Rightarrow> string list" where
  "option_words (Endpoint e) = [''--endpoint'', e]"
| "option_words (Tasks f) = [''--tasks'', f]"
| "option_words (Other w) = [w]"

fun take_option :: "coordinator_option \<Rightarrow> string \<times> string option \<Rightarrow> string \<times> string option" where
  "take_option (Endpoint e) (ep, tf) = (e, tf)"
| "take_option (Tasks f) (ep, tf) = (ep, Some f)"
| "take_option (Other w) (ep, tf) = (ep, tf)"

definition plain_word :: "coordinator_option \<Rightarrow> bool" where
  "plain_word opt \<longleftrightarrow> (\<forall>w. opt = Other w \<longrightarrow> w \<noteq> ''--endpoint'' \<and> w \<noteq> ''--tasks'' \<and> w \<noteq> ''--help'')"

lemma coordinator_args_other:
  "w \<noteq> ''--endpoint'' \<Longrightarrow> w \<noteq> ''--tasks'' \<Longrightarrow> w \<noteq> ''--help'' \<Longrightarrow>
    coordinator_args (w # ws) ep tf = coordinator_args ws ep tf"
  by (cases ws) simp_all

lemma coordinator_args_options:
  "\<forall>opt \<in> set opts. plain_word opt \<Longrightarrow>
    coordinator_args (concat (map option_words opts)) ep tf = Some (fold take_option opts (ep, tf))"
proof (induction opts arbitrary: ep tf)
  case (Cons opt opts)
  then show ?case by (cases opt) (auto simp: plain_word_def coordinator_args_other)
qed simp

end
