(* ===== verification/Worker_Liveness.thy ===== *)
theory Worker_Liveness
  imports Worker_Props
begin

text \<open>
  Progress of the worker: on a silent connection every pass executes a queued task, so that the local
  queue is empty after as many passes as it has tasks.  The contract of a silent connection extends
  the contract of the transport layer.
\<close>

section \<open>A pass executes the task at the head\<close>

definition slot_free :: "'i worker \<Rightarrow> bool" where
  "slot_free w \<longleftrightarrow> (\<exists>l. wk_limits w = Some l \<and> slots_running l < slots_capacity l)"

lemma reserve_free:
  assumes "slots_running l < slots_capacity l"
  obtains l1 where "resource_limits_reserve_task (Some l) = (0, Some l1)"
    "slots_running (release_slot l1 b) = slots_running l" "slots_capacity (release_slot l1 b) = slots_capacity l"
proof -
  from limiter.reserve_ok [OF assms] obtain l1 where l1: "reserve_slot l = (0, l1)" by blast
  then have "resource_limits_reserve_task (Some l) = (0, Some l1)"
    by (auto simp: reserve_slot_def split: if_splits)
  with limiter.bracket [OF l1, of b] that show thesis by blast
qed

context transport_backend
begin

lemma worker_process_executes:
  assumes "worker_ok vt ok w" "env_ok ve" "wk_mode w = WORKER_MODE_STANDALONE" "slot_free w"
    and "tq_tasks (wk_queue w) = t # ts"
  obtains w' where "worker_process ve w = Some (w', True)" "worker_ok vt ok w'" "slot_free w'"
    "wk_mode w' = WORKER_MODE_STANDALONE" "tq_tasks (wk_queue w') = ts"
proof -
  have tr: "runs_on vt ok (wk_transport w)" and q: "client_queue (wk_queue w)"
    using assms(1) by (auto simp: worker_ok_def)
  obtain l where l: "wk_limits w = Some l" "slots_running l < slots_capacity l"
    using assms(4) by (auto simp: slot_free_def)
  obtain q1 where q1: "heap_deq (wk_queue w) = Some (0, q1, t)" "tq_tasks q1 = ts" "client_queue q1"
    using q assms(5) by (cases rule: deq_cases) auto
  let ?r = "execute_task_standalone ve t"
  obtain l1 where l1: "resource_limits_reserve_task (Some l) = (0, Some l1)"
      "slots_running (release_slot l1 (r_status ?r = 0)) = slots_running l"
      "slots_capacity (release_slot l1 (r_status ?r = 0)) = slots_capacity l"
    by (rule reserve_free [OF l(2)])
  have "length (r_diag_msg ?r) = DIAG_MSG_LEN" by (simp add: execute_task_standalone_def zero_result_def)
  from send_result_total [OF tr assms(2) this] obtain rc tr' where
    s: "send_result ve (wk_transport w) ?r = Some (rc, tr')" "runs_on vt ok tr'" by blast
  let ?w = "w\<lparr>wk_queue := q1, wk_transport := tr',
    wk_limits := resource_limits_release_task (Some l1) (r_status ?r = 0)\<rparr>"
  have "worker_process ve w = Some (?w, True)"
    using q1 l l1(1) s assms(3)
    by (simp add: worker_process_def Let_def del: resource_limits_reserve_task.simps resource_limits_release_task.simps)
  moreover have "slot_free ?w" using l l1(2,3) by (simp add: slot_free_def release_slot_def Let_def)
  ultimately show thesis
    using q1 s assms(1,3) by (intro that [of ?w]) (simp_all add: worker_ok_def head_ranks_def)
qed

lemma worker_process_idle:
  assumes "worker_ok vt ok w" "tq_tasks (wk_queue w) = []"
  shows "worker_process ve w = Some (w, True)"
proof -
  have "client_queue (wk_queue w)" using assms(1) by (simp add: worker_ok_def)
  then show ?thesis using assms(2) by (cases rule: deq_cases) (auto simp: worker_process_def Let_def)
qed

end

section \<open>A silent connection\<close>

locale silent_backend = transport_backend +
  assumes silent: "ok i \<Longrightarrow> \<exists>i'. trecv (Some i) (Some old) = Some (None, Some old, Some i') \<and> ok i'"
begin

lemma worker_receive_nothing:
  assumes "worker_ok vt ok w"
  obtains w' where "worker_receive ve w = Some w'" "worker_ok vt ok w'" "wk_queue w' = wk_queue w"
    "wk_limits w' = wk_limits w" "wk_mode w' = wk_mode w"
proof -
  from assms obtain i where i: "tr_vtable (wk_transport w) = Some vt" "tr_impl (wk_transport w) = Some i" "ok i"
    by (auto simp: worker_ok_def runs_on_def)
  from silent [OF i(3), of "ve_src ve"] obtain i' where
    i': "trecv (Some i) (Some (ve_src ve)) = Some (None, Some (ve_src ve), Some i')" "ok i'" by blast
  have "transport_recv (Some (wk_transport w)) (Some (ve_src ve)) = Some (None, Some (ve_src ve), Some i')"
    using i i'(1) by (simp add: transport_recv_def dispatch_def has_recv)
  then have "worker_receive ve w = Some (w\<lparr>wk_transport := (wk_transport w)\<lparr>tr_impl := Some i'\<rparr>\<rparr>)"
    by (simp add: worker_receive_def)
  then show thesis
    by (rule that) (use assms i i'(2) in \<open>simp_all add: worker_ok_def runs_on_def head_ranks_def\<close>)
qed

lemma worker_finish_keeps:
  assumes "worker_ok vt ok w" "env_ok ve" "wk_mode w = WORKER_MODE_STANDALONE" "slot_free w"
  obtains w' where "worker_finish ve w = Some w'" "worker_ok vt ok w'" "wk_queue w' = wk_queue w" "slot_free w'"
    "wk_mode w' = WORKER_MODE_STANDALONE"
proof -
  obtain l where l: "wk_limits w = Some l" "slots_running l < slots_capacity l"
    using assms(4) by (auto simp: slot_free_def)
  obtain l' where l': "resource_limits_update (ve_os ve) (Some l) = (0, Some l')" by (simp add: Let_def)
  let ?w = "w\<lparr>wk_limits := Some l'\<rparr>"
  have "worker_finish ve w = Some ?w"
    using assms(3) l(1) l' by (simp add: worker_finish_def del: resource_limits_update.simps)
  moreover have "slot_free ?w" using l(2) update_slots [OF l'] by (simp add: slot_free_def)
  ultimately show thesis
    using assms(1,3) by (intro that [of ?w]) (simp_all add: worker_ok_def head_ranks_def)
qed

lemma worker_pass_drains:
  assumes "worker_ok vt ok w" "env_ok ve" "wk_mode w = WORKER_MODE_STANDALONE" "slot_free w"
  obtains w' where "worker_pass ve w = Some w'" "worker_ok vt ok w'" "wk_mode w' = WORKER_MODE_STANDALONE"
    "slot_free w'" "tq_tasks (wk_queue w') = tl (tq_tasks (wk_queue w))"
proof -
  obtain w1 where w1: "worker_heartbeat ve w = Some w1" "worker_ok vt ok w1" "wk_queue w1 = wk_queue w"
      "wk_limits w1 = wk_limits w" "wk_mode w1 = wk_mode w"
    by (rule worker_heartbeat_ok [OF assms(1,2)])
  obtain w2 where w2: "worker_receive ve w1 = Some w2" "worker_ok vt ok w2" "wk_queue w2 = wk_queue w1"
      "wk_limits w2 = wk_limits w1" "wk_mode w2 = wk_mode w1"
    by (rule worker_receive_nothing [OF w1(2)])
  have mode2: "wk_mode w2 = WORKER_MODE_STANDALONE" and slot2: "slot_free w2"
    using w1 w2 assms(3,4) by (simp_all add: slot_free_def)
  obtain w3 where w3: "worker_process ve w2 = Some (w3, True)" "worker_ok vt ok w3" "slot_free w3"
      "wk_mode w3 = WORKER_MODE_STANDALONE" "tq_tasks (wk_queue w3) = tl (tq_tasks (wk_queue w2))"
  proof (cases "tq_tasks (wk_queue w2)")
    case Nil
    with worker_process_idle [OF w2(2)] w2(2) mode2 slot2 show thesis by (intro that [of w2]) auto
  next
    case (Cons t ts)
    obtain w3 where "worker_process ve w2 = Some (w3, True)" "worker_ok vt ok w3" "slot_free w3"
        "wk_mode w3 = WORKER_MODE_STANDALONE" "tq_tasks (wk_queue w3) = ts"
      by (rule worker_process_executes [OF w2(2) assms(2) mode2 slot2 Cons])
    with Cons show thesis by (intro that [of w3]) auto
  qed
  obtain w4 where "worker_finish ve w3 = Some w4" "worker_ok vt ok w4" "wk_queue w4 = wk_queue w3" "slot_free w4"
      "wk_mode w4 = WORKER_MODE_STANDALONE"
    by (rule worker_finish_keeps [OF w3(2) assms(2) w3(4,3)])
  with w1 w2 w3 show thesis by (intro that [of w4]) (simp_all add: worker_pass_def)
qed

lemma worker_run_drains:
  assumes "\<forall>ve \<in> set ves. env_ok ve"
  shows "worker_ok vt ok w \<Longrightarrow> wk_mode w = WORKER_MODE_STANDALONE \<Longrightarrow> slot_free w
    \<Longrightarrow> \<exists>w'. worker_run ves w = Some w' \<and> worker_ok vt ok w' \<and>
      tq_tasks (wk_queue w') = drop (length ves) (tq_tasks (wk_queue w))"
  using assms
proof (induction ves arbitrary: w)
  case Nil
  then show ?case by simp
next
  case (Cons ve ves)
  have ve: "env_ok ve" "\<forall>ve \<in> set ves. env_ok ve" using Cons.prems(4) by simp_all
  obtain w1 where w1: "worker_pass ve w = Some w1" "worker_ok vt ok w1" "wk_mode w1 = WORKER_MODE_STANDALONE"
      "slot_free w1" "tq_tasks (wk_queue w1) = tl (tq_tasks (wk_queue w))"
    by (rule worker_pass_drains [OF Cons.prems(1) ve(1) Cons.prems(2,3)])
  from Cons.IH [OF w1(2-4) ve(2)] w1 show ?case by (auto simp: drop_Suc)
qed

end

text \<open>A ZeroMQ socket that delivers nothing.\<close>

definition zmq_silent :: "zmq_transport \<Rightarrow> bool" where
  "zmq_silent z \<longleftrightarrow> zmq_ok z \<and> e_rx (z_env z) = []"

lemma zmq_silent_frame: "rx_frame z z' \<Longrightarrow> zmq_silent z \<Longrightarrow> zmq_silent z'"
  using zmq_ok_frame [of z z'] by (auto simp: zmq_silent_def rx_frame_def)

lemma zmq_silent_send:
  assumes "zmq_silent z" "message_validate (Some m) = 0" "message_wf m"
  shows "\<exists>rc z'. transport_zmq_send (Some z) (Some m) dst = Some (rc, Some z') \<and> zmq_silent z'"
proof -
  have "zmq_inv z" using assms(1) by (simp add: zmq_silent_def zmq_ok_def)
  from transport_zmq_send_frame [OF this assms(2,3), of dst] zmq_silent_frame [OF _ assms(1)] show ?thesis by blast
qed

lemma zmq_silent_recv:
  assumes "zmq_silent z"
  shows "transport_zmq_recv (Some z) (Some old) = Some (None, Some old, Some z)"
proof -
  have "zmq_recv z = (Inr EAGAIN, z)" using assms by (simp add: zmq_recv_def zmq_silent_def)
  then show ?thesis
    by (cases "z_role z") (simp_all add: recv_identity_def recv_content_def receive_failed_def)
qed

interpretation zmq_idle: silent_backend zmq_vtable zmq_silent transport_zmq_send transport_zmq_recv
  by unfold_locales
    (simp_all add: zmq_vtable_def zmq_silent_send zmq_silent_recv
      del: transport_zmq_send.simps transport_zmq_recv.simps)

end
