(* ===== verification/Task_Queue_Threads.thy ===== *)
theory Task_Queue_Threads
  imports Task_Queue_Refine "HOL-Library.Sublist"
begin

text \<open>
  Any number of threads on one task queue.  The mutex makes each critical section of
  \<open>task_queue.c\<close> one atomic step; a step is chosen freely, so every interleaving is covered.
  A thread inside \<open>task_queue_dequeue_wait\<close> that has given up the mutex is a member of
  \<open>ts_waiting\<close>.  It may resume at any time with any return code of the wait function: a signal,
  a broadcast, a spurious wake-up or a timeout.  The history variables record the tasks that
  enqueue accepted, the tasks handed out, and the tasks removed by id or cleared.
\<close>

record tq_sys =
  ts_queue :: task_queue
  ts_waiting :: "nat set"
  ts_enqueued :: "task_t list"
  ts_dequeued :: "task_t list"
  ts_removed :: "task_t multiset"

definition tq_sys_init :: "tq_sys \<Rightarrow> bool" where
  "tq_sys_init s \<longleftrightarrow>
     (\<exists>cfg. task_queue_create cfg True = Some (ts_queue s)) \<and> ts_waiting s = {} \<and>
     ts_enqueued s = [] \<and> ts_dequeued s = [] \<and> ts_removed s = {#}"

definition option_list :: "'a option \<Rightarrow> 'a list" where
  "option_list x = (case x of None \<Rightarrow> [] | Some y \<Rightarrow> [y])"

lemma option_list_simps [simp]: "option_list None = []" "option_list (Some y) = [y]"
  by (simp_all add: option_list_def)

inductive tq_step :: "tq_sys \<Rightarrow> tq_sys \<Rightarrow> bool" where
  enqueue: "a = 0 \<or> q_nodes (ts_queue s) a = None
    \<Longrightarrow> task_queue_enqueue (Some (ts_queue s)) (Some t) a = Some (rc, Some q')
    \<Longrightarrow> tq_step s (s\<lparr>ts_queue := q',
          ts_enqueued := ts_enqueued s @ (if rc = 0 then [t] else [])\<rparr>)"
| dequeue: "task_queue_dequeue (Some (ts_queue s)) (Some buf) = Some (rc, Some q', Some t)
    \<Longrightarrow> tq_step s (s\<lparr>ts_queue := q',
          ts_dequeued := ts_dequeued s @ (if rc = 0 then [t] else [])\<rparr>)"
| remove: "task_queue_remove_by_id (Some (ts_queue s)) tid = Some (rc, Some q')
    \<Longrightarrow> tq_step s (s\<lparr>ts_queue := q',
          ts_removed := ts_removed s + (mset (tq_tasks (ts_queue s)) - mset (tq_tasks q'))\<rparr>)"
| clear: "task_queue_clear (Some (ts_queue s)) = Some (n, Some q')
    \<Longrightarrow> tq_step s (s\<lparr>ts_queue := q',
          ts_removed := ts_removed s + (mset (tq_tasks (ts_queue s)) - mset (tq_tasks q'))\<rparr>)"
| enter_block: "i \<notin> ts_waiting s \<Longrightarrow> wait_enter (ts_queue s) = Some (Blocked q')
    \<Longrightarrow> tq_step s (s\<lparr>ts_queue := q', ts_waiting := insert i (ts_waiting s)\<rparr>)"
| enter_return: "i \<notin> ts_waiting s \<Longrightarrow> wait_enter (ts_queue s) = Some (Returned rc t q')
    \<Longrightarrow> tq_step s (s\<lparr>ts_queue := q', ts_dequeued := ts_dequeued s @ option_list t\<rparr>)"
| wake_block: "i \<in> ts_waiting s \<Longrightarrow> wait_wake rc (ts_queue s) = Some (Blocked q')
    \<Longrightarrow> tq_step s (s\<lparr>ts_queue := q'\<rparr>)"
| wake_return: "i \<in> ts_waiting s \<Longrightarrow> wait_wake rc (ts_queue s) = Some (Returned rc' t q')
    \<Longrightarrow> tq_step s (s\<lparr>ts_queue := q', ts_waiting := ts_waiting s - {i},
          ts_dequeued := ts_dequeued s @ option_list t\<rparr>)"

section \<open>Blocking dequeue, one section at a time\<close>

lemma tq_inv_blocked [simp]:
  "tq_inv (q\<lparr>q_blocked_threads := n\<rparr>) = tq_inv q" "tq_tasks (q\<lparr>q_blocked_threads := n\<rparr>) = tq_tasks q"
  by (simp_all add: tq_inv_def tq_repr_def tq_tasks_def)

text \<open>
  The outcome of the loop test, for a queue whose \<open>blocked_threads\<close> already counts the caller:
  it blocks only on an empty queue that is not shutting down, and what it hands out is the head.
\<close>

lemma wait_test_cases:
  assumes "tq_inv q"
  shows "(tq_tasks q = [] \<and> q_shutting_down q = 0 \<and> wait_test q = Some (Blocked q)) \<or>
    (q_shutting_down q \<noteq> 0 \<and>
      wait_test q = Some (Returned (-2) None (q\<lparr>q_blocked_threads := q_blocked_threads q - 1\<rparr>))) \<or>
    (\<exists>t ts q'. tq_tasks q = t # ts \<and> q_shutting_down q = 0 \<and>
      wait_test q = Some (Returned 0 (Some t) q') \<and>
      tq_inv q' \<and> tq_tasks q' = ts \<and> q_blocked_threads q' = q_blocked_threads q - 1)"
proof (cases "q_shutting_down q = 0")
  case False
  then show ?thesis by (simp add: wait_test_def)
next
  case True
  let ?q = "q\<lparr>q_blocked_threads := q_blocked_threads q - 1\<rparr>"
  show ?thesis
  proof (cases "tq_tasks q")
    case Nil
    with True assms show ?thesis by (simp add: wait_test_def tq_inv_head)
  next
    case (Cons t ts)
    then obtain q' where "remove_head ?q = Some (t, q')" "tq_inv q'" "tq_tasks q' = ts"
        "tq_frame ?q q'"
      using remove_head_ok [of ?q t ts] assms by auto
    moreover have "q_head q \<noteq> 0" using Cons tq_inv_head [OF assms] by simp
    ultimately show ?thesis using Cons True by (simp add: wait_test_def tq_frame_def)
  qed
qed

section \<open>The invariant of the system\<close>

text \<open>
  In every state the pointer structure is well formed, \<open>blocked_threads\<close> counts the waiting
  threads, each accepted task is in the queue, handed out or removed exactly once, and tasks of
  one priority level leave in the order in which they came.
\<close>

definition fifo :: "(task_t \<Rightarrow> bool) \<Rightarrow> tq_sys \<Rightarrow> bool" where
  "fifo P s \<longleftrightarrow> subseq (filter P (ts_dequeued s @ tq_tasks (ts_queue s))) (filter P (ts_enqueued s))"

definition tq_sys_inv :: "tq_sys \<Rightarrow> bool" where
  "tq_sys_inv s \<longleftrightarrow>
     tq_inv (ts_queue s) \<and> finite (ts_waiting s) \<and>
     q_blocked_threads (ts_queue s) = of_nat (card (ts_waiting s)) \<and>
     mset (ts_enqueued s) = mset (ts_dequeued s) + ts_removed s + mset (tq_tasks (ts_queue s)) \<and>
     fifo high_priority s \<and> fifo (\<lambda>t. \<not> high_priority t) s"

lemma tq_sys_inv_init: "tq_sys_init s \<Longrightarrow> tq_sys_inv s"
  using tq_create by (fastforce simp: tq_sys_init_def tq_sys_inv_def fifo_def)

lemma subseq_filter_append:
  "subseq xs ys \<Longrightarrow> subseq (filter P (ds @ xs)) (filter P (ds @ ys))"
  by (simp add: list_emb_append_mono subseq_filter)

lemma subseq_remove_task: "subseq (remove_task tid ts) ts"
  by (induction ts) auto

lemma filter_pq_insert:
  "filter high_priority (pq_insert t ts) = filter high_priority ts @ filter high_priority [t]"
  "filter (\<lambda>u. \<not> high_priority u) (pq_insert t ts)
    = filter (\<lambda>u. \<not> high_priority u) ts @ filter (\<lambda>u. \<not> high_priority u) [t]"
  by (simp_all add: pq_insert_def)

lemma fifo_shrink:
  assumes "fifo P s" "subseq (tq_tasks q') (tq_tasks (ts_queue s))"
  shows "fifo P (s\<lparr>ts_queue := q', ts_removed := r\<rparr>)"
  using subseq_order.trans [OF subseq_filter_append [OF assms(2), of P "ts_dequeued s"]] assms(1)
  by (simp add: fifo_def)

lemma mset_remove_diff:
  "mset (remove_task tid ts) \<subseteq># mset ts"
  by (induction ts) auto

section \<open>Every step keeps the invariant\<close>

lemma enqueue_step_inv:
  assumes "tq_sys_inv s" "a = 0 \<or> q_nodes (ts_queue s) a = None"
    and "task_queue_enqueue (Some (ts_queue s)) (Some t) a = Some (rc, Some q')"
  shows "tq_sys_inv (s\<lparr>ts_queue := q', ts_enqueued := ts_enqueued s @ (if rc = 0 then [t] else [])\<rparr>)"
proof -
  have inv: "tq_inv (ts_queue s)" using assms(1) by (simp add: tq_sys_inv_def)
  show ?thesis
  proof (cases "enqueue_code (ts_queue s) t a = 0")
    case True
    then have "tq_accepts (ts_queue s) t" "a \<noteq> 0" "q_nodes (ts_queue s) a = None"
      using assms(2) by (auto simp: enqueue_code_0)
    from enqueue_ok [OF inv this] assms(3)
    have "rc = 0" "tq_inv q'" "tq_tasks q' = pq_insert t (tq_tasks (ts_queue s))"
        "q_blocked_threads q' = q_blocked_threads (ts_queue s)"
      by (auto simp: tq_frame_def simp del: task_queue_enqueue.simps)
    with assms(1) show ?thesis
      by (auto simp: tq_sys_inv_def fifo_def filter_pq_insert simp flip: append_assoc
          intro: list_emb_append_mono)
  next
    case False
    from enqueue_err [OF inv False] assms(3) False have "rc \<noteq> 0" "q' = ts_queue s"
      by (auto simp del: task_queue_enqueue.simps)
    with assms(1) show ?thesis by (simp add: tq_sys_inv_def fifo_def)
  qed
qed

lemma tq_sys_inv_handed_out:
  assumes "tq_sys_inv s" "tq_tasks (ts_queue s) = t # ts" "tq_inv q'" "tq_tasks q' = ts"
    and "finite w" "q_blocked_threads q' = of_nat (card w)"
  shows "tq_sys_inv (s\<lparr>ts_queue := q', ts_waiting := w, ts_dequeued := ts_dequeued s @ [t]\<rparr>)"
  using assms by (auto simp: tq_sys_inv_def fifo_def)

lemma dequeue_step_inv:
  assumes "tq_sys_inv s"
    and "task_queue_dequeue (Some (ts_queue s)) (Some buf) = Some (rc, Some q', Some t)"
  shows "tq_sys_inv (s\<lparr>ts_queue := q', ts_dequeued := ts_dequeued s @ (if rc = 0 then [t] else [])\<rparr>)"
proof -
  have inv: "tq_inv (ts_queue s)" using assms(1) by (simp add: tq_sys_inv_def)
  show ?thesis
  proof (cases "tq_tasks (ts_queue s)")
    case Nil
    from dequeue_empty [OF inv Nil] assms(2) have "rc \<noteq> 0" "q' = ts_queue s"
      by (auto simp del: task_queue_dequeue.simps)
    with assms(1) show ?thesis by (simp add: tq_sys_inv_def fifo_def)
  next
    case (Cons u us)
    from dequeue_ok [OF inv Cons, of buf] assms(2)
    have "rc = 0" "t = u" "tq_inv q'" "tq_tasks q' = us"
        "q_blocked_threads q' = q_blocked_threads (ts_queue s)"
      by (auto simp: tq_frame_def simp del: task_queue_dequeue.simps)
    with tq_sys_inv_handed_out [OF assms(1) Cons, of q' "ts_waiting s"] assms(1) show ?thesis
      by (simp add: tq_sys_inv_def fifo_def)
  qed
qed

lemma shrink_step_inv:
  assumes "tq_sys_inv s" "tq_inv q'" "tq_frame (ts_queue s) q'"
    and "subseq (tq_tasks q') (tq_tasks (ts_queue s))"
    and "mset (tq_tasks q') \<subseteq># mset (tq_tasks (ts_queue s))"
  shows "tq_sys_inv (s\<lparr>ts_queue := q',
    ts_removed := ts_removed s + (mset (tq_tasks (ts_queue s)) - mset (tq_tasks q'))\<rparr>)"
proof -
  obtain r where "mset (tq_tasks (ts_queue s)) = mset (tq_tasks q') + r"
    using assms(5) by (auto simp: mset_subset_eq_exists_conv)
  then show ?thesis
    using assms fifo_shrink [OF _ assms(4)] by (auto simp: tq_sys_inv_def tq_frame_def)
qed

lemma card_remove_word:
  assumes "finite w" "i \<in> w"
  shows "(of_nat (card w) :: u64) - 1 = of_nat (card (w - {i}))"
proof -
  have "card w = Suc (card (w - {i}))" using assms by (rule card.remove)
  then show ?thesis by simp
qed

lemma wait_test_step_inv:
  assumes inv: "tq_sys_inv s" and fin: "finite w" and i: "i \<in> w"
    and q: "q = (ts_queue s)\<lparr>q_blocked_threads := of_nat (card w)\<rparr>"
  shows "wait_test q = Some (Blocked q')
      \<Longrightarrow> tq_sys_inv (s\<lparr>ts_queue := q', ts_waiting := w\<rparr>)"
    and "wait_test q = Some (Returned rc t q')
      \<Longrightarrow> tq_sys_inv (s\<lparr>ts_queue := q', ts_waiting := w - {i}, ts_dequeued := ts_dequeued s @ option_list t\<rparr>)"
proof -
  have tinv: "tq_inv q" and tasks: "tq_tasks q = tq_tasks (ts_queue s)"
    using inv q by (simp_all add: tq_sys_inv_def)
  have card: "(of_nat (card w) :: u64) - 1 = of_nat (card (w - {i}))"
    using fin i by (rule card_remove_word)
  show "tq_sys_inv (s\<lparr>ts_queue := q', ts_waiting := w\<rparr>)" if "wait_test q = Some (Blocked q')"
  proof -
    have "q' = q" using wait_test_cases [OF tinv] that by auto
    with inv fin q show ?thesis by (simp add: tq_sys_inv_def fifo_def)
  qed
  show "tq_sys_inv (s\<lparr>ts_queue := q', ts_waiting := w - {i}, ts_dequeued := ts_dequeued s @ option_list t\<rparr>)"
    if "wait_test q = Some (Returned rc t q')"
    using wait_test_cases [OF tinv]
  proof (elim disjE conjE exE)
    assume "wait_test q = Some (Returned (-2) None (q\<lparr>q_blocked_threads := q_blocked_threads q - 1\<rparr>))"
    with that have "t = None" "q' = q\<lparr>q_blocked_threads := q_blocked_threads q - 1\<rparr>" by simp_all
    with inv fin q card show ?thesis by (simp add: tq_sys_inv_def fifo_def)
  next
    fix u us r
    assume "tq_tasks q = u # us" "wait_test q = Some (Returned 0 (Some u) r)" "tq_inv r"
      "tq_tasks r = us" "q_blocked_threads r = q_blocked_threads q - 1"
    with that inv tasks fin q card tq_sys_inv_handed_out [OF inv, of u us r "w - {i}"]
    show ?thesis by simp
  qed (use that in simp)
qed

lemma remove_step_inv:
  assumes inv: "tq_sys_inv s" and "task_queue_remove_by_id (Some (ts_queue s)) tid = Some (rc, Some q')"
  shows "tq_sys_inv (s\<lparr>ts_queue := q',
    ts_removed := ts_removed s + (mset (tq_tasks (ts_queue s)) - mset (tq_tasks q'))\<rparr>)"
proof -
  have q: "tq_inv (ts_queue s)" using inv by (simp add: tq_sys_inv_def)
  have "tq_inv q' \<and> tq_frame (ts_queue s) q' \<and>
      (tq_tasks q' = remove_task tid (tq_tasks (ts_queue s)) \<or> q' = ts_queue s)"
    using remove_ok [OF q, of tid] remove_absent [OF q, of tid] assms(2) q
    by (cases "tid \<in> t_task_id ` set (tq_tasks (ts_queue s))")
      (auto simp: tq_frame_def simp del: task_queue_remove_by_id.simps)
  then show ?thesis using shrink_step_inv [OF inv] subseq_remove_task mset_remove_diff by force
qed

lemma timeout_step_inv:
  assumes "tq_sys_inv s" "i \<in> ts_waiting s"
  shows "tq_sys_inv (s\<lparr>ts_queue := (ts_queue s)\<lparr>q_blocked_threads := q_blocked_threads (ts_queue s) - 1\<rparr>,
    ts_waiting := ts_waiting s - {i}\<rparr>)"
  using assms card_remove_word [OF _ assms(2)] by (simp add: tq_sys_inv_def fifo_def)

lemma wake_return_step_inv:
  assumes inv: "tq_sys_inv s" and i: "i \<in> ts_waiting s"
    and wake: "wait_wake rc (ts_queue s) = Some (Returned rc' t q')"
  shows "tq_sys_inv (s\<lparr>ts_queue := q', ts_waiting := ts_waiting s - {i},
    ts_dequeued := ts_dequeued s @ option_list t\<rparr>)"
proof (cases "rc = ETIMEDOUT")
  case True
  then have "t = None" "q' = (ts_queue s)\<lparr>q_blocked_threads := q_blocked_threads (ts_queue s) - 1\<rparr>"
    using wake by (simp_all add: wait_wake_def)
  with timeout_step_inv [OF inv i] show ?thesis by simp
next
  case False
  with wake have test: "wait_test (ts_queue s) = Some (Returned rc' t q')" by (simp add: wait_wake_def)
  have "finite (ts_waiting s)" "ts_queue s = (ts_queue s)\<lparr>q_blocked_threads := of_nat (card (ts_waiting s))\<rparr>"
    using inv by (simp_all add: tq_sys_inv_def)
  from wait_test_step_inv(2) [OF inv this(1) i this(2) test] show ?thesis .
qed

lemma tq_sys_inv_step: "tq_sys_inv s \<Longrightarrow> tq_step s s' \<Longrightarrow> tq_sys_inv s'"
proof -
  assume inv: "tq_sys_inv s" and step: "tq_step s s'"
  have q: "tq_inv (ts_queue s)" and fin: "finite (ts_waiting s)"
    and blk: "q_blocked_threads (ts_queue s) = of_nat (card (ts_waiting s))"
    using inv by (simp_all add: tq_sys_inv_def)
  then have self: "ts_queue s = (ts_queue s)\<lparr>q_blocked_threads := of_nat (card (ts_waiting s))\<rparr>"
    by simp
  have entered: "(ts_queue s)\<lparr>q_blocked_threads := q_blocked_threads (ts_queue s) + 1\<rparr>
      = (ts_queue s)\<lparr>q_blocked_threads := of_nat (card (insert i (ts_waiting s)))\<rparr>"
    if "i \<notin> ts_waiting s" for i
    using that fin blk by simp
  note enter_inv = wait_test_step_inv [OF inv _ insertI1 entered]
  from step show ?thesis
  proof cases
    case (clear n q')
    have "tq_inv q' \<and> tq_frame (ts_queue s) q' \<and> tq_tasks q' = []"
      using clear_ok [OF q] clear(2) by (auto simp del: task_queue_clear.simps)
    then show ?thesis unfolding clear(1) using shrink_step_inv [OF inv, of q'] by simp
  next
    case (enter_block i q')
    then show ?thesis using enter_inv(1) [of i q'] fin by (simp add: wait_enter_def)
  next
    case (enter_return i rc t q')
    then have "ts_waiting s = insert i (ts_waiting s) - {i}" by simp
    then show ?thesis using enter_inv(2) [of i rc t q'] fin enter_return by (simp add: wait_enter_def)
  next
    case (wake_block i rc q')
    then have "wait_test (ts_queue s) = Some (Blocked q')"
      by (simp add: wait_wake_def split: if_splits)
    from wait_test_step_inv(1) [OF inv fin wake_block(2) self this] show ?thesis
      unfolding wake_block(1) by simp
  next
    case (enqueue a t rc q')
    with enqueue_step_inv [OF inv] show ?thesis by blast
  next
    case (dequeue buf rc q' t)
    with dequeue_step_inv [OF inv] show ?thesis by blast
  next
    case (remove tid rc q')
    from remove_step_inv [OF inv this(2)] show ?thesis unfolding remove(1) .
  next
    case (wake_return i rc rc' t q')
    from wake_return_step_inv [OF inv this(2,3)] show ?thesis unfolding wake_return(1) .
  qed
qed

interpretation queue_threads: inductive_invariant tq_sys_init tq_step tq_sys_inv
  by unfold_locales (blast intro: tq_sys_inv_init tq_sys_inv_step)+

end
