(* ===== verification/Task_Queue_Theorems.thy ===== *)
theory Task_Queue_Theorems
  imports Task_Queue_Threads Queue_Client
begin

text \<open>
  What is proved of \<open>task_queue.c\<close>: each operation on the linked list refines an operation on the
  list of queued tasks, on every branch, and any interleaving of threads keeps the queue intact.
\<close>

section \<open>A queue to try the theorems on\<close>

definition demo_queue :: task_queue where
  "demo_queue = the (task_queue_create (Some \<lparr>cfg_max_size = 2, cfg_allow_duplicates = 0\<rparr>) True)"

definition demo_task :: "u64 \<Rightarrow> u32 \<Rightarrow> task_t" where
  "demo_task tid flags = zero_task\<lparr>t_task_id := tid, t_flags := flags\<rparr>"

definition demo_queue_1 :: task_queue where
  "demo_queue_1 = the (snd (the (task_queue_enqueue (Some demo_queue) (Some (demo_task 1 0)) 16)))"

lemma demo_create: "task_queue_create (Some \<lparr>cfg_max_size = 2, cfg_allow_duplicates = 0\<rparr>) True = Some demo_queue"
  by (simp add: demo_queue_def task_queue_create_def Let_def)

lemma demo_queue_facts:
  "tq_inv demo_queue" "tq_tasks demo_queue = []" "q_nodes demo_queue = Map.empty"
  "q_max_size demo_queue = 2" "q_allow_duplicates demo_queue = 0" "q_shutting_down demo_queue = 0"
  "q_blocked_threads demo_queue = 0" "q_size demo_queue = 0"
  using tq_create [OF demo_create] by (simp_all add: demo_queue_def task_queue_create_def Let_def)

lemma demo_queue_1_facts:
  "task_queue_enqueue (Some demo_queue) (Some (demo_task 1 0)) 16 = Some (0, Some demo_queue_1)"
  "tq_inv demo_queue_1" "tq_tasks demo_queue_1 = [demo_task 1 0]"
  "q_blocked_threads demo_queue_1 = 0" "q_shutting_down demo_queue_1 = 0"
proof -
  have "tq_accepts demo_queue (demo_task 1 0)" by (simp add: tq_accepts_def demo_queue_facts)
  from enqueue_ok [OF demo_queue_facts(1) this, of 16]
  obtain q' where "task_queue_enqueue (Some demo_queue) (Some (demo_task 1 0)) 16 = Some (0, Some q')"
      "tq_inv q'" "tq_tasks q' = pq_insert (demo_task 1 0) []" "tq_frame demo_queue q'"
    by (auto simp: demo_queue_facts simp del: task_queue_enqueue.simps)
  moreover from this have "q' = demo_queue_1" by (simp add: demo_queue_1_def del: task_queue_enqueue.simps)
  ultimately show "task_queue_enqueue (Some demo_queue) (Some (demo_task 1 0)) 16 = Some (0, Some demo_queue_1)"
    "tq_inv demo_queue_1" "tq_tasks demo_queue_1 = [demo_task 1 0]"
    "q_blocked_threads demo_queue_1 = 0" "q_shutting_down demo_queue_1 = 0"
    by (auto simp: pq_insert_def tq_frame_def demo_queue_facts simp del: task_queue_enqueue.simps)
qed

section \<open>Operations\<close>

text \<open>
  (C1) \<open>task_queue_enqueue\<close>, for any task and any result of \<open>malloc\<close>: the code returns, with the
  code that the state demands (shutting down, full, duplicate, out of memory, success).  On success
  the task is behind the queued tasks of its priority and in front of the others, the pointer
  structure and the counters are in order; otherwise the queue is unchanged.
\<close>

theorem enqueue_refines:
  assumes "tq_inv q" "a = 0 \<or> q_nodes q a = None"
  shows "\<exists>q'. task_queue_enqueue (Some q) (Some t) a = Some (enqueue_code q t a, Some q') \<and> tq_inv q' \<and>
    (if enqueue_code q t a = 0
     then tq_tasks q' = pq_insert t (tq_tasks q) \<and> high_first (tq_tasks q') \<and>
       unat (q_size q') = unat (q_size q) + 1 \<and> q_total_enqueued q' = q_total_enqueued q + 1
     else q' = q)"
proof (cases "enqueue_code q t a = 0")
  case True
  then have "tq_accepts q t" "a \<noteq> 0" "q_nodes q a = None" using assms(2) by (auto simp: enqueue_code_0)
  from enqueue_ok [OF assms(1) this] True tq_inv_size [OF assms(1)] show ?thesis
    by (auto simp: tq_inv_size pq_insert_high_first tq_inv_high_first [OF assms(1)]
        simp del: task_queue_enqueue.simps)
next
  case False
  with enqueue_err [OF assms(1) False] assms(1) show ?thesis by (simp del: task_queue_enqueue.simps)
qed

theorem enqueue_refines_witness:
  "\<exists>q'. task_queue_enqueue (Some demo_queue_1) (Some (demo_task 7 2)) 32 = Some (0, Some q') \<and>
     tq_tasks q' = [demo_task 7 2, demo_task 1 0]"
proof -
  have size: "q_size demo_queue_1 = 1"
    using tq_inv_size [OF demo_queue_1_facts(2)] demo_queue_1_facts(3)
    by (simp add: word_unat_eq_iff)
  have free: "q_nodes demo_queue_1 32 = None" "q_max_size demo_queue_1 = 2" "q_allow_duplicates demo_queue_1 = 0"
    using demo_queue_1_facts(1)
    by (auto simp: demo_queue_facts task_exists.simps insert_normal_def demo_queue_1_def demo_task_def zero_task_def
        TASK_FLAG_HIGH_PRIORITY_def demo_queue_def task_queue_create_def Let_def)
  have code: "enqueue_code demo_queue_1 (demo_task 7 2) 32 = 0"
    using size free demo_queue_1_facts(3,5) by (simp add: enqueue_code_def demo_task_def word_le_nat_alt)
  have "high_priority (demo_task 7 2)" "\<not> high_priority (demo_task 1 0)"
    by (simp_all add: high_priority_def demo_task_def zero_task_def TASK_FLAG_HIGH_PRIORITY_def)
  then have "pq_insert (demo_task 7 2) [demo_task 1 0] = [demo_task 7 2, demo_task 1 0]" by (simp add: pq_insert_def)
  with enqueue_refines [OF demo_queue_1_facts(2), of 32 "demo_task 7 2"] code free(1) demo_queue_1_facts(3)
  show ?thesis by (auto simp del: task_queue_enqueue.simps)
qed

text \<open>
  (C2) \<open>task_queue_dequeue\<close> and \<open>task_queue_peek\<close>: on an empty queue they return \<open>-1\<close> and change
  nothing; otherwise they deliver the task at the head, the first of the highest priority present,
  and dequeue leaves exactly the rest.
\<close>

theorem dequeue_refines:
  assumes "tq_inv q"
  shows "case tq_tasks q of
      [] \<Rightarrow> task_queue_dequeue (Some q) (Some buf) = Some (-1, Some q, Some buf) \<and>
        task_queue_peek (Some q) (Some buf) = Some (-1, Some buf)
    | t # ts \<Rightarrow> task_queue_peek (Some q) (Some buf) = Some (0, Some t) \<and>
        (\<forall>u \<in> set ts. high_priority u \<longrightarrow> high_priority t) \<and>
        (\<exists>q'. task_queue_dequeue (Some q) (Some buf) = Some (0, Some q', Some t) \<and> tq_inv q' \<and>
          tq_tasks q' = ts \<and> q_total_dequeued q' = q_total_dequeued q + 1)"
proof (cases "tq_tasks q")
  case Nil
  with dequeue_empty [OF assms Nil] peek_ok [OF assms] show ?thesis
    by (simp del: task_queue_dequeue.simps task_queue_peek.simps)
next
  case (Cons t ts)
  have "\<forall>u \<in> set ts. high_priority u \<longrightarrow> high_priority t"
    using tq_inv_high_first [OF assms] Cons by (auto simp: high_first_Cons)
  with Cons dequeue_ok [OF assms Cons, of buf] peek_ok [OF assms, of buf] show ?thesis
    by (auto simp del: task_queue_dequeue.simps task_queue_peek.simps)
qed

theorem dequeue_refines_witness:
  "\<exists>q'. task_queue_dequeue (Some demo_queue_1) (Some zero_task) = Some (0, Some q', Some (demo_task 1 0)) \<and>
     tq_tasks q' = []"
  using dequeue_refines [OF demo_queue_1_facts(2), of zero_task] demo_queue_1_facts(3)
  by (auto simp del: task_queue_dequeue.simps task_queue_peek.simps)

text \<open>
  (C3) \<open>task_queue_remove_by_id\<close>: the first task with the id is unlinked, wherever it stands, and
  nothing else moves; with no such task the result is \<open>-1\<close> and the queue is unchanged.
\<close>

theorem remove_by_id_refines:
  assumes "tq_inv q"
  shows "\<exists>rc q'. task_queue_remove_by_id (Some q) tid = Some (rc, Some q') \<and> tq_inv q' \<and>
    tq_tasks q' = remove_task tid (tq_tasks q) \<and> (rc = 0 \<longleftrightarrow> (\<exists>t \<in> set (tq_tasks q). t_task_id t = tid)) \<and>
    (rc \<noteq> 0 \<longrightarrow> rc = -1 \<and> q' = q)"
proof (cases "tid \<in> t_task_id ` set (tq_tasks q)")
  case True
  then have "\<exists>t \<in> set (tq_tasks q). t_task_id t = tid" by auto
  with remove_ok [OF assms True] show ?thesis by (auto simp del: task_queue_remove_by_id.simps)
next
  case False
  then have "\<forall>t \<in> set (tq_tasks q). t_task_id t \<noteq> tid" by auto
  with remove_absent [OF assms False] assms remove_task_absent [of "tq_tasks q" tid] show ?thesis
    by (auto simp del: task_queue_remove_by_id.simps)
qed

theorem remove_by_id_refines_witness:
  "\<exists>q'. task_queue_remove_by_id (Some demo_queue_1) 1 = Some (0, Some q') \<and> tq_tasks q' = []"
proof -
  have id: "t_task_id (demo_task 1 0) = 1" by (simp add: demo_task_def)
  with remove_by_id_refines [OF demo_queue_1_facts(2), of 1] demo_queue_1_facts(3) show ?thesis
    by (auto simp del: task_queue_remove_by_id.simps)
qed



section \<open>Threads\<close>

text \<open>A system with one queued task, reached by one step.\<close>

definition demo_sys :: "task_queue \<Rightarrow> task_t list \<Rightarrow> tq_sys" where
  "demo_sys q ts = \<lparr>ts_queue = q, ts_waiting = {}, ts_enqueued = ts, ts_dequeued = [], ts_removed = {#}\<rparr>"

lemma demo_reachable: "reachable tq_sys_init tq_step (demo_sys demo_queue_1 [demo_task 1 0])"
proof (rule reachable.next_state)
  show "reachable tq_sys_init tq_step (demo_sys demo_queue [])"
    using demo_create by (intro reachable.start) (auto simp: tq_sys_init_def demo_sys_def)
  have "tq_step (demo_sys demo_queue []) ((demo_sys demo_queue [])\<lparr>ts_queue := demo_queue_1,
      ts_enqueued := ts_enqueued (demo_sys demo_queue []) @ (if (0 :: c_int) = 0 then [demo_task 1 0] else [])\<rparr>)"
    by (rule tq_step.enqueue [where a = 16])
      (use demo_queue_1_facts(1) in \<open>simp_all add: demo_sys_def demo_queue_facts del: task_queue_enqueue.simps\<close>)
  then show "tq_step (demo_sys demo_queue []) (demo_sys demo_queue_1 [demo_task 1 0])"
    by (simp add: demo_sys_def)
qed

text \<open>
  (C5) Any number of threads, any interleaving of enqueue, dequeue, remove, clear and the sections
  of the blocking dequeue, with any wake-ups: the pointer structure is in order, the counter of
  blocked threads is the number of threads waiting, and every task that was accepted has been
  handed out once, was removed once, or is in the queue.
\<close>

theorem threads_conserve_tasks:
  assumes "reachable tq_sys_init tq_step s"
  shows "tq_inv (ts_queue s) \<and>
    q_blocked_threads (ts_queue s) = of_nat (card (ts_waiting s)) \<and> finite (ts_waiting s) \<and>
    mset (ts_enqueued s) = mset (ts_dequeued s) + ts_removed s + mset (tq_tasks (ts_queue s))"
  using queue_threads.inv_reachable [OF assms] by (simp add: tq_sys_inv_def)

theorem threads_conserve_tasks_witness:
  "mset [demo_task 1 0] = mset (tq_tasks demo_queue_1)"
  using threads_conserve_tasks [OF demo_reachable] by (simp add: demo_sys_def)





end
