(* ===== verification/Scheduler_Theorems.thy ===== *)
theory Scheduler_Theorems
  imports Scheduler_Steps
begin

text \<open>
  What is proved of \<open>scheduler.c\<close> and \<open>worker_registry.c\<close>: invariants of every reachable scheduler,
  each operation as an operation on the registry of workers, and the life of a batch.
\<close>

section \<open>A scheduler to try the theorems on\<close>

definition demo_sched :: scheduler where
  "demo_sched = the (scheduler_create (Some \<lparr>sc_max_workers = 2, sc_heartbeat_timeout_secs = 30,
     sc_scheduling_policy = SCHED_POLICY_ROUND_ROBIN\<rparr>) True True True)"

definition demo_sched_1 :: scheduler where
  "demo_sched_1 = the (snd (scheduler_register_worker (Some demo_sched) (Some (zero_worker\<lparr>w_worker_id := 5\<rparr>)) 100 100))"

lemma demo_sched_init: "sched_init demo_sched"
  unfolding sched_init_def
  by (rule exI [of _ "\<lparr>sc_max_workers = 2, sc_heartbeat_timeout_secs = 30,
     sc_scheduling_policy = SCHED_POLICY_ROUND_ROBIN\<rparr>"]) (simp add: demo_sched_def)

lemma demo_sched_1_eq:
  "scheduler_register_worker (Some demo_sched) (Some (zero_worker\<lparr>w_worker_id := 5\<rparr>)) 100 100 = (0, Some demo_sched_1)"
  by (simp add: demo_sched_def demo_sched_1_def worker_index_def)

lemma demo_orderly: "reachable sched_init orderly_step demo_sched_1"
  by (rule reachable.next_state [OF reachable.start [of sched_init, OF demo_sched_init]],
      rule orderly_step.register [OF _ demo_sched_1_eq]) (simp add: demo_sched_def)

lemma demo_reach: "reachable sched_init sched_step demo_sched_1"
  by (rule reachable.next_state [OF reachable.start [of sched_init, OF demo_sched_init]])
    (rule sched_step.register [OF demo_sched_1_eq])

lemma demo_sched_facts:
  "sched_inv demo_sched_1" "gauges demo_sched_1" "s_tasks demo_sched_1 = []" "s_max_tasks demo_sched_1 = 100000"
  "s_workers demo_sched_1 = [zero_worker\<lparr>w_worker_id := 5, w_state := WORKER_STATE_IDLE,
     w_last_heartbeat := 100, w_registered := 100\<rparr>]"
  "s_heartbeat_timeout_secs demo_sched_1 = 30" "s_max_workers demo_sched_1 = 2"
  using sched_structure.inv_reachable [OF demo_reach] sched_statistics.inv_reachable [OF demo_orderly]
  by (simp_all add: sched_stats_inv_def demo_sched_1_def demo_sched_def worker_index_def MAX_TRACKED_TASKS_def)

section \<open>Invariants\<close>

text \<open>
  (C8) After any sequence of calls, by any threads: the arrays of workers and of tasks are within
  their capacity, no two entries have the same worker id, every worker is idle, busy or dead, and
  the registry has as many workers as the array has entries.
\<close>

theorem scheduler_structure:
  assumes "reachable sched_init sched_step s"
  shows "length (s_workers s) \<le> unat (s_max_workers s) \<and> length (s_tasks s) \<le> unat (s_max_tasks s) \<and>
    distinct (map w_worker_id (s_workers s)) \<and>
    (\<forall>w \<in> set (s_workers s). w_state w \<noteq> WORKER_STATE_UNKNOWN) \<and>
    card (dom (registry (s_workers s))) = length (s_workers s)"
  using sched_structure.inv_reachable [OF assms] worker_count [of s] by (simp add: sched_inv_def)

theorem scheduler_structure_witness: "card (dom (registry (s_workers demo_sched_1))) = 1"
  using scheduler_structure [OF demo_reach] by (simp add: demo_sched_facts)

text \<open>
  (C9) The statistics: as long as no worker registers again while it is busy or dead and no dead
  worker is unregistered, the gauges of \<open>scheduler_get_stats\<close> are the numbers of idle, busy, dead
  and not dead workers, and the number of scheduled tasks is the number of tracked ones.
\<close>

theorem scheduler_gauges:
  assumes "reachable sched_init orderly_step s"
  shows "\<exists>st. scheduler_get_stats (Some s) (Some out) = Some st \<and>
    st_idle_workers st = of_nat (count_state WORKER_STATE_IDLE (s_workers s)) \<and>
    st_busy_workers st = of_nat (count_state WORKER_STATE_BUSY (s_workers s)) \<and>
    st_dead_workers st = of_nat (count_state WORKER_STATE_DEAD (s_workers s)) \<and>
    st_active_workers st = st_idle_workers st + st_busy_workers st \<and>
    st_tasks_scheduled st = of_nat (length (s_tasks s))"
proof -
  have inv: "sched_inv s" "gauges s" "st_tasks_scheduled (s_stats s) = of_nat (length (s_tasks s))"
    using sched_statistics.inv_reachable [OF assms] by (simp_all add: sched_stats_inv_def)
  have "count_if (\<lambda>w. w_state w \<noteq> WORKER_STATE_DEAD) ws
      = count_state WORKER_STATE_IDLE ws + count_state WORKER_STATE_BUSY ws"
    if "\<forall>w \<in> set ws. w_state w \<noteq> WORKER_STATE_UNKNOWN" for ws
    using that
  proof (induction ws)
    case (Cons w ws)
    then show ?case by (cases "w_state w") (auto simp: count_state_def)
  qed (simp add: count_state_def)
  with inv show ?thesis by (simp add: gauges_ok_def sched_inv_def)
qed

theorem scheduler_gauges_witness:
  "\<exists>st. scheduler_get_stats (Some demo_sched_1) (Some zero_stats) = Some st \<and>
     st_idle_workers st = 1 \<and> st_active_workers st = 1"
  using scheduler_gauges [OF demo_orderly, of zero_stats] by (auto simp: demo_sched_facts count_state_def)

section \<open>Operations on the registry\<close>

text \<open>
  \<open>scheduler_register_worker\<close>: with the array full nothing happens and the result is \<open>-2\<close>,
  for a known worker too; otherwise the registry maps the id to the new entry, idle and just heard
  from, whether the worker was known or not, and no other entry changes.
\<close>

theorem register_refines:
  assumes "sched_inv s"
  shows "\<exists>rc s'. scheduler_register_worker (Some s) (Some info) now now' = (rc, Some s') \<and> sched_inv s' \<and>
    (if card (dom (registry (s_workers s))) = unat (s_max_workers s) then rc = -2 \<and> s' = s
     else rc = 0 \<and> registry (s_workers s') = (registry (s_workers s))(w_worker_id info \<mapsto>
       info\<lparr>w_state := WORKER_STATE_IDLE, w_last_heartbeat := now,
         w_registered := (if w_worker_id info \<in> dom (registry (s_workers s)) then w_registered info else now')\<rparr>))"
proof (cases "length (s_workers s) < unat (s_max_workers s)")
  case True
  obtain s' where "scheduler_register_worker (Some s) (Some info) now now' = (0, Some s')" "sched_inv s'"
      "reg s' = (reg s)(w_worker_id info \<mapsto> enrol info now now' (reg s (w_worker_id info)))"
    by (rule register_ok [OF assms True])
  moreover have "enrol info now now' (reg s (w_worker_id info)) = info\<lparr>w_state := WORKER_STATE_IDLE,
      w_last_heartbeat := now,
      w_registered := (if w_worker_id info \<in> dom (reg s) then w_registered info else now')\<rparr>"
    by (cases "reg s (w_worker_id info)") (auto simp: enrol_def Let_def)
  ultimately show ?thesis using True worker_count [OF assms] by auto
next
  case False
  moreover have "length (s_workers s) \<le> unat (s_max_workers s)" using assms by (simp add: sched_inv_def)
  ultimately show ?thesis using worker_count [OF assms] assms by simp
qed

theorem register_refines_witness:
  "\<exists>s'. scheduler_register_worker (Some demo_sched_1) (Some (zero_worker\<lparr>w_worker_id := 6\<rparr>)) 120 120 = (0, Some s') \<and>
     dom (registry (s_workers s')) = {5, 6}"
  using register_refines [OF demo_sched_facts(1), of "zero_worker\<lparr>w_worker_id := 6\<rparr>" 120 120]
  by (auto simp: demo_sched_facts simp del: scheduler_register_worker.simps)

text \<open>
  \<open>scheduler_unregister_worker\<close>: exactly the worker with the id is gone, although the last
  entry moves into its place; an unknown id gives \<open>-2\<close> and changes nothing.
\<close>

theorem unregister_refines:
  assumes "sched_inv s"
  shows "\<exists>s'. scheduler_unregister_worker (Some s) wid =
      ((if wid \<in> dom (registry (s_workers s)) then 0 else -2), Some s') \<and> sched_inv s' \<and>
    registry (s_workers s') = (registry (s_workers s))(wid := None) \<and> s_tasks s' = s_tasks s"
proof (cases "reg s wid")
  case None
  then have "(reg s)(wid := None) = reg s" by (auto simp: fun_eq_iff)
  with unregister_unknown [of wid s] assms None show ?thesis
    by (simp add: domIff del: scheduler_unregister_worker.simps)
next
  case (Some w)
  obtain s' where "scheduler_unregister_worker (Some s) wid = (0, Some s')" "sched_inv s'"
      "reg s' = (reg s)(wid := None)" "s_tasks s' = s_tasks s"
    by (rule unregister_ok [OF assms Some])
  with Some show ?thesis by (simp add: domI del: scheduler_unregister_worker.simps)
qed

theorem unregister_refines_witness:
  "\<exists>s'. scheduler_unregister_worker (Some demo_sched_1) 5 = (0, Some s') \<and> registry (s_workers s') = Map.empty"
  using unregister_refines [OF demo_sched_facts(1), of 5]
  by (auto simp: demo_sched_facts zero_worker_def simp del: scheduler_unregister_worker.simps split: if_splits)

text \<open>
  (C10) \<open>scheduler_check_timeouts\<close>: a worker that is not dead and was last heard from more than the
  timeout ago becomes dead, no other worker changes, and the result is the number of workers that
  died in this call.
\<close>

theorem timeouts_mark_exactly_the_silent:
  assumes "sched_inv s"
  shows "\<exists>s'. scheduler_check_timeouts (Some s) now =
      (int (count_if (\<lambda>w. w_state w \<noteq> WORKER_STATE_DEAD \<and>
         now - w_last_heartbeat w > s_heartbeat_timeout_secs s) (s_workers s)), Some s') \<and> sched_inv s' \<and>
    (\<forall>wid. registry (s_workers s') wid =
       (case registry (s_workers s) wid of
          None \<Rightarrow> None
        | Some w \<Rightarrow> Some (if now - w_last_heartbeat w > s_heartbeat_timeout_secs s
            then w\<lparr>w_state := WORKER_STATE_DEAD\<rparr> else w))) \<and>
    (gauges_ok (s_workers s) (s_stats s) \<longrightarrow> gauges_ok (s_workers s') (s_stats s'))"
proof -
  let ?t = "s_heartbeat_timeout_secs s"
  obtain s' where s': "scheduler_check_timeouts (Some s) now
        = (int (count_if (expires now ?t) (s_workers s)), Some s')"
      "sched_inv s'" "reg s' = (\<lambda>wid. map_option (expire now ?t) (reg s wid))"
      "gauges s \<longrightarrow> gauges s'"
    by (rule check_timeouts_ok [OF assms]) blast
  have "expire now ?t w = (if now - w_last_heartbeat w > ?t then w\<lparr>w_state := WORKER_STATE_DEAD\<rparr> else w)" for w
    by (cases w) (auto simp: expire_def expires_def timed_out_def)
  moreover have "expires now ?t = (\<lambda>w. w_state w \<noteq> WORKER_STATE_DEAD \<and> now - w_last_heartbeat w > ?t)"
    by (simp add: fun_eq_iff expires_def timed_out_def)
  ultimately show ?thesis using s'
    by (intro exI [of _ s']) (simp del: scheduler_check_timeouts.simps split: option.split)
qed

theorem timeouts_mark_exactly_the_silent_witness:
  "fst (scheduler_check_timeouts (Some demo_sched_1) 130) = 0 \<and>
   fst (scheduler_check_timeouts (Some demo_sched_1) 131) = 1"
  using timeouts_mark_exactly_the_silent [OF demo_sched_facts(1), of 130]
    timeouts_mark_exactly_the_silent [OF demo_sched_facts(1), of 131]
  by (auto simp: demo_sched_facts simp del: scheduler_check_timeouts.simps)

text \<open>
  \<open>scheduler_get_idle_workers\<close> fills the caller's array with the first idle workers, all of
  them when they fit, and never writes more than \<open>max_workers\<close> entries (for a size below
  \<open>2 ^ 31\<close>; the code narrows it to an \<open>int\<close>).
\<close>

theorem idle_workers_first:
  assumes "unat n < 2 ^ 31"
  shows "\<exists>ws. scheduler_get_idle_workers (Some s) True n = (int (length ws), ws) \<and>
    length ws \<le> unat n \<and> ws = take (unat n) (filter (\<lambda>w. w_state w = WORKER_STATE_IDLE) (s_workers s)) \<and>
    (count_state WORKER_STATE_IDLE (s_workers s) \<le> unat n
      \<longrightarrow> set ws = {w \<in> set (s_workers s). w_state w = WORKER_STATE_IDLE})"
  using get_idle_workers_take [OF assms, of s]
  by (auto simp: Let_def count_state_def simp del: scheduler_get_idle_workers.simps)

theorem idle_workers_first_witness:
  "\<exists>ws. scheduler_get_idle_workers (Some demo_sched_1) True 10 = (1, ws) \<and> map w_worker_id ws = [5]"
  using idle_workers_first [of 10 demo_sched_1]
  by (auto simp: demo_sched_facts simp del: scheduler_get_idle_workers.simps)

section \<open>Batches\<close>

text \<open>
  (C11) The life of a batch: an idle worker is marked busy with the number of tasks, each task is
  tracked on it, and the results arrive in any order, each with any status.  Every call succeeds;
  the worker is busy in between, and at the end idle again with nothing running, its counters up by
  the numbers of successes and failures, no other worker changed and the gauges right.
\<close>

theorem batch_runs_to_idle:
  assumes "sched_inv s" "registry (s_workers s) wid = Some w" "w_state w = WORKER_STATE_IDLE"
    and "w_tasks_running w = 0" "ts \<noteq> []" "length ts < 2 ^ 32"
    and "length (s_tasks s) + length ts \<le> unat (s_max_tasks s)"
    and "\<forall>t \<in> set ts. tracked_on s (fst t) = None" "mset (map fst rs) = mset (map fst ts)"
  shows "\<exists>s1 s2 s3. scheduler_mark_worker_busy (Some s) wid (of_nat (length ts)) = Some s1 \<and>
    track_all (Some s1) ts wid = Some s2 \<and> complete_all (Some s2) rs = Some s3 \<and>
    registry (s_workers s2) = (registry (s_workers s))(wid \<mapsto>
      w\<lparr>w_state := WORKER_STATE_BUSY, w_tasks_running := of_nat (length ts)\<rparr>) \<and>
    registry (s_workers s3) = (registry (s_workers s))(wid \<mapsto>
      w\<lparr>w_tasks_completed := w_tasks_completed w + of_nat (count_if (\<lambda>r. snd r = 0) rs),
        w_tasks_failed := w_tasks_failed w + of_nat (count_if (\<lambda>r. snd r \<noteq> 0) rs)\<rparr>) \<and>
    sched_inv s3 \<and> (gauges_ok (s_workers s) (s_stats s) \<longrightarrow> gauges_ok (s_workers s3) (s_stats s3))"
proof -
  have new: "\<forall>(tid, now) \<in> set ts. tracked_on s tid = None" using assms(8) by auto
  show ?thesis
    by (rule batch_life [OF assms(1-7) new assms(9)]) blast
qed

theorem batch_runs_to_idle_witness:
  "\<exists>s1 s2 s3. scheduler_mark_worker_busy (Some demo_sched_1) 5 2 = Some s1 \<and>
     track_all (Some s1) [(8, 101, 101), (9, 101, 101)] 5 = Some s2 \<and>
     complete_all (Some s2) [(9, 0), (8, 3)] = Some s3 \<and>
     map_option w_tasks_running (registry (s_workers s2) 5) = Some 2 \<and>
     map_option w_tasks_failed (registry (s_workers s3) 5) = Some 1"
proof -
  have "\<exists>s1 s2 s3. scheduler_mark_worker_busy (Some demo_sched_1) 5 (of_nat (length [(8 :: u64, 101 :: time_t, 101 :: time_t), (9, 101, 101)])) = Some s1 \<and>
    track_all (Some s1) [(8, 101, 101), (9, 101, 101)] 5 = Some s2 \<and> complete_all (Some s2) [(9, 0), (8, 3)] = Some s3 \<and>
    registry (s_workers s2) = (registry (s_workers demo_sched_1))(5 \<mapsto>
      (hd (s_workers demo_sched_1))\<lparr>w_state := WORKER_STATE_BUSY, w_tasks_running := of_nat (length [(8 :: u64, 101 :: time_t, 101 :: time_t), (9, 101, 101)])\<rparr>) \<and>
    registry (s_workers s3) = (registry (s_workers demo_sched_1))(5 \<mapsto>
      (hd (s_workers demo_sched_1))\<lparr>w_tasks_completed := w_tasks_completed (hd (s_workers demo_sched_1)) + of_nat (count_if (\<lambda>r. snd r = 0) [(9 :: u64, 0 :: c_int), (8, 3)]),
        w_tasks_failed := w_tasks_failed (hd (s_workers demo_sched_1)) + of_nat (count_if (\<lambda>r. snd r \<noteq> 0) [(9 :: u64, 0 :: c_int), (8, 3)])\<rparr>) \<and>
    sched_inv s3 \<and> (gauges_ok (s_workers demo_sched_1) (s_stats demo_sched_1) \<longrightarrow> gauges_ok (s_workers s3) (s_stats s3))"
    by (rule batch_runs_to_idle)
      (simp_all add: demo_sched_facts tracked_on_def zero_worker_def)
  then show ?thesis
    by (auto simp: demo_sched_facts zero_worker_def
        simp del: scheduler_mark_worker_busy.simps track_all.simps complete_all.simps)
qed

text \<open>
  The exception in the statistics is real: when a worker registers again while the scheduler
  has it as busy, its entry turns idle but the gauges are left as they were, so that from then on
  the statistics report one busy worker too many.
\<close>

theorem busy_worker_registers_again:
  assumes "sched_inv s" "gauges_ok (s_workers s) (s_stats s)" "length (s_workers s) < unat (s_max_workers s)"
    and "registry (s_workers s) (w_worker_id info) = Some w" "w_state w = WORKER_STATE_BUSY"
  shows "\<exists>s'. scheduler_register_worker (Some s) (Some info) now now' = (0, Some s') \<and>
    st_busy_workers (s_stats s') = of_nat (count_state WORKER_STATE_BUSY (s_workers s')) + 1 \<and>
    st_idle_workers (s_stats s') = of_nat (count_state WORKER_STATE_IDLE (s_workers s')) - 1"
proof -
  obtain i where i: "worker_index (s_workers s) (w_worker_id info) = Some i" "w = s_workers s ! i"
    using assms(4) by (auto simp: registry_index)
  have len: "i < length (s_workers s)" using i(1) by (rule worker_index_bound)
  show ?thesis using assms i
    by (simp add: gauges_ok_def count_state_def of_nat_count_update [OF len])
qed

theorem busy_worker_registers_again_witness:
  "\<exists>s s'. scheduler_mark_worker_busy (Some demo_sched_1) 5 1 = Some s \<and>
     scheduler_register_worker (Some s) (Some (zero_worker\<lparr>w_worker_id := 5\<rparr>)) 110 110 = (0, Some s') \<and>
     count_state WORKER_STATE_BUSY (s_workers s') = 0 \<and> st_busy_workers (s_stats s') = 1"
proof -
  let ?s = "on_worker (occupy 1) occupy_stats 5 demo_sched_1"
  have "w_worker_id (hd (s_workers demo_sched_1)) = 5" by (simp add: demo_sched_facts)
  have ws: "s_workers ?s = [zero_worker\<lparr>w_worker_id := 5, w_state := WORKER_STATE_BUSY, w_tasks_running := 1,
      w_last_heartbeat := 100, w_registered := 100\<rparr>]"
    by (simp add: on_worker_def worker_index_def demo_sched_facts occupy_def zero_worker_def)
  obtain s' where s': "scheduler_register_worker (Some ?s) (Some (zero_worker\<lparr>w_worker_id := 5\<rparr>)) 110 110 = (0, Some s')"
      "st_busy_workers (s_stats s') = of_nat (count_state WORKER_STATE_BUSY (s_workers s')) + 1"
    using busy_worker_registers_again [OF busy.on_worker_inv [OF demo_sched_facts(1)]
        busy.on_worker_gauges [OF demo_sched_facts(2)], of 1 5 "zero_worker\<lparr>w_worker_id := 5\<rparr>" _ 110 110]
    by (auto simp: ws busy.on_worker_frame demo_sched_facts simp del: scheduler_register_worker.simps)
  moreover from this(1) have "count_state WORKER_STATE_BUSY (s_workers s') = 0"
    by (auto simp: ws busy.on_worker_frame demo_sched_facts worker_index_def count_state_def)
  ultimately show ?thesis
    by (intro exI [of _ ?s] exI [of _ s']) (simp add: mark_worker_busy_eq del: scheduler_mark_worker_busy.simps
        scheduler_register_worker.simps)
qed

section \<open>Names\<close>

text \<open>
  \<open>worker_capabilities_to_string\<close> stays inside the caller's buffer for every set of flags and
  every size, and from 6 bytes up leaves a terminated string: the names of the flags that are set,
  with bars between them, cut to the buffer, or \<open>NONE\<close> when no flag is known.
\<close>

theorem capabilities_string:
  assumes "length b = n" "0 < n"
  shows "\<exists>b'. worker_capabilities_to_string caps (Some b) n = Some (Some b') \<and> length b' = n \<and>
    (n \<ge> 6 \<longrightarrow> c_str b' = Some (if caps AND 15 = 0 then ''NONE'' else take (n - 1) (join_caps caps cap_names True)))"
proof -
  have names: "\<forall>(flag, name) \<in> set cap_names. NUL \<notin> set name" by (simp add: cap_names_def)
  have len: "length (b[0 := NUL]) = n" using assms(1) by simp
  obtain b1 first where b1: "append_caps caps cap_names n (b[0 := NUL], True) = Some (b1, first)" "length b1 = n"
      "c_str b1 = Some (take (n - 1) (join_caps caps cap_names True))"
      "first \<longleftrightarrow> (\<forall>(flag, name) \<in> set cap_names. caps AND flag = 0)"
    using append_caps_take [OF len assms(2) _ names, of "[]" caps True] c_str_cleared [OF assms(2,1)] by auto
  have "(\<forall>(flag, name) \<in> set cap_names. caps AND flag = 0) \<longleftrightarrow> caps AND 15 = 0"
  proof -
    have "(15 :: u32) = WORKER_CAP_MPI_CLUSTER OR WORKER_CAP_GPU OR WORKER_CAP_LARGE_MEMORY OR WORKER_CAP_CHECKPOINT"
      by (simp add: WORKER_CAP_MPI_CLUSTER_def WORKER_CAP_GPU_def WORKER_CAP_LARGE_MEMORY_def WORKER_CAP_CHECKPOINT_def)
    then show ?thesis by (simp only: bit.conj_disj_distrib) (simp add: cap_names_def or_eq_0_iff)
  qed
  moreover have "c_str (take (n - 1) (''NONE'' @ replicate (n - 1) NUL) @ drop (n - 1) b1) = Some ''NONE''" if "n \<ge> 6"
  proof -
    have "take (n - 1) (''NONE'' @ replicate (n - 1) NUL) = ''NONE'' @ NUL # replicate (n - 6) NUL"
      using that by (auto simp: take_Cons' replicate_Suc [symmetric] simp del: replicate_Suc)
    then show ?thesis using c_str_append_NUL [of "''NONE''"] by simp
  qed
  ultimately show ?thesis using b1 assms
    by (cases first) (auto simp: worker_capabilities_to_string_def c_strncpy_def)
qed

theorem capabilities_string_witness:
  "\<exists>b'. worker_capabilities_to_string 5 (Some (replicate 8 CHR ''x'')) 8 = Some (Some b') \<and>
     c_str b' = Some ''MPI|LAR''"
proof -
  have "take 7 (join_caps 5 cap_names True) = ''MPI|LAR''"
    by (simp add: cap_names_def WORKER_CAP_MPI_CLUSTER_def WORKER_CAP_GPU_def WORKER_CAP_LARGE_MEMORY_def
        WORKER_CAP_CHECKPOINT_def)
  with capabilities_string [of "replicate 8 CHR ''x''" 8 5] show ?thesis by auto
qed

end
