(* ===== verification/Transport_MPI.thy ===== *)
theory Transport_MPI
  imports Transport
begin

text \<open>
  \<open>src/net/transport_mpi.c\<close>: the MPI backend.  The MPI library is not part of the repository;
  the environment record holds the outcomes of the coming calls: of each probe (an error code,
  nothing there, or the rank of a sender), of each receive (a message or an error code), and of
  each send, with the log of what was sent to whom under which tag.
\<close>

section \<open>Data\<close>

definition MPI_SUCCESS :: c_int where "MPI_SUCCESS = 0"
definition MPI_TAG_HEADER :: c_int where "MPI_TAG_HEADER = 1"
definition MPI_TAG_PAYLOAD :: c_int where "MPI_TAG_PAYLOAD = 2"
definition INT_MAX :: int where "INT_MAX = 2 ^ 31 - 1"

record mpi_env =
  me_probe :: "(c_int + c_int option) list"
  me_rx :: "(u8 list + c_int) list"
  me_tx :: "c_int list"
  me_sent :: "(c_int \<times> c_int \<times> u8 list) list"
  me_calloc_ok :: bool
  me_malloc :: "size_t \<Rightarrow> u8 list option"

record mpi_transport =
  mp_role :: transport_role
  mp_rank :: c_int
  mp_size :: c_int
  mp_timeout_ms :: c_int
  mp_stats :: transport_stats
  mp_env :: mpi_env

section \<open>Probing\<close>

text \<open>
  A blocking \<open>MPI_Probe\<close> ends with the first outcome that is not "nothing there"; without one it
  does not return.
\<close>

fun mpi_probe_block :: "(c_int + c_int option) list \<Rightarrow> (c_int \<times> c_int \<times> (c_int + c_int option) list) option" where
  "mpi_probe_block [] = None"
| "mpi_probe_block (Inr None # ps) = mpi_probe_block ps"
| "mpi_probe_block (Inr (Some source) # ps) = Some (1, source, ps)"
| "mpi_probe_block (Inl rc # ps) = Some (-1, 0, ps)"

text \<open>
  The polling loop, with the elapsed time in microseconds; an exhausted list of outcomes is
  "nothing there" from then on.  The last component is the source in the status.
\<close>

function mpi_poll_loop ::
    "(c_int + c_int option) list \<Rightarrow> c_int \<Rightarrow> c_int \<Rightarrow> c_int \<times> c_int \<times> (c_int + c_int option) list" where
  "mpi_poll_loop ps elapsed_us limit_us =
     (if elapsed_us < limit_us
      then case ps of
          [] \<Rightarrow> mpi_poll_loop [] (elapsed_us + 1000) limit_us
        | Inl rc # ps' \<Rightarrow> (-1, 0, ps')
        | Inr (Some source) # ps' \<Rightarrow> (1, source, ps')
        | Inr None # ps' \<Rightarrow> mpi_poll_loop ps' (elapsed_us + 1000) limit_us
      else (0, 0, ps))"
  by pat_completeness auto
termination
  by (relation "measure (\<lambda>(ps, elapsed, limit). nat (limit - elapsed))") auto

declare mpi_poll_loop.simps [simp del]

text \<open>\<open>timeout_ms * 1000\<close> is an \<open>int\<close>: beyond its range the product is undefined.\<close>

definition mpi_probe_with_timeout ::
    "(c_int + c_int option) list \<Rightarrow> c_int \<Rightarrow> (c_int \<times> c_int \<times> (c_int + c_int option) list) option" where
  "mpi_probe_with_timeout ps timeout_ms =
     (if timeout_ms < 0 then mpi_probe_block ps
      else if timeout_ms * 1000 > INT_MAX then None
      else Some (mpi_poll_loop ps 0 (timeout_ms * 1000)))"

section \<open>Send and receive\<close>

definition mpi_count_error :: "mpi_transport \<Rightarrow> mpi_transport" where
  "mpi_count_error t = t\<lparr>mp_stats := (mp_stats t)\<lparr>ts_errors := ts_errors (mp_stats t) + 1\<rparr>\<rparr>"

definition MPI_Send :: "mpi_transport \<Rightarrow> u8 list \<Rightarrow> c_int \<Rightarrow> c_int \<Rightarrow> c_int \<times> mpi_transport" where
  "MPI_Send t bytes dst tag =
     (let e = mp_env t; rc = (case me_tx e of [] \<Rightarrow> MPI_SUCCESS | r # _ \<Rightarrow> r);
          e' = e\<lparr>me_tx := tl (me_tx e),
                 me_sent := (if rc = MPI_SUCCESS then me_sent e @ [(dst, tag, bytes)] else me_sent e)\<rparr>
      in (rc, t\<lparr>mp_env := e'\<rparr>))"

text \<open>
  A receive into a buffer of \<open>n\<close> bytes; a longer message is an error of the library (truncation),
  an exhausted list a receive that does not return.
\<close>

definition MPI_Recv :: "mpi_transport \<Rightarrow> nat \<Rightarrow> ((u8 list + c_int) \<times> mpi_transport) option" where
  "MPI_Recv t n =
     (let e = mp_env t in
      case me_rx e of
        [] \<Rightarrow> None
      | r # rs \<Rightarrow> Some (case r of Inl bytes \<Rightarrow> if length bytes \<le> n then Inl bytes else Inr 15 | Inr rc \<Rightarrow> Inr rc,
          t\<lparr>mp_env := e\<lparr>me_rx := rs\<rparr>\<rparr>))"

fun mpi_send :: "mpi_transport option \<Rightarrow> message_t option \<Rightarrow> c_int \<Rightarrow> (c_int \<times> mpi_transport option) option" where
  "mpi_send None msg dst_rank = Some (-1, None)"
| "mpi_send (Some t) None dst_rank = Some (-1, Some t)"
| "mpi_send (Some t) (Some m) dst_rank =
     (if message_validate (Some m) \<noteq> 0 then Some (-2, Some t)
      else let h = m_header m; n = unat (h_payload_len h);
               (rc, t1) = MPI_Send t (header_bytes h) dst_rank MPI_TAG_HEADER in
        if rc \<noteq> MPI_SUCCESS then Some (-3, Some (mpi_count_error t1))
        else do {
          (rc2, t2) \<leftarrow> (case m_payload m of
            Some bs \<Rightarrow>
              if h_payload_len h > 0
              then if n \<le> length bs then Some (MPI_Send t1 (take n bs) dst_rank MPI_TAG_PAYLOAD) else None
              else Some (MPI_SUCCESS, t1)
          | None \<Rightarrow> Some (MPI_SUCCESS, t1));
          if rc2 \<noteq> MPI_SUCCESS then Some (-4, Some (mpi_count_error t2))
          else Some (0, Some (t2\<lparr>mp_stats := (mp_stats t2)
            \<lparr>ts_messages_sent := ts_messages_sent (mp_stats t2) + 1,
             ts_bytes_sent := ts_bytes_sent (mp_stats t2) +
               (of_nat sizeof_header + ucast (h_payload_len h))\<rparr>\<rparr>))
        })"

text \<open>
  The header and payload from a source.  A header message of fewer than 20 bytes leaves part of
  the structure unset, and reading it is undefined; a payload message shorter than announced
  leaves the rest of the block as \<open>malloc\<close> delivered it.
\<close>

definition mpi_recv_content :: "mpi_transport \<Rightarrow> (mpi_transport + message_t \<times> mpi_transport) option" where
  "mpi_recv_content t = do {
     (r, t1) \<leftarrow> MPI_Recv t sizeof_header;
     case r of
       Inr rc \<Rightarrow> Some (Inl (mpi_count_error t1))
     | Inl frame \<Rightarrow>
         if length frame < sizeof_header then None
         else let header = header_of_bytes frame; len = h_payload_len header in
           case message_alloc (ucast len) (me_calloc_ok (mp_env t1)) (me_malloc (mp_env t1) (ucast len)) of
             None \<Rightarrow> Some (Inl t1)
           | Some m0 \<Rightarrow> do {
               let m = m0\<lparr>m_header := header\<rparr>;
               r2 \<leftarrow> (if len > 0
                 then do {
                   (p, t2) \<leftarrow> MPI_Recv t1 (unat len);
                   Some (case p of
                     Inr rc \<Rightarrow> Inl (mpi_count_error t2)
                   | Inl bytes \<Rightarrow> Inr (m\<lparr>m_payload := map_option (\<lambda>block. bytes @ drop (length bytes) block)
                       (m_payload m)\<rparr>, t2))
                 }
                 else Some (Inr (m, t1)));
               Some (case r2 of
                 Inl t2 \<Rightarrow> Inl t2
               | Inr (m', t2) \<Rightarrow> if message_validate (Some m') \<noteq> 0 then Inl t2 else Inr (m', t2))
             }
   }"

fun mpi_recv ::
    "mpi_transport option \<Rightarrow> c_int option \<Rightarrow> (message_t option \<times> c_int option \<times> mpi_transport option) option"
where
  "mpi_recv None src_rank = Some (None, src_rank, None)"
| "mpi_recv (Some t) src_rank = do {
     (probe_rc, source, ps) \<leftarrow> mpi_probe_with_timeout (me_probe (mp_env t)) (mp_timeout_ms t);
     let t1 = t\<lparr>mp_env := (mp_env t)\<lparr>me_probe := ps\<rparr>\<rparr>;
     if probe_rc \<le> 0
     then Some (None, src_rank, Some (if probe_rc < 0 then mpi_count_error t1 else t1))
     else do {
       r \<leftarrow> mpi_recv_content t1;
       Some (case r of
         Inl t2 \<Rightarrow> (None, src_rank, Some t2)
       | Inr (m, t2) \<Rightarrow>
           (Some m, map_option (\<lambda>_. source) src_rank, Some (t2\<lparr>mp_stats := (mp_stats t2)
             \<lparr>ts_messages_received := ts_messages_received (mp_stats t2) + 1,
              ts_bytes_received := ts_bytes_received (mp_stats t2) +
                (of_nat sizeof_header + ucast (h_payload_len (m_header m)))\<rparr>\<rparr>)))
     }
   }"

section \<open>Poll, broadcast and queries\<close>

fun mpi_poll :: "mpi_transport option \<Rightarrow> c_int \<Rightarrow> (c_int \<times> mpi_transport option) option" where
  "mpi_poll None timeout_ms = Some (-1, None)"
| "mpi_poll (Some t) timeout_ms = do {
     (rc, source, ps) \<leftarrow> mpi_probe_with_timeout (me_probe (mp_env t)) timeout_ms;
     Some (rc, Some (t\<lparr>mp_env := (mp_env t)\<lparr>me_probe := ps\<rparr>\<rparr>))
   }"

text \<open>The loop over the ranks \<open>i, i + 1, ...\<close>, \<open>n\<close> of them, counting the failed sends.\<close>

fun mpi_broadcast_loop :: "mpi_transport \<Rightarrow> message_t \<Rightarrow> nat \<Rightarrow> nat \<Rightarrow> c_int \<Rightarrow> (c_int \<times> mpi_transport) option" where
  "mpi_broadcast_loop t m i 0 errors = Some (errors, t)"
| "mpi_broadcast_loop t m i (Suc n) errors = do {
     (rc, t') \<leftarrow> mpi_send (Some t) (Some m) (int i);
     mpi_broadcast_loop (the t') m (Suc i) n (if rc \<noteq> 0 then errors + 1 else errors)
   }"

fun mpi_broadcast :: "mpi_transport option \<Rightarrow> message_t option \<Rightarrow> (c_int \<times> mpi_transport option) option" where
  "mpi_broadcast None msg = Some (-1, None)"
| "mpi_broadcast (Some t) None = Some (-1, Some t)"
| "mpi_broadcast (Some t) (Some m) =
     (if mp_role t \<noteq> TRANSPORT_ROLE_COORDINATOR then Some (-2, Some t)
      else do {
        (errors, t') \<leftarrow> mpi_broadcast_loop t m 1 (nat (mp_size t - 1)) 0;
        Some (if errors > 0 then -3 else 0, Some t')
      })"

fun mpi_get_stats :: "mpi_transport option \<Rightarrow> transport_stats option \<Rightarrow> transport_stats option" where
  "mpi_get_stats None stats = stats"
| "mpi_get_stats (Some t) None = None"
| "mpi_get_stats (Some t) (Some _) = Some (mp_stats t)"

fun mpi_worker_count :: "mpi_transport option \<Rightarrow> c_int" where
  "mpi_worker_count None = -1"
| "mpi_worker_count (Some t) = (if mp_role t \<noteq> TRANSPORT_ROLE_COORDINATOR then -2 else mp_size t - 1)"

fun mpi_get_rank :: "mpi_transport option \<Rightarrow> c_int" where
  "mpi_get_rank None = -1"
| "mpi_get_rank (Some t) = mp_rank t"

fun mpi_shutdown :: "mpi_transport option \<Rightarrow> c_int \<times> mpi_transport option" where
  "mpi_shutdown None = (-1, None)"
| "mpi_shutdown (Some t) = (0, None)"

definition mpi_vtable :: "mpi_transport vtable" where
  "mpi_vtable = \<lparr>
     v_shutdown = Some (\<lambda>i. Some (mpi_shutdown i)),
     v_send = Some mpi_send, v_recv = Some mpi_recv, v_poll = Some mpi_poll,
     v_broadcast = Some mpi_broadcast, v_get_stats = Some mpi_get_stats,
     v_worker_count = Some mpi_worker_count, v_get_rank = Some mpi_get_rank\<rparr>"

text \<open>
  Initialisation: whether MPI is initialised already, the outcome of \<open>MPI_Init\<close>, the three
  allocations, and the rank and size the communicator reports.
\<close>

definition transport_init_mpi ::
    "bool \<Rightarrow> c_int \<Rightarrow> bool \<Rightarrow> bool \<Rightarrow> bool \<Rightarrow> c_int \<Rightarrow> c_int \<Rightarrow> mpi_env \<Rightarrow> bool \<Rightarrow> transport_config option
      \<Rightarrow> c_int \<times> mpi_transport transport option" where
  "transport_init_mpi initialized init_rc calloc_mpi calloc_t malloc_vtable rank sz env out_not_null config =
     (case config of
        None \<Rightarrow> (-1, None)
      | Some cfg \<Rightarrow>
          if \<not> out_not_null then (-1, None)
          else if \<not> initialized \<and> init_rc \<noteq> MPI_SUCCESS then (-3, None)
          else if \<not> calloc_mpi then (-4, None)
          else if \<not> calloc_t then (-4, None)
          else if \<not> malloc_vtable then (-4, None)
          else (0, Some \<lparr>tr_type = TRANSPORT_TYPE_MPI, tr_vtable = Some mpi_vtable,
            tr_impl = Some \<lparr>mp_role = tc_role cfg, mp_rank = rank, mp_size = sz,
              mp_timeout_ms = tc_timeout_ms cfg, mp_stats = zero_transport_stats, mp_env = env\<rparr>\<rparr>))"

section \<open>Probing with a timeout\<close>

abbreviation nothing_there :: "c_int + c_int option \<Rightarrow> bool" where
  "nothing_there p \<equiv> p = Inr None"

text \<open>
  A timeout of \<open>n\<close> milliseconds is \<open>n\<close> probes: the first outcome among them that is not "nothing
  there" decides, and 0 is returned when there is none.
\<close>

definition probe_outcome :: "nat \<Rightarrow> (c_int + c_int option) list \<Rightarrow> c_int" where
  "probe_outcome n ps =
     (case dropWhile nothing_there (take n ps) of [] \<Rightarrow> 0 | Inl _ # _ \<Rightarrow> -1 | Inr _ # _ \<Rightarrow> 1)"

lemma mpi_poll_loop_outcome:
  "fst (mpi_poll_loop ps elapsed (elapsed + 1000 * int n)) = probe_outcome n ps"
proof (induction n arbitrary: ps elapsed)
  case 0
  show ?case by (subst mpi_poll_loop.simps) (simp add: probe_outcome_def)
next
  case (Suc n)
  have IH: "fst (mpi_poll_loop ps' (elapsed + 1000) (elapsed + 1000 * int (Suc n))) = probe_outcome n ps'" for ps'
    using Suc.IH [of ps' "elapsed + 1000"] by (simp add: algebra_simps)
  have lt: "elapsed < elapsed + 1000 * int (Suc n)" by simp
  show ?case
  proof (cases ps)
    case Nil
    have "mpi_poll_loop [] elapsed (elapsed + 1000 * int (Suc n))
        = mpi_poll_loop [] (elapsed + 1000) (elapsed + 1000 * int (Suc n))"
      by (subst mpi_poll_loop.simps) (simp only: lt if_True list.case)
    with IH [of "[]"] Nil show ?thesis by (simp add: probe_outcome_def)
  next
    case (Cons p ps')
    have "fst (mpi_poll_loop ps elapsed (elapsed + 1000 * int (Suc n)))
        = (case p of Inl _ \<Rightarrow> -1 | Inr (Some _) \<Rightarrow> 1 | Inr None \<Rightarrow> probe_outcome n ps')"
      unfolding Cons using IH [of ps'] lt
      by (subst mpi_poll_loop.simps) (auto split: sum.split option.split)
    then show ?thesis unfolding Cons
      by (auto simp: probe_outcome_def split: sum.splits option.splits)
  qed
qed

lemma mpi_probe_outcome:
  assumes "0 \<le> timeout_ms" "timeout_ms * 1000 \<le> INT_MAX"
  shows "map_option fst (mpi_probe_with_timeout ps timeout_ms) = Some (probe_outcome (nat timeout_ms) ps)"
  using assms mpi_poll_loop_outcome [of ps 0 "nat timeout_ms"]
  by (simp add: mpi_probe_with_timeout_def mult.commute)

section \<open>Round trip\<close>

lemma mpi_send_frames:
  assumes "message_validate (Some m) = 0" "message_wf m" "me_tx (mp_env t) = []"
  obtains t' where "mpi_send (Some t) (Some m) dst = Some (0, Some t')"
    "map (\<lambda>(d, tag, bytes). (d, bytes)) (me_sent (mp_env t'))
       = map (\<lambda>(d, tag, bytes). (d, bytes)) (me_sent (mp_env t)) @ map (\<lambda>f. (dst, fst f)) (frames m)"
    "me_tx (mp_env t') = []"
proof (cases "h_payload_len (m_header m) = 0")
  case True
  let ?t = "t\<lparr>mp_env := (mp_env t)\<lparr>me_tx := [], me_sent := me_sent (mp_env t) @
      [(dst, MPI_TAG_HEADER, header_bytes (m_header m))]\<rparr>,
    mp_stats := (mp_stats t)\<lparr>ts_messages_sent := ts_messages_sent (mp_stats t) + 1,
      ts_bytes_sent := ts_bytes_sent (mp_stats t) + of_nat sizeof_header\<rparr>\<rparr>"
  have "mpi_send (Some t) (Some m) dst = Some (0, Some ?t)"
    using True assms(1,3) by (auto simp: MPI_Send_def Let_def MPI_SUCCESS_def split: option.split)
  then show thesis by (rule that) (use True in \<open>simp_all add: frames_def\<close>)
next
  case False
  from message_valid_payload [OF assms(1,2) False] obtain bs where
    bs: "m_payload m = Some bs" "unat (h_payload_len (m_header m)) \<le> length bs" .
  let ?p = "take (unat (h_payload_len (m_header m))) bs"
  let ?t = "t\<lparr>mp_env := (mp_env t)\<lparr>me_tx := [], me_sent := me_sent (mp_env t) @
      [(dst, MPI_TAG_HEADER, header_bytes (m_header m)), (dst, MPI_TAG_PAYLOAD, ?p)]\<rparr>,
    mp_stats := (mp_stats t)\<lparr>ts_messages_sent := ts_messages_sent (mp_stats t) + 1,
      ts_bytes_sent := ts_bytes_sent (mp_stats t) +
        (of_nat sizeof_header + ucast (h_payload_len (m_header m)))\<rparr>\<rparr>"
  have "mpi_send (Some t) (Some m) dst = Some (0, Some ?t)"
    using False bs assms(1,3) by (simp add: MPI_Send_def Let_def MPI_SUCCESS_def word_gt_0)
  then show thesis by (rule that) (use False bs in \<open>simp_all add: frames_def word_gt_0\<close>)
qed

lemma mpi_recv_frames:
  assumes m: "message_validate (Some m) = 0" "message_wf m"
    and rx: "me_rx (mp_env t) = map (Inl \<circ> fst) (frames m) @ rest"
    and alloc: "me_calloc_ok (mp_env t)"
      "me_malloc (mp_env t) (ucast (h_payload_len (m_header m))) = Some block"
      "length block = unat (h_payload_len (m_header m))"
  shows "mpi_recv_content t = Some (Inr (delivered m, t\<lparr>mp_env := (mp_env t)\<lparr>me_rx := rest\<rparr>\<rparr>))"
proof (cases "h_payload_len (m_header m) = 0")
  case True
  with assms show ?thesis
    by (cases m) (auto simp: mpi_recv_content_def frames_def MPI_Recv_def Let_def message_alloc_def
        delivered_def message_validate_def split: if_splits)
next
  case False
  from message_valid_payload [OF m False] obtain bs where
    bs: "m_payload m = Some bs" "unat (h_payload_len (m_header m)) \<le> length bs" .
  have pos: "(ucast (h_payload_len (m_header m)) :: 64 word) > 0"
    using False by (simp add: word_gt_0 flip: unat_eq_zero)
  have hdr: "h_magic (m_header m) = MESSAGE_MAGIC" "h_version (m_header m) = ENVELOPE_VERSION"
    using m(1) by (auto simp: message_validate_def split: if_splits)
  show ?thesis
    using bs pos hdr False rx alloc
    by (cases m) (simp add: mpi_recv_content_def frames_def MPI_Recv_def message_alloc_def
        delivered_def message_validate_def word_gt_0 min_def Let_def)
qed

end
