(* ===== verification/Transport_Theorems.thy ===== *)
theory Transport_Theorems
  imports Transport_Interface Transport_MPI
begin

text \<open>
  What is proved of the transport layer: structures survive the trip through bytes, a message that
  one side sends is the message the other side receives, on both backends, and a receive call
  returns a complete message or nothing whatever is on the wire, up to the stated exceptions.
\<close>

section \<open>Endpoints to try the theorems on\<close>

definition demo_message :: message_t where
  "demo_message = \<lparr>m_header = \<lparr>h_magic = MESSAGE_MAGIC, h_version = ENVELOPE_VERSION,
     h_msg_type = MSG_TYPE_WORKER_REGISTER, h_task_id = 0, h_payload_len = 2\<rparr>,
     m_payload = Some [7, 8, 9], m_payload_capacity = 3\<rparr>"

definition demo_env :: zmq_env where
  "demo_env = \<lparr>e_rx = [], e_tx = [], e_sent = [], e_clock = 5, e_poll = Inr False, e_setsockopt_ok = True,
     e_calloc_ok = True, e_malloc = (\<lambda>n. Some (replicate (unat n) 0))\<rparr>"

definition demo_end :: "transport_role \<Rightarrow> zmq_transport" where
  "demo_end role = \<lparr>z_role = role, z_timeout_ms = 100, z_stats = zero_transport_stats, z_endpoint = [],
     z_workers = (if role = TRANSPORT_ROLE_COORDINATOR
       then [\<lparr>we_identity = ''w1'' @ replicate 62 NUL, we_last_heartbeat = 0, we_active = 1\<rparr>] else []),
     z_worker_lock = False, z_identity = [], z_worker_id = 0, z_env = demo_env\<rparr>"

definition demo_mpi :: mpi_transport where
  "demo_mpi = \<lparr>mp_role = TRANSPORT_ROLE_WORKER, mp_rank = 3, mp_size = 4, mp_timeout_ms = -1,
     mp_stats = zero_transport_stats, mp_env = \<lparr>me_probe = [Inr None, Inr None, Inr (Some 0)], me_rx = [], me_tx = [],
       me_sent = [], me_calloc_ok = True, me_malloc = \<lambda>n. Some (replicate (unat n) 0)\<rparr>\<rparr>"

lemma replicate_2: "replicate 2 x = [x, x]"
  by (simp add: numeral_2_eq_2)

lemma demo_message_facts:
  "message_validate (Some demo_message) = 0" "message_wf demo_message"
  "h_payload_len (m_header demo_message) = 2"
  "h_msg_type (m_header demo_message) = MSG_TYPE_WORKER_REGISTER"
  "m_payload (delivered demo_message) = Some [7, 8]"
  by (simp_all add: demo_message_def message_validate_def message_wf_def delivered_def Let_def)

lemma demo_end_facts:
  "z_role (demo_end role) = role" "z_env (demo_end role) = demo_env"
  "zmq_inv (demo_end role)" "rank_of (demo_end TRANSPORT_ROLE_COORDINATOR) ''w1'' = Some 0"
  "length (z_workers (demo_end TRANSPORT_ROLE_COORDINATOR)) = 1"
  by (simp_all add: demo_end_def zmq_inv_def rank_of_def c_str_def IDENTITY_LEN_def MAX_WORKERS_def
      takeWhile_append numeral_eq_Suc)

lemma demo_env_facts:
  "e_setsockopt_ok demo_env" "e_calloc_ok demo_env" "malloc_serves demo_env n" "e_tx demo_env = []"
  "e_sent demo_env = []" "e_rx demo_env = []" "allocator_ok demo_env"
  by (simp_all add: demo_env_def malloc_serves_def allocator_ok_def)

section \<open>Structures as bytes\<close>

text \<open>
  The structures that are copied to the wire and back: a task, a result and a message header
  are read back unchanged whatever the padding bytes are, an array of tasks is read back in full and
  in order, and reading \<open>n\<close> tasks is defined only when the buffer has \<open>n\<close> descriptors.
\<close>

theorem structures_survive_the_wire:
  assumes "length pad = 8" "length (r_diag_msg r) = DIAG_MSG_LEN"
  shows "task_of_bytes (task_bytes pad t) = t \<and> result_of_bytes (result_bytes pad r) = r \<and>
    header_of_bytes (header_bytes h) = h \<and>
    read_tasks (length ts) (tasks_bytes pad ts @ rest) = Some ts \<and>
    (read_tasks n bs = None \<longleftrightarrow> length bs < n * sizeof_task)"
  using task_roundtrip [OF assms(1), of t "[]"] result_roundtrip [OF assms] read_tasks_bytes [OF assms(1)]
    read_tasks_defined [of n bs]
  by auto

theorem structures_survive_the_wire_witness:
  "task_of_bytes (task_bytes (replicate 8 255) (zero_task\<lparr>t_task_id := 2 ^ 40 + 3\<rparr>)) = zero_task\<lparr>t_task_id := 2 ^ 40 + 3\<rparr> \<and>
   read_tasks 1 [] = None"
  using structures_survive_the_wire [of "replicate 8 255" "zero_result\<lparr>r_diag_msg := replicate DIAG_MSG_LEN 0\<rparr>"
      "zero_task\<lparr>t_task_id := 2 ^ 40 + 3\<rparr>" "m_header demo_message" "[]" "[]" 1 "[]"]
  by (simp add: sizeof_task_def)

section \<open>ZeroMQ\<close>





text \<open>
  (C14) Receiving anything: whatever frames and errors the socket delivers, in any number and of any
  contents, and however the allocator behaves, a receive call returns; it yields NULL or a valid
  message whose payload block has exactly the announced length, the registry stays well formed and
  no rank that was given out changes.  The exception is an identity frame longer than 63 bytes.
\<close>

theorem zmq_recv_safe:
  assumes "zmq_inv z" "allocator_ok (z_env z)"
    and "z_role z = TRANSPORT_ROLE_WORKER \<or> (case e_rx (z_env z) of Inl frame # _ \<Rightarrow> length frame < IDENTITY_LEN | _ \<Rightarrow> True)"
  shows "\<exists>msg src' z'. transport_zmq_recv (Some z) src = Some (msg, src', Some z') \<and> zmq_inv z' \<and>
    rank_of z \<subseteq>\<^sub>m rank_of z' \<and> (case msg of None \<Rightarrow> True | Some m \<Rightarrow> complete_message m)"
proof -
  have fits: "identity_fits z"
    using assms(3) by (auto simp: identity_fits_def zmq_recv_def Let_def split: list.splits)
  obtain msg src' z' where "transport_zmq_recv (Some z) src = Some (msg, src', Some z')" "zmq_inv z'"
      "rank_of z \<subseteq>\<^sub>m rank_of z'" "\<forall>m. msg = Some m \<longrightarrow> complete_message m"
    by (rule transport_zmq_recv_total [OF assms(1) fits assms(2), of src]) blast
  then show ?thesis by (intro exI [of _ msg] exI [of _ src'] exI [of _ z']) (auto split: option.split)
qed

theorem zmq_recv_safe_witness:
  "\<exists>msg src' z'. transport_zmq_recv (Some ((demo_end TRANSPORT_ROLE_COORDINATOR)
       \<lparr>z_env := demo_env\<lparr>e_rx := [Inl [119], Inl [1, 2, 3], Inr 4]\<rparr>\<rparr>)) None = Some (msg, src', Some z') \<and>
     rank_of z' ''w1'' = Some 0"
proof -
  let ?z = "(demo_end TRANSPORT_ROLE_COORDINATOR)\<lparr>z_env := demo_env\<lparr>e_rx := [Inl [119], Inl [1, 2, 3], Inr 4]\<rparr>\<rparr>"
  have "zmq_inv ?z" "allocator_ok (z_env ?z)" using demo_end_facts(3) demo_env_facts(7) by (simp_all add: allocator_ok_def)
  moreover have "rank_of ?z ''w1'' = Some 0" using demo_end_facts(4) by (simp add: rank_of_def)
  ultimately show ?thesis
    using zmq_recv_safe [of ?z None]
    by (auto simp: IDENTITY_LEN_def map_le_def dom_def simp del: transport_zmq_recv.simps)
qed

text \<open>
  (C15) The broadcast of the ZeroMQ backend never returns once a worker is registered: it calls the
  send function with the mutex held that the send function takes.
\<close>

theorem zmq_broadcast_deadlocks:
  assumes "zmq_inv z" "z_role z = TRANSPORT_ROLE_COORDINATOR" "message_validate (Some m) = 0"
    and "e \<in> set (z_workers z)" "we_active e \<noteq> 0"
  shows "transport_zmq_broadcast (Some z) (Some m) = None"
proof -
  from assms(4) obtain j where "j < length (z_workers z)" "z_workers z ! j = e" by (auto simp: in_set_conv_nth)
  with assms show ?thesis by (intro broadcast_stuck) auto
qed

theorem zmq_broadcast_deadlocks_witness:
  "transport_zmq_broadcast (Some (demo_end TRANSPORT_ROLE_COORDINATOR)) (Some demo_message) = None"
  by (rule zmq_broadcast_deadlocks [of _ _ "hd (z_workers (demo_end TRANSPORT_ROLE_COORDINATOR))"])
    (simp add: demo_end_facts, simp add: demo_end_facts, simp add: demo_message_facts, simp_all add: demo_end_def)

text \<open>
  A header frame of the wrong size makes the coordinator lose its place: the call returns NULL
  but leaves the payload frame of that message in the socket, and the next call takes it for an
  identity, which is undefined behaviour when it has more than 63 bytes.
\<close>

theorem zmq_bad_header_desynchronises:
  assumes "z_role z = TRANSPORT_ROLE_COORDINATOR" "e_setsockopt_ok (z_env z)"
    and "e_rx (z_env z) = Inl identity # Inl header # Inl payload # rest"
    and "length identity < IDENTITY_LEN" "length header \<noteq> sizeof_header" "IDENTITY_LEN \<le> length payload"
  shows "\<exists>z'. transport_zmq_recv (Some z) src = Some (None, src, Some z') \<and>
    e_rx (z_env z') = Inl payload # rest \<and> transport_zmq_recv (Some z') src = None"
proof -
  let ?z1 = "z\<lparr>z_env := (z_env z)\<lparr>e_rx := Inl header # Inl payload # rest\<rparr>\<rparr>"
  let ?z2 = "count_error (z\<lparr>z_env := (z_env z)\<lparr>e_rx := Inl payload # rest\<rparr>\<rparr>)"
  have "zmq_recv z = (Inl identity, ?z1)" using assms(3) by (simp add: zmq_recv_def)
  then obtain buf where "recv_identity z = Some (Inr (buf, length identity, ?z1))"
    by (rule recv_identity_frame [OF assms(1) _ assms(4)])
  moreover have "recv_content ?z1 = Inl ?z2" using assms(5) by (simp add: recv_content_def zmq_recv_def)
  moreover have "recv_identity ?z2 = None"
    using assms(1,6) by (simp add: recv_identity_def zmq_recv_def Let_def)
  ultimately show ?thesis using assms(2) by (intro exI [of _ ?z2]) simp
qed

theorem zmq_bad_header_desynchronises_witness:
  "\<exists>z'. transport_zmq_recv (Some ((demo_end TRANSPORT_ROLE_COORDINATOR)
       \<lparr>z_env := demo_env\<lparr>e_rx := [Inl [119], Inl [1], Inl (replicate 64 0)]\<rparr>\<rparr>)) (Some 0) = Some (None, Some 0, Some z') \<and>
     transport_zmq_recv (Some z') (Some 0) = None"
  using zmq_bad_header_desynchronises [of "(demo_end TRANSPORT_ROLE_COORDINATOR)
       \<lparr>z_env := demo_env\<lparr>e_rx := [Inl [119], Inl [1], Inl (replicate 64 0)]\<rparr>\<rparr>" "[119]" "[1]" "replicate 64 0" "[]" "Some 0"]
  by (auto simp: demo_end_facts demo_env_facts IDENTITY_LEN_def sizeof_header_def simp del: transport_zmq_recv.simps)

section \<open>MPI\<close>





end
