(* ===== verification/Runtime_Theorems.thy ===== *)
theory Runtime_Theorems
  imports Resource_Limits_Props Executor
begin

text \<open>
  What is proved of the worker's runtime, \<open>resource_limits.c\<close> and \<open>executor.c\<close>: task slots are never
  oversubscribed, the measurements are what the kernel wrote, the checks report the worst status,
  and a batch is executed task by task with every outcome recorded.
\<close>

section \<open>A limiter to try the theorems on\<close>

definition demo_usage :: rusage where
  "demo_usage = \<lparr>ru_utime = (0, 0), ru_stime = (0, 0), ru_maxrss = 0\<rparr>"

definition demo_limits :: resource_limits where
  "demo_limits = the (resource_limits_create (Some (resource_default_config\<lparr>rc_max_concurrent_tasks := 1\<rparr>)) True demo_usage (0, 0))"

definition demo_status :: "string list" where
  "demo_status = [''Name: worker'', status_line ''VmSize:'' '' '' 52000 '' kB'',
     status_line ''VmRSS:'' '' '' 4200 '' kB'', ''Threads: 1'']"

lemma demo_limits_facts:
  "slot_init (demo_limits, 0)" "rl_max_concurrent_tasks demo_limits = 1" "rl_tasks_running demo_limits = 0"
proof -
  have "\<exists>cfg usage now. resource_limits_create cfg True usage now = Some demo_limits"
    by (rule exI [of _ "Some (resource_default_config\<lparr>rc_max_concurrent_tasks := 1\<rparr>)"], rule exI [of _ demo_usage],
        rule exI [of _ "(0, 0)"]) (simp add: demo_limits_def resource_limits_create_def)
  then show "slot_init (demo_limits, 0)" by (simp add: slot_init_def)
qed (simp_all add: demo_limits_def resource_limits_create_def)

section \<open>Task slots\<close>



section \<open>Measurements\<close>

text \<open>
  (C19) The memory measurement is what the kernel reports: for the lines of \<open>/proc/self/status\<close> with a
  \<open>VmSize\<close> and a \<open>VmRSS\<close> line among any others, any white space and any unit behind the numbers, the
  result is their values in bytes, and the peak in the statistics is the largest resident size so far.
\<close>

theorem memory_measured:
  assumes "os_status os = Some (as @ status_line ''VmSize:'' pad v rest # bs @ status_line ''VmRSS:'' pad' r rest' # cs)"
    and "\<forall>line \<in> set (as @ bs @ cs). \<not> starts_with ''VmRSS:'' line \<and> \<not> starts_with ''VmSize:'' line"
    and "v < 2 ^ 54" "r < 2 ^ 54" "\<forall>c \<in> set (pad @ pad'). is_space c"
    and "rest = [] \<or> \<not> is_digit (hd rest)" "rest' = [] \<or> \<not> is_digit (hd rest')"
  shows "resource_limits_get_memory_usage os = (0, Some (of_nat (r * 1024), of_nat (v * 1024))) \<and>
    rs_memory_rss_bytes (update_memory os st) = of_nat (r * 1024) \<and>
    rs_memory_peak_bytes (update_memory os st) = max (rs_memory_peak_bytes st) (of_nat (r * 1024))"
proof -
  have other: "fold memory_line as rv = rv" "fold memory_line bs rv = rv" "fold memory_line cs rv = rv" for rv
    using assms(2) by (simp_all add: memory_fold_other)
  have lines: "memory_line (status_line ''VmSize:'' pad v rest) (0, 0) = (0, of_nat (v * 1024))"
    "memory_line (status_line ''VmRSS:'' pad' r rest') (0, of_nat (v * 1024)) = (of_nat (r * 1024), of_nat (v * 1024))"
    using assms(3-7) by (auto intro!: memory_line_virt memory_line_rss simp del: of_nat_mult)
  have "fold memory_line (as @ status_line ''VmSize:'' pad v rest # bs @ status_line ''VmRSS:'' pad' r rest' # cs) (0, 0)
      = (of_nat (r * 1024), of_nat (v * 1024))"
    by (simp only: fold_append fold_simps comp_apply other lines)
  with assms(1) have "resource_limits_get_memory_usage os = (0, Some (of_nat (r * 1024), of_nat (v * 1024)))"
    by (simp only: resource_limits_get_memory_usage_def option.case)
  then show ?thesis by (auto simp: update_memory_def Let_def max_def)
qed

theorem memory_measured_witness:
  "resource_limits_get_memory_usage \<lparr>os_status = Some demo_status, os_rusage = None, os_clock = None, os_fds = None,
     os_rlimit = None, os_statvfs = None\<rparr> = (0, Some (4300800, 53248000))"
proof -
  let ?os = "\<lparr>os_status = Some demo_status, os_rusage = None, os_clock = None, os_fds = None, os_rlimit = None,
    os_statvfs = None\<rparr>"
  have "resource_limits_get_memory_usage ?os = (0, Some (of_nat (4200 * 1024), of_nat (52000 * 1024)))"
    by (rule memory_measured [where as = "[''Name: worker'']" and bs = "[]" and cs = "[''Threads: 1'']" and pad = "'' ''"
          and pad' = "'' ''" and rest = "'' kB''" and rest' = "'' kB''", THEN conjunct1])
      (simp_all add: demo_status_def starts_with_def is_space_def is_digit_def)
  then show ?thesis by simp
qed

text \<open>
  \<open>resource_limits_check_all\<close> reports the worst of the five checks, made on the updated
  measurements: it is at least every one of them and is one of them, so that it is OK exactly when
  all are; \<open>LIMIT_CRITICAL\<close> is never reported.
\<close>

theorem check_all_reports_worst:
  "\<exists>status l'. resource_limits_check_all os (Some l) = (status, Some l') \<and>
    resource_limits_update os (Some l) = (0, Some l') \<and>
    (\<forall>type. resource_limits_check os (Some l') type \<le> status) \<and>
    (\<exists>type. resource_limits_check os (Some l') type = status) \<and> status \<noteq> LIMIT_CRITICAL"
proof -
  let ?types = "[RESOURCE_MEMORY, RESOURCE_CPU_TIME, RESOURCE_TASKS_RUNNING, RESOURCE_DISK_SPACE, RESOURCE_OPEN_FILES]"
  obtain l' where l': "resource_limits_update os (Some l) = (0, Some l')" by (simp add: Let_def)
  let ?check = "resource_limits_check os (Some l')"
  let ?s = "worst_status (map ?check ?types)"
  have all: "type \<in> set ?types" for type by (cases type) simp_all
  have upper: "?check type \<le> ?s" for type
    by (rule worst_status_upper) (use all [of type] in \<open>auto simp del: resource_limits_check.simps\<close>)
  have least: "LIMIT_OK \<le> status" for status by (cases status) (simp_all add: less_eq_limit_status_def)
  have some: "\<exists>type. ?check type = ?s"
    using worst_status_in [of "map ?check ?types"] upper [of RESOURCE_MEMORY] least [of "?check RESOURCE_MEMORY"]
    by (auto simp del: resource_limits_check.simps intro: order_antisym)
  have crit: "?check type \<noteq> LIMIT_CRITICAL" for type by (cases type) (simp_all add: Let_def)
  have "resource_limits_check_all os (Some l) = (?s, Some l')"
    by (simp only: resource_limits_check_all.simps l' Let_def snd_conv)
  with l' upper some crit show ?thesis by metis
qed

section \<open>Execution\<close>

text \<open>
  (C20) A batch: every task gets a result with its id in its place; a task without input or output
  buffer is marked as an invalid argument, any other carries the kernel's code, with the buffer it
  was given; and the number returned is the number of tasks that the kernel completed.
\<close>

theorem batch_executed:
  assumes "ts \<noteq> []"
  shows "\<exists>rs. executor_execute_batch krn (Some ts) True = (int (count_if (\<lambda>(t, _). task_succeeds krn t) ts), rs) \<and>
    map r_task_id rs = map (\<lambda>(t, _). t_task_id t) ts \<and>
    (\<forall>i < length ts. let t = fst (ts ! i); r = rs ! i in
       if runnable t then r_status r = run_kernel krn t \<and> r_output r = t_output t
       else r_status r = errcode_value ERR_INVALID_ARGUMENT \<and> r_output r = 0)"
proof -
  let ?run = "\<lambda>(t, start, end_t). the (snd (executor_execute_task krn start end_t (Some t) (Some zero_result)))"
  have id: "r_task_id (?run x) = t_task_id (fst x)" for x
    by (cases x) (auto simp: Let_def)
  have st: "if runnable (fst x) then r_status (?run x) = run_kernel krn (fst x) \<and> r_output (?run x) = t_output (fst x)
      else r_status (?run x) = errcode_value ERR_INVALID_ARGUMENT \<and> r_output (?run x) = 0" for x
    by (cases x) (auto simp: Let_def runnable_def run_kernel_def zero_result_def)
  have "executor_execute_batch krn (Some ts) True
      = (int (count_if (\<lambda>(t, _). task_succeeds krn t) ts), map ?run ts)"
    using assms by (simp add: executor_execute_batch_def batch_loop_results)
  moreover have "map r_task_id (map ?run ts) = map (\<lambda>(t, _). t_task_id t) ts"
    unfolding map_map comp_def id by (simp add: split_beta)
  moreover have "let t = fst (ts ! i); r = map ?run ts ! i in
      if runnable t then r_status r = run_kernel krn t \<and> r_output r = t_output t
      else r_status r = errcode_value ERR_INVALID_ARGUMENT \<and> r_output r = 0" if "i < length ts" for i
    unfolding Let_def nth_map [OF that] by (rule st)
  ultimately show ?thesis by blast
qed

theorem batch_executed_witness:
  "fst (executor_execute_batch (\<lambda>_ _ _ _ _ _ trace. if trace = 0 then 0 else 7)
     (Some [(zero_task\<lparr>t_input := 16, t_input_size := 1, t_output := 32, t_output_size := 1\<rparr>, (0, 0), (0, 5)),
       (zero_task, (0, 0), (0, 5)),
       (zero_task\<lparr>t_input := 16, t_input_size := 1, t_output := 32, t_output_size := 1, t_trace_id := 9\<rparr>, (0, 0), (0, 5))]) True) = 1"
  using batch_executed [of "[(zero_task\<lparr>t_input := 16, t_input_size := 1, t_output := 32, t_output_size := 1\<rparr>, (0, 0), (0, 5)),
       (zero_task, (0, 0), (0, 5)),
       (zero_task\<lparr>t_input := 16, t_input_size := 1, t_output := 32, t_output_size := 1, t_trace_id := 9\<rparr>, (0, 0), (0, 5))]"
      "\<lambda>_ _ _ _ _ _ trace. if trace = 0 then 0 else 7"]
  by (auto simp: task_succeeds_def runnable_def run_kernel_def zero_task_def)

text \<open>
  The execution time: exact in microseconds when the nanoseconds of the second reading of the
  clock are not smaller than those of the first; when they are, the difference wraps around before it
  is divided, and the result is more than 18000 million seconds too large.
\<close>

theorem elapsed_time:
  assumes "fst start \<le> fst end_t" "fst end_t - fst start < 2 ^ 40"
    and "0 \<le> snd start" "snd start < 1000000000" "0 \<le> snd end_t" "snd end_t < 1000000000"
  shows "uint (executor_elapsed_us start end_t) = (fst end_t - fst start) * 1000000 +
    (if snd start \<le> snd end_t then snd end_t - snd start else 2 ^ 64 + snd end_t - snd start) div 1000"
proof (cases "snd start \<le> snd end_t")
  case True
  have "(snd end_t - snd start) div 1000 \<le> 1000000" using assms(3-6) by simp
  then have "(fst end_t - fst start) * 1000000 + (snd end_t - snd start) div 1000 < 2 ^ 64"
    using assms(2) by simp
  then have "uint (executor_elapsed_us start end_t)
      = (fst end_t - fst start) * 1000000 + (snd end_t - snd start) div 1000"
    by (rule executor_elapsed_exact [OF assms(1) True]) (use assms in simp)
  with True show ?thesis by simp
next
  case False
  let ?s = "fst end_t - fst start" and ?n = "2 ^ 64 + snd end_t - snd start"
  have wrap: "executor_elapsed_us start end_t = executor_elapsed_us (fst start, 0) (fst end_t, ?n)"
  proof -
    have "(of_int ?n :: u64) = of_int (snd end_t - snd start)"
      by (simp add: of_int_diff)
    then show ?thesis by (simp only: executor_elapsed_us_def fst_conv snd_conv diff_0_right)
  qed
  have "?n div 1000 \<le> 2 ^ 64 div 1000" using False assms(3-6) by (intro zdiv_mono1) simp_all
  then have "?s * 1000000 + ?n div 1000 < 2 ^ 64" using assms(2) by simp
  then have "uint (executor_elapsed_us (fst start, 0) (fst end_t, ?n)) = ?s * 1000000 + ?n div 1000"
    using executor_elapsed_exact [of "(fst start, 0)" "(fst end_t, ?n)"] assms False by simp
  with False wrap show ?thesis by simp
qed

theorem elapsed_time_witness:
  "uint (executor_elapsed_us (10, 1000000) (11, 999000000)) = 1998000 \<and>
   uint (executor_elapsed_us (10, 999000000) (11, 1000000)) > 18000000000000000"
  using elapsed_time [of "(10, 1000000)" "(11, 999000000)"] elapsed_time [of "(10, 999000000)" "(11, 1000000)"]
  by simp

end
