(* ===== verification/Cluster_Theorems.thy ===== *)
theory Cluster_Theorems
  imports Cluster_Links Programs Worker_Liveness Task_Queue_Theorems Scheduler_Theorems Transport_Theorems Runtime_Theorems
begin

text \<open>
  What is proved of the two programs, \<open>worker/main.c\<close> and \<open>coordinator/main.c\<close>: a pass of either main
  loop returns and loses no task, and registrations, batches and results get across.
\<close>

section \<open>Programs to try the theorems on\<close>

definition demo_worker_env :: worker_env where
  "demo_worker_env = \<lparr>ve_now = 100, ve_src = 0, ve_calloc = True, ve_malloc = (\<lambda>n. Some (replicate (unat n) 0)),
     ve_malloc_node = first_fit, ve_start = (0, 0), ve_end = (0, 5000),
     ve_os = \<lparr>os_status = None, os_rusage = None, os_clock = None, os_fds = None, os_rlimit = None, os_statvfs = None\<rparr>,
     ve_pad = replicate 8 0, ve_results = []\<rparr>"

definition demo_worker :: "zmq_transport worker" where
  "demo_worker = \<lparr>wk_mode = WORKER_MODE_STANDALONE, wk_transport = zmq_on (demo_end TRANSPORT_ROLE_WORKER),
     wk_queue = demo_queue_1, wk_limits = None, wk_last_heartbeat = 99, wk_mpi_size = 0, wk_next_worker = 1,
     wk_distributed = []\<rparr>"

definition demo_coord_env :: coord_env where
  "demo_coord_env = \<lparr>ce_src = 0, ce_calloc = True, ce_malloc = (\<lambda>n. Some (replicate (unat n) 0)),
     ce_malloc_node = first_fit, ce_pad = replicate 8 0\<rparr>"

definition demo_coordinator :: "zmq_transport coordinator" where
  "demo_coordinator = \<lparr>co_transport = zmq_on (demo_end TRANSPORT_ROLE_COORDINATOR), co_sched = Some demo_sched_1,
     co_queue = demo_queue_1, co_meta = Some [], co_time = int, co_ticks = 100\<rparr>"

lemma demo_endpoints: "endpoint_up role (demo_end role)"
  by (simp add: endpoint_up_def demo_end_facts demo_env_facts)

lemma demo_zmq_ok: "zmq_ok (demo_end role)"
  by (simp add: zmq_ok_def demo_end_facts demo_env_facts peer_stream.silent)

lemma demo_allocates: "allocates True (\<lambda>n. Some (replicate (unat n) 0))"
  by (simp add: allocates_def)

lemma demo_envs: "env_ok demo_worker_env" "coord_env_ok demo_coord_env"
  by (simp_all add: env_ok_def coord_env_ok_def demo_worker_env_def demo_coord_env_def alloc_law_def node_allocator_first_fit)

lemma demo_client_queue: "client_queue demo_queue_1" "heap_capacity demo_queue_1 = Some 2"
proof -
  have "q_max_size demo_queue_1 = 2" "q_allow_duplicates demo_queue_1 = 0"
    using demo_queue_1_facts(1)
    by (auto simp: demo_queue_facts task_exists.simps insert_normal_def demo_queue_1_def demo_task_def zero_task_def
        TASK_FLAG_HIGH_PRIORITY_def demo_queue_def task_queue_create_def Let_def)
  then show "client_queue demo_queue_1" "heap_capacity demo_queue_1 = Some 2"
    using demo_queue_1_facts by (simp_all add: client_queue_def heap_capacity_def)
qed

lemma demo_quiet:
  "transport_recv (Some (zmq_on (demo_end role))) (Some old) = Some (None, Some old, Some (demo_end role))"
  by (cases role) (simp_all add: zmq_on_recv demo_end_facts demo_env_facts recv_identity_def recv_content_def zmq_recv_def
      receive_failed_def)

lemma demo_fit: "batches_fit (zmq_on (demo_end role))" "registrations_fit (zmq_on (demo_end role))"
  by (simp_all add: batches_fit_def registrations_fit_def demo_quiet)

section \<open>The worker\<close>

text \<open>
  What a worker does with a batch message: reading the descriptors is defined exactly when the
  payload has as many as its count field says.  The count is never compared with the length of the
  payload, so a complete, valid message with a larger count makes the worker read outside the block.
\<close>

theorem batch_count_trusted:
  assumes "complete_message m" "h_msg_type (m_header m) = MSG_TYPE_TASK_SUBMIT"
    and "m_payload m = Some bytes" "4 \<le> unat (h_payload_len (m_header m))"
  shows "unpack_batch m = None \<longleftrightarrow> length bytes < 4 + unat (rd32 0 bytes) * sizeof_task"
  using unpack_defined [OF assms(1,2)] assms(2-4) by (auto simp: batch_fits_def)

theorem batch_count_trusted_witness:
  "unpack_batch \<lparr>m_header = \<lparr>h_magic = MESSAGE_MAGIC, h_version = ENVELOPE_VERSION, h_msg_type = MSG_TYPE_TASK_SUBMIT,
     h_task_id = 0, h_payload_len = 4\<rparr>, m_payload = Some [1, 0, 0, 0], m_payload_capacity = 4\<rparr> = None"
  by (subst batch_count_trusted [where bytes = "[1, 0, 0, 0]"])
    (simp_all add: complete_message_def message_validate_def message_wf_def sizeof_task_def rd_defs)



section \<open>The coordinator\<close>



text \<open>
  The condition is needed: with more than 100 tasks queued and a worker that announced a batch
  size above 100, serving that worker writes behind the end of the array of 100 descriptors.
\<close>

theorem large_batch_overflows:
  assumes "client_queue (co_queue c)" "100 < unat (w_max_batch_size w)" "100 < length (tq_tasks (co_queue c))"
  shows "serve_worker ce w c = None"
proof -
  have "create_task_batch (co_queue c) 0 (unat (w_max_batch_size w)) = None"
    by (rule create_task_batch_overflow [OF assms(1)]) (use assms(2,3) in \<open>simp_all add: BATCH_ARRAY_def\<close>)
  moreover have "w_max_batch_size w > 0" using assms(2) by (simp add: word_less_nat_alt)
  ultimately show ?thesis by (simp add: serve_worker_def)
qed

theorem large_batch_overflows_witness:
  "\<exists>q rcs q'. task_queue_create (Some coordinator_queue_config) True = Some q \<and>
     enqueue_all heap_enq first_fit (map (\<lambda>n. demo_task (of_nat n) 0) [0..<101]) q = Some (rcs, q') \<and>
     serve_worker demo_coord_env (zero_worker\<lparr>w_max_batch_size := 101\<rparr>) (demo_coordinator\<lparr>co_queue := q'\<rparr>) = None"
proof -
  let ?ts = "map (\<lambda>n. demo_task (of_nat n) 0) [0..<101]"
  obtain q where q: "task_queue_create (Some coordinator_queue_config) True = Some q"
    by (simp add: task_queue_create_def Let_def)
  have c: "client_queue q" "tq_tasks q = []"
    by (rule client_queue_create [OF q]; simp add: coordinator_queue_config_def)+
  have cap: "heap_capacity q = Some 10000"
    using q by (auto simp: task_queue_create_def Let_def heap_capacity_def coordinator_queue_config_def)
  have "inj_on (\<lambda>n. of_nat n :: u64) {0..<101}"
    by (rule inj_on_inverseI [of _ unat]) (simp add: unsigned_of_nat take_bit_nat_eq_self)
  then have dist: "distinct (map t_task_id (?ts @ tq_tasks q))"
    by (simp add: c(2) o_def demo_task_def distinct_map)
  obtain rcs q' where q': "enqueue_all heap_enq first_fit ?ts q = Some (rcs, q')" "client_queue q'"
      "tq_tasks q' = fold pq_insert ?ts (tq_tasks q)"
    by (rule enqueue_new_ok [OF c(1) node_allocator_first_fit cap, of ?ts]) (use dist c(2) in simp_all)
  have "length (tq_tasks q') = 101"
    using arg_cong [OF q'(3), of "\<lambda>xs. size (mset xs)"] by (simp only: fold_pq_insert_mset) (simp add: c(2))
  with large_batch_overflows [of "demo_coordinator\<lparr>co_queue := q'\<rparr>" "zero_worker\<lparr>w_max_batch_size := 101\<rparr>" demo_coord_env]
    q q' show ?thesis by auto
qed

section \<open>End to end\<close>

text \<open>
  A batch gets across: the coordinator sends a batch to a registered worker; the worker that
  takes those frames from its socket queues exactly the tasks of the batch, in order and by priority,
  provided its queue has room and does not know the ids.
\<close>

theorem batch_reaches_worker:
  assumes "endpoint_up TRANSPORT_ROLE_COORDINATOR c" "endpoint_up TRANSPORT_ROLE_WORKER z"
    and "allocates (ce_calloc ce) (ce_malloc ce)" "length (ce_pad ce) = 8" "rank_of c s = Some i"
    and "length batch \<le> BATCH_ARRAY" "wk_transport w = zmq_on z" "client_queue (wk_queue w)"
    and "node_allocator (ve_malloc_node ve)" "heap_capacity (wk_queue w) = Some k"
    and "length (tq_tasks (wk_queue w)) + length batch \<le> k"
    and "distinct (map t_task_id (batch @ tq_tasks (wk_queue w)))"
  shows "\<exists>c' new w'. send_task_batch ce (zmq_on c) (of_nat i) batch = Some (0, zmq_on c') \<and>
    e_sent (z_env c') = e_sent (z_env c) @ (map byte_of_char s, True) # new \<and>
    worker_receive ve (w\<lparr>wk_transport := zmq_on (receiving (map (Inl \<circ> fst) new @ rest) z)\<rparr>) = Some w' \<and>
    tq_tasks (wk_queue w') = fold pq_insert batch (tq_tasks (wk_queue w)) \<and> client_queue (wk_queue w')"
proof -
  have "length (z_workers c) \<le> MAX_WORKERS" using assms(1) by (simp add: endpoint_up_def zmq_inv_def)
  with rank_of_bound [OF assms(5)] have "i < 2 ^ 31" by (simp add: MAX_WORKERS_def)
  then have rank: "sint (of_nat i :: u32) = int i"
    using sint_ucast_small [of "of_nat i"] by (simp add: unat_of_nat_64)
  let ?b = "batch_payload (ce_pad ce) batch"
  have small: "length ?b < 2 ^ 32" by (rule batch_payload_small [OF assms(4,6)])
  obtain c' new z' m where l: "send_packed (zmq_on c) (packed_message (ce_calloc ce) (ce_malloc ce) MSG_TYPE_TASK_SUBMIT
        (t_task_id (hd batch)) ?b) (int i) = Some (0, zmq_on c')"
      "e_sent (z_env c') = e_sent (z_env c) @ (map byte_of_char s, True) # new"
      "transport_recv (Some (zmq_on (receiving (map (Inl \<circ> fst) new @ rest) z))) (Some (ve_src ve))
        = Some (Some m, Some (ve_src ve), Some z')"
      "carries m MSG_TYPE_TASK_SUBMIT (t_task_id (hd batch)) ?b"
    by (rule packed_to_worker [OF assms(1,2,3) small assms(5),
          of MSG_TYPE_TASK_SUBMIT "t_task_id (hd batch)" rest "ve_src ve"])
  have unpack: "unpack_batch m = Some batch"
    using unpack_batch_payload [OF l(4) assms(4)] assms(6) by (simp add: BATCH_ARRAY_def)
  have type: "h_msg_type (m_header m) = MSG_TYPE_TASK_SUBMIT" using l(4) by (simp add: carries_def)
  obtain rcs q' where q': "enqueue_all heap_enq (ve_malloc_node ve) batch (wk_queue w) = Some (rcs, q')" "client_queue q'"
      "tq_tasks q' = fold pq_insert batch (tq_tasks (wk_queue w))"
    by (rule enqueue_new_ok [OF assms(8-11)]) (use assms(12) in simp)
  from l unpack type q' rank show ?thesis
    by (intro exI [of _ c'] exI [of _ new] exI [of _ "w\<lparr>wk_transport := zmq_on z', wk_queue := q'\<rparr>"])
      (simp add: send_task_batch_def worker_receive_def Let_def)
qed

theorem batch_reaches_worker_witness:
  "\<exists>c' new w'. send_task_batch demo_coord_env (zmq_on (demo_end TRANSPORT_ROLE_COORDINATOR)) 0 [demo_task 9 2] = Some (0, zmq_on c') \<and>
     e_sent (z_env c') = (map byte_of_char ''w1'', True) # new \<and>
     worker_receive demo_worker_env (demo_worker\<lparr>wk_transport := zmq_on (receiving (map (Inl \<circ> fst) new @ [])
       (demo_end TRANSPORT_ROLE_WORKER))\<rparr>) = Some w' \<and>
     tq_tasks (wk_queue w') = [demo_task 9 2, demo_task 1 0]"
proof -
  have "fold pq_insert [demo_task 9 2] [demo_task 1 0] = [demo_task 9 2, demo_task 1 0]"
    by (simp add: pq_insert_def high_priority_def demo_task_def zero_task_def TASK_FLAG_HIGH_PRIORITY_def)
  moreover have "\<exists>c' new w'. send_task_batch demo_coord_env (zmq_on (demo_end TRANSPORT_ROLE_COORDINATOR)) (of_nat 0) [demo_task 9 2]
        = Some (0, zmq_on c') \<and>
      e_sent (z_env c') = e_sent (z_env (demo_end TRANSPORT_ROLE_COORDINATOR)) @ (map byte_of_char ''w1'', True) # new \<and>
      worker_receive demo_worker_env (demo_worker\<lparr>wk_transport := zmq_on (receiving (map (Inl \<circ> fst) new @ [])
        (demo_end TRANSPORT_ROLE_WORKER))\<rparr>) = Some w' \<and>
      tq_tasks (wk_queue w') = fold pq_insert [demo_task 9 2] (tq_tasks (wk_queue demo_worker)) \<and> client_queue (wk_queue w')"
    by (rule batch_reaches_worker [where k = 2])
      (simp_all add: demo_endpoints demo_allocates demo_end_facts demo_coord_env_def demo_worker_def demo_worker_env_def
        demo_client_queue demo_queue_1_facts node_allocator_first_fit BATCH_ARRAY_def demo_task_def)
  moreover have "tq_tasks (wk_queue demo_worker) = [demo_task 1 0]" by (simp add: demo_worker_def demo_queue_1_facts)
  ultimately show ?thesis by (simp add: demo_end_facts demo_env_facts) blast
qed

text \<open>
  (C24) A registration gets across: the worker announces its ranks, batch size and capabilities; the
  coordinator that takes those frames from its socket gives the worker a rank and has it in the
  scheduler's registry under that rank, idle, with what it announced (one rank and batches of ten
  when it announced zero).
\<close>

theorem registration_reaches_scheduler:
  assumes "endpoint_up TRANSPORT_ROLE_WORKER w" "endpoint_up TRANSPORT_ROLE_COORDINATOR z"
    and "allocates (ve_calloc ve) (ve_malloc ve)" "0 < length wname" "length wname < IDENTITY_LEN" "NUL \<notin> set wname"
    and "length (z_workers z) < MAX_WORKERS" "co_sched c = Some s" "sched_inv s"
    and "length (s_workers s) < unat (s_max_workers s)"
  shows "\<exists>w' new c' z' i s' info. send_registration ve (zmq_on w) ranks batch caps = Some (0, zmq_on w') \<and>
    e_sent (z_env w') = e_sent (z_env w) @ new \<and>
    coordinator_receive ce (c\<lparr>co_transport :=
      zmq_on (receiving (Inl (map byte_of_char wname) # map (Inl \<circ> fst) new @ rest) z)\<rparr>) = Some c' \<and>
    co_transport c' = zmq_on z' \<and> rank_of z' wname = Some i \<and> co_sched c' = Some s' \<and> sched_inv s' \<and>
    registry (s_workers s') = (registry (s_workers s))(of_nat i \<mapsto> info) \<and>
    w_state info = WORKER_STATE_IDLE \<and> w_capabilities info = caps \<and>
    w_num_local_ranks info = (if ranks = 0 then 1 else ranks) \<and>
    w_max_batch_size info = (if batch = 0 then 10 else batch)"
proof -
  let ?b = "le_enc 4 ranks @ le_enc 4 batch @ le_enc 4 caps"
  have small: "length ?b < 2 ^ 32" by simp
  obtain w' new z' m where l: "send_packed (zmq_on w) (packed_message (ve_calloc ve) (ve_malloc ve)
        MSG_TYPE_WORKER_REGISTER 0 ?b) 0 = Some (0, zmq_on w')" "e_sent (z_env w') = e_sent (z_env w) @ new"
      "transport_recv (Some (zmq_on (receiving (Inl (map byte_of_char wname) # map (Inl \<circ> fst) new @ rest) z))) (Some (ce_src ce))
        = Some (Some m, Some (reported_rank z' wname MSG_TYPE_WORKER_REGISTER (ce_src ce)), Some z')"
      "carries m MSG_TYPE_WORKER_REGISTER 0 ?b"
      "MSG_TYPE_WORKER_REGISTER = MSG_TYPE_WORKER_REGISTER \<and> length (z_workers z) < MAX_WORKERS \<longrightarrow> rank_of z' wname \<noteq> None"
    by (rule packed_to_coordinator [OF assms(1-3) small assms(4-6),
          of MSG_TYPE_WORKER_REGISTER 0 0 rest "ce_src ce"])
  then obtain i where i: "rank_of z' wname = Some i" using assms(7) by auto
  then have src: "reported_rank z' wname MSG_TYPE_WORKER_REGISTER (ce_src ce) = int i" by (simp add: reported_rank_def)
  have p: "m_payload m = Some ?b" "h_payload_len (m_header m) = 12" "h_msg_type (m_header m) = MSG_TYPE_WORKER_REGISTER"
    using l(4) by (auto simp: carries_def word_unat_eq_iff split: if_splits)
  define c1 where "c1 = c\<lparr>co_transport := zmq_on z'\<rparr>"
  define info where "info = zero_worker\<lparr>w_worker_id := of_nat i, w_last_heartbeat := now c1, w_state := WORKER_STATE_IDLE,
    w_num_local_ranks := (if ranks = 0 then 1 else ranks), w_max_batch_size := (if batch = 0 then 10 else batch),
    w_capabilities := caps\<rparr>"
  have info: "registration_info (int i) (now c1) m = Some info"
    using p by (simp add: registration_info_def info_def rd_defs le_roundtrip Let_def)
  let ?c2 = "tick 1 c1"
  obtain s' where s': "scheduler_register_worker (Some s) (Some info) (now ?c2) (later ?c2) = (0, Some s')" "sched_inv s'"
      "reg s' = (reg s)(w_worker_id info \<mapsto> enrol info (now ?c2) (later ?c2) (reg s (w_worker_id info)))"
    by (rule register_ok [OF assms(9,10)])
  let ?c' = "tick 2 (?c2\<lparr>co_sched := Some s'\<rparr>)"
  have recv: "coordinator_receive ce (c\<lparr>co_transport :=
      zmq_on (receiving (Inl (map byte_of_char wname) # map (Inl \<circ> fst) new @ rest) z)\<rparr>) = Some ?c'"
    using l(3) src p(3) info s'(1) assms(8)
    by (simp add: coordinator_receive_def handle_worker_register_def c1_def tick_def Let_def
        del: scheduler_register_worker.simps)
  show ?thesis
    by (intro exI [of _ w'] exI [of _ new] exI [of _ ?c'] exI [of _ z'] exI [of _ i] exI [of _ s']
        exI [of _ "enrol info (now ?c2) (later ?c2) (reg s (w_worker_id info))"])
      (use l(1,2) recv i s' in \<open>simp add: send_registration_def tick_def c1_def enrol_def info_def Let_def split: option.split\<close>)
qed

theorem registration_reaches_scheduler_witness:
  "\<exists>w' new c' s' info. send_registration demo_worker_env (zmq_on (demo_end TRANSPORT_ROLE_WORKER)) 1 10 0 = Some (0, zmq_on w') \<and>
     e_sent (z_env w') = new \<and>
     coordinator_receive demo_coord_env (demo_coordinator\<lparr>co_transport := zmq_on (receiving
       (Inl (map byte_of_char ''w2'') # map (Inl \<circ> fst) new @ []) (demo_end TRANSPORT_ROLE_COORDINATOR))\<rparr>) = Some c' \<and>
     co_sched c' = Some s' \<and> info \<in> ran (registry (s_workers s')) \<and> w_max_batch_size info = 10"
proof -
  have "\<exists>w' new c' z' i s' info. send_registration demo_worker_env (zmq_on (demo_end TRANSPORT_ROLE_WORKER)) 1 10 0 = Some (0, zmq_on w') \<and>
    e_sent (z_env w') = e_sent (z_env (demo_end TRANSPORT_ROLE_WORKER)) @ new \<and>
    coordinator_receive demo_coord_env (demo_coordinator\<lparr>co_transport := zmq_on (receiving
      (Inl (map byte_of_char ''w2'') # map (Inl \<circ> fst) new @ []) (demo_end TRANSPORT_ROLE_COORDINATOR))\<rparr>) = Some c' \<and>
    co_transport c' = zmq_on z' \<and> rank_of z' ''w2'' = Some i \<and> co_sched c' = Some s' \<and> sched_inv s' \<and>
    registry (s_workers s') = (registry (s_workers demo_sched_1))(of_nat i \<mapsto> info) \<and>
    w_state info = WORKER_STATE_IDLE \<and> w_capabilities info = 0 \<and>
    w_num_local_ranks info = (if (1 :: u32) = 0 then 1 else 1) \<and> w_max_batch_size info = (if (10 :: u32) = 0 then 10 else 10)"
    by (rule registration_reaches_scheduler)
      (simp_all add: demo_endpoints demo_allocates demo_worker_env_def IDENTITY_LEN_def MAX_WORKERS_def demo_end_facts
        demo_coordinator_def demo_sched_facts)
  then obtain w' new c' z' i s' info where
    "send_registration demo_worker_env (zmq_on (demo_end TRANSPORT_ROLE_WORKER)) 1 10 0 = Some (0, zmq_on w')"
    "e_sent (z_env w') = e_sent (z_env (demo_end TRANSPORT_ROLE_WORKER)) @ new"
    "coordinator_receive demo_coord_env (demo_coordinator\<lparr>co_transport := zmq_on (receiving
      (Inl (map byte_of_char ''w2'') # map (Inl \<circ> fst) new @ []) (demo_end TRANSPORT_ROLE_COORDINATOR))\<rparr>) = Some c'"
    "co_sched c' = Some s'" "registry (s_workers s') = (registry (s_workers demo_sched_1))(of_nat i \<mapsto> info)"
    "w_max_batch_size info = (if (10 :: u32) = 0 then 10 else 10)"
    by (elim exE conjE) (rule that)
  moreover from this(5) have "info \<in> ran (registry (s_workers s'))" by (intro ranI [of _ "of_nat i"]) simp
  ultimately show ?thesis
    by (intro exI [of _ w'] exI [of _ new] exI [of _ c'] exI [of _ s'] exI [of _ info]) (simp add: demo_end_facts demo_env_facts)
qed

text \<open>
  A result gets across: the coordinator that takes the frames of a worker's result from its
  socket completes exactly that task in the scheduler with the status the worker reported, and
  records it in the metadata store under the rank of the worker.
\<close>

theorem result_reaches_scheduler:
  assumes "endpoint_up TRANSPORT_ROLE_WORKER w" "endpoint_up TRANSPORT_ROLE_COORDINATOR z"
    and "allocates (ve_calloc ve) (ve_malloc ve)" "0 < length wname" "length wname < IDENTITY_LEN" "NUL \<notin> set wname"
    and "rank_of z wname = Some i" "length (ve_pad ve) = 8" "length (r_diag_msg r) = DIAG_MSG_LEN"
    and "co_meta c = Some calls"
  shows "\<exists>w' new c'. send_result ve (zmq_on w) r = Some (0, zmq_on w') \<and>
    e_sent (z_env w') = e_sent (z_env w) @ new \<and>
    coordinator_receive ce (c\<lparr>co_transport :=
      zmq_on (receiving (Inl (map byte_of_char wname) # map (Inl \<circ> fst) new @ rest) z)\<rparr>) = Some c' \<and>
    co_sched c' = snd (scheduler_mark_task_complete (co_sched c) (r_task_id r) (sint (r_status r))) \<and>
    co_queue c' = co_queue c \<and>
    co_meta c' = Some (calls @ [\<lparr>mc_task_id = r_task_id r, mc_model_id = 0, mc_status = sint (r_status r),
      mc_exec_time_us = r_exec_time_us r, mc_queue_time_us = r_queue_time_us r, mc_worker_id = of_nat i\<rparr>])"
proof -
  let ?b = "result_bytes (ve_pad ve) r"
  have len: "length ?b = sizeof_result" by (rule length_result_bytes [OF assms(8,9)])
  then have small: "length ?b < 2 ^ 32" by (simp add: sizeof_result_def)
  obtain w' new z' m where l: "send_packed (zmq_on w) (packed_message (ve_calloc ve) (ve_malloc ve)
        MSG_TYPE_TASK_RESULT (r_task_id r) ?b) 0 = Some (0, zmq_on w')" "e_sent (z_env w') = e_sent (z_env w) @ new"
      "transport_recv (Some (zmq_on (receiving (Inl (map byte_of_char wname) # map (Inl \<circ> fst) new @ rest) z))) (Some (ce_src ce))
        = Some (Some m, Some (reported_rank z' wname MSG_TYPE_TASK_RESULT (ce_src ce)), Some z')"
      "carries m MSG_TYPE_TASK_RESULT (r_task_id r) ?b" "rank_of z \<subseteq>\<^sub>m rank_of z'"
    by (rule packed_to_coordinator [OF assms(1-3) small assms(4-6),
          of MSG_TYPE_TASK_RESULT "r_task_id r" 0 rest "ce_src ce"])
  have "rank_of z' wname = Some i" using l(5) assms(7) by (auto simp: map_le_def dom_def)
  then have src: "reported_rank z' wname MSG_TYPE_TASK_RESULT (ce_src ce) = int i" by (simp add: reported_rank_def)
  have "?b \<noteq> []" using len by (auto simp: sizeof_result_def)
  then have p: "m_payload m = Some ?b" "unat (h_payload_len (m_header m)) = sizeof_result"
      "h_msg_type (m_header m) = MSG_TYPE_TASK_RESULT"
    using l(4) len by (auto simp: carries_def)
  let ?c = "c\<lparr>co_transport := zmq_on z'\<rparr>"
  let ?c' = "?c\<lparr>co_sched := snd (scheduler_mark_task_complete (co_sched c) (r_task_id r) (sint (r_status r))),
    co_meta := Some (calls @ [\<lparr>mc_task_id = r_task_id r, mc_model_id = 0, mc_status = sint (r_status r),
      mc_exec_time_us = r_exec_time_us r, mc_queue_time_us = r_queue_time_us r, mc_worker_id = of_nat i\<rparr>])\<rparr>"
  have "handle_task_result (int i) m ?c = Some ?c'"
    using p len assms(10) result_roundtrip [OF assms(8,9)]
    by (simp add: handle_task_result_def split_beta Let_def del: scheduler_mark_task_complete.simps)
  then have "coordinator_receive ce (c\<lparr>co_transport :=
      zmq_on (receiving (Inl (map byte_of_char wname) # map (Inl \<circ> fst) new @ rest) z)\<rparr>) = Some ?c'"
    using l(3) src p(3) by (simp add: coordinator_receive_def msg_type_defs Let_def)
  then show ?thesis
    by (intro exI [of _ w'] exI [of _ new] exI [of _ ?c']) (use l(1,2) in \<open>simp add: send_result_def\<close>)
qed

theorem result_reaches_scheduler_witness:
  "\<exists>w' new c'. send_result demo_worker_env (zmq_on (demo_end TRANSPORT_ROLE_WORKER)) zero_result = Some (0, zmq_on w') \<and>
     e_sent (z_env w') = new \<and>
     coordinator_receive demo_coord_env (demo_coordinator\<lparr>co_transport := zmq_on (receiving
       (Inl (map byte_of_char ''w1'') # map (Inl \<circ> fst) new @ []) (demo_end TRANSPORT_ROLE_COORDINATOR))\<rparr>) = Some c' \<and>
     map_option (map mc_worker_id) (co_meta c') = Some [0]"
proof -
  have "\<exists>w' new c'. send_result demo_worker_env (zmq_on (demo_end TRANSPORT_ROLE_WORKER)) zero_result = Some (0, zmq_on w') \<and>
    e_sent (z_env w') = e_sent (z_env (demo_end TRANSPORT_ROLE_WORKER)) @ new \<and>
    coordinator_receive demo_coord_env (demo_coordinator\<lparr>co_transport := zmq_on (receiving
      (Inl (map byte_of_char ''w1'') # map (Inl \<circ> fst) new @ []) (demo_end TRANSPORT_ROLE_COORDINATOR))\<rparr>) = Some c' \<and>
    co_sched c' = snd (scheduler_mark_task_complete (co_sched demo_coordinator) (r_task_id zero_result) (sint (r_status zero_result))) \<and>
    co_queue c' = co_queue demo_coordinator \<and>
    co_meta c' = Some ([] @ [\<lparr>mc_task_id = r_task_id zero_result, mc_model_id = 0, mc_status = sint (r_status zero_result),
      mc_exec_time_us = r_exec_time_us zero_result, mc_queue_time_us = r_queue_time_us zero_result, mc_worker_id = of_nat 0\<rparr>])"
    by (rule result_reaches_scheduler)
      (simp_all add: demo_endpoints demo_allocates demo_worker_env_def IDENTITY_LEN_def demo_end_facts demo_coordinator_def
        zero_result_def)
  then show ?thesis by (auto simp: demo_end_facts demo_env_facts simp del: scheduler_mark_task_complete.simps)
qed

section \<open>Task files\<close>

text \<open>
  (C26) Loading tasks: a line with four decimal numbers, with white space in front of each, is the
  task with that id, model and sizes; lines on which fewer than four numbers can be read are skipped;
  and when the queue has room for the tasks of the file and their ids are new, they are all queued by
  priority in the order of the file, and their number is returned.
\<close>

theorem tasks_loaded:
  assumes "client_queue q" "node_allocator malloc" "heap_capacity q = Some k"
    and "length (tq_tasks q) + length (List.map_filter scan_task lines) \<le> k"
    and "distinct (map t_task_id (List.map_filter scan_task lines @ tq_tasks q))"
    and "\<forall>c \<in> set (s1 @ s2 @ s3 @ s4). is_space c" "s2 \<noteq> []" "s3 \<noteq> []" "s4 \<noteq> []"
    and "rest = [] \<or> \<not> is_digit (hd rest)"
  shows "scan_task (s1 @ dec_nat (unat tid) @ s2 @ dec_nat (unat model) @ s3 @ dec_nat (unat insz) @ s4 @
        dec_nat (unat outsz) @ rest)
      = Some (zero_task\<lparr>t_task_id := tid, t_model_id := model, t_input_size := insz, t_output_size := outsz,
          t_api_version := API_VERSION_CURRENT, t_trace_id := tid, t_timeout_secs := 300\<rparr>) \<and>
    (\<exists>q'. load_tasks_from_file malloc (Some lines) q = Some (int (length (List.map_filter scan_task lines)), q') \<and>
      client_queue q' \<and> tq_tasks q' = fold pq_insert (List.map_filter scan_task lines) (tq_tasks q))"
proof
  show "\<exists>q'. load_tasks_from_file malloc (Some lines) q = Some (int (length (List.map_filter scan_task lines)), q') \<and>
      client_queue q' \<and> tq_tasks q' = fold pq_insert (List.map_filter scan_task lines) (tq_tasks q)"
    unfolding load_tasks_from_file_def option.case by (rule load_lines_ok [OF assms(1-5)]) blast
qed (rule scan_task_line [OF assms(6-10)])

theorem tasks_loaded_witness:
  "\<exists>q'. load_tasks_from_file first_fit (Some [''# tasks'', dec_nat 7 @ '' '' @ dec_nat 3 @ '' '' @ dec_nat 64 @ '' '' @ dec_nat 8])
       demo_queue_1 = Some (1, q') \<and> length (tq_tasks q') = 2"
proof -
  let ?line = "dec_nat 7 @ '' '' @ dec_nat 3 @ '' '' @ dec_nat 64 @ '' '' @ dec_nat 8"
  let ?t = "zero_task\<lparr>t_task_id := 7, t_model_id := 3, t_input_size := 64, t_output_size := 8,
    t_api_version := API_VERSION_CURRENT, t_trace_id := 7, t_timeout_secs := 300\<rparr>"
  have skip: "scan_task ''# tasks'' = None"
    by (simp add: scan_task_def scan_unsigned_def is_space_def is_digit_def)
  have line: "scan_task ?line = Some ?t"
    using scan_task_line [of "[]" "'' ''" "'' ''" "'' ''" "[]" 7 3 64 8] by (simp add: is_space_def)
  have tasks: "List.map_filter scan_task [''# tasks'', ?line] = [?t]" by (simp only: List.map_filter_simps skip line option.case)
  have fit: "length (tq_tasks demo_queue_1) + length (List.map_filter scan_task [''# tasks'', ?line]) \<le> 2"
    "distinct (map t_task_id (List.map_filter scan_task [''# tasks'', ?line] @ tq_tasks demo_queue_1))"
    unfolding tasks by (simp_all add: demo_queue_1_facts demo_task_def)
  have sp: "\<forall>c \<in> set ([] @ '' '' @ '' '' @ '' ''). is_space c" "'' '' \<noteq> []" "[] = [] \<or> \<not> is_digit (hd [])"
    by (simp_all add: is_space_def)
  from tasks_loaded [OF demo_client_queue(1) node_allocator_first_fit demo_client_queue(2) fit sp(1,2,2,2,3)]
  obtain q' where "load_tasks_from_file first_fit (Some [''# tasks'', ?line]) demo_queue_1 = Some (int (length [?t]), q')"
    "tq_tasks q' = fold pq_insert [?t] (tq_tasks demo_queue_1)"
    unfolding tasks by blast
  then show ?thesis by (simp add: demo_queue_1_facts)
qed

text \<open>
  (C27) The task file of the coordinator's command line comes too late: whatever the command line and the
  run, the coordinator dispatched no task in it, since the file is loaded only after the main loop has
  ended; and loading a file with a task in it then uses the queue that was freed at the end of the loop.
\<close>

theorem task_file_loaded_too_late:
  "(\<forall>sent rc. coordinator_program init_zmq clock ces log_ok fopen args = Some (sent, rc) \<longrightarrow> sent = []) \<and>
   (log_ok \<and> coordinator_args args ''tcp://0.0.0.0:5555'' None = Some (endpoint, Some f) \<and> fopen f = Some lines \<and>
      List.map_filter scan_task lines \<noteq> [] \<longrightarrow>
    coordinator_program init_zmq clock ces log_ok fopen args = None)"
proof (intro conjI allI impI)
  fix sent rc
  assume "coordinator_program init_zmq clock ces log_ok fopen args = Some (sent, rc)"
  then show "sent = []"
    using coordinator_main_idle by (auto simp: coordinator_program_def split: if_splits option.splits prod.splits)
next
  assume "log_ok \<and> coordinator_args args ''tcp://0.0.0.0:5555'' None = Some (endpoint, Some f) \<and> fopen f = Some lines \<and>
    List.map_filter scan_task lines \<noteq> []"
  then show "coordinator_program init_zmq clock ces log_ok fopen args = None"
    by (auto simp: coordinator_program_def coordinator_main_uses_freed split: prod.split option.split)
qed

theorem task_file_loaded_too_late_witness:
  "coordinator_program (\<lambda>cfg. (0, Some (zmq_on (demo_end TRANSPORT_ROLE_COORDINATOR)))) int [demo_coord_env] True
     (\<lambda>f. Some [dec_nat 7 @ '' '' @ dec_nat 3 @ '' '' @ dec_nat 64 @ '' '' @ dec_nat 8]) [''--tasks'', ''t.txt''] = None \<and>
   coordinator_main (zmq_on (demo_end TRANSPORT_ROLE_COORDINATOR)) int [] False None = Some ([], 0)"
proof
  let ?line = "dec_nat 7 @ '' '' @ dec_nat 3 @ '' '' @ dec_nat 64 @ '' '' @ dec_nat 8"
  have "scan_task ?line \<noteq> None"
    using scan_task_line [of "[]" "'' ''" "'' ''" "'' ''" "[]" 7 3 64 8] by (simp add: is_space_def)
  then have tasks: "List.map_filter scan_task [?line] \<noteq> []" by (auto simp only: List.map_filter_simps split: option.split)
  have args: "coordinator_args [''--tasks'', ''t.txt''] ''tcp://0.0.0.0:5555'' None = Some (''tcp://0.0.0.0:5555'', Some ''t.txt'')"
    by simp
  show "coordinator_program (\<lambda>cfg. (0, Some (zmq_on (demo_end TRANSPORT_ROLE_COORDINATOR)))) int [demo_coord_env] True
     (\<lambda>f. Some [?line]) [''--tasks'', ''t.txt''] = None"
    using task_file_loaded_too_late [THEN conjunct2, rule_format, OF conjI [OF TrueI conjI [OF args conjI [OF refl tasks]]]] .
  show "coordinator_main (zmq_on (demo_end TRANSPORT_ROLE_COORDINATOR)) int [] False None = Some ([], 0)"
    by (simp add: coordinator_main_def coordinator_start_def task_queue_create_def coordinator_stop_def Let_def
        transport_shutdown_def dispatch_def zmq_on_def zmq_vtable_def free_nodes.simps)
qed

section \<open>Progress\<close>

text \<open>
  A standalone worker on a connection that delivers nothing, with a free task slot and whatever
  happens to its own sends: every pass of the main loop executes the task at the head of the local
  queue, so after \<open>n\<close> passes the first \<open>n\<close> tasks are done, and the queue is empty after as many passes
  as it has tasks.
\<close>

theorem silent_worker_drains:
  assumes "runs_on zmq_vtable zmq_silent (wk_transport w)" "client_queue (wk_queue w)"
    and "wk_mode w = WORKER_MODE_STANDALONE" "wk_limits w = Some l"
    and "rl_tasks_running l < rl_max_concurrent_tasks l" "\<forall>ve \<in> set ves. env_ok ve"
  shows "\<exists>w'. worker_run ves w = Some w' \<and> client_queue (wk_queue w') \<and>
    tq_tasks (wk_queue w') = drop (length ves) (tq_tasks (wk_queue w)) \<and>
    (length (tq_tasks (wk_queue w)) \<le> length ves \<longrightarrow> tq_tasks (wk_queue w') = [])"
proof -
  have w: "worker_ok zmq_vtable zmq_silent w" "slot_free w"
    using assms(1-5) by (simp_all add: worker_ok_def head_ranks_def slot_free_def slots_running_def slots_capacity_def
        word_less_nat_alt)
  from zmq_idle.worker_run_drains [OF assms(6) w(1) assms(3) w(2)] show ?thesis
    by (auto simp: worker_ok_def)
qed

theorem silent_worker_drains_witness:
  "\<exists>w'. worker_run [demo_worker_env] (demo_worker\<lparr>wk_limits := resource_limits_create (Some worker_limits_config) True demo_usage (0, 0)\<rparr>) = Some w' \<and>
     tq_tasks (wk_queue w') = []"
proof -
  let ?l = "the (resource_limits_create (Some worker_limits_config) True demo_usage (0, 0))"
  let ?w = "demo_worker\<lparr>wk_limits := resource_limits_create (Some worker_limits_config) True demo_usage (0, 0)\<rparr>"
  have w: "runs_on zmq_vtable zmq_silent (wk_transport ?w)" "client_queue (wk_queue ?w)"
    "wk_mode ?w = WORKER_MODE_STANDALONE" "length (tq_tasks (wk_queue ?w)) = 1"
    by (simp_all add: demo_worker_def runs_on_def zmq_on_def zmq_silent_def demo_zmq_ok demo_end_facts demo_env_facts
        demo_client_queue demo_queue_1_facts)
  have "wk_limits ?w = Some ?l" "rl_tasks_running ?l < rl_max_concurrent_tasks ?l"
    by (simp_all add: resource_limits_create_def worker_limits_config_def)
  moreover have "\<forall>ve \<in> set [demo_worker_env]. env_ok ve" by (simp add: demo_envs)
  ultimately obtain w' where "worker_run [demo_worker_env] ?w = Some w'"
      "length (tq_tasks (wk_queue ?w)) \<le> length [demo_worker_env] \<longrightarrow> tq_tasks (wk_queue w') = []"
    using silent_worker_drains [OF w(1-3)] by blast
  then show ?thesis using w(4) by auto
qed

end
