(* ===== verification/Storage_Theorems.thy ===== *)
theory Storage_Theorems
  imports Metadata_Typed Cluster_Theorems
begin

text \<open>
  The main properties of the metadata store, and of the coordinator's use of it.
\<close>

section \<open>A call of the coordinator\<close>

text \<open>The call of \<open>metadata_store_task_info\<close> with the arguments that the coordinator passes.\<close>

definition store_call ::
    "(nat \<Rightarrow> file_env) \<Rightarrow> (nat \<Rightarrow> u64) \<Rightarrow> mem \<Rightarrow> metadata_store option \<Rightarrow> task_info_call \<Rightarrow> files
      \<Rightarrow> (c_int \<times> files) option" where
  "store_call fe clock m store call fs =
     metadata_store_task_info fe clock m store (mc_task_id call) (mc_model_id call) (mc_status call)
       (mc_exec_time_us call) (mc_queue_time_us call) (mc_worker_id call) fs"

section \<open>A concrete store\<close>

definition demo_store :: metadata_store where
  "demo_store = \<lparr>ms_path = ''./metadata'', ms_read_only = 0\<rparr>"

definition demo_files_env :: file_env where
  "demo_files_env = \<lparr>fe_fopen_w = (\<lambda>_. True), fe_fopen_r = (\<lambda>_. True), fe_fwrite = (\<lambda>_. True), fe_flushed = id,
     fe_unlink = (\<lambda>_. True), fe_malloc = (\<lambda>m _. first_free m 1 1000)\<rparr>"

lemma demo_store_facts:
  "store_ok demo_store" "reliable demo_files_env" "k < 1000 \<Longrightarrow> fresh_malloc k demo_files_env"
proof -
  show "store_ok demo_store" by (simp add: store_ok_def demo_store_def meta_sizes PATH_BUFFER_def)
  show "reliable demo_files_env" by (simp add: reliable_def demo_files_env_def)
  assume "k < 1000"
  show "fresh_malloc k demo_files_env"
    unfolding fresh_malloc_def
  proof (intro allI impI)
    fix m :: mem and n
    assume "card (dom m) \<le> k"
    with \<open>k < 1000\<close> show "fe_malloc demo_files_env m n \<noteq> 0 \<and> m (fe_malloc demo_files_env m n) = None"
      using first_free_fresh [of m 1000] by (simp add: demo_files_env_def)
  qed
qed

definition demo_result_message :: message_t where
  "demo_result_message = demo_message\<lparr>m_header := (m_header demo_message)\<lparr>h_payload_len := 1080\<rparr>,
     m_payload := Some (result_bytes (replicate 8 0) (zero_result\<lparr>r_task_id := 7\<rparr>))\<rparr>"

lemma demo_key: "good_key ''seed''" "plain_key ''seed''"
  by (simp_all add: good_key_def plain_key_def meta_sizes dots_apart_def)

text \<open>A directory with one entry.\<close>

lemma demo_directory:
  "\<exists>fs r. metadata_store_put demo_files_env Map.empty (Some demo_store) (Some (int_entry None 5 (''seed'', 42))) Map.empty
      = Some (META_OK, fs) \<and>
    dir_record demo_store fs ''seed.meta'' = Some r \<and> dir_record demo_store fs ''x'' = None \<and> record_ok r"
proof -
  let ?e = "int_entry None 5 (''seed'', 42)"
  note facts = int_entry_facts [OF demo_key(1) demo_store_facts(1)]
  from put_ok [OF demo_store_facts(2) facts(3) [where m = Map.empty and v = 42 and tag = None and now = 5], where fs = Map.empty] obtain bytes where
    put: "metadata_store_put demo_files_env Map.empty (Some demo_store) (Some ?e) Map.empty
      = Some (META_OK, [slot_path demo_store ''seed'' \<mapsto> bytes])" "file_record bytes = record_of Map.empty ?e"
    by (auto simp: facts(2) key_name_plain demo_key meta_sizes)
  have "NUL \<in> set (me_key ?e)" using facts(3) [where m = Map.empty and v = 42 and tag = None and now = 5]
    by (simp add: disk_accepts_def)
  from make_entry_record_ok [OF facts(1) this] facts(4) [where m = Map.empty and v = 42 and tag = None and now = 5]
  obtain r where r: "record_of Map.empty ?e = Some r" "record_ok r" by (auto simp: record_of_def)
  have "query_path demo_store ''seed.meta'' = slot_path demo_store ''seed''"
    by (simp add: query_path_def slot_path_def)
  then have "dir_record demo_store [slot_path demo_store ''seed'' \<mapsto> bytes] ''seed.meta'' = Some r"
    using put(2) r(1) by (simp add: dir_record_def is_meta_name_def)
  moreover have "dir_record demo_store f ''x'' = None" for f by (simp add: dir_record_def is_meta_name_def)
  ultimately show ?thesis using put(1) r(2) by blast
qed

section \<open>Names of files\<close>

text \<open>
  (C29) A key of at most 255 characters becomes a file name of the same length without separators and
  without a pair of dots, so that the path stays in the directory of the store, and a key without
  such characters is its own file name.  A longer key, which the get and delete operations do not
  refuse, writes outside the buffer when a pair of dots begins at its place 254.
\<close>

theorem key_names_stay_inside:
  "(length key < META_MAX_KEY_LEN \<longrightarrow>
     (\<exists>name. build_file_path st key = Some (take (PATH_BUFFER - 1) (ms_path st @ ''/'' @ name @ ''.meta'')) \<and>
        length name = length key \<and> CHR ''/'' \<notin> set name \<and> CHR 0x5C \<notin> set name \<and>
        (\<forall>xs ys. name \<noteq> xs @ ''..'' @ ys) \<and> (plain_key key \<longrightarrow> name = key))) \<and>
   (length pre = 254 \<and> CHR ''.'' \<notin> set pre \<longrightarrow> build_file_path st (pre @ ''..'' @ rest) = None)"
proof (intro conjI impI)
  assume len: "length key < META_MAX_KEY_LEN"
  show "\<exists>name. build_file_path st key = Some (take (PATH_BUFFER - 1) (ms_path st @ ''/'' @ name @ ''.meta'')) \<and>
    length name = length key \<and> CHR ''/'' \<notin> set name \<and> CHR 0x5C \<notin> set name \<and>
    (\<forall>xs ys. name \<noteq> xs @ ''..'' @ ys) \<and> (plain_key key \<longrightarrow> name = key)"
  proof (intro exI [of _ "key_name key"] conjI allI impI)
    show "build_file_path st key = Some (take (PATH_BUFFER - 1) (ms_path st @ ''/'' @ key_name key @ ''.meta''))"
      using build_file_path_short [OF len] by (simp add: slot_path_def)
    show "key_name key \<noteq> xs @ ''..'' @ ys" for xs ys
      unfolding key_name_def by (rule no_dot_pair [OF sanitise_dots])
  qed (use len in \<open>simp_all add: key_name_length key_name_plain key_name_separators\<close>)
next
  assume "length pre = 254 \<and> CHR ''.'' \<notin> set pre"
  then have "sanitise_key (pre @ ''..'' @ rest) META_MAX_KEY_LEN = None"
    by (intro sanitise_key_overflow) (auto simp: meta_sizes)
  then show "build_file_path st (pre @ ''..'' @ rest) = None" by (simp add: build_file_path_def)
qed

theorem key_names_stay_inside_witness:
  "(\<exists>name. build_file_path demo_store ''../etc/x'' =
        Some (take (PATH_BUFFER - 1) (ms_path demo_store @ ''/'' @ name @ ''.meta'')) \<and> CHR ''/'' \<notin> set name) \<and>
   build_file_path demo_store (replicate 254 (CHR ''a'') @ ''..'' @ []) = None"
proof
  have "length ''../etc/x'' < META_MAX_KEY_LEN" by (simp add: meta_sizes)
  then show "\<exists>name. build_file_path demo_store ''../etc/x'' =
      Some (take (PATH_BUFFER - 1) (ms_path demo_store @ ''/'' @ name @ ''.meta'')) \<and> CHR ''/'' \<notin> set name"
    using key_names_stay_inside [of "''../etc/x''" demo_store "[]" "[]"] by blast
  show "build_file_path demo_store (replicate 254 (CHR ''a'') @ ''..'' @ []) = None"
    using key_names_stay_inside [of "[]" demo_store "replicate 254 (CHR ''a'')" "[]"] by (simp add: in_set_replicate)
qed

section \<open>The store as a map\<close>

text \<open>
  (C28) On a disk that works the store is a map from file names to records: after a put, every key
  with the file name of the entry yields the record of the entry (key, value of any type, tags and
  times), also a key that differs from the entry's, and every other key yields what it did before;
  deleting the entry makes exactly these keys unknown again.
\<close>

theorem store_refines_map:
  assumes "reliable fe" "fresh_malloc (card (dom m)) fe" "disk_accepts (st, m) e"
  shows "\<exists>fs' fs''. metadata_store_put fe m (Some st) (Some e) fs = Some (META_OK, fs') \<and>
    metadata_store_delete fe (Some st) (Some (entry_key e)) fs' = Some (META_OK, fs'') \<and>
    (\<forall>key. length key < META_MAX_KEY_LEN \<longrightarrow>
      (if key_name key = key_name (entry_key e)
       then (\<exists>e' m'. metadata_store_get fe m (Some st) (Some key) True fs' = Some (Inr e', m') \<and>
              record_of m' e' = record_of m e) \<and>
            metadata_store_get fe m (Some st) (Some key) True fs'' = Some (Inl META_ERR_NOT_FOUND, m)
       else metadata_store_get fe m (Some st) (Some key) True fs' = metadata_store_get fe m (Some st) (Some key) True fs \<and>
            metadata_store_get fe m (Some st) (Some key) True fs'' = metadata_store_get fe m (Some st) (Some key) True fs))"
proof -
  have e: "store_ok st" "entry_wf e" "NUL \<in> set (me_key e)" using assms(3) by (simp_all add: disk_accepts_def)
  note len = entry_key_length [OF e(2,3)]
  from assms(3) obtain r where r: "record_of m e = Some r" by (auto simp: disk_accepts_def)
  let ?p = "slot_path st (key_name (entry_key e))"
  from put_ok [OF assms(1,3), of fs] obtain bytes where
    put: "metadata_store_put fe m (Some st) (Some e) fs = Some (META_OK, fs(?p \<mapsto> bytes))"
    and bytes: "file_record bytes = Some r" using r by auto
  let ?fs' = "fs(?p \<mapsto> bytes)" and ?fs'' = "fs(?p := None)"
  have del: "metadata_store_delete fe (Some st) (Some (entry_key e)) ?fs' = Some (META_OK, ?fs'')"
    using len e(1) assms(1) by (simp add: metadata_store_delete_def build_file_path_short store_ok_def reliable_def)
  have get: "metadata_store_get fe m (Some st) (Some key) True f
      = Some (read_entry_from_file fe m (slot_path st (key_name key)) f)" if "length key < META_MAX_KEY_LEN" for key f
    using that by (simp add: metadata_store_get_def build_file_path_short)
  have "fe_fopen_r fe ?p" using assms(1) by (simp add: reliable_def)
  from read_entry_record [of m fe ?p ?fs' bytes, OF assms(2) this] bytes obtain e' m' where
    read: "read_entry_from_file fe m ?p ?fs' = (Inr e', m')" "record_of m' e' = Some r" by auto
  have inj: "slot_path st (key_name key) = ?p \<longleftrightarrow> key_name key = key_name (entry_key e)"
    if "length key < META_MAX_KEY_LEN" for key
    using that len by (intro slot_path_inj [OF e(1)]) (simp_all add: key_name_length)
  show ?thesis
    by (intro exI [of _ ?fs'] exI [of _ ?fs''] conjI allI impI put del)
      (use get inj read r in \<open>auto simp: read_entry_from_file_def fun_upd_apply\<close>)
qed

theorem store_refines_map_witness:
  "\<exists>fs'. metadata_store_put demo_files_env Map.empty (Some demo_store) (Some (int_entry None 5 (''seed'', 42))) Map.empty
      = Some (META_OK, fs') \<and>
    (\<exists>e' m'. metadata_store_get demo_files_env Map.empty (Some demo_store) (Some ''seed'') True fs' = Some (Inr e', m'))"
proof -
  let ?e = "int_entry None 5 (''seed'', 42)"
  have fresh: "fresh_malloc (card (dom (Map.empty :: mem))) demo_files_env" using demo_store_facts(3) [of 0] by simp
  have seed: "key_name ''seed'' = key_name (entry_key ?e)" "length ''seed'' < META_MAX_KEY_LEN"
    by (simp_all add: int_entry_facts(2) [OF demo_key(1) demo_store_facts(1)] meta_sizes)
  show ?thesis
    using store_refines_map [OF demo_store_facts(2) fresh
        int_entry_facts(3) [OF demo_key(1) demo_store_facts(1), where v = 42 and tag = None and now = 5], where fs = Map.empty]
    by (elim exE conjE allE [of _ "''seed''"], simp only: seed simp_thms if_True, blast)
qed

section \<open>Typed values\<close>

text \<open>
  (C31) What the typed put operations store, the get operation of the same type reads back: numbers bit
  by bit, and a string as far as the store's 4095 characters and the caller's buffer reach, always
  terminated.  The get operations of the other types refuse it and leave the caller's variable as it is.
\<close>

theorem typed_values_read_back:
  assumes "store_ok st" "reliable fe" "reliable fe'" "fresh_malloc (card (dom m)) fe'" "good_key key"
    and "NUL \<notin> set s" "0 < n" "n \<le> length buf"
  shows "(\<exists>fs' buf'. metadata_store_put_string fe m (Some st) key s tag time fs = Some (META_OK, fs') \<and>
      metadata_store_get_string fe' m (Some st) (Some key) buf n fs' = Some (META_OK, buf', m) \<and>
      c_str buf' = Some (take (min (n - 1) 4095) s) \<and>
      metadata_store_get_int64 fe' m (Some st) (Some key) old fs' = Some (META_ERR_INVALID_ARG, old, m) \<and>
      metadata_store_get_double fe' m (Some st) (Some key) old fs' = Some (META_ERR_INVALID_ARG, old, m)) \<and>
    (\<exists>fs'. metadata_store_put_int64 fe m (Some st) key v tag time fs = Some (META_OK, fs') \<and>
      metadata_store_get_int64 fe' m (Some st) (Some key) old fs' = Some (META_OK, v, m) \<and>
      metadata_store_get_double fe' m (Some st) (Some key) old fs' = Some (META_ERR_INVALID_ARG, old, m) \<and>
      metadata_store_get_string fe' m (Some st) (Some key) buf n fs' = Some (META_ERR_INVALID_ARG, buf, m)) \<and>
    (\<exists>fs'. metadata_store_put_double fe m (Some st) key v tag time fs = Some (META_OK, fs') \<and>
      metadata_store_get_double fe' m (Some st) (Some key) old fs' = Some (META_OK, v, m) \<and>
      metadata_store_get_int64 fe' m (Some st) (Some key) old fs' = Some (META_ERR_INVALID_ARG, old, m) \<and>
      metadata_store_get_string fe' m (Some st) (Some key) buf n fs' = Some (META_ERR_INVALID_ARG, buf, m))"
    (is "?text \<and> ?whole \<and> ?floating")
proof (intro conjI)
  have len: "length key < META_MAX_KEY_LEN" using assms(5) by (simp add: good_key_def)
  note wrong = get_wrong_type [OF _ assms(1,3,4) len] and word = get_word_ok [OF _ assms(1,3,4) len]
  obtain fs' b r where p: "metadata_store_put_string fe m (Some st) key s tag time fs = Some (META_OK, fs')"
      "disk_view (st, m) fs' = (disk_view (st, m) fs)(key_name key \<mapsto> r)" "mr_value r = Text b"
      "NUL \<in> set b" "takeWhile (\<lambda>c. c \<noteq> NUL) b = take (META_MAX_VALUE_LEN - 1) s"
    by (rule put_string_ok [OF assms(1,2,5,6)])
  have slot: "slot_value st m fs' key = Some (Text b)" by (simp add: slot_value_def p(2,3))
  obtain buf' where "metadata_store_get_string fe' m (Some st) (Some key) buf n fs' = Some (META_OK, buf', m)"
      "c_str buf' = Some (take (min (n - 1) 4095) s)"
    using get_string_ok [OF slot p(4) assms(1,3,4) len assms(7,8)] by (auto simp: p(5) meta_sizes)
  then show ?text using p(1) wrong(2,3) [OF slot] by (auto simp: meta_types)
  obtain fs' r where p: "metadata_store_put_int64 fe m (Some st) key v tag time fs = Some (META_OK, fs')"
      "disk_view (st, m) fs' = (disk_view (st, m) fs)(key_name key \<mapsto> r)" "mr_value r = Whole v"
    by (rule put_int64_ok [OF assms(1,2,5)])
  have slot: "slot_value st m fs' key = Some (Whole v)" by (simp add: slot_value_def p(2,3))
  show ?whole using p(1) wrong(1,3) [OF slot] word(1) [OF slot] by (auto simp: meta_types)
  obtain fs' r where p: "metadata_store_put_double fe m (Some st) key v tag time fs = Some (META_OK, fs')"
      "disk_view (st, m) fs' = (disk_view (st, m) fs)(key_name key \<mapsto> r)" "mr_value r = Floating v"
    by (rule put_double_ok [OF assms(1,2,5)])
  have slot: "slot_value st m fs' key = Some (Floating v)" by (simp add: slot_value_def p(2,3))
  show ?floating using p(1) wrong(1,2) [OF slot] word(2) [OF slot] by (auto simp: meta_types)
qed

theorem typed_values_read_back_witness:
  "\<exists>fs' buf'. metadata_store_put_string demo_files_env Map.empty (Some demo_store) ''seed'' ''abcdef'' None 5 Map.empty
      = Some (META_OK, fs') \<and>
    metadata_store_get_string demo_files_env Map.empty (Some demo_store) (Some ''seed'') (replicate 4 (CHR ''x'')) 4 fs'
      = Some (META_OK, buf', Map.empty) \<and> c_str buf' = Some ''abc''"
proof -
  have fresh: "fresh_malloc (card (dom (Map.empty :: mem))) demo_files_env" using demo_store_facts(3) [of 0] by simp
  have "take (min (4 - 1) 4095) ''abcdef'' = ''abc''" by simp
  then show ?thesis
    using typed_values_read_back [OF demo_store_facts(1,2,2) fresh demo_key(1), of "''abcdef''" 4 "replicate 4 (CHR ''x'')" None 5 Map.empty 0 0]
    by auto
qed

section \<open>Results of tasks\<close>

text \<open>
  (C30) What the coordinator records of a result can be read back: handling the message of a worker
  makes a call of the store, and after that call the status, both times and the worker of that task
  are what the worker reported, while the entries of every other task are what they were.
\<close>

theorem result_recorded:
  assumes "m_payload msg = Some (result_bytes pad r)" "unat (h_payload_len (m_header msg)) = sizeof_result"
    and "length pad = 8" "length (r_diag_msg r) = DIAG_MSG_LEN" "co_meta c = Some calls"
    and "store_ok st" "\<forall>k. reliable (fe k)" "reliable fe'" "fresh_malloc (card (dom m)) fe'"
  shows "\<exists>c' call fs'. handle_task_result wid msg c = Some c' \<and> co_meta c' = Some (calls @ [call]) \<and>
    store_call fe clock m (Some st) call fs = Some (META_OK, fs') \<and>
    (\<forall>(part, v) \<in> {(''status'', of_int (sint (r_status r))), (''exec_time_us'', r_exec_time_us r),
        (''queue_time_us'', r_queue_time_us r), (''worker_id'', ucast (of_int wid :: u32))}.
      metadata_store_get_int64 fe' m (Some st) (Some (task_key (r_task_id r) part)) old fs' = Some (META_OK, v, m)) \<and>
    (\<forall>tid part. tid \<noteq> r_task_id r \<and> part \<in> set task_parts \<longrightarrow>
      disk_view (st, m) fs' (task_key tid part) = disk_view (st, m) fs (task_key tid part))"
proof -
  let ?call = "\<lparr>mc_task_id = r_task_id r, mc_model_id = 0, mc_status = sint (r_status r),
    mc_exec_time_us = r_exec_time_us r, mc_queue_time_us = r_queue_time_us r, mc_worker_id = of_int wid\<rparr>"
  have handled: "\<exists>c'. handle_task_result wid msg c = Some c' \<and> co_meta c' = Some (calls @ [?call])"
    using assms(1,2,5) length_result_bytes [OF assms(3,4)] result_roundtrip [OF assms(3,4)]
    by (simp add: handle_task_result_def split_beta Let_def del: scheduler_mark_task_complete.simps)
  let ?kvs = "task_ints (r_task_id r) 0 (sint (r_status r)) (r_exec_time_us r) (r_queue_time_us r) (of_int wid)"
  from task_info_holds [OF assms(6,7), of clock m "r_task_id r" 0 "sint (r_status r)" "r_exec_time_us r"
      "r_queue_time_us r" "of_int wid" fs] obtain fs' where
    fs': "store_call fe clock m (Some st) ?call fs = Some (META_OK, fs')"
      "\<forall>(key, v) \<in> set ?kvs. holds_int st m fs' key v"
      "\<forall>n. n \<notin> task_key (r_task_id r) ` set task_parts \<longrightarrow> disk_view (st, m) fs' n = disk_view (st, m) fs n"
    by (auto simp: store_call_def)
  have get: "metadata_store_get_int64 fe' m (Some st) (Some (task_key (r_task_id r) part)) old fs' = Some (META_OK, v, m)"
    if "(task_key (r_task_id r) part, v) \<in> set ?kvs" "part \<in> set task_parts" for part v
  proof (rule get_int64_holds [OF _ assms(6,8,9)])
    show "holds_int st m fs' (task_key (r_task_id r) part) v" using fs'(2) that(1) by blast
    show "length (task_key (r_task_id r) part) < META_MAX_KEY_LEN"
      using task_key_full(2) [OF task_parts_plain [OF that(2)]] by (simp add: good_key_def)
  qed
  have other: "disk_view (st, m) fs' (task_key tid part) = disk_view (st, m) fs (task_key tid part)"
    if "tid \<noteq> r_task_id r \<and> part \<in> set task_parts" for tid part
    using fs'(3) that task_key_inj task_parts_plain by blast
  have "\<forall>(part, v) \<in> {(''status'', of_int (sint (r_status r))), (''exec_time_us'', r_exec_time_us r),
        (''queue_time_us'', r_queue_time_us r), (''worker_id'', ucast (of_int wid :: u32))}.
      metadata_store_get_int64 fe' m (Some st) (Some (task_key (r_task_id r) part)) old fs' = Some (META_OK, v, m)"
    by (auto intro!: get simp: task_ints_def task_parts_def)
  with handled fs'(1) other show ?thesis by blast
qed

theorem result_recorded_witness:
  "\<exists>c' call fs'. handle_task_result 3 demo_result_message demo_coordinator = Some c' \<and> co_meta c' = Some [call] \<and>
     store_call (\<lambda>_. demo_files_env) (\<lambda>_. 0) Map.empty (Some demo_store) call Map.empty = Some (META_OK, fs') \<and>
     metadata_store_get_int64 demo_files_env Map.empty (Some demo_store) (Some (task_key 7 ''worker_id'')) 0 fs'
       = Some (META_OK, 3, Map.empty)"
proof -
  let ?r = "zero_result\<lparr>r_task_id := 7\<rparr>"
  have msg: "m_payload demo_result_message = Some (result_bytes (replicate 8 0) ?r)"
    "unat (h_payload_len (m_header demo_result_message)) = sizeof_result" "length (replicate 8 (0 :: u8)) = 8"
    "length (r_diag_msg ?r) = DIAG_MSG_LEN" "co_meta demo_coordinator = Some []"
    by (simp_all add: demo_result_message_def sizeof_result_def zero_result_def demo_coordinator_def)
  have env: "\<forall>k. reliable ((\<lambda>_ :: nat. demo_files_env) k)" "fresh_malloc (card (dom (Map.empty :: mem))) demo_files_env"
    using demo_store_facts(2) demo_store_facts(3) [of 0] by simp_all
  from result_recorded [OF msg demo_store_facts(1) env(1) demo_store_facts(2) env(2), of 3 "\<lambda>_. 0" Map.empty 0]
  show ?thesis by auto
qed

section \<open>Queries\<close>



theorem query_any_type_finds_nothing_witness:
  "\<exists>fs. metadata_store_put demo_files_env Map.empty (Some demo_store) (Some (int_entry None 5 (''seed'', 42))) Map.empty
      = Some (META_OK, fs) \<and>
    metadata_store_query demo_files_env Map.empty (Some demo_store)
      (Some \<lparr>mq_key_prefix = None, mq_tag = None, mq_type = -1, mq_created_after = 0, mq_created_before = 0\<rparr>)
      True 10 (Some [''seed.meta'']) fs = Some (META_OK, [], Map.empty)"
proof -
  from demo_directory obtain fs r where fs:
    "metadata_store_put demo_files_env Map.empty (Some demo_store) (Some (int_entry None 5 (''seed'', 42))) Map.empty
      = Some (META_OK, fs)" "dir_record demo_store fs ''seed.meta'' = Some r" "record_ok r" by blast
  have "metadata_store_query demo_files_env Map.empty (Some demo_store)
      (Some \<lparr>mq_key_prefix = None, mq_tag = None, mq_type = -1, mq_created_after = 0, mq_created_before = 0\<rparr>)
      True 10 (Some [''seed.meta'']) fs = Some (META_OK, [], Map.empty)"
    by (rule query_any_type_finds_nothing) (use fs demo_store_facts in \<open>auto simp: query_ok_def\<close>)
  with fs(1) show ?thesis by blast
qed

end
