(* ===== verification/Cluster_Round.thy ===== *)
theory Cluster_Round
  imports Cluster_Links Worker_Liveness
begin

text \<open>
  A whole round of the cluster: the coordinator's main loop dispatches the queued tasks, the worker's
  main loop takes and executes them, and the coordinator's main loop takes the results.  The two ends
  are joined by the frames that one puts on the wire and the other receives.
\<close>

section \<open>Messages on the wire\<close>

text \<open>
  What a ROUTER socket delivers of the frames that one DEALER peer sent: the identity of the peer in
  front of each message; a message ends with the frame that announces no further one.
\<close>

fun routed :: "u8 list \<Rightarrow> bool \<Rightarrow> (u8 list \<times> bool) list \<Rightarrow> (u8 list + c_int) list" where
  "routed identity at_start [] = []"
| "routed identity at_start ((bytes, sndmore) # frs) =
     (if at_start then [Inl identity] else []) @ Inl bytes # routed identity (\<not> sndmore) frs"

lemma routed_message:
  assumes "carries m mt tid bytes"
  shows "routed identity True (frames m @ frs) = Inl identity # map (Inl \<circ> fst) (frames m) @ routed identity True frs"
proof -
  have "h_payload_len (m_header m) > 0 \<longleftrightarrow> bytes \<noteq> []"
    using assms by (auto simp: carries_def word_gt_0 simp flip: unat_eq_zero)
  then show ?thesis using assms by (auto simp: carries_def frames_def Let_def)
qed

lemma endpoint_up_same:
  assumes "endpoint_up role z" "same_registry z z'" "e_tx (z_env z') = []"
    and "e_setsockopt_ok (z_env z') = e_setsockopt_ok (z_env z)" "e_calloc_ok (z_env z') = e_calloc_ok (z_env z)"
    and "e_malloc (z_env z') = e_malloc (z_env z)"
  shows "endpoint_up role z'"
  using assms same_registryD [OF assms(2)] by (auto simp: endpoint_up_def same_registry_def malloc_serves_def)

lemma packed_sent:
  assumes "endpoint_up TRANSPORT_ROLE_WORKER z" "allocates ok malloc" "length bytes < 2 ^ 32"
  obtains z' m where "send_packed (zmq_on z) (packed_message ok malloc mt tid bytes) dst = Some (0, zmq_on z')"
    "carries m mt tid bytes" "e_sent (z_env z') = e_sent (z_env z) @ frames m" "endpoint_up TRANSPORT_ROLE_WORKER z'"
    "e_rx (z_env z') = e_rx (z_env z)"
proof -
  obtain m where m: "packed_message ok malloc mt tid bytes = Some m" "carries m mt tid bytes" "delivered m = m"
      "message_validate (Some m) = 0" "message_wf m"
    by (rule packed_message_made [OF assms(2,3)])
  have z: "z_role z = TRANSPORT_ROLE_WORKER" "e_tx (z_env z) = []" using assms(1) by (auto simp: endpoint_up_def)
  obtain z' where z': "transport_zmq_send (Some z) (Some m) dst = Some (0, Some z')"
      "e_sent (z_env z') = e_sent (z_env z) @ frames m" "e_tx (z_env z') = []" "z_role z' = z_role z"
      "z_env z' = (z_env z)\<lparr>e_tx := [], e_sent := e_sent (z_env z) @ frames m\<rparr>" "same_registry z z'"
    by (rule worker_send [OF m(4,5) z])
  have "send_packed (zmq_on z) (packed_message ok malloc mt tid bytes) dst = Some (0, zmq_on z')"
    using m(1) z'(1) by (simp add: send_packed_def zmq_on_send del: transport_zmq_send.simps)
  moreover have "endpoint_up TRANSPORT_ROLE_WORKER z'"
    by (rule endpoint_up_same [OF assms(1) z'(6)]) (simp_all add: z'(5))
  ultimately show thesis using m(2) z'(2,5) by (intro that [of z' m]) simp_all
qed

lemma result_received:
  assumes "carries m MSG_TYPE_TASK_RESULT tid bytes" "endpoint_up TRANSPORT_ROLE_COORDINATOR c"
    and "0 < length s" "length s < IDENTITY_LEN" "NUL \<notin> set s" "rank_of c s = Some i"
    and "e_rx (z_env c) = Inl (map byte_of_char s) # map (Inl \<circ> fst) (frames m) @ rest"
  obtains c' where "transport_recv (Some (zmq_on c)) (Some old) = Some (Some m, Some (int i), Some c')"
    "endpoint_up TRANSPORT_ROLE_COORDINATOR c'" "rank_of c' s = Some i" "e_rx (z_env c') = rest"
proof -
  have m: "message_validate (Some m) = 0" "message_wf m" "delivered m = m" "h_msg_type (m_header m) = MSG_TYPE_TASK_RESULT"
    using assms(1) carries_delivered [OF assms(1)] by (auto simp: carries_def complete_message_def)
  have c: "zmq_inv c" "z_role c = TRANSPORT_ROLE_COORDINATOR" "e_setsockopt_ok (z_env c)" "e_calloc_ok (z_env c)"
    "malloc_serves (z_env c) (ucast (h_payload_len (m_header m)))"
    using assms(2) by (simp_all add: endpoint_up_def)
  obtain c' where c': "transport_zmq_recv (Some c) (Some old)
      = Some (Some (delivered m), Some (reported_rank c' s (h_msg_type (m_header m)) old), Some c')"
    "zmq_inv c'" "rank_of c \<subseteq>\<^sub>m rank_of c'" "e_rx (z_env c') = rest"
    "h_msg_type (m_header m) = MSG_TYPE_WORKER_REGISTER \<and> length (z_workers c) < MAX_WORKERS \<longrightarrow> rank_of c' s \<noteq> None"
    "z_env c' = (z_env c)\<lparr>e_rx := rest\<rparr>" "z_role c' = TRANSPORT_ROLE_COORDINATOR"
    by (rule worker_to_coordinator [OF m(1,2) c assms(3-5,7), of old])
  have r: "rank_of c' s = Some i" using c'(3) assms(6) by (auto simp: map_le_def dom_def)
  moreover have "endpoint_up TRANSPORT_ROLE_COORDINATOR c'"
    using assms(2) c'(2,6,7) by (auto simp: endpoint_up_def malloc_serves_def)
  ultimately show thesis
    using c'(1,4) m(3) by (intro that [of c']) (simp_all add: zmq_on_recv reported_rank_def del: transport_zmq_recv.simps)
qed

lemma batch_received:
  assumes "carries m mt tid bytes" "endpoint_up TRANSPORT_ROLE_WORKER z"
    and "e_rx (z_env z) = map (Inl \<circ> fst) (frames m) @ rest"
  obtains z' where "transport_recv (Some (zmq_on z)) (Some old) = Some (Some m, Some old, Some z')"
    "endpoint_up TRANSPORT_ROLE_WORKER z'" "e_rx (z_env z') = rest" "e_sent (z_env z') = e_sent (z_env z)"
proof -
  have m: "message_validate (Some m) = 0" "message_wf m" "delivered m = m"
    using assms(1) carries_delivered [OF assms(1)] by (auto simp: carries_def complete_message_def)
  have z: "z_role z = TRANSPORT_ROLE_WORKER" "e_setsockopt_ok (z_env z)" "e_calloc_ok (z_env z)"
    "malloc_serves (z_env z) (ucast (h_payload_len (m_header m)))" "e_tx (z_env z) = []"
    using assms(2) by (simp_all add: endpoint_up_def)
  obtain z' where z': "transport_zmq_recv (Some z) (Some old) = Some (Some (delivered m), Some old, Some z')"
      "e_rx (z_env z') = rest" "z_role z' = z_role z" "e_sent (z_env z') = e_sent (z_env z)"
      "e_tx (z_env z') = e_tx (z_env z)" "z_env z' = (z_env z)\<lparr>e_rx := rest\<rparr>" "same_registry z z'"
    by (rule coordinator_to_worker [OF m(1,2) z(1-4) assms(3), of "Some old"])
  have "endpoint_up TRANSPORT_ROLE_WORKER z'"
    by (rule endpoint_up_same [OF assms(2) z'(7)]) (use z(5) in \<open>simp_all add: z'(6)\<close>)
  then show thesis
    using z'(1,2,4) m(3) by (intro that [of z']) (simp_all add: zmq_on_recv del: transport_zmq_recv.simps)
qed

lemma nothing_received:
  assumes "endpoint_up role z" "e_rx (z_env z) = []"
  shows "transport_recv (Some (zmq_on z)) (Some old) = Some (None, Some old, Some z)"
proof -
  have "zmq_silent z" using assms by (simp add: zmq_silent_def zmq_ok_def endpoint_up_def peer_stream.silent)
  then show ?thesis by (simp add: zmq_on_recv zmq_silent_recv del: transport_zmq_recv.simps)
qed
section \<open>The worker executes a batch\<close>

definition result_message :: "worker_env \<times> task_t \<Rightarrow> message_t \<Rightarrow> bool" where
  "result_message x m = (case x of (ve, t) \<Rightarrow>
     carries m MSG_TYPE_TASK_RESULT (t_task_id t) (result_bytes (ve_pad ve) (execute_task_standalone ve t)))"

text \<open>An environment in which nothing fails and no heartbeat is due, for a worker that sent its last one at \<open>t0\<close>.\<close>

definition calm :: "time_t \<Rightarrow> worker_env \<Rightarrow> bool" where
  "calm t0 ve \<longleftrightarrow> env_ok ve \<and> allocates (ve_calloc ve) (ve_malloc ve) \<and> ve_now ve - t0 < 10"

text \<open>A standalone worker with a free slot on an endpoint that is up, with the tasks \<open>ts\<close> in its queue.\<close>

definition worker_at :: "zmq_transport worker \<Rightarrow> zmq_transport \<Rightarrow> task_t list \<Rightarrow> bool" where
  "worker_at w z ts \<longleftrightarrow> wk_transport w = zmq_on z \<and> endpoint_up TRANSPORT_ROLE_WORKER z \<and> client_queue (wk_queue w) \<and>
     tq_tasks (wk_queue w) = ts \<and> wk_mode w = WORKER_MODE_STANDALONE \<and> slot_free w"

lemma result_bytes_small:
  assumes "env_ok ve"
  shows "length (result_bytes (ve_pad ve) (execute_task_standalone ve t)) < 2 ^ 32"
proof -
  have "length (result_bytes (ve_pad ve) (execute_task_standalone ve t)) = sizeof_result"
    using assms by (intro length_result_bytes) (simp_all add: env_ok_def execute_task_standalone_def zero_result_def)
  then show ?thesis by (simp add: sizeof_result_def)
qed

lemma worker_executes:
  assumes "worker_at w z (t # ts)" "calm t0 ve"
  obtains w3 w' z' m where "worker_process ve w = Some (w3, True)" "worker_finish ve w3 = Some w'" "worker_at w' z' ts"
    "e_rx (z_env z') = e_rx (z_env z)" "e_sent (z_env z') = e_sent (z_env z) @ frames m" "result_message (ve, t) m"
    "wk_last_heartbeat w' = wk_last_heartbeat w"
proof -
  let ?r = "execute_task_standalone ve t"
  have w: "wk_transport w = zmq_on z" "endpoint_up TRANSPORT_ROLE_WORKER z" "client_queue (wk_queue w)"
      "tq_tasks (wk_queue w) = t # ts" "wk_mode w = WORKER_MODE_STANDALONE"
    using assms(1) by (simp_all add: worker_at_def)
  obtain l where l: "wk_limits w = Some l" "slots_running l < slots_capacity l"
    using assms(1) by (auto simp: worker_at_def slot_free_def)
  have ve: "env_ok ve" "allocates (ve_calloc ve) (ve_malloc ve)" using assms(2) by (simp_all add: calm_def)
  obtain q1 where q1: "heap_deq (wk_queue w) = Some (0, q1, t)" "tq_tasks q1 = ts" "client_queue q1"
    using w(3,4) by (cases rule: deq_cases) auto
  obtain l1 where l1: "resource_limits_reserve_task (Some l) = (0, Some l1)"
      "slots_running (release_slot l1 (r_status ?r = 0)) = slots_running l"
      "slots_capacity (release_slot l1 (r_status ?r = 0)) = slots_capacity l"
    by (rule reserve_free [OF l(2)])
  obtain z' m where z': "send_result ve (zmq_on z) ?r = Some (0, zmq_on z')"
      "carries m MSG_TYPE_TASK_RESULT (r_task_id ?r) (result_bytes (ve_pad ve) ?r)"
      "e_sent (z_env z') = e_sent (z_env z) @ frames m" "endpoint_up TRANSPORT_ROLE_WORKER z'"
      "e_rx (z_env z') = e_rx (z_env z)"
    unfolding send_result_def by (rule packed_sent [OF w(2) ve(2) result_bytes_small [OF ve(1), of t]])
  let ?w3 = "w\<lparr>wk_queue := q1, wk_transport := zmq_on z',
    wk_limits := resource_limits_release_task (Some l1) (r_status ?r = 0)\<rparr>"
  have p: "worker_process ve w = Some (?w3, True)"
    using q1 l l1(1) z'(1) w(1,5)
    by (simp add: worker_process_def Let_def del: resource_limits_reserve_task.simps resource_limits_release_task.simps)
  let ?l2 = "release_slot l1 (r_status ?r = 0)"
  have l2: "wk_limits ?w3 = Some ?l2" by (simp add: release_slot_def Let_def)
  obtain l3 where l3: "resource_limits_update (ve_os ve) (Some ?l2) = (0, Some l3)" by (simp add: Let_def)
  have f: "worker_finish ve ?w3 = Some (?w3\<lparr>wk_limits := Some l3\<rparr>)"
    using w(5) l2 l3 by (simp add: worker_finish_def del: resource_limits_update.simps resource_limits_release_task.simps)
  have "slots_running l3 < slots_capacity l3" using update_slots [OF l3] l1(2,3) l(2) by simp
  then have "worker_at (?w3\<lparr>wk_limits := Some l3\<rparr>) z' ts"
    using q1 z'(4) w(5) by (simp add: worker_at_def slot_free_def)
  moreover have "r_task_id ?r = t_task_id t" by (simp add: execute_task_standalone_def)
  ultimately show thesis
    using p f z'(2,3,5) by (intro that [of ?w3 "?w3\<lparr>wk_limits := Some l3\<rparr>" z' m]) (simp_all add: result_message_def)
qed

text \<open>A pass that receives nothing, and the passes that work off the queue.\<close>

lemma worker_pass_quiet:
  assumes "worker_at w z (t # ts)" "calm (wk_last_heartbeat w) ve" "e_rx (z_env z) = []"
  obtains w' z' m where "worker_pass ve w = Some w'" "worker_at w' z' ts" "e_rx (z_env z') = []"
    "e_sent (z_env z') = e_sent (z_env z) @ frames m" "result_message (ve, t) m" "wk_last_heartbeat w' = wk_last_heartbeat w"
proof -
  have w: "wk_transport w = zmq_on z" "endpoint_up TRANSPORT_ROLE_WORKER z" using assms(1) by (simp_all add: worker_at_def)
  have "worker_heartbeat ve w = Some w" using assms(2) by (simp add: worker_heartbeat_def calm_def)
  moreover have "worker_receive ve w = Some (w\<lparr>wk_transport := wk_transport w\<rparr>)"
    using nothing_received [OF w(2) assms(3), of "ve_src ve"] by (simp add: worker_receive_def w(1))
  moreover obtain w3 w' z' m where "worker_process ve w = Some (w3, True)" "worker_finish ve w3 = Some w'" "worker_at w' z' ts"
    "e_rx (z_env z') = e_rx (z_env z)" "e_sent (z_env z') = e_sent (z_env z) @ frames m" "result_message (ve, t) m"
    "wk_last_heartbeat w' = wk_last_heartbeat w"
    by (rule worker_executes [OF assms(1,2)])
  ultimately show thesis using assms(3) by (intro that [of w' z' m]) (simp_all add: worker_pass_def)
qed

lemma worker_run_quiet:
  assumes "worker_at w z ts" "\<forall>ve \<in> set ves. calm (wk_last_heartbeat w) ve" "e_rx (z_env z) = []" "length ves = length ts"
  shows "\<exists>w' z' ms. worker_run ves w = Some w' \<and> worker_at w' z' [] \<and>
    e_sent (z_env z') = e_sent (z_env z) @ concat (map frames ms) \<and> list_all2 result_message (zip ves ts) ms"
  using assms
proof (induction ves arbitrary: w z ts)
  case Nil
  then show ?case by (intro exI [of _ w] exI [of _ z] exI [of _ "[]"]) simp
next
  case (Cons ve ves)
  then obtain t ts' where ts: "ts = t # ts'" by (cases ts) auto
  obtain w1 z1 m where w1: "worker_pass ve w = Some w1" "worker_at w1 z1 ts'" "e_rx (z_env z1) = []"
    "e_sent (z_env z1) = e_sent (z_env z) @ frames m" "result_message (ve, t) m" "wk_last_heartbeat w1 = wk_last_heartbeat w"
    using worker_pass_quiet Cons.prems unfolding ts by (metis list.set_intros(1))
  from Cons.IH [OF w1(2) _ w1(3)] w1(6) Cons.prems(2,4) obtain w' z' ms where
    "worker_run ves w1 = Some w'" "worker_at w' z' []" "e_sent (z_env z') = e_sent (z_env z1) @ concat (map frames ms)"
    "list_all2 result_message (zip ves ts') ms"
    by (auto simp: ts)
  with w1 show ?case unfolding ts by (intro exI [of _ w'] exI [of _ z'] exI [of _ "m # ms"]) simp
qed

text \<open>The run that begins with the arrival of a batch.\<close>

lemma worker_run_batch:
  assumes w: "worker_at w z []" "\<forall>ve \<in> set ves. calm (wk_last_heartbeat w) ve" "length ves = length batch" "batch \<noteq> []"
    and m: "carries m MSG_TYPE_TASK_SUBMIT tid (batch_payload pad batch)" "length pad = 8" "length batch \<le> BATCH_ARRAY"
    and rx: "e_rx (z_env z) = map (Inl \<circ> fst) (frames m)"
    and q: "heap_capacity (wk_queue w) = Some k" "length batch \<le> k" "distinct (map t_task_id batch)"
  shows "\<exists>w' z' ms. worker_run ves w = Some w' \<and> worker_at w' z' [] \<and>
    e_sent (z_env z') = e_sent (z_env z) @ concat (map frames ms) \<and>
    list_all2 result_message (zip ves (fold pq_insert batch [])) ms"
proof -
  obtain ve ves' where ves: "ves = ve # ves'" using w(3,4) by (cases ves) auto
  have calm: "calm (wk_last_heartbeat w) ve" using w(2) ves by simp
  have w0: "wk_transport w = zmq_on z" "endpoint_up TRANSPORT_ROLE_WORKER z" "client_queue (wk_queue w)"
      "tq_tasks (wk_queue w) = []"
    using w(1) by (simp_all add: worker_at_def)
  obtain z1 where z1: "transport_recv (Some (zmq_on z)) (Some (ve_src ve)) = Some (Some m, Some (ve_src ve), Some z1)"
      "endpoint_up TRANSPORT_ROLE_WORKER z1" "e_rx (z_env z1) = []" "e_sent (z_env z1) = e_sent (z_env z)"
    by (rule batch_received [OF m(1) w0(2), of "[]" "ve_src ve"]) (use rx in simp)
  have unpack: "unpack_batch m = Some batch"
    using unpack_batch_payload [OF m(1,2)] m(3) by (simp add: BATCH_ARRAY_def)
  have malloc: "node_allocator (ve_malloc_node ve)" using calm by (simp add: calm_def env_ok_def)
  obtain rcs q' where q': "enqueue_all heap_enq (ve_malloc_node ve) batch (wk_queue w) = Some (rcs, q')" "client_queue q'"
      "tq_tasks q' = fold pq_insert batch (tq_tasks (wk_queue w))"
    by (rule enqueue_new_ok [OF w0(3) malloc q(1)]) (use w0(4) q(2,3) in auto)
  let ?w1 = "w\<lparr>wk_transport := zmq_on z1, wk_queue := q'\<rparr>"
  let ?ts = "fold pq_insert batch []"
  have len: "length ?ts = length batch" by (metis fold_pq_insert_mset add.right_neutral mset.simps(1) size_mset)
  then obtain t ts where ts: "?ts = t # ts" using w(4) by (cases ?ts) auto
  have at: "worker_at ?w1 z1 (t # ts)"
    using w(1) z1(2) q' w0(4) ts by (simp add: worker_at_def slot_free_def)
  have rcv: "worker_receive ve w = Some ?w1"
    using z1(1) m(1) unpack q'(1) by (simp add: worker_receive_def w0(1) carries_def)
  have "worker_heartbeat ve w = Some w" using calm by (simp add: worker_heartbeat_def calm_def)
  moreover obtain w3 w2 z2 m1 where e: "worker_process ve ?w1 = Some (w3, True)" "worker_finish ve w3 = Some w2" "worker_at w2 z2 ts"
    "e_rx (z_env z2) = e_rx (z_env z1)" "e_sent (z_env z2) = e_sent (z_env z1) @ frames m1" "result_message (ve, t) m1"
    "wk_last_heartbeat w2 = wk_last_heartbeat ?w1"
    by (rule worker_executes [OF at calm])
  ultimately have pass: "worker_pass ve w = Some w2" using rcv by (simp add: worker_pass_def)
  have "length ves' = length ts" using w(3) len ts ves by simp
  moreover have "\<forall>ve \<in> set ves'. calm (wk_last_heartbeat w2) ve" using e(7) w(2) ves by simp
  moreover have "e_rx (z_env z2) = []" using e(4) z1(3) by simp
  ultimately obtain w' z' ms where
    "worker_run ves' w2 = Some w'" "worker_at w' z' []" "e_sent (z_env z') = e_sent (z_env z2) @ concat (map frames ms)"
    "list_all2 result_message (zip ves' ts) ms"
    using worker_run_quiet [OF e(3)] by blast
  then show ?thesis using pass e(5,6) z1(4)
    unfolding ts ves by (intro exI [of _ w'] exI [of _ z'] exI [of _ "m1 # ms"]) simp
qed
section \<open>The coordinator takes the results\<close>

definition result_call :: "nat \<Rightarrow> worker_env \<times> task_t \<Rightarrow> task_info_call" where
  "result_call i x = (case x of (ve, t) \<Rightarrow>
     \<lparr>mc_task_id = t_task_id t, mc_model_id = 0, mc_status = 0, mc_exec_time_us = worker_elapsed_us (ve_start ve) (ve_end ve),
      mc_queue_time_us = 0, mc_worker_id = of_nat i\<rparr>)"

text \<open>No worker is silent for too long at any reading of the clock from \<open>lo\<close> to \<open>hi\<close>.\<close>

definition timely :: "(nat \<Rightarrow> time_t) \<Rightarrow> nat \<Rightarrow> nat \<Rightarrow> scheduler \<Rightarrow> bool" where
  "timely clock lo hi s \<longleftrightarrow> (\<forall>n x. lo \<le> n \<longrightarrow> n \<le> hi \<longrightarrow> x \<in> ran (reg s) \<longrightarrow>
     clock n - w_last_heartbeat x \<le> s_heartbeat_timeout_secs s)"

lemma timely_update:
  assumes "timely clock lo hi s" "reg s' = (reg s)(wid := map_option f (reg s wid))"
    and "\<And>x. w_last_heartbeat (f x) = w_last_heartbeat x" "s_heartbeat_timeout_secs s' = s_heartbeat_timeout_secs s"
  shows "timely clock lo hi s'"
  unfolding timely_def
proof (intro allI impI)
  fix n x
  assume n: "lo \<le> n" "n \<le> hi" and "x \<in> ran (reg s')"
  then obtain wid' where "reg s' wid' = Some x" by (auto simp: ran_def)
  then have "\<exists>y \<in> ran (reg s). w_last_heartbeat y = w_last_heartbeat x"
    using assms(2,3) by (auto simp: ran_def split: if_splits)
  then show "clock n - w_last_heartbeat x \<le> s_heartbeat_timeout_secs s'"
    using assms(1,4) n unfolding timely_def by metis
qed

lemma timely_mono: "timely clock lo hi s \<Longrightarrow> lo \<le> lo' \<Longrightarrow> hi' \<le> hi \<Longrightarrow> timely clock lo' hi' s"
  unfolding timely_def by auto

lemma timeout_loop_none:
  "\<forall>w \<in> set ws. \<not> timed_out t timeout w \<Longrightarrow> timeout_loop t timeout ws st dead = (ws, st, dead)"
  by (induction ws) auto

lemma timely_no_timeout:
  assumes "sched_inv s" "timely clock n hi s" "n \<le> hi"
  shows "scheduler_check_timeouts (Some s) (clock n) = (0, Some s)"
proof -
  have "\<not> timed_out (clock n) (s_heartbeat_timeout_secs s) w" if "w \<in> set (s_workers s)" for w
  proof -
    have "reg s (w_worker_id w) = Some w" using assms(1) that by (simp add: registry_iff sched_inv_def)
    then have "w \<in> ran (reg s)" by (rule ranI)
    then show ?thesis using assms(2,3) unfolding timely_def timed_out_def by fastforce
  qed
  then show ?thesis by (simp add: timeout_loop_none)
qed

text \<open>A coordinator with an empty queue on an endpoint that is up; the worker \<open>name\<close> has rank \<open>i\<close>.\<close>

definition coordinator_at ::
    "zmq_transport coordinator \<Rightarrow> zmq_transport \<Rightarrow> scheduler \<Rightarrow> task_info_call list \<Rightarrow> string \<Rightarrow> nat \<Rightarrow> bool" where
  "coordinator_at c z s calls name i \<longleftrightarrow> co_transport c = zmq_on z \<and> endpoint_up TRANSPORT_ROLE_COORDINATOR z \<and>
     rank_of z name = Some i \<and> 0 < length name \<and> length name < IDENTITY_LEN \<and> NUL \<notin> set name \<and>
     co_sched c = Some s \<and> sched_inv s \<and> co_meta c = Some calls \<and> client_queue (co_queue c)"

lemma is_empty_iff: "client_queue q \<Longrightarrow> task_queue_is_empty (Some q) \<noteq> 0 \<longleftrightarrow> tq_tasks q = []"
  using tq_inv_size [of q] by (auto simp: client_queue_def unat_eq_zero)

lemma coordinator_takes_result:
  assumes c: "coordinator_at c z s calls name i" "tq_tasks (co_queue c) = []"
    and m: "result_message (ve, t) m" "env_ok ve"
    and rx: "e_rx (z_env z) = Inl (map byte_of_char name) # map (Inl \<circ> fst) (frames m) @ rest"
    and s: "tracked_on s (t_task_id t) = Some wid" "timely (co_time c) (co_ticks c) hi s" "co_ticks c \<le> hi"
  obtains c' z' s' where "coordinator_pass ce c = Some ([], c')" "coordinator_at c' z' s' (calls @ [result_call i (ve, t)]) name i"
    "e_rx (z_env z') = rest" "co_queue c' = co_queue c" "co_time c' = co_time c" "co_ticks c' = Suc (co_ticks c)"
    "scheduler_mark_task_complete (Some s) (t_task_id t) 0 = (0, Some s')" "tracked_on s' = tracked_on s"
    "timely (co_time c) (Suc (co_ticks c)) hi s'"
proof -
  let ?r = "execute_task_standalone ve t" and ?b = "result_bytes (ve_pad ve) (execute_task_standalone ve t)"
  have c0: "co_transport c = zmq_on z" "endpoint_up TRANSPORT_ROLE_COORDINATOR z" "rank_of z name = Some i"
      "0 < length name" "length name < IDENTITY_LEN" "NUL \<notin> set name" "co_sched c = Some s" "sched_inv s"
      "co_meta c = Some calls" "client_queue (co_queue c)"
    using c(1) by (simp_all add: coordinator_at_def)
  have cm: "carries m MSG_TYPE_TASK_RESULT (t_task_id t) ?b" using m(1) by (simp add: result_message_def)
  obtain z' where z': "transport_recv (Some (zmq_on z)) (Some (ce_src ce)) = Some (Some m, Some (int i), Some z')"
      "endpoint_up TRANSPORT_ROLE_COORDINATOR z'" "rank_of z' name = Some i" "e_rx (z_env z') = rest"
    by (rule result_received [OF cm c0(2,4,5,6,3) rx])
  have diag: "length (ve_pad ve) = 8" "length (r_diag_msg ?r) = DIAG_MSG_LEN"
    using m(2) by (simp_all add: env_ok_def execute_task_standalone_def zero_result_def)
  have len: "length ?b = sizeof_result" by (rule length_result_bytes [OF diag])
  have r: "result_of_bytes ?b = ?r" using result_roundtrip [OF diag] by simp
  obtain s' where s': "scheduler_mark_task_complete (Some s) (t_task_id t) 0 = (0, Some s')"
      "reg s' = (reg s)(wid := map_option (finish 0) (reg s wid))" "tracked_on s' = tracked_on s" "sched_inv s \<Longrightarrow> sched_inv s'"
      "gauges s \<Longrightarrow> gauges s'"
    using complete_tracked [OF s(1), of 0] by blast
  have to: "s_heartbeat_timeout_secs s' = s_heartbeat_timeout_secs s"
    using s'(1) by (auto simp: Let_def split: option.splits prod.splits)
  have t': "timely (co_time c) (co_ticks c) hi s'"
    by (rule timely_update [OF s(2) s'(2) _ to]) (simp add: finish_def Let_def)
  let ?c1 = "c\<lparr>co_transport := zmq_on z', co_sched := Some s', co_meta := Some (calls @ [result_call i (ve, t)])\<rparr>"
  have fields: "r_task_id ?r = t_task_id t" "r_status ?r = 0" "r_exec_time_us ?r = worker_elapsed_us (ve_start ve) (ve_end ve)"
      "r_queue_time_us ?r = 0"
    by (simp_all add: execute_task_standalone_def zero_result_def)
  have p: "m_payload m = Some ?b" "unat (h_payload_len (m_header m)) = sizeof_result" "h_msg_type (m_header m) = MSG_TYPE_TASK_RESULT"
    using cm len by (auto simp: carries_def sizeof_result_def)
  have handle: "handle_task_result (int i) m (c\<lparr>co_transport := zmq_on z'\<rparr>) = Some ?c1"
    using p len r s'(1) fields
    by (simp add: handle_task_result_def c0(7,9) result_call_def del: scheduler_mark_task_complete.simps)
  have rcv: "coordinator_receive ce c = Some ?c1"
    using z'(1) p(3) handle
    by (simp add: coordinator_receive_def c0(1) MSG_TYPE_TASK_RESULT_def MSG_TYPE_WORKER_REGISTER_def MSG_TYPE_HEARTBEAT_def)
  have "serve_workers ce ws ?c1 = Some ([], ?c1)" for ws
    using is_empty_iff [OF c0(10)] c(2) by (cases ws) (simp_all del: task_queue_is_empty.simps)
  moreover have "scheduler_check_timeouts (Some s') (co_time c (co_ticks c)) = (0, Some s')"
    by (rule timely_no_timeout [OF s'(4) [OF c0(8)] t' s(3)])
  ultimately have pass: "coordinator_pass ce c = Some ([], tick 1 ?c1)"
    using rcv by (simp add: coordinator_pass_def now_def tick_def del: scheduler_check_timeouts.simps scheduler_get_idle_workers.simps)
  show thesis
    by (rule that [OF pass, of z' s'])
      (use z' s' c0 timely_mono [OF t'] in \<open>simp_all add: coordinator_at_def tick_def\<close>)
qed
lemma coordinator_run_results:
  assumes "coordinator_at c z s calls name i" "tq_tasks (co_queue c) = []" "list_all2 result_message xs ms"
    and "\<forall>(ve, t) \<in> set xs. env_ok ve \<and> tracked_on s (t_task_id t) = Some wid" "length ces = length xs"
    and "e_rx (z_env z) = routed (map byte_of_char name) True (concat (map frames ms))"
    and "timely (co_time c) (co_ticks c) hi s" "co_ticks c + length xs \<le> Suc hi"
  shows "\<exists>c' z' s'. coordinator_run ces c = Some ([], c') \<and> coordinator_at c' z' s' (calls @ map (result_call i) xs) name i \<and>
    co_queue c' = co_queue c \<and> complete_all (Some s) (map (\<lambda>(ve, t). (t_task_id t, 0)) xs) = Some s'"
  using assms
proof (induction xs arbitrary: c z s calls ms ces)
  case Nil
  then show ?case by (intro exI [of _ c] exI [of _ z] exI [of _ s]) simp
next
  case (Cons x xs)
  obtain ve t where x: "x = (ve, t)" by (cases x)
  obtain m ms' where ms: "ms = m # ms'" "result_message (ve, t) m" "list_all2 result_message xs ms'"
    using Cons.prems(3) by (auto simp: list_all2_Cons1 x)
  obtain ce ces' where ces: "ces = ce # ces'" using Cons.prems(5) by (cases ces) auto
  have ve: "env_ok ve" and tr: "tracked_on s (t_task_id t) = Some wid" using Cons.prems(4) by (simp_all add: x)
  have "carries m MSG_TYPE_TASK_RESULT (t_task_id t) (result_bytes (ve_pad ve) (execute_task_standalone ve t))"
    using ms(2) by (simp add: result_message_def)
  then have rx: "e_rx (z_env z) = Inl (map byte_of_char name) # map (Inl \<circ> fst) (frames m) @
      routed (map byte_of_char name) True (concat (map frames ms'))"
    using Cons.prems(6) routed_message by (simp add: ms(1))
  have hi: "co_ticks c \<le> hi" using Cons.prems(8) by simp
  obtain c1 z1 s1 where c1: "coordinator_pass ce c = Some ([], c1)" "coordinator_at c1 z1 s1 (calls @ [result_call i (ve, t)]) name i"
    "e_rx (z_env z1) = routed (map byte_of_char name) True (concat (map frames ms'))" "co_queue c1 = co_queue c"
    "co_time c1 = co_time c" "co_ticks c1 = Suc (co_ticks c)"
    "scheduler_mark_task_complete (Some s) (t_task_id t) 0 = (0, Some s1)" "tracked_on s1 = tracked_on s"
    "timely (co_time c) (Suc (co_ticks c)) hi s1"
    by (rule coordinator_takes_result [OF Cons.prems(1,2) ms(2) ve rx tr Cons.prems(7) hi])
  have "\<exists>c' z' s'. coordinator_run ces' c1 = Some ([], c') \<and>
      coordinator_at c' z' s' ((calls @ [result_call i (ve, t)]) @ map (result_call i) xs) name i \<and>
      co_queue c' = co_queue c1 \<and> complete_all (Some s1) (map (\<lambda>(ve, t). (t_task_id t, 0)) xs) = Some s'"
    by (rule Cons.IH [OF c1(2) _ ms(3) _ _ c1(3)])
      (use Cons.prems c1 in \<open>simp_all add: x ces\<close>)
  then show ?case using c1(1,4,7) by (auto simp: x ces simp del: scheduler_mark_task_complete.simps)
qed

section \<open>The coordinator dispatches\<close>

fun batch_clock :: "(nat \<Rightarrow> time_t) \<Rightarrow> nat \<Rightarrow> task_t list \<Rightarrow> (u64 \<times> time_t \<times> time_t) list" where
  "batch_clock clock n [] = []"
| "batch_clock clock n (t # ts) = (t_task_id t, clock n, clock (n + 1)) # batch_clock clock (n + 2) ts"

lemma batch_clock_ids [simp]: "map fst (batch_clock clock n ts) = map t_task_id ts"
  "length (batch_clock clock n ts) = length ts"
  by (induction ts arbitrary: n) simp_all

lemma track_batch_all:
  "co_sched (track_batch wid ts c) = track_all (co_sched c) (batch_clock (co_time c) (co_ticks c) ts) wid"
  "co_time (track_batch wid ts c) = co_time c" "co_ticks (track_batch wid ts c) = co_ticks c + 2 * length ts"
  by (induction ts arbitrary: c) (simp_all add: tick_def now_def later_def del: scheduler_track_task.simps)

lemma batch_sent:
  assumes "endpoint_up TRANSPORT_ROLE_COORDINATOR z" "allocates (ce_calloc ce) (ce_malloc ce)" "length (ce_pad ce) = 8"
    and "rank_of z name = Some i" "length batch \<le> BATCH_ARRAY"
  obtains z' m where "send_task_batch ce (zmq_on z) (of_nat i) batch = Some (0, zmq_on z')"
    "carries m MSG_TYPE_TASK_SUBMIT (t_task_id (hd batch)) (batch_payload (ce_pad ce) batch)"
    "e_sent (z_env z') = e_sent (z_env z) @ (map byte_of_char name, True) # frames m"
    "endpoint_up TRANSPORT_ROLE_COORDINATOR z'" "rank_of z' = rank_of z"
proof -
  have "length (z_workers z) \<le> MAX_WORKERS" using assms(1) by (simp add: endpoint_up_def zmq_inv_def)
  with rank_of_bound [OF assms(4)] have "i < 2 ^ 31" by (simp add: MAX_WORKERS_def)
  then have rank: "sint (of_nat i :: u32) = int i"
    using sint_ucast_small [of "of_nat i"] by (simp add: unat_of_nat_64)
  obtain m where m: "packed_message (ce_calloc ce) (ce_malloc ce) MSG_TYPE_TASK_SUBMIT (t_task_id (hd batch))
      (batch_payload (ce_pad ce) batch) = Some m"
      "carries m MSG_TYPE_TASK_SUBMIT (t_task_id (hd batch)) (batch_payload (ce_pad ce) batch)" "delivered m = m"
      "message_validate (Some m) = 0" "message_wf m"
    by (rule packed_message_made [OF assms(2) batch_payload_small [OF assms(3,5)]])
  have z: "zmq_inv z" "z_role z = TRANSPORT_ROLE_COORDINATOR" "e_tx (z_env z) = []"
    using assms(1) by (auto simp: endpoint_up_def)
  obtain z' where z': "transport_zmq_send (Some z) (Some m) (int i) = Some (0, Some z')" "zmq_inv z'" "rank_of z' = rank_of z"
      "e_sent (z_env z') = e_sent (z_env z) @ (map byte_of_char name, True) # frames m"
      "z_env z' = (z_env z)\<lparr>e_sent := e_sent (z_env z) @ (map byte_of_char name, True) # frames m\<rparr>"
      "z_role z' = TRANSPORT_ROLE_COORDINATOR"
    by (rule coordinator_send [OF m(4,5) z assms(4)])
  have "send_task_batch ce (zmq_on z) (of_nat i) batch = Some (0, zmq_on z')"
    using m(1) z'(1) rank by (simp add: send_task_batch_def send_packed_def zmq_on_send del: transport_zmq_send.simps)
  moreover have "endpoint_up TRANSPORT_ROLE_COORDINATOR z'"
    using assms(1) z'(2,5,6) by (auto simp: endpoint_up_def malloc_serves_def)
  ultimately show thesis using m(2) z'(3,4) by (intro that [of z' m]) simp_all
qed
lemma track_all_timeout:
  "track_all (Some s) ts wid = Some s' \<Longrightarrow> s_heartbeat_timeout_secs s' = s_heartbeat_timeout_secs s"
proof (induction ts arbitrary: s)
  case (Cons x ts)
  obtain tid t t' where x: "x = (tid, t, t')" by (metis prod_cases3)
  obtain s1 where "snd (scheduler_track_task (Some s) tid wid t t') = Some s1"
      "s_heartbeat_timeout_secs s1 = s_heartbeat_timeout_secs s"
    by (cases "length (s_tasks s) \<ge> unat (s_max_tasks s)") auto
  with Cons show ?case by (auto simp: x simp del: scheduler_track_task.simps)
qed simp

lemma mark_busy_timeout:
  "scheduler_mark_worker_busy (Some s) wid n = Some s1 \<Longrightarrow> s_heartbeat_timeout_secs s1 = s_heartbeat_timeout_secs s"
  by (auto simp: Let_def split: option.splits)

text \<open>
  The pass that finds one idle worker, which takes the whole queue: the batch is on the wire, the worker
  is marked busy and every task is tracked on it.
\<close>

lemma coordinator_dispatches:
  assumes c: "coordinator_at c z s calls name i" "e_rx (z_env z) = []" "tq_tasks (co_queue c) \<noteq> []"
    and ce: "allocates (ce_calloc ce) (ce_malloc ce)" "length (ce_pad ce) = 8"
    and wi: "filter (\<lambda>w. w_state w = WORKER_STATE_IDLE) (s_workers s) = [wi]" "w_worker_id wi = of_nat i"
      "length (tq_tasks (co_queue c)) \<le> unat (w_max_batch_size wi)" "unat (w_max_batch_size wi) \<le> BATCH_ARRAY"
    and s: "scheduler_mark_worker_busy (Some s) (of_nat i) (of_nat (length (tq_tasks (co_queue c)))) = Some s1"
      "track_all (Some s1) (batch_clock (co_time c) (co_ticks c) (tq_tasks (co_queue c))) (of_nat i) = Some s2" "sched_inv s2"
    and t: "timely (co_time c) (co_ticks c) hi s2" "co_ticks c + 2 * length (tq_tasks (co_queue c)) \<le> hi"
  obtains c1 z1 m where "coordinator_pass ce c = Some ([(of_nat i, tq_tasks (co_queue c))], c1)" "coordinator_at c1 z1 s2 calls name i"
    "tq_tasks (co_queue c1) = []" "co_time c1 = co_time c" "co_ticks c1 = Suc (co_ticks c + 2 * length (tq_tasks (co_queue c)))"
    "carries m MSG_TYPE_TASK_SUBMIT (t_task_id (hd (tq_tasks (co_queue c)))) (batch_payload (ce_pad ce) (tq_tasks (co_queue c)))"
    "e_sent (z_env z1) = e_sent (z_env z) @ (map byte_of_char name, True) # frames m"
proof -
  let ?ts = "tq_tasks (co_queue c)" and ?n = "unat (w_max_batch_size wi)"
  have c0: "co_transport c = zmq_on z" "endpoint_up TRANSPORT_ROLE_COORDINATOR z" "rank_of z name = Some i"
      "co_sched c = Some s" "co_meta c = Some calls" "client_queue (co_queue c)"
      "0 < length name" "length name < IDENTITY_LEN" "NUL \<notin> set name"
    using c(1) by (simp_all add: coordinator_at_def)
  have rcv: "coordinator_receive ce c = Some c"
    using nothing_received [OF c0(2) c(2), of "ce_src ce"] by (simp add: coordinator_receive_def c0(1))
  have idle: "snd (scheduler_get_idle_workers (Some s) True 256) = [wi]"
    using get_idle_workers_take [of 256 s] wi(1) by (simp add: Let_def del: scheduler_get_idle_workers.simps)
  obtain q1 where q1: "create_task_batch (co_queue c) 0 ?n = Some (take ?n ?ts, q1)" "client_queue q1" "tq_tasks q1 = drop ?n ?ts"
    by (rule create_task_batch_ok [OF c0(6) wi(4)])
  have batch: "take ?n ?ts = ?ts" "tq_tasks q1 = []" and pos: "w_max_batch_size wi > 0"
    using q1(3) wi(3) c(3) by (auto simp: word_gt_0)
  have fit: "length ?ts \<le> BATCH_ARRAY" using wi(3,4) by simp
  obtain z1 m where z1: "send_task_batch ce (zmq_on z) (of_nat i) ?ts = Some (0, zmq_on z1)"
    "carries m MSG_TYPE_TASK_SUBMIT (t_task_id (hd ?ts)) (batch_payload (ce_pad ce) ?ts)"
    "e_sent (z_env z1) = e_sent (z_env z) @ (map byte_of_char name, True) # frames m"
    "endpoint_up TRANSPORT_ROLE_COORDINATOR z1" "rank_of z1 = rank_of z"
    by (rule batch_sent [OF c0(2) ce c0(3) fit])
  let ?c1 = "track_batch (of_nat i) ?ts (c\<lparr>co_queue := q1, co_transport := zmq_on z1, co_sched := Some s1\<rparr>)"
  have sched: "co_sched ?c1 = Some s2" using s(2) by (simp add: track_batch_all)
  have "serve_worker ce wi c = Some (?ts, ?c1)"
    using q1(1) batch pos c(3) z1(1) s(1) wi(2) c0(1,4)
    by (simp add: serve_worker_def Let_def del: scheduler_mark_worker_busy.simps)
  then have serve: "serve_workers ce [wi] c = Some ([(of_nat i, ?ts)], ?c1)"
    using is_empty_iff [OF c0(6)] c(3) wi(2) by (simp del: task_queue_is_empty.simps)
  have tm: "timely (co_time c) (co_ticks c + 2 * length ?ts) hi s2" by (rule timely_mono [OF t(1)]) simp_all
  have check: "scheduler_check_timeouts (Some s2) (now ?c1) = (0, Some s2)"
    unfolding now_def track_batch_all using timely_no_timeout [OF s(3) tm t(2)] by simp
  have pass: "coordinator_pass ce c = Some ([(of_nat i, ?ts)], tick 1 (?c1\<lparr>co_sched := Some s2\<rparr>))"
    using rcv idle serve check sched c0(4)
    by (simp add: coordinator_pass_def del: scheduler_check_timeouts.simps scheduler_get_idle_workers.simps serve_workers.simps)
  show thesis
    by (rule that [OF pass, of z1 m])
      (use c0 z1 sched s(3) q1(2) batch(2) in \<open>simp_all add: coordinator_at_def tick_def track_batch_all\<close>)
qed
section \<open>The round\<close>

lemma fold_pq_insert_ordered: "high_first (us @ ts) \<Longrightarrow> fold pq_insert ts us = us @ ts"
proof (induction ts arbitrary: us)
  case (Cons t ts)
  have "pq_insert t us = us @ [t]"
    using Cons.prems by (auto simp: pq_insert_def high_first_append filter_empty_conv)
  then show ?case using Cons.IH [of "us @ [t]"] Cons.prems by simp
qed simp

text \<open>What the scheduler makes of a batch whose tasks all succeed.\<close>

lemma batch_succeeds:
  assumes "sched_inv s" "reg s wid = Some w" "w_state w = WORKER_STATE_IDLE" "w_tasks_running w = 0"
    and "ts \<noteq> []" "length ts < 2 ^ 32" "length (s_tasks s) + length ts \<le> unat (s_max_tasks s)"
    and "\<forall>t \<in> set ts. tracked_on s (t_task_id t) = None" "timely clock lo hi s"
  obtains s1 s2 s3 where "scheduler_mark_worker_busy (Some s) wid (of_nat (length ts)) = Some s1"
    "track_all (Some s1) (batch_clock clock n ts) wid = Some s2" "sched_inv s2" "timely clock lo hi s2"
    "\<forall>t \<in> set ts. tracked_on s2 (t_task_id t) = Some wid"
    "complete_all (Some s2) (map (\<lambda>t. (t_task_id t, 0)) ts) = Some s3"
    "reg s3 = (reg s)(wid \<mapsto> w\<lparr>w_tasks_completed := w_tasks_completed w + of_nat (length ts)\<rparr>)"
proof -
  let ?ts = "batch_clock clock n ts" and ?rs = "map (\<lambda>t. (t_task_id t, 0 :: c_int)) ts"
  have ids: "map fst ?ts = map t_task_id ts" by simp
  have new: "\<forall>(tid, now) \<in> set ?ts. tracked_on s tid = None"
  proof safe
    fix tid a b assume "(tid, a, b) \<in> set ?ts"
    then have "tid \<in> set (map t_task_id ts)" by (metis fst_conv ids image_eqI list.set_map)
    then show "tracked_on s tid = None" using assms(8) by auto
  qed
  have "?ts \<noteq> []" using assms(5) by (cases ts) simp_all
  then have ne: "?ts \<noteq> []" "length ?ts < 2 ^ 32" "length (s_tasks s) + length ?ts \<le> unat (s_max_tasks s)"
    using assms(6,7) by simp_all
  have m: "mset (map fst ?rs) = mset (map fst ?ts)" unfolding ids by (simp add: o_def)
  obtain s1 s2 s3 where s: "scheduler_mark_worker_busy (Some s) wid (of_nat (length ?ts)) = Some s1"
    "track_all (Some s1) ?ts wid = Some s2" "complete_all (Some s2) ?rs = Some s3"
    "reg s2 = (reg s)(wid \<mapsto> w\<lparr>w_state := WORKER_STATE_BUSY, w_tasks_running := of_nat (length ?ts)\<rparr>)"
    "reg s3 = (reg s)(wid \<mapsto> w\<lparr>
       w_tasks_completed := w_tasks_completed w + of_nat (count_if (\<lambda>r. snd r = 0) ?rs),
       w_tasks_failed := w_tasks_failed w + of_nat (count_if (\<lambda>r. snd r \<noteq> 0) ?rs)\<rparr>)"
    "sched_inv s2" "\<forall>tid \<in> set (map fst ?ts). tracked_on s2 tid = Some wid"
    by (rule batch_life [OF assms(1-4) ne new m]) blast
  have "timely clock lo hi s2"
    by (rule timely_update [OF assms(9), of s2 wid "\<lambda>w. w\<lparr>w_state := WORKER_STATE_BUSY, w_tasks_running := of_nat (length ?ts)\<rparr>"])
      (use s(4) assms(2) track_all_timeout [OF s(2)] mark_busy_timeout [OF s(1)] in simp_all)
  moreover have "count_if (\<lambda>r. snd r = 0) ?rs = length ts" "count_if (\<lambda>r. snd r \<noteq> 0) ?rs = 0"
    by (simp_all add: filter_map o_def)
  ultimately show thesis using s by (intro that [of s1 s2 s3]) (simp_all add: ids)
qed

lemma receiving_at: "worker_at w z ts \<Longrightarrow> worker_at (w\<lparr>wk_transport := zmq_on (receiving frs z)\<rparr>) (receiving frs z) ts"
  by (simp add: worker_at_def endpoint_up_def slot_free_def receiving_def malloc_serves_def zmq_inv_def)

lemma receiving_coordinator:
  "coordinator_at c z s calls name i \<Longrightarrow>
     coordinator_at (c\<lparr>co_transport := zmq_on (receiving frs z)\<rparr>) (receiving frs z) s calls name i"
  by (simp add: coordinator_at_def endpoint_up_def receiving_def malloc_serves_def zmq_inv_def rank_of_def)

lemma round_trip:
  assumes c: "coordinator_at c zc s calls name i" "e_rx (z_env zc) = []" "tq_tasks (co_queue c) = ts" "ts \<noteq> []"
      "distinct (map t_task_id ts)"
    and ce: "allocates (ce_calloc ce) (ce_malloc ce)" "length (ce_pad ce) = 8"
    and wi: "filter (\<lambda>w. w_state w = WORKER_STATE_IDLE) (s_workers s) = [wi]" "w_worker_id wi = of_nat i"
      "w_tasks_running wi = 0" "length ts \<le> unat (w_max_batch_size wi)" "unat (w_max_batch_size wi) \<le> BATCH_ARRAY"
    and s: "length (s_tasks s) + length ts \<le> unat (s_max_tasks s)" "\<forall>t \<in> set ts. tracked_on s (t_task_id t) = None"
      "timely (co_time c) (co_ticks c) (co_ticks c + 3 * length ts) s"
    and w: "worker_at w zw []" "\<forall>ve \<in> set ves. calm (wk_last_heartbeat w) ve" "length ves = length ts"
      "heap_capacity (wk_queue w) = Some k" "length ts \<le> k" "length ces = length ts"
  obtains c1 z1 frs w' z' results c2 z2 s' where
    "coordinator_pass ce c = Some ([(of_nat i, ts)], c1)" "co_transport c1 = zmq_on z1"
    "e_sent (z_env z1) = e_sent (z_env zc) @ (map byte_of_char name, True) # frs"
    "worker_run ves (w\<lparr>wk_transport := zmq_on (receiving (map (Inl \<circ> fst) frs) zw)\<rparr>) = Some w'" "worker_at w' z' []"
    "e_sent (z_env z') = e_sent (z_env zw) @ results"
    "coordinator_run ces (c1\<lparr>co_transport := zmq_on (receiving (routed (map byte_of_char name) True results) z1)\<rparr>) = Some ([], c2)"
    "coordinator_at c2 z2 s' (calls @ map (result_call i) (zip ves ts)) name i" "tq_tasks (co_queue c2) = []"
    "reg s' = (reg s)(of_nat i \<mapsto> wi\<lparr>w_tasks_completed := w_tasks_completed wi + of_nat (length ts)\<rparr>)"
proof -
  let ?hi = "co_ticks c + 3 * length ts"
  have inv: "sched_inv s" and cq: "client_queue (co_queue c)" using c(1) by (simp_all add: coordinator_at_def)
  have "wi \<in> set (filter (\<lambda>w. w_state w = WORKER_STATE_IDLE) (s_workers s))" using wi(1) by simp
  then have idle: "w_state wi = WORKER_STATE_IDLE" "reg s (of_nat i) = Some wi"
    using inv wi(2) by (auto simp: sched_inv_def registry_iff)
  have small: "length ts < 2 ^ 32" "length ts \<le> BATCH_ARRAY" using wi(4,5) by (simp_all add: BATCH_ARRAY_def)
  obtain s1 s2 s3 where sch: "scheduler_mark_worker_busy (Some s) (of_nat i) (of_nat (length ts)) = Some s1"
    "track_all (Some s1) (batch_clock (co_time c) (co_ticks c) ts) (of_nat i) = Some s2" "sched_inv s2"
    "timely (co_time c) (co_ticks c) ?hi s2" "\<forall>t \<in> set ts. tracked_on s2 (t_task_id t) = Some (of_nat i)"
    "complete_all (Some s2) (map (\<lambda>t. (t_task_id t, 0)) ts) = Some s3"
    "reg s3 = (reg s)(of_nat i \<mapsto> wi\<lparr>w_tasks_completed := w_tasks_completed wi + of_nat (length ts)\<rparr>)"
    by (rule batch_succeeds [OF inv idle(2,1) wi(3) c(4) small(1) s])
  obtain c1 z1 m where c1: "coordinator_pass ce c = Some ([(of_nat i, ts)], c1)" "coordinator_at c1 z1 s2 calls name i"
    "tq_tasks (co_queue c1) = []" "co_time c1 = co_time c" "co_ticks c1 = Suc (co_ticks c + 2 * length ts)"
    "carries m MSG_TYPE_TASK_SUBMIT (t_task_id (hd ts)) (batch_payload (ce_pad ce) ts)"
    "e_sent (z_env z1) = e_sent (z_env zc) @ (map byte_of_char name, True) # frames m"
    using coordinator_dispatches [OF c(1,2) _ ce wi(1,2) _ wi(5), of s1 s2 ?hi] c(3,4) wi(4) sch(1-4) by auto
  let ?w = "w\<lparr>wk_transport := zmq_on (receiving (map (Inl \<circ> fst) (frames m)) zw)\<rparr>"
  have high: "fold pq_insert ts [] = ts"
    using tq_inv_high_first [of "co_queue c"] cq c(3) fold_pq_insert_ordered [of "[]" ts] by (simp add: client_queue_def)
  obtain w' z' ms where w': "worker_run ves ?w = Some w'" "worker_at w' z' []"
      "e_sent (z_env z') = e_sent (z_env zw) @ concat (map frames ms)" "list_all2 result_message (zip ves ts) ms"
    using worker_run_batch [OF receiving_at [OF w(1)] _ w(3) c(4) c1(6) ce(2) small(2), of "map (Inl \<circ> fst) (frames m)" k]
      w(2,4,5) c(5) by (auto simp: high receiving_def)
  let ?c1 = "c1\<lparr>co_transport := zmq_on (receiving (routed (map byte_of_char name) True (concat (map frames ms))) z1)\<rparr>"
  have xs: "\<forall>(ve, t) \<in> set (zip ves ts). env_ok ve \<and> tracked_on s2 (t_task_id t) = Some (of_nat i)"
    using w(2) sch(5) by (auto simp: calm_def dest: set_zip_leftD set_zip_rightD)
  have tm: "timely (co_time c) (co_ticks c1) ?hi s2" by (rule timely_mono [OF sch(4)]) (simp_all add: c1(5))
  have zip: "map (\<lambda>(ve, t). (t_task_id t, 0)) (zip ves ts) = map (\<lambda>t. (t_task_id t, 0 :: c_int)) ts"
    using w(3) by (simp add: map_zip_map2 [symmetric] split_def flip: map_map [of "\<lambda>t. (t_task_id t, 0)" snd, unfolded o_def])
  obtain c2 z2 s' where "coordinator_run ces ?c1 = Some ([], c2)"
      "coordinator_at c2 z2 s' (calls @ map (result_call i) (zip ves ts)) name i" "co_queue c2 = co_queue ?c1" "s' = s3"
    using coordinator_run_results [OF receiving_coordinator [OF c1(2)] _ w'(4) xs, of _ ces ?hi] c1(3,4,5) w(3,6) tm sch(6)
    by (auto simp: zip)
  then show thesis
    using c1 w' sch(7) by (intro that [of c1 z1 "frames m" w' z' "concat (map frames ms)" c2 z2 s3]) (simp_all add: coordinator_at_def)
qed

end
