(* ===== verification/Round_Theorems.thy ===== *)
theory Round_Theorems
  imports Cluster_Round Cluster_Theorems
begin

text \<open>
  A whole round of the cluster, from the coordinator's queue through a worker and back.
\<close>

text \<open>
  (C21) Tasks get done: a coordinator whose queue holds tasks and that has one idle worker gives it all
  of them in one pass of its main loop; the worker, run for as many passes as there are tasks on the
  frames that the coordinator sent, empties its queue; and the coordinator, run for as many passes on
  the frames that the worker sent, has in the end an empty queue, the worker idle again with as many more
  tasks completed, every other worker as before, and one metadata entry for each task in the order of
  the queue.  The conditions: both ends are up, allocations succeed, the batch fits the worker and the
  tracking table, no heartbeat is due at the worker and none overdue at the coordinator.
\<close>

theorem cluster_round_trip:
  assumes "coordinator_at c zc s calls name i" "e_rx (z_env zc) = []" "tq_tasks (co_queue c) = ts" "ts \<noteq> []"
    and "distinct (map t_task_id ts)" "allocates (ce_calloc ce) (ce_malloc ce)" "length (ce_pad ce) = 8"
    and "filter (\<lambda>w. w_state w = WORKER_STATE_IDLE) (s_workers s) = [wi]" "w_worker_id wi = of_nat i"
    and "w_tasks_running wi = 0" "length ts \<le> unat (w_max_batch_size wi)" "unat (w_max_batch_size wi) \<le> BATCH_ARRAY"
    and "length (s_tasks s) + length ts \<le> unat (s_max_tasks s)" "\<forall>t \<in> set ts. tracked_on s (t_task_id t) = None"
    and "timely (co_time c) (co_ticks c) (co_ticks c + 3 * length ts) s"
    and "worker_at w zw []" "\<forall>ve \<in> set ves. calm (wk_last_heartbeat w) ve" "length ves = length ts"
    and "heap_capacity (wk_queue w) = Some k" "length ts \<le> k" "length ces = length ts"
  shows "\<exists>c1 z1 frs w' z' results c2 s'.
    coordinator_pass ce c = Some ([(of_nat i, ts)], c1) \<and> co_transport c1 = zmq_on z1 \<and>
    e_sent (z_env z1) = e_sent (z_env zc) @ (map byte_of_char name, True) # frs \<and>
    worker_run ves (w\<lparr>wk_transport := zmq_on (receiving (map (Inl \<circ> fst) frs) zw)\<rparr>) = Some w' \<and>
    tq_tasks (wk_queue w') = [] \<and> wk_transport w' = zmq_on z' \<and> e_sent (z_env z') = e_sent (z_env zw) @ results \<and>
    coordinator_run ces (c1\<lparr>co_transport := zmq_on (receiving (routed (map byte_of_char name) True results) z1)\<rparr>) = Some ([], c2) \<and>
    tq_tasks (co_queue c2) = [] \<and> co_sched c2 = Some s' \<and> sched_inv s' \<and>
    registry (s_workers s') = (registry (s_workers s))(of_nat i \<mapsto>
      wi\<lparr>w_tasks_completed := w_tasks_completed wi + of_nat (length ts)\<rparr>) \<and>
    co_meta c2 = Some (calls @ map (result_call i) (zip ves ts))"
proof -
  obtain c1 z1 frs w' z' results c2 z2 s' where
    "coordinator_pass ce c = Some ([(of_nat i, ts)], c1)" "co_transport c1 = zmq_on z1"
    "e_sent (z_env z1) = e_sent (z_env zc) @ (map byte_of_char name, True) # frs"
    "worker_run ves (w\<lparr>wk_transport := zmq_on (receiving (map (Inl \<circ> fst) frs) zw)\<rparr>) = Some w'" "worker_at w' z' []"
    "e_sent (z_env z') = e_sent (z_env zw) @ results"
    "coordinator_run ces (c1\<lparr>co_transport := zmq_on (receiving (routed (map byte_of_char name) True results) z1)\<rparr>) = Some ([], c2)"
    "coordinator_at c2 z2 s' (calls @ map (result_call i) (zip ves ts)) name i" "tq_tasks (co_queue c2) = []"
    "registry (s_workers s') = (registry (s_workers s))(of_nat i \<mapsto> wi\<lparr>w_tasks_completed := w_tasks_completed wi + of_nat (length ts)\<rparr>)"
    by (rule round_trip [OF assms])
  then show ?thesis
    by (intro exI [of _ c1] exI [of _ z1] exI [of _ frs] exI [of _ w'] exI [of _ z'] exI [of _ results] exI [of _ c2] exI [of _ s'])
      (simp add: worker_at_def coordinator_at_def)
qed

section \<open>An instance\<close>

definition round_sched :: scheduler where
  "round_sched = the (snd (scheduler_register_worker (Some demo_sched)
     (Some (zero_worker\<lparr>w_worker_id := 0, w_max_batch_size := 10\<rparr>)) 100 100))"

lemma round_sched_facts:
  "sched_inv round_sched" "s_tasks round_sched = []" "s_max_tasks round_sched = 100000" "s_heartbeat_timeout_secs round_sched = 30"
  "s_workers round_sched = [zero_worker\<lparr>w_worker_id := 0, w_max_batch_size := 10, w_state := WORKER_STATE_IDLE,
     w_last_heartbeat := 100, w_registered := 100\<rparr>]"
  by (simp_all add: round_sched_def demo_sched_def worker_index_def MAX_TRACKED_TASKS_def sched_inv_def)

definition round_coordinator :: "zmq_transport coordinator" where
  "round_coordinator = demo_coordinator\<lparr>co_sched := Some round_sched\<rparr>"

definition round_worker :: "zmq_transport worker" where
  "round_worker = demo_worker\<lparr>wk_queue := demo_queue,
     wk_limits := resource_limits_create (Some worker_limits_config) True demo_usage (0, 0)\<rparr>"

lemma round_facts:
  "coordinator_at round_coordinator (demo_end TRANSPORT_ROLE_COORDINATOR) round_sched [] ''w1'' 0"
  "worker_at round_worker (demo_end TRANSPORT_ROLE_WORKER) []" "calm (wk_last_heartbeat round_worker) demo_worker_env"
  "tq_tasks (co_queue round_coordinator) = [demo_task 1 0]" "heap_capacity (wk_queue round_worker) = Some 2"
  "timely (co_time round_coordinator) (co_ticks round_coordinator) (co_ticks round_coordinator + 3) round_sched"
proof -
  show "coordinator_at round_coordinator (demo_end TRANSPORT_ROLE_COORDINATOR) round_sched [] ''w1'' 0"
    by (simp add: coordinator_at_def round_coordinator_def demo_coordinator_def demo_endpoints demo_end_facts IDENTITY_LEN_def
        round_sched_facts demo_client_queue)
  have "slot_free round_worker"
    by (simp add: slot_free_def round_worker_def resource_limits_create_def worker_limits_config_def slots_running_def
        slots_capacity_def)
  moreover have "client_queue demo_queue" by (simp add: client_queue_def demo_queue_facts heap_capacity_def)
  ultimately show "worker_at round_worker (demo_end TRANSPORT_ROLE_WORKER) []"
    by (simp add: worker_at_def round_worker_def demo_worker_def demo_endpoints demo_queue_facts)
  show "calm (wk_last_heartbeat round_worker) demo_worker_env"
    using demo_envs(1) demo_allocates by (simp add: calm_def round_worker_def demo_worker_def) (simp add: demo_worker_env_def)
  show "tq_tasks (co_queue round_coordinator) = [demo_task 1 0]"
    by (simp add: round_coordinator_def demo_coordinator_def demo_queue_1_facts)
  show "heap_capacity (wk_queue round_worker) = Some 2"
    by (simp add: round_worker_def heap_capacity_def demo_queue_facts)
  show "timely (co_time round_coordinator) (co_ticks round_coordinator) (co_ticks round_coordinator + 3) round_sched"
    by (auto simp: timely_def round_coordinator_def demo_coordinator_def round_sched_facts ran_def split: if_splits)
qed

theorem cluster_round_trip_witness:
  "\<exists>c1 z1 frs w' z' results c2 s'. coordinator_pass demo_coord_env round_coordinator = Some ([(0, [demo_task 1 0])], c1) \<and>
     co_transport c1 = zmq_on z1 \<and> e_sent (z_env z1) = (map byte_of_char ''w1'', True) # frs \<and>
     worker_run [demo_worker_env] (round_worker\<lparr>wk_transport := zmq_on (receiving (map (Inl \<circ> fst) frs)
       (demo_end TRANSPORT_ROLE_WORKER))\<rparr>) = Some w' \<and> wk_transport w' = zmq_on z' \<and> e_sent (z_env z') = results \<and>
     coordinator_run [demo_coord_env] (c1\<lparr>co_transport := zmq_on (receiving (routed (map byte_of_char ''w1'') True results) z1)\<rparr>)
       = Some ([], c2) \<and> co_sched c2 = Some s' \<and> map_option w_tasks_completed (registry (s_workers s') 0) = Some 1 \<and>
     co_meta c2 = Some [result_call 0 (demo_worker_env, demo_task 1 0)]"
proof -
  let ?wi = "zero_worker\<lparr>w_worker_id := 0, w_max_batch_size := 10, w_state := WORKER_STATE_IDLE,
     w_last_heartbeat := 100, w_registered := 100\<rparr>"
  let ?ts = "[demo_task 1 0]"
  have ends: "e_rx (z_env (demo_end TRANSPORT_ROLE_COORDINATOR)) = []" "e_sent (z_env (demo_end role)) = []" for role
    by (simp_all add: demo_end_facts demo_env_facts)
  have ts: "?ts \<noteq> []" "distinct (map t_task_id ?ts)" by simp_all
  have ce: "allocates (ce_calloc demo_coord_env) (ce_malloc demo_coord_env)" "length (ce_pad demo_coord_env) = 8"
    using demo_allocates by (simp_all add: demo_coord_env_def)
  have wi: "filter (\<lambda>w. w_state w = WORKER_STATE_IDLE) (s_workers round_sched) = [?wi]" "w_worker_id ?wi = of_nat 0"
    "w_tasks_running ?wi = 0" "length ?ts \<le> unat (w_max_batch_size ?wi)" "unat (w_max_batch_size ?wi) \<le> BATCH_ARRAY"
    by (simp_all add: round_sched_facts zero_worker_def BATCH_ARRAY_def)
  have room: "length (s_tasks round_sched) + length ?ts \<le> unat (s_max_tasks round_sched)"
    "\<forall>t \<in> set ?ts. tracked_on round_sched (t_task_id t) = None"
    by (simp_all add: tracked_on_def round_sched_facts)
  have timely: "timely (co_time round_coordinator) (co_ticks round_coordinator) (co_ticks round_coordinator + 3 * length ?ts) round_sched"
    using round_facts(6) by simp
  have calm: "\<forall>ve \<in> set [demo_worker_env]. calm (wk_last_heartbeat round_worker) ve" using round_facts(3) by simp
  have lens: "length [demo_worker_env] = length ?ts" "length ?ts \<le> 2" "length [demo_coord_env] = length ?ts" by simp_all
  obtain c1 z1 frs w' z' results c2 s' where
    "coordinator_pass demo_coord_env round_coordinator = Some ([(of_nat 0, ?ts)], c1)" "co_transport c1 = zmq_on z1"
    "e_sent (z_env z1) = e_sent (z_env (demo_end TRANSPORT_ROLE_COORDINATOR)) @ (map byte_of_char ''w1'', True) # frs"
    "worker_run [demo_worker_env] (round_worker\<lparr>wk_transport := zmq_on (receiving (map (Inl \<circ> fst) frs)
      (demo_end TRANSPORT_ROLE_WORKER))\<rparr>) = Some w'" "tq_tasks (wk_queue w') = []" "wk_transport w' = zmq_on z'"
    "e_sent (z_env z') = e_sent (z_env (demo_end TRANSPORT_ROLE_WORKER)) @ results"
    "coordinator_run [demo_coord_env] (c1\<lparr>co_transport := zmq_on (receiving (routed (map byte_of_char ''w1'') True results) z1)\<rparr>)
      = Some ([], c2)" "tq_tasks (co_queue c2) = []" "co_sched c2 = Some s'" "sched_inv s'"
    "registry (s_workers s') = (registry (s_workers round_sched))(of_nat 0 \<mapsto>
      ?wi\<lparr>w_tasks_completed := w_tasks_completed ?wi + of_nat (length ?ts)\<rparr>)"
    "co_meta c2 = Some ([] @ map (result_call 0) (zip [demo_worker_env] ?ts))"
    using cluster_round_trip [OF round_facts(1) ends(1) round_facts(4) ts ce wi room timely round_facts(2) calm lens(1)
        round_facts(5) lens(2,3)]
    by (elim exE conjE) (rule that)
  then show ?thesis
    by (intro exI [of _ c1] exI [of _ z1] exI [of _ frs] exI [of _ w'] exI [of _ z'] exI [of _ results] exI [of _ c2] exI [of _ s'])
      (simp add: zero_worker_def ends(2) del: worker_run.simps coordinator_run.simps)
qed

end
