(* ===== verification/Hdf5_Index.thy ===== *)
theory Hdf5_Index
  imports C_String Decimal
begin

text \<open>
  The index of result files (\<open>src/storage/hdf5_index.c\<close>).  SQLite and the HDF5 library are
  parameters: \<open>sqlite\<close> holds what the statements do to a database of any type, \<open>hdf5_lib\<close> what the
  library does to a state of any type.  A character array that \<open>strncpy\<close> fills in zeroed memory is
  the string in it.
\<close>

section \<open>Data\<close>

definition HDF5_OK :: c_int where "HDF5_OK = 0"
definition HDF5_ERR_INVALID_ARG :: c_int where "HDF5_ERR_INVALID_ARG = 1"
definition HDF5_ERR_NOT_FOUND :: c_int where "HDF5_ERR_NOT_FOUND = 2"
definition HDF5_ERR_IO :: c_int where "HDF5_ERR_IO = 3"
definition HDF5_ERR_HDF5 :: c_int where "HDF5_ERR_HDF5 = 4"
definition HDF5_ERR_DB :: c_int where "HDF5_ERR_DB = 5"

lemmas hdf5_codes = HDF5_OK_def HDF5_ERR_INVALID_ARG_def HDF5_ERR_NOT_FOUND_def HDF5_ERR_IO_def
  HDF5_ERR_HDF5_def HDF5_ERR_DB_def

definition HDF5_MAX_PATH_LEN :: nat where "HDF5_MAX_PATH_LEN = 4096"
definition HDF5_MAX_DATASET_NAME :: nat where "HDF5_MAX_DATASET_NAME = 256"
definition MAX_DATASETS :: nat where "MAX_DATASETS = 32"
definition MAX_RANK :: nat where "MAX_RANK = 8"

datatype dataset_type =
  HDF5_DATASET_UNKNOWN | HDF5_DATASET_INPUT | HDF5_DATASET_OUTPUT | HDF5_DATASET_STATE |
  HDF5_DATASET_CHECKPOINT | HDF5_DATASET_METADATA

fun dataset_type_value :: "dataset_type \<Rightarrow> int" where
  "dataset_type_value HDF5_DATASET_UNKNOWN = 0"
| "dataset_type_value HDF5_DATASET_INPUT = 1"
| "dataset_type_value HDF5_DATASET_OUTPUT = 2"
| "dataset_type_value HDF5_DATASET_STATE = 3"
| "dataset_type_value HDF5_DATASET_CHECKPOINT = 4"
| "dataset_type_value HDF5_DATASET_METADATA = 5"

record dataset_info =
  di_name :: string
  di_type :: dataset_type
  di_rank :: size_t
  di_dims :: "size_t list"
  di_element_size :: size_t
  di_dtype_name :: string

definition zero_dataset :: dataset_info where
  "zero_dataset = \<lparr>di_name = [], di_type = HDF5_DATASET_UNKNOWN, di_rank = 0, di_dims = replicate MAX_RANK 0,
     di_element_size = 0, di_dtype_name = []\<rparr>"

text \<open>\<open>hf_datasets\<close> are the filled entries of the array, \<open>dataset_count\<close> many.\<close>

record file_entry =
  hf_filepath :: string
  hf_task_id :: u64
  hf_model_id :: u32
  hf_created :: time_t
  hf_file_size :: size_t
  hf_datasets :: "dataset_info list"

record hdf5_query =
  hq_task_id :: u64
  hq_model_id :: u32
  hq_created_after :: time_t
  hq_created_before :: time_t
  hq_dataset_name :: "string option"

record index_stats =
  is_total_files :: size_t
  is_total_size_bytes :: size_t
  is_unique_models :: size_t
  is_oldest_file :: time_t
  is_newest_file :: time_t

section \<open>The libraries\<close>

datatype sql_value = SInt int | SText string
datatype sql_step = Prepare_error | Step_error | Step_done

text \<open>
  A row of a selection: a text, or \<open>None\<close> for NULL, and integers of 64 bits (0 for NULL).  A selection
  that cannot be prepared is \<open>None\<close>; otherwise it is the rows that \<open>sqlite3_step\<close> delivers before it
  reports the end or an error.
\<close>

type_synonym file_columns = "string option \<times> int \<times> int \<times> int \<times> int"

record 'db sqlite =
  sq_open :: "string \<Rightarrow> 'db option"
  sq_exec :: "string \<Rightarrow> 'db \<Rightarrow> bool \<times> 'db"
  sq_write :: "string \<Rightarrow> sql_value list \<Rightarrow> 'db \<Rightarrow> sql_step \<times> 'db"
  sq_select_files :: "string \<Rightarrow> 'db \<Rightarrow> file_columns list option"
  sq_select_stats :: "string \<Rightarrow> 'db \<Rightarrow> (int \<times> int \<times> int \<times> int \<times> int) option option"
  sq_last_insert_rowid :: "'db \<Rightarrow> int"

datatype h5_class = H5T_INTEGER | H5T_FLOAT | H5T_STRING | H5T_OTHER

text \<open>A dataset as the library describes it; a failing call gives \<open>None\<close>.\<close>

record h5_dataset =
  h5_rank :: "int option"
  h5_dims :: "size_t list"
  h5_type :: "(size_t \<times> h5_class) option"

datatype h5_dtype = H5T_NATIVE_DOUBLE | H5T_NATIVE_FLOAT | H5T_NATIVE_INT64 | H5T_NATIVE_INT32 | H5T_NATIVE_CHAR

text \<open>
  The operations of the library on its state: opening a file for reading (its size and time, when
  \<open>stat\<close> succeeds, and its datasets by name), creating a file, opening one for writing, looking up
  and creating a group, making a dataspace, creating, writing and reading a dataset.
\<close>

record 'h hdf5_lib =
  hl_open :: "string \<Rightarrow> 'h \<Rightarrow> ((u64 \<times> time_t) option \<times> (string \<Rightarrow> h5_dataset option)) option"
  hl_create :: "string \<Rightarrow> 'h \<Rightarrow> bool \<times> 'h"
  hl_open_rw :: "string \<Rightarrow> 'h \<Rightarrow> bool"
  hl_exists :: "string \<Rightarrow> string \<Rightarrow> 'h \<Rightarrow> int"
  hl_group :: "string \<Rightarrow> string \<Rightarrow> 'h \<Rightarrow> 'h"
  hl_space :: "int \<Rightarrow> size_t list \<Rightarrow> bool"
  hl_dcreate :: "string \<Rightarrow> string \<Rightarrow> h5_dtype \<Rightarrow> size_t list \<Rightarrow> 'h \<Rightarrow> bool \<times> 'h"
  hl_dwrite :: "string \<Rightarrow> string \<Rightarrow> h5_dtype \<Rightarrow> u8 list \<Rightarrow> 'h \<Rightarrow> bool \<times> 'h"
  hl_dread :: "string \<Rightarrow> string \<Rightarrow> 'h \<Rightarrow> (int \<times> u8 list option) option"

section \<open>Opening\<close>

record 'db hdf5_index =
  hi_index_path :: string
  hi_db :: 'db

text \<open>The statements that make the tables; the text is a parameter of \<open>sq_exec\<close> only.\<close>

definition schema_sql :: string where
  "schema_sql =
     ''CREATE TABLE IF NOT EXISTS files (  id INTEGER PRIMARY KEY AUTOINCREMENT,  filepath TEXT UNIQUE NOT NULL,'' @
     ''  task_id INTEGER NOT NULL,  model_id INTEGER NOT NULL,  created INTEGER NOT NULL,  file_size INTEGER NOT NULL);'' @
     ''CREATE INDEX IF NOT EXISTS idx_task_id ON files(task_id);CREATE INDEX IF NOT EXISTS idx_model_id ON files(model_id);'' @
     ''CREATE INDEX IF NOT EXISTS idx_created ON files(created);'' @
     ''CREATE TABLE IF NOT EXISTS datasets (  id INTEGER PRIMARY KEY AUTOINCREMENT,  file_id INTEGER NOT NULL,'' @
     ''  name TEXT NOT NULL,  type INTEGER NOT NULL,  rank INTEGER NOT NULL,  element_size INTEGER NOT NULL,'' @
     ''  dtype_name TEXT,  FOREIGN KEY(file_id) REFERENCES files(id) ON DELETE CASCADE);'' @
     ''CREATE INDEX IF NOT EXISTS idx_dataset_name ON datasets(name);''"

definition create_schema :: "'db sqlite \<Rightarrow> 'db \<Rightarrow> c_int \<times> 'db" where
  "create_schema sq db = (let (ok, db') = sq_exec sq schema_sql db in (if ok then HDF5_OK else HDF5_ERR_DB, db'))"

text \<open>\<open>exists\<close> is the result of \<open>stat\<close>.\<close>

definition hdf5_index_open ::
    "'db sqlite \<Rightarrow> bool \<Rightarrow> bool \<Rightarrow> string option \<Rightarrow> c_int \<Rightarrow> 'db hdf5_index option" where
  "hdf5_index_open sq exists calloc_ok index_path create =
     (case index_path of
        None \<Rightarrow> None
      | Some path \<Rightarrow>
          if \<not> exists \<and> create = 0 then None
          else if \<not> calloc_ok then None
          else (case sq_open sq path of
              None \<Rightarrow> None
            | Some db \<Rightarrow>
                let db1 = snd (sq_exec sq ''PRAGMA foreign_keys = ON;'' db);
                    (rc, db2) = create_schema sq db1
                in if rc \<noteq> HDF5_OK then None
                   else Some \<lparr>hi_index_path = take (HDF5_MAX_PATH_LEN - 1) path, hi_db = db2\<rparr>))"

text \<open>Closing hands the database, when there is one, to \<open>sqlite3_close\<close> and frees the index.\<close>

definition hdf5_index_close :: "('db \<Rightarrow> 'd) \<Rightarrow> 'db hdf5_index option \<Rightarrow> 'd option" where
  "hdf5_index_close sqlite3_close idx = map_option (\<lambda>i. sqlite3_close (hi_db i)) idx"

section \<open>Scanning a file\<close>

definition common_datasets :: "(string \<times> dataset_type) list" where
  "common_datasets = [(''input'', HDF5_DATASET_INPUT), (''output'', HDF5_DATASET_OUTPUT),
     (''state'', HDF5_DATASET_STATE), (''checkpoint'', HDF5_DATASET_CHECKPOINT), (''metadata'', HDF5_DATASET_METADATA)]"

definition class_name :: "h5_class \<Rightarrow> string" where
  "class_name c =
     (case c of H5T_INTEGER \<Rightarrow> ''integer'' | H5T_FLOAT \<Rightarrow> ''float'' | H5T_STRING \<Rightarrow> ''string'' | H5T_OTHER \<Rightarrow> ''unknown'')"

text \<open>
  The description of one dataset.  The number of dimensions is stored as an unsigned number, and the
  dimensions only when there are at most 8.
\<close>

definition describe_dataset :: "string \<Rightarrow> dataset_type \<Rightarrow> h5_dataset \<Rightarrow> dataset_info" where
  "describe_dataset name dtype d =
     (let info = zero_dataset\<lparr>di_name := take (HDF5_MAX_DATASET_NAME - 1) name, di_type := dtype\<rparr>;
          info1 = (case h5_rank d of
              None \<Rightarrow> info
            | Some r \<Rightarrow>
                let info' = info\<lparr>di_rank := of_int r\<rparr> in
                if unat (di_rank info') \<le> MAX_RANK
                then info'\<lparr>di_dims := take (unat (di_rank info')) (h5_dims d) @
                  drop (unat (di_rank info')) (di_dims info')\<rparr>
                else info')
      in case h5_type d of
           None \<Rightarrow> info1
         | Some (esize, c) \<Rightarrow> info1\<lparr>di_element_size := esize, di_dtype_name := class_name c\<rparr>)"

fun scan_datasets :: "(string \<Rightarrow> h5_dataset option) \<Rightarrow> (string \<times> dataset_type) list \<Rightarrow> dataset_info list \<Rightarrow> dataset_info list" where
  "scan_datasets dopen [] found = found"
| "scan_datasets dopen ((name, dtype) # names) found =
     (if length found \<ge> MAX_DATASETS then found
      else case dopen name of
          None \<Rightarrow> scan_datasets dopen names found
        | Some d \<Rightarrow> scan_datasets dopen names (found @ [describe_dataset name dtype d]))"

definition scan_hdf5_file :: "'h hdf5_lib \<Rightarrow> 'h \<Rightarrow> string \<Rightarrow> file_entry \<Rightarrow> c_int \<times> file_entry" where
  "scan_hdf5_file lib h filepath entry =
     (case hl_open lib filepath h of
        None \<Rightarrow> (HDF5_ERR_HDF5, entry)
      | Some (stat, dopen) \<Rightarrow>
          let entry1 = (case stat of
                None \<Rightarrow> entry
              | Some (fsize, mtime) \<Rightarrow> entry\<lparr>hf_file_size := fsize, hf_created := mtime\<rparr>)
          in (HDF5_OK, entry1\<lparr>hf_datasets := scan_datasets dopen common_datasets []\<rparr>))"

section \<open>Adding and removing\<close>

definition insert_file_sql :: string where
  "insert_file_sql = ''INSERT OR REPLACE INTO files (filepath, task_id, model_id, created, file_size) VALUES (?, ?, ?, ?, ?)''"

definition insert_dataset_sql :: string where
  "insert_dataset_sql =
     ''INSERT INTO datasets (file_id, name, type, rank, element_size, dtype_name) VALUES (?, ?, ?, ?, ?, ?)''"

definition delete_file_sql :: string where
  "delete_file_sql = ''DELETE FROM files WHERE filepath = ?''"

text \<open>\<open>sqlite3_bind_int64\<close> takes 64 bits and \<open>sqlite3_bind_int\<close> 32 bits as signed numbers.\<close>

definition file_values :: "file_entry \<Rightarrow> sql_value list" where
  "file_values e = [SText (hf_filepath e), SInt (sint (hf_task_id e)), SInt (sint (hf_model_id e)),
     SInt (hf_created e), SInt (sint (hf_file_size e))]"

definition dataset_values :: "int \<Rightarrow> dataset_info \<Rightarrow> sql_value list" where
  "dataset_values file_id d = [SInt file_id, SText (di_name d), SInt (dataset_type_value (di_type d)),
     SInt (sint (ucast (di_rank d) :: u32)), SInt (sint (di_element_size d)), SText (di_dtype_name d)]"

text \<open>The results of the insertions of the datasets are not looked at.\<close>

fun insert_datasets :: "'db sqlite \<Rightarrow> int \<Rightarrow> dataset_info list \<Rightarrow> 'db \<Rightarrow> 'db" where
  "insert_datasets sq file_id [] db = db"
| "insert_datasets sq file_id (d # ds) db =
     insert_datasets sq file_id ds (snd (sq_write sq insert_dataset_sql (dataset_values file_id d) db))"

definition unscanned_entry :: "string \<Rightarrow> u64 \<Rightarrow> u32 \<Rightarrow> file_entry" where
  "unscanned_entry path task_id model_id =
     \<lparr>hf_filepath = take (HDF5_MAX_PATH_LEN - 1) path, hf_task_id = task_id, hf_model_id = model_id,
      hf_created = 0, hf_file_size = 0, hf_datasets = []\<rparr>"

definition hdf5_index_add_file ::
    "'db sqlite \<Rightarrow> 'h hdf5_lib \<Rightarrow> 'h \<Rightarrow> 'db hdf5_index option \<Rightarrow> string option \<Rightarrow> u64 \<Rightarrow> u32
      \<Rightarrow> c_int \<times> 'db hdf5_index option" where
  "hdf5_index_add_file sq lib h idx filepath task_id model_id =
     (case (idx, filepath) of
        (Some i, Some path) \<Rightarrow>
          let (rc, e) = scan_hdf5_file lib h path (unscanned_entry path task_id model_id)
          in if rc \<noteq> HDF5_OK then (rc, Some i)
             else let (step, db) = sq_write sq insert_file_sql (file_values e) (hi_db i) in
               if step \<noteq> Step_done then (HDF5_ERR_DB, Some (i\<lparr>hi_db := db\<rparr>))
               else (HDF5_OK, Some (i\<lparr>hi_db := insert_datasets sq (sq_last_insert_rowid sq db) (hf_datasets e) db\<rparr>))
      | _ \<Rightarrow> (HDF5_ERR_INVALID_ARG, idx))"

definition hdf5_index_remove_file ::
    "'db sqlite \<Rightarrow> 'db hdf5_index option \<Rightarrow> string option \<Rightarrow> c_int \<times> 'db hdf5_index option" where
  "hdf5_index_remove_file sq idx filepath =
     (case (idx, filepath) of
        (Some i, Some path) \<Rightarrow>
          let (step, db) = sq_write sq delete_file_sql [SText path] (hi_db i)
          in (if step \<noteq> Step_done then HDF5_ERR_DB else HDF5_OK, Some (i\<lparr>hi_db := db\<rparr>))
      | _ \<Rightarrow> (HDF5_ERR_INVALID_ARG, idx))"
section \<open>Queries\<close>

definition SQL_BUFFER :: nat where "SQL_BUFFER = 1024"
definition COND_BUFFER :: nat where "COND_BUFFER = 256"

definition select_base :: string where
  "select_base = ''SELECT filepath, task_id, model_id, created, file_size FROM files WHERE 1=1''"

text \<open>
  One condition: \<open>snprintf\<close> into the small buffer and \<open>strcat\<close> of the string in it to the statement,
  which is undefined when the statement and its NUL do not fit.
\<close>

definition append_condition :: "bool \<Rightarrow> string \<Rightarrow> string \<Rightarrow> string option" where
  "append_condition wanted cond sql =
     (if \<not> wanted then Some sql
      else let new = sql @ take (COND_BUFFER - 1) cond in if length new < SQL_BUFFER then Some new else None)"

definition query_sql :: "hdf5_query option \<Rightarrow> size_t \<Rightarrow> string option" where
  "query_sql query max_results = do {
     sql \<leftarrow> (case query of
         None \<Rightarrow> Some select_base
       | Some q \<Rightarrow> do {
           s1 \<leftarrow> append_condition (hq_task_id q > 0) ('' AND task_id = '' @ dec_nat (unat (hq_task_id q))) select_base;
           s2 \<leftarrow> append_condition (hq_model_id q > 0) ('' AND model_id = '' @ dec_nat (unat (hq_model_id q))) s1;
           s3 \<leftarrow> append_condition (hq_created_after q > 0) ('' AND created >= '' @ dec_int (hq_created_after q)) s2;
           append_condition (hq_created_before q > 0) ('' AND created <= '' @ dec_int (hq_created_before q)) s3
         });
     Some (sql @ take (SQL_BUFFER - length sql - 1) ('' LIMIT '' @ dec_nat (unat max_results)))
   }"

text \<open>
  The entry of a row.  The text of a NULL path is a NULL pointer, which \<open>strncpy\<close> reads;
  \<open>sqlite3_column_int\<close> takes the low 32 bits.
\<close>

definition row_entry :: "file_columns \<Rightarrow> file_entry option" where
  "row_entry row =
     (case row of (path, task, model, created, fsize) \<Rightarrow>
        map_option (\<lambda>p. \<lparr>hf_filepath = take (HDF5_MAX_PATH_LEN - 1) p, hf_task_id = of_int task, hf_model_id = of_int model,
          hf_created = created, hf_file_size = of_int fsize, hf_datasets = []\<rparr>) path)"

fun fetch_rows :: "file_columns list \<Rightarrow> size_t \<Rightarrow> file_entry list \<Rightarrow> file_entry list option" where
  "fetch_rows [] max_results found = Some found"
| "fetch_rows (row # rows) max_results found =
     (if length found \<ge> unat max_results then Some found
      else do { e \<leftarrow> row_entry row; fetch_rows rows max_results (found @ [e]) })"

text \<open>
  The entries written to the caller's array; their number is \<open>*count\<close>, which stays as it is when an
  argument is NULL.
\<close>

definition hdf5_index_query ::
    "'db sqlite \<Rightarrow> 'db hdf5_index option \<Rightarrow> hdf5_query option \<Rightarrow> bool \<Rightarrow> size_t \<Rightarrow> bool
      \<Rightarrow> (c_int \<times> file_entry list) option" where
  "hdf5_index_query sq idx query results_ok max_results count_ok =
     (case idx of
        None \<Rightarrow> Some (HDF5_ERR_INVALID_ARG, [])
      | Some i \<Rightarrow>
          if \<not> results_ok \<or> \<not> count_ok then Some (HDF5_ERR_INVALID_ARG, [])
          else do {
            sql \<leftarrow> query_sql query max_results;
            (case sq_select_files sq sql (hi_db i) of
               None \<Rightarrow> Some (HDF5_ERR_DB, [])
             | Some rows \<Rightarrow> map_option (\<lambda>found. (HDF5_OK, found)) (fetch_rows rows max_results []))
          })"

definition zero_query :: hdf5_query where
  "zero_query = \<lparr>hq_task_id = 0, hq_model_id = 0, hq_created_after = 0, hq_created_before = 0, hq_dataset_name = None\<rparr>"

definition hdf5_index_get_by_task ::
    "'db sqlite \<Rightarrow> 'db hdf5_index option \<Rightarrow> u64 \<Rightarrow> bool \<Rightarrow> (c_int \<times> file_entry list) option" where
  "hdf5_index_get_by_task sq idx task_id entry_ok = do {
     (rc, found) \<leftarrow> hdf5_index_query sq idx (Some (zero_query\<lparr>hq_task_id := task_id\<rparr>)) entry_ok 1 True;
     Some (if rc \<noteq> HDF5_OK then (rc, found) else if found = [] then (HDF5_ERR_NOT_FOUND, found) else (HDF5_OK, found))
   }"

section \<open>Files and datasets\<close>

definition task_file_name :: "string \<Rightarrow> u64 \<Rightarrow> u32 \<Rightarrow> string" where
  "task_file_name output_dir task_id model_id =
     output_dir @ ''/task_'' @ dec_nat (unat task_id) @ ''_model_'' @ dec_nat (unat model_id) @ ''.h5''"

text \<open>
  \<open>stat_ok\<close> and \<open>mkdir_ok\<close> are the results of \<open>stat\<close> and \<open>mkdir\<close>.  The path is cut to the caller's
  buffer; in a buffer of size 0 nothing is written and the library would read what is there.  What
  the groups and the index answer is not looked at.
\<close>

definition hdf5_create_task_file ::
    "'db sqlite \<Rightarrow> 'h hdf5_lib \<Rightarrow> bool \<Rightarrow> bool \<Rightarrow> 'db hdf5_index option \<Rightarrow> string option \<Rightarrow> u64 \<Rightarrow> u32 \<Rightarrow> bool \<Rightarrow> nat \<Rightarrow> 'h
      \<Rightarrow> (c_int \<times> string \<times> 'db hdf5_index option \<times> 'h) option" where
  "hdf5_create_task_file sq lib stat_ok mkdir_ok idx output_dir task_id model_id out_ok filepath_size h =
     (case output_dir of
        None \<Rightarrow> Some (HDF5_ERR_INVALID_ARG, [], idx, h)
      | Some dir \<Rightarrow>
          if \<not> out_ok then Some (HDF5_ERR_INVALID_ARG, [], idx, h)
          else if \<not> stat_ok \<and> \<not> mkdir_ok then Some (HDF5_ERR_IO, [], idx, h)
          else if filepath_size = 0 then None
          else let path = take (filepath_size - 1) (task_file_name dir task_id model_id);
                   (created, h1) = hl_create lib path h
               in if \<not> created then Some (HDF5_ERR_HDF5, path, idx, h1)
                  else let h2 = hl_group lib path ''/output'' (hl_group lib path ''/input'' h1);
                           idx' = (case idx of
                               None \<Rightarrow> None
                             | Some i \<Rightarrow> snd (hdf5_index_add_file sq lib h2 (Some i) (Some path) task_id model_id))
                       in Some (HDF5_OK, path, idx', h2))"

text \<open>The part of a name before its last separator, unless that is the first character.\<close>

definition parent_group :: "string \<Rightarrow> string option" where
  "parent_group name =
     (let before = rev (tl (dropWhile (\<lambda>c. c \<noteq> CHR ''/'') (rev name)))
      in if CHR ''/'' \<in> set name \<and> before \<noteq> [] then Some before else None)"

definition create_parent :: "'h hdf5_lib \<Rightarrow> string \<Rightarrow> string \<Rightarrow> 'h \<Rightarrow> 'h" where
  "create_parent lib filepath name h =
     (case parent_group name of
        None \<Rightarrow> h
      | Some g \<Rightarrow> if hl_exists lib filepath g h = 0 then hl_group lib filepath g h else h)"

definition dtype_of_size :: "size_t \<Rightarrow> h5_dtype" where
  "dtype_of_size element_size =
     (if element_size = 8 then H5T_NATIVE_DOUBLE
      else if element_size = 4 then H5T_NATIVE_FLOAT
      else if element_size = 8 then H5T_NATIVE_INT64
      else if element_size = 4 then H5T_NATIVE_INT32
      else H5T_NATIVE_CHAR)"

fun dtype_bytes :: "h5_dtype \<Rightarrow> nat" where
  "dtype_bytes H5T_NATIVE_DOUBLE = 8"
| "dtype_bytes H5T_NATIVE_FLOAT = 4"
| "dtype_bytes H5T_NATIVE_INT64 = 8"
| "dtype_bytes H5T_NATIVE_INT32 = 4"
| "dtype_bytes H5T_NATIVE_CHAR = 1"

text \<open>
  \<open>data\<close> and \<open>dims\<close> are the memory behind the pointers.  The rank is passed on as an \<open>int\<close>; a rank
  above 8 makes the library read outside \<open>h5_dims\<close>, and \<open>H5Dwrite\<close> reads as many bytes as the
  dataset has.
\<close>

definition hdf5_write_dataset ::
    "'h hdf5_lib \<Rightarrow> bool \<Rightarrow> string option \<Rightarrow> string option \<Rightarrow> u8 list option \<Rightarrow> size_t \<Rightarrow> size_t list option \<Rightarrow> size_t
      \<Rightarrow> 'h \<Rightarrow> (c_int \<times> 'h) option" where
  "hdf5_write_dataset lib strdup_ok filepath dataset_name data rank dims element_size h =
     (case (filepath, dataset_name, data, dims) of
        (Some path, Some name, Some bytes, Some ds) \<Rightarrow>
          if rank = 0 then Some (HDF5_ERR_INVALID_ARG, h)
          else if \<not> hl_open_rw lib path h then Some (HDF5_ERR_HDF5, h)
          else if \<not> strdup_ok then Some (HDF5_ERR_INVALID_ARG, h)
          else let h1 = create_parent lib path name h;
                   r = sint (ucast rank :: u32);
                   dtype = dtype_of_size element_size
               in if length ds < min (unat rank) 8 \<or> 8 < r then None
                  else let h5_dims = take (nat r) ds in
                    if \<not> hl_space lib r h5_dims then Some (HDF5_ERR_HDF5, h1)
                    else let (created, h2) = hl_dcreate lib path name dtype h5_dims h1;
                             need = prod_list (map unat h5_dims) * dtype_bytes dtype
                         in if \<not> created then Some (HDF5_ERR_HDF5, h2)
                            else if length bytes < need then None
                            else let (written, h3) = hl_dwrite lib path name dtype (take need bytes) h2
                                 in Some (if written then HDF5_OK else HDF5_ERR_HDF5, h3)
      | _ \<Rightarrow> Some (HDF5_ERR_INVALID_ARG, h))"

text \<open>
  The code, the number of elements when it is set, and the bytes that \<open>H5Dread\<close> puts at the beginning
  of the caller's buffer of \<open>capacity\<close> bytes.  The library reads the whole dataset whatever
  \<open>max_elements\<close> is.
\<close>

definition hdf5_read_dataset ::
    "'h hdf5_lib \<Rightarrow> string option \<Rightarrow> string option \<Rightarrow> nat option \<Rightarrow> size_t \<Rightarrow> bool \<Rightarrow> 'h
      \<Rightarrow> (c_int \<times> size_t option \<times> u8 list) option" where
  "hdf5_read_dataset lib filepath dataset_name capacity max_elements count_ok h =
     (case (filepath, dataset_name, capacity) of
        (Some path, Some name, Some cap) \<Rightarrow>
          if \<not> count_ok then Some (HDF5_ERR_INVALID_ARG, None, [])
          else if hl_open lib path h = None then Some (HDF5_ERR_HDF5, None, [])
          else (case hl_dread lib path name h of
              None \<Rightarrow> Some (HDF5_ERR_NOT_FOUND, None, [])
            | Some (npoints, content) \<Rightarrow>
                let n = (if npoints > sint max_elements then max_elements else of_int npoints) in
                (case content of
                   None \<Rightarrow> Some (HDF5_ERR_HDF5, Some n, [])
                 | Some bytes \<Rightarrow> if length bytes > cap then None else Some (HDF5_OK, Some n, bytes)))
      | _ \<Rightarrow> Some (HDF5_ERR_INVALID_ARG, None, []))"

text \<open>The input and the output as arrays of \<open>double\<close>; the answers of the writes are not looked at.\<close>

definition store_array ::
    "'h hdf5_lib \<Rightarrow> bool \<Rightarrow> string \<Rightarrow> string \<Rightarrow> u8 list option \<Rightarrow> size_t \<Rightarrow> 'h \<Rightarrow> 'h option" where
  "store_array lib strdup_ok path name data nbytes h =
     (if data \<noteq> None \<and> nbytes > 0
      then map_option snd (hdf5_write_dataset lib strdup_ok (Some path) (Some name) data 1 (Some [nbytes div 8]) 8 h)
      else Some h)"

definition hdf5_store_task_result ::
    "'db sqlite \<Rightarrow> 'h hdf5_lib \<Rightarrow> bool \<Rightarrow> bool \<Rightarrow> bool \<times> bool \<Rightarrow> 'db hdf5_index option \<Rightarrow> string option \<Rightarrow> u64 \<Rightarrow> u32
      \<Rightarrow> u8 list option \<Rightarrow> size_t \<Rightarrow> u8 list option \<Rightarrow> size_t \<Rightarrow> 'h \<Rightarrow> (c_int \<times> 'db hdf5_index option \<times> 'h) option" where
  "hdf5_store_task_result sq lib stat_ok mkdir_ok strdups idx output_dir task_id model_id
       input_data input_size output_data output_size h = do {
     (rc, path, idx', h1) \<leftarrow>
       hdf5_create_task_file sq lib stat_ok mkdir_ok idx output_dir task_id model_id True HDF5_MAX_PATH_LEN h;
     if rc \<noteq> HDF5_OK then Some (rc, idx', h1)
     else do {
       h2 \<leftarrow> store_array lib (fst strdups) path ''/input/data'' input_data input_size h1;
       h3 \<leftarrow> store_array lib (snd strdups) path ''/output/data'' output_data output_size h2;
       Some (HDF5_OK, idx', h3)
     }
   }"

section \<open>Statistics and rebuilding\<close>

definition stats_sql :: string where
  "stats_sql = ''SELECT COUNT(*), SUM(file_size), COUNT(DISTINCT model_id), MIN(created), MAX(created) FROM files''"

definition zero_index_stats :: index_stats where
  "zero_index_stats = \<lparr>is_total_files = 0, is_total_size_bytes = 0, is_unique_models = 0, is_oldest_file = 0, is_newest_file = 0\<rparr>"

definition hdf5_index_get_stats ::
    "'db sqlite \<Rightarrow> 'db hdf5_index option \<Rightarrow> index_stats option \<Rightarrow> c_int \<times> index_stats option" where
  "hdf5_index_get_stats sq idx stats =
     (case (idx, stats) of
        (Some i, Some _) \<Rightarrow>
          (case sq_select_stats sq stats_sql (hi_db i) of
             None \<Rightarrow> (HDF5_ERR_DB, Some zero_index_stats)
           | Some None \<Rightarrow> (HDF5_OK, Some zero_index_stats)
           | Some (Some (files, bytes, models, oldest, newest)) \<Rightarrow>
               (HDF5_OK, Some \<lparr>is_total_files = of_int files, is_total_size_bytes = of_int bytes,
                  is_unique_models = scast (of_int models :: u32), is_oldest_file = oldest, is_newest_file = newest\<rparr>))
      | _ \<Rightarrow> (HDF5_ERR_INVALID_ARG, stats))"

definition hdf5_index_rebuild :: "'db sqlite \<Rightarrow> 'db hdf5_index option \<Rightarrow> string option \<Rightarrow> c_int \<times> 'db hdf5_index option" where
  "hdf5_index_rebuild sq idx directory =
     (case (idx, directory) of
        (Some i, Some _) \<Rightarrow> (HDF5_OK, Some (i\<lparr>hi_db := snd (sq_exec sq ''DELETE FROM files'' (hi_db i))\<rparr>))
      | _ \<Rightarrow> (HDF5_ERR_INVALID_ARG, idx))"

end
