(* ===== verification/Hdf5_Props.thy ===== *)
theory Hdf5_Props
  imports Hdf5_Index
begin

text \<open>
  The index as a set of rows.  What the statements of \<open>hdf5_index.c\<close> mean is stated as laws of SQLite
  (\<open>sql_laws\<close>) on the set of rows of the table \<open>files\<close>; the text of a query is read by \<open>sql_meaning\<close>,
  so that the laws do not mention how the code builds it.
\<close>

section \<open>The language of the queries\<close>

fun words_of :: "string \<Rightarrow> string list" where
  "words_of [] = [[]]"
| "words_of (c # cs) =
     (if c = CHR '' '' then [] # words_of cs
      else case words_of cs of [] \<Rightarrow> [[c]] | w # ws \<Rightarrow> (c # w) # ws)"

definition sql_number :: "string \<Rightarrow> nat option" where
  "sql_number s = (if s \<noteq> [] \<and> list_all is_digit s then Some (digits_value s) else None)"

datatype condition = Task_is nat | Model_is nat | Created_from nat | Created_to nat

definition read_condition :: "string \<Rightarrow> string \<Rightarrow> nat \<Rightarrow> condition option" where
  "read_condition column op n =
     (if column = ''task_id'' \<and> op = ''='' then Some (Task_is n)
      else if column = ''model_id'' \<and> op = ''='' then Some (Model_is n)
      else if column = ''created'' \<and> op = ''>='' then Some (Created_from n)
      else if column = ''created'' \<and> op = ''<='' then Some (Created_to n)
      else None)"

fun read_conditions :: "string list \<Rightarrow> (condition list \<times> nat) option" where
  "read_conditions [limit, n] = (if limit = ''LIMIT'' then map_option (Pair []) (sql_number n) else None)"
| "read_conditions (word # column # op # n # ws) =
     (if word = ''AND'' then do {
        v \<leftarrow> sql_number n;
        c \<leftarrow> read_condition column op v;
        (cs, limit) \<leftarrow> read_conditions ws;
        Some (c # cs, limit)
      } else None)"
| "read_conditions _ = None"

definition sql_meaning :: "string \<Rightarrow> (condition list \<times> nat) option" where
  "sql_meaning sql =
     (let ws = words_of sql; base = words_of select_base
      in if take (length base) ws = base then read_conditions (drop (length base) ws) else None)"

lemma words_of_no_space [simp]: "CHR '' '' \<notin> set w \<Longrightarrow> words_of w = [w]"
  by (induction w) auto

lemma words_of_append [simp]: "CHR '' '' \<notin> set w \<Longrightarrow> words_of (w @ CHR '' '' # s) = w # words_of s"
  by (induction w) auto

lemma words_of_base: "words_of (select_base @ CHR '' '' # s) = words_of select_base @ words_of s"
  by (simp add: select_base_def)

lemma sql_meaning_base: "sql_meaning (select_base @ CHR '' '' # s) = read_conditions (words_of s)"
  by (simp add: sql_meaning_def words_of_base)

lemma space_not_digit: "\<not> is_digit (CHR '' '')"
  by (simp add: is_digit_def)

lemma dec_nat_no_space [simp]: "CHR '' '' \<notin> set (dec_nat n)"
  using dec_nat_digits [of n] space_not_digit by blast

lemma sql_number_dec [simp]: "sql_number (dec_nat n) = Some n"
  using dec_nat_digits [of n] by (simp add: sql_number_def dec_nat_value list_all_iff)

section \<open>The text of a query\<close>

lemma dec_nat_length: "n < 10 ^ k \<Longrightarrow> 0 < k \<Longrightarrow> length (dec_nat n) \<le> k"
proof (induction n arbitrary: k rule: dec_nat.induct)
  case (1 n)
  show ?case
  proof (cases "n < 10")
    case False
    then obtain j where j: "k = Suc j" "0 < j" using "1.prems" by (cases k; cases "k - 1") auto
    then have "n div 10 < 10 ^ j" using "1.prems" by (simp add: less_mult_imp_div_less mult.commute)
    from "1.IH" [OF False this j(2)] False j show ?thesis by (subst dec_nat.simps) simp
  qed (use "1.prems" in \<open>subst dec_nat.simps, simp\<close>)
qed

definition conditions_of :: "hdf5_query \<Rightarrow> condition list" where
  "conditions_of q =
     (if hq_task_id q > 0 then [Task_is (unat (hq_task_id q))] else []) @
     (if hq_model_id q > 0 then [Model_is (unat (hq_model_id q))] else []) @
     (if hq_created_after q > 0 then [Created_from (nat (hq_created_after q))] else []) @
     (if hq_created_before q > 0 then [Created_to (nat (hq_created_before q))] else [])"

definition query_conditions :: "hdf5_query option \<Rightarrow> condition list" where
  "query_conditions query = (case query of None \<Rightarrow> [] | Some q \<Rightarrow> conditions_of q)"

text \<open>The conditions as the code writes them.\<close>

fun condition_text :: "condition \<Rightarrow> string" where
  "condition_text (Task_is n) = '' AND task_id = '' @ dec_nat n"
| "condition_text (Model_is n) = '' AND model_id = '' @ dec_nat n"
| "condition_text (Created_from n) = '' AND created >= '' @ dec_nat n"
| "condition_text (Created_to n) = '' AND created <= '' @ dec_nat n"

lemma condition_text_words:
  "words_of (tl (condition_text c) @ CHR '' '' # s) = words_of (tl (condition_text c)) @ words_of s"
  by (cases c) simp_all

lemma condition_text_read:
  "read_conditions (words_of (tl (condition_text c)) @ ws) =
     map_option (\<lambda>(cs, limit). (c # cs, limit)) (read_conditions ws)"
  by (cases c; cases "read_conditions ws") (simp_all add: read_condition_def split_beta)

lemma conditions_space:
  "concat (map condition_text cs) @ '' LIMIT '' @ s = CHR '' '' # tl (concat (map condition_text cs) @ '' LIMIT '' @ s)"
proof (cases cs)
  case (Cons c cs')
  then show ?thesis by (cases c) simp_all
qed simp

lemma condition_text_tl: "tl (condition_text c @ s) = tl (condition_text c) @ s"
  by (cases c) simp_all

lemma conditions_read:
  "read_conditions (words_of (tl (concat (map condition_text cs) @ '' LIMIT '' @ dec_nat n))) = Some (cs, n)"
proof (induction cs)
  case (Cons c cs)
  have "tl (concat (map condition_text (c # cs)) @ '' LIMIT '' @ dec_nat n) =
      tl (condition_text c) @ CHR '' '' # tl (concat (map condition_text cs) @ '' LIMIT '' @ dec_nat n)"
    using conditions_space [of cs "dec_nat n"] by (simp only: list.map concat.simps append_assoc condition_text_tl)
  then show ?case by (simp only: condition_text_words condition_text_read Cons.IH) simp
qed simp

lemma sql_meaning_text:
  "sql_meaning (select_base @ concat (map condition_text cs) @ '' LIMIT '' @ dec_nat n) = Some (cs, n)"
  using conditions_space [of cs "dec_nat n"] by (metis sql_meaning_base conditions_read)
lemma unat_below_64:
  fixes w :: "'a :: len word"
  assumes "LENGTH('a) \<le> 64"
  shows "unat w < 2 ^ 64"
proof -
  have "unat w < 2 ^ LENGTH('a)" by (rule unsigned_less)
  then show ?thesis using power_increasing [OF assms, of "2 :: nat"] by (meson less_le_trans one_le_numeral)
qed

lemma condition_length:
  assumes "n < 2 ^ 64"
  shows "length (condition_text (Task_is n)) \<le> 40" "length (condition_text (Model_is n)) \<le> 40"
    "length (condition_text (Created_from n)) \<le> 40" "length (condition_text (Created_to n)) \<le> 40"
proof -
  have "length (dec_nat n) \<le> 20" using assms by (intro dec_nat_length) auto
  then show "length (condition_text (Task_is n)) \<le> 40" "length (condition_text (Model_is n)) \<le> 40"
    "length (condition_text (Created_from n)) \<le> 40" "length (condition_text (Created_to n)) \<le> 40" by simp_all
qed

lemma append_condition_fits:
  assumes "length (condition_text c) \<le> 40" "length sql + 40 < SQL_BUFFER"
  shows "append_condition w (condition_text c) sql = Some (sql @ concat (map condition_text (if w then [c] else [])))"
  using assms by (simp add: append_condition_def COND_BUFFER_def SQL_BUFFER_def Let_def)

definition times_ok :: "hdf5_query option \<Rightarrow> bool" where
  "times_ok query = (case query of None \<Rightarrow> True | Some q \<Rightarrow> hq_created_after q < 2 ^ 63 \<and> hq_created_before q < 2 ^ 63)"

text \<open>The conditions of a query are appended one by one and always fit.\<close>

lemma query_conditions_fit:
  assumes "hq_created_after q < 2 ^ 63" "hq_created_before q < 2 ^ 63"
  shows "do {
      s1 \<leftarrow> append_condition (hq_task_id q > 0) ('' AND task_id = '' @ dec_nat (unat (hq_task_id q))) select_base;
      s2 \<leftarrow> append_condition (hq_model_id q > 0) ('' AND model_id = '' @ dec_nat (unat (hq_model_id q))) s1;
      s3 \<leftarrow> append_condition (hq_created_after q > 0) ('' AND created >= '' @ dec_int (hq_created_after q)) s2;
      append_condition (hq_created_before q > 0) ('' AND created <= '' @ dec_int (hq_created_before q)) s3
    } = Some (select_base @ concat (map condition_text (conditions_of q)))"
proof -
  let ?t = "Task_is (unat (hq_task_id q))" and ?m = "Model_is (unat (hq_model_id q))"
    and ?a = "Created_from (nat (hq_created_after q))" and ?b = "Created_to (nat (hq_created_before q))"
  have t: "length (condition_text ?t) \<le> 40" and m: "length (condition_text ?m) \<le> 40"
    by (rule condition_length, rule unat_below_64, simp)+
  have a: "length (condition_text ?a) \<le> 40" and b: "length (condition_text ?b) \<le> 40"
    using assms by (auto intro!: condition_length simp del: condition_text.simps)
  have base: "length select_base = 75" by (simp add: select_base_def)
  let ?f = "\<lambda>w c. concat (map condition_text (if w then [c] else []))"
  have le: "length (?f w c) \<le> 40" if "length (condition_text c) \<le> 40" for w c using that by simp
  have created: "append_condition (0 < v) (s @ dec_int v) sql = append_condition (0 < v) (s @ dec_nat (nat v)) sql"
    for s sql v by (simp add: append_condition_def dec_int_def)
  note fit = append_condition_fits [OF t] append_condition_fits [OF m] append_condition_fits [OF a] append_condition_fits [OF b]
  show ?thesis
    unfolding created condition_text.simps [symmetric] conditions_of_def
    using le [OF t, of "hq_task_id q > 0"] le [OF m, of "hq_model_id q > 0"] le [OF a, of "hq_created_after q > 0"]
    by (simp add: fit base SQL_BUFFER_def del: condition_text.simps)
qed

lemma query_sql_text:
  assumes "times_ok query"
  shows "query_sql query max_results =
    Some (select_base @ concat (map condition_text (query_conditions query)) @ '' LIMIT '' @ dec_nat (unat max_results))"
proof -
  have "unat max_results < 2 ^ 64" by (rule unat_below_64) simp
  then have n: "length (dec_nat (unat max_results)) \<le> 20" by (intro dec_nat_length) auto
  have base: "length select_base = 75" by (simp add: select_base_def)
  show ?thesis
  proof (cases query)
    case None
    then show ?thesis using n by (simp add: query_sql_def query_conditions_def SQL_BUFFER_def base)
  next
    case (Some q)
    then have q: "hq_created_after q < 2 ^ 63" "hq_created_before q < 2 ^ 63" using assms by (auto simp: times_ok_def)
    have len: "length (concat (map condition_text (conditions_of q))) \<le> 160"
    proof -
      have "\<forall>c \<in> set (conditions_of q). length (condition_text c) \<le> 40"
        using q unat_below_64 [of "hq_task_id q"] unat_below_64 [of "hq_model_id q"]
        by (auto simp: conditions_of_def intro!: condition_length simp del: condition_text.simps)
      then have "sum_list (map (length \<circ> condition_text) (conditions_of q)) \<le> sum_list (map (\<lambda>_. 40) (conditions_of q))"
        by (intro sum_list_mono) simp
      also have "\<dots> \<le> 160" by (simp add: conditions_of_def sum_list_triv)
      finally show ?thesis by (simp add: length_concat comp_def)
    qed
    then show ?thesis
      using n query_conditions_fit [OF q]
      by (simp add: Some query_sql_def query_conditions_def SQL_BUFFER_def base del: concat_append)
  qed
qed

lemma query_sql_meaning:
  "times_ok query \<Longrightarrow> \<exists>sql. query_sql query max_results = Some sql \<and> sql_meaning sql = Some (query_conditions query, unat max_results)"
  using query_sql_text sql_meaning_text by blast
section \<open>The database as a set of rows\<close>

type_synonym file_row = "string \<times> int \<times> int \<times> int \<times> int"

definition int64 :: "int \<Rightarrow> bool" where "int64 v \<longleftrightarrow> - (2 ^ 63) \<le> v \<and> v < 2 ^ 63"

fun row_ok :: "file_row \<Rightarrow> bool" where
  "row_ok (path, task, model, created, fsize) \<longleftrightarrow> int64 task \<and> int64 model \<and> int64 created \<and> int64 fsize"

fun satisfies :: "file_row \<Rightarrow> condition \<Rightarrow> bool" where
  "satisfies (path, task, model, created, fsize) c =
     (case c of
        Task_is n \<Rightarrow> task = int n
      | Model_is n \<Rightarrow> model = int n
      | Created_from n \<Rightarrow> created \<ge> int n
      | Created_to n \<Rightarrow> created \<le> int n)"

definition matching :: "condition list \<Rightarrow> file_row set \<Rightarrow> file_row set" where
  "matching cs rs = {r \<in> rs. \<forall>c \<in> set cs. satisfies r c}"

definition replace_row :: "file_row \<Rightarrow> file_row set \<Rightarrow> file_row set" where
  "replace_row r rs = insert r {x \<in> rs. fst x \<noteq> fst r}"

fun row_values :: "file_row \<Rightarrow> sql_value list" where
  "row_values (path, task, model, created, fsize) = [SText path, SInt task, SInt model, SInt created, SInt fsize]"

fun row_columns :: "file_row \<Rightarrow> file_columns" where
  "row_columns (path, task, model, created, fsize) = (Some path, task, model, created, fsize)"

text \<open>
  What SQLite promises of the statements: integers have 64 bits; a path is unique, an insertion
  replaces the row of its path; a statement that fails changes nothing; other tables do not matter; a
  selection delivers, in some order and without repetition, as many of the rows that satisfy its
  conditions as there are, up to its limit.
\<close>

definition sql_laws :: "'db sqlite \<Rightarrow> ('db \<Rightarrow> file_row set) \<Rightarrow> bool" where
  "sql_laws sq rows \<longleftrightarrow>
     (\<forall>db. finite (rows db) \<and> (\<forall>r \<in> rows db. row_ok r)) \<and>
     (\<forall>r db step db'. row_ok r \<longrightarrow> sq_write sq insert_file_sql (row_values r) db = (step, db') \<longrightarrow>
        rows db' = (if step = Step_done then replace_row r (rows db) else rows db)) \<and>
     (\<forall>vs db. rows (snd (sq_write sq insert_dataset_sql vs db)) = rows db) \<and>
     (\<forall>p db step db'. sq_write sq delete_file_sql [SText p] db = (step, db') \<longrightarrow>
        rows db' = (if step = Step_done then {x \<in> rows db. fst x \<noteq> p} else rows db)) \<and>
     (\<forall>db. rows (snd (sq_exec sq ''DELETE FROM files'' db)) =
        (if fst (sq_exec sq ''DELETE FROM files'' db) then {} else rows db)) \<and>
     (\<forall>sql cs limit db. sql_meaning sql = Some (cs, limit) \<longrightarrow> limit < 2 ^ 63 \<longrightarrow>
        (\<exists>ys. sq_select_files sq sql db = Some (map row_columns ys) \<and> distinct ys \<and>
           set ys \<subseteq> matching cs (rows db) \<and> length ys = min limit (card (matching cs (rows db)))))"

lemma sql_rows: "sql_laws sq rows \<Longrightarrow> finite (rows db)" "sql_laws sq rows \<Longrightarrow> r \<in> rows db \<Longrightarrow> row_ok r"
  by (simp_all add: sql_laws_def)

lemma sql_insert:
  "sql_laws sq rows \<Longrightarrow> row_ok r \<Longrightarrow> sq_write sq insert_file_sql (row_values r) db = (step, db') \<Longrightarrow>
     rows db' = (if step = Step_done then replace_row r (rows db) else rows db)"
  unfolding sql_laws_def by (elim conjE) blast

lemma sql_insert_dataset:
  "sql_laws sq rows \<Longrightarrow> rows (snd (sq_write sq insert_dataset_sql vs db)) = rows db"
  by (simp add: sql_laws_def)

lemma sql_delete:
  "sql_laws sq rows \<Longrightarrow> sq_write sq delete_file_sql [SText p] db = (step, db') \<Longrightarrow>
     rows db' = (if step = Step_done then {x \<in> rows db. fst x \<noteq> p} else rows db)"
  unfolding sql_laws_def by (elim conjE) blast

lemma sql_clear:
  "sql_laws sq rows \<Longrightarrow> rows (snd (sq_exec sq ''DELETE FROM files'' db)) =
     (if fst (sq_exec sq ''DELETE FROM files'' db) then {} else rows db)"
  by (simp add: sql_laws_def)

lemma sql_select:
  assumes "sql_laws sq rows" "sql_meaning sql = Some (cs, limit)" "limit < 2 ^ 63"
  obtains ys where "sq_select_files sq sql db = Some (map row_columns ys)" "distinct ys"
    "set ys \<subseteq> matching cs (rows db)" "length ys = min limit (card (matching cs (rows db)))"
proof -
  note laws = assms(1) [unfolded sql_laws_def, THEN conjunct2, THEN conjunct2, THEN conjunct2, THEN conjunct2, THEN conjunct2]
  from laws [rule_format, OF assms(2,3)] that show thesis by blast
qed

section \<open>The operations on rows\<close>

fun entry_of_row :: "file_row \<Rightarrow> file_entry" where
  "entry_of_row (path, task, model, created, fsize) =
     \<lparr>hf_filepath = take (HDF5_MAX_PATH_LEN - 1) path, hf_task_id = of_int task, hf_model_id = of_int model,
      hf_created = created, hf_file_size = of_int fsize, hf_datasets = []\<rparr>"

lemma row_entry_columns [simp]: "row_entry (row_columns r) = Some (entry_of_row r)"
  by (cases r) (simp add: row_entry_def)

lemma fetch_rows_all:
  "length found + length ys \<le> unat max_results \<Longrightarrow>
     fetch_rows (map row_columns ys) max_results found = Some (found @ map entry_of_row ys)"
  by (induction ys arbitrary: found) auto

lemma query_rows:
  assumes "sql_laws sq rows" "times_ok query" "unat max_results < 2 ^ 63"
  obtains ys where
    "hdf5_index_query sq (Some i) query True max_results True = Some (HDF5_OK, map entry_of_row ys)" "distinct ys"
    "set ys \<subseteq> matching (query_conditions query) (rows (hi_db i))"
    "length ys = min (unat max_results) (card (matching (query_conditions query) (rows (hi_db i))))"
proof -
  obtain sql where sql: "query_sql query max_results = Some sql"
      "sql_meaning sql = Some (query_conditions query, unat max_results)"
    using query_sql_meaning [OF assms(2)] by blast
  obtain ys where ys: "sq_select_files sq sql (hi_db i) = Some (map row_columns ys)" "distinct ys"
      "set ys \<subseteq> matching (query_conditions query) (rows (hi_db i))"
      "length ys = min (unat max_results) (card (matching (query_conditions query) (rows (hi_db i))))"
    by (rule sql_select [OF assms(1) sql(2) assms(3)])
  then have "hdf5_index_query sq (Some i) query True max_results True = Some (HDF5_OK, map entry_of_row ys)"
    by (simp add: hdf5_index_query_def sql fetch_rows_all)
  with ys(2-4) that show thesis by blast
qed

lemma query_conditions_task [simp]:
  "query_conditions (Some (zero_query\<lparr>hq_task_id := t\<rparr>)) = (if t > 0 then [Task_is (unat t)] else [])"
  by (simp add: query_conditions_def conditions_of_def zero_query_def)

lemma times_ok_task [simp]: "times_ok (Some (zero_query\<lparr>hq_task_id := t\<rparr>))"
  by (simp add: times_ok_def zero_query_def)

text \<open>The lookup by task: a row of the task, when there is one.\<close>

lemma get_by_task_rows:
  assumes "sql_laws sq rows" "0 < task_id"
  shows "if \<exists>r \<in> rows (hi_db i). fst (snd r) = int (unat task_id)
    then \<exists>r \<in> rows (hi_db i). fst (snd r) = int (unat task_id) \<and>
      hdf5_index_get_by_task sq (Some i) task_id True = Some (HDF5_OK, [entry_of_row r])
    else hdf5_index_get_by_task sq (Some i) task_id True = Some (HDF5_ERR_NOT_FOUND, [])"
proof -
  let ?q = "Some (zero_query\<lparr>hq_task_id := task_id\<rparr>)"
  let ?m = "{r \<in> rows (hi_db i). fst (snd r) = int (unat task_id)}"
  have m: "matching (query_conditions ?q) (rows (hi_db i)) = ?m"
    using assms(2) by (auto simp: matching_def)
  have fin: "finite ?m" using sql_rows(1) [OF assms(1)] by simp
  obtain ys where ys: "hdf5_index_query sq (Some i) ?q True 1 True = Some (HDF5_OK, map entry_of_row ys)"
      "set ys \<subseteq> ?m" "length ys = min 1 (card ?m)"
    by (rule query_rows [OF assms(1), of ?q 1 i, unfolded m]) (simp_all add: that)
  show ?thesis
  proof (cases "?m = {}")
    case True
    then have "ys = []" using ys(2) by (metis set_empty subset_empty)
    moreover have "\<not> (\<exists>r \<in> rows (hi_db i). fst (snd r) = int (unat task_id))" using True by blast
    ultimately show ?thesis using ys(1) by (simp add: hdf5_index_get_by_task_def)
  next
    case False
    then have "card ?m \<noteq> 0" using fin by simp
    with ys(3) have "length ys = 1" by linarith
    then obtain r where "ys = [r]" by (auto simp: length_Suc_conv)
    then show ?thesis using ys by (auto simp: hdf5_index_get_by_task_def hdf5_codes)
  qed
qed
text \<open>The entry that a scan makes of a file that can be opened.\<close>

definition scanned_entry :: "'h hdf5_lib \<Rightarrow> 'h \<Rightarrow> string \<Rightarrow> u64 \<Rightarrow> u32 \<Rightarrow> file_entry" where
  "scanned_entry lib h path task_id model_id =
     snd (scan_hdf5_file lib h path (unscanned_entry path task_id model_id))"

definition entry_row :: "file_entry \<Rightarrow> file_row" where
  "entry_row e = (hf_filepath e, sint (hf_task_id e), sint (hf_model_id e), hf_created e, sint (hf_file_size e))"

lemma file_values_row: "file_values e = row_values (entry_row e)"
  by (simp add: file_values_def entry_row_def)

lemma int64_sint: "int64 (sint (w :: u64))" "int64 (sint (v :: u32))"
proof -
  show "int64 (sint w)" using sint_range_size [of w] by (simp add: int64_def word_size)
  show "int64 (sint v)" using sint_range_size [of v] by (simp add: int64_def word_size)
qed

lemma sint_nonneg:
  fixes w :: u64
  assumes "unat w < 2 ^ 63"
  shows "sint w = int (unat w)"
proof -
  have "uint w < 2 ^ 63"
    using assms by (metis of_nat_less_iff of_nat_numeral of_nat_power of_nat_unat)
  then have "signed_take_bit 63 (uint w) = uint w"
    by (intro signed_take_bit_int_eq_self) (auto intro: order_trans [OF _ uint_ge_0])
  then show ?thesis by (simp add: sint_uint)
qed

lemma row_ok_entry: "int64 (hf_created e) \<Longrightarrow> row_ok (entry_row e)"
  by (simp add: entry_row_def int64_sint)

lemma entry_of_entry_row:
  "length (hf_filepath e) < HDF5_MAX_PATH_LEN \<Longrightarrow> entry_of_row (entry_row e) = e\<lparr>hf_datasets := []\<rparr>"
  by (simp add: entry_row_def)

lemma scanned_entry_fields [simp]:
  "hf_filepath (scanned_entry lib h path t m) = take (HDF5_MAX_PATH_LEN - 1) path"
  "hf_task_id (scanned_entry lib h path t m) = t" "hf_model_id (scanned_entry lib h path t m) = m"
  by (auto simp: scanned_entry_def scan_hdf5_file_def unscanned_entry_def Let_def split: option.splits)

lemma insert_datasets_rows: "sql_laws sq rows \<Longrightarrow> rows (insert_datasets sq fid ds db) = rows db"
  by (induction ds arbitrary: db) (simp_all add: sql_insert_dataset)

lemma add_file_rows:
  assumes "sql_laws sq rows" "int64 (hf_created (scanned_entry lib h path task_id model_id))"
    and "hdf5_index_add_file sq lib h (Some i) (Some path) task_id model_id = (rc, i')"
  shows "\<exists>j. i' = Some j \<and> hi_index_path j = hi_index_path i \<and> rows (hi_db j) =
    (if rc = HDF5_OK then replace_row (entry_row (scanned_entry lib h path task_id model_id)) (rows (hi_db i))
     else rows (hi_db i))"
proof -
  let ?e = "scanned_entry lib h path task_id model_id"
  obtain step db where w: "sq_write sq insert_file_sql (row_values (entry_row ?e)) (hi_db i) = (step, db)" by fastforce
  note r = sql_insert [OF assms(1) row_ok_entry [OF assms(2)] w]
  obtain rc0 where scan: "scan_hdf5_file lib h path (unscanned_entry path task_id model_id) = (rc0, ?e)"
    by (metis prod.collapse scanned_entry_def)
  from assms(3) show ?thesis
    by (auto simp: hdf5_index_add_file_def scan w r file_values_row insert_datasets_rows [OF assms(1)] hdf5_codes
        split: if_splits)
qed

lemma remove_file_rows:
  assumes "sql_laws sq rows" "hdf5_index_remove_file sq (Some i) (Some path) = (rc, i')"
  shows "\<exists>j. i' = Some j \<and> hi_index_path j = hi_index_path i \<and> rows (hi_db j) =
    (if rc = HDF5_OK then {r \<in> rows (hi_db i). fst r \<noteq> path} else rows (hi_db i))"
proof -
  obtain step db where w: "sq_write sq delete_file_sql [SText path] (hi_db i) = (step, db)" by fastforce
  from assms(2) show ?thesis
    by (auto simp: hdf5_index_remove_file_def w sql_delete [OF assms(1) w] hdf5_codes split: if_splits)
qed

section \<open>A database that is a list of rows\<close>

definition list_write :: "string \<Rightarrow> sql_value list \<Rightarrow> file_row list \<Rightarrow> sql_step \<times> file_row list" where
  "list_write sql vs db =
     (if sql = insert_file_sql
      then (case vs of
          [SText p, SInt t, SInt m, SInt c, SInt s] \<Rightarrow>
            if row_ok (p, t, m, c, s) then (Step_done, filter (\<lambda>r. fst r \<noteq> p) db @ [(p, t, m, c, s)]) else (Step_error, db)
        | _ \<Rightarrow> (Step_error, db))
      else if sql = delete_file_sql
      then (case vs of [SText p] \<Rightarrow> (Step_done, filter (\<lambda>r. fst r \<noteq> p) db) | _ \<Rightarrow> (Step_error, db))
      else (Step_done, db))"

definition list_select :: "string \<Rightarrow> file_row list \<Rightarrow> file_columns list option" where
  "list_select sql db =
     map_option (\<lambda>(cs, limit). map row_columns (take limit (filter (\<lambda>r. list_all (satisfies r) cs)
       (remdups (filter row_ok db))))) (sql_meaning sql)"

definition list_sqlite :: "file_row list sqlite" where
  "list_sqlite = \<lparr>sq_open = \<lambda>_. Some [], sq_exec = \<lambda>sql db. (True, if sql = ''DELETE FROM files'' then [] else db),
     sq_write = list_write, sq_select_files = list_select, sq_select_stats = \<lambda>_ _. None, sq_last_insert_rowid = int \<circ> length\<rparr>"

lemma sql_texts_differ: "insert_file_sql \<noteq> insert_dataset_sql" "delete_file_sql \<noteq> insert_file_sql"
  "delete_file_sql \<noteq> insert_dataset_sql"
  by (simp_all add: insert_file_sql_def insert_dataset_sql_def delete_file_sql_def)

lemma list_select_matches:
  "\<exists>ys. map row_columns (take n (filter (\<lambda>r. list_all (satisfies r) cs) (remdups db))) = map row_columns ys \<and>
     distinct ys \<and> set ys \<subseteq> matching cs (set db) \<and> length ys = min n (card (matching cs (set db)))"
proof -
  let ?xs = "filter (\<lambda>r. list_all (satisfies r) cs) (remdups db)"
  have s: "set ?xs = matching cs (set db)" by (auto simp: matching_def list_all_iff)
  have "distinct ?xs" by simp
  then have "card (matching cs (set db)) = length ?xs" using distinct_card s by metis
  then show ?thesis using s set_take_subset [of n ?xs] by (intro exI [of _ "take n ?xs"]) auto
qed

lemma list_sqlite_laws: "sql_laws list_sqlite (\<lambda>db. set (filter row_ok db))"
  unfolding sql_laws_def
proof (intro conjI allI impI)
  fix r :: file_row and db step db'
  assume "row_ok r" "sq_write list_sqlite insert_file_sql (row_values r) db = (step, db')"
  then show "set (filter row_ok db') =
      (if step = Step_done then replace_row r (set (filter row_ok db)) else set (filter row_ok db))"
    by (cases r) (auto simp: list_sqlite_def list_write_def replace_row_def)
next
  fix p db step db'
  assume "sq_write list_sqlite delete_file_sql [SText p] db = (step, db')"
  then show "set (filter row_ok db') =
      (if step = Step_done then {x \<in> set (filter row_ok db). fst x \<noteq> p} else set (filter row_ok db))"
    by (auto simp: list_sqlite_def list_write_def sql_texts_differ)
next
  fix sql cs limit db
  assume "sql_meaning sql = Some (cs, limit)"
  then show "\<exists>ys. sq_select_files list_sqlite sql db = Some (map row_columns ys) \<and> distinct ys \<and>
      set ys \<subseteq> matching cs (set (filter row_ok db)) \<and> length ys = min limit (card (matching cs (set (filter row_ok db))))"
    using list_select_matches [of limit cs "filter row_ok db"] by (simp add: list_sqlite_def list_select_def del: set_filter)
qed (auto simp: list_sqlite_def list_write_def sql_texts_differ sql_texts_differ [symmetric])

end
