(* ===== verification/Hdf5_Files.thy ===== *)
theory Hdf5_Files
  imports Hdf5_Props
begin

text \<open>
  The result files.  What the code relies on of the HDF5 library is stated as laws (\<open>hdf5_laws\<close>) on a
  view of its state: the groups and the datasets of each file.
\<close>

section \<open>The library\<close>

record h5_file =
  f_groups :: "string set"
  f_datasets :: "string \<rightharpoonup> h5_dtype \<times> size_t list \<times> u8 list"

definition new_file :: h5_file where "new_file = \<lparr>f_groups = {}, f_datasets = Map.empty\<rparr>"

definition add_group :: "string \<Rightarrow> h5_file \<Rightarrow> h5_file" where
  "add_group g f = f\<lparr>f_groups := insert g (f_groups f)\<rparr>"

definition set_dataset :: "string \<Rightarrow> h5_dtype \<times> size_t list \<times> u8 list \<Rightarrow> h5_file \<Rightarrow> h5_file" where
  "set_dataset name d f = f\<lparr>f_datasets := (f_datasets f)(name \<mapsto> d)\<rparr>"

definition space_bytes :: "h5_dtype \<Rightarrow> size_t list \<Rightarrow> nat" where
  "space_bytes ty dims = prod_list (map unat dims) * dtype_bytes ty"

text \<open>
  A created file is empty; a file that exists can be opened; a group is made at the top of a file
  under a name that is not in use; a dataset is made under a new name in a group that exists; a dataset
  is written and read as a whole; a name that is no dataset cannot be opened as one.
\<close>

definition create_law :: "'h hdf5_lib \<Rightarrow> ('h \<Rightarrow> string \<rightharpoonup> h5_file) \<Rightarrow> bool" where
  "create_law lib view \<longleftrightarrow>
     (\<forall>p h h'. hl_create lib p h = (True, h') \<longrightarrow> view h' = (view h)(p \<mapsto> new_file))"

definition open_law :: "'h hdf5_lib \<Rightarrow> ('h \<Rightarrow> string \<rightharpoonup> h5_file) \<Rightarrow> bool" where
  "open_law lib view \<longleftrightarrow>
     (\<forall>p h f. view h p = Some f \<longrightarrow> hl_open_rw lib p h \<and>
        (\<exists>st dopen. hl_open lib p h = Some (st, dopen) \<and>
           (\<forall>name. CHR ''/'' \<notin> set name \<longrightarrow> dopen name = None \<longleftrightarrow> f_datasets f (CHR ''/'' # name) = None)))"

definition exists_law :: "'h hdf5_lib \<Rightarrow> ('h \<Rightarrow> string \<rightharpoonup> h5_file) \<Rightarrow> bool" where
  "exists_law lib view \<longleftrightarrow>
     (\<forall>p h f g. view h p = Some f \<longrightarrow> hl_exists lib p g h = (if g \<in> f_groups f \<or> f_datasets f g \<noteq> None then 1 else 0))"

definition group_law :: "'h hdf5_lib \<Rightarrow> ('h \<Rightarrow> string \<rightharpoonup> h5_file) \<Rightarrow> bool" where
  "group_law lib view \<longleftrightarrow>
     (\<forall>p h f n. view h p = Some f \<longrightarrow> n \<noteq> [] \<longrightarrow> CHR ''/'' \<notin> set n \<longrightarrow> f_datasets f (CHR ''/'' # n) = None \<longrightarrow>
        view (hl_group lib p (CHR ''/'' # n) h) = (view h)(p \<mapsto> add_group (CHR ''/'' # n) f))"

definition dcreate_law :: "'h hdf5_lib \<Rightarrow> ('h \<Rightarrow> string \<rightharpoonup> h5_file) \<Rightarrow> bool" where
  "dcreate_law lib view \<longleftrightarrow>
     (\<forall>p h f g n ty dims. view h p = Some f \<longrightarrow> g \<in> f_groups f \<longrightarrow> n \<noteq> [] \<longrightarrow> CHR ''/'' \<notin> set n \<longrightarrow>
        f_datasets f (g @ CHR ''/'' # n) = None \<longrightarrow> g @ CHR ''/'' # n \<notin> f_groups f \<longrightarrow>
        (\<exists>h' bytes. hl_dcreate lib p (g @ CHR ''/'' # n) ty dims h = (True, h') \<and>
           view h' = (view h)(p \<mapsto> set_dataset (g @ CHR ''/'' # n) (ty, dims, bytes) f)))"

definition dwrite_law :: "'h hdf5_lib \<Rightarrow> ('h \<Rightarrow> string \<rightharpoonup> h5_file) \<Rightarrow> bool" where
  "dwrite_law lib view \<longleftrightarrow>
     (\<forall>p h f name ty dims old bytes. view h p = Some f \<longrightarrow> f_datasets f name = Some (ty, dims, old) \<longrightarrow>
        length bytes = space_bytes ty dims \<longrightarrow>
        (\<exists>h'. hl_dwrite lib p name ty bytes h = (True, h') \<and> view h' = (view h)(p \<mapsto> set_dataset name (ty, dims, bytes) f)))"

definition dread_law :: "'h hdf5_lib \<Rightarrow> ('h \<Rightarrow> string \<rightharpoonup> h5_file) \<Rightarrow> bool" where
  "dread_law lib view \<longleftrightarrow>
     (\<forall>p h f name. view h p = Some f \<longrightarrow> hl_dread lib p name h =
        map_option (\<lambda>(ty, dims, bytes). (int (prod_list (map unat dims)), Some bytes)) (f_datasets f name))"

definition hdf5_laws :: "'h hdf5_lib \<Rightarrow> ('h \<Rightarrow> string \<rightharpoonup> h5_file) \<Rightarrow> bool" where
  "hdf5_laws lib view \<longleftrightarrow> create_law lib view \<and> open_law lib view \<and> exists_law lib view \<and> group_law lib view \<and>
     (\<forall>dims. dims \<noteq> [] \<longrightarrow> length dims \<le> 32 \<longrightarrow> hl_space lib (int (length dims)) dims) \<and> dcreate_law lib view \<and> dwrite_law lib view \<and> dread_law lib view"

lemmas h5_create = create_law_def [THEN iffD1, rule_format]
lemmas h5_open = open_law_def [THEN iffD1, rule_format]
lemmas h5_exists = exists_law_def [THEN iffD1, rule_format]
lemmas h5_group = group_law_def [THEN iffD1, rule_format]
lemmas h5_dcreate = dcreate_law_def [THEN iffD1, rule_format]
lemmas h5_dwrite = dwrite_law_def [THEN iffD1, rule_format]
lemmas h5_dread = dread_law_def [THEN iffD1, rule_format]

lemma hdf5_lawsD:
  assumes "hdf5_laws lib view"
  shows "create_law lib view" "open_law lib view" "exists_law lib view" "group_law lib view"
    "dims \<noteq> [] \<Longrightarrow> length dims \<le> 32 \<Longrightarrow> hl_space lib (int (length dims)) dims" "dcreate_law lib view" "dwrite_law lib view" "dread_law lib view"
  using assms by (simp_all add: hdf5_laws_def)

section \<open>Storing and reading\<close>

definition doubles :: "size_t \<Rightarrow> nat" where "doubles nbytes = unat nbytes div 8"

definition stored :: "size_t \<Rightarrow> u8 list \<Rightarrow> h5_dtype \<times> size_t list \<times> u8 list" where
  "stored nbytes data = (H5T_NATIVE_DOUBLE, [nbytes div 8], take (8 * doubles nbytes) data)"

lemma doubles_word: "unat (nbytes div 8 :: size_t) = doubles nbytes"
  by (simp add: doubles_def unat_div)

lemma parent_group_data [simp]: "parent_group ''/input/data'' = Some ''/input''" "parent_group ''/output/data'' = Some ''/output''"
  by (simp_all add: parent_group_def)

text \<open>An array of \<open>double\<close> of any dimensions is written under a new name in a group that exists.\<close>

lemma write_dataset_view:
  assumes laws: "hdf5_laws lib view" and f: "view h p = Some f" and g: "parent_group name = Some g" "g \<in> f_groups f"
    and nm: "name = g @ CHR ''/'' # n" "n \<noteq> []" "CHR ''/'' \<notin> set n" "f_datasets f name = None" "name \<notin> f_groups f"
    and dims: "dims \<noteq> []" "length dims \<le> 8" and data: "space_bytes H5T_NATIVE_DOUBLE dims \<le> length data"
  shows "\<exists>h'. hdf5_write_dataset lib True (Some p) (Some name) (Some data) (of_nat (length dims)) (Some dims) 8 h = Some (HDF5_OK, h') \<and>
    view h' = (view h)(p \<mapsto> set_dataset name (H5T_NATIVE_DOUBLE, dims, take (space_bytes H5T_NATIVE_DOUBLE dims) data) f)"
proof -
  let ?bytes = "take (space_bytes H5T_NATIVE_DOUBLE dims) data"
  have parent: "create_parent lib p name h = h"
    using h5_exists [OF hdf5_lawsD(3) [OF laws] f] g by (simp add: create_parent_def)
  have "\<exists>h1 old. hl_dcreate lib p name H5T_NATIVE_DOUBLE dims h = (True, h1) \<and>
      view h1 = (view h)(p \<mapsto> set_dataset name (H5T_NATIVE_DOUBLE, dims, old) f)"
    unfolding nm(1) by (rule h5_dcreate [OF hdf5_lawsD(6) [OF laws] f g(2) nm(2,3)]) (use nm in auto)
  then obtain h1 old where h1: "hl_dcreate lib p name H5T_NATIVE_DOUBLE dims h = (True, h1)"
      "view h1 = (view h)(p \<mapsto> set_dataset name (H5T_NATIVE_DOUBLE, dims, old) f)" by blast
  have len: "length ?bytes = space_bytes H5T_NATIVE_DOUBLE dims" using data by simp
  obtain h2 where h2: "hl_dwrite lib p name H5T_NATIVE_DOUBLE ?bytes h1 = (True, h2)"
      "view h2 = (view h1)(p \<mapsto> set_dataset name (H5T_NATIVE_DOUBLE, dims, ?bytes)
         (set_dataset name (H5T_NATIVE_DOUBLE, dims, old) f))"
    using h5_dwrite [OF hdf5_lawsD(7) [OF laws] _ _ len, of h1 p "set_dataset name (H5T_NATIVE_DOUBLE, dims, old) f" name old]
    by (auto simp: h1(2) set_dataset_def)
  have "0 < length dims" using dims(1) by simp
  then have "length dims = 1 \<or> length dims = 2 \<or> length dims = 3 \<or> length dims = 4 \<or> length dims = 5 \<or> length dims = 6 \<or>
    length dims = 7 \<or> length dims = 8" using dims(2) by linarith
  then obtain w :: size_t where w: "of_nat (length dims) = w" "w \<noteq> 0" "unat w = length dims"
      "sint (ucast w :: u32) = int (length dims)" by auto
  have sp: "hl_space lib (int (length dims)) dims" using hdf5_lawsD(5) [OF laws] dims by simp
  have wr: "hdf5_write_dataset lib True (Some p) (Some name) (Some data) w (Some dims) 8 h = Some (HDF5_OK, h2)"
    using h5_open [OF hdf5_lawsD(2) [OF laws] f] data h1(1) h2(1) dims(2) sp
    by (simp add: hdf5_write_dataset_def parent dtype_of_size_def w(2-4) space_bytes_def mult.commute Let_def)
  show ?thesis
    unfolding w(1) by (simp add: wr h1(2) h2(2)) (simp add: set_dataset_def)
qed

lemma space_bytes_line [simp]: "space_bytes H5T_NATIVE_DOUBLE [nbytes div 8] = 8 * doubles nbytes"
  by (simp add: space_bytes_def doubles_word)

lemma store_array_writes:
  assumes laws: "hdf5_laws lib view" and f: "view h p = Some f" and g: "parent_group name = Some g" "g \<in> f_groups f"
    and nm: "name = g @ CHR ''/'' # n" "n \<noteq> []" "CHR ''/'' \<notin> set n" "f_datasets f name = None" "name \<notin> f_groups f"
    and data: "length data = unat nbytes" "nbytes > 0"
  shows "\<exists>h'. store_array lib True p name (Some data) nbytes h = Some h' \<and>
    view h' = (view h)(p \<mapsto> set_dataset name (stored nbytes data) f)"
proof -
  have "space_bytes H5T_NATIVE_DOUBLE [nbytes div 8] \<le> length data" using data(1) by (simp add: doubles_def)
  from write_dataset_view [OF laws f g nm _ _ this] data(2) show ?thesis by (auto simp: store_array_def stored_def)
qed

text \<open>Reading fills the buffer with the whole dataset, or writes behind it.\<close>

lemma read_stored:
  assumes "hdf5_laws lib view" "view h p = Some f" "f_datasets f name = Some (stored nbytes data)" "length data = unat nbytes"
  shows "hdf5_read_dataset lib (Some p) (Some name) (Some cap) max_elements True h =
    (if 8 * doubles nbytes \<le> cap
     then Some (HDF5_OK, Some (if int (doubles nbytes) > sint max_elements then max_elements else nbytes div 8),
       take (8 * doubles nbytes) data)
     else None)"
proof -
  have len: "length (take (8 * doubles nbytes) data) = 8 * doubles nbytes" using assms(4) by (simp add: doubles_def)
  have w: "(of_nat (doubles nbytes) :: size_t) = nbytes div 8" by (simp add: doubles_word [symmetric])
  have "hl_dread lib p name h = Some (int (doubles nbytes), Some (take (8 * doubles nbytes) data))"
    using h5_dread [OF hdf5_lawsD(8) [OF assms(1)] assms(2)] assms(3) by (simp add: stored_def doubles_word)
  then show ?thesis
    using h5_open [OF hdf5_lawsD(2) [OF assms(1)] assms(2)] by (auto simp: hdf5_read_dataset_def len w Let_def simp del: length_take)
qed

text \<open>The file as it is made: two groups and no datasets, whatever the index answers.\<close>

lemma create_task_file_view:
  assumes laws: "hdf5_laws lib view" and path: "length (task_file_name dir task_id model_id) < size_out"
    and create: "hl_create lib (task_file_name dir task_id model_id) h = (True, h1)" and "stat_ok \<or> mkdir_ok"
  shows "\<exists>idx' h'. hdf5_create_task_file sq lib stat_ok mkdir_ok idx (Some dir) task_id model_id True size_out h =
      Some (HDF5_OK, task_file_name dir task_id model_id, idx', h') \<and>
    idx' = (case idx of None \<Rightarrow> None | Some i \<Rightarrow>
      snd (hdf5_index_add_file sq lib h' (Some i) (Some (task_file_name dir task_id model_id)) task_id model_id)) \<and>
    view h' = (view h)(task_file_name dir task_id model_id \<mapsto> add_group ''/output'' (add_group ''/input'' new_file))"
proof -
  let ?p = "task_file_name dir task_id model_id"
  have v1: "view h1 = (view h)(?p \<mapsto> new_file)" by (rule h5_create [OF hdf5_lawsD(1) [OF laws] create])
  have v2: "view (hl_group lib ?p ''/input'' h1) = (view h)(?p \<mapsto> add_group ''/input'' new_file)"
    using h5_group [OF hdf5_lawsD(4) [OF laws], of h1 ?p new_file "''input''"] by (simp add: v1 new_file_def)
  have v3: "view (hl_group lib ?p ''/output'' (hl_group lib ?p ''/input'' h1)) =
      (view h)(?p \<mapsto> add_group ''/output'' (add_group ''/input'' new_file))"
    using h5_group [OF hdf5_lawsD(4) [OF laws], of "hl_group lib ?p ''/input'' h1" ?p "add_group ''/input'' new_file" "''output''"]
    by (simp add: v2 add_group_def new_file_def)
  show ?thesis
    using path assms(4) v3 by (auto simp: hdf5_create_task_file_def create Let_def)
qed
text \<open>What is stored can be read, input and output, and the two do not disturb each other.\<close>

lemma store_result_view:
  assumes laws: "hdf5_laws lib view" and path: "length (task_file_name dir task_id model_id) < HDF5_MAX_PATH_LEN"
    and create: "hl_create lib (task_file_name dir task_id model_id) h = (True, h1)" and dir: "stat_ok \<or> mkdir_ok"
    and inp: "length input = unat isize" "isize > 0" and out: "length output = unat osize" "osize > 0"
  shows "\<exists>idx' h2 h' f. hdf5_store_task_result sq lib stat_ok mkdir_ok (True, True) idx (Some dir) task_id model_id
      (Some input) isize (Some output) osize h = Some (HDF5_OK, idx', h') \<and>
    idx' = (case idx of None \<Rightarrow> None | Some i \<Rightarrow>
      snd (hdf5_index_add_file sq lib h2 (Some i) (Some (task_file_name dir task_id model_id)) task_id model_id)) \<and>
    view h2 = (view h)(task_file_name dir task_id model_id \<mapsto> add_group ''/output'' (add_group ''/input'' new_file)) \<and>
    view h' = (view h)(task_file_name dir task_id model_id \<mapsto> f) \<and>
    f_datasets f = [''/input/data'' \<mapsto> stored isize input, ''/output/data'' \<mapsto> stored osize output]"
proof -
  let ?p = "task_file_name dir task_id model_id"
  let ?f = "add_group ''/output'' (add_group ''/input'' new_file)"
  obtain idx' h2 where h2: "hdf5_create_task_file sq lib stat_ok mkdir_ok idx (Some dir) task_id model_id True HDF5_MAX_PATH_LEN h =
      Some (HDF5_OK, ?p, idx', h2)" "view h2 = (view h)(?p \<mapsto> ?f)"
      "idx' = (case idx of None \<Rightarrow> None | Some i \<Rightarrow> snd (hdf5_index_add_file sq lib h2 (Some i) (Some ?p) task_id model_id))"
    using create_task_file_view [OF laws path create dir, of sq idx] by blast
  have f2: "view h2 ?p = Some ?f" by (simp add: h2(2))
  let ?g = "set_dataset ''/input/data'' (stored isize input) ?f"
  have "\<exists>h'. store_array lib True ?p ''/input/data'' (Some input) isize h2 = Some h' \<and> view h' = (view h2)(?p \<mapsto> ?g)"
    by (rule store_array_writes [OF laws f2 parent_group_data(1), where n = "''data''"])
      (simp_all add: add_group_def new_file_def inp)
  then obtain h3 where h3: "store_array lib True ?p ''/input/data'' (Some input) isize h2 = Some h3"
      "view h3 = (view h2)(?p \<mapsto> ?g)" by blast
  have f3: "view h3 ?p = Some ?g" by (simp add: h3(2))
  have "\<exists>h'. store_array lib True ?p ''/output/data'' (Some output) osize h3 = Some h' \<and>
      view h' = (view h3)(?p \<mapsto> set_dataset ''/output/data'' (stored osize output) ?g)"
    by (rule store_array_writes [OF laws f3 parent_group_data(2), where n = "''data''"])
      (simp_all add: set_dataset_def add_group_def new_file_def out)
  then obtain h4 where h4: "store_array lib True ?p ''/output/data'' (Some output) osize h3 = Some h4"
      "view h4 = (view h3)(?p \<mapsto> set_dataset ''/output/data'' (stored osize output) ?g)" by blast
  show ?thesis
    by (intro exI [of _ idx'] exI [of _ h2] exI [of _ h4] exI [of _ "set_dataset ''/output/data'' (stored osize output)
         (set_dataset ''/input/data'' (stored isize input) ?f)"])
      (simp add: hdf5_store_task_result_def h2(1,2) h3 h4 h2(3) [symmetric], simp add: set_dataset_def add_group_def new_file_def)
qed

lemma task_file_name_inj:
  assumes "task_file_name dir t m = task_file_name dir t' m'"
  shows "t = t'"
proof -
  have "takeWhile is_digit (dec_nat n @ ''_model_'' @ r) = dec_nat n" for n r
    using dec_nat_digits [of n] by (simp add: takeWhile_append is_digit_def)
  moreover have "dec_nat (unat t) @ ''_model_'' @ dec_nat (unat m) @ ''.h5'' = dec_nat (unat t') @ ''_model_'' @ dec_nat (unat m') @ ''.h5''"
    using assms by (simp add: task_file_name_def)
  ultimately have "dec_nat (unat t) = dec_nat (unat t')" by (metis append.assoc)
  then show ?thesis using dec_nat_value by (metis word_unat_eq_iff)
qed

lemma store_without_index:
  "hdf5_store_task_result sq lib stat_ok mkdir_ok strdups None dir task_id model_id input isize out osize h = Some (rc, idx', h') \<Longrightarrow>
     idx' = None"
  by (auto simp: hdf5_store_task_result_def hdf5_create_task_file_def Let_def split: option.splits if_splits prod.splits bind_splits)

text \<open>The index looks for datasets at the top of the file, where a new file has groups.\<close>

lemma new_file_scanned:
  assumes "hdf5_laws lib view" "view h p = Some f" "f_datasets f = Map.empty"
  shows "hf_datasets (scanned_entry lib h p task_id model_id) = []"
proof -
  obtain st dopen where o: "hl_open lib p h = Some (st, dopen)"
      "\<forall>name. CHR ''/'' \<notin> set name \<longrightarrow> dopen name = None \<longleftrightarrow> f_datasets f (CHR ''/'' # name) = None"
    using h5_open [OF hdf5_lawsD(2) [OF assms(1)] assms(2)] by blast
  then show ?thesis
    by (simp add: scanned_entry_def scan_hdf5_file_def common_datasets_def MAX_DATASETS_def assms(3))
qed

section \<open>A library that keeps the view itself\<close>

definition map_update_file :: "string \<Rightarrow> (h5_file \<Rightarrow> h5_file) \<Rightarrow> (string \<rightharpoonup> h5_file) \<Rightarrow> (string \<rightharpoonup> h5_file)" where
  "map_update_file p u h = (case h p of None \<Rightarrow> h | Some f \<Rightarrow> h(p \<mapsto> u f))"

definition map_describe :: "h5_dtype \<times> size_t list \<times> u8 list \<Rightarrow> h5_dataset" where
  "map_describe d = (case d of (ty, dims, _) \<Rightarrow> \<lparr>h5_rank = Some (int (length dims)), h5_dims = dims,
     h5_type = Some (of_nat (dtype_bytes ty), H5T_FLOAT)\<rparr>)"

definition map_lib :: "(string \<rightharpoonup> h5_file) hdf5_lib" where
  "map_lib = \<lparr>
     hl_open = \<lambda>p h. map_option (\<lambda>f. (Some (2048, 1700000000), \<lambda>name. map_option map_describe (f_datasets f (CHR ''/'' # name)))) (h p),
     hl_create = \<lambda>p h. (True, h(p \<mapsto> new_file)),
     hl_open_rw = \<lambda>p h. h p \<noteq> None,
     hl_exists = \<lambda>p g h. case h p of None \<Rightarrow> - 1 | Some f \<Rightarrow> if g \<in> f_groups f \<or> f_datasets f g \<noteq> None then 1 else 0,
     hl_group = \<lambda>p g. map_update_file p (add_group g),
     hl_space = \<lambda>_ _. True,
     hl_dcreate = \<lambda>p name ty dims h. (True, map_update_file p (set_dataset name (ty, dims, [])) h),
     hl_dwrite = \<lambda>p name ty bytes h. (True, map_update_file p (\<lambda>f. set_dataset name
        (ty, case f_datasets f name of None \<Rightarrow> [] | Some (_, dims, _) \<Rightarrow> dims, bytes) f) h),
     hl_dread = \<lambda>p name h. case h p of None \<Rightarrow> None | Some f \<Rightarrow>
        map_option (\<lambda>(ty, dims, bytes). (int (prod_list (map unat dims)), Some bytes)) (f_datasets f name)\<rparr>"

lemma map_lib_laws: "hdf5_laws map_lib (\<lambda>h. h)"
proof -
  have "create_law map_lib (\<lambda>h. h)" by (simp add: create_law_def map_lib_def)
  moreover have "open_law map_lib (\<lambda>h. h)" by (simp add: open_law_def map_lib_def)
  moreover have "exists_law map_lib (\<lambda>h. h)" by (simp add: exists_law_def map_lib_def)
  moreover have "group_law map_lib (\<lambda>h. h)" by (simp add: group_law_def map_lib_def map_update_file_def)
  moreover have "dcreate_law map_lib (\<lambda>h. h)" by (auto simp: dcreate_law_def map_lib_def map_update_file_def)
  moreover have "dwrite_law map_lib (\<lambda>h. h)" by (simp add: dwrite_law_def map_lib_def map_update_file_def)
  moreover have "dread_law map_lib (\<lambda>h. h)" by (simp add: dread_law_def map_lib_def)
  moreover have "hl_space map_lib r dims" for r dims by (simp add: map_lib_def)
  ultimately show ?thesis by (simp add: hdf5_laws_def)
qed

end
