(* ===== verification/Hdf5_Theorems.thy ===== *)
theory Hdf5_Theorems
  imports Hdf5_Files
begin

text \<open>
  The properties of the index of result files and of the files themselves.
\<close>

section \<open>The index\<close>


definition sample_files :: "string \<rightharpoonup> h5_file" where
  "sample_files = [''r/7.h5'' \<mapsto> new_file]"

definition sample_index :: "file_row list hdf5_index" where
  "sample_index = \<lparr>hi_index_path = ''index.db'', hi_db = [(''r/3.h5'', 3, 1, 100, 512)]\<rparr>"

lemma sample_scan: "scanned_entry map_lib sample_files ''r/7.h5'' 7 2 =
  \<lparr>hf_filepath = ''r/7.h5'', hf_task_id = 7, hf_model_id = 2, hf_created = 1700000000, hf_file_size = 2048, hf_datasets = []\<rparr>"
  by (simp add: scanned_entry_def scan_hdf5_file_def unscanned_entry_def map_lib_def sample_files_def common_datasets_def
      new_file_def MAX_DATASETS_def HDF5_MAX_PATH_LEN_def)

lemma sample_add:
  "hdf5_index_add_file list_sqlite map_lib sample_files (Some sample_index) (Some ''r/7.h5'') 7 2 =
     (HDF5_OK, Some (sample_index\<lparr>hi_db := [(''r/3.h5'', 3, 1, 100, 512), (''r/7.h5'', 7, 2, 1700000000, 2048)]\<rparr>))"
proof -
  have "scan_hdf5_file map_lib sample_files ''r/7.h5'' (unscanned_entry ''r/7.h5'' 7 2) =
      (HDF5_OK, scanned_entry map_lib sample_files ''r/7.h5'' 7 2)"
    by (simp add: scanned_entry_def scan_hdf5_file_def map_lib_def sample_files_def)
  then show ?thesis
    by (simp add: hdf5_index_add_file_def sample_scan file_values_def list_sqlite_def list_write_def sample_index_def
        int64_def)
qed

lemma sample_remove_rebuild:
  "hdf5_index_remove_file list_sqlite (Some sample_index) (Some ''r/7.h5'') = (HDF5_OK, Some sample_index)"
  "hdf5_index_rebuild list_sqlite (Some sample_index) (Some ''r'') = (HDF5_OK, Some (sample_index\<lparr>hi_db := []\<rparr>))"
  by (simp_all add: hdf5_index_remove_file_def hdf5_index_rebuild_def list_sqlite_def list_write_def sample_index_def
      sql_texts_differ)


text \<open>
  (C35) A query returns the entries of rows that satisfy every condition of the query, each once, and as
  many as there are up to the caller's maximum; the text of the statement always fits its buffer and
  says exactly the conditions of the query, the name of a dataset not among them.
\<close>

theorem index_query_exact:
  assumes "sql_laws sq rows" "times_ok query" "unat max_results < 2 ^ 63"
  shows "\<exists>ys. hdf5_index_query sq (Some i) query True max_results True = Some (HDF5_OK, map entry_of_row ys) \<and>
    distinct ys \<and> set ys \<subseteq> {r \<in> rows (hi_db i). \<forall>c \<in> set (query_conditions query). satisfies r c} \<and>
    length ys = min (unat max_results) (card {r \<in> rows (hi_db i). \<forall>c \<in> set (query_conditions query). satisfies r c}) \<and>
    (unat max_results \<ge> card {r \<in> rows (hi_db i). \<forall>c \<in> set (query_conditions query). satisfies r c} \<longrightarrow>
       set ys = {r \<in> rows (hi_db i). \<forall>c \<in> set (query_conditions query). satisfies r c})"
proof -
  let ?m = "{r \<in> rows (hi_db i). \<forall>c \<in> set (query_conditions query). satisfies r c}"
  obtain ys where ys: "hdf5_index_query sq (Some i) query True max_results True = Some (HDF5_OK, map entry_of_row ys)"
      "distinct ys" "set ys \<subseteq> ?m" "length ys = min (unat max_results) (card ?m)"
    using query_rows [OF assms, of i] unfolding matching_def .
  have "set ys = ?m" if "card ?m \<le> unat max_results"
  proof (rule card_subset_eq)
    show "finite ?m" using sql_rows(1) [OF assms(1)] by simp
    show "card (set ys) = card ?m" using that ys(2,4) by (simp add: distinct_card min_absorb2)
  qed (rule ys(3))
  with ys show ?thesis by blast
qed

definition sample_query :: hdf5_query where
  "sample_query = zero_query\<lparr>hq_model_id := 2, hq_created_after := 1000\<rparr>"

theorem index_query_exact_witness:
  "\<exists>ys. hdf5_index_query list_sqlite (Some (sample_index\<lparr>hi_db := [(''r/3.h5'', 3, 1, 100, 512), (''r/7.h5'', 7, 2, 1700000000, 2048)]\<rparr>))
      (Some sample_query) True 10 True = Some (HDF5_OK, map entry_of_row ys) \<and> set ys = {(''r/7.h5'', 7, 2, 1700000000, 2048)}"
proof -
  let ?i = "sample_index\<lparr>hi_db := [(''r/3.h5'', 3, 1, 100, 512), (''r/7.h5'', 7, 2, 1700000000, 2048)]\<rparr>"
  have m: "{r \<in> set (filter row_ok (hi_db ?i)). \<forall>c \<in> set (query_conditions (Some sample_query)). satisfies r c} =
      {(''r/7.h5'', 7, 2, 1700000000, 2048)}"
    by (auto simp: sample_query_def zero_query_def query_conditions_def conditions_of_def int64_def)
  have "times_ok (Some sample_query)" by (simp add: times_ok_def sample_query_def zero_query_def)
  then show ?thesis
    using index_query_exact [OF list_sqlite_laws, of "Some sample_query" 10 ?i] unfolding m by auto
qed


text \<open>
  A task id from \<open>2 ^ 63\<close> on is stored as a negative number and looked up as a positive one: the file
  is added with success and never found.
\<close>

theorem huge_task_id_lost:
  assumes "sql_laws sq rows" "hdf5_index_add_file sq lib h (Some i) (Some path) task_id model_id = (HDF5_OK, Some j)"
    and "2 ^ 63 \<le> unat task_id"
  shows "hdf5_index_get_by_task sq (Some j) task_id True = Some (HDF5_ERR_NOT_FOUND, [])"
proof -
  have "0 < task_id" using assms(3) by (metis le_zero_eq power_not_zero unat_0 word_gt_0 zero_neq_numeral)
  moreover have "fst (snd r) \<noteq> int (unat task_id)" if "r \<in> rows (hi_db j)" for r
  proof
    assume "fst (snd r) = int (unat task_id)"
    moreover have "(2 :: int) ^ 63 \<le> int (unat task_id)"
      using assms(3) by (metis of_nat_le_iff of_nat_numeral of_nat_power)
    ultimately show False using sql_rows(2) [OF assms(1) that] by (cases r) (simp add: int64_def del: of_nat_unat)
  qed
  ultimately show ?thesis using get_by_task_rows [OF assms(1), of task_id j] by auto
qed

section \<open>The files\<close>

text \<open>
  (C37) What is stored for a task is read back: both arrays, up to the last whole \<open>double\<close>, the remaining
  bytes are dropped; the caller's maximum only limits the count that is reported, the library fills
  the buffer with the whole array and writes behind it when it is too small.
\<close>

theorem stored_result_read_back:
  assumes "hdf5_laws lib view" "length (task_file_name dir task_id model_id) < HDF5_MAX_PATH_LEN"
    and "hl_create lib (task_file_name dir task_id model_id) h = (True, h1)" "stat_ok \<or> mkdir_ok"
    and "length input = unat isize" "isize > 0" "length output = unat osize" "osize > 0"
  shows "\<exists>idx' h'. hdf5_store_task_result sq lib stat_ok mkdir_ok (True, True) idx (Some dir) task_id model_id
      (Some input) isize (Some output) osize h = Some (HDF5_OK, idx', h') \<and>
    (\<forall>cap max_elements. hdf5_read_dataset lib (Some (task_file_name dir task_id model_id)) (Some ''/input/data'') (Some cap)
        max_elements True h' =
      (if 8 * (unat isize div 8) \<le> cap
       then Some (HDF5_OK, Some (if int (unat isize div 8) > sint max_elements then max_elements else isize div 8),
         take (8 * (unat isize div 8)) input)
       else None)) \<and>
    (\<forall>cap max_elements. hdf5_read_dataset lib (Some (task_file_name dir task_id model_id)) (Some ''/output/data'') (Some cap)
        max_elements True h' =
      (if 8 * (unat osize div 8) \<le> cap
       then Some (HDF5_OK, Some (if int (unat osize div 8) > sint max_elements then max_elements else osize div 8),
         take (8 * (unat osize div 8)) output)
       else None))"
proof -
  obtain idx' h' f where st: "hdf5_store_task_result sq lib stat_ok mkdir_ok (True, True) idx (Some dir) task_id model_id
      (Some input) isize (Some output) osize h = Some (HDF5_OK, idx', h')"
      "view h' = (view h)(task_file_name dir task_id model_id \<mapsto> f)"
      "f_datasets f = [''/input/data'' \<mapsto> stored isize input, ''/output/data'' \<mapsto> stored osize output]"
    using store_result_view [OF assms] by blast
  have f: "view h' (task_file_name dir task_id model_id) = Some f" by (simp add: st(2))
  have d: "f_datasets f ''/input/data'' = Some (stored isize input)" "f_datasets f ''/output/data'' = Some (stored osize output)"
    by (simp_all add: st(3))
  note rd = read_stored [OF assms(1) f d(1) assms(5), unfolded doubles_def]
    read_stored [OF assms(1) f d(2) assms(7), unfolded doubles_def]
  show ?thesis
    by (rule exI [of _ idx'], rule exI [of _ h']) (simp only: st(1) rd, blast)
qed

theorem stored_result_read_back_witness:
  "\<exists>h'. hdf5_store_task_result list_sqlite map_lib True False (True, True) None (Some ''out'') 7 2 (Some (replicate 16 0)) 16
      (Some [1, 2, 3, 4, 5, 6, 7, 8, 9, 10]) 10 Map.empty = Some (HDF5_OK, None, h') \<and>
    hdf5_read_dataset map_lib (Some ''out/task_7_model_2.h5'') (Some ''/output/data'') (Some 8) 4 True h' =
    Some (HDF5_OK, Some 1, [1, 2, 3, 4, 5, 6, 7, 8])"
proof -
  have name: "task_file_name ''out'' 7 2 = ''out/task_7_model_2.h5''"
    by code_simp
  have c: "hl_create map_lib (task_file_name ''out'' 7 2) Map.empty = (True, [''out/task_7_model_2.h5'' \<mapsto> new_file])"
    by (simp add: map_lib_def name)
  have n: "unat (10 :: size_t) div 8 = 1" "(10 :: size_t) div 8 = 1" "sint (4 :: size_t) = 4"
    by code_simp+
  let ?in = "replicate 16 0 :: u8 list" and ?out = "[1, 2, 3, 4, 5, 6, 7, 8, 9, 10] :: u8 list"
  have fits: "length (task_file_name ''out'' 7 2) < HDF5_MAX_PATH_LEN" by (simp add: name HDF5_MAX_PATH_LEN_def)
  have lens: "length ?in = unat (16 :: size_t)" "length ?out = unat (10 :: size_t)" by simp_all
  obtain idx' h' where st: "hdf5_store_task_result list_sqlite map_lib True False (True, True) None (Some ''out'') 7 2 (Some ?in) 16
      (Some ?out) 10 Map.empty = Some (HDF5_OK, idx', h')"
    and rd: "\<forall>cap max_elements. hdf5_read_dataset map_lib (Some (task_file_name ''out'' 7 2)) (Some ''/output/data'')
      (Some cap) max_elements True h' =
      (if 8 * 1 \<le> cap then Some (HDF5_OK, Some (if int 1 > sint max_elements then max_elements else 1), take (8 * 1) ?out)
       else None)"
    using stored_result_read_back [OF map_lib_laws fits c, of True False ?in 16 ?out 10 list_sqlite None] lens
    unfolding n by fastforce
  have "hdf5_read_dataset map_lib (Some (task_file_name ''out'' 7 2)) (Some ''/output/data'') (Some 8) 4 True h' =
      Some (HDF5_OK, Some 1, [1, 2, 3, 4, 5, 6, 7, 8])"
    using rd [rule_format, of 8 4] by (simp add: n)
  moreover have "idx' = None" using st by (rule store_without_index)
  ultimately show ?thesis using st unfolding name by auto
qed

text \<open>
  A file is put into the index when it is created and before anything is written to it, and \<open>/input\<close> and
  \<open>/output\<close> are groups: the index records no dataset of a task's file.
\<close>

theorem task_files_indexed_without_datasets:
  assumes "hdf5_laws lib view" "length (task_file_name dir task_id model_id) < size_out"
    and "hl_create lib (task_file_name dir task_id model_id) h = (True, h1)" "stat_ok \<or> mkdir_ok"
  shows "\<exists>idx' h'. hdf5_create_task_file sq lib stat_ok mkdir_ok idx (Some dir) task_id model_id True size_out h =
      Some (HDF5_OK, task_file_name dir task_id model_id, idx', h') \<and>
    hf_datasets (scanned_entry lib h' (task_file_name dir task_id model_id) task_id model_id) = []"
proof -
  obtain idx' h' where c: "hdf5_create_task_file sq lib stat_ok mkdir_ok idx (Some dir) task_id model_id True size_out h =
      Some (HDF5_OK, task_file_name dir task_id model_id, idx', h')"
      "view h' = (view h)(task_file_name dir task_id model_id \<mapsto> add_group ''/output'' (add_group ''/input'' new_file))"
    using create_task_file_view [OF assms, of sq idx] by blast
  have "hf_datasets (scanned_entry lib h' (task_file_name dir task_id model_id) task_id model_id) = []"
    by (rule new_file_scanned [OF assms(1), of h' _ "add_group ''/output'' (add_group ''/input'' new_file)"])
      (simp_all add: c(2) add_group_def new_file_def)
  with c(1) show ?thesis by blast
qed

end
