(* ===== verification/Common.thy ===== *)
theory Common
  imports C_String Decimal
begin

text \<open>
  \<open>src/common\<close>: sleeping (\<open>time_utils.h\<close>), logging (\<open>log.c\<close>) and crash reports (\<open>errors.c\<close>).  Texts
  that the C library formats (time stamps, pointers, names of signals, messages of \<open>strerror\<close>) are
  parameters.
\<close>

section \<open>Sleeping\<close>

text \<open>
  What one call of \<open>nanosleep\<close> does: it sleeps to the end, is interrupted and stores the time that
  remains, or fails.  A time is a pair of seconds and nanoseconds.
\<close>

datatype nanosleep_result = Slept | Interrupted "nat \<times> nat" | Failed

definition usleep_request :: "u64 \<Rightarrow> nat \<times> nat" where
  "usleep_request usec = (unat (usec div 1000000), unat (usec mod 1000000 * 1000))"

text \<open>
  The loop, with the results of the calls: the return code and the requests made; \<open>None\<close> when the
  calls given do not suffice.
\<close>

fun usleep_loop :: "nat \<times> nat \<Rightarrow> nanosleep_result list \<Rightarrow> (c_int \<times> (nat \<times> nat) list) option" where
  "usleep_loop req [] = None"
| "usleep_loop req (Slept # rs) = Some (0, [req])"
| "usleep_loop req (Failed # rs) = Some (-1, [req])"
| "usleep_loop req (Interrupted rem # rs) = do { (rc, reqs) \<leftarrow> usleep_loop rem rs; Some (rc, req # reqs) }"

definition usleep :: "u64 \<Rightarrow> nanosleep_result list \<Rightarrow> (c_int \<times> (nat \<times> nat) list) option" where
  "usleep usec rs = usleep_loop (usleep_request usec) rs"

definition sleep_ms :: "u64 \<Rightarrow> nanosleep_result list \<Rightarrow> (c_int \<times> (nat \<times> nat) list) option" where
  "sleep_ms msec rs = usleep (msec * 1000) rs"

section \<open>Logging\<close>

datatype log_level = LOG_LEVEL_DEBUG | LOG_LEVEL_INFO | LOG_LEVEL_WARN | LOG_LEVEL_ERROR | LOG_LEVEL_FATAL

fun log_level_value :: "log_level \<Rightarrow> nat" where
  "log_level_value LOG_LEVEL_DEBUG = 0"
| "log_level_value LOG_LEVEL_INFO = 1"
| "log_level_value LOG_LEVEL_WARN = 2"
| "log_level_value LOG_LEVEL_ERROR = 3"
| "log_level_value LOG_LEVEL_FATAL = 4"

fun level_to_string :: "log_level \<Rightarrow> string" where
  "level_to_string LOG_LEVEL_DEBUG = ''DEBUG''"
| "level_to_string LOG_LEVEL_INFO = ''INFO''"
| "level_to_string LOG_LEVEL_WARN = ''WARN''"
| "level_to_string LOG_LEVEL_ERROR = ''ERROR''"
| "level_to_string LOG_LEVEL_FATAL = ''FATAL''"

text \<open>The open file by its path, the threshold, and the texts of the files.\<close>

record logger =
  lg_file :: "string option"
  lg_level :: log_level
  lg_text :: "string \<Rightarrow> string"

definition log_init :: "string option \<Rightarrow> log_level \<Rightarrow> (string \<Rightarrow> bool) \<Rightarrow> logger \<Rightarrow> c_int \<times> logger" where
  "log_init path level fopen_ok lg =
     (if lg_file lg \<noteq> None then (0, lg)
      else let p = (case path of None \<Rightarrow> ''program.log'' | Some s \<Rightarrow> s) in
        if \<not> fopen_ok p then (-1, lg)
        else (0, lg\<lparr>lg_file := Some p, lg_level := level\<rparr>))"

definition log_shutdown :: "logger \<Rightarrow> logger" where
  "log_shutdown lg = lg\<lparr>lg_file := None\<rparr>"

definition log_line :: "log_level \<Rightarrow> string \<Rightarrow> int \<Rightarrow> string \<Rightarrow> string \<Rightarrow> string" where
  "log_line level file line stamp text =
     ''['' @ stamp @ ''] '' @ level_to_string level @ replicate (5 - length (level_to_string level)) (CHR '' '') @
     '' '' @ file @ '':'' @ dec_int line @ '' | '' @ text @ [CHR 0x0A]"

text \<open>The first component says whether the call returns; a fatal message ends the program.\<close>

definition log_write :: "log_level \<Rightarrow> string \<Rightarrow> int \<Rightarrow> string \<Rightarrow> string \<Rightarrow> logger \<Rightarrow> bool \<times> logger" where
  "log_write level file line stamp text lg =
     (case lg_file lg of
        None \<Rightarrow> (True, lg)
      | Some p \<Rightarrow>
          if log_level_value level < log_level_value (lg_level lg) then (True, lg)
          else (level \<noteq> LOG_LEVEL_FATAL,
            lg\<lparr>lg_text := (lg_text lg)(p := lg_text lg p @ log_line level file line stamp text)\<rparr>))"

section \<open>Crash reports\<close>

datatype crash_signal = SIGSEGV | SIGABRT | SIGFPE | SIGILL | SIGBUS

definition LOG_TAIL_BYTES :: nat where "LOG_TAIL_BYTES = 16 * 1024"
definition LOG_PATH_LEN :: nat where "LOG_PATH_LEN = 4096"

text \<open>
  The state of the reporter, the log, the report files, what was printed for the user and the
  commands that were run.
\<close>

record reporter =
  rp_installed :: bool
  rp_handling :: bool
  rp_url :: "string option"
  rp_log_path :: "char list"
  rp_handlers :: "crash_signal \<Rightarrow> bool"
  rp_logger :: logger
  rp_reports :: "string \<rightharpoonup> string"
  rp_stderr :: "string list"
  rp_commands :: "string list"

text \<open>
  The environment of one event.  \<open>ev_log\<close> is the log file as \<open>open\<close> finds it, with its two seeks and
  the results of \<open>read\<close>; \<open>ev_system\<close> is what \<open>system\<close> returns.
\<close>

record log_source =
  ls_size_ok :: bool
  ls_seek_ok :: bool
  ls_content :: string
  ls_reads :: "int list"

record crash_env =
  ev_file :: string
  ev_stamp :: string
  ev_log_stamp :: string
  ev_pid :: int
  ev_asprintf :: bool
  ev_fopen :: "string \<Rightarrow> bool"
  ev_strsignal :: string
  ev_fault :: "string option"
  ev_fault_text :: string
  ev_uname :: "string option"
  ev_frames :: int
  ev_symbols :: "string list option"
  ev_log :: "string + log_source"
  ev_tty :: bool
  ev_answer :: "string option"
  ev_curl :: "bool \<times> bool"
  ev_asprintf_cmd :: bool
  ev_system :: int

text \<open>The reading loop: the bytes delivered, up to an end of file or an error.\<close>

fun tail_loop :: "int list \<Rightarrow> string \<Rightarrow> string" where
  "tail_loop [] rest = []"
| "tail_loop (r # rs) rest = (if r \<le> 0 then [] else take (nat r) rest @ tail_loop rs (drop (nat r) rest))"

abbreviation NL :: string where "NL \<equiv> [CHR 0x0A]"
abbreviation QT :: string where "QT \<equiv> [CHR 0x27]"
abbreviation DQ :: string where "DQ \<equiv> [CHR 0x22]"

definition write_log_tail :: "string \<Rightarrow> string + log_source \<Rightarrow> string" where
  "write_log_tail log_path src =
     (case src of
        Inl err \<Rightarrow> ''Could not open log file '' @ QT @ log_path @ QT @ '': '' @ err @ NL
      | Inr f \<Rightarrow>
          if \<not> ls_size_ok f \<or> \<not> ls_seek_ok f then ''Could not seek in log file '' @ QT @ log_path @ QT @ NL
          else let size = length (ls_content f);
                   start = (if size > LOG_TAIL_BYTES then size - LOG_TAIL_BYTES else 0)
               in NL @ ''----- Log tail (last '' @ dec_nat LOG_TAIL_BYTES @ '' bytes) -----'' @ NL @
                  tail_loop (ls_reads f) (drop start (ls_content f)) @
                  NL @ ''----- End log tail -----'' @ NL)"

text \<open>The name of the report file, with colons and plus signs replaced.\<close>

definition report_path :: "int \<Rightarrow> string \<Rightarrow> string" where
  "report_path pid stamp =
     map (\<lambda>c. if c = CHR '':'' \<or> c = CHR ''+'' then CHR ''-'' else c)
       (''/tmp/crash-report-'' @ dec_int pid @ ''-'' @ stamp @ ''.log'')"

fun number_lines :: "nat \<Rightarrow> string list \<Rightarrow> string" where
  "number_lines i [] = []"
| "number_lines i (s # ss) = dec_nat i @ '': '' @ s @ NL @ number_lines (Suc i) ss"

definition report_text :: "crash_env \<Rightarrow> string option \<Rightarrow> int \<Rightarrow> string \<Rightarrow> string" where
  "report_text ev header signum log_path =
     ''Crash report generated: '' @ ev_stamp ev @ NL @
     ''PID: '' @ dec_int (ev_pid ev) @ NL @
     ''Header: '' @ (case header of None \<Rightarrow> ''(none)'' | Some h \<Rightarrow> h) @ NL @
     (if signum \<noteq> 0 then ''Signal: '' @ dec_int signum @ '' ('' @ ev_strsignal ev @ '')'' @ NL else []) @
     (case ev_fault ev of None \<Rightarrow> [] | Some a \<Rightarrow> ''Fault address: '' @ a @ NL) @
     (case ev_uname ev of None \<Rightarrow> [] | Some u \<Rightarrow> ''System: '' @ u @ NL) @
     NL @ ''Stack trace (frames: '' @ dec_int (ev_frames ev) @ '')'' @ NL @
     (case ev_symbols ev of None \<Rightarrow> ''No backtrace symbols available'' @ NL | Some ss \<Rightarrow> number_lines 0 ss) @
     write_log_tail log_path (ev_log ev)"

text \<open>
  \<open>create_report_file\<close>: the path, or NULL.  The path of the log is a string in a buffer of the
  reporter; without a terminator the call is undefined.
\<close>

definition create_report_file :: "crash_env \<Rightarrow> string option \<Rightarrow> int \<Rightarrow> reporter \<Rightarrow> (string option \<times> reporter) option" where
  "create_report_file ev header signum rp =
     (if \<not> ev_asprintf ev then Some (None, rp)
      else let path = report_path (ev_pid ev) (ev_stamp ev) in
        if \<not> ev_fopen ev path then Some (None, rp)
        else do {
          log_path \<leftarrow> c_str (rp_log_path rp);
          Some (Some path, rp\<lparr>rp_reports := (rp_reports rp)(path \<mapsto> report_text ev header signum log_path)\<rparr>)
        })"

text \<open>\<open>WEXITSTATUS\<close> takes the second byte of the status.\<close>

definition WEXITSTATUS :: "int \<Rightarrow> int" where
  "WEXITSTATUS status = status div 256 mod 256"

definition curl_command :: "string \<Rightarrow> string \<Rightarrow> string" where
  "curl_command report url =
     ''curl -s -S -X POST -F '' @ DQ @ ''report=@'' @ report @ DQ @ '' '' @ DQ @ url @ DQ @ '' >/dev/null 2>&1''"

definition try_post_report_with_curl :: "crash_env \<Rightarrow> string \<Rightarrow> reporter \<Rightarrow> int \<times> reporter" where
  "try_post_report_with_curl ev path rp =
     (case rp_url rp of
        None \<Rightarrow> (-1, rp)
      | Some url \<Rightarrow>
          if \<not> fst (ev_curl ev) \<and> \<not> snd (ev_curl ev) then (-2, rp)
          else if \<not> ev_asprintf_cmd ev then (-3, rp)
          else let rp' = rp\<lparr>rp_commands := rp_commands rp @ [curl_command path url]\<rparr> in
            if ev_system ev = -1 then (-4, rp') else (WEXITSTATUS (ev_system ev), rp'))"

definition prompt_user_yesno :: "crash_env \<Rightarrow> string \<Rightarrow> reporter \<Rightarrow> bool \<times> reporter" where
  "prompt_user_yesno ev prompt rp =
     (if \<not> ev_tty ev then (False, rp)
      else (case ev_answer ev of
          None \<Rightarrow> False
        | Some buf \<Rightarrow> buf = [] \<or> hd buf \<in> {CHR 0x0A, NUL, CHR ''y'', CHR ''Y''},
        rp\<lparr>rp_stderr := rp_stderr rp @ [prompt @ '' [Y/n]: '']\<rparr>))"

text \<open>A message of the reporter to the log, and one to the user.\<close>

definition report_log :: "crash_env \<Rightarrow> log_level \<Rightarrow> int \<Rightarrow> string \<Rightarrow> reporter \<Rightarrow> reporter" where
  "report_log ev level line text rp =
     rp\<lparr>rp_logger := snd (log_write level (ev_file ev) line (ev_log_stamp ev) text (rp_logger rp))\<rparr>"

definition tell_user :: "string \<Rightarrow> reporter \<Rightarrow> reporter" where
  "tell_user text rp = rp\<lparr>rp_stderr := rp_stderr rp @ [text]\<rparr>"

definition offer_upload :: "crash_env \<Rightarrow> string \<Rightarrow> reporter \<Rightarrow> reporter" where
  "offer_upload ev path rp =
     (let (yes, rp1) = prompt_user_yesno ev ''Would you like to submit this crash report to the developers?'' rp in
      if yes
      then let (rc, rp2) = try_post_report_with_curl ev path rp1 in
        if rc = 0
        then tell_user (''Report submitted successfully.'' @ NL) (report_log ev LOG_LEVEL_INFO 208
          (''Report successfully posted to '' @ (case rp_url rp2 of None \<Rightarrow> ''(none)'' | Some u \<Rightarrow> u)) rp2)
        else tell_user (''Automatic upload failed. Please email the file to the developers.'' @ NL)
          (report_log ev LOG_LEVEL_WARN 211 (''Report upload failed (curl exit='' @ dec_int rc @ ''). Ask user to send '' @
            path @ '' manually.'') rp2)
      else report_log ev LOG_LEVEL_INFO 216 (''User declined to upload crash report; saved at '' @ path)
        (tell_user (''Crash report saved to: '' @ path @ NL) rp1))"

definition event_text :: "crash_env \<Rightarrow> string option \<Rightarrow> int \<Rightarrow> string" where
  "event_text ev header signum =
     ''Unhandled event: '' @ (case header of None \<Rightarrow> ''exception'' | Some h \<Rightarrow> h) @ '' (signal='' @ dec_int signum @
     '' addr='' @ ev_fault_text ev @ ''). Creating crash report.''"

definition created_text :: "string \<Rightarrow> string" where
  "created_text path = NL @ ''A fatal error occurred. Crash report created at:'' @ NL @ ''  '' @ path @ NL"

definition handle_crash_event :: "crash_env \<Rightarrow> string option \<Rightarrow> int \<Rightarrow> reporter \<Rightarrow> reporter option" where
  "handle_crash_event ev header signum rp =
     (if rp_handling rp then Some rp
      else do {
        let rp1 = report_log ev LOG_LEVEL_ERROR 192 (event_text ev header signum) (rp\<lparr>rp_handling := True\<rparr>);
        (path, rp2) \<leftarrow> create_report_file ev header signum rp1;
        case path of
          None \<Rightarrow> Some ((report_log ev LOG_LEVEL_ERROR 197 ''Failed to create crash report file'' rp2)\<lparr>rp_handling := False\<rparr>)
        | Some p \<Rightarrow>
            let rp3 = tell_user (created_text p) rp2;
                rp4 = offer_upload ev p rp3
            in Some (rp4\<lparr>rp_logger := log_shutdown (rp_logger rp4), rp_handling := False\<rparr>)
      })"

text \<open>
  The handler of a signal: afterwards the default action is in place and the signal is raised again,
  which ends the program.
\<close>

definition crash_signal_handler :: "crash_env \<Rightarrow> crash_signal \<Rightarrow> int \<Rightarrow> reporter \<Rightarrow> reporter option" where
  "crash_signal_handler ev sig signum rp = do {
     rp' \<leftarrow> handle_crash_event ev (Some ''signal'') signum
       (tell_user (''Fatal signal received. Generating crash report...'' @ NL) rp);
     Some (rp'\<lparr>rp_handlers := (rp_handlers rp')(sig := False)\<rparr>)
   }"

text \<open>\<open>file\<close> is the name of the source file as the compiler has it, \<open>env\<close> the environment variable.\<close>

definition error_reporter_install ::
    "string \<Rightarrow> string \<Rightarrow> bool \<Rightarrow> string option \<Rightarrow> string option \<Rightarrow> string option \<Rightarrow> reporter \<Rightarrow> (c_int \<times> reporter) option" where
  "error_reporter_install file stamp strdup_ok report_url log_path env rp =
     (if rp_installed rp then Some (0, rp)
      else do {
        buf \<leftarrow> (case log_path of
            Some p \<Rightarrow> do {
              b \<leftarrow> c_strncpy (rp_log_path rp) p (LOG_PATH_LEN - 1);
              if LOG_PATH_LEN - 1 < length b then Some (b[LOG_PATH_LEN - 1 := NUL]) else None
            }
          | None \<Rightarrow> (case env of
              Some (c # cs) \<Rightarrow> c_strncpy (rp_log_path rp) (c # cs) (LOG_PATH_LEN - 1)
            | _ \<Rightarrow> Some (rp_log_path rp)));
        let rp1 = rp\<lparr>rp_url := (case report_url of None \<Rightarrow> rp_url rp | Some u \<Rightarrow> if strdup_ok then Some u else None), rp_log_path := buf,
          rp_handlers := (\<lambda>_. True), rp_installed := True\<rparr>;
        shown \<leftarrow> c_str (rp_log_path rp1);
        Some (0, rp1\<lparr>rp_logger := snd (log_write LOG_LEVEL_INFO file 327 stamp
          (''Error reporter installed (log_path='' @ shown @ '' report_url='' @
           (case rp_url rp1 of None \<Rightarrow> ''(none)'' | Some u \<Rightarrow> u) @ '')'') (rp_logger rp1))\<rparr>)
      })"

definition error_reporter_uninstall :: "string \<Rightarrow> string \<Rightarrow> reporter \<Rightarrow> reporter" where
  "error_reporter_uninstall file stamp rp =
     (if \<not> rp_installed rp then rp
      else rp\<lparr>rp_handlers := (\<lambda>_. False), rp_installed := False,
        rp_logger := snd (log_write LOG_LEVEL_INFO file 339 stamp ''Error reporter uninstalled'' (rp_logger rp))\<rparr>)"

end
