(* ===== verification/Common_Theorems.thy ===== *)
theory Common_Theorems
  imports Common
begin

text \<open>
  Properties of sleeping, logging and crash reports.
\<close>

section \<open>Sleeping\<close>

definition nanoseconds :: "nat \<times> nat \<Rightarrow> nat" where
  "nanoseconds t = fst t * 1000000000 + snd t"

text \<open>The time spent in the calls: what was requested, less what remained.\<close>

fun time_slept :: "nat \<times> nat \<Rightarrow> nanosleep_result list \<Rightarrow> nat" where
  "time_slept req [] = 0"
| "time_slept req (Slept # rs) = nanoseconds req"
| "time_slept req (Failed # rs) = 0"
| "time_slept req (Interrupted rem # rs) = (nanoseconds req - nanoseconds rem) + time_slept rem rs"

text \<open>An interrupted call stores a valid time that is not longer than the one requested.\<close>

fun remainders_ok :: "nat \<times> nat \<Rightarrow> nanosleep_result list \<Rightarrow> bool" where
  "remainders_ok req [] = True"
| "remainders_ok req (Slept # rs) = True"
| "remainders_ok req (Failed # rs) = True"
| "remainders_ok req (Interrupted rem # rs) \<longleftrightarrow>
     nanoseconds rem \<le> nanoseconds req \<and> snd rem < 1000000000 \<and> remainders_ok rem rs"

lemma usleep_loop_time:
  "remainders_ok req rs \<Longrightarrow> usleep_loop req rs = Some (0, reqs) \<Longrightarrow> time_slept req rs = nanoseconds req"
  by (induction req rs arbitrary: reqs rule: usleep_loop.induct) (auto split: bind_splits)

lemma usleep_loop_valid:
  "remainders_ok req rs \<Longrightarrow> snd req < 1000000000 \<Longrightarrow> usleep_loop req rs = Some (rc, reqs) \<Longrightarrow>
    \<forall>r \<in> set reqs. snd r < 1000000000"
  by (induction req rs arbitrary: reqs rule: usleep_loop.induct) (fastforce split: bind_splits)+

lemma usleep_loop_returns: "r \<in> set rs \<Longrightarrow> \<forall>rem. r \<noteq> Interrupted rem \<Longrightarrow> \<exists>rc reqs. usleep_loop req rs = Some (rc, reqs)"
  by (induction req rs rule: usleep_loop.induct) auto

lemma usleep_request_exact:
  "nanoseconds (usleep_request usec) = unat usec * 1000" "snd (usleep_request usec) < 1000000000"
proof -
  let ?s = "unat usec div 1000000" and ?u = "unat usec mod 1000000"
  have u: "?u * 1000 < 2 ^ 64" by (rule le_less_trans [of _ "1000000 * 1000"]) simp_all
  have "unat (usec mod 1000000 * 1000) = ?u * 1000"
    using u by (simp add: unat_mult_lem [THEN iffD1] unat_mod unsigned_of_nat)
  then have r: "usleep_request usec = (?s, ?u * 1000)" by (simp add: usleep_request_def unat_div)
  show "snd (usleep_request usec) < 1000000000" by (simp add: r)
  show "nanoseconds (usleep_request usec) = unat usec * 1000"
    unfolding r nanoseconds_def fst_conv snd_conv using div_mult_mod_eq [of "unat usec" 1000000] by linarith
qed

text \<open>
  Sleeping is exact: unless the library refuses the request, the calls of \<open>nanosleep\<close> together
  take the microseconds that were asked for, whatever interrupts them, and every request is a valid
  time; the function returns as soon as one call is not interrupted.  \<open>sleep_ms\<close> is exact up to the
  number of milliseconds whose microseconds fit into 64 bits.
\<close>

theorem sleep_exact:
  assumes "remainders_ok (usleep_request (msec * 1000)) rs" "unat msec * 1000 < 2 ^ 64"
  shows "(r \<in> set rs \<and> (\<forall>rem. r \<noteq> Interrupted rem) \<longrightarrow> (\<exists>rc reqs. sleep_ms msec rs = Some (rc, reqs))) \<and>
    (sleep_ms msec rs = Some (rc, reqs) \<longrightarrow> (\<forall>t \<in> set reqs. snd t < 1000000000) \<and>
      (rc = 0 \<longrightarrow> time_slept (usleep_request (msec * 1000)) rs = unat msec * 1000000))"
proof -
  have "unat (msec * 1000) = unat msec * 1000"
    using assms(2) by (simp add: unat_mult_lem [THEN iffD1] unsigned_of_nat)
  then show ?thesis
    using usleep_loop_returns [of r rs "usleep_request (msec * 1000)"]
      usleep_loop_valid [OF assms(1) usleep_request_exact(2), of rc reqs]
      usleep_loop_time [OF assms(1), of reqs] usleep_request_exact(1) [of "msec * 1000"]
    by (auto simp: sleep_ms_def usleep_def)
qed

theorem sleep_exact_witness:
  "sleep_ms 3 [Interrupted (0, 1000000), Slept] = Some (0, [(0, 3000000), (0, 1000000)]) \<and>
   time_slept (usleep_request (3 * 1000)) [Interrupted (0, 1000000), Slept] = 3000000"
proof -
  have r: "usleep_request (3 * 1000) = (0, 3000000)" by (simp add: usleep_request_def)
  then have run: "sleep_ms 3 [Interrupted (0, 1000000), Slept] = Some (0, [(0, 3000000), (0, 1000000)])"
    by (simp add: sleep_ms_def usleep_def)
  have "remainders_ok (usleep_request (3 * 1000)) [Interrupted (0, 1000000), Slept]"
    unfolding r by (simp add: nanoseconds_def)
  from sleep_exact [OF this, of Slept 0 "[(0, 3000000), (0, 1000000)]"] run show ?thesis by simp
qed

section \<open>Logging\<close>

text \<open>A sequence of messages: the log holds the lines of those at or above the threshold, in order.\<close>

fun log_all :: "(log_level \<times> string \<times> int \<times> string \<times> string) list \<Rightarrow> logger \<Rightarrow> bool \<times> logger" where
  "log_all [] lg = (True, lg)"
| "log_all ((level, file, line, stamp, text) # ms) lg =
     (let (returns, lg') = log_write level file line stamp text lg in
      if returns then log_all ms lg' else (False, lg'))"

lemma log_all_text:
  assumes "lg_file lg = Some p" "\<forall>m \<in> set ms. fst m \<noteq> LOG_LEVEL_FATAL"
  shows "log_all ms lg = (True, lg\<lparr>lg_text := (lg_text lg)(p := lg_text lg p @
    concat (map (\<lambda>(level, file, line, stamp, text). log_line level file line stamp text)
      (filter (\<lambda>m. log_level_value (lg_level lg) \<le> log_level_value (fst m)) ms)))\<rparr>)"
  using assms
proof (induction ms arbitrary: lg)
  case (Cons m ms)
  obtain level name line stamp body where m: "m = (level, name, line, stamp, body)" by (cases m)
  have prems: "level \<noteq> LOG_LEVEL_FATAL" "\<forall>m \<in> set ms. fst m \<noteq> LOG_LEVEL_FATAL" "lg_file lg = Some p"
    using Cons.prems by (auto simp: m)
  show ?case
  proof (cases "log_level_value level < log_level_value (lg_level lg)")
    case True
    then show ?thesis using Cons.IH [OF prems(3,2)] prems(3) by (simp add: m log_write_def)
  next
    case False
    let ?lg = "lg\<lparr>lg_text := (lg_text lg)(p := lg_text lg p @ log_line level name line stamp body)\<rparr>"
    have "log_write level name line stamp body lg = (True, ?lg)" using False prems by (simp add: log_write_def)
    then show ?thesis using Cons.IH [of ?lg] prems False by (simp add: m not_less cong: if_cong)
  qed
qed simp

section \<open>Crash reports\<close>

text \<open>\<open>read\<close> delivers between 1 and the remaining number of bytes until the end of the file.\<close>

fun reads_to_end :: "int list \<Rightarrow> nat \<Rightarrow> bool" where
  "reads_to_end [] n \<longleftrightarrow> n = 0"
| "reads_to_end (r # rs) n \<longleftrightarrow> (if n = 0 then r = 0 else 0 < r \<and> nat r \<le> n \<and> reads_to_end rs (n - nat r))"

lemma tail_loop_all: "reads_to_end rs (length rest) \<Longrightarrow> tail_loop rs rest = rest"
  by (induction rs rest rule: tail_loop.induct) (auto split: if_splits)

lemma offer_upload_frame:
  "rp_reports (offer_upload ev p rp) = rp_reports rp" "rp_handling (offer_upload ev p rp) = rp_handling rp"
  "rp_installed (offer_upload ev p rp) = rp_installed rp"
  by (auto simp: offer_upload_def prompt_user_yesno_def try_post_report_with_curl_def tell_user_def report_log_def
      Let_def split: prod.splits option.splits if_splits)

lemma offer_upload_commands:
  "rp_commands (offer_upload ev p rp) = rp_commands rp \<or>
   (\<exists>url. rp_url rp = Some url \<and> ev_tty ev \<and> rp_commands (offer_upload ev p rp) = rp_commands rp @ [curl_command p url])"
  by (auto simp: offer_upload_def prompt_user_yesno_def try_post_report_with_curl_def tell_user_def report_log_def
      Let_def split: prod.splits option.splits if_splits)

lemma handle_crash_no_file:
  assumes "\<not> rp_handling rp" "\<not> (ev_asprintf ev \<and> ev_fopen ev (report_path (ev_pid ev) (ev_stamp ev)))"
  shows "\<exists>rp'. handle_crash_event ev header signum rp = Some rp' \<and> \<not> rp_handling rp' \<and>
    rp_reports rp' = rp_reports rp \<and> rp_commands rp' = rp_commands rp"
  using assms by (auto simp: handle_crash_event_def create_report_file_def report_log_def Let_def)

lemma handle_crash_file:
  assumes "\<not> rp_handling rp" "ev_asprintf ev" "ev_fopen ev (report_path (ev_pid ev) (ev_stamp ev))"
    and "c_str (rp_log_path rp) = Some log_path"
  shows "\<exists>rp'. handle_crash_event ev header signum rp = Some rp' \<and> \<not> rp_handling rp' \<and> lg_file (rp_logger rp') = None \<and>
    rp_reports rp' = (rp_reports rp)(report_path (ev_pid ev) (ev_stamp ev) \<mapsto> report_text ev header signum log_path) \<and>
    (rp_commands rp' = rp_commands rp \<or> (ev_tty ev \<and> (\<exists>c. rp_commands rp' = rp_commands rp @ [c])))"
proof -
  define rp1 where "rp1 = report_log ev LOG_LEVEL_ERROR 192 (event_text ev header signum) (rp\<lparr>rp_handling := True\<rparr>)"
  let ?path = "report_path (ev_pid ev) (ev_stamp ev)"
  define rp3 where "rp3 = tell_user (created_text ?path)
    (rp1\<lparr>rp_reports := (rp_reports rp1)(?path \<mapsto> report_text ev header signum log_path)\<rparr>)"
  have rp1: "rp_log_path rp1 = rp_log_path rp" "rp_reports rp1 = rp_reports rp" "rp_commands rp1 = rp_commands rp"
    by (simp_all add: rp1_def report_log_def)
  then have rp3: "rp_reports rp3 = (rp_reports rp)(?path \<mapsto> report_text ev header signum log_path)"
    "rp_commands rp3 = rp_commands rp"
    by (simp_all add: rp3_def tell_user_def)
  have "create_report_file ev header signum rp1 =
      Some (Some ?path, rp1\<lparr>rp_reports := (rp_reports rp1)(?path \<mapsto> report_text ev header signum log_path)\<rparr>)"
    using assms(2-4) by (simp add: create_report_file_def rp1(1) Let_def)
  then have "handle_crash_event ev header signum rp = Some ((offer_upload ev ?path rp3)
      \<lparr>rp_logger := log_shutdown (rp_logger (offer_upload ev ?path rp3)), rp_handling := False\<rparr>)"
    using assms(1) by (simp add: handle_crash_event_def Let_def flip: rp1_def) (simp add: rp3_def)
  then show ?thesis
    using offer_upload_frame(1) [of ev ?path rp3] offer_upload_commands [of ev ?path rp3] rp3
    by (auto simp: log_shutdown_def)
qed

text \<open>
  (C33) A crash is reported once and completely: an event that comes while another is handled changes
  nothing.  Otherwise, when the report file can be made, exactly that file is written, under a name
  without colons and plus signs, and ends with the last 16 KiB of the log; the log is closed, at most
  one upload is started, and only when the user sits at a terminal; and the reporter is ready for the
  next event, also when the file could not be made.
\<close>

theorem crash_reported:
  assumes "c_str (rp_log_path rp) = Some log_path"
    and "ev_log ev = Inr src" "ls_size_ok src" "ls_seek_ok src"
    and "reads_to_end (ls_reads src) (min LOG_TAIL_BYTES (length (ls_content src)))"
  shows "handle_crash_event ev header signum (rp\<lparr>rp_handling := True\<rparr>) = Some (rp\<lparr>rp_handling := True\<rparr>) \<and>
    (\<exists>rp'. handle_crash_event ev header signum (rp\<lparr>rp_handling := False\<rparr>) = Some rp' \<and> \<not> rp_handling rp' \<and>
      (let path = report_path (ev_pid ev) (ev_stamp ev) in
       CHR '':'' \<notin> set path \<and> CHR ''+'' \<notin> set path \<and>
       (if ev_asprintf ev \<and> ev_fopen ev path
        then lg_file (rp_logger rp') = None \<and>
          (\<exists>front. rp_reports rp' = (rp_reports rp)(path \<mapsto> front @
             drop (length (ls_content src) - LOG_TAIL_BYTES) (ls_content src) @ NL @ ''----- End log tail -----'' @ NL)) \<and>
          (rp_commands rp' = rp_commands rp \<or> (ev_tty ev \<and> (\<exists>c. rp_commands rp' = rp_commands rp @ [c])))
        else rp_reports rp' = rp_reports rp \<and> rp_commands rp' = rp_commands rp)))"
proof -
  let ?path = "report_path (ev_pid ev) (ev_stamp ev)"
  let ?n = "length (ls_content src)"
  have start: "(if ?n > LOG_TAIL_BYTES then ?n - LOG_TAIL_BYTES else 0) = ?n - LOG_TAIL_BYTES" by simp
  have "tail_loop (ls_reads src) (drop (?n - LOG_TAIL_BYTES) (ls_content src)) = drop (?n - LOG_TAIL_BYTES) (ls_content src)"
    using assms(5) by (intro tail_loop_all) (simp add: min_def split: if_splits)
  then have "\<exists>front. write_log_tail log_path (ev_log ev) = front @ drop (?n - LOG_TAIL_BYTES) (ls_content src) @
      NL @ ''----- End log tail -----'' @ NL"
    using assms(2-4) unfolding write_log_tail_def by (simp add: start Let_def)
  then have tail: "\<exists>front. report_text ev header signum log_path = front @ drop (?n - LOG_TAIL_BYTES) (ls_content src) @
      NL @ ''----- End log tail -----'' @ NL"
    unfolding report_text_def by (metis append.assoc)
  have path: "CHR '':'' \<notin> set ?path" "CHR ''+'' \<notin> set ?path" by (auto simp: report_path_def)
  let ?rp = "rp\<lparr>rp_handling := False\<rparr>"
  have busy: "handle_crash_event ev header signum (rp\<lparr>rp_handling := True\<rparr>) = Some (rp\<lparr>rp_handling := True\<rparr>)"
    by (simp add: handle_crash_event_def)
  show ?thesis
  proof (cases "ev_asprintf ev \<and> ev_fopen ev ?path")
    case True
    with handle_crash_file [of ?rp ev log_path header signum] assms(1) obtain rp' where
      "handle_crash_event ev header signum ?rp = Some rp'" "\<not> rp_handling rp'" "lg_file (rp_logger rp') = None"
      "rp_reports rp' = (rp_reports rp)(?path \<mapsto> report_text ev header signum log_path)"
      "rp_commands rp' = rp_commands rp \<or> (ev_tty ev \<and> (\<exists>c. rp_commands rp' = rp_commands rp @ [c]))" by auto
    with True busy path tail show ?thesis by (auto simp: Let_def)
  next
    case False
    with handle_crash_no_file [of ?rp ev header signum] busy path show ?thesis by (auto simp: Let_def)
  qed
qed

text \<open>An event with a short log, for a reporter without an upload address.\<close>

definition demo_log_source :: log_source where
  "demo_log_source = \<lparr>ls_size_ok = True, ls_seek_ok = True, ls_content = ''started'', ls_reads = [4, 3, 0]\<rparr>"

definition demo_event :: crash_env where
  "demo_event = \<lparr>ev_file = ''errors.c'', ev_stamp = ''2024-01-01T10:00:00+0000'', ev_log_stamp = [], ev_pid = 42,
     ev_asprintf = True, ev_fopen = (\<lambda>_. True), ev_strsignal = ''Aborted'', ev_fault = None, ev_fault_text = ''(nil)'',
     ev_uname = None, ev_frames = 0, ev_symbols = None, ev_log = Inr demo_log_source, ev_tty = False, ev_answer = None,
     ev_curl = (False, False), ev_asprintf_cmd = True, ev_system = 0\<rparr>"

definition demo_reporter :: reporter where
  "demo_reporter = \<lparr>rp_installed = True, rp_handling = False, rp_url = None, rp_log_path = ''a.log'' @ [NUL],
     rp_handlers = (\<lambda>_. True), rp_logger = \<lparr>lg_file = None, lg_level = LOG_LEVEL_INFO, lg_text = (\<lambda>_. [])\<rparr>,
     rp_reports = Map.empty, rp_stderr = [], rp_commands = []\<rparr>"

theorem crash_reported_witness:
  "\<exists>rp'. handle_crash_event demo_event None 6 (demo_reporter\<lparr>rp_handling := False\<rparr>) = Some rp' \<and> \<not> rp_handling rp' \<and>
     dom (rp_reports rp') = {report_path 42 ''2024-01-01T10:00:00+0000''}"
proof -
  have "c_str (rp_log_path demo_reporter) = Some ''a.log''" "ev_log demo_event = Inr demo_log_source"
    "ls_size_ok demo_log_source" "ls_seek_ok demo_log_source"
    "reads_to_end (ls_reads demo_log_source) (min LOG_TAIL_BYTES (length (ls_content demo_log_source)))"
    by (simp_all add: demo_reporter_def demo_event_def demo_log_source_def c_str_def LOG_TAIL_BYTES_def)
  from crash_reported [OF this, of None 6] obtain rp' where
    "handle_crash_event demo_event None 6 (demo_reporter\<lparr>rp_handling := False\<rparr>) = Some rp'" "\<not> rp_handling rp'"
    "\<exists>t. rp_reports rp' = (rp_reports demo_reporter)(report_path (ev_pid demo_event) (ev_stamp demo_event) \<mapsto> t)"
    by (auto simp: Let_def demo_event_def split: if_splits)
  then show ?thesis by (auto simp: demo_event_def demo_reporter_def split: if_splits)
qed

text \<open>
  An upload whose \<open>curl\<close> was killed by a signal counts as successful: the status of such a process
  has no exit code, and the byte where it would be is 0.
\<close>

lemma killed_upload_succeeds:
  assumes "rp_url rp = Some url" "fst (ev_curl ev)" "ev_asprintf_cmd ev" "0 < signum" "signum < 128" "ev_system ev = signum"
  shows "fst (try_post_report_with_curl ev path rp) = 0"
  using assms by (simp add: try_post_report_with_curl_def WEXITSTATUS_def Let_def)

end
