(* ===== verification/Example_Runtime.thy ===== *)
theory Example_Runtime
  imports Queue_Client Task_Queue_Threads Resource_Limits_Props
begin

text \<open>
  \<open>examples/minimal_cluster/runtime_example.c\<close>: the program that shows task queue and resource
  limits at work.  An example yields the values that it prints, in the order in which it prints
  them; the wording of the lines and the log messages are left out.  \<open>malloc\<close> is the allocator of
  queue nodes, the outcome \<open>None\<close> is undefined behaviour or a loop that does not end.
\<close>

section \<open>Example 1: the operations of a queue\<close>

text \<open>A task of the examples; the fields that the initialiser does not name are zero.\<close>

definition example_task :: "u64 \<Rightarrow> u32 \<Rightarrow> u32 \<Rightarrow> u32 \<Rightarrow> task_t" where
  "example_task tid model flags timeout = zero_task
     \<lparr>t_task_id := tid, t_model_id := model, t_api_version := API_VERSION_CURRENT, t_flags := flags,
      t_timeout_secs := timeout\<rparr>"

text \<open>\<open>(task.flags & TASK_FLAG_HIGH_PRIORITY) ? "HIGH" : "NORMAL"\<close>\<close>

definition priority_name :: "task_t \<Rightarrow> string" where
  "priority_name t = (if t_flags t AND TASK_FLAG_HIGH_PRIORITY \<noteq> 0 then ''HIGH'' else ''NORMAL'')"

definition basic_task :: "nat \<Rightarrow> task_t" where
  "basic_task i = example_task (of_nat i + 1) 100 (if i mod 2 = 0 then TASK_FLAG_HIGH_PRIORITY else 0) 60"

text \<open>\<open>while (task_queue_dequeue(queue, &task) == 0) ...\<close> with the tasks that it delivers.\<close>

partial_function (option) dequeue_all :: "task_queue \<Rightarrow> (task_t list \<times> task_queue) option" where
  "dequeue_all q = do {
     (rc, q', t) \<leftarrow> heap_deq q;
     if rc = 0 then do { (ts, q'') \<leftarrow> dequeue_all q'; Some (t # ts, q'') } else Some ([], q')
   }"

record basic_report =
  br_enqueued :: "(u64 \<times> string) list"
  br_stats :: task_queue_stats
  br_dequeued :: "(u64 \<times> string) list"
  br_left :: node_store

definition print_task :: "task_t \<Rightarrow> u64 \<times> string" where
  "print_task t = (t_task_id t, priority_name t)"

definition zero_queue_stats :: task_queue_stats where
  "zero_queue_stats = \<lparr>qs_current_size = 0, qs_max_size = 0, qs_total_enqueued = 0,
     qs_total_dequeued = 0, qs_high_priority_count = 0, qs_blocked_threads = 0\<rparr>"

text \<open>
  \<open>Some None\<close> is the early return when the queue cannot be created.  \<open>br_left\<close> has the nodes that
  are still allocated after the destruction.
\<close>

definition example_task_queue_basic ::
    "(task_queue \<Rightarrow> addr) \<Rightarrow> bool \<Rightarrow> basic_report option option" where
  "example_task_queue_basic malloc calloc_ok =
     (case task_queue_create (Some \<lparr>cfg_max_size = 10, cfg_allow_duplicates = 0\<rparr>) calloc_ok of
        None \<Rightarrow> Some None
      | Some q \<Rightarrow> do {
          let tasks = map basic_task [0..<5];
          (rcs, q1) \<leftarrow> enqueue_all heap_enq malloc tasks q;
          let stats = the (task_queue_get_stats (Some q1) (Some zero_queue_stats));
          (ts, q2) \<leftarrow> dequeue_all q1;
          (freed, left) \<leftarrow> task_queue_destroy (Some q2);
          Some (Some \<lparr>br_enqueued = map (print_task \<circ> fst) (filter (\<lambda>(t, rc). rc = 0) (zip tasks rcs)),
            br_stats = stats, br_dequeued = map print_task ts, br_left = left\<rparr>)
        })"

lemma dequeue_all_ok:
  assumes "tq_inv q"
  obtains q' where "dequeue_all q = Some (tq_tasks q, q')" "tq_inv q'" "tq_tasks q' = []" "tq_frame q q'"
    "q_total_dequeued q' = q_total_dequeued q + of_nat (length (tq_tasks q))"
proof -
  have "\<exists>q'. dequeue_all q = Some (ts, q') \<and> tq_inv q' \<and> tq_tasks q' = [] \<and> tq_frame q q' \<and>
      q_total_dequeued q' = q_total_dequeued q + of_nat (length ts)" if "tq_inv q" "tq_tasks q = ts" for q ts
    using that
  proof (induction ts arbitrary: q)
    case Nil
    from dequeue_empty [OF Nil] have "heap_deq q = Some (-1, q, zero_task)"
      by (simp add: heap_deq_def del: task_queue_dequeue.simps)
    with Nil show ?case by (simp add: dequeue_all.simps [of q] tq_frame_def)
  next
    case (Cons t ts)
    from dequeue_ok [OF Cons.prems, of zero_task] obtain q1 where
      q1: "heap_deq q = Some (0, q1, t)" "tq_inv q1" "tq_tasks q1 = ts" "tq_frame q q1"
        "q_total_dequeued q1 = q_total_dequeued q + 1"
      by (auto simp: heap_deq_def simp del: task_queue_dequeue.simps)
    from Cons.IH [OF q1(2,3)] q1 show ?case
      by (auto simp: dequeue_all.simps [of q] tq_frame_def)
  qed
  with assms that show thesis by blast
qed
text \<open>A loop of enqueues into an open queue with room, with what it does to the counters.\<close>

lemma fill_ok:
  assumes "node_allocator malloc"
  shows "tq_inv q \<Longrightarrow> q_shutting_down q = 0 \<Longrightarrow> heap_capacity q = Some k \<Longrightarrow> k \<le> 2 ^ 32
    \<Longrightarrow> length (tq_tasks q) + length ts \<le> k
    \<Longrightarrow> (q_allow_duplicates q = 0 \<longrightarrow> distinct (map t_task_id (ts @ tq_tasks q)))
    \<Longrightarrow> \<exists>q'. enqueue_all heap_enq malloc ts q = Some (replicate (length ts) 0, q') \<and> tq_inv q' \<and>
          tq_tasks q' = fold pq_insert ts (tq_tasks q) \<and> tq_frame q q' \<and>
          q_total_enqueued q' = q_total_enqueued q + of_nat (length ts) \<and>
          q_total_dequeued q' = q_total_dequeued q"
proof (induction ts arbitrary: q)
  case Nil
  then show ?case by (simp add: tq_frame_def)
next
  case (Cons t ts)
  have fresh: "malloc q \<noteq> 0" "q_nodes q (malloc q) = None"
    using assms Cons.prems(1,4,5) by (auto simp: node_allocator_def heap_fresh_def)
  have acc: "tq_accepts q t"
    using Cons.prems(2-6) by (auto simp: tq_accepts_interface [OF Cons.prems(1)] has_room_def)
  from enqueue_ok [OF Cons.prems(1) acc fresh] obtain q1 where
    q1: "heap_enq q t (malloc q) = Some (0, q1)" "tq_inv q1" "tq_tasks q1 = pq_insert t (tq_tasks q)"
      "tq_frame q q1" "q_total_enqueued q1 = q_total_enqueued q + 1" "q_total_dequeued q1 = q_total_dequeued q"
    by (auto simp: heap_enq_def simp del: task_queue_enqueue.simps)
  have "mset (map t_task_id (ts @ tq_tasks q1)) = mset (map t_task_id ((t # ts) @ tq_tasks q))"
    unfolding q1(3) by simp
  then have "q_allow_duplicates q1 = 0 \<longrightarrow> distinct (map t_task_id (ts @ tq_tasks q1))"
    using Cons.prems(6) q1(4) mset_eq_imp_distinct_iff unfolding tq_frame_def by metis
  with Cons.IH [OF q1(2)] q1 Cons.prems tq_frame_queries [OF q1(4)] show ?case
    by (auto simp: tq_frame_def)
qed
lemma high_priority_example:
  "high_priority (example_task tid model flags timeout) \<longleftrightarrow> flags AND TASK_FLAG_HIGH_PRIORITY \<noteq> 0"
  by (simp add: high_priority_def example_task_def)

lemma high_flag [simp]: "TASK_FLAG_HIGH_PRIORITY \<noteq> 0"
  by (simp add: TASK_FLAG_HIGH_PRIORITY_def)

lemma high_priority_basic: "high_priority (basic_task i) \<longleftrightarrow> i mod 2 = 0"
  by (simp add: basic_task_def high_priority_example)

lemma print_basic: "print_task (basic_task i) = (of_nat i + 1, if i mod 2 = 0 then ''HIGH'' else ''NORMAL'')"
  by (simp add: print_task_def priority_name_def basic_task_def example_task_def)

text \<open>Five tasks go in, the ones of high priority come out first, and no node is left.\<close>

lemma basic_example_output:
  assumes "node_allocator malloc"
  shows "example_task_queue_basic malloc True = Some (Some
    \<lparr>br_enqueued = [(1, ''HIGH''), (2, ''NORMAL''), (3, ''HIGH''), (4, ''NORMAL''), (5, ''HIGH'')],
     br_stats = \<lparr>qs_current_size = 5, qs_max_size = 10, qs_total_enqueued = 5, qs_total_dequeued = 0,
       qs_high_priority_count = 3, qs_blocked_threads = 0\<rparr>,
     br_dequeued = [(1, ''HIGH''), (3, ''HIGH''), (5, ''HIGH''), (2, ''NORMAL''), (4, ''NORMAL'')],
     br_left = Map.empty\<rparr>)"
proof -
  let ?ts = "map basic_task [0..<5]"
  have ts: "?ts = [basic_task 0, basic_task 1, basic_task 2, basic_task 3, basic_task 4]"
    by (simp add: upt_rec numeral_eq_Suc)
  have fold: "fold pq_insert ?ts [] = [basic_task 0, basic_task 2, basic_task 4, basic_task 1, basic_task 3]"
    unfolding ts by (simp add: pq_insert_def high_priority_basic)
  obtain q where q: "task_queue_create (Some \<lparr>cfg_max_size = 10, cfg_allow_duplicates = 0\<rparr>) True = Some q"
    by (simp add: task_queue_create_def)
  then have q0: "tq_inv q" "tq_tasks q = []" "q_shutting_down q = 0" "q_max_size q = 10"
      "q_total_enqueued q = 0" "q_total_dequeued q = 0" "q_blocked_threads q = 0"
    using tq_create [OF q] by (auto simp: task_queue_create_def)
  have ids: "distinct (map t_task_id (?ts @ tq_tasks q))"
    unfolding ts q0(2) by (simp add: basic_task_def example_task_def)
  have cap: "heap_capacity q = Some 10" using q0(4) by (simp add: heap_capacity_def)
  obtain q1 where q1: "enqueue_all heap_enq malloc ?ts q = Some (replicate (length ?ts) 0, q1)" "tq_inv q1"
      "tq_tasks q1 = fold pq_insert ?ts (tq_tasks q)" "tq_frame q q1"
      "q_total_enqueued q1 = q_total_enqueued q + of_nat (length ?ts)" "q_total_dequeued q1 = q_total_dequeued q"
    using fill_ok [OF assms q0(1,3) cap, of ?ts] q0(2) ids by auto
  have tasks: "tq_tasks q1 = [basic_task 0, basic_task 2, basic_task 4, basic_task 1, basic_task 3]"
    unfolding q1(3) q0(2) by (rule fold)
  have size: "q_size q1 = 5" using tq_inv_size [OF q1(2)] tasks by (simp add: word_unat_eq_iff)
  have high: "q_high_priority_count q1 = 3"
    using tq_inv_high_count [OF q1(2)] tasks by (simp add: high_priority_basic)
  obtain q2 where q2: "dequeue_all q1 = Some (tq_tasks q1, q2)" "tq_inv q2" "tq_tasks q2 = []" "tq_frame q1 q2"
    by (rule dequeue_all_ok [OF q1(2)])
  have destroy: "task_queue_destroy (Some q2) = Some (0, Map.empty)"
    using destroy_ok [OF q2(2)] q2(3,4) q1(4) q0(7) by (simp add: tq_frame_def)
  have rcs: "replicate (length ?ts) 0 = [0, 0, 0, 0, 0 :: c_int]" by (simp add: numeral_eq_Suc)
  show ?thesis
    unfolding example_task_queue_basic_def q option.case Let_def q1(1) rcs
    using q2(1) destroy q0 q1(4-6) size high
    by (simp add: tasks ts print_basic tq_frame_def del: task_queue_destroy.simps)
qed

end
