(* ===== verification/Example_Threads.thy ===== *)
theory Example_Threads
  imports Example_Runtime
begin

text \<open>
  The second example of \<open>runtime_example.c\<close>: two producers and three workers on one queue.  A step
  is one critical section of one thread; the threads are interleaved freely, and a thread that has
  not been created yet is one that has not made a step.  The sleeps between the calls only delay a
  thread.  \<open>pthread_create\<close> is taken to succeed, as the code does.
\<close>

section \<open>Threads\<close>

record producer_args =
  pa_producer_id :: nat
  pa_num_tasks :: nat

record worker_thread_args =
  wa_worker_id :: nat
  wa_num_to_process :: nat

text \<open>A producer is about to enqueue the task number \<open>pt_i\<close>.\<close>

record producer_thread =
  pt_args :: producer_args
  pt_i :: nat

text \<open>
  Where a worker is: at the test of its loop, blocked inside \<open>task_queue_dequeue_wait\<close>, after a
  timeout and before the call of \<open>task_queue_is_empty\<close>, or returned.  \<open>wt_tasks\<close> has the tasks that it
  processed; \<open>processed\<close> is their number.
\<close>

datatype worker_point = At_Loop | In_Wait | Timed_Out | Finished

record worker_thread =
  wt_args :: worker_thread_args
  wt_point :: worker_point
  wt_tasks :: "task_t list"

record pc_sys =
  pc_queue :: task_queue
  pc_producers :: "producer_thread list"
  pc_workers :: "worker_thread list"

definition producer_task :: "producer_args \<Rightarrow> nat \<Rightarrow> task_t" where
  "producer_task args i = example_task (of_nat (pa_producer_id args * 1000 + i))
     (of_nat (100 + pa_producer_id args)) (if i mod 5 = 0 then TASK_FLAG_HIGH_PRIORITY else 0) 30"

text \<open>The worker after a critical section of its call of \<open>task_queue_dequeue_wait\<close>.\<close>

fun after_wait :: "wait_result \<Rightarrow> worker_thread \<Rightarrow> task_queue \<times> worker_thread" where
  "after_wait (Blocked q) w = (q, w\<lparr>wt_point := In_Wait\<rparr>)"
| "after_wait (Returned rc t q) w =
     (q, if rc = 0 then w\<lparr>wt_point := At_Loop, wt_tasks := wt_tasks w @ option_list t\<rparr>
         else if rc = -1 then w\<lparr>wt_point := Timed_Out\<rparr>
         else w\<lparr>wt_point := At_Loop\<rparr>)"

definition set_worker :: "pc_sys \<Rightarrow> nat \<Rightarrow> task_queue \<times> worker_thread \<Rightarrow> pc_sys" where
  "set_worker s i qw = s\<lparr>pc_queue := fst qw, pc_workers := (pc_workers s)[i := snd qw]\<rparr>"

section \<open>Steps\<close>

inductive pc_step :: "pc_sys \<Rightarrow> pc_sys \<Rightarrow> bool" where
  produce: "i < length (pc_producers s) \<Longrightarrow> p = pc_producers s ! i \<Longrightarrow> pt_i p < pa_num_tasks (pt_args p)
    \<Longrightarrow> a = 0 \<or> q_nodes (pc_queue s) a = None
    \<Longrightarrow> task_queue_enqueue (Some (pc_queue s)) (Some (producer_task (pt_args p) (pt_i p))) a = Some (rc, Some q')
    \<Longrightarrow> pc_step s (s\<lparr>pc_queue := q',
          pc_producers := (pc_producers s)[i := p\<lparr>pt_i := (if rc = 0 then pt_i p + 1 else pt_i p)\<rparr>]\<rparr>)"
| enter: "i < length (pc_workers s) \<Longrightarrow> w = pc_workers s ! i \<Longrightarrow> wt_point w = At_Loop
    \<Longrightarrow> length (wt_tasks w) < wa_num_to_process (wt_args w) \<Longrightarrow> wait_enter (pc_queue s) = Some r
    \<Longrightarrow> pc_step s (set_worker s i (after_wait r w))"
| wake: "i < length (pc_workers s) \<Longrightarrow> w = pc_workers s ! i \<Longrightarrow> wt_point w = In_Wait
    \<Longrightarrow> wait_wake rc (pc_queue s) = Some r
    \<Longrightarrow> pc_step s (set_worker s i (after_wait r w))"
| check: "i < length (pc_workers s) \<Longrightarrow> w = pc_workers s ! i \<Longrightarrow> wt_point w = Timed_Out
    \<Longrightarrow> pc_step s (set_worker s i (pc_queue s,
          w\<lparr>wt_point := (if task_queue_is_empty (Some (pc_queue s)) \<noteq> 0 then Finished else At_Loop)\<rparr>))"
| return: "i < length (pc_workers s) \<Longrightarrow> w = pc_workers s ! i \<Longrightarrow> wt_point w = At_Loop
    \<Longrightarrow> \<not> length (wt_tasks w) < wa_num_to_process (wt_args w)
    \<Longrightarrow> pc_step s (set_worker s i (pc_queue s, w\<lparr>wt_point := Finished\<rparr>))"

inductive_cases pc_stepE: "pc_step s s'"

section \<open>The program\<close>

definition num_producers :: nat where "num_producers = 2"
definition num_workers :: nat where "num_workers = 3"
definition tasks_per_producer :: nat where "tasks_per_producer = 10"

definition tasks_per_worker :: nat where
  "tasks_per_worker = (num_producers * tasks_per_producer) div num_workers"

definition start_threads :: "task_queue \<Rightarrow> pc_sys" where
  "start_threads q = \<lparr>pc_queue = q,
     pc_producers = map (\<lambda>i. \<lparr>pt_args = \<lparr>pa_producer_id = i, pa_num_tasks = tasks_per_producer\<rparr>, pt_i = 0\<rparr>)
       [0..<num_producers],
     pc_workers = map (\<lambda>i. \<lparr>wt_args = \<lparr>wa_worker_id = i, wa_num_to_process = tasks_per_worker\<rparr>,
       wt_point = At_Loop, wt_tasks = []\<rparr>) [0..<num_workers]\<rparr>"

definition pc_init :: "pc_sys \<Rightarrow> bool" where
  "pc_init s \<longleftrightarrow> (\<exists>q. task_queue_create None True = Some q \<and> s = start_threads q)"

text \<open>All threads can be joined.\<close>

definition pc_final :: "pc_sys \<Rightarrow> bool" where
  "pc_final s \<longleftrightarrow> (\<forall>p \<in> set (pc_producers s). \<not> pt_i p < pa_num_tasks (pt_args p)) \<and>
     (\<forall>w \<in> set (pc_workers s). wt_point w = Finished)"

text \<open>After the joins: the statistics that are printed, and the destruction of the queue.\<close>

definition finish_threads :: "pc_sys \<Rightarrow> (task_queue_stats \<times> size_t \<times> node_store) option" where
  "finish_threads s = do {
     let stats = the (task_queue_get_stats (Some (pc_queue s)) (Some zero_queue_stats));
     (freed, left) \<leftarrow> task_queue_destroy (Some (pc_queue s));
     Some (stats, freed, left)
   }"

section \<open>The invariant\<close>

text \<open>What a producer has enqueued so far.\<close>

definition produced :: "producer_thread \<Rightarrow> task_t list" where
  "produced p = map (producer_task (pt_args p)) [0..<pt_i p]"

definition quota_ok :: "worker_thread \<Rightarrow> bool" where
  "quota_ok w \<longleftrightarrow> length (wt_tasks w) \<le> wa_num_to_process (wt_args w) \<and>
     (wt_point w = In_Wait \<or> wt_point w = Timed_Out \<longrightarrow> length (wt_tasks w) < wa_num_to_process (wt_args w))"

definition pc_queue_inv :: "pc_sys \<Rightarrow> bool" where
  "pc_queue_inv s \<longleftrightarrow> (let q = pc_queue s in
     tq_inv q \<and> q_shutting_down q = 0 \<and> q_max_size q = MAX_TASK_QUEUE_SIZE \<and> q_allow_duplicates q = 1 \<and>
     q_blocked_threads q = of_nat (count_if (\<lambda>w. wt_point w = In_Wait) (pc_workers s)) \<and>
     q_total_enqueued q = of_nat (length (concat (map produced (pc_producers s)))) \<and>
     q_total_dequeued q = of_nat (length (concat (map wt_tasks (pc_workers s)))))"

definition pc_inv :: "pc_sys \<Rightarrow> bool" where
  "pc_inv s \<longleftrightarrow> pc_queue_inv s \<and>
     map pt_args (pc_producers s) = map pt_args (pc_producers (start_threads (pc_queue s))) \<and>
     map wt_args (pc_workers s) = map wt_args (pc_workers (start_threads (pc_queue s))) \<and>
     (\<forall>p \<in> set (pc_producers s). pt_i p \<le> pa_num_tasks (pt_args p)) \<and>
     (\<forall>w \<in> set (pc_workers s). quota_ok w) \<and>
     mset (concat (map produced (pc_producers s))) =
       mset (tq_tasks (pc_queue s)) + mset (concat (map wt_tasks (pc_workers s)))"

text \<open>Replacing one element of a list of lists.\<close>

lemma mset_concat_update:
  assumes "i < length xs"
  shows "mset (concat (map f (xs[i := x]))) + mset (f (xs ! i)) = mset (concat (map f xs)) + mset (f x)"
proof -
  have "xs = take i xs @ xs ! i # drop (Suc i) xs" using assms by (simp add: id_take_nth_drop)
  then have "mset (concat (map f xs)) = mset (concat (map f (take i xs @ xs ! i # drop (Suc i) xs)))" by simp
  then show ?thesis using assms by (simp add: upd_conv_take_nth_drop)
qed

lemma mset_concat_update_append:
  assumes "i < length xs" "mset (f x) = mset (f (xs ! i)) + m"
  shows "mset (concat (map f (xs[i := x]))) = mset (concat (map f xs)) + m"
proof -
  have "mset (concat (map f (xs[i := x]))) + mset (f (xs ! i)) = mset (concat (map f xs)) + m + mset (f (xs ! i))"
    using mset_concat_update [OF assms(1), of f x] assms(2) by (simp add: ac_simps)
  then show ?thesis by simp
qed

lemma ball_set_update: "\<forall>x \<in> set xs. P x \<Longrightarrow> P y \<Longrightarrow> \<forall>x \<in> set (xs[i := y]). P x"
  using set_update_subset_insert [of xs i y] by blast

lemma concat_map_Nil [simp]: "concat (map (\<lambda>x. []) xs) = []"
  by (simp add: concat_eq_Nil_conv)

lemma pc_inv_init: "pc_init s \<Longrightarrow> pc_inv s"
proof -
  assume "pc_init s"
  then obtain q where q: "task_queue_create None True = Some q" "s = start_threads q" by (auto simp: pc_init_def)
  have "tq_inv q" "tq_tasks q = []" using tq_create [OF q(1)] by auto
  with q show ?thesis
    by (auto simp: pc_inv_def pc_queue_inv_def start_threads_def task_queue_create_def default_config_def
        quota_ok_def produced_def o_def)
qed
section \<open>Every step keeps it\<close>

lemma wait_test_open:
  assumes "tq_inv q" "q_shutting_down q = 0"
  obtains "tq_tasks q = []" "wait_test q = Some (Blocked q)"
  | t ts q' where "tq_tasks q = t # ts" "wait_test q = Some (Returned 0 (Some t) q')" "tq_inv q'"
      "tq_tasks q' = ts" "tq_frame (q\<lparr>q_blocked_threads := q_blocked_threads q - 1\<rparr>) q'"
      "q_total_dequeued q' = q_total_dequeued q + 1" "q_total_enqueued q' = q_total_enqueued q"
proof (cases "tq_tasks q")
  case Nil
  with assms show thesis by (intro that(1)) (simp_all add: wait_test_def tq_inv_head)
next
  case (Cons t ts)
  let ?q = "q\<lparr>q_blocked_threads := q_blocked_threads q - 1\<rparr>"
  obtain q' where "remove_head ?q = Some (t, q')" "tq_inv q'" "tq_tasks q' = ts" "tq_frame ?q q'"
      "q_total_dequeued q' = q_total_dequeued q + 1" "q_total_enqueued q' = q_total_enqueued q"
    using remove_head_ok [of ?q t ts] assms(1) Cons by auto
  moreover have "q_head q \<noteq> 0" using Cons tq_inv_head [OF assms(1)] by simp
  ultimately show thesis using Cons assms(2) by (intro that(2) [of t ts q']) (simp_all add: wait_test_def)
qed

text \<open>A step of a worker that takes the tasks \<open>ts\<close>.\<close>

lemma set_worker_inv:
  assumes inv: "pc_inv s" and i: "i < length (pc_workers s)" and w: "w = pc_workers s ! i"
    and q: "tq_inv q'" "tq_frame ((pc_queue s)\<lparr>q_blocked_threads := q_blocked_threads q'\<rparr>) q'"
    and blk: "q_blocked_threads q' = q_blocked_threads (pc_queue s)
        - (if wt_point w = In_Wait then 1 else 0) + (if wt_point w' = In_Wait then 1 else 0)"
    and tot: "q_total_enqueued q' = q_total_enqueued (pc_queue s)"
      "q_total_dequeued q' = q_total_dequeued (pc_queue s) + of_nat (length ts)"
    and w': "wt_args w' = wt_args w" "wt_tasks w' = wt_tasks w @ ts" "quota_ok w'"
    and tasks: "mset (tq_tasks (pc_queue s)) = mset ts + mset (tq_tasks q')"
  shows "pc_inv (set_worker s i (q', w'))"
proof -
  let ?ws = "(pc_workers s)[i := w']"
  have m: "mset (concat (map wt_tasks ?ws)) = mset (concat (map wt_tasks (pc_workers s))) + mset ts"
    by (rule mset_concat_update_append) (use i w w'(2) in simp_all)
  then have len: "length (concat (map wt_tasks ?ws)) = length (concat (map wt_tasks (pc_workers s))) + length ts"
    by (metis size_mset size_union)
  have "map wt_args ?ws = map wt_args (pc_workers s)"
    using i w w'(1) map_update_same [of i "pc_workers s" wt_args] by (simp add: map_update)
  moreover have "\<forall>v \<in> set ?ws. quota_ok v"
    using inv w'(3) by (intro ball_set_update) (simp_all add: pc_inv_def)
  moreover have "q_blocked_threads q' = of_nat (count_if (\<lambda>w. wt_point w = In_Wait) ?ws)"
    using inv blk i w by (simp add: pc_inv_def pc_queue_inv_def Let_def of_nat_count_update)
  ultimately show ?thesis
    using inv q tot tasks m len
    by (simp add: pc_inv_def pc_queue_inv_def set_worker_def start_threads_def tq_frame_def Let_def)
qed

text \<open>A critical section of a blocking call, from a queue that already counts the caller as blocked.\<close>

lemma wait_test_inv:
  assumes inv: "pc_inv s" and i: "i < length (pc_workers s)" and w: "w = pc_workers s ! i"
    and less: "length (wt_tasks w) < wa_num_to_process (wt_args w)"
    and q: "q = (pc_queue s)\<lparr>q_blocked_threads := q_blocked_threads (pc_queue s)
        + (if wt_point w = In_Wait then 0 else 1)\<rparr>"
    and r: "wait_test q = Some r"
  shows "pc_inv (set_worker s i (after_wait r w))"
proof -
  have tinv: "tq_inv q" "q_shutting_down q = 0" and tasks: "tq_tasks q = tq_tasks (pc_queue s)"
    using inv q by (simp_all add: pc_inv_def pc_queue_inv_def Let_def)
  from tinv show ?thesis
  proof (cases rule: wait_test_open)
    case 1
    with r have r: "after_wait r w = (q, w\<lparr>wt_point := In_Wait\<rparr>)" by auto
    show ?thesis unfolding r
      by (rule set_worker_inv [OF inv i w, where ts = "[]"])
        (use less tinv(1) q in \<open>simp_all add: tq_frame_def quota_ok_def\<close>)
  next
    case (2 t ts q')
    with r have r: "after_wait r w = (q', w\<lparr>wt_point := At_Loop, wt_tasks := wt_tasks w @ [t]\<rparr>)" by auto
    show ?thesis unfolding r
      by (rule set_worker_inv [OF inv i w, where ts = "[t]"])
        (use less 2 q tasks in \<open>simp_all add: tq_frame_def quota_ok_def\<close>)
  qed
qed

lemma produce_inv:
  assumes inv: "pc_inv s" and i: "i < length (pc_producers s)" and p: "p = pc_producers s ! i"
    and less: "pt_i p < pa_num_tasks (pt_args p)" and a: "a = 0 \<or> q_nodes (pc_queue s) a = None"
    and r: "task_queue_enqueue (Some (pc_queue s)) (Some (producer_task (pt_args p) (pt_i p))) a = Some (rc, Some q')"
  shows "pc_inv (s\<lparr>pc_queue := q',
    pc_producers := (pc_producers s)[i := p\<lparr>pt_i := (if rc = 0 then pt_i p + 1 else pt_i p)\<rparr>]\<rparr>)"
proof -
  have tinv: "tq_inv (pc_queue s)" using inv by (simp add: pc_inv_def pc_queue_inv_def Let_def)
  let ?t = "producer_task (pt_args p) (pt_i p)"
  show ?thesis
  proof (cases "enqueue_code (pc_queue s) ?t a = 0")
    case False
    from enqueue_err [OF tinv False] r False have "rc \<noteq> 0" "q' = pc_queue s"
      by (auto simp del: task_queue_enqueue.simps)
    with inv p i show ?thesis by simp
  next
    case True
    then have "tq_accepts (pc_queue s) ?t" "a \<noteq> 0" "q_nodes (pc_queue s) a = None"
      using a by (auto simp: enqueue_code_0)
    from enqueue_ok [OF tinv this] r have
      q': "rc = 0" "tq_inv q'" "tq_tasks q' = pq_insert ?t (tq_tasks (pc_queue s))" "tq_frame (pc_queue s) q'"
        "q_total_enqueued q' = q_total_enqueued (pc_queue s) + 1" "q_total_dequeued q' = q_total_dequeued (pc_queue s)"
      by (auto simp del: task_queue_enqueue.simps)
    let ?p = "p\<lparr>pt_i := pt_i p + 1\<rparr>" and ?ps = "(pc_producers s)[i := p\<lparr>pt_i := pt_i p + 1\<rparr>]"
    have m: "mset (concat (map produced ?ps)) = mset (concat (map produced (pc_producers s))) + {#?t#}"
      by (rule mset_concat_update_append) (use i p in \<open>simp_all add: produced_def\<close>)
    then have len: "length (concat (map produced ?ps)) = length (concat (map produced (pc_producers s))) + 1"
      by (metis size_mset size_union size_single)
    have "map pt_args ?ps = map pt_args (pc_producers s)"
      using i p map_update_same [of i "pc_producers s" pt_args] by (simp add: map_update)
    moreover have "\<forall>v \<in> set ?ps. pt_i v \<le> pa_num_tasks (pt_args v)"
      using inv less by (intro ball_set_update) (simp_all add: pc_inv_def)
    ultimately show ?thesis
      using inv q' m len
      by (simp add: pc_inv_def pc_queue_inv_def start_threads_def tq_frame_def Let_def)
  qed
qed
lemma pc_inv_step: "pc_inv s \<Longrightarrow> pc_step s s' \<Longrightarrow> pc_inv s'"
proof -
  assume inv: "pc_inv s" and step: "pc_step s s'"
  have tinv: "tq_inv (pc_queue s)" using inv by (simp add: pc_inv_def pc_queue_inv_def Let_def)
  have okw: "quota_ok w" if "i < length (pc_workers s)" "w = pc_workers s ! i" for i w
    using inv that by (simp add: pc_inv_def)
  from step show ?thesis
  proof cases
    case (produce i p a rc q')
    from produce_inv [OF inv this(2-6)] show ?thesis unfolding produce(1) .
  next
    case (enter i w r)
    from wait_test_inv [OF inv enter(2,3,5) refl] enter show ?thesis by (simp add: wait_enter_def)
  next
    case (wake i w rc r)
    have less: "length (wt_tasks w) < wa_num_to_process (wt_args w)"
      using okw [OF wake(2,3)] wake(4) by (simp add: quota_ok_def)
    show ?thesis
    proof (cases "rc = ETIMEDOUT")
      case False
      with wait_test_inv [OF inv wake(2,3) less refl] wake show ?thesis by (simp add: wait_wake_def)
    next
      case True
      let ?q = "(pc_queue s)\<lparr>q_blocked_threads := q_blocked_threads (pc_queue s) - 1\<rparr>"
      have r: "after_wait r w = (?q, w\<lparr>wt_point := Timed_Out\<rparr>)"
        using wake(5) True by (auto simp: wait_wake_def)
      show ?thesis
        unfolding wake(1) r
        by (rule set_worker_inv [OF inv wake(2,3), where ts = "[]"])
          (use tinv wake(4) less in \<open>simp_all add: tq_frame_def quota_ok_def\<close>)
    qed
  next
    case (check i w)
    then show ?thesis unfolding check(1)
      using okw [OF check(2,3)] tinv
      by (intro set_worker_inv [OF inv check(2,3), where ts = "[]"]) (simp_all add: tq_frame_def quota_ok_def)
  next
    case (return i w)
    then show ?thesis unfolding return(1)
      using okw [OF return(2,3)] tinv
      by (intro set_worker_inv [OF inv return(2,3), where ts = "[]"]) (simp_all add: tq_frame_def quota_ok_def)
  qed
qed

interpretation producer_consumer: inductive_invariant pc_init pc_step pc_inv
  by unfold_locales (blast intro: pc_inv_init pc_inv_step)+

section \<open>What is left at the end\<close>

lemma length_concat_le:
  "\<forall>x \<in> set xs. length (f x) \<le> g x \<Longrightarrow> length (concat (map f xs)) \<le> sum_list (map g xs)"
  by (induction xs) (auto intro: add_mono)

lemma length_concat_eq:
  "\<forall>x \<in> set xs. length (f x) = g x \<Longrightarrow> length (concat (map f xs)) = sum_list (map g xs)"
  by (induction xs) auto

lemma sum_args:
  assumes "pc_inv s"
  shows "sum_list (map (\<lambda>p. pa_num_tasks (pt_args p)) (pc_producers s)) = 20"
    "sum_list (map (\<lambda>w. wa_num_to_process (wt_args w)) (pc_workers s)) = 18"
proof -
  have "map (\<lambda>p. pa_num_tasks (pt_args p)) (pc_producers s) = map pa_num_tasks (map pt_args (pc_producers s))"
    "map (\<lambda>w. wa_num_to_process (wt_args w)) (pc_workers s) = map wa_num_to_process (map wt_args (pc_workers s))"
    by (simp_all add: o_def)
  with assms show "sum_list (map (\<lambda>p. pa_num_tasks (pt_args p)) (pc_producers s)) = 20"
    "sum_list (map (\<lambda>w. wa_num_to_process (wt_args w)) (pc_workers s)) = 18"
    by (simp_all add: pc_inv_def start_threads_def num_producers_def num_workers_def tasks_per_producer_def
        tasks_per_worker_def o_def sum_list_triv)
qed

lemma processed_bound: "pc_inv s \<Longrightarrow> length (concat (map wt_tasks (pc_workers s))) \<le> 18"
  using length_concat_le [of "pc_workers s" wt_tasks "\<lambda>w. wa_num_to_process (wt_args w)"] sum_args(2) [of s]
  by (simp add: pc_inv_def quota_ok_def)

lemma produced_bound: "pc_inv s \<Longrightarrow> length (concat (map produced (pc_producers s))) \<le> 20"
  using length_concat_le [of "pc_producers s" produced "\<lambda>p. pa_num_tasks (pt_args p)"] sum_args(1) [of s]
  by (simp add: pc_inv_def produced_def)

lemma queue_length:
  assumes "pc_inv s"
  shows "length (concat (map produced (pc_producers s)))
    = length (tq_tasks (pc_queue s)) + length (concat (map wt_tasks (pc_workers s)))"
proof -
  have "size (mset (concat (map produced (pc_producers s))))
      = size (mset (tq_tasks (pc_queue s)) + mset (concat (map wt_tasks (pc_workers s))))"
    using assms by (simp only: pc_inv_def)
  then show ?thesis by (simp only: size_mset size_union)
qed
section \<open>The threads can always come to an end\<close>

text \<open>
  What is still to do: the tasks to produce, the tasks in the queue, and the points the workers have
  to pass.  On an empty queue a worker times out and returns; on a queue with tasks it takes one.
\<close>

fun point_weight :: "bool \<Rightarrow> worker_point \<Rightarrow> nat" where
  "point_weight drained At_Loop = (if drained then 3 else 1)"
| "point_weight drained In_Wait = 2"
| "point_weight drained Timed_Out = (if drained then 1 else 2)"
| "point_weight drained Finished = 0"

definition to_produce :: "pc_sys \<Rightarrow> nat" where
  "to_produce s = sum_list (map (\<lambda>p. pa_num_tasks (pt_args p) - pt_i p) (pc_producers s))"

definition to_pass :: "pc_sys \<Rightarrow> nat" where
  "to_pass s = sum_list (map (\<lambda>w. point_weight (tq_tasks (pc_queue s) = []) (wt_point w)) (pc_workers s))"

definition pc_measure :: "(pc_sys \<times> pc_sys) set" where
  "pc_measure = measures [to_produce, \<lambda>s. length (tq_tasks (pc_queue s)), to_pass]"

lemma wf_pc_measure: "wf pc_measure"
  by (simp add: pc_measure_def)

lemma sum_list_update_less:
  "i < length xs \<Longrightarrow> f x < f (xs ! i) \<Longrightarrow> sum_list (map f (xs[i := x])) < (sum_list (map f xs) :: nat)"
  by (induction xs arbitrary: i) (auto split: nat.split)

lemma progress_produce:
  assumes inv: "pc_inv s" and i: "i < length (pc_producers s)"
    and less: "pt_i (pc_producers s ! i) < pa_num_tasks (pt_args (pc_producers s ! i))"
  shows "\<exists>s'. pc_step s s' \<and> (s', s) \<in> pc_measure"
proof -
  let ?q = "pc_queue s" and ?p = "pc_producers s ! i"
  let ?t = "producer_task (pt_args ?p) (pt_i ?p)"
  have q: "tq_inv ?q" "q_shutting_down ?q = 0" "q_max_size ?q = MAX_TASK_QUEUE_SIZE" "q_allow_duplicates ?q = 1"
    using inv by (simp_all add: pc_inv_def pc_queue_inv_def Let_def)
  have len: "length (tq_tasks ?q) \<le> 20" using queue_length [OF inv] produced_bound [OF inv] by simp
  then have "heap_fresh ?q (first_fit ?q)"
    using node_allocator_first_fit q(1) by (simp add: node_allocator_def)
  then have fresh: "first_fit ?q \<noteq> 0" "q_nodes ?q (first_fit ?q) = None" by (simp_all add: heap_fresh_def)
  have "tq_accepts ?q ?t"
    using q len by (simp add: tq_accepts_interface has_room_def heap_capacity_def MAX_TASK_QUEUE_SIZE_def)
  from enqueue_ok [OF q(1) this fresh] obtain q' where
    q': "task_queue_enqueue (Some ?q) (Some ?t) (first_fit ?q) = Some (0, Some q')" by blast
  note step = pc_step.produce [OF i refl less _ q']
  have "sum_list (map (\<lambda>p. pa_num_tasks (pt_args p) - pt_i p) ((pc_producers s)[i := ?p\<lparr>pt_i := pt_i ?p + 1\<rparr>]))
      < to_produce s"
    unfolding to_produce_def by (rule sum_list_update_less) (use i less in simp_all)
  then show ?thesis using step fresh(2) by (auto simp: pc_measure_def to_produce_def)
qed

text \<open>A worker that changes its point without taking a task, or takes one.\<close>

lemma pass_measure:
  assumes "i < length (pc_workers s)" "tq_tasks q' = tq_tasks (pc_queue s)"
    "point_weight (tq_tasks (pc_queue s) = []) (wt_point w')
      < point_weight (tq_tasks (pc_queue s) = []) (wt_point (pc_workers s ! i))"
  shows "(set_worker s i (q', w'), s) \<in> pc_measure"
  using sum_list_update_less [OF assms(1), of "\<lambda>w. point_weight (tq_tasks (pc_queue s) = []) (wt_point w)"] assms
  by (simp add: pc_measure_def set_worker_def to_produce_def to_pass_def)

lemma take_measure:
  "tq_tasks (pc_queue s) = t # tq_tasks q' \<Longrightarrow> (set_worker s i (q', w'), s) \<in> pc_measure"
  by (simp add: pc_measure_def set_worker_def to_produce_def)

lemma progress_worker:
  assumes inv: "pc_inv s" and i: "i < length (pc_workers s)" and w: "w = pc_workers s ! i"
    and "wt_point w \<noteq> Finished"
  shows "\<exists>s'. pc_step s s' \<and> (s', s) \<in> pc_measure"
proof -
  let ?q = "pc_queue s"
  have q: "tq_inv ?q" "q_shutting_down ?q = 0" using inv by (simp_all add: pc_inv_def pc_queue_inv_def Let_def)
  have empty: "task_queue_is_empty (Some ?q) \<noteq> 0 \<longleftrightarrow> tq_tasks ?q = []"
    using tq_inv_size [OF q(1)] by (auto simp: unat_eq_zero)
  note pass = pass_measure [OF i, folded w]
  consider (quota) "wt_point w = At_Loop" "\<not> length (wt_tasks w) < wa_num_to_process (wt_args w)"
    | (loop) "wt_point w = At_Loop" "length (wt_tasks w) < wa_num_to_process (wt_args w)"
    | (wait) "wt_point w = In_Wait" | (timeout) "wt_point w = Timed_Out"
    using assms(4) by (cases "wt_point w") auto
  then show ?thesis
  proof cases
    case quota
    have "(set_worker s i (?q, w\<lparr>wt_point := Finished\<rparr>), s) \<in> pc_measure"
      by (rule pass) (use quota in simp_all)
    with pc_step.return [OF i w quota] show ?thesis by blast
  next
    case timeout
    have "(set_worker s i (?q, w\<lparr>wt_point := (if task_queue_is_empty (Some ?q) \<noteq> 0 then Finished else At_Loop)\<rparr>), s)
        \<in> pc_measure"
      by (rule pass) (use timeout empty in \<open>simp_all del: task_queue_is_empty.simps\<close>)
    with pc_step.check [OF i w timeout] show ?thesis by blast
  next
    case loop
    let ?qb = "?q\<lparr>q_blocked_threads := q_blocked_threads ?q + 1\<rparr>"
    from q have "tq_inv ?qb" "q_shutting_down ?qb = 0" by simp_all
    then show ?thesis
    proof (cases rule: wait_test_open)
      case 1
      have "(set_worker s i (?qb, w\<lparr>wt_point := In_Wait\<rparr>), s) \<in> pc_measure"
        by (rule pass) (use loop 1 in simp_all)
      with pc_step.enter [OF i w loop, of "Blocked ?qb"] 1 show ?thesis by (auto simp: wait_enter_def)
    next
      case (2 t ts q')
      from pc_step.enter [OF i w loop, of "Returned 0 (Some t) q'"] 2 show ?thesis
        using take_measure [of s t q'] by (auto simp: wait_enter_def)
    qed
  next
    case wait
    from q show ?thesis
    proof (cases rule: wait_test_open)
      case 1
      let ?qt = "?q\<lparr>q_blocked_threads := q_blocked_threads ?q - 1\<rparr>"
      have "(set_worker s i (?qt, w\<lparr>wt_point := Timed_Out\<rparr>), s) \<in> pc_measure"
        by (rule pass) (use wait 1 in simp_all)
      with pc_step.wake [OF i w wait, of ETIMEDOUT "Returned (-1) None ?qt"] show ?thesis
        by (auto simp: wait_wake_def)
    next
      case (2 t ts q')
      from pc_step.wake [OF i w wait, of 0 "Returned 0 (Some t) q'"] 2 show ?thesis
        using take_measure [of s t q'] by (auto simp: wait_wake_def ETIMEDOUT_def)
    qed
  qed
qed

lemma progress: "pc_inv s \<Longrightarrow> \<not> pc_final s \<Longrightarrow> \<exists>s'. pc_step s s' \<and> (s', s) \<in> pc_measure"
  using progress_produce progress_worker by (auto simp: pc_final_def in_set_conv_nth)

lemma can_finish: "pc_inv s \<Longrightarrow> \<exists>s'. pc_step\<^sup>*\<^sup>* s s' \<and> pc_final s'"
proof (induction s rule: wf_induct_rule [OF wf_pc_measure])
  case (1 s)
  show ?case
  proof (cases "pc_final s")
    case False
    with progress [OF 1(2)] obtain s1 where s1: "pc_step s s1" "(s1, s) \<in> pc_measure" by blast
    from 1(1) [OF s1(2) pc_inv_step [OF 1(2) s1(1)]] s1(1) show ?thesis
      by (blast intro: converse_rtranclp_into_rtranclp)
  qed auto
qed

text \<open>In a final state every task was produced, and the workers have left what their quota does not cover.\<close>

lemma final_stats:
  assumes inv: "pc_inv s" and fin: "pc_final s"
  obtains n stats where "finish_threads s = Some (stats, of_nat (length (tq_tasks (pc_queue s))), Map.empty)"
    "length (tq_tasks (pc_queue s)) = 20 - n" "n \<le> 18" "n = length (concat (map wt_tasks (pc_workers s)))"
    "qs_total_enqueued stats = 20" "qs_total_dequeued stats = of_nat n" "qs_current_size stats = 20 - of_nat n"
proof -
  let ?q = "pc_queue s" and ?n = "length (concat (map wt_tasks (pc_workers s)))"
  have q: "tq_inv ?q" "q_total_dequeued ?q = of_nat ?n"
    "q_total_enqueued ?q = of_nat (length (concat (map produced (pc_producers s))))"
    "q_blocked_threads ?q = of_nat (count_if (\<lambda>w. wt_point w = In_Wait) (pc_workers s))"
    using inv by (simp_all add: pc_inv_def pc_queue_inv_def Let_def)
  have "filter (\<lambda>w. wt_point w = In_Wait) (pc_workers s) = []" using fin by (auto simp: pc_final_def filter_empty_conv)
  then have blk: "q_blocked_threads ?q = 0" using q(4) by simp
  have "\<forall>p \<in> set (pc_producers s). length (produced p) = pa_num_tasks (pt_args p)"
    using inv fin by (fastforce simp: pc_inv_def pc_final_def produced_def)
  from length_concat_eq [OF this] have all: "length (concat (map produced (pc_producers s))) = 20"
    using sum_args(1) [OF inv] by simp
  have n: "length (tq_tasks ?q) = 20 - ?n" "?n \<le> 18"
    using queue_length [OF inv] all processed_bound [OF inv] by simp_all
  have "q_size ?q = of_nat (length (tq_tasks ?q))" using tq_inv_size [OF q(1)] by (metis of_nat_unat ucast_id)
  also have "\<dots> = 20 - of_nat ?n" using n by (simp add: of_nat_diff)
  finally have size: "q_size ?q = 20 - of_nat ?n" .
  show thesis
    by (rule that [of "the (task_queue_get_stats (Some ?q) (Some zero_queue_stats))" ?n]) (use destroy_ok [OF q(1) blk] n q all size in
      \<open>simp_all add: finish_threads_def del: task_queue_destroy.simps\<close>)
qed

end
