(* ===== verification/Example_Limits.thy ===== *)
theory Example_Limits
  imports Example_Runtime
begin

text \<open>
  The third and fourth example of \<open>runtime_example.c\<close>: the resource limiter alone, and the queue
  emptied under its control.  What the operating system reports during a call is an argument, as in
  \<open>Resource_Limits\<close>.
\<close>

section \<open>Example 3: resource limits\<close>

definition limits_example_config :: resource_limits_config where
  "limits_example_config = \<lparr>rc_max_memory_bytes = 512 * 1024 * 1024, rc_warn_memory_bytes = 384 * 1024 * 1024,
     rc_max_cpu_time_us = 0, rc_max_cpu_percent = 80, rc_max_concurrent_tasks = 4,
     rc_min_disk_space_bytes = 1 * 1024 * 1024 * 1024, rc_max_open_files = 0, rc_enforce_hard_limits = 1\<rparr>"

definition checked_resources :: "(string \<times> resource_type) list" where
  "checked_resources = [(''Memory'', RESOURCE_MEMORY), (''CPU'', RESOURCE_CPU_TIME), (''Disk'', RESOURCE_DISK_SPACE),
     (''Files'', RESOURCE_OPEN_FILES), (''Tasks'', RESOURCE_TASKS_RUNNING)]"

text \<open>
  The simulated tasks: number and whether its slot was reserved (and released again).  A failed
  reservation ends the loop.
\<close>

fun simulate_tasks :: "nat list \<Rightarrow> resource_limits option \<Rightarrow> (nat \<times> bool) list \<times> resource_limits option" where
  "simulate_tasks [] l = ([], l)"
| "simulate_tasks (i # is) l =
     (let (rc, l1) = resource_limits_reserve_task l in
      if rc = 0
      then let (out, l2) = simulate_tasks is (resource_limits_release_task l1 True) in ((i + 1, True) # out, l2)
      else ([(i + 1, False)], l1))"

record limits_report =
  lr_usage :: resource_stats
  lr_checks :: "(string \<times> string) list"
  lr_tasks :: "(nat \<times> bool) list"
  lr_final :: resource_stats

text \<open>\<open>os 0\<close> is what the update sees, \<open>os 1\<close> to \<open>os 5\<close> what the checks see.\<close>

definition example_resource_limits ::
    "(nat \<Rightarrow> os_report) \<Rightarrow> bool \<Rightarrow> rusage \<Rightarrow> u64 \<times> u64 \<Rightarrow> limits_report option" where
  "example_resource_limits os calloc_ok usage now =
     (case resource_limits_create (Some limits_example_config) calloc_ok usage now of
        None \<Rightarrow> None
      | Some l \<Rightarrow>
          let l1 = snd (resource_limits_update (os 0) (Some l));
              (out, l2) = simulate_tasks [0..<5] l1
          in Some \<lparr>lr_usage = the (resource_limits_get_stats l1 (Some zero_resource_stats)),
               lr_checks = map (\<lambda>(i, name, type). (name, resource_limit_status_string
                 (limit_status_value (resource_limits_check (os (Suc i)) l1 type))))
                 (enumerate 0 checked_resources),
               lr_tasks = out,
               lr_final = the (resource_limits_get_stats l2 (Some zero_resource_stats))\<rparr>)"

section \<open>Example 4: queue and limits together\<close>

definition integrated_task :: "nat \<Rightarrow> task_t" where
  "integrated_task i = example_task (of_nat i + 1) 100 0 30"

text \<open>The line a pass of the loop prints, if it prints one.\<close>

datatype integrated_line = Limit_Exceeded | Cannot_Reserve | Processing u64 | No_Line

record integrated =
  ig_queue :: task_queue
  ig_limits :: "resource_limits option"
  ig_processed :: nat

text \<open>\<open>os\<close> is what the check sees, \<open>os'\<close> what the update after a pause sees.\<close>

definition integrated_pass :: "os_report \<Rightarrow> os_report \<Rightarrow> integrated \<Rightarrow> (integrated_line \<times> integrated) option" where
  "integrated_pass os os' s =
     (let (status, l1) = resource_limits_check_all os (ig_limits s) in
      if status \<ge> LIMIT_EXCEEDED
      then Some (Limit_Exceeded, s\<lparr>ig_limits := snd (resource_limits_update os' l1)\<rparr>)
      else let (rc, l2) = resource_limits_reserve_task l1 in
        if rc \<noteq> 0 then Some (Cannot_Reserve, s\<lparr>ig_limits := l2\<rparr>)
        else do {
          (rc', q', t) \<leftarrow> heap_deq (ig_queue s);
          if rc' = 0
          then Some (Processing (t_task_id t), \<lparr>ig_queue = q', ig_limits = resource_limits_release_task l2 True,
            ig_processed = ig_processed s + 1\<rparr>)
          else Some (No_Line, s\<lparr>ig_queue := q', ig_limits := l2\<rparr>)
        })"

text \<open>The loop against the reports of its passes; when they are used up, it is still running.\<close>

fun integrated_loop ::
    "(os_report \<times> os_report) list \<Rightarrow> integrated \<Rightarrow> (integrated_line list \<times> integrated) option" where
  "integrated_loop [] s = Some ([], s)"
| "integrated_loop ((os, os') # reports) s =
     (if task_queue_is_empty (Some (ig_queue s)) \<noteq> 0 then Some ([], s)
      else do {
        (line, s1) \<leftarrow> integrated_pass os os' s;
        (lines, s2) \<leftarrow> integrated_loop reports s1;
        Some (line # lines, s2)
      })"

record integrated_report =
  ir_processed :: nat
  ir_queue :: task_queue_stats
  ir_resources :: resource_stats
  ir_left :: node_store

text \<open>After the loop; \<open>None\<close> when the loop is still running.\<close>

definition integrated_end :: "integrated \<Rightarrow> integrated_report option option" where
  "integrated_end s =
     (if task_queue_is_empty (Some (ig_queue s)) = 0 then Some None
      else do {
        (freed, left) \<leftarrow> task_queue_destroy (Some (ig_queue s));
        Some (Some \<lparr>ir_processed = ig_processed s,
          ir_queue = the (task_queue_get_stats (Some (ig_queue s)) (Some zero_queue_stats)),
          ir_resources = the (resource_limits_get_stats (ig_limits s) (Some zero_resource_stats)), ir_left = left\<rparr>)
      })"

text \<open>The inner \<open>None\<close> is the early return when the queue or the limiter cannot be created.\<close>

definition example_integrated ::
    "(task_queue \<Rightarrow> addr) \<Rightarrow> bool \<Rightarrow> bool \<Rightarrow> rusage \<Rightarrow> u64 \<times> u64 \<Rightarrow> (os_report \<times> os_report) list
      \<Rightarrow> (integrated_line list \<times> integrated_report option) option option" where
  "example_integrated malloc calloc_queue calloc_limits usage now reports =
     (case (task_queue_create None calloc_queue, resource_limits_create None calloc_limits usage now) of
        (Some q, Some l) \<Rightarrow> do {
          (rcs, q1) \<leftarrow> enqueue_all heap_enq malloc (map integrated_task [0..<7]) q;
          (lines, s) \<leftarrow> integrated_loop reports \<lparr>ig_queue = q1, ig_limits = Some l, ig_processed = 0\<rparr>;
          report \<leftarrow> integrated_end s;
          Some (Some (lines, report))
        }
      | _ \<Rightarrow> Some None)"

section \<open>The counters of the limiter\<close>

lemma update_counts:
  assumes "resource_limits_update os (Some l) = (rc, l')"
  obtains l1 where "l' = Some l1" "slots_running l1 = slots_running l" "slots_capacity l1 = slots_capacity l"
    "rs_tasks_completed (rl_stats l1) = rs_tasks_completed (rl_stats l)"
    "rs_tasks_failed (rl_stats l1) = rs_tasks_failed (rl_stats l)"
proof -
  have mem: "rs_tasks_completed (update_memory os st) = rs_tasks_completed st"
    "rs_tasks_failed (update_memory os st) = rs_tasks_failed st" for st
    by (auto simp: update_memory_def Let_def split: prod.split option.split)
  have cpu: "rs_tasks_completed (rl_stats (update_cpu os k)) = rs_tasks_completed (rl_stats k)"
    "rs_tasks_failed (rl_stats (update_cpu os k)) = rs_tasks_failed (rl_stats k)" for k
    by (auto simp: update_cpu_def Let_def split: option.split)
  from assms obtain l1 where l1: "l' = Some l1" by (auto simp: Let_def)
  have "rs_tasks_completed (rl_stats l1) = rs_tasks_completed (rl_stats l)"
    "rs_tasks_failed (rl_stats l1) = rs_tasks_failed (rl_stats l)"
    using assms l1 by (auto simp: Let_def mem cpu split: option.splits)
  with update_slots [OF assms [unfolded l1]] l1 show thesis by (intro that)
qed

text \<open>A slot taken and given back after a successful task.\<close>

lemma slot_bracket:
  assumes "slots_running l = 0" "0 < slots_capacity l"
  obtains l1 l2 where "resource_limits_reserve_task (Some l) = (0, Some l1)"
    "resource_limits_release_task (Some l1) True = Some l2" "slots_running l2 = 0"
    "slots_capacity l2 = slots_capacity l"
    "rs_tasks_completed (rl_stats l2) = rs_tasks_completed (rl_stats l) + 1"
    "rs_tasks_failed (rl_stats l2) = rs_tasks_failed (rl_stats l)"
proof -
  have free: "\<not> rl_max_concurrent_tasks l \<le> rl_tasks_running l"
    using assms by (simp add: slots_running_def slots_capacity_def word_le_nat_alt)
  let ?l1 = "l\<lparr>rl_tasks_running := rl_tasks_running l + 1\<rparr>"
  let ?l2 = "the (resource_limits_release_task (Some ?l1) True)"
  have res: "resource_limits_reserve_task (Some l) = (0, Some ?l1)" using free by simp
  then have "reserve_slot l = (0, ?l1)" by (simp add: reserve_slot_def)
  from limiter.bracket [OF this, of True] assms show thesis
    using res by (intro that [of ?l1 ?l2]) (auto simp: release_slot_def Let_def)
qed
lemma simulate_tasks_ok:
  "slots_running l = 0 \<Longrightarrow> 0 < slots_capacity l \<Longrightarrow>
    \<exists>l'. simulate_tasks is (Some l) = (map (\<lambda>i. (i + 1, True)) is, Some l') \<and>
      rs_tasks_completed (rl_stats l') = rs_tasks_completed (rl_stats l) + of_nat (length is) \<and>
      rs_tasks_failed (rl_stats l') = rs_tasks_failed (rl_stats l)"
proof (induction "is" arbitrary: l)
  case (Cons i "is")
  from slot_bracket [OF Cons.prems] obtain l1 l2 where
    l: "resource_limits_reserve_task (Some l) = (0, Some l1)" "resource_limits_release_task (Some l1) True = Some l2"
      "slots_running l2 = 0" "slots_capacity l2 = slots_capacity l"
      "rs_tasks_completed (rl_stats l2) = rs_tasks_completed (rl_stats l) + 1"
      "rs_tasks_failed (rl_stats l2) = rs_tasks_failed (rl_stats l)" .
  have "0 < slots_capacity l2" using l(4) Cons.prems(2) by simp
  from Cons.IH [OF l(3) this] obtain l' where
    l': "simulate_tasks is (Some l2) = (map (\<lambda>i. (i + 1, True)) is, Some l')"
      "rs_tasks_completed (rl_stats l') = rs_tasks_completed (rl_stats l2) + of_nat (length is)"
      "rs_tasks_failed (rl_stats l') = rs_tasks_failed (rl_stats l2)" by blast
  have "simulate_tasks (i # is) (Some l) = (map (\<lambda>i. (i + 1, True)) (i # is), Some l')"
    unfolding simulate_tasks.simps l(1) Let_def prod.case l(2) l'(1) by simp
  with l' l show ?case by simp
qed simp

text \<open>
  The example prints five reserved and released tasks, and its checks of the open files, whose limit
  is not set, and of the running tasks always pass.
\<close>

lemma limits_example_output:
  obtains report where "example_resource_limits os True usage now = Some report"
    "lr_tasks report = [(1, True), (2, True), (3, True), (4, True), (5, True)]"
    "rs_tasks_completed (lr_final report) = 5" "rs_tasks_failed (lr_final report) = 0"
    "lr_checks report ! 3 = (''Files'', ''OK'')" "lr_checks report ! 4 = (''Tasks'', ''OK'')"
proof -
  obtain l where l: "resource_limits_create (Some limits_example_config) True usage now = Some l"
    by (simp add: resource_limits_create_def)
  have l0: "rl_max_open_files l = 0" "slots_running l = 0" "slots_capacity l = 4"
      "rs_tasks_completed (rl_stats l) = 0" "rs_tasks_failed (rl_stats l) = 0"
    using l by (auto simp: resource_limits_create_def limits_example_config_def slots_running_def
        slots_capacity_def zero_resource_stats_def)
  obtain rc l1' where u: "resource_limits_update (os 0) (Some l) = (rc, l1')" by fastforce
  obtain l1 where l1: "l1' = Some l1" "slots_running l1 = 0" "slots_capacity l1 = 4"
      "rs_tasks_completed (rl_stats l1) = 0" "rs_tasks_failed (rl_stats l1) = 0"
    using l0 by (rule_tac update_counts [OF u]) simp
  have files: "rl_max_open_files l1 = 0"
    using u l1(1) l0(1) by (auto simp: update_cpu_def Let_def split: option.splits)
  have running: "rl_tasks_running l1 = 0" "rl_max_concurrent_tasks l1 = 4"
    using l1(2,3) by (simp add: slots_running_def unat_eq_zero)
      (use l1(3) in \<open>simp add: slots_capacity_def word_unat_eq_iff\<close>)
  from simulate_tasks_ok [OF l1(2), of "[0..<5]"] l1(3) obtain l2 where
    l2: "simulate_tasks [0..<5] (Some l1) = (map (\<lambda>i. (i + 1, True)) [0..<5], Some l2)"
      "rs_tasks_completed (rl_stats l2) = 5" "rs_tasks_failed (rl_stats l2) = 0"
    using l1(4,5) by auto
  have upt: "map (\<lambda>i. (i + 1, True)) [0..<5] = [(1, True), (2, True), (3, True), (4, True), (5 :: nat, True)]"
    by (simp add: upt_rec numeral_eq_Suc)
  let ?checks = "map (\<lambda>(i, name, type). (name, resource_limit_status_string
    (limit_status_value (resource_limits_check (os (Suc i)) (Some l1) type)))) (enumerate 0 checked_resources)"
  have enum: "enumerate 0 checked_resources = [(0, ''Memory'', RESOURCE_MEMORY), (1, ''CPU'', RESOURCE_CPU_TIME),
      (2, ''Disk'', RESOURCE_DISK_SPACE), (3, ''Files'', RESOURCE_OPEN_FILES), (4, ''Tasks'', RESOURCE_TASKS_RUNNING)]"
    by (simp add: checked_resources_def numeral_eq_Suc)
  have "example_resource_limits os True usage now = Some \<lparr>lr_usage = rl_stats l1, lr_checks = ?checks,
      lr_tasks = map (\<lambda>i. (i + 1, True)) [0..<5], lr_final = rl_stats l2\<rparr>"
    unfolding example_resource_limits_def l option.case u snd_conv l1(1) Let_def l2(1) prod.case by simp
  then show thesis
  proof (rule that)
    show "lr_checks \<lparr>lr_usage = rl_stats l1, lr_checks = ?checks, lr_tasks = map (\<lambda>i. (i + 1, True)) [0..<5],
        lr_final = rl_stats l2\<rparr> ! 3 = (''Files'', ''OK'')"
      unfolding enum by (simp add: files resource_limit_status_string_def)
    show "lr_checks \<lparr>lr_usage = rl_stats l1, lr_checks = ?checks, lr_tasks = map (\<lambda>i. (i + 1, True)) [0..<5],
        lr_final = rl_stats l2\<rparr> ! 4 = (''Tasks'', ''OK'')"
      unfolding enum by (simp add: running resource_limit_status_string_def)
  qed (use upt l2(2,3) in simp_all)
qed
section \<open>The loop of the fourth example\<close>

definition ig_inv :: "integrated \<Rightarrow> bool" where
  "ig_inv s \<longleftrightarrow> (let q = ig_queue s; k = ig_processed s in
     k \<le> 7 \<and> tq_inv q \<and> tq_tasks q = map integrated_task [k..<7] \<and> q_blocked_threads q = 0 \<and>
     q_total_enqueued q = 7 \<and> q_total_dequeued q = of_nat k \<and>
     (\<exists>l. ig_limits s = Some l \<and> slots_running l = 0 \<and> slots_capacity l = 8 \<and>
       rs_tasks_completed (rl_stats l) = of_nat k \<and> rs_tasks_failed (rl_stats l) = 0))"

lemma ig_empty: "ig_inv s \<Longrightarrow> task_queue_is_empty (Some (ig_queue s)) \<noteq> 0 \<longleftrightarrow> ig_processed s = 7"
  using tq_inv_size [of "ig_queue s"] by (auto simp: ig_inv_def Let_def unat_eq_zero)

text \<open>
  A pass prints that it pauses, and changes no counter, or processes the next task.  It never fails
  to reserve a slot, since each pass gives its slot back.
\<close>

lemma integrated_pass_ok:
  assumes inv: "ig_inv s" and k: "ig_processed s < 7"
  obtains s' where "integrated_pass os os' s = Some (Limit_Exceeded, s')" "ig_inv s'" "ig_processed s' = ig_processed s"
    "fst (resource_limits_check_all os (ig_limits s)) \<ge> LIMIT_EXCEEDED"
  | s' where "integrated_pass os os' s = Some (Processing (of_nat (Suc (ig_processed s))), s')" "ig_inv s'"
    "ig_processed s' = Suc (ig_processed s)" "\<not> fst (resource_limits_check_all os (ig_limits s)) \<ge> LIMIT_EXCEEDED"
proof -
  let ?k = "ig_processed s"
  obtain l where l: "ig_limits s = Some l" "slots_running l = 0" "slots_capacity l = 8"
      "rs_tasks_completed (rl_stats l) = of_nat ?k" "rs_tasks_failed (rl_stats l) = 0"
    using inv by (auto simp: ig_inv_def Let_def)
  obtain rc u where u: "resource_limits_update os (Some l) = (rc, u)" by fastforce
  obtain l1 where l1: "u = Some l1" "slots_running l1 = 0" "slots_capacity l1 = 8"
      "rs_tasks_completed (rl_stats l1) = of_nat ?k" "rs_tasks_failed (rl_stats l1) = 0"
    using l by (rule_tac update_counts [OF u]) simp
  obtain status where status: "resource_limits_check_all os (Some l) = (status, Some l1)"
    using u l1(1) by (simp add: Let_def del: resource_limits_update.simps)
  show thesis
  proof (cases "status \<ge> LIMIT_EXCEEDED")
    case True
    obtain rc' u' where u': "resource_limits_update os' (Some l1) = (rc', u')" by fastforce
    obtain l2 where l2: "u' = Some l2" "slots_running l2 = 0" "slots_capacity l2 = 8"
        "rs_tasks_completed (rl_stats l2) = of_nat ?k" "rs_tasks_failed (rl_stats l2) = 0"
      using l1 by (rule_tac update_counts [OF u']) simp
    have "integrated_pass os os' s = Some (Limit_Exceeded, s\<lparr>ig_limits := Some l2\<rparr>)"
      using True by (simp only: integrated_pass_def l(1) status Let_def prod.case if_True u' snd_conv l2(1))
    moreover have "ig_inv (s\<lparr>ig_limits := Some l2\<rparr>)" using inv l2 by (simp add: ig_inv_def Let_def)
    ultimately show thesis using True l(1) status
      by (intro that(1) [of "s\<lparr>ig_limits := Some l2\<rparr>"]) (simp_all del: resource_limits_check_all.simps)
  next
    case False
    have "0 < slots_capacity l1" using l1(3) by simp
    from slot_bracket [OF l1(2) this] obtain l2 l3 where
      l3: "resource_limits_reserve_task (Some l1) = (0, Some l2)" "resource_limits_release_task (Some l2) True = Some l3"
        "slots_running l3 = 0" "slots_capacity l3 = slots_capacity l1"
        "rs_tasks_completed (rl_stats l3) = rs_tasks_completed (rl_stats l1) + 1"
        "rs_tasks_failed (rl_stats l3) = rs_tasks_failed (rl_stats l1)" .
    have q: "tq_inv (ig_queue s)" "tq_tasks (ig_queue s) = integrated_task ?k # map integrated_task [Suc ?k..<7]"
      using inv k by (simp_all add: ig_inv_def Let_def upt_conv_Cons)
    from dequeue_ok [OF q, of zero_task] obtain q' where
      q': "heap_deq (ig_queue s) = Some (0, q', integrated_task ?k)" "tq_inv q'"
        "tq_tasks q' = map integrated_task [Suc ?k..<7]" "tq_frame (ig_queue s) q'"
        "q_total_dequeued q' = q_total_dequeued (ig_queue s) + 1" "q_total_enqueued q' = q_total_enqueued (ig_queue s)"
      by (auto simp: heap_deq_def simp del: task_queue_dequeue.simps)
    let ?s = "\<lparr>ig_queue = q', ig_limits = Some l3, ig_processed = ?k + 1\<rparr>"
    have "integrated_pass os os' s = Some (Processing (t_task_id (integrated_task ?k)), ?s)"
      using False by (simp only: integrated_pass_def l(1) status Let_def prod.case if_False l3(1,2) q'(1)) simp
    moreover have "t_task_id (integrated_task ?k) = of_nat (Suc ?k)" by (simp add: integrated_task_def example_task_def)
    moreover have "ig_inv ?s" using inv k q' l3 l1 by (simp add: ig_inv_def Let_def tq_frame_def)
    ultimately show thesis using False l(1) status
      by (intro that(2) [of ?s]) (simp_all del: resource_limits_check_all.simps)
  qed
qed

lemma integrated_loop_ok:
  "ig_inv s \<Longrightarrow> \<exists>lines s'. integrated_loop reports s = Some (lines, s') \<and> ig_inv s' \<and>
     ig_processed s \<le> ig_processed s' \<and>
     filter (\<lambda>x. x \<noteq> Limit_Exceeded) lines = map (\<lambda>i. Processing (of_nat (Suc i))) [ig_processed s..<ig_processed s'] \<and>
     (ig_processed s' < 7 \<longrightarrow> length lines = length reports)"
proof (induction reports arbitrary: s)
  case (Cons r reports)
  obtain os os' where r: "r = (os, os')" by (cases r)
  show ?case
  proof (cases "ig_processed s = 7")
    case True
    with Cons.prems ig_empty [OF Cons.prems] show ?thesis by (simp add: r)
  next
    case False
    then have k: "ig_processed s < 7" using Cons.prems by (simp add: ig_inv_def Let_def)
    have nonempty: "task_queue_is_empty (Some (ig_queue s)) = 0" using ig_empty [OF Cons.prems] False by blast
    from Cons.prems k show ?thesis
    proof (cases rule: integrated_pass_ok [of s os os'])
      case (1 s1)
      from Cons.IH [OF 1(2)] 1 nonempty show ?thesis
        by (fastforce simp: r simp del: task_queue_is_empty.simps)
    next
      case (2 s1)
      from Cons.IH [OF 2(2)] 2 nonempty show ?thesis
        by (fastforce simp: r upt_conv_Cons simp del: task_queue_is_empty.simps)
    qed
  qed
qed simp

end
