(* ===== verification/Example_Transport.thy ===== *)
theory Example_Transport
  imports Cluster_Round Transport_MPI
begin

text \<open>
  \<open>examples/volunteer_computing/transport_example.c\<close>: a coordinator that hands ten tasks to the
  connected workers and collects the results, and a worker that answers them, over either backend.
  The log messages are left out.  A \<open>double\<close> that crosses the wire is its 64 bits; how the machine
  rounds and computes is an argument (\<open>c_floats\<close>), and so are the allocator and the bytes of padding.
\<close>

section \<open>Payloads\<close>

record example_env =
  xe_calloc :: bool
  xe_malloc :: "size_t \<Rightarrow> u8 list option"
  xe_pad :: "u8 list"

record task_payload =
  tp_task_id :: u64
  tp_input_value :: u64
  tp_iterations :: u32

record result_payload =
  rp_task_id :: u64
  rp_result :: u64
  rp_status :: u32

text \<open>Both structures have 24 bytes, of which the last four are padding.\<close>

definition sizeof_payload :: nat where "sizeof_payload = 24"

definition payload_bytes :: "u8 list \<Rightarrow> u64 \<Rightarrow> u64 \<Rightarrow> u32 \<Rightarrow> u8 list" where
  "payload_bytes pad a b c = le_enc 8 a @ le_enc 8 b @ le_enc 4 c @ take 4 (pad @ replicate 4 0)"

text \<open>Reading a structure through the payload pointer: the block must be there and large enough.\<close>

definition read_task :: "message_t \<Rightarrow> task_payload option" where
  "read_task m = do {
     bs \<leftarrow> m_payload m;
     if length bs < sizeof_payload then None
     else Some \<lparr>tp_task_id = rd64 0 bs, tp_input_value = rd64 8 bs, tp_iterations = rd32 16 bs\<rparr>
   }"

definition read_result :: "message_t \<Rightarrow> result_payload option" where
  "read_result m = do {
     bs \<leftarrow> m_payload m;
     if length bs < sizeof_payload then None
     else Some \<lparr>rp_task_id = rd64 0 bs, rp_result = rd64 8 bs, rp_status = rd32 16 bs\<rparr>
   }"

section \<open>The coordinator\<close>

definition example_coordinator_config :: "transport_type \<Rightarrow> string \<Rightarrow> transport_config" where
  "example_coordinator_config type endpoint =
     \<lparr>tc_type = transport_type_value type, tc_role = TRANSPORT_ROLE_COORDINATOR, tc_endpoint = Some endpoint,
      tc_timeout_ms = 5000, tc_max_workers = 16\<rparr>"

text \<open>
  The loop that waits for workers; \<open>n\<close> is the number of attempts left.  \<open>junk\<close> is the value of the
  variable \<open>src_rank\<close>, which is not initialised.
\<close>

fun wait_for_workers :: "nat \<Rightarrow> c_int \<Rightarrow> 'i transport \<Rightarrow> 'i transport option" where
  "wait_for_workers 0 junk t = Some t"
| "wait_for_workers (Suc n) junk t = do {
     (msg, src, i) \<leftarrow> transport_recv (Some t) (Some junk);
     let t' = t\<lparr>tr_impl := i\<rparr>;
     if transport_worker_count (Some t') > 0 then Some t' else wait_for_workers n junk t'
   }"

definition MAX_WAIT_TIME :: nat where "MAX_WAIT_TIME = 30000"
definition WAIT_INTERVAL :: nat where "WAIT_INTERVAL = 1000"
definition NUM_TASKS :: nat where "NUM_TASKS = 10"

definition task_message :: "c_floats \<Rightarrow> example_env \<Rightarrow> nat \<Rightarrow> message_t option" where
  "task_message fl xe i = packed_message (xe_calloc xe) (xe_malloc xe) MSG_TYPE_TASK_SUBMIT (of_nat (i + 1))
     (payload_bytes (xe_pad xe) (of_nat (i + 1)) (fl_of fl (1 + real i * (1 / 2))) (of_nat (1000 + i * 100)))"

fun distribute :: "c_floats \<Rightarrow> (nat \<Rightarrow> example_env) \<Rightarrow> c_int \<Rightarrow> nat list \<Rightarrow> 'i transport \<Rightarrow> 'i transport option" where
  "distribute fl env worker_count [] t = Some t"
| "distribute fl env worker_count (i # is) t = do {
     (rc, t') \<leftarrow> send_packed t (task_message fl (env i) i) (c_mod (int i) worker_count);
     distribute fl env worker_count is t'
   }"

text \<open>The loop that collects; on a connection that delivers nothing any more it does not end.\<close>

partial_function (option) collect ::
    "nat \<Rightarrow> c_int \<Rightarrow> 'i transport \<Rightarrow> ((c_int \<times> result_payload) list \<times> 'i transport) option" where
  "collect results_received junk t =
     (if \<not> results_received < NUM_TASKS then Some ([], t)
      else do {
        (msg, src, i) \<leftarrow> transport_recv (Some t) (Some junk);
        let t' = t\<lparr>tr_impl := i\<rparr>;
        case msg of
          None \<Rightarrow> collect results_received junk t'
        | Some m \<Rightarrow>
            if h_msg_type (m_header m) = MSG_TYPE_TASK_RESULT
            then do {
              r \<leftarrow> read_result m;
              (rs, t'') \<leftarrow> collect (results_received + 1) junk t';
              Some ((the src, r) # rs, t'')
            }
            else collect results_received junk t'
      })"

datatype 'i coordinator_outcome =
    Init_Failed
  | No_Workers "'i transport"
  | Completed "(c_int \<times> result_payload) list" transport_stats "'i transport"

text \<open>The transport in the outcome is the one that is then shut down.\<close>

definition run_coordinator ::
    "(transport_config \<Rightarrow> c_int \<times> 'i transport option) option
      \<Rightarrow> (transport_config \<Rightarrow> c_int \<times> 'i transport option) option
      \<Rightarrow> c_floats \<Rightarrow> (nat \<Rightarrow> example_env) \<Rightarrow> c_int \<Rightarrow> transport_type \<Rightarrow> string \<Rightarrow> 'i coordinator_outcome option" where
  "run_coordinator init_mpi init_zmq fl env junk type endpoint =
     (case transport_init init_mpi init_zmq True (Some (example_coordinator_config type endpoint)) of
        (rc, None) \<Rightarrow> if rc \<noteq> 0 then Some Init_Failed else None
      | (rc, Some t) \<Rightarrow>
          if rc \<noteq> 0 then Some Init_Failed
          else do {
            t1 \<leftarrow> wait_for_workers (MAX_WAIT_TIME div WAIT_INTERVAL) junk t;
            let worker_count = transport_worker_count (Some t1);
            if worker_count = 0 then Some (No_Workers t1)
            else do {
              t2 \<leftarrow> distribute fl env worker_count [0..<NUM_TASKS] t1;
              (rs, t3) \<leftarrow> collect 0 junk t2;
              Some (Completed rs (the (transport_get_stats (Some t3) (Some zero_transport_stats))) t3)
            }
          })"

section \<open>The worker\<close>

definition example_worker_config :: "transport_type \<Rightarrow> string \<Rightarrow> transport_config" where
  "example_worker_config type endpoint =
     \<lparr>tc_type = transport_type_value type, tc_role = TRANSPORT_ROLE_WORKER, tc_endpoint = Some endpoint,
      tc_timeout_ms = 10000, tc_max_workers = 0\<rparr>"

text \<open>\<open>for (i = 0; i < iterations; i++) result = result * 0.999 + 0.001;\<close>\<close>

fun simulate :: "c_floats \<Rightarrow> nat \<Rightarrow> u64 \<Rightarrow> u64" where
  "simulate fl 0 result = result"
| "simulate fl (Suc n) result =
     simulate fl n (fl_add fl (fl_mul fl result (fl_of fl (999 / 1000))) (fl_of fl (1 / 1000)))"

definition answer_message :: "c_floats \<Rightarrow> example_env \<Rightarrow> task_payload \<Rightarrow> message_t option" where
  "answer_message fl xe task = packed_message (xe_calloc xe) (xe_malloc xe) MSG_TYPE_TASK_RESULT (tp_task_id task)
     (payload_bytes (xe_pad xe) (tp_task_id task)
       (simulate fl (nat (sint (tp_iterations task))) (tp_input_value task)) 0)"

text \<open>One pass of the loop: the number of tasks processed and the transport.\<close>

definition example_worker_pass ::
    "c_floats \<Rightarrow> example_env \<Rightarrow> nat \<times> 'i transport \<Rightarrow> (nat \<times> 'i transport) option" where
  "example_worker_pass fl xe s = do {
     let (tasks_processed, t) = s;
     (msg, src, i) \<leftarrow> transport_recv (Some t) None;
     let t1 = t\<lparr>tr_impl := i\<rparr>;
     case msg of
       None \<Rightarrow> do {
         (rc, t2) \<leftarrow> send_packed t1 (packed_message (xe_calloc xe) (xe_malloc xe) MSG_TYPE_HEARTBEAT 0 []) 0;
         Some (tasks_processed, t2)
       }
     | Some m \<Rightarrow>
         if h_msg_type (m_header m) \<noteq> MSG_TYPE_TASK_SUBMIT then Some (tasks_processed, t1)
         else do {
           task \<leftarrow> read_task m;
           (rc, t2) \<leftarrow> send_packed t1 (answer_message fl xe task) 0;
           Some (if rc = 0 then tasks_processed + 1 else tasks_processed, t2)
         }
   }"

text \<open>The loop against the environments of its passes; when they are used up, it is still running.\<close>

fun example_worker_loop ::
    "c_floats \<Rightarrow> example_env list \<Rightarrow> nat \<times> 'i transport \<Rightarrow> (nat \<times> 'i transport) option" where
  "example_worker_loop fl [] s = Some s"
| "example_worker_loop fl (xe # xes) s =
     (if \<not> fst s < 10 then Some s
      else do { s' \<leftarrow> example_worker_pass fl xe s; example_worker_loop fl xes s' })"

definition run_worker ::
    "(transport_config \<Rightarrow> c_int \<times> 'i transport option) option
      \<Rightarrow> (transport_config \<Rightarrow> c_int \<times> 'i transport option) option
      \<Rightarrow> c_floats \<Rightarrow> example_env list \<Rightarrow> transport_type \<Rightarrow> string \<Rightarrow> (nat \<times> 'i transport) option option" where
  "run_worker init_mpi init_zmq fl xes type endpoint =
     (case transport_init init_mpi init_zmq True (Some (example_worker_config type endpoint)) of
        (rc, None) \<Rightarrow> if rc \<noteq> 0 then Some None else None
      | (rc, Some t) \<Rightarrow>
          if rc \<noteq> 0 then Some None
          else map_option Some (example_worker_loop fl xes (0, t)))"

section \<open>The program\<close>

text \<open>The command line: role, transport and endpoint, with their defaults.\<close>

definition transport_example_args ::
    "string list \<Rightarrow> (transport_role \<times> transport_type \<times> string) option" where
  "transport_example_args args =
     (case args of
        [] \<Rightarrow> None
      | role # rest \<Rightarrow>
          let type = (if rest \<noteq> [] \<and> hd rest = ''zmq'' then TRANSPORT_TYPE_ZMQ else TRANSPORT_TYPE_MPI);
              endpoint = (if length rest > 1 then rest ! 1 else ''tcp://127.0.0.1:5555'')
          in if role = ''coordinator'' then Some (TRANSPORT_ROLE_COORDINATOR, type, endpoint)
             else if role = ''worker'' then Some (TRANSPORT_ROLE_WORKER, type, endpoint)
             else None)"

text \<open>The exit code; the arguments of the two roles are those of \<open>run_coordinator\<close> and \<open>run_worker\<close>.\<close>

definition transport_example_main ::
    "(transport_config \<Rightarrow> c_int \<times> 'i transport option) option
      \<Rightarrow> (transport_config \<Rightarrow> c_int \<times> 'i transport option) option
      \<Rightarrow> c_floats \<Rightarrow> (nat \<Rightarrow> example_env) \<Rightarrow> c_int \<Rightarrow> example_env list \<Rightarrow> bool \<Rightarrow> string list \<Rightarrow> c_int option" where
  "transport_example_main init_mpi init_zmq fl env junk xes log_ok args =
     (if \<not> log_ok then Some 1
      else case transport_example_args args of
          None \<Rightarrow> Some 1
        | Some (role, type, endpoint) \<Rightarrow>
            if role = TRANSPORT_ROLE_COORDINATOR
            then map_option (\<lambda>_. 0) (run_coordinator init_mpi init_zmq fl env junk type endpoint)
            else map_option (\<lambda>_. 0) (run_worker init_mpi init_zmq fl xes type endpoint))"

section \<open>A worker that never registers\<close>

text \<open>The registry only grows by a registration.\<close>

lemma recv_sender_empty:
  assumes "recv_sender z identity n mt src = Some (src', z')" "z_workers z = []" "mt \<noteq> MSG_TYPE_WORKER_REGISTER"
  shows "z_workers z' = []"
  using assms
  by (auto simp: recv_sender_def zmq_update_heartbeat_def lock_def unlock_def split: if_splits bind_splits)

lemma zmq_recv_empty:
  assumes "transport_zmq_recv (Some z) src = Some (Some m, src', Some z')" "z_workers z = []"
    "h_msg_type (m_header m) \<noteq> MSG_TYPE_WORKER_REGISTER" "identity_fits z"
  shows "z_workers z' = []"
  using assms(4)
proof (cases rule: recv_identity_cases)
  case (2 buf n s z1)
  then have "z_workers z1 = []" using assms(2) by (simp add: same_registry_def)
  then show ?thesis
    using assms(1,3) 2(1) recv_content_registry [of z1] recv_sender_empty
    by (fastforce simp: same_registry_def Let_def split: if_splits bind_splits sum.splits prod.splits)
qed (use assms(1) in \<open>auto split: if_splits\<close>)
definition heartbeat :: "message_t \<Rightarrow> bool" where
  "heartbeat m \<longleftrightarrow> carries m MSG_TYPE_HEARTBEAT 0 []"

lemma zmq_on_count: "z_role c = TRANSPORT_ROLE_COORDINATOR
    \<Longrightarrow> transport_worker_count (Some (zmq_on c)) = int (length (z_workers c))"
  by (simp add: transport_worker_count_def dispatch_def zmq_on_def zmq_vtable_def)

text \<open>A coordinator without workers takes a heartbeat.\<close>

lemma heartbeat_received:
  assumes "heartbeat m" and up: "endpoint_up TRANSPORT_ROLE_COORDINATOR c" and "z_workers c = []"
    and s: "0 < length s" "length s < IDENTITY_LEN" "NUL \<notin> set s"
    and rx: "e_rx (z_env c) = Inl (map byte_of_char s) # map (Inl \<circ> fst) (frames m) @ rest"
  obtains src c' where "transport_recv (Some (zmq_on c)) (Some junk) = Some (Some m, src, Some c')"
    "endpoint_up TRANSPORT_ROLE_COORDINATOR c'" "z_workers c' = []" "e_rx (z_env c') = rest"
    "e_sent (z_env c') = e_sent (z_env c)"
proof -
  have m: "message_validate (Some m) = 0" "message_wf m" "delivered m = m" "h_msg_type (m_header m) = MSG_TYPE_HEARTBEAT"
    using assms(1) carries_delivered [of m MSG_TYPE_HEARTBEAT 0 "[]"]
    by (auto simp: heartbeat_def carries_def complete_message_def)
  have c: "zmq_inv c" "z_role c = TRANSPORT_ROLE_COORDINATOR" "e_setsockopt_ok (z_env c)" "e_calloc_ok (z_env c)"
    "malloc_serves (z_env c) (ucast (h_payload_len (m_header m)))"
    using up by (simp_all add: endpoint_up_def)
  obtain c' where c': "transport_zmq_recv (Some c) (Some junk)
      = Some (Some (delivered m), Some (reported_rank c' s (h_msg_type (m_header m)) junk), Some c')"
    "zmq_inv c'" "z_env c' = (z_env c)\<lparr>e_rx := rest\<rparr>" "z_role c' = TRANSPORT_ROLE_COORDINATOR"
    by (rule worker_to_coordinator [OF m(1,2) c s rx, of junk]) blast
  have "identity_fits c" using rx s(2) by (simp add: identity_fits_def zmq_recv_def)
  then have "z_workers c' = []"
    by (rule zmq_recv_empty [OF c'(1) assms(3), rotated]) (simp add: m(3,4) msg_type_defs)
  moreover have "endpoint_up TRANSPORT_ROLE_COORDINATOR c'"
    using up c'(2-4) by (auto simp: endpoint_up_def malloc_serves_def)
  ultimately show thesis
    using c'(1,3) m(3) by (intro that [of _ c']) (auto simp: zmq_on_recv simp del: transport_zmq_recv.simps)
qed

lemma wait_without_registration:
  assumes s: "0 < length s" "length s < IDENTITY_LEN" "NUL \<notin> set s"
  shows "endpoint_up TRANSPORT_ROLE_COORDINATOR c \<Longrightarrow> z_workers c = [] \<Longrightarrow> \<forall>m \<in> set ms. heartbeat m
    \<Longrightarrow> e_rx (z_env c) = routed (map byte_of_char s) True (concat (map frames ms))
    \<Longrightarrow> \<exists>c'. wait_for_workers n junk (zmq_on c) = Some (zmq_on c') \<and> z_workers c' = [] \<and>
      z_role c' = TRANSPORT_ROLE_COORDINATOR \<and> e_sent (z_env c') = e_sent (z_env c)"
proof (induction n arbitrary: c ms)
  case 0
  then show ?case by (auto simp: endpoint_up_def)
next
  case (Suc n)
  note up = Suc.prems(1)
  obtain msg src c1 ms' where c1: "transport_recv (Some (zmq_on c)) (Some junk) = Some (msg, src, Some c1)"
      "endpoint_up TRANSPORT_ROLE_COORDINATOR c1" "z_workers c1 = []" "\<forall>m \<in> set ms'. heartbeat m"
      "e_rx (z_env c1) = routed (map byte_of_char s) True (concat (map frames ms'))" "e_sent (z_env c1) = e_sent (z_env c)"
  proof (cases ms)
    case Nil
    then have "e_rx (z_env c) = []" using Suc.prems(4) by simp
    from nothing_received [OF up this, of junk] Suc.prems Nil show thesis by (intro that [of None "Some junk" c "[]"]) simp_all
  next
    case (Cons m ms')
    have m: "heartbeat m" "\<forall>m \<in> set ms'. heartbeat m" using Suc.prems(3) Cons by simp_all
    then have rx: "e_rx (z_env c) = Inl (map byte_of_char s) # map (Inl \<circ> fst) (frames m) @
        routed (map byte_of_char s) True (concat (map frames ms'))"
      using Suc.prems(4) Cons routed_message by (simp add: heartbeat_def)
    obtain src c1 where "transport_recv (Some (zmq_on c)) (Some junk) = Some (Some m, src, Some c1)"
        "endpoint_up TRANSPORT_ROLE_COORDINATOR c1" "z_workers c1 = []"
        "e_rx (z_env c1) = routed (map byte_of_char s) True (concat (map frames ms'))"
        "e_sent (z_env c1) = e_sent (z_env c)"
      by (rule heartbeat_received [OF m(1) up Suc.prems(2) s rx])
    then show thesis by (intro that [of "Some m" src c1 ms'] m(2))
  qed
  have "transport_worker_count (Some (zmq_on c1)) = 0" using c1(2,3) zmq_on_count [of c1] by (simp add: endpoint_up_def)
  with Suc.IH [OF c1(2-5)] c1(1,6) show ?case by simp
qed

section \<open>The worker on a silent connection\<close>

lemma worker_hears_nothing:
  assumes "endpoint_up TRANSPORT_ROLE_WORKER z" "e_rx (z_env z) = []"
  shows "transport_recv (Some (zmq_on z)) None = Some (None, None, Some z)"
  using assms
  by (simp add: endpoint_up_def zmq_on_recv recv_identity_def recv_content_def zmq_recv_def receive_failed_def)

lemma silent_example_worker:
  "endpoint_up TRANSPORT_ROLE_WORKER w \<Longrightarrow> e_rx (z_env w) = []
    \<Longrightarrow> \<forall>xe \<in> set xes. allocates (xe_calloc xe) (xe_malloc xe)
    \<Longrightarrow> \<exists>w' ms. example_worker_loop fl xes (0, zmq_on w) = Some (0, zmq_on w') \<and> (\<forall>m \<in> set ms. heartbeat m) \<and>
      length ms = length xes \<and> e_sent (z_env w') = e_sent (z_env w) @ concat (map frames ms)"
proof (induction xes arbitrary: w)
  case (Cons xe xes)
  have alloc: "allocates (xe_calloc xe) (xe_malloc xe)" using Cons.prems(3) by simp
  obtain w1 m where w1: "send_packed (zmq_on w) (packed_message (xe_calloc xe) (xe_malloc xe) MSG_TYPE_HEARTBEAT 0 []) 0
        = Some (0, zmq_on w1)" "carries m MSG_TYPE_HEARTBEAT 0 []" "e_sent (z_env w1) = e_sent (z_env w) @ frames m"
      "endpoint_up TRANSPORT_ROLE_WORKER w1" "e_rx (z_env w1) = e_rx (z_env w)"
    by (rule packed_sent [OF Cons.prems(1) alloc, of "[]"]) simp_all
  have pass: "example_worker_pass fl xe (0, zmq_on w) = Some (0, zmq_on w1)"
    using worker_hears_nothing [OF Cons.prems(1,2)] w1(1) by (simp add: example_worker_pass_def)
  obtain w' ms where "example_worker_loop fl xes (0, zmq_on w1) = Some (0, zmq_on w')" "\<forall>m \<in> set ms. heartbeat m"
      "length ms = length xes" "e_sent (z_env w') = e_sent (z_env w1) @ concat (map frames ms)"
    using Cons.IH [OF w1(4)] w1(5) Cons.prems(2,3) by auto
  with pass w1(2,3) show ?case
    by (intro exI [of _ w'] exI [of _ "m # ms"]) (simp add: heartbeat_def)
qed auto
section \<open>Tasks and answers\<close>

lemma length_payload_bytes [simp]: "length (payload_bytes pad a b c) = sizeof_payload"
  by (simp add: payload_bytes_def sizeof_payload_def)

lemma payload_fields:
  "rd64 0 (payload_bytes pad a b c) = a" "rd64 8 (payload_bytes pad a b c) = b" "rd32 16 (payload_bytes pad a b c) = c"
  by (simp_all add: payload_bytes_def rd_defs le_roundtrip)

text \<open>A worker answers a task with the value it computed from the input.\<close>

lemma worker_answers:
  assumes m: "carries m MSG_TYPE_TASK_SUBMIT tid (payload_bytes pad tid x n)"
    and up: "endpoint_up TRANSPORT_ROLE_WORKER w" and rx: "e_rx (z_env w) = map (Inl \<circ> fst) (frames m) @ rest"
    and alloc: "allocates (xe_calloc xe) (xe_malloc xe)"
  obtains w' r where "example_worker_pass fl xe (k, zmq_on w) = Some (k + 1, zmq_on w')"
    "carries r MSG_TYPE_TASK_RESULT tid (payload_bytes (xe_pad xe) tid (simulate fl (nat (sint n)) x) 0)"
    "read_result r = Some \<lparr>rp_task_id = tid, rp_result = simulate fl (nat (sint n)) x, rp_status = 0\<rparr>"
    "e_sent (z_env w') = e_sent (z_env w) @ frames r" "e_rx (z_env w') = rest" "endpoint_up TRANSPORT_ROLE_WORKER w'"
proof -
  have mv: "message_validate (Some m) = 0" "message_wf m" "delivered m = m" "h_msg_type (m_header m) = MSG_TYPE_TASK_SUBMIT"
    using m carries_delivered [OF m] by (auto simp: carries_def complete_message_def)
  have z: "z_role w = TRANSPORT_ROLE_WORKER" "e_setsockopt_ok (z_env w)" "e_calloc_ok (z_env w)"
    "malloc_serves (z_env w) (ucast (h_payload_len (m_header m)))" "e_tx (z_env w) = []"
    using up by (simp_all add: endpoint_up_def)
  obtain w1 where w1: "transport_zmq_recv (Some w) None = Some (Some (delivered m), None, Some w1)"
      "e_rx (z_env w1) = rest" "e_sent (z_env w1) = e_sent (z_env w)"
      "z_env w1 = (z_env w)\<lparr>e_rx := rest\<rparr>" "same_registry w w1"
    by (rule coordinator_to_worker [OF mv(1,2) z(1-4) rx, of None]) blast
  have up1: "endpoint_up TRANSPORT_ROLE_WORKER w1"
    by (rule endpoint_up_same [OF up w1(5)]) (use z(5) in \<open>simp_all add: w1(4)\<close>)
  let ?bytes = "payload_bytes pad tid x n" and ?res = "simulate fl (nat (sint n)) x"
  let ?task = "\<lparr>tp_task_id = tid, tp_input_value = x, tp_iterations = n\<rparr>"
  have pay: "m_payload m = Some ?bytes" using m by (auto simp: carries_def payload_bytes_def)
  then have task: "read_task m = Some ?task" by (simp add: read_task_def payload_fields)
  let ?answer = "payload_bytes (xe_pad xe) tid ?res 0"
  obtain w' r where w': "send_packed (zmq_on w1) (packed_message (xe_calloc xe) (xe_malloc xe) MSG_TYPE_TASK_RESULT tid ?answer) 0
        = Some (0, zmq_on w')" "carries r MSG_TYPE_TASK_RESULT tid ?answer"
      "e_sent (z_env w') = e_sent (z_env w1) @ frames r" "endpoint_up TRANSPORT_ROLE_WORKER w'"
      "e_rx (z_env w') = e_rx (z_env w1)"
    by (rule packed_sent [OF up1 alloc, of ?answer]) (simp_all add: sizeof_payload_def)
  have "example_worker_pass fl xe (k, zmq_on w) = Some (k + 1, zmq_on w')"
    using w1(1) w'(1) task mv(3,4)
    by (simp add: example_worker_pass_def zmq_on_recv answer_message_def del: transport_zmq_recv.simps)
  moreover have "m_payload r = Some ?answer" using w'(2) by (auto simp: carries_def payload_bytes_def)
  then have "read_result r = Some \<lparr>rp_task_id = tid, rp_result = ?res, rp_status = 0\<rparr>"
    by (simp add: read_result_def payload_fields)
  ultimately show thesis using w' w1(2,3) by (intro that [of w' r]) simp_all
qed

text \<open>The coordinator gives the tasks to the registered workers in turn.\<close>

lemma rank_of_nth:
  assumes "zmq_inv c" "i < length (z_workers c)"
  obtains s where "ident (z_workers c ! i) = Some s" "rank_of c s = Some i"
proof -
  have "ident (z_workers c ! i) \<noteq> None" using assms nth_mem [OF assms(2)] by (simp add: zmq_inv_def)
  then obtain s where s: "ident (z_workers c ! i) = Some s" by blast
  then obtain j where j: "rank_of c s = Some j"
    unfolding rank_of_def using assms(2) first_index_Some_ex [of "z_workers c ! i"] by force
  have "ident (z_workers c ! j) = Some s" "j < length (z_workers c)" using rank_of_ident [OF j] rank_of_bound [OF j] by auto
  with s assms(2) have "map ident (z_workers c) ! j = map ident (z_workers c) ! i" by simp
  then have "j = i"
    using assms \<open>j < length (z_workers c)\<close> nth_eq_iff_index_eq [of "map ident (z_workers c)" j i]
    by (simp add: zmq_inv_def)
  with s j that show thesis by blast
qed

definition task_for :: "c_floats \<Rightarrow> nat \<Rightarrow> message_t \<Rightarrow> bool" where
  "task_for fl i m \<longleftrightarrow> (\<exists>pad. carries m MSG_TYPE_TASK_SUBMIT (of_nat (i + 1))
     (payload_bytes pad (of_nat (i + 1)) (fl_of fl (1 + real i * (1 / 2))) (of_nat (1000 + i * 100))))"

definition addressed :: "zmq_transport \<Rightarrow> nat \<Rightarrow> message_t \<Rightarrow> (u8 list \<times> bool) list" where
  "addressed c i m = (map byte_of_char (the (ident (z_workers c ! i))), True) # frames m"

lemma distribute_zmq:
  assumes "\<forall>i. allocates (xe_calloc (env i)) (xe_malloc (env i))"
  shows "endpoint_up TRANSPORT_ROLE_COORDINATOR c \<Longrightarrow> 0 < n \<Longrightarrow> n = length (z_workers c) \<Longrightarrow>
    \<exists>c' ms. distribute fl env (int n) is (zmq_on c) = Some (zmq_on c') \<and> list_all2 (task_for fl) is ms \<and>
      e_sent (z_env c') = e_sent (z_env c) @ concat (map2 (\<lambda>i m. addressed c (i mod n) m) is ms) \<and>
      z_workers c' = z_workers c \<and> endpoint_up TRANSPORT_ROLE_COORDINATOR c'"
proof (induction "is" arbitrary: c)
  case (Cons i "is")
  let ?bytes = "payload_bytes (xe_pad (env i)) (of_nat (i + 1)) (fl_of fl (1 + real i * (1 / 2))) (of_nat (1000 + i * 100))"
  have alloc: "allocates (xe_calloc (env i)) (xe_malloc (env i))" and len: "length ?bytes < 2 ^ 32"
    using assms by (simp_all add: sizeof_payload_def)
  obtain m where m: "task_message fl (env i) i = Some m" "carries m MSG_TYPE_TASK_SUBMIT (of_nat (i + 1)) ?bytes"
      "message_validate (Some m) = 0" "message_wf m"
    unfolding task_message_def by (rule packed_message_made [OF alloc len])
  have c: "zmq_inv c" "z_role c = TRANSPORT_ROLE_COORDINATOR" "e_tx (z_env c) = []"
    using Cons.prems(1) by (simp_all add: endpoint_up_def)
  have bound: "i mod n < length (z_workers c)" using Cons.prems(2,3) by simp
  obtain s where s: "ident (z_workers c ! (i mod n)) = Some s" "rank_of c s = Some (i mod n)"
    by (rule rank_of_nth [OF c(1) bound])
  obtain c1 where c1: "transport_zmq_send (Some c) (Some m) (int (i mod n)) = Some (0, Some c1)" "zmq_inv c1"
      "z_env c1 = (z_env c)\<lparr>e_sent := e_sent (z_env c) @ (map byte_of_char s, True) # frames m\<rparr>"
      "same_registry c c1"
    by (rule coordinator_send [OF m(3,4) c s(2)])
  have rank: "c_mod (int i) (int n) = int (i mod n)" using Cons.prems(2) by (simp add: c_mod_mod zmod_int)
  have send: "send_packed (zmq_on c) (task_message fl (env i) i) (c_mod (int i) (int n)) = Some (0, zmq_on c1)"
    using m(1) c1(1) rank by (simp add: send_packed_def zmq_on_send del: transport_zmq_send.simps)
  have up1: "endpoint_up TRANSPORT_ROLE_COORDINATOR c1"
    by (rule endpoint_up_same [OF Cons.prems(1) c1(4)]) (use c(3) in \<open>simp_all add: c1(3)\<close>)
  have n1: "n = length (z_workers c1)" "z_workers c1 = z_workers c"
    using Cons.prems(3) c1(4) by (simp_all add: same_registry_def)
  from Cons.IH [OF up1 Cons.prems(2) n1(1)] obtain c' ms where
    c': "distribute fl env (int n) is (zmq_on c1) = Some (zmq_on c')" "list_all2 (task_for fl) is ms"
      "e_sent (z_env c') = e_sent (z_env c1) @ concat (map2 (\<lambda>i m. addressed c1 (i mod n) m) is ms)"
      "z_workers c' = z_workers c1" "endpoint_up TRANSPORT_ROLE_COORDINATOR c'"
    by blast
  have "addressed c1 = addressed c" by (simp add: fun_eq_iff addressed_def n1(2))
  moreover have "addressed c (i mod n) m = (map byte_of_char s, True) # frames m" using s(1) by (simp add: addressed_def)
  moreover have "task_for fl i m" using m(2) by (auto simp: task_for_def)
  ultimately show ?case
    using send c' c1(3) n1(2) by (intro exI [of _ c'] exI [of _ "m # ms"]) simp
qed auto
section \<open>Over MPI\<close>

definition mpi_on :: "mpi_transport \<Rightarrow> mpi_transport transport" where
  "mpi_on t = \<lparr>tr_type = TRANSPORT_TYPE_MPI, tr_vtable = Some mpi_vtable, tr_impl = Some t\<rparr>"

lemma mpi_on_send:
  "transport_send (Some (mpi_on t)) msg dst = mpi_send (Some t) msg dst" "(mpi_on t)\<lparr>tr_impl := Some t'\<rparr> = mpi_on t'"
  by (simp_all add: transport_send_def dispatch_def mpi_on_def mpi_vtable_def)

text \<open>The ranks that frames were sent to, in order.\<close>

definition addressees :: "mpi_transport \<Rightarrow> c_int list" where
  "addressees t = map fst (me_sent (mp_env t))"

lemma carries_two_frames: "carries m mt tid bytes \<Longrightarrow> bytes \<noteq> [] \<Longrightarrow> length (frames m) = 2"
  by (auto simp: carries_def frames_def Let_def word_gt_0 simp flip: unat_eq_zero)

text \<open>Each task is a header and a payload to the rank that is its number modulo the number of workers.\<close>

lemma distribute_mpi:
  assumes "\<forall>i. allocates (xe_calloc (env i)) (xe_malloc (env i))"
  shows "me_tx (mp_env t) = [] \<Longrightarrow> 0 < n \<Longrightarrow>
    \<exists>t'. distribute fl env (int n) is (mpi_on t) = Some (mpi_on t') \<and>
      addressees t' = addressees t @ concat (map (\<lambda>i. replicate 2 (int (i mod n))) is)"
proof (induction "is" arbitrary: t)
  case (Cons i "is")
  let ?bytes = "payload_bytes (xe_pad (env i)) (of_nat (i + 1)) (fl_of fl (1 + real i * (1 / 2))) (of_nat (1000 + i * 100))"
  let ?dst = "int (i mod n)"
  have alloc: "allocates (xe_calloc (env i)) (xe_malloc (env i))" and len: "length ?bytes < 2 ^ 32"
    using assms by (simp_all add: sizeof_payload_def)
  obtain m where m: "task_message fl (env i) i = Some m" "message_validate (Some m) = 0" "message_wf m"
      "carries m MSG_TYPE_TASK_SUBMIT (of_nat (i + 1)) ?bytes"
    unfolding task_message_def by (rule packed_message_made [OF alloc len])
  have two: "length (frames m) = 2" by (rule carries_two_frames [OF m(4)]) (simp add: payload_bytes_def)
  obtain t1 where t1: "mpi_send (Some t) (Some m) ?dst = Some (0, Some t1)" "me_tx (mp_env t1) = []"
      "map (\<lambda>(d, tag, bytes). (d, bytes)) (me_sent (mp_env t1))
        = map (\<lambda>(d, tag, bytes). (d, bytes)) (me_sent (mp_env t)) @ map (\<lambda>f. (?dst, fst f)) (frames m)"
    by (rule mpi_send_frames [OF m(2,3) Cons.prems(1), of ?dst])
  have fst: "map fst (map (\<lambda>(d, tag, bytes). (d, bytes)) xs) = map fst xs" for xs :: "(c_int \<times> c_int \<times> u8 list) list"
    by (induction xs) auto
  have "addressees t1 = addressees t @ replicate 2 ?dst"
    using arg_cong [OF t1(3), of "map fst"] two unfolding fst addressees_def
    by (auto simp: o_def map_replicate_const)
  moreover have "c_mod (int i) (int n) = ?dst" using Cons.prems(2) by (simp add: c_mod_mod zmod_int)
  then have "send_packed (mpi_on t) (task_message fl (env i) i) (c_mod (int i) (int n)) = Some (0, mpi_on t1)"
    using m(1) t1(1) by (simp add: send_packed_def mpi_on_send del: mpi_send.simps)
  ultimately show ?case using Cons.IH [OF t1(2) Cons.prems(2)] by auto
qed auto

end
