(* ===== verification/Example_Theorems.thy ===== *)
theory Example_Theorems
  imports Example_Threads Example_Limits Example_Transport
begin

text \<open>What the example programs do: \<open>runtime_example.c\<close> and \<open>transport_example.c\<close>.\<close>

section \<open>The runtime example\<close>

lemma pc_reachable_steps: "pc_step\<^sup>*\<^sup>* s s' \<Longrightarrow> reachable pc_init pc_step s \<Longrightarrow> reachable pc_init pc_step s'"
  by (induction rule: rtranclp_induct) (auto intro: reachable.next_state)

text \<open>
  (C38) Two producers of ten tasks and three workers with a quota of 20 / 3 = 6 tasks each share a queue.
  In every interleaving, each task that was produced is in the queue or was processed by exactly one
  worker, and the threads can still all come to their end.  When they have, the queue can be destroyed
  without undefined behaviour and without a node left over, and it still held the tasks that no worker
  has processed: at least two of the twenty, as the program prints.
\<close>

theorem producer_consumer_outcome:
  assumes "reachable pc_init pc_step s"
  shows "mset (concat (map produced (pc_producers s))) =
      mset (tq_tasks (pc_queue s)) + mset (concat (map wt_tasks (pc_workers s))) \<and>
    (\<forall>w \<in> set (pc_workers s). length (wt_tasks w) \<le> tasks_per_worker) \<and>
    (\<exists>s'. pc_step\<^sup>*\<^sup>* s s' \<and> pc_final s') \<and>
    (pc_final s \<longrightarrow> (\<exists>n stats. n = length (concat (map wt_tasks (pc_workers s))) \<and> n \<le> 18 \<and>
      finish_threads s = Some (stats, of_nat (20 - n), Map.empty) \<and> qs_total_enqueued stats = 20 \<and>
      qs_total_dequeued stats = of_nat n \<and> qs_current_size stats = of_nat (20 - n)))"
proof (intro conjI impI)
  have inv: "pc_inv s" using assms by (rule producer_consumer.inv_reachable)
  then show "mset (concat (map produced (pc_producers s))) =
      mset (tq_tasks (pc_queue s)) + mset (concat (map wt_tasks (pc_workers s)))" by (simp add: pc_inv_def)
  have args: "map wt_args (pc_workers s) = map wt_args (pc_workers (start_threads (pc_queue s)))"
    using inv by (simp only: pc_inv_def)
  have "wa_num_to_process (wt_args w) = tasks_per_worker" if "w \<in> set (pc_workers s)" for w
  proof -
    have "wt_args w \<in> set (map wt_args (pc_workers (start_threads (pc_queue s))))" using that unfolding args [symmetric] by simp
    then show ?thesis by (auto simp: start_threads_def)
  qed
  then show "\<forall>w \<in> set (pc_workers s). length (wt_tasks w) \<le> tasks_per_worker"
    using inv by (auto simp: pc_inv_def quota_ok_def)
  show "\<exists>s'. pc_step\<^sup>*\<^sup>* s s' \<and> pc_final s'" using inv by (rule can_finish)
  assume "pc_final s"
  with inv obtain n stats where "finish_threads s = Some (stats, of_nat (length (tq_tasks (pc_queue s))), Map.empty)"
    "length (tq_tasks (pc_queue s)) = 20 - n" "n \<le> 18" "n = length (concat (map wt_tasks (pc_workers s)))"
    "qs_total_enqueued stats = 20" "qs_total_dequeued stats = of_nat n" "qs_current_size stats = 20 - of_nat n"
    by (rule final_stats)
  then show "\<exists>n stats. n = length (concat (map wt_tasks (pc_workers s))) \<and> n \<le> 18 \<and>
    finish_threads s = Some (stats, of_nat (20 - n), Map.empty) \<and> qs_total_enqueued stats = 20 \<and>
    qs_total_dequeued stats = of_nat n \<and> qs_current_size stats = of_nat (20 - n)"
    by (intro exI [of _ n] exI [of _ stats]) (simp add: of_nat_diff)
qed

text \<open>The start of the program, and from there a run to the end.\<close>

theorem producer_consumer_outcome_witness:
  "\<exists>s n stats. reachable pc_init pc_step s \<and> pc_final s \<and> n \<le> 18 \<and>
     finish_threads s = Some (stats, of_nat (20 - n), Map.empty) \<and> qs_total_enqueued stats = 20"
proof -
  obtain q where "task_queue_create None True = Some q" by (simp add: task_queue_create_def)
  then have "pc_init (start_threads q)" by (auto simp: pc_init_def)
  then have r: "reachable pc_init pc_step (start_threads q)" by (rule reachable.start)
  obtain s where s: "pc_step\<^sup>*\<^sup>* (start_threads q) s" "pc_final s" using producer_consumer_outcome [OF r] by blast
  have "reachable pc_init pc_step s" using s(1) r by (rule pc_reachable_steps)
  with producer_consumer_outcome [OF this] s(2) show ?thesis by blast
qed

text \<open>
  The queue emptied under the control of the limiter: whatever the operating system reports, a pass
  either pauses or processes the next task, in the order of their numbers, no reservation fails, and
  once seven passes did not pause the loop ends with every counter at seven.
\<close>

theorem integrated_example:
  assumes "node_allocator malloc"
  obtains lines k where
    "filter (\<lambda>x. x \<noteq> Limit_Exceeded) lines = map (\<lambda>i. Processing (of_nat (Suc i))) [0..<k]" "k \<le> 7"
    "k < 7 \<Longrightarrow> example_integrated malloc True True usage start reports = Some (Some (lines, None)) \<and>
       length lines = length reports"
    "k = 7 \<Longrightarrow> \<exists>report. example_integrated malloc True True usage start reports = Some (Some (lines, Some report)) \<and>
       ir_processed report = 7 \<and> qs_total_enqueued (ir_queue report) = 7 \<and> qs_total_dequeued (ir_queue report) = 7 \<and>
       rs_tasks_completed (ir_resources report) = 7 \<and> rs_tasks_failed (ir_resources report) = 0 \<and> ir_left report = Map.empty"
proof -
  let ?ts = "map integrated_task [0..<7]"
  obtain q where q: "task_queue_create None True = Some q" by (simp add: task_queue_create_def)
  have q0: "tq_inv q" "tq_tasks q = []" "q_shutting_down q = 0" "heap_capacity q = Some 65536"
      "q_allow_duplicates q = 1" "q_total_enqueued q = 0" "q_total_dequeued q = 0" "q_blocked_threads q = 0"
    using tq_create [OF q] q
    by (auto simp: task_queue_create_def default_config_def heap_capacity_def MAX_TASK_QUEUE_SIZE_def)
  obtain l where l: "resource_limits_create None True usage start = Some l" by (simp add: resource_limits_create_def)
  have l0: "slots_running l = 0" "slots_capacity l = 8" "rs_tasks_completed (rl_stats l) = 0" "rs_tasks_failed (rl_stats l) = 0"
    using l by (auto simp: resource_limits_create_def resource_default_config_def slots_running_def slots_capacity_def
        zero_resource_stats_def)
  obtain q1 where q1: "enqueue_all heap_enq malloc ?ts q = Some (replicate (length ?ts) 0, q1)" "tq_inv q1"
      "tq_tasks q1 = fold pq_insert ?ts (tq_tasks q)" "tq_frame q q1"
      "q_total_enqueued q1 = q_total_enqueued q + of_nat (length ?ts)" "q_total_dequeued q1 = q_total_dequeued q"
    using fill_ok [OF assms q0(1,3,4), of ?ts] q0(2,5) by auto
  have low: "\<not> high_priority (integrated_task i)" for i by (simp add: integrated_task_def high_priority_example)
  have "fold pq_insert (map integrated_task is) ts = ts @ map integrated_task is" for "is" ts
    by (induction "is" arbitrary: ts) (simp_all add: pq_insert_def low)
  then have tasks: "tq_tasks q1 = ?ts" using q1(3) q0(2) by simp
  let ?s = "\<lparr>ig_queue = q1, ig_limits = Some l, ig_processed = 0\<rparr>"
  have "ig_inv ?s" using q1 q0 l0 tasks by (simp add: ig_inv_def tq_frame_def)
  from integrated_loop_ok [OF this, of reports] obtain lines s where
    s: "integrated_loop reports ?s = Some (lines, s)" "ig_inv s"
      "filter (\<lambda>x. x \<noteq> Limit_Exceeded) lines = map (\<lambda>i. Processing (of_nat (Suc i))) [0..<ig_processed s]"
      "ig_processed s < 7 \<longrightarrow> length lines = length reports"
    by auto
  have run: "example_integrated malloc True True usage start reports
      = do { report \<leftarrow> integrated_end s; Some (Some (lines, report)) }"
    using q1(1) s(1) by (simp add: example_integrated_def q l)
  have inv: "ig_processed s \<le> 7" "tq_inv (ig_queue s)" "q_blocked_threads (ig_queue s) = 0"
    using s(2) by (simp_all add: ig_inv_def Let_def)
  show thesis
  proof (rule that [OF s(3) inv(1)])
    assume k: "ig_processed s < 7"
    then have "integrated_end s = Some None" using ig_empty [OF s(2)] by (auto simp: integrated_end_def)
    then show "example_integrated malloc True True usage start reports = Some (Some (lines, None)) \<and> length lines = length reports"
      using run s(4) k by simp
  next
    assume "ig_processed s = 7"
    with ig_empty [OF s(2)] destroy_ok [OF inv(2,3)] s(2) run
    show "\<exists>report. example_integrated malloc True True usage start reports = Some (Some (lines, Some report)) \<and>
       ir_processed report = 7 \<and> qs_total_enqueued (ir_queue report) = 7 \<and> qs_total_dequeued (ir_queue report) = 7 \<and>
       rs_tasks_completed (ir_resources report) = 7 \<and> rs_tasks_failed (ir_resources report) = 0 \<and> ir_left report = Map.empty"
      by (auto simp: integrated_end_def ig_inv_def Let_def simp del: task_queue_is_empty.simps task_queue_destroy.simps)
  qed
qed
section \<open>The transport example\<close>

text \<open>What a ZeroMQ library does whose calls succeed, with the frames it delivers.\<close>

definition calls_succeed :: "zmq_env \<Rightarrow> bool" where
  "calls_succeed e \<longleftrightarrow> e_tx e = [] \<and> e_sent e = [] \<and> e_setsockopt_ok e \<and> e_calloc_ok e \<and> (\<forall>n. malloc_serves e n)"

text \<open>The transport that the initialisation yields.\<close>

lemma init_zmq_up:
  assumes "transport_init_zmq ie e True (Some cfg) = Some (0, Some t)" "calls_succeed e"
  obtains z where "t = zmq_on z" "endpoint_up (tc_role cfg) z" "z_workers z = []" "z_env z = e"
proof -
  from assms(1) obtain endpoint identity where t: "t = \<lparr>tr_type = TRANSPORT_TYPE_ZMQ, tr_vtable = Some zmq_vtable,
      tr_impl = Some \<lparr>z_role = tc_role cfg, z_timeout_ms = tc_timeout_ms cfg, z_stats = zero_transport_stats,
        z_endpoint = endpoint, z_workers = [], z_worker_lock = False, z_identity = identity, z_worker_id = 0, z_env = e\<rparr>\<rparr>"
    by (auto simp: transport_init_zmq_def split: if_splits bind_splits)
  show thesis
    by (rule that [OF t [folded zmq_on_def]]) (use assms(2) in \<open>simp_all add: endpoint_up_def calls_succeed_def zmq_inv_def\<close>)
qed

text \<open>
  (C39) The two halves of the example do not fit together over ZeroMQ: the example worker never
  registers.  Started with nothing to receive, it sends one heartbeat per pass, however many passes it
  makes; a coordinator that receives exactly these frames, under any identity of the worker, still has
  no worker after its thirty attempts, sends nothing and gives up.
\<close>

theorem zmq_example_gives_up:
  assumes "transport_init_zmq wie we True (Some (example_worker_config TRANSPORT_TYPE_ZMQ endpoint)) = Some (0, Some wt)"
    and "transport_init_zmq cie ce True (Some (example_coordinator_config TRANSPORT_TYPE_ZMQ endpoint)) = Some (0, Some ct)"
    and "calls_succeed we" "e_rx we = []" "calls_succeed ce"
    and "\<forall>xe \<in> set xes. allocates (xe_calloc xe) (xe_malloc xe)"
    and "0 < length s" "length s < IDENTITY_LEN" "NUL \<notin> set s"
  shows "\<exists>w. run_worker None (Some (\<lambda>cfg. the (transport_init_zmq wie we True (Some cfg)))) fl xes
        TRANSPORT_TYPE_ZMQ endpoint = Some (Some (0, zmq_on w)) \<and>
      length (e_sent (z_env w)) = length xes \<and>
      (e_rx ce = routed (map byte_of_char s) True (e_sent (z_env w)) \<longrightarrow>
        (\<exists>c. run_coordinator None (Some (\<lambda>cfg. the (transport_init_zmq cie ce True (Some cfg)))) fl env junk
            TRANSPORT_TYPE_ZMQ endpoint = Some (No_Workers (zmq_on c)) \<and> e_sent (z_env c) = []))"
proof -
  obtain w where w: "wt = zmq_on w" "endpoint_up TRANSPORT_ROLE_WORKER w" "z_env w = we"
    using init_zmq_up [OF assms(1,3)] by (auto simp: example_worker_config_def)
  obtain c where c: "ct = zmq_on c" "endpoint_up TRANSPORT_ROLE_COORDINATOR c" "z_workers c = []" "z_env c = ce"
    using init_zmq_up [OF assms(2,5)] by (auto simp: example_coordinator_config_def)
  have "e_rx (z_env w) = []" using w(3) assms(4) by simp
  from silent_example_worker [OF w(2) this assms(6), of fl] obtain w' ms where
    w': "example_worker_loop fl xes (0, zmq_on w) = Some (0, zmq_on w')" "\<forall>m \<in> set ms. heartbeat m"
      "length ms = length xes" "e_sent (z_env w') = concat (map frames ms)"
    using w(3) assms(3) by (auto simp: calls_succeed_def)
  have "\<forall>m \<in> set ms. length (frames m) = 1"
    using w'(2) by (auto simp: heartbeat_def carries_def frames_def Let_def word_gt_0 simp flip: unat_eq_zero)
  then have len: "length (e_sent (z_env w')) = length xes"
    using length_concat_eq [of ms frames "\<lambda>_. 1"] w'(3,4) by (simp add: sum_list_triv)
  have run: "run_worker None (Some (\<lambda>cfg. the (transport_init_zmq wie we True (Some cfg)))) fl xes
      TRANSPORT_TYPE_ZMQ endpoint = Some (Some (0, zmq_on w'))"
    using assms(1) w(1) w'(1) by (simp add: run_worker_def transport_init_def example_worker_config_def)
  show ?thesis
  proof (rule exI [of _ w'], intro conjI run len impI)
    assume "e_rx ce = routed (map byte_of_char s) True (e_sent (z_env w'))"
    then have rx: "e_rx (z_env c) = routed (map byte_of_char s) True (concat (map frames ms))" using c(4) w'(4) by simp
    obtain c' where c': "wait_for_workers (MAX_WAIT_TIME div WAIT_INTERVAL) junk (zmq_on c) = Some (zmq_on c')"
        "z_workers c' = []" "z_role c' = TRANSPORT_ROLE_COORDINATOR" "e_sent (z_env c') = e_sent (z_env c)"
      using wait_without_registration [OF assms(7-9) c(2,3) w'(2) rx] by blast
    have "run_coordinator None (Some (\<lambda>cfg. the (transport_init_zmq cie ce True (Some cfg)))) fl env junk
        TRANSPORT_TYPE_ZMQ endpoint = Some (No_Workers (zmq_on c'))"
      using assms(2) c(1) c'(1-3) zmq_on_count [OF c'(3)]
      by (simp add: run_coordinator_def transport_init_def example_coordinator_config_def)
    then show "\<exists>c. run_coordinator None (Some (\<lambda>cfg. the (transport_init_zmq cie ce True (Some cfg)))) fl env junk
        TRANSPORT_TYPE_ZMQ endpoint = Some (No_Workers (zmq_on c)) \<and> e_sent (z_env c) = []"
      using c'(4) c(4) assms(5) by (auto simp: calls_succeed_def)
  qed
qed

text \<open>Two processes on one machine: the worker makes three passes, and the coordinator receives what it sent.\<close>

definition example_zmq_init :: zmq_init_env where
  "example_zmq_init = \<lparr>i_calloc_zmq = True, i_ctx_new = True, i_socket = True, i_bind = True, i_set_identity = True,
     i_connect = True, i_calloc_transport = True, i_malloc_vtable = True, i_pid = 42, i_time = 7\<rparr>"

definition example_zmq_env :: "(u8 list + c_int) list \<Rightarrow> zmq_env" where
  "example_zmq_env rx = \<lparr>e_rx = rx, e_tx = [], e_sent = [], e_clock = 0, e_poll = Inr False, e_setsockopt_ok = True,
     e_calloc_ok = True, e_malloc = (\<lambda>n. Some (replicate (unat n) 0))\<rparr>"

text \<open>Any arithmetic will do; here on the bits as integers.\<close>

definition example_floats :: c_floats where
  "example_floats = \<lparr>fl_of = (\<lambda>x. of_int \<lfloor>x\<rfloor>), fl_mul = (\<lambda>a b. a * b), fl_add = (\<lambda>a b. a + b)\<rparr>"

definition example_xe :: example_env where
  "example_xe = \<lparr>xe_calloc = True, xe_malloc = (\<lambda>n. Some (replicate (unat n) 0)), xe_pad = []\<rparr>"

abbreviation example_init :: "(u8 list + c_int) list \<Rightarrow> transport_config \<Rightarrow> c_int \<times> zmq_transport transport option" where
  "example_init rx \<equiv> (\<lambda>cfg. the (transport_init_zmq example_zmq_init (example_zmq_env rx) True (Some cfg)))"

lemma example_init_ok: "\<exists>t. transport_init_zmq example_zmq_init e True (Some cfg) = Some (0, Some t)"
proof -
  have "\<exists>b. c_snprintf (replicate n NUL) n str = Some b" for n str by (auto simp: c_snprintf_def Let_def)
  then obtain b where "generate_identity (replicate IDENTITY_LEN NUL) IDENTITY_LEN 42 7 = Some b"
    unfolding generate_identity_def by blast
  then show ?thesis
    by (simp add: transport_init_zmq_def example_zmq_init_def open_socket_def c_strncpy_def ENDPOINT_LEN_def)
qed

lemma example_zmq_env_ok: "calls_succeed (example_zmq_env rx)" "e_rx (example_zmq_env rx) = rx"
  by (simp_all add: calls_succeed_def example_zmq_env_def malloc_serves_def)

theorem zmq_example_gives_up_witness:
  "\<exists>w c. run_worker None (Some (example_init [])) example_floats [example_xe, example_xe, example_xe] TRANSPORT_TYPE_ZMQ
       ''tcp://127.0.0.1:5555'' = Some (Some (0, zmq_on w)) \<and> length (e_sent (z_env w)) = 3 \<and>
     run_coordinator None (Some (example_init (routed (map byte_of_char ''worker-42-7'') True (e_sent (z_env w))))) example_floats
       (\<lambda>i. example_xe) 0 TRANSPORT_TYPE_ZMQ ''tcp://127.0.0.1:5555'' = Some (No_Workers (zmq_on c)) \<and> e_sent (z_env c) = []"
proof -
  let ?ep = "''tcp://127.0.0.1:5555''" and ?xes = "[example_xe, example_xe, example_xe]" and ?s = "''worker-42-7''"
  obtain wt where wt: "transport_init_zmq example_zmq_init (example_zmq_env []) True
      (Some (example_worker_config TRANSPORT_TYPE_ZMQ ?ep)) = Some (0, Some wt)"
    using example_init_ok by blast
  have alloc: "\<forall>xe \<in> set ?xes. allocates (xe_calloc xe) (xe_malloc xe)" by (simp add: example_xe_def allocates_def)
  have s: "0 < length ?s" "length ?s < IDENTITY_LEN" "NUL \<notin> set ?s" by (simp_all add: IDENTITY_LEN_def)
  have both: "\<exists>w. run_worker None (Some (example_init [])) example_floats ?xes TRANSPORT_TYPE_ZMQ ?ep = Some (Some (0, zmq_on w)) \<and>
      length (e_sent (z_env w)) = length ?xes \<and>
      (rx = routed (map byte_of_char ?s) True (e_sent (z_env w)) \<longrightarrow>
        (\<exists>c. run_coordinator None (Some (example_init rx)) example_floats (\<lambda>i. example_xe) 0
            TRANSPORT_TYPE_ZMQ ?ep = Some (No_Workers (zmq_on c)) \<and> e_sent (z_env c) = []))" for rx
  proof -
    obtain ct where ct: "transport_init_zmq example_zmq_init (example_zmq_env rx) True
        (Some (example_coordinator_config TRANSPORT_TYPE_ZMQ ?ep)) = Some (0, Some ct)"
      using example_init_ok by blast
    from zmq_example_gives_up [OF wt ct example_zmq_env_ok example_zmq_env_ok(1) alloc s, of example_floats "\<lambda>i. example_xe" 0]
    show ?thesis by (simp only: example_zmq_env_ok(2))
  qed
  from both [of "[]"] obtain w where
    w: "run_worker None (Some (example_init [])) example_floats ?xes TRANSPORT_TYPE_ZMQ ?ep = Some (Some (0, zmq_on w))" by blast
  let ?rx = "routed (map byte_of_char ?s) True (e_sent (z_env w))"
  from both [of ?rx] obtain w2 where
    w2: "run_worker None (Some (example_init [])) example_floats ?xes TRANSPORT_TYPE_ZMQ ?ep = Some (Some (0, zmq_on w2))"
      "length (e_sent (z_env w2)) = length ?xes"
      "?rx = routed (map byte_of_char ?s) True (e_sent (z_env w2)) \<longrightarrow>
        (\<exists>c. run_coordinator None (Some (example_init ?rx)) example_floats (\<lambda>i. example_xe) 0
            TRANSPORT_TYPE_ZMQ ?ep = Some (No_Workers (zmq_on c)) \<and> e_sent (z_env c) = [])" by blast
  have "w2 = w" using w w2(1) by (simp add: zmq_on_def)
  with w2 show ?thesis by auto
qed

text \<open>
  Over MPI the ranks of the workers start at 1, but the example counts them from 0: the first task is
  addressed to the coordinator's own rank, and the worker with the highest rank is never addressed.
\<close>

theorem mpi_example_addresses_itself:
  assumes "mp_role t = TRANSPORT_ROLE_COORDINATOR" "1 < mp_size t" "me_tx (mp_env t) = []" "me_sent (mp_env t) = []"
    and "\<forall>i. allocates (xe_calloc (env i)) (xe_malloc (env i))"
  shows "\<exists>t'. distribute fl env (transport_worker_count (Some (mpi_on t))) [0..<NUM_TASKS] (mpi_on t) = Some (mpi_on t') \<and>
    hd (addressees t') = 0 \<and> mp_size t - 1 \<notin> set (addressees t')"
proof -
  have n: "transport_worker_count (Some (mpi_on t)) = int (nat (mp_size t - 1))" "0 < nat (mp_size t - 1)"
    using assms(1,2) by (simp_all add: transport_worker_count_def dispatch_def mpi_on_def mpi_vtable_def)
  have "addressees t = []" using assms(4) by (simp add: addressees_def)
  then obtain t' where t': "distribute fl env (int (nat (mp_size t - 1))) [0..<NUM_TASKS] (mpi_on t) = Some (mpi_on t')"
      "addressees t' = concat (map (\<lambda>i. replicate 2 (int (i mod nat (mp_size t - 1)))) [0..<NUM_TASKS])"
    using distribute_mpi [OF assms(5,3) n(2), of fl "[0..<NUM_TASKS]"] by auto
  have "[0..<NUM_TASKS] = 0 # [1..<NUM_TASKS]" by (simp add: NUM_TASKS_def upt_conv_Cons)
  then have "hd (addressees t') = 0" using t'(2) by (simp add: numeral_eq_Suc)
  moreover have "int (i mod nat (mp_size t - 1)) \<noteq> mp_size t - 1" for i
    using mod_less_divisor [OF n(2), of i] by linarith
  then have "mp_size t - 1 \<notin> set (addressees t')" unfolding t'(2) by (auto simp: numeral_eq_Suc) metis
  ultimately show ?thesis using t'(1) n(1) by auto
qed

end
