(* ===== verification/Example_Metadata.thy ===== *)
theory Example_Metadata
  imports Metadata_Typed
begin

text \<open>
  \<open>examples/minimal_cluster/storage_example.c\<close>, the part on the metadata store: examples 1 to 3.  An
  example yields the values that it prints, or nothing when the store cannot be opened; the wording of
  the lines and the log messages are left out.  Variables that are not initialised are arguments.
\<close>

section \<open>The surroundings\<close>

text \<open>
  What \<open>stat\<close>, \<open>mkdir\<close> and \<open>calloc\<close> answer when the store is opened, the environment and the clock of
  the \<open>k\<close>-th file operation of the example, and the names that \<open>opendir\<close> and \<open>readdir\<close> deliver.
\<close>

record store_env =
  xs_stat :: "bool option"
  xs_mkdir :: bool
  xs_calloc :: bool
  xs_files :: "nat \<Rightarrow> file_env"
  xs_clock :: "nat \<Rightarrow> u64"
  xs_readdir :: "string list option"

definition open_example_store :: "store_env \<Rightarrow> metadata_store option" where
  "open_example_store env = snd (metadata_store_open (Some ''./example_metadata'') 1 (xs_stat env) (xs_mkdir env) (xs_calloc env))"

section \<open>Example 1: typed entries\<close>

record project_info =
  pi_name :: string
  pi_author :: string
  pi_count :: int
  pi_version :: u64

text \<open>The bits of the \<open>double\<close> 1.0.\<close>

definition double_one :: u64 where "double_one = 0x3FF0000000000000"

definition example_metadata_basic ::
    "store_env \<Rightarrow> char list \<Rightarrow> char list \<Rightarrow> u64 \<Rightarrow> u64 \<Rightarrow> mem \<Rightarrow> files \<Rightarrow> (project_info option \<times> mem \<times> files) option" where
  "example_metadata_basic env name0 author0 count0 version0 m fs =
     (case open_example_store env of
        None \<Rightarrow> Some (None, m, fs)
      | Some st \<Rightarrow> do {
          (r1, fs1) \<leftarrow> metadata_store_put_string (xs_files env 0) m (Some st) ''project.name''
            ''Harmonic Oscillator Study'' (Some ''config'') (xs_clock env 0) fs;
          (r2, fs2) \<leftarrow> metadata_store_put_string (xs_files env 1) m (Some st) ''project.author''
            ''Research Team'' (Some ''config'') (xs_clock env 1) fs1;
          (r3, fs3) \<leftarrow> metadata_store_put_int64 (xs_files env 2) m (Some st) ''project.task_count'' 100
            (Some ''config'') (xs_clock env 2) fs2;
          (r4, fs4) \<leftarrow> metadata_store_put_double (xs_files env 3) m (Some st) ''project.version'' double_one
            (Some ''config'') (xs_clock env 3) fs3;
          (g1, name, m1) \<leftarrow> metadata_store_get_string (xs_files env 4) m (Some st) (Some ''project.name'') name0 256 fs4;
          (g2, author, m2) \<leftarrow> metadata_store_get_string (xs_files env 5) m1 (Some st) (Some ''project.author'') author0 256 fs4;
          (g3, count, m3) \<leftarrow> metadata_store_get_int64 (xs_files env 6) m2 (Some st) (Some ''project.task_count'') count0 fs4;
          (g4, version, m4) \<leftarrow> metadata_store_get_double (xs_files env 7) m3 (Some st) (Some ''project.version'') version0 fs4;
          name_str \<leftarrow> c_str name;
          author_str \<leftarrow> c_str author;
          Some (Some \<lparr>pi_name = name_str, pi_author = author_str, pi_count = sint count, pi_version = version\<rparr>, m4, fs4)
        })"

section \<open>Example 2: tasks and a query\<close>

fun store_task_infos :: "store_env \<Rightarrow> mem \<Rightarrow> metadata_store \<Rightarrow> nat list \<Rightarrow> files \<Rightarrow> files option" where
  "store_task_infos env m st [] fs = Some fs"
| "store_task_infos env m st (i # is) fs = do {
     (rc, fs') \<leftarrow> metadata_store_task_info (\<lambda>k. xs_files env (5 * i + k)) (\<lambda>k. xs_clock env (5 * i + k)) m (Some st)
       (of_nat i) 100 0 (1000 * of_nat i) (500 * of_nat i) 1 fs;
     store_task_infos env m st is fs'
   }"

definition task_query :: metadata_query where
  "task_query = \<lparr>mq_key_prefix = Some ''task.'', mq_tag = Some ''task'', mq_type = -1, mq_created_after = 0,
     mq_created_before = 0\<rparr>"

definition print_entry :: "metadata_entry \<Rightarrow> (string \<times> int) option" where
  "print_entry e = map_option (\<lambda>key. (key, sint (value_word e))) (c_str (me_key e))"

text \<open>The number that is found and the first ten of the entries.\<close>

definition example_metadata_tasks ::
    "store_env \<Rightarrow> mem \<Rightarrow> files \<Rightarrow> ((nat \<times> (string \<times> int) list) option \<times> mem \<times> files) option" where
  "example_metadata_tasks env m fs =
     (case open_example_store env of
        None \<Rightarrow> Some (None, m, fs)
      | Some st \<Rightarrow> do {
          fs1 \<leftarrow> store_task_infos env m st [1..<6] fs;
          (rc, results, m1) \<leftarrow>
            metadata_store_query (xs_files env 30) m (Some st) (Some task_query) True 100 (xs_readdir env) fs1;
          lines \<leftarrow> those (map print_entry (take 10 results));
          Some (Some (length results, lines), m1, fs1)
        })"

section \<open>Example 3: an experiment\<close>

definition config_json :: string where
  \<open>config_json =
     ''{'' @
     ''  "model": "harmonic_oscillator",'' @
     ''  "parameters": {'' @
     ''    "omega": 2.5,'' @
     ''    "damping": 0.1,'' @
     ''    "amplitude": 1.0'' @
     ''  },'' @
     ''  "integration": {'' @
     ''    "method": "rk4",'' @
     ''    "dt": 0.01,'' @
     ''    "steps": 10000'' @
     ''  }'' @
     ''}''\<close>

record experiment_info =
  ei_description :: string
  ei_model :: string
  ei_config :: string

definition example_metadata_experiment ::
    "store_env \<Rightarrow> char list \<Rightarrow> char list \<Rightarrow> char list \<Rightarrow> mem \<Rightarrow> files \<Rightarrow> (experiment_info option \<times> mem \<times> files) option" where
  "example_metadata_experiment env description0 model0 config0 m fs =
     (case open_example_store env of
        None \<Rightarrow> Some (None, m, fs)
      | Some st \<Rightarrow> do {
          (rc, fs1) \<leftarrow> metadata_store_experiment (xs_files env) (xs_clock env) m (Some st) ''exp_001''
            ''Parameter sweep for damped harmonic oscillator'' ''harmonic_oscillator'' (Some config_json) fs;
          (g1, description, m1) \<leftarrow> metadata_store_get_string (xs_files env 3) m (Some st)
            (Some ''experiment.exp_001.description'') description0 1024 fs1;
          (g2, model, m2) \<leftarrow> metadata_store_get_string (xs_files env 4) m1 (Some st)
            (Some ''experiment.exp_001.model'') model0 256 fs1;
          (g3, config, m3) \<leftarrow> metadata_store_get_string (xs_files env 5) m2 (Some st)
            (Some ''experiment.exp_001.config'') config0 4096 fs1;
          s1 \<leftarrow> c_str description;
          s2 \<leftarrow> c_str model;
          s3 \<leftarrow> c_str config;
          Some (Some \<lparr>ei_description = s1, ei_model = s2, ei_config = s3\<rparr>, m3, fs1)
        })"

section \<open>A working disk\<close>

definition env_works :: "store_env \<Rightarrow> bool" where
  "env_works env \<longleftrightarrow> (case xs_stat env of None \<Rightarrow> xs_mkdir env | Some is_dir \<Rightarrow> is_dir) \<and> xs_calloc env \<and> (\<forall>k. reliable (xs_files env k))"

definition example_store :: metadata_store where
  "example_store = \<lparr>ms_path = ''./example_metadata'', ms_read_only = 0\<rparr>"

lemma open_works: "env_works env \<Longrightarrow> open_example_store env = Some example_store"
  by (auto simp: env_works_def open_example_store_def metadata_store_open_def example_store_def PATH_BUFFER_def split: option.splits)

lemma example_store_ok: "store_ok example_store"
  by (simp add: store_ok_def example_store_def meta_sizes PATH_BUFFER_def)
definition plain_name :: "string \<Rightarrow> bool" where
  "plain_name key \<longleftrightarrow> good_key key \<and> plain_key key"

lemma plain_name_facts: "plain_name key \<Longrightarrow> good_key key" "plain_name key \<Longrightarrow> key_name key = key"
  "plain_name key \<Longrightarrow> length key < META_MAX_KEY_LEN"
  by (simp_all add: plain_name_def key_name_plain good_key_def)

lemma project_keys: "plain_name ''project.name''" "plain_name ''project.author''" "plain_name ''project.task_count''"
  "plain_name ''project.version''"
  by (simp_all add: plain_name_def good_key_def plain_key_def meta_sizes dots_apart_def)

text \<open>What was put under plain names can be read until it is replaced.\<close>

lemma put_string_plain:
  assumes "store_ok st" "reliable fe" "plain_name key" "NUL \<notin> set v" "length v < META_MAX_VALUE_LEN"
  obtains fs' b r where "metadata_store_put_string fe m (Some st) key v tag now fs = Some (META_OK, fs')"
    "disk_view (st, m) fs' = (disk_view (st, m) fs)(key \<mapsto> r)" "mr_value r = Text b" "NUL \<in> set b"
    "takeWhile (\<lambda>c. c \<noteq> NUL) b = v" "files_ok fs \<longrightarrow> files_ok fs'"
proof -
  have "take (META_MAX_VALUE_LEN - 1) v = v" using assms(5) by simp
  with put_string_ok [OF assms(1,2) plain_name_facts(1) [OF assms(3)] assms(4), of m tag now fs] that show thesis
    unfolding plain_name_facts(2) [OF assms(3)] by metis
qed

lemma get_string_plain:
  assumes "disk_view (st, m) fs key = Some r" "mr_value r = Text b" "NUL \<in> set b" "takeWhile (\<lambda>c. c \<noteq> NUL) b = v"
    and "store_ok st" "reliable fe" "fresh_malloc (card (dom m)) fe" "plain_name key" "length v < n" "length buf = n"
  obtains buf' where "metadata_store_get_string fe m (Some st) (Some key) buf n fs = Some (META_OK, buf', m)" "c_str buf' = Some v"
proof -
  have "slot_value st m fs key = Some (Text b)" using assms(1,2,8) by (simp add: slot_value_def plain_name_facts)
  from get_string_ok [OF this assms(3,5-7) plain_name_facts(3) [OF assms(8)], of n buf] assms(4,9,10) that show thesis
    by auto
qed

lemma project_texts: "NUL \<notin> set ''Harmonic Oscillator Study''" "length ''Harmonic Oscillator Study'' < 256"
  "NUL \<notin> set ''Research Team''" "length ''Research Team'' < 256"
  "length ''Harmonic Oscillator Study'' < META_MAX_VALUE_LEN" "length ''Research Team'' < META_MAX_VALUE_LEN"
  by (simp_all add: meta_sizes)

lemma basic_prints:
  assumes "env_works env" "\<forall>k. fresh_malloc (card (dom m)) (xs_files env k)" "length name0 = 256" "length author0 = 256"
  obtains fs' where "example_metadata_basic env name0 author0 count0 version0 m fs =
      Some (Some \<lparr>pi_name = ''Harmonic Oscillator Study'', pi_author = ''Research Team'', pi_count = 100, pi_version = double_one\<rparr>, m, fs')"
    "files_ok fs \<longrightarrow> files_ok fs'"
proof -
  let ?st = example_store and ?fe = "xs_files env" and ?t = "Some ''config''" and ?c = "xs_clock env"
  note st = example_store_ok
  have fe: "reliable (?fe k)" for k using assms(1) by (simp add: env_works_def)
  note fresh = assms(2) [rule_format]
  note keys = project_keys [THEN plain_name_facts(2)]
  obtain fs1 b1 r1 where p1: "metadata_store_put_string (?fe 0) m (Some ?st) ''project.name'' ''Harmonic Oscillator Study'' ?t (?c 0) fs = Some (META_OK, fs1)"
    "disk_view (?st, m) fs1 = (disk_view (?st, m) fs)(''project.name'' \<mapsto> r1)" "mr_value r1 = Text b1" "NUL \<in> set b1"
    "takeWhile (\<lambda>c. c \<noteq> NUL) b1 = ''Harmonic Oscillator Study''" "files_ok fs \<longrightarrow> files_ok fs1"
    by (rule put_string_plain [OF st fe project_keys(1) project_texts(1,5)])
  obtain fs2 b2 r2 where p2: "metadata_store_put_string (?fe 1) m (Some ?st) ''project.author'' ''Research Team'' ?t (?c 1) fs1 = Some (META_OK, fs2)"
    "disk_view (?st, m) fs2 = (disk_view (?st, m) fs1)(''project.author'' \<mapsto> r2)" "mr_value r2 = Text b2" "NUL \<in> set b2"
    "takeWhile (\<lambda>c. c \<noteq> NUL) b2 = ''Research Team''" "files_ok fs1 \<longrightarrow> files_ok fs2"
    by (rule put_string_plain [OF st fe project_keys(2) project_texts(3,6)])
  obtain fs3 r3 where p3: "metadata_store_put_int64 (?fe 2) m (Some ?st) ''project.task_count'' 100 ?t (?c 2) fs2 = Some (META_OK, fs3)"
    "disk_view (?st, m) fs3 = (disk_view (?st, m) fs2)(''project.task_count'' \<mapsto> r3)" "mr_value r3 = Whole 100" "files_ok fs2 \<longrightarrow> files_ok fs3"
    by (rule put_int64_ok [OF st fe plain_name_facts(1) [OF project_keys(3)], unfolded keys])
  obtain fs4 r4 where p4: "metadata_store_put_double (?fe 3) m (Some ?st) ''project.version'' double_one ?t (?c 3) fs3 = Some (META_OK, fs4)"
    "disk_view (?st, m) fs4 = (disk_view (?st, m) fs3)(''project.version'' \<mapsto> r4)" "mr_value r4 = Floating double_one" "files_ok fs3 \<longrightarrow> files_ok fs4"
    by (rule put_double_ok [OF st fe plain_name_facts(1) [OF project_keys(4)], unfolded keys])
  note view = p1(2) p2(2) p3(2) p4(2)
  obtain name where g1: "metadata_store_get_string (?fe 4) m (Some ?st) (Some ''project.name'') name0 256 fs4 = Some (META_OK, name, m)"
    "c_str name = Some ''Harmonic Oscillator Study''"
    by (rule get_string_plain [OF _ p1(3-5) st fe fresh project_keys(1) project_texts(2) assms(3), of fs4]) (simp_all add: view)
  obtain author where g2: "metadata_store_get_string (?fe 5) m (Some ?st) (Some ''project.author'') author0 256 fs4 = Some (META_OK, author, m)"
    "c_str author = Some ''Research Team''"
    by (rule get_string_plain [OF _ p2(3-5) st fe fresh project_keys(2) project_texts(4) assms(4), of fs4]) (simp_all add: view)
  have "slot_value ?st m fs4 ''project.task_count'' = Some (Whole 100)" "slot_value ?st m fs4 ''project.version'' = Some (Floating double_one)"
    by (simp_all add: slot_value_def keys view p3(3) p4(3))
  then have g34: "metadata_store_get_int64 (?fe 6) m (Some ?st) (Some ''project.task_count'') count0 fs4 = Some (META_OK, 100, m)"
    "metadata_store_get_double (?fe 7) m (Some ?st) (Some ''project.version'') version0 fs4 = Some (META_OK, double_one, m)"
    using get_word_ok [OF _ st fe fresh] project_keys [THEN plain_name_facts(3)] by blast+
  have "example_metadata_basic env name0 author0 count0 version0 m fs =
      Some (Some \<lparr>pi_name = ''Harmonic Oscillator Study'', pi_author = ''Research Team'', pi_count = 100, pi_version = double_one\<rparr>, m, fs4)"
    by (simp add: example_metadata_basic_def open_works [OF assms(1)] p1(1) p2(1) p3(1) p4(1) g1 g2 g34 del: One_nat_def)
  with p1(6) p2(6) p3(4) p4(4) that show thesis by blast
qed

section \<open>The task entries\<close>

lemma put_ints_files_ok:
  assumes "store_ok st" "\<forall>k. reliable (fe k)"
  shows "\<forall>kv \<in> set kvs. good_key (fst kv) \<Longrightarrow> put_ints fe now m (Some st) tag kvs k fs = Some fs' \<Longrightarrow> files_ok fs \<Longrightarrow> files_ok fs'"
proof (induction kvs arbitrary: k fs)
  case (Cons kv kvs)
  obtain key v where kv: "kv = (key, v)" by (cases kv)
  obtain fs1 r where "metadata_store_put_int64 (fe k) m (Some st) key v tag (now k) fs = Some (META_OK, fs1)" "files_ok fs \<longrightarrow> files_ok fs1"
    using put_int64_ok [OF assms(1) assms(2) [rule_format], of key] Cons.prems(1) kv by (metis fst_conv list.set_intros(1))
  with Cons kv show ?case by auto
qed simp

lemma task_ints_keys: "(key, v) \<in> set (task_ints tid mid status ex qu wid) \<Longrightarrow> \<exists>part \<in> set task_parts. key = task_key tid part"
  by (auto simp: task_ints_def task_parts_def)

abbreviation example_ints :: "nat \<Rightarrow> (string \<times> u64) list" where
  "example_ints i \<equiv> task_ints (of_nat i) 100 0 (1000 * of_nat i) (500 * of_nat i) 1"

lemma holds_int_cong:
  "disk_view (st, m) fs' (key_name key) = disk_view (st, m) fs (key_name key) \<Longrightarrow> holds_int st m fs' key v = holds_int st m fs key v"
  by (simp add: holds_int_def)

lemma store_task_infos_ok:
  assumes "store_ok st" "\<forall>k. reliable (xs_files env k)"
  shows "distinct (map (of_nat :: nat \<Rightarrow> u64) is) \<Longrightarrow> \<exists>fs'. store_task_infos env m st is fs = Some fs' \<and> (files_ok fs \<longrightarrow> files_ok fs') \<and>
    (\<forall>i \<in> set is. \<forall>(key, v) \<in> set (example_ints i). holds_int st m fs' key v) \<and>
    (\<forall>tid. \<forall>part \<in> set task_parts. tid \<notin> of_nat ` set is \<longrightarrow>
      disk_view (st, m) fs' (task_key tid part) = disk_view (st, m) fs (task_key tid part))"
proof (induction "is" arbitrary: fs)
  case (Cons i "is")
  let ?fe = "\<lambda>k. xs_files env (5 * i + k)" and ?now = "\<lambda>k. xs_clock env (5 * i + k)"
  have fe: "\<forall>k. reliable (?fe k)" using assms(2) by blast
  obtain fs1 where fs1: "metadata_store_task_info ?fe ?now m (Some st) (of_nat i) 100 0 (1000 * of_nat i) (500 * of_nat i) 1 fs =
      Some (META_OK, fs1)" "\<forall>(key, v) \<in> set (example_ints i). holds_int st m fs1 key v"
      "\<forall>n. n \<notin> task_key (of_nat i) ` set task_parts \<longrightarrow> disk_view (st, m) fs1 n = disk_view (st, m) fs n"
    using task_info_holds [OF assms(1) fe] by blast
  have "\<forall>kv \<in> set (example_ints i). good_key (fst kv)"
    using task_ints_keys task_key_full(2) task_parts_plain by (metis prod.collapse)
  then have ok1: "files_ok fs \<longrightarrow> files_ok fs1"
    using put_ints_files_ok [OF assms(1) fe, of "example_ints i"] fs1(1) by (auto simp: metadata_store_task_info_def split: bind_splits)
  obtain fs' where fs': "store_task_infos env m st is fs1 = Some fs'" "files_ok fs1 \<longrightarrow> files_ok fs'"
      "\<forall>i \<in> set is. \<forall>(key, v) \<in> set (example_ints i). holds_int st m fs' key v"
      "\<forall>tid. \<forall>part \<in> set task_parts. tid \<notin> of_nat ` set is \<longrightarrow>
        disk_view (st, m) fs' (task_key tid part) = disk_view (st, m) fs1 (task_key tid part)"
    using Cons.IH [of fs1] Cons.prems by auto
  have "holds_int st m fs' key v" if kv: "(key, v) \<in> set (example_ints i)" for key v
  proof -
    obtain part where part: "part \<in> set task_parts" "key = task_key (of_nat i) part" using task_ints_keys [OF kv] by blast
    then have "disk_view (st, m) fs' (key_name key) = disk_view (st, m) fs1 (key_name key)"
      using fs'(4) Cons.prems by (simp add: task_key_full(4) task_parts_plain)
    then show ?thesis using fs1(2) kv holds_int_cong by blast
  qed
  moreover have "disk_view (st, m) fs' (task_key tid part) = disk_view (st, m) fs (task_key tid part)"
    if "part \<in> set task_parts" "tid \<notin> of_nat ` set (i # is)" for tid part
  proof -
    have "task_key tid part \<notin> task_key (of_nat i) ` set task_parts"
      using that task_key_inj task_parts_plain by (metis imageE list.set_intros(1) imageI)
    then show ?thesis using fs1(3) fs'(4) that by auto
  qed
  ultimately show ?case using fs1(1) fs'(1-3) ok1 by auto
qed simp

text \<open>The query finds none of the entries, which are all there.\<close>

lemma tasks_print_nothing:
  assumes "env_works env" "xs_readdir env = Some names" "fresh_malloc (card (dom m) + length names) (xs_files env 30)" "files_ok fs"
  obtains fs' where "example_metadata_tasks env m fs = Some (Some (0, []), m, fs')" "files_ok fs'"
    "\<forall>i \<in> {1..5}. \<forall>(key, v) \<in> set (example_ints i). holds_int example_store m fs' key v"
proof -
  have fe: "\<forall>k. reliable (xs_files env k)" using assms(1) by (simp add: env_works_def)
  have "distinct (map (of_nat :: nat \<Rightarrow> u64) [1..<6])" by (simp add: upt_rec)
  from store_task_infos_ok [OF example_store_ok fe this, of m fs] obtain fs' where
    fs': "store_task_infos env m example_store [1..<6] fs = Some fs'" "files_ok fs'"
      "\<forall>i \<in> set [1..<6]. \<forall>(key, v) \<in> set (example_ints i). holds_int example_store m fs' key v"
    using assms(4) by blast
  have "query_ok task_query" "mq_type task_query = -1" by (simp_all add: query_ok_def task_query_def)
  from query_any_type_finds_nothing [OF fe [rule_format] assms(3) this, of example_store fs' 100] files_ok_dir [OF fs'(2)]
  have "metadata_store_query (xs_files env 30) m (Some example_store) (Some task_query) True 100 (Some names) fs' =
      Some (META_OK, [], m)" by blast
  then have "example_metadata_tasks env m fs = Some (Some (0, []), m, fs')"
    by (simp add: example_metadata_tasks_def open_works [OF assms(1)] fs'(1) assms(2) del: upt_Suc One_nat_def store_task_infos.simps)
  moreover have "\<forall>i \<in> {1..5}. \<forall>(key, v) \<in> set (example_ints i). holds_int example_store m fs' key v"
    using fs'(3) by auto
  ultimately show thesis using fs'(2) by (intro that)
qed

section \<open>The experiment\<close>

lemma experiment_keys:
  "experiment_key ''exp_001'' ''description'' = ''experiment.exp_001.description''"
  "experiment_key ''exp_001'' ''model'' = ''experiment.exp_001.model''"
  "experiment_key ''exp_001'' ''config'' = ''experiment.exp_001.config''"
  "plain_name ''experiment.exp_001.description''" "plain_name ''experiment.exp_001.model''"
  "plain_name ''experiment.exp_001.config''"
  by (simp_all add: experiment_key_def KEY_BUFFER_def plain_name_def good_key_def plain_key_def meta_sizes dots_apart_def)

abbreviation sweep_text :: string where "sweep_text \<equiv> ''Parameter sweep for damped harmonic oscillator''"

lemma experiment_texts:
  "NUL \<notin> set sweep_text" "NUL \<notin> set ''harmonic_oscillator''" "NUL \<notin> set config_json"
  "length sweep_text < META_MAX_VALUE_LEN" "length ''harmonic_oscillator'' < META_MAX_VALUE_LEN" "length config_json < META_MAX_VALUE_LEN"
  "length sweep_text < 1024" "length ''harmonic_oscillator'' < 256" "length config_json < 4096"
  by (simp_all add: meta_sizes config_json_def)

lemma experiment_prints:
  assumes "env_works env" "\<forall>k. fresh_malloc (card (dom m)) (xs_files env k)"
    and "length description0 = 1024" "length model0 = 256" "length config0 = 4096"
  obtains fs' where "example_metadata_experiment env description0 model0 config0 m fs =
      Some (Some \<lparr>ei_description = sweep_text, ei_model = ''harmonic_oscillator'', ei_config = config_json\<rparr>, m, fs')"
    "files_ok fs \<longrightarrow> files_ok fs'"
proof -
  let ?st = example_store and ?fe = "xs_files env" and ?t = "Some ''experiment''" and ?c = "xs_clock env"
  note st = example_store_ok
  have fe: "reliable (?fe k)" for k using assms(1) by (simp add: env_works_def)
  note fresh = assms(2) [rule_format] and k = experiment_keys and t = experiment_texts
  obtain fs1 b1 r1 where p1: "metadata_store_put_string (?fe 0) m (Some ?st) ''experiment.exp_001.description'' sweep_text ?t (?c 0) fs = Some (META_OK, fs1)"
    "disk_view (?st, m) fs1 = (disk_view (?st, m) fs)(''experiment.exp_001.description'' \<mapsto> r1)" "mr_value r1 = Text b1" "NUL \<in> set b1"
    "takeWhile (\<lambda>c. c \<noteq> NUL) b1 = sweep_text" "files_ok fs \<longrightarrow> files_ok fs1"
    by (rule put_string_plain [OF st fe k(4) t(1,4)])
  obtain fs2 b2 r2 where p2: "metadata_store_put_string (?fe (Suc 0)) m (Some ?st) ''experiment.exp_001.model'' ''harmonic_oscillator'' ?t (?c (Suc 0)) fs1 = Some (META_OK, fs2)"
    "disk_view (?st, m) fs2 = (disk_view (?st, m) fs1)(''experiment.exp_001.model'' \<mapsto> r2)" "mr_value r2 = Text b2" "NUL \<in> set b2"
    "takeWhile (\<lambda>c. c \<noteq> NUL) b2 = ''harmonic_oscillator''" "files_ok fs1 \<longrightarrow> files_ok fs2"
    by (rule put_string_plain [OF st fe k(5) t(2,5)])
  obtain fs3 b3 r3 where p3: "metadata_store_put_string (?fe (Suc (Suc 0))) m (Some ?st) ''experiment.exp_001.config'' config_json ?t (?c (Suc (Suc 0))) fs2 = Some (META_OK, fs3)"
    "disk_view (?st, m) fs3 = (disk_view (?st, m) fs2)(''experiment.exp_001.config'' \<mapsto> r3)" "mr_value r3 = Text b3" "NUL \<in> set b3"
    "takeWhile (\<lambda>c. c \<noteq> NUL) b3 = config_json" "files_ok fs2 \<longrightarrow> files_ok fs3"
    by (rule put_string_plain [OF st fe k(6) t(3,6)])
  note view = p1(2) p2(2) p3(2)
  obtain d where g1: "metadata_store_get_string (?fe 3) m (Some ?st) (Some ''experiment.exp_001.description'') description0 1024 fs3 = Some (META_OK, d, m)"
    "c_str d = Some sweep_text"
    by (rule get_string_plain [OF _ p1(3-5) st fe fresh k(4) t(7) assms(3), of fs3]) (simp_all add: view)
  obtain md where g2: "metadata_store_get_string (?fe 4) m (Some ?st) (Some ''experiment.exp_001.model'') model0 256 fs3 = Some (META_OK, md, m)"
    "c_str md = Some ''harmonic_oscillator''"
    by (rule get_string_plain [OF _ p2(3-5) st fe fresh k(5) t(8) assms(4), of fs3]) (simp_all add: view)
  obtain cf where g3: "metadata_store_get_string (?fe 5) m (Some ?st) (Some ''experiment.exp_001.config'') config0 4096 fs3 = Some (META_OK, cf, m)"
    "c_str cf = Some config_json"
    by (rule get_string_plain [OF _ p3(3-5) st fe fresh k(6) t(9) assms(5), of fs3]) (simp_all add: view)
  have "example_metadata_experiment env description0 model0 config0 m fs =
      Some (Some \<lparr>ei_description = sweep_text, ei_model = ''harmonic_oscillator'', ei_config = config_json\<rparr>, m, fs3)"
    by (simp add: example_metadata_experiment_def metadata_store_experiment_def open_works [OF assms(1)] k(1-3) p1(1) p2(1) p3(1) g1 g2 g3)
  with p1(6) p2(6) p3(6) that show thesis by blast
qed

end
