(* ===== verification/Example_Hdf5.thy ===== *)
theory Example_Hdf5
  imports Hdf5_Files Byte_Layout Example_Metadata
begin

text \<open>
  \<open>examples/minimal_cluster/storage_example.c\<close>, the part on the result files and their index: examples
  4 to 6, and the program.  An example yields the values that it prints, or nothing when the index
  cannot be opened, the database as it is closed, the directories and the state of the HDF5 library.
\<close>

section \<open>The surroundings\<close>

record c_math = c_floats +
  fl_sin :: "u64 \<Rightarrow> u64"
  fl_sqrt :: "u64 \<Rightarrow> u64"

text \<open>
  The results of \<open>stat\<close> and \<open>calloc\<close> in \<open>hdf5_index_open\<close>, of the \<open>mkdir\<close> calls of the example (the
  first is its own, the others are those of the stored files), of the \<open>strdup\<close> calls of each file, and
  of the example's \<open>malloc\<close> calls.
\<close>

record index_env =
  xh_exists :: bool
  xh_calloc :: bool
  xh_mkdir :: "nat \<Rightarrow> bool"
  xh_strdup :: "nat \<Rightarrow> bool \<times> bool"
  xh_malloc :: "nat \<Rightarrow> bool"

text \<open>The names that \<open>stat\<close> finds.\<close>

definition ensure_directory :: "bool \<Rightarrow> string \<Rightarrow> string set \<Rightarrow> string set" where
  "ensure_directory mkdir_ok path dirs = (if path \<notin> dirs \<and> mkdir_ok then insert path dirs else dirs)"

definition DATA_DIR :: string where "DATA_DIR = ''./example_data''"

definition open_example_index :: "'db sqlite \<Rightarrow> index_env \<Rightarrow> 'db hdf5_index option" where
  "open_example_index sq env = hdf5_index_open sq (xh_exists env) (xh_calloc env) (Some ''./example_data/index.db'') 1"

definition double_array :: "u64 list \<Rightarrow> u8 list" where
  "double_array xs = concat (map (le_enc 8) xs)"

text \<open>The call of \<open>hdf5_store_task_result\<close> for two arrays of \<open>double\<close>, which may make the directory.\<close>

definition store_result ::
    "'db sqlite \<Rightarrow> 'h hdf5_lib \<Rightarrow> index_env \<Rightarrow> nat \<Rightarrow> 'db hdf5_index \<Rightarrow> u64 \<Rightarrow> u32 \<Rightarrow> u64 list \<Rightarrow> u64 list \<Rightarrow> string set \<Rightarrow> 'h
      \<Rightarrow> (c_int \<times> 'db hdf5_index option \<times> string set \<times> 'h) option" where
  "store_result sq lib env k i task_id model_id input_data output_data dirs h = do {
     (rc, idx, h') \<leftarrow> hdf5_store_task_result sq lib (DATA_DIR \<in> dirs) (xh_mkdir env k) (xh_strdup env k) (Some i) (Some DATA_DIR)
       task_id model_id (Some (double_array input_data)) (of_nat (length input_data) * 8)
       (Some (double_array output_data)) (of_nat (length output_data) * 8) h;
     Some (rc, idx, ensure_directory (xh_mkdir env k) DATA_DIR dirs, h')
   }"

section \<open>Example 4: one file\<close>

definition M_PI :: real where "M_PI = 3.14159265358979323846"

definition sine_input :: "c_math \<Rightarrow> u64 list" where
  "sine_input fl = map (\<lambda>i. fl_mul fl (fl_of fl (real i)) (fl_of fl 0.01)) [0..<1000]"

definition sine_output :: "c_math \<Rightarrow> u64 list" where
  "sine_output fl = map (\<lambda>t. fl_sin fl (fl_mul fl (fl_mul fl (fl_of fl 2.0) (fl_of fl M_PI)) t)) (sine_input fl)"

text \<open>Whether the result was stored, and of the entry that is found path, size, model and number of datasets.\<close>

record file_report =
  fr_stored :: bool
  fr_entry :: "(string \<times> u64 \<times> u32 \<times> nat) option"

definition example_hdf5_basic ::
    "'db sqlite \<Rightarrow> 'h hdf5_lib \<Rightarrow> c_math \<Rightarrow> index_env \<Rightarrow> string set \<Rightarrow> 'h
      \<Rightarrow> (file_report option \<times> 'db option \<times> string set \<times> 'h) option" where
  "example_hdf5_basic sq lib fl env dirs h =
     (let dirs1 = ensure_directory (xh_mkdir env 0) DATA_DIR dirs in
      case open_example_index sq env of
        None \<Rightarrow> Some (None, None, dirs1, h)
      | Some i \<Rightarrow>
          if \<not> xh_malloc env 0 \<or> \<not> xh_malloc env 1 then None
          else do {
            (rc, idx, dirs2, h1) \<leftarrow> store_result sq lib env 1 i 12345 100 (sine_input fl) (sine_output fl) dirs1 h;
            (rc', found) \<leftarrow> hdf5_index_get_by_task sq idx 12345 True;
            Some (Some \<lparr>fr_stored = (rc = 0),
              fr_entry = (if rc' = 0 then let e = hd found in Some (hf_filepath e, hf_file_size e, hf_model_id e, length (hf_datasets e))
                else None)\<rparr>, hdf5_index_close (\<lambda>db. db) idx, dirs2, h1)
          })"

section \<open>Example 5: ten files and a query\<close>

definition dummy_data :: "c_math \<Rightarrow> nat \<Rightarrow> u64 list" where
  "dummy_data fl task = map (\<lambda>i. fl_add fl (fl_mul fl (fl_of fl (real task)) (fl_of fl 10.0))
     (fl_mul fl (fl_of fl (real i)) (fl_of fl 0.1))) [0..<100]"

text \<open>The loop; what the calls return is not looked at.\<close>

fun store_results ::
    "'db sqlite \<Rightarrow> 'h hdf5_lib \<Rightarrow> c_math \<Rightarrow> index_env \<Rightarrow> nat list \<Rightarrow> 'db hdf5_index option \<Rightarrow> string set \<Rightarrow> 'h
      \<Rightarrow> ('db hdf5_index option \<times> string set \<times> 'h) option" where
  "store_results sq lib fl env [] idx dirs h = Some (idx, dirs, h)"
| "store_results sq lib fl env (task # tasks) idx dirs h = do {
     i \<leftarrow> idx;
     (rc, idx', dirs', h') \<leftarrow> store_result sq lib env (Suc task) i (of_nat (1000 + task)) (of_nat (100 + task mod 3))
       (dummy_data fl task) (dummy_data fl task) dirs h;
     store_results sq lib fl env tasks idx' dirs' h'
   }"

record index_report =
  ir_tasks :: "(u64 \<times> string \<times> u64) list"
  ir_total_files :: size_t
  ir_total_size :: size_t
  ir_megabytes :: c_double
  ir_unique_models :: size_t

definition example_hdf5_multiple_tasks ::
    "'db sqlite \<Rightarrow> 'h hdf5_lib \<Rightarrow> c_math \<Rightarrow> index_env \<Rightarrow> index_stats \<Rightarrow> string set \<Rightarrow> 'h
      \<Rightarrow> (index_report option \<times> 'db option \<times> string set \<times> 'h) option" where
  "example_hdf5_multiple_tasks sq lib fl env stats0 dirs h =
     (let dirs1 = ensure_directory (xh_mkdir env 0) DATA_DIR dirs in
      case open_example_index sq env of
        None \<Rightarrow> Some (None, None, dirs1, h)
      | Some i \<Rightarrow>
          if \<not> xh_malloc env 0 then None
          else do {
            (idx, dirs2, h1) \<leftarrow> store_results sq lib fl env [0..<10] (Some i) dirs1 h;
            (rc, found) \<leftarrow> hdf5_index_query sq idx (Some (zero_query\<lparr>hq_task_id := 0, hq_model_id := 101\<rparr>)) True 100 True;
            stats \<leftarrow> snd (hdf5_index_get_stats sq idx (Some stats0));
            Some (Some \<lparr>ir_tasks = map (\<lambda>e. (hf_task_id e, hf_filepath e, hf_file_size e)) found,
              ir_total_files = is_total_files stats, ir_total_size = is_total_size_bytes stats,
              ir_megabytes = real (unat (is_total_size_bytes stats)) / (1024.0 * 1024.0),
              ir_unique_models = is_unique_models stats\<rparr>, hdf5_index_close (\<lambda>db. db) idx, dirs2, h1)
          })"

section \<open>Example 6: datasets\<close>

definition example_matrix :: "c_math \<Rightarrow> u64 list" where
  "example_matrix fl = concat (map (\<lambda>i. map (\<lambda>j. fl_of fl (real (i * 10 + j))) [0..<10]) [0..<10])"

definition example_vector :: "c_math \<Rightarrow> u64 list" where
  "example_vector fl = map (\<lambda>i. fl_sqrt fl (fl_of fl (real i))) [0..<50]"

record dataset_report =
  dr_path :: string
  dr_elements :: size_t
  dr_values :: "u64 list"

text \<open>
  \<open>path0\<close>, \<open>vector0\<close> and \<open>elements0\<close> are the uninitialised variables; the path keeps its old contents
  when no file name is made.
\<close>

definition example_hdf5_custom_datasets ::
    "'db sqlite \<Rightarrow> 'h hdf5_lib \<Rightarrow> c_math \<Rightarrow> index_env \<Rightarrow> char list \<Rightarrow> u8 list \<Rightarrow> size_t \<Rightarrow> string set \<Rightarrow> 'h
      \<Rightarrow> (dataset_report option \<times> 'db option \<times> string set \<times> 'h) option" where
  "example_hdf5_custom_datasets sq lib fl env path0 vector0 elements0 dirs h =
     (let dirs1 = ensure_directory (xh_mkdir env 0) DATA_DIR dirs in
      case open_example_index sq env of
        None \<Rightarrow> Some (None, None, dirs1, h)
      | Some i \<Rightarrow> do {
          (rc, path, idx, h1) \<leftarrow> hdf5_create_task_file sq lib (DATA_DIR \<in> dirs1) (xh_mkdir env 1) (Some i) (Some DATA_DIR)
            99999 200 True 4096 h;
          filepath \<leftarrow> (if path = [] then c_str path0 else Some path);
          (rc1, h2) \<leftarrow> hdf5_write_dataset lib (fst (xh_strdup env 0)) (Some filepath) (Some ''/output/matrix'')
            (Some (double_array (example_matrix fl))) 2 (Some [10, 10]) 8 h1;
          (rc2, h3) \<leftarrow> hdf5_write_dataset lib (snd (xh_strdup env 0)) (Some filepath) (Some ''/output/vector'')
            (Some (double_array (example_vector fl))) 1 (Some [50]) 8 h2;
          (rc3, n, bytes) \<leftarrow> hdf5_read_dataset lib (Some filepath) (Some ''/output/vector'') (Some (50 * 8)) 50 True h3;
          let read_vector = bytes @ drop (length bytes) vector0;
          Some (Some \<lparr>dr_path = filepath, dr_elements = (case n of None \<Rightarrow> elements0 | Some n \<Rightarrow> n),
            dr_values = map (\<lambda>k. rd64 (8 * k) read_vector) [0..<4]\<rparr>, hdf5_index_close (\<lambda>db. db) idx,
            ensure_directory (xh_mkdir env 1) DATA_DIR dirs1, h3)
        })"

section \<open>The program\<close>

record example_locals =
  lo_name :: "char list"
  lo_author :: "char list"
  lo_count :: u64
  lo_version :: u64
  lo_description :: "char list"
  lo_model :: "char list"
  lo_config :: "char list"
  lo_stats :: index_stats
  lo_path :: "char list"
  lo_vector :: "u8 list"
  lo_elements :: size_t

text \<open>
  The exit code and what the examples print.  \<open>ms\<close>, \<open>xs\<close> and \<open>sq\<close> are the environments of the examples
  and the database library as it opens the file for each; \<open>mk\<close> has the results of the first two calls
  of \<open>mkdir\<close>.
\<close>

definition storage_example_main ::
    "bool \<Rightarrow> bool \<times> bool \<Rightarrow> (nat \<Rightarrow> store_env) \<Rightarrow> (nat \<Rightarrow> 'db sqlite) \<Rightarrow> 'h hdf5_lib \<Rightarrow> c_math \<Rightarrow> (nat \<Rightarrow> index_env)
      \<Rightarrow> example_locals \<Rightarrow> mem \<Rightarrow> files \<Rightarrow> string set \<Rightarrow> 'h
      \<Rightarrow> (c_int \<times> ((project_info option \<times> (nat \<times> (string \<times> int) list) option \<times> experiment_info option) \<times>
           (file_report option \<times> index_report option \<times> dataset_report option)) option) option" where
  "storage_example_main log_ok mk ms sq lib fl xs lo m fs dirs h =
     (if \<not> log_ok then Some (1, None)
      else do {
        let dirs0 = ensure_directory (snd mk) DATA_DIR (ensure_directory (fst mk) ''./example_metadata'' dirs);
        (p1, m1, fs1) \<leftarrow> example_metadata_basic (ms 1) (lo_name lo) (lo_author lo) (lo_count lo) (lo_version lo) m fs;
        (p2, m2, fs2) \<leftarrow> example_metadata_tasks (ms 2) m1 fs1;
        (p3, m3, fs3) \<leftarrow> example_metadata_experiment (ms 3) (lo_description lo) (lo_model lo) (lo_config lo) m2 fs2;
        (p4, db4, dirs4, h4) \<leftarrow> example_hdf5_basic (sq 4) lib fl (xs 4) dirs0 h;
        (p5, db5, dirs5, h5) \<leftarrow> example_hdf5_multiple_tasks (sq 5) lib fl (xs 5) (lo_stats lo) dirs4 h4;
        (p6, db6, dirs6, h6) \<leftarrow> example_hdf5_custom_datasets (sq 6) lib fl (xs 6) (lo_path lo) (lo_vector lo) (lo_elements lo) dirs5 h5;
        Some (0, Some ((p1, p2, p3), p4, p5, p6))
      })"

end
