(* ===== verification/Example_Hdf5_Props.thy ===== *)
theory Example_Hdf5_Props
  imports Example_Hdf5
begin

text \<open>What examples 4 to 6 of \<open>storage_example.c\<close> print when the libraries do their work.\<close>

section \<open>Libraries that work\<close>

definition libs_work :: "'db sqlite \<Rightarrow> ('db \<Rightarrow> file_row set) \<Rightarrow> 'h hdf5_lib \<Rightarrow> ('h \<Rightarrow> string \<rightharpoonup> h5_file) \<Rightarrow> bool" where
  "libs_work sq rows lib view \<longleftrightarrow> sql_laws sq rows \<and> hdf5_laws lib view \<and>
     (\<forall>r db. row_ok r \<longrightarrow> fst (sq_write sq insert_file_sql (row_values r) db) = Step_done) \<and>
     (\<forall>p h. fst (hl_create lib p h)) \<and>
     (\<forall>p h size time dopen. hl_open lib p h = Some (Some (size, time), dopen) \<longrightarrow> int64 time)"

lemma create_works:
  assumes "libs_work sq rows lib view"
  obtains h' where "hl_create lib p h = (True, h')"
proof -
  have "fst (hl_create lib p h)" using assms by (simp add: libs_work_def)
  then show thesis using that by (cases "hl_create lib p h") simp
qed

lemma created_int64:
  assumes "libs_work sq rows lib view"
  shows "int64 (hf_created (scanned_entry lib h p t m))"
  using assms by (auto simp: libs_work_def scanned_entry_def scan_hdf5_file_def unscanned_entry_def Let_def int64_def
      split: option.split)

lemma add_file_works:
  assumes "libs_work sq rows lib view" "view h p = Some f"
  obtains j where "hdf5_index_add_file sq lib h (Some i) (Some p) t m = (HDF5_OK, Some j)"
    "rows (hi_db j) = replace_row (entry_row (scanned_entry lib h p t m)) (rows (hi_db i))"
proof -
  let ?e = "scanned_entry lib h p t m"
  have laws: "sql_laws sq rows" "hdf5_laws lib view" using assms(1) by (simp_all add: libs_work_def)
  have "hl_open lib p h \<noteq> None" using h5_open [OF hdf5_lawsD(2) [OF laws(2)] assms(2)] by auto
  then have scan: "scan_hdf5_file lib h p (unscanned_entry p t m) = (HDF5_OK, ?e)"
    by (auto simp: scanned_entry_def scan_hdf5_file_def Let_def)
  have "fst (sq_write sq insert_file_sql (file_values ?e) (hi_db i)) = Step_done"
    using assms(1) row_ok_entry [OF created_int64 [OF assms(1)]] unfolding libs_work_def file_values_row by blast
  then obtain j where j: "hdf5_index_add_file sq lib h (Some i) (Some p) t m = (HDF5_OK, Some j)"
    by (cases "sq_write sq insert_file_sql (file_values ?e) (hi_db i)") (simp add: hdf5_index_add_file_def scan)
  with add_file_rows [OF laws(1) created_int64 [OF assms(1)] j] that show thesis by auto
qed

section \<open>Storing results\<close>

lemma length_double_array [simp]: "length (double_array xs) = 8 * length xs"
  by (induction xs) (simp_all add: double_array_def)

lemma array_size:
  assumes "length xs < 2 ^ 32"
  shows "unat (of_nat (length xs) * 8 :: size_t) = 8 * length xs" "0 < length xs \<Longrightarrow> 0 < (of_nat (length xs) * 8 :: size_t)"
proof -
  have "(of_nat (length xs) * 8 :: size_t) = of_nat (8 * length xs)" by (simp add: mult.commute)
  moreover have "8 * length xs < 2 ^ 64" using assms by simp
  ultimately show size: "unat (of_nat (length xs) * 8 :: size_t) = 8 * length xs"
    by (simp only: unat_of_nat) (simp add: take_bit_nat_eq_self)
  show "0 < (of_nat (length xs) * 8 :: size_t)" if "0 < length xs"
  proof -
    have "unat (of_nat (length xs) * 8 :: size_t) \<noteq> 0" unfolding size using that by simp
    then show ?thesis by (metis unat_0 word_gt_0)
  qed
qed

abbreviation data_file :: "u64 \<Rightarrow> u32 \<Rightarrow> string" where "data_file \<equiv> task_file_name DATA_DIR"

lemma data_file_short: "length (data_file t m) < 4096"
proof -
  have "unat m < 10 ^ Suc 19" using unsigned_less [of m, where ?'a = nat] by simp
  from length_dec_nat [OF this] length_dec_u64 [of t] show ?thesis
    by (simp add: task_file_name_def DATA_DIR_def)
qed

lemma data_file_kept: "take (HDF5_MAX_PATH_LEN - Suc 0) (data_file t m) = data_file t m"
  using data_file_short [of t m] by (simp add: HDF5_MAX_PATH_LEN_def)

lemma store_result_ok:
  assumes "libs_work sq rows lib view" "xh_strdup env k = (True, True)" "DATA_DIR \<in> dirs"
    and "0 < length xs" "length xs < 2 ^ 32" "0 < length ys" "length ys < 2 ^ 32"
  obtains j h' f e where "store_result sq lib env k i t m xs ys dirs h = Some (HDF5_OK, Some j, dirs, h')"
    "rows (hi_db j) = replace_row (entry_row e) (rows (hi_db i))"
    "hf_filepath e = data_file t m" "hf_task_id e = t" "hf_model_id e = m" "hf_datasets e = []"
    "view h' = (view h)(data_file t m \<mapsto> f)"
proof -
  let ?p = "data_file t m"
  have laws: "hdf5_laws lib view" using assms(1) by (simp add: libs_work_def)
  obtain h1 where create: "hl_create lib ?p h = (True, h1)"
    by (rule create_works [OF assms(1)])
  have dir: "True \<or> xh_mkdir env k" and path: "length ?p < HDF5_MAX_PATH_LEN"
    using data_file_short [of t m] by (simp_all add: HDF5_MAX_PATH_LEN_def)
  have inp: "length (double_array xs) = unat (of_nat (length xs) * 8 :: size_t)" "0 < (of_nat (length xs) * 8 :: size_t)"
    using array_size [OF assms(5)] assms(4) by simp_all
  have out: "length (double_array ys) = unat (of_nat (length ys) * 8 :: size_t)" "0 < (of_nat (length ys) * 8 :: size_t)"
    using array_size [OF assms(7)] assms(6) by simp_all
  from store_result_view [OF laws path create dir inp out, of sq "Some i"] obtain idx' h2 h' f where
    r: "hdf5_store_task_result sq lib True (xh_mkdir env k) (True, True) (Some i) (Some DATA_DIR) t m
      (Some (double_array xs)) (of_nat (length xs) * 8) (Some (double_array ys)) (of_nat (length ys) * 8) h = Some (HDF5_OK, idx', h')"
    "idx' = snd (hdf5_index_add_file sq lib h2 (Some i) (Some ?p) t m)"
    "view h2 = (view h)(?p \<mapsto> add_group ''/output'' (add_group ''/input'' new_file))" "view h' = (view h)(?p \<mapsto> f)"
    unfolding option.case by blast
  let ?e = "scanned_entry lib h2 ?p t m"
  have v2: "view h2 ?p = Some (add_group ''/output'' (add_group ''/input'' new_file))" using r(3) by simp
  obtain j where j: "idx' = Some j" "rows (hi_db j) = replace_row (entry_row ?e) (rows (hi_db i))"
    by (rule add_file_works [OF assms(1) v2, of i t m]) (use r(2) that in auto)
  have "hf_datasets ?e = []" by (rule new_file_scanned [OF laws v2]) (simp add: add_group_def new_file_def)
  moreover have "hf_filepath ?e = ?p" using data_file_short [of t m] by (simp add: HDF5_MAX_PATH_LEN_def)
  ultimately show thesis
    using r(1,4) j assms(2,3) by (intro that [of j h' ?e f]) (simp_all add: store_result_def ensure_directory_def)
qed

section \<open>Examples 4 and 5\<close>

abbreviation data_dirs :: "index_env \<Rightarrow> string set \<Rightarrow> string set" where
  "data_dirs env dirs \<equiv> ensure_directory (xh_mkdir env 0) DATA_DIR dirs"

definition index_env_works :: "index_env \<Rightarrow> string set \<Rightarrow> bool" where
  "index_env_works env dirs \<longleftrightarrow> (DATA_DIR \<in> dirs \<or> xh_mkdir env 0) \<and> (\<forall>k. xh_strdup env k = (True, True)) \<and> (\<forall>k. xh_malloc env k)"

lemma data_dirs_in: "index_env_works env dirs \<Longrightarrow> DATA_DIR \<in> data_dirs env dirs"
  by (auto simp: index_env_works_def ensure_directory_def)

lemma entry_row_fst [simp]: "fst (entry_row e) = hf_filepath e" "fst (snd (entry_row e)) = sint (hf_task_id e)"
  "fst (snd (snd (entry_row e))) = sint (hf_model_id e)"
  by (simp_all add: entry_row_def)

lemma hdf5_basic_prints:
  assumes "libs_work sq rows lib view" "open_example_index sq env = Some i" "index_env_works env dirs"
    and other: "\<forall>r \<in> rows (hi_db i). fst r \<noteq> data_file 12345 100 \<longrightarrow> fst (snd r) \<noteq> 12345"
  obtains size db h' f where "example_hdf5_basic sq lib fl env dirs h =
      Some (Some \<lparr>fr_stored = True, fr_entry = Some (data_file 12345 100, size, 100, 0)\<rparr>, Some db, data_dirs env dirs, h')"
    "view h' = (view h)(data_file 12345 100 \<mapsto> f)"
proof -
  have laws: "sql_laws sq rows" using assms(1) by (simp add: libs_work_def)
  have env: "xh_strdup env 1 = (True, True)" "xh_malloc env 0" "xh_malloc env 1"
    using assms(3) by (simp_all add: index_env_works_def)
  obtain j h' f e where st: "store_result sq lib env 1 i 12345 100 (sine_input fl) (sine_output fl) (data_dirs env dirs) h =
      Some (HDF5_OK, Some j, data_dirs env dirs, h')"
    "rows (hi_db j) = replace_row (entry_row e) (rows (hi_db i))"
    "hf_filepath e = data_file 12345 100" "hf_task_id e = 12345" "hf_model_id e = 100" "hf_datasets e = []"
    "view h' = (view h)(data_file 12345 100 \<mapsto> f)"
    by (rule store_result_ok [OF assms(1) env(1) data_dirs_in [OF assms(3)], of "sine_input fl" "sine_output fl" i 12345 100 h])
      (simp_all add: sine_input_def sine_output_def)
  have t: "int (unat (12345 :: u64)) = 12345" "sint (12345 :: u64) = 12345" by simp_all
  have "entry_row e \<in> rows (hi_db j)" by (simp add: st(2) replace_row_def)
  then obtain r where r: "r \<in> rows (hi_db j)" "fst (snd r) = 12345"
      "hdf5_index_get_by_task sq (Some j) 12345 True = Some (HDF5_OK, [entry_of_row r])"
    using get_by_task_rows [OF laws, of 12345 j] st(4) t by (auto split: if_splits)
  then have "r = entry_row e" using other by (auto simp: st(2,3) replace_row_def)
  then have r': "entry_of_row r = e" using st(3,6) data_file_short [of 12345 100] by (simp add: entry_row_def HDF5_MAX_PATH_LEN_def)
  have "example_hdf5_basic sq lib fl env dirs h =
      Some (Some \<lparr>fr_stored = True, fr_entry = Some (data_file 12345 100, hf_file_size e, 100, 0)\<rparr>, Some (hi_db j), data_dirs env dirs, h')"
    using st(3,5,6) by (simp add: example_hdf5_basic_def assms(2) env st(1) r(3) r' Let_def hdf5_index_close_def hdf5_codes del: One_nat_def)
  with st(7) that show thesis by blast
qed

lemma store_results_ok:
  assumes "libs_work sq rows lib view" "DATA_DIR \<in> dirs" "\<forall>k. xh_strdup env k = (True, True)"
  shows "distinct (map (\<lambda>k. of_nat (1000 + k) :: u64) tasks) \<Longrightarrow>
    \<exists>j h' es. store_results sq lib fl env tasks (Some i) dirs h = Some (Some j, dirs, h') \<and>
      map (\<lambda>e. (hf_filepath e, hf_task_id e, hf_model_id e)) es =
        map (\<lambda>k. (data_file (of_nat (1000 + k)) (of_nat (100 + k mod 3)), of_nat (1000 + k), of_nat (100 + k mod 3))) tasks \<and>
      rows (hi_db j) = entry_row ` set es \<union> {r \<in> rows (hi_db i). fst r \<notin> hf_filepath ` set es}"
proof (induction tasks arbitrary: i h)
  case (Cons k ks)
  let ?t = "of_nat (1000 + k) :: u64" and ?m = "of_nat (100 + k mod 3) :: u32"
  have d: "length (dummy_data fl k) = 100" by (simp add: dummy_data_def)
  obtain i1 h1 f e where st: "store_result sq lib env (Suc k) i ?t ?m (dummy_data fl k) (dummy_data fl k) dirs h = Some (HDF5_OK, Some i1, dirs, h1)"
    "rows (hi_db i1) = replace_row (entry_row e) (rows (hi_db i))"
    "hf_filepath e = data_file ?t ?m" "hf_task_id e = ?t" "hf_model_id e = ?m"
    by (rule store_result_ok [OF assms(1) assms(3) [rule_format] assms(2), of "dummy_data fl k" "dummy_data fl k" "Suc k" i ?t ?m h])
      (simp_all add: d del: of_nat_add)
  from Cons.IH [of i1 h1] Cons.prems obtain j h' es where
    es: "store_results sq lib fl env ks (Some i1) dirs h1 = Some (Some j, dirs, h')"
      "map (\<lambda>e. (hf_filepath e, hf_task_id e, hf_model_id e)) es =
        map (\<lambda>k. (data_file (of_nat (1000 + k)) (of_nat (100 + k mod 3)), of_nat (1000 + k), of_nat (100 + k mod 3))) ks"
      "rows (hi_db j) = entry_row ` set es \<union> {r \<in> rows (hi_db i1). fst r \<notin> hf_filepath ` set es}" by auto
  have "hf_filepath ` set es = (\<lambda>k. data_file (of_nat (1000 + k)) (of_nat (100 + k mod 3))) ` set ks"
    using arg_cong [OF es(2), of "\<lambda>xs. set (map fst xs)"] by (simp add: image_image comp_def del: of_nat_add)
  moreover have "?t \<notin> (\<lambda>k. of_nat (1000 + k)) ` set ks" using Cons.prems by (simp del: of_nat_add)
  ultimately have new: "hf_filepath e \<notin> hf_filepath ` set es" using task_file_name_inj st(3) by (metis (no_types, lifting) image_iff)
  have "rows (hi_db j) = entry_row ` set (e # es) \<union> {r \<in> rows (hi_db i). fst r \<notin> hf_filepath ` set (e # es)}"
    using new by (auto simp: es(3) st(2) replace_row_def)
  moreover have "store_results sq lib fl env (k # ks) (Some i) dirs h = Some (Some j, dirs, h')"
    using st(1) es(1) by (simp del: of_nat_add)
  moreover have "map (\<lambda>e. (hf_filepath e, hf_task_id e, hf_model_id e)) (e # es) =
      map (\<lambda>k. (data_file (of_nat (1000 + k)) (of_nat (100 + k mod 3)), of_nat (1000 + k), of_nat (100 + k mod 3))) (k # ks)"
    using es(2) st(3-5) by (simp del: of_nat_add)
  ultimately show ?case by blast
qed simp

lemma query_rows_all:
  assumes "sql_laws sq rows" "times_ok query" "unat max_results < 2 ^ 63"
    "card (matching (query_conditions query) (rows (hi_db i))) \<le> unat max_results"
  obtains ys where "hdf5_index_query sq (Some i) query True max_results True = Some (HDF5_OK, map entry_of_row ys)" "distinct ys"
    "set ys = matching (query_conditions query) (rows (hi_db i))"
proof -
  let ?m = "matching (query_conditions query) (rows (hi_db i))"
  obtain ys where ys: "hdf5_index_query sq (Some i) query True max_results True = Some (HDF5_OK, map entry_of_row ys)"
      "distinct ys" "set ys \<subseteq> ?m" "length ys = min (unat max_results) (card ?m)"
    by (rule query_rows [OF assms(1-3)])
  have "set ys = ?m"
  proof (rule card_subset_eq)
    show "finite ?m" using sql_rows(1) [OF assms(1)] by (simp add: matching_def)
    show "card (set ys) = card ?m" using assms(4) ys(2,4) by (simp add: distinct_card min_absorb2)
  qed (rule ys(3))
  with ys(1,2) that show thesis by blast
qed

lemma satisfies_model: "satisfies r (Model_is n) \<longleftrightarrow> fst (snd (snd r)) = int n"
  by (cases r) simp

definition example_summaries :: "(string \<times> u64 \<times> u32) list" where
  "example_summaries = map (\<lambda>k. (data_file (of_nat (1000 + k)) (of_nat (100 + k mod 3)), of_nat (1000 + k), of_nat (100 + k mod 3))) [0..<10]"

lemma summaries_101:
  "filter (\<lambda>x. snd (snd x) = 101) example_summaries =
     [(data_file 1001 101, 1001, 101), (data_file 1004 101, 1004, 101), (data_file 1007 101, 1007, 101)]"
  by (simp add: example_summaries_def upt_rec)

text \<open>The rows of model 101 among the ten.\<close>

lemma rows_101:
  assumes "map (\<lambda>e. (hf_filepath e, hf_task_id e, hf_model_id e)) es = example_summaries"
  obtains a b c where "{r \<in> entry_row ` set es. fst (snd (snd r)) = 101} = {entry_row a, entry_row b, entry_row c}"
    "hf_filepath a = data_file 1001 101" "hf_filepath b = data_file 1004 101" "hf_filepath c = data_file 1007 101"
    "hf_task_id a = 1001" "hf_task_id b = 1004" "hf_task_id c = 1007"
proof -
  let ?g = "\<lambda>e. (hf_filepath e, hf_task_id e, hf_model_id e)"
  have "map ?g (filter (\<lambda>e. hf_model_id e = 101) es) = filter (\<lambda>x. snd (snd x) = 101) example_summaries"
    by (simp add: assms [symmetric] filter_map comp_def)
  then obtain a b c where abc: "filter (\<lambda>e. hf_model_id e = 101) es = [a, b, c]" "?g a = (data_file 1001 101, 1001, 101)"
      "?g b = (data_file 1004 101, 1004, 101)" "?g c = (data_file 1007 101, 1007, 101)"
    unfolding summaries_101 by (auto simp: map_eq_Cons_conv)
  have "sint (x :: u32) = 101 \<longleftrightarrow> x = 101" for x
    using signed_word_eqI [of x 101] by auto
  then have "{r \<in> entry_row ` set es. fst (snd (snd r)) = 101} = entry_row ` set (filter (\<lambda>e. hf_model_id e = 101) es)" by auto
  with abc that show thesis by simp
qed

lemma hdf5_multiple_prints:
  assumes "libs_work sq rows lib view" "open_example_index sq env = Some i" "index_env_works env dirs"
    and other: "\<forall>r \<in> rows (hi_db i). fst (snd (snd r)) \<noteq> 101"
  obtains report db h' where "example_hdf5_multiple_tasks sq lib fl env stats0 dirs h = Some (Some report, Some db, data_dirs env dirs, h')"
    "length (ir_tasks report) = 3" "(\<lambda>(t, p, n). (t, p)) ` set (ir_tasks report) =
      {(1001, data_file 1001 101), (1004, data_file 1004 101), (1007, data_file 1007 101)}"
proof -
  have laws: "sql_laws sq rows" using assms(1) by (simp add: libs_work_def)
  have env: "\<forall>k. xh_strdup env k = (True, True)" "xh_malloc env 0" using assms(3) by (simp_all add: index_env_works_def)
  have "distinct (map (\<lambda>k. of_nat (1000 + k) :: u64) [0..<10])" by (simp add: upt_rec)
  from store_results_ok [OF assms(1) data_dirs_in [OF assms(3)] env(1) this] obtain j h' es where
    st: "store_results sq lib fl env [0..<10] (Some i) (data_dirs env dirs) h = Some (Some j, data_dirs env dirs, h')"
      "map (\<lambda>e. (hf_filepath e, hf_task_id e, hf_model_id e)) es = example_summaries"
      "rows (hi_db j) = entry_row ` set es \<union> {r \<in> rows (hi_db i). fst r \<notin> hf_filepath ` set es}"
    unfolding example_summaries_def by blast
  let ?q = "Some (zero_query\<lparr>hq_task_id := 0, hq_model_id := 101\<rparr>)"
  have q: "times_ok ?q" "query_conditions ?q = [Model_is 101]"
    by (simp_all add: times_ok_def zero_query_def query_conditions_def conditions_of_def)
  obtain a b c where abc: "{r \<in> entry_row ` set es. fst (snd (snd r)) = 101} = {entry_row a, entry_row b, entry_row c}"
    "hf_filepath a = data_file 1001 101" "hf_filepath b = data_file 1004 101" "hf_filepath c = data_file 1007 101"
    "hf_task_id a = 1001" "hf_task_id b = 1004" "hf_task_id c = 1007"
    by (rule rows_101 [OF st(2)])
  have m: "matching (query_conditions ?q) (rows (hi_db j)) = {entry_row a, entry_row b, entry_row c}"
    using other unfolding q(2) matching_def st(3) abc(1) [symmetric] by (auto simp: satisfies_model simp del: satisfies.simps)
  have dist: "entry_row a \<noteq> entry_row b" "entry_row a \<noteq> entry_row c" "entry_row b \<noteq> entry_row c"
    using abc(5-7) by (simp_all add: entry_row_def)
  obtain ys where ys: "hdf5_index_query sq (Some j) ?q True 100 True = Some (HDF5_OK, map entry_of_row ys)" "distinct ys"
      "set ys = {entry_row a, entry_row b, entry_row c}"
    by (rule query_rows_all [OF laws q(1), of 100 j, unfolded m]) (use dist in simp_all)
  have "length ys = 3" using distinct_card [OF ys(2)] dist by (simp add: ys(3))
  obtain stats where stats: "snd (hdf5_index_get_stats sq (Some j) (Some stats0)) = Some stats"
    by (cases "snd (hdf5_index_get_stats sq (Some j) (Some stats0))")
      (auto simp: hdf5_index_get_stats_def split: option.splits prod.splits)
  let ?line = "\<lambda>e. (hf_task_id e, hf_filepath e, hf_file_size e)"
  have "example_hdf5_multiple_tasks sq lib fl env stats0 dirs h = Some (Some \<lparr>ir_tasks = map ?line (map entry_of_row ys),
      ir_total_files = is_total_files stats, ir_total_size = is_total_size_bytes stats,
      ir_megabytes = real (unat (is_total_size_bytes stats)) / (1024.0 * 1024.0), ir_unique_models = is_unique_models stats\<rparr>,
      Some (hi_db j), data_dirs env dirs, h')"
    by (simp add: example_hdf5_multiple_tasks_def assms(2) env(2) st(1) ys(1) stats Let_def hdf5_index_close_def
        del: store_results.simps upt_Suc)
  moreover have "(\<lambda>(t, p, n). (t, p)) ` set (map ?line (map entry_of_row ys)) =
      {(1001, data_file 1001 101), (1004, data_file 1004 101), (1007, data_file 1007 101)}"
    by (simp add: ys(3) entry_row_def abc(2-7) data_file_kept)
  ultimately show thesis using that \<open>length ys = 3\<close> by (metis (no_types, lifting) index_report.select_convs(1) length_map)
qed

section \<open>Example 6\<close>

lemma parent_group_example [simp]: "parent_group ''/output/matrix'' = Some ''/output''" "parent_group ''/output/vector'' = Some ''/output''"
  by (simp_all add: parent_group_def)

lemma rd64_double_array: "k < length xs \<Longrightarrow> rd64 (8 * k) (double_array xs @ rest) = xs ! k"
proof (induction xs arbitrary: k)
  case (Cons x xs)
  show ?case
  proof (cases k)
    case 0
    then show ?thesis by (simp add: double_array_def rd_defs le_roundtrip)
  next
    case (Suc n)
    then have "rd64 (8 * k) (double_array (x # xs) @ rest) = rd64 (8 * n) (double_array xs @ rest)"
      by (simp add: double_array_def rd_defs)
    with Cons Suc show ?thesis by simp
  qed
qed simp

lemma example_lengths: "length (example_matrix fl) = 100" "length (example_vector fl) = 50"
  by (simp_all add: example_matrix_def example_vector_def length_concat comp_def sum_list_triv)

text \<open>The two arrays are written into the new file.\<close>

lemma custom_writes:
  fixes fl :: c_math
  defines "ma \<equiv> double_array (example_matrix fl)" and "ve \<equiv> double_array (example_vector fl)"
  assumes laws: "hdf5_laws lib view" and v2: "view h2 p = Some (add_group ''/output'' (add_group ''/input'' new_file))"
  obtains h3 h4 f where
    "hdf5_write_dataset lib True (Some p) (Some ''/output/matrix'') (Some ma) 2 (Some [10, 10]) 8 h2 = Some (HDF5_OK, h3)"
    "hdf5_write_dataset lib True (Some p) (Some ''/output/vector'') (Some ve) 1 (Some [50]) 8 h3 = Some (HDF5_OK, h4)"
    "view h4 = (view h2)(p \<mapsto> f)" "f_datasets f ''/output/matrix'' = Some (H5T_NATIVE_DOUBLE, [10, 10], ma)"
    "f_datasets f ''/output/vector'' = Some (H5T_NATIVE_DOUBLE, [50], ve)"
proof -
  let ?f = "add_group ''/output'' (add_group ''/input'' new_file)"
  have two: "of_nat (length [10, 10 :: size_t]) = (2 :: size_t)" "of_nat (length [50 :: size_t]) = (1 :: size_t)" by simp_all
  have bytes: "space_bytes H5T_NATIVE_DOUBLE [10, 10] = length ma" "space_bytes H5T_NATIVE_DOUBLE [50] = length ve"
    by (simp_all add: space_bytes_def example_lengths ma_def ve_def)
  let ?g = "set_dataset ''/output/matrix'' (H5T_NATIVE_DOUBLE, [10, 10], ma) ?f"
  have "\<exists>h'. hdf5_write_dataset lib True (Some p) (Some ''/output/matrix'') (Some ma) (of_nat (length [10, 10 :: size_t])) (Some [10, 10]) 8 h2 =
      Some (HDF5_OK, h') \<and> view h' = (view h2)(p \<mapsto> set_dataset ''/output/matrix''
        (H5T_NATIVE_DOUBLE, [10, 10], take (space_bytes H5T_NATIVE_DOUBLE [10, 10]) ma) ?f)"
    by (rule write_dataset_view [OF laws v2 parent_group_example(1), where n = "''matrix''"])
      (simp_all add: bytes add_group_def new_file_def)
  then obtain h3 where h3: "hdf5_write_dataset lib True (Some p) (Some ''/output/matrix'') (Some ma) 2 (Some [10, 10]) 8 h2 = Some (HDF5_OK, h3)"
      "view h3 = (view h2)(p \<mapsto> ?g)" unfolding two bytes take_all [OF order.refl] by blast
  have v3: "view h3 p = Some ?g" by (simp add: h3(2))
  have "\<exists>h'. hdf5_write_dataset lib True (Some p) (Some ''/output/vector'') (Some ve) (of_nat (length [50 :: size_t])) (Some [50]) 8 h3 =
      Some (HDF5_OK, h') \<and> view h' = (view h3)(p \<mapsto> set_dataset ''/output/vector''
        (H5T_NATIVE_DOUBLE, [50], take (space_bytes H5T_NATIVE_DOUBLE [50]) ve) ?g)"
    by (rule write_dataset_view [OF laws v3 parent_group_example(2), where n = "''vector''"])
      (simp_all add: bytes add_group_def new_file_def set_dataset_def)
  then obtain h4 where h4: "hdf5_write_dataset lib True (Some p) (Some ''/output/vector'') (Some ve) 1 (Some [50]) 8 h3 = Some (HDF5_OK, h4)"
      "view h4 = (view h3)(p \<mapsto> set_dataset ''/output/vector'' (H5T_NATIVE_DOUBLE, [50], ve) ?g)"
    unfolding two bytes take_all [OF order.refl] by blast
  show thesis
    by (rule that [OF h3(1) h4(1), of "set_dataset ''/output/vector'' (H5T_NATIVE_DOUBLE, [50], ve) ?g"])
      (simp_all add: h4(2) h3(2), simp_all add: set_dataset_def)
qed

lemma vector_read_back:
  assumes "hdf5_laws lib view" "view h p = Some f" "f_datasets f ''/output/vector'' = Some (H5T_NATIVE_DOUBLE, [50], double_array (example_vector fl))"
  shows "hdf5_read_dataset lib (Some p) (Some ''/output/vector'') (Some 400) 50 True h = Some (HDF5_OK, Some 50, double_array (example_vector fl))"
proof -
  have "stored 400 (double_array (example_vector fl)) = (H5T_NATIVE_DOUBLE, [50], double_array (example_vector fl))"
    by (simp add: stored_def doubles_def example_lengths)
  with assms(3) have "f_datasets f ''/output/vector'' = Some (stored 400 (double_array (example_vector fl)))" by simp
  from read_stored [OF assms(1,2) this, of 400 50] show ?thesis by (simp add: doubles_def example_lengths)
qed

lemma vector_values:
  "map (\<lambda>k. rd64 (8 * k) (double_array (example_vector fl) @ rest)) [0..<4] = map (\<lambda>k. fl_sqrt fl (fl_of fl (real k))) [0..<4]"
  using rd64_double_array [of _ "example_vector fl"] by (intro map_cong) (simp_all add: example_lengths, simp add: example_vector_def)

lemma hdf5_custom_prints:
  assumes "libs_work sq rows lib view" "open_example_index sq env = Some i" "index_env_works env dirs"
  obtains db h' f where "example_hdf5_custom_datasets sq lib fl env path0 vector0 elements0 dirs h =
      Some (Some \<lparr>dr_path = data_file 99999 200, dr_elements = 50, dr_values = map (\<lambda>k. fl_sqrt fl (fl_of fl (real k))) [0..<4]\<rparr>,
        Some db, data_dirs env dirs, h')"
    "view h' = (view h)(data_file 99999 200 \<mapsto> f)"
    "f_datasets f ''/output/matrix'' = Some (H5T_NATIVE_DOUBLE, [10, 10], double_array (example_matrix fl))"
    "f_datasets f ''/output/vector'' = Some (H5T_NATIVE_DOUBLE, [50], double_array (example_vector fl))"
proof -
  let ?p = "data_file 99999 200"
  have laws: "hdf5_laws lib view" using assms(1) by (simp add: libs_work_def)
  have env: "xh_strdup env 0 = (True, True)" using assms(3) by (simp add: index_env_works_def)
  obtain h1 where create: "hl_create lib ?p h = (True, h1)"
    by (rule create_works [OF assms(1)])
  have dir: "DATA_DIR \<in> data_dirs env dirs \<or> xh_mkdir env 1" using data_dirs_in [OF assms(3)] by simp
  obtain idx' h2 where c: "hdf5_create_task_file sq lib (DATA_DIR \<in> data_dirs env dirs) (xh_mkdir env 1) (Some i) (Some DATA_DIR)
        99999 200 True 4096 h = Some (HDF5_OK, ?p, idx', h2)"
      "idx' = snd (hdf5_index_add_file sq lib h2 (Some i) (Some ?p) 99999 200)"
      "view h2 = (view h)(?p \<mapsto> add_group ''/output'' (add_group ''/input'' new_file))"
    using create_task_file_view [OF laws data_file_short create dir, of sq "Some i"] unfolding option.case by blast
  have v2: "view h2 ?p = Some (add_group ''/output'' (add_group ''/input'' new_file))" by (simp add: c(3))
  obtain j where j: "idx' = Some j"
    by (rule add_file_works [OF assms(1) v2, of i 99999 200]) (use c(2) in auto)
  obtain h3 h4 f where w:
    "hdf5_write_dataset lib True (Some ?p) (Some ''/output/matrix'') (Some (double_array (example_matrix fl))) 2 (Some [10, 10]) 8 h2 = Some (HDF5_OK, h3)"
    "hdf5_write_dataset lib True (Some ?p) (Some ''/output/vector'') (Some (double_array (example_vector fl))) 1 (Some [50]) 8 h3 = Some (HDF5_OK, h4)"
    "view h4 = (view h2)(?p \<mapsto> f)" "f_datasets f ''/output/matrix'' = Some (H5T_NATIVE_DOUBLE, [10, 10], double_array (example_matrix fl))"
    "f_datasets f ''/output/vector'' = Some (H5T_NATIVE_DOUBLE, [50], double_array (example_vector fl))"
    by (rule custom_writes [OF laws v2, of fl])
  have v4: "view h4 ?p = Some f" by (simp add: w(3))
  have p: "?p \<noteq> []" by (simp add: task_file_name_def)
  have dirs: "ensure_directory (xh_mkdir env 1) DATA_DIR (data_dirs env dirs) = data_dirs env dirs"
    using data_dirs_in [OF assms(3)] by (simp add: ensure_directory_def)
  have "example_hdf5_custom_datasets sq lib fl env path0 vector0 elements0 dirs h =
      Some (Some \<lparr>dr_path = ?p, dr_elements = 50, dr_values = map (\<lambda>k. fl_sqrt fl (fl_of fl (real k))) [0..<4]\<rparr>,
        Some (hi_db j), data_dirs env dirs, h4)"
    by (simp add: example_hdf5_custom_datasets_def Let_def assms(2) c(1) p env w(1,2) vector_read_back [OF laws v4 w(5)] vector_values dirs j
        hdf5_index_close_def del: upt_Suc One_nat_def length_double_array)
  moreover have "view h4 = (view h)(?p \<mapsto> f)" by (simp add: w(3) c(3))
  ultimately show thesis using w(4,5) by (rule that)
qed

end
