(* ===== verification/Example_Storage_Theorems.thy ===== *)
theory Example_Storage_Theorems
  imports Example_Hdf5_Props Storage_Theorems
begin

text \<open>What \<open>storage_example.c\<close> does as a whole.\<close>

definition locals_fit :: "example_locals \<Rightarrow> bool" where
  "locals_fit lo \<longleftrightarrow> length (lo_name lo) = 256 \<and> length (lo_author lo) = 256 \<and> length (lo_description lo) = 1024 \<and>
     length (lo_model lo) = 256 \<and> length (lo_config lo) = 4096"

lemma index_env_works_mono: "index_env_works env {DATA_DIR} \<Longrightarrow> DATA_DIR \<in> dirs \<Longrightarrow> index_env_works env dirs"
  by (simp add: index_env_works_def)

lemma ensure_present: "path \<in> dirs \<Longrightarrow> ensure_directory ok path dirs = dirs"
  by (simp add: ensure_directory_def)

text \<open>
  (C40) On a working disk and with libraries that keep their promises the storage example runs to its end
  and exits with 0.  It prints the strings and numbers that it stored, the number of tasks and the
  version among them; its query for the task entries, which asks for type -1, finds none; it prints
  description, model and configuration of the experiment as given; it finds the file of task 12345
  with model 100 and reports no datasets; of the ten files it finds exactly the three of model 101; and
  it reads back the square roots that it wrote.
\<close>

theorem storage_example_runs:
  assumes "\<forall>k \<in> {1, 2, 3}. env_works (ms k) \<and> (\<forall>n. fresh_malloc (card (dom m) + length names) (xs_files (ms k) n))"
    and "xs_readdir (ms 2) = Some names" "files_ok fs" "locals_fit lo" "snd mk \<or> DATA_DIR \<in> dirs"
    and "\<forall>k \<in> {4, 5, 6}. libs_work (sq k) rows lib view \<and> open_example_index (sq k) (xs k) = Some (i k) \<and> index_env_works (xs k) {DATA_DIR}"
    and "\<forall>r \<in> rows (hi_db (i 4)). fst (snd r) \<noteq> 12345" "\<forall>r \<in> rows (hi_db (i 5)). fst (snd (snd r)) \<noteq> 101"
  shows "\<exists>size report. storage_example_main True mk ms sq lib fl xs lo m fs dirs h = Some (0, Some (
      (Some \<lparr>pi_name = ''Harmonic Oscillator Study'', pi_author = ''Research Team'', pi_count = 100, pi_version = double_one\<rparr>,
       Some (0, []),
       Some \<lparr>ei_description = ''Parameter sweep for damped harmonic oscillator'', ei_model = ''harmonic_oscillator'', ei_config = config_json\<rparr>),
      Some \<lparr>fr_stored = True, fr_entry = Some (task_file_name DATA_DIR 12345 100, size, 100, 0)\<rparr>,
      Some report,
      Some \<lparr>dr_path = task_file_name DATA_DIR 99999 200, dr_elements = 50, dr_values = map (\<lambda>k. fl_sqrt fl (fl_of fl (real k))) [0..<4]\<rparr>)) \<and>
    length (ir_tasks report) = 3 \<and> (\<lambda>(t, p, n). (t, p)) ` set (ir_tasks report) =
      {(1001, task_file_name DATA_DIR 1001 101), (1004, task_file_name DATA_DIR 1004 101), (1007, task_file_name DATA_DIR 1007 101)}"
proof -
  have works: "env_works (ms 1)" "env_works (ms 2)" "env_works (ms 3)" using assms(1) by simp_all
  have "fresh_malloc (card (dom m)) (xs_files (ms k) n)" if "k \<in> {1, 3}" for k n
    using assms(1) that fresh_malloc_mono [of "card (dom m) + length names" _ "card (dom m)"] by auto
  then have fresh: "\<forall>n. fresh_malloc (card (dom m)) (xs_files (ms 1) n)" "\<forall>n. fresh_malloc (card (dom m)) (xs_files (ms 3) n)" by simp_all
  have fresh2: "fresh_malloc (card (dom m) + length names) (xs_files (ms 2) 30)" using assms(1) by simp
  have lo: "length (lo_name lo) = 256" "length (lo_author lo) = 256" "length (lo_description lo) = 1024" "length (lo_model lo) = 256" "length (lo_config lo) = 4096"
    using assms(4) by (simp_all add: locals_fit_def)
  obtain fs1 where e1: "example_metadata_basic (ms 1) (lo_name lo) (lo_author lo) (lo_count lo) (lo_version lo) m fs =
      Some (Some \<lparr>pi_name = ''Harmonic Oscillator Study'', pi_author = ''Research Team'', pi_count = 100, pi_version = double_one\<rparr>, m, fs1)"
    "files_ok fs1" using basic_prints [OF works(1) fresh(1) lo(1,2)] assms(3) by blast
  obtain fs2 where e2: "example_metadata_tasks (ms 2) m fs1 = Some (Some (0, []), m, fs2)"
    by (rule tasks_print_nothing [OF works(2) assms(2) fresh2 e1(2)])
  obtain fs3 where e3: "example_metadata_experiment (ms 3) (lo_description lo) (lo_model lo) (lo_config lo) m fs2 =
      Some (Some \<lparr>ei_description = sweep_text, ei_model = ''harmonic_oscillator'', ei_config = config_json\<rparr>, m, fs3)"
    by (rule experiment_prints [OF works(3) fresh(2) lo(3-5)])
  let ?d = "ensure_directory (snd mk) DATA_DIR (ensure_directory (fst mk) ''./example_metadata'' dirs)"
  have d: "DATA_DIR \<in> ?d" using assms(5) by (auto simp: ensure_directory_def)
  have libs: "libs_work (sq k) rows lib view" "open_example_index (sq k) (xs k) = Some (i k)" "index_env_works (xs k) ?d" if "k \<in> {4, 5, 6}" for k
    using assms(6) that index_env_works_mono [OF _ d] by auto
  obtain size db4 h4 where e4: "example_hdf5_basic (sq 4) lib fl (xs 4) ?d h =
      Some (Some \<lparr>fr_stored = True, fr_entry = Some (data_file 12345 100, size, 100, 0)\<rparr>, Some db4, ?d, h4)"
    by (rule hdf5_basic_prints [OF libs, of 4, where fl = fl and h = h]) (use assms(7) in \<open>simp_all add: ensure_present [OF d]\<close>)
  obtain report db5 h5 where e5: "example_hdf5_multiple_tasks (sq 5) lib fl (xs 5) (lo_stats lo) ?d h4 = Some (Some report, Some db5, ?d, h5)"
    "length (ir_tasks report) = 3" "(\<lambda>(t, p, n). (t, p)) ` set (ir_tasks report) =
      {(1001, data_file 1001 101), (1004, data_file 1004 101), (1007, data_file 1007 101)}"
    by (rule hdf5_multiple_prints [OF libs, of 5, where fl = fl and h = h4 and ?stats0.0 = "lo_stats lo"]) (use assms(8) in \<open>simp_all add: ensure_present [OF d]\<close>)
  obtain db6 h6 where e6: "example_hdf5_custom_datasets (sq 6) lib fl (xs 6) (lo_path lo) (lo_vector lo) (lo_elements lo) ?d h5 =
      Some (Some \<lparr>dr_path = data_file 99999 200, dr_elements = 50, dr_values = map (\<lambda>k. fl_sqrt fl (fl_of fl (real k))) [0..<4]\<rparr>, Some db6, ?d, h6)"
    by (rule hdf5_custom_prints [OF libs, of 6, where fl = fl and h = h5 and ?path0.0 = "lo_path lo" and ?vector0.0 = "lo_vector lo" and ?elements0.0 = "lo_elements lo"])
      (simp_all add: ensure_present [OF d])
  show ?thesis
    by (intro exI [of _ size] exI [of _ report] conjI e5(2,3)) (simp add: storage_example_main_def Let_def e1(1) e2 e3 e4 e5(1) e6 del: upt_Suc One_nat_def)
qed

definition demo_store_env :: store_env where
  "demo_store_env = \<lparr>xs_stat = None, xs_mkdir = True, xs_calloc = True, xs_files = \<lambda>_. demo_files_env, xs_clock = of_nat, xs_readdir = Some []\<rparr>"

definition demo_index_env :: index_env where
  "demo_index_env = \<lparr>xh_exists = False, xh_calloc = True, xh_mkdir = \<lambda>_. True, xh_strdup = \<lambda>_. (True, True), xh_malloc = \<lambda>_. True\<rparr>"

definition demo_math :: c_math where
  "demo_math = \<lparr>fl_of = \<lambda>x. of_int \<lfloor>x\<rfloor>, fl_mul = (*), fl_add = (+), fl_sin = \<lambda>x. x, fl_sqrt = \<lambda>x. x + 1\<rparr>"

definition demo_locals :: example_locals where
  "demo_locals = \<lparr>lo_name = replicate 256 (CHR ''x''), lo_author = replicate 256 (CHR ''x''), lo_count = 0, lo_version = 0,
     lo_description = replicate 1024 (CHR ''x''), lo_model = replicate 256 (CHR ''x''), lo_config = replicate 4096 (CHR ''x''),
     lo_stats = zero_index_stats, lo_path = [], lo_vector = replicate 400 0, lo_elements = 0\<rparr>"

lemma list_libs_work: "libs_work list_sqlite (\<lambda>db. set (filter row_ok db)) map_lib (\<lambda>h. h)"
proof -
  have "fst (sq_write list_sqlite insert_file_sql (row_values r) db) = Step_done" if "row_ok r" for r db
    using that by (cases r) (simp add: list_sqlite_def list_write_def)
  moreover have "int64 time" if "hl_open map_lib p h = Some (Some (size, time), dopen)" for p h size time dopen
    using that by (auto simp: map_lib_def int64_def)
  moreover have "fst (hl_create map_lib p h)" for p h by (simp add: map_lib_def)
  ultimately show ?thesis unfolding libs_work_def using list_sqlite_laws map_lib_laws by blast
qed

lemma demo_index_opens: "open_example_index list_sqlite demo_index_env = Some \<lparr>hi_index_path = ''./example_data/index.db'', hi_db = []\<rparr>"
  by (simp add: open_example_index_def hdf5_index_open_def create_schema_def list_sqlite_def demo_index_env_def schema_sql_def
      HDF5_MAX_PATH_LEN_def)

theorem storage_example_runs_witness:
  "\<exists>size report. storage_example_main True (True, True) (\<lambda>_. demo_store_env) (\<lambda>_. list_sqlite) map_lib demo_math (\<lambda>_. demo_index_env)
      demo_locals Map.empty Map.empty {} Map.empty = Some (0, Some (
      (Some \<lparr>pi_name = ''Harmonic Oscillator Study'', pi_author = ''Research Team'', pi_count = 100, pi_version = double_one\<rparr>,
       Some (0, []),
       Some \<lparr>ei_description = ''Parameter sweep for damped harmonic oscillator'', ei_model = ''harmonic_oscillator'', ei_config = config_json\<rparr>),
      Some \<lparr>fr_stored = True, fr_entry = Some (task_file_name DATA_DIR 12345 100, size, 100, 0)\<rparr>,
      Some report,
      Some \<lparr>dr_path = task_file_name DATA_DIR 99999 200, dr_elements = 50, dr_values = [1, 2, 3, 4]\<rparr>)) \<and>
    length (ir_tasks report) = 3"
proof -
  let ?i = "\<lambda>_ :: nat. \<lparr>hi_index_path = ''./example_data/index.db'', hi_db = []\<rparr> :: file_row list hdf5_index"
  have vals: "map (\<lambda>k. fl_sqrt demo_math (fl_of demo_math (real k))) [0..<4] = [1, 2, 3, 4]"
    by (simp add: demo_math_def upt_rec)
  have env: "env_works demo_store_env" "\<forall>n. fresh_malloc (card (dom (Map.empty :: mem)) + length []) (xs_files demo_store_env n)"
    using demo_store_facts(2) demo_store_facts(3) [of 0] by (simp_all add: env_works_def demo_store_env_def)
  have "\<exists>size report. storage_example_main True (True, True) (\<lambda>_. demo_store_env) (\<lambda>_. list_sqlite) map_lib demo_math (\<lambda>_. demo_index_env)
      demo_locals Map.empty Map.empty {} Map.empty = Some (0, Some (
      (Some \<lparr>pi_name = ''Harmonic Oscillator Study'', pi_author = ''Research Team'', pi_count = 100, pi_version = double_one\<rparr>,
       Some (0, []),
       Some \<lparr>ei_description = ''Parameter sweep for damped harmonic oscillator'', ei_model = ''harmonic_oscillator'', ei_config = config_json\<rparr>),
      Some \<lparr>fr_stored = True, fr_entry = Some (task_file_name DATA_DIR 12345 100, size, 100, 0)\<rparr>,
      Some report,
      Some \<lparr>dr_path = task_file_name DATA_DIR 99999 200, dr_elements = 50,
        dr_values = map (\<lambda>k. fl_sqrt demo_math (fl_of demo_math (real k))) [0..<4]\<rparr>)) \<and>
    length (ir_tasks report) = 3 \<and> (\<lambda>(t, p, n). (t, p)) ` set (ir_tasks report) =
      {(1001, task_file_name DATA_DIR 1001 101), (1004, task_file_name DATA_DIR 1004 101), (1007, task_file_name DATA_DIR 1007 101)}"
  proof (rule storage_example_runs [where names = "[]" and i = ?i and rows = "\<lambda>db. set (filter row_ok db)" and view = "\<lambda>h. h"])
    show "\<forall>k \<in> {1, 2, 3 :: nat}. env_works demo_store_env \<and>
      (\<forall>n. fresh_malloc (card (dom (Map.empty :: mem)) + length []) (xs_files demo_store_env n))" using env by blast
    show "\<forall>k \<in> {4, 5, 6 :: nat}. libs_work list_sqlite (\<lambda>db. set (filter row_ok db)) map_lib (\<lambda>h. h) \<and>
      open_example_index list_sqlite demo_index_env = Some (?i k) \<and> index_env_works demo_index_env {DATA_DIR}"
      using list_libs_work demo_index_opens by (simp add: index_env_works_def demo_index_env_def)
  qed (simp_all add: demo_store_env_def files_ok_def locals_fit_def demo_locals_def)
  then show ?thesis unfolding vals by blast
qed

end
