(* ===== verification/Mpi_Cluster.thy ===== *)
theory Mpi_Cluster
  imports Worker_Props
begin

text \<open>
  The MPI cluster behind a worker (\<open>src/worker/main.c\<close>): the head, which runs the main loop on rank 0,
  and the other ranks, which run \<open>run_mpi_worker\<close>, as interleaved steps.  MPI keeps the order of
  the messages between two ranks and delivers each once; it may deliver the messages of
  different ranks in any order and at any time.
\<close>

section \<open>The cluster\<close>

text \<open>
  The head, the results that each rank has sent, those of them that the head has not received yet, and
  the results the head has received, with their senders.
\<close>

record 'i mpi_cluster =
  cl_head :: "'i worker"
  cl_sent :: "c_int \<Rightarrow> task_result_t list"
  cl_back :: "c_int \<Rightarrow> task_result_t list"
  cl_collected :: "(c_int \<times> task_result_t) list"

definition tasks_for :: "c_int \<Rightarrow> 'i mpi_cluster \<Rightarrow> task_t list" where
  "tasks_for r s = map snd (filter (\<lambda>x. fst x = r) (wk_distributed (cl_head s)))"

definition waiting :: "c_int \<Rightarrow> 'i mpi_cluster \<Rightarrow> task_t list" where
  "waiting r s = drop (length (cl_sent s r)) (tasks_for r s)"

definition collected_from :: "c_int \<Rightarrow> 'i mpi_cluster \<Rightarrow> task_result_t list" where
  "collected_from r s = map snd (filter (\<lambda>x. fst x = r) (cl_collected s))"

text \<open>The messages that \<open>MPI_Iprobe\<close> and \<open>MPI_Recv\<close> with any source deliver one after the other.\<close>

inductive delivers ::
    "(c_int \<Rightarrow> task_result_t list) \<Rightarrow> (c_int \<times> task_result_t) list \<Rightarrow> (c_int \<Rightarrow> task_result_t list) \<Rightarrow> bool" where
  no_more: "delivers pend [] pend"
| one_more: "pend r = x # xs \<Longrightarrow> delivers (pend(r := xs)) rs pend' \<Longrightarrow> delivers pend ((r, x) # rs) pend'"

text \<open>A pass of the head up to the point where it collects results.\<close>

definition head_front :: "worker_env \<Rightarrow> 'i worker \<Rightarrow> ('i worker \<times> bool) option" where
  "head_front ve w = do {
     w1 \<leftarrow> worker_heartbeat ve w;
     w2 \<leftarrow> worker_receive ve w1;
     worker_process ve w2
   }"

lemma worker_pass_front:
  "worker_pass ve w = do { (w', goes_on) \<leftarrow> head_front ve w; if goes_on then worker_finish ve w' else Some w' }"
  by (cases "worker_heartbeat ve w") (auto simp: worker_pass_def head_front_def split: bind_splits)

inductive cluster_step :: "'i mpi_cluster \<Rightarrow> 'i mpi_cluster \<Rightarrow> bool" where
  rank_executes: "waiting r s = t # ts \<Longrightarrow> result = mpi_rank_execute r start end_t t \<Longrightarrow>
    cluster_step s (s\<lparr>cl_sent := (cl_sent s)(r := cl_sent s r @ [result]), cl_back := (cl_back s)(r := cl_back s r @ [result])\<rparr>)"
| head_continues: "head_front ve (cl_head s) = Some (w, False) \<Longrightarrow> cluster_step s (s\<lparr>cl_head := w\<rparr>)"
| head_collects: "head_front ve (cl_head s) = Some (w, True) \<Longrightarrow> delivers (cl_back s) rs pend \<Longrightarrow>
    map snd rs = ve_results ve \<Longrightarrow> worker_finish ve w = Some w' \<Longrightarrow>
    cluster_step s (s\<lparr>cl_head := w', cl_back := pend, cl_collected := cl_collected s @ rs\<rparr>)"

definition cluster_init :: "'i mpi_cluster \<Rightarrow> bool" where
  "cluster_init s \<longleftrightarrow> wk_mode (cl_head s) = WORKER_MODE_CLUSTER_HEAD \<and> 1 < wk_mpi_size (cl_head s) \<and>
     wk_distributed (cl_head s) = [] \<and> wk_next_worker (cl_head s) = 1 \<and>
     cl_sent s = (\<lambda>_. []) \<and> cl_back s = (\<lambda>_. []) \<and> cl_collected s = []"

section \<open>What the head does\<close>

lemma receive_frame:
  "worker_receive ve w = Some w' \<Longrightarrow> wk_mode w' = wk_mode w \<and> wk_mpi_size w' = wk_mpi_size w \<and>
     wk_distributed w' = wk_distributed w \<and> wk_next_worker w' = wk_next_worker w"
  by (auto simp: worker_receive_def Let_def split: bind_splits option.splits if_splits)

lemma heartbeat_frame:
  "worker_heartbeat ve w = Some w' \<Longrightarrow> wk_mode w' = wk_mode w \<and> wk_mpi_size w' = wk_mpi_size w \<and>
     wk_distributed w' = wk_distributed w \<and> wk_next_worker w' = wk_next_worker w"
  by (auto simp: worker_heartbeat_def split: bind_splits if_splits)

lemma finish_frame:
  "worker_finish ve w = Some w' \<Longrightarrow> wk_mode w' = wk_mode w \<and> wk_mpi_size w' = wk_mpi_size w \<and>
     wk_distributed w' = wk_distributed w \<and> wk_next_worker w' = wk_next_worker w"
  by (auto simp: worker_finish_def split: bind_splits if_splits)

lemma process_distributes:
  assumes "worker_process ve w = Some (w', g)" "wk_mode w = WORKER_MODE_CLUSTER_HEAD"
  shows "wk_mode w' = wk_mode w \<and> wk_mpi_size w' = wk_mpi_size w \<and>
    (wk_distributed w' = wk_distributed w \<and> wk_next_worker w' = wk_next_worker w \<or>
     (\<exists>t. wk_distributed w' = wk_distributed w @ [(wk_next_worker w, t)] \<and>
        wk_next_worker w' = c_mod (wk_next_worker w) (wk_mpi_size w - 1) + 1))"
  using assms by (auto simp: worker_process_def Let_def split: bind_splits if_splits prod.splits)

lemma front_distributes:
  assumes "head_front ve w = Some (w', g)" "wk_mode w = WORKER_MODE_CLUSTER_HEAD"
  shows "wk_mode w' = wk_mode w \<and> wk_mpi_size w' = wk_mpi_size w \<and>
    (wk_distributed w' = wk_distributed w \<and> wk_next_worker w' = wk_next_worker w \<or>
     (\<exists>t. wk_distributed w' = wk_distributed w @ [(wk_next_worker w, t)] \<and>
        wk_next_worker w' = c_mod (wk_next_worker w) (wk_mpi_size w - 1) + 1))"
proof -
  from assms(1) obtain w1 w2 where "worker_heartbeat ve w = Some w1" "worker_receive ve w1 = Some w2"
      "worker_process ve w2 = Some (w', g)"
    by (auto simp: head_front_def split: bind_splits)
  with heartbeat_frame [of ve w w1] receive_frame [of ve w1 w2] process_distributes [of ve w2 w' g] assms(2) show ?thesis by metis
qed

section \<open>The invariant\<close>

text \<open>The rank of the \<open>k\<close>-th task, counted from 0, in a cluster of \<open>n\<close> ranks.\<close>

definition rank_of_task :: "c_int \<Rightarrow> nat \<Rightarrow> c_int" where
  "rank_of_task n k = int k mod (n - 1) + 1"

lemma next_rank_of_task:
  assumes "1 < n"
  shows "c_mod (rank_of_task n k) (n - 1) + 1 = rank_of_task n (Suc k)"
proof -
  have "0 \<le> int k mod (n - 1)" using assms by simp
  then have "c_mod (rank_of_task n k) (n - 1) = (int k mod (n - 1) + 1) mod (n - 1)"
    using assms by (simp add: rank_of_task_def c_mod_mod)
  also have "\<dots> = int (Suc k) mod (n - 1)" by (simp add: mod_simps add.commute)
  finally show ?thesis by (simp add: rank_of_task_def)
qed

definition cluster_inv :: "'i mpi_cluster \<Rightarrow> bool" where
  "cluster_inv s \<longleftrightarrow> wk_mode (cl_head s) = WORKER_MODE_CLUSTER_HEAD \<and> 1 < wk_mpi_size (cl_head s) \<and>
     map fst (wk_distributed (cl_head s)) = map (rank_of_task (wk_mpi_size (cl_head s))) [0..<length (wk_distributed (cl_head s))] \<and>
     wk_next_worker (cl_head s) = rank_of_task (wk_mpi_size (cl_head s)) (length (wk_distributed (cl_head s))) \<and>
     (\<forall>r. cl_sent s r = collected_from r s @ cl_back s r) \<and>
     (\<forall>r. map r_task_id (cl_sent s r) @ map t_task_id (waiting r s) = map t_task_id (tasks_for r s)) \<and>
     (\<forall>r. \<forall>x \<in> set (cl_sent s r). r_worker_id x = of_int r \<and> r_status x = 0)"

lemma cluster_invD:
  assumes "cluster_inv s"
  shows "cl_sent s r = collected_from r s @ cl_back s r"
    "map r_task_id (cl_sent s r) @ map t_task_id (waiting r s) = map t_task_id (tasks_for r s)"
    "x \<in> set (cl_sent s r) \<Longrightarrow> r_worker_id x = of_int r \<and> r_status x = 0"
  using assms unfolding cluster_inv_def by blast+

lemma delivers_conserves:
  "delivers pend rs pend' \<Longrightarrow> pend r = map snd (filter (\<lambda>x. fst x = r) rs) @ pend' r"
  by (induction rule: delivers.induct) (auto split: if_splits)

text \<open>Tasks that the head adds are behind those that a rank has.\<close>

lemma waiting_extends:
  assumes "map r_task_id (cl_sent s r) @ map t_task_id (waiting r s) = map t_task_id (tasks_for r s)"
    and "cl_sent s' = cl_sent s" "wk_distributed (cl_head s') = wk_distributed (cl_head s) @ new"
  shows "map r_task_id (cl_sent s' r) @ map t_task_id (waiting r s') = map t_task_id (tasks_for r s')"
proof -
  have "length (cl_sent s r) \<le> length (tasks_for r s)"
    using arg_cong [OF assms(1), of length] by simp
  then show ?thesis using assms by (simp add: waiting_def tasks_for_def)
qed

lemma head_step_inv:
  assumes inv: "cluster_inv s" and front: "head_front ve (cl_head s) = Some (w, g)"
    and w': "wk_mode w' = wk_mode w" "wk_mpi_size w' = wk_mpi_size w" "wk_distributed w' = wk_distributed w"
      "wk_next_worker w' = wk_next_worker w"
    and s': "cl_head s' = w'" "cl_sent s' = cl_sent s" "\<forall>r. cl_sent s r = collected_from r s' @ cl_back s' r"
  shows "cluster_inv s'"
proof -
  let ?n = "wk_mpi_size (cl_head s)" and ?d = "wk_distributed (cl_head s)"
  have n: "1 < ?n" "wk_mode (cl_head s) = WORKER_MODE_CLUSTER_HEAD" using inv by (simp_all add: cluster_inv_def)
  note f = front_distributes [OF front n(2)]
  obtain new where new: "wk_distributed w = ?d @ new"
      "new = [] \<and> wk_next_worker w = wk_next_worker (cl_head s) \<or>
       (\<exists>t. new = [(wk_next_worker (cl_head s), t)] \<and> wk_next_worker w = c_mod (wk_next_worker (cl_head s)) (?n - 1) + 1)"
    using f by auto
  have ranks: "map fst (wk_distributed w) = map (rank_of_task ?n) [0..<length (wk_distributed w)] \<and>
      wk_next_worker w = rank_of_task ?n (length (wk_distributed w))"
    using inv new next_rank_of_task [OF n(1)] by (auto simp: cluster_inv_def)
  have order: "map r_task_id (cl_sent s' r) @ map t_task_id (waiting r s') = map t_task_id (tasks_for r s')" for r
  proof (rule waiting_extends [OF _ s'(2)])
    show "map r_task_id (cl_sent s r) @ map t_task_id (waiting r s) = map t_task_id (tasks_for r s)"
      using inv by (rule cluster_invD)
  qed (use new(1) w' s'(1) in simp)
  have results: "\<forall>r. \<forall>x \<in> set (cl_sent s' r). r_worker_id x = of_int r \<and> r_status x = 0"
    using inv unfolding cluster_inv_def s'(2) by blast
  have "wk_mode w' = WORKER_MODE_CLUSTER_HEAD" "wk_mpi_size w' = ?n" using f n(2) w' by simp_all
  with n(1) ranks order results s'(3) show ?thesis
    unfolding cluster_inv_def s'(1) w'(3,4) s'(2) [symmetric] by simp
qed

lemma rank_step_inv:
  assumes inv: "cluster_inv s" and wait: "waiting r s = t # ts" and result: "result = mpi_rank_execute r start end_t t"
    and s': "cl_sent s' = (cl_sent s)(r := cl_sent s r @ [result])" "cl_back s' = (cl_back s)(r := cl_back s r @ [result])"
      "cl_head s' = cl_head s" "cl_collected s' = cl_collected s"
  shows "cluster_inv s'"
proof -
  have res: "r_task_id result = t_task_id t" "r_worker_id result = of_int r" "r_status result = 0"
    by (simp_all add: result mpi_rank_execute_def)
  have "waiting r s' = tl (waiting r s)"
    by (simp add: s' waiting_def tasks_for_def drop_Suc tl_drop)
  then have d: "waiting r s' = ts" "\<And>k. tasks_for k s' = tasks_for k s" "\<And>k. k \<noteq> r \<Longrightarrow> waiting k s' = waiting k s"
    unfolding wait by (simp_all add: s' waiting_def tasks_for_def)
  have "map r_task_id (cl_sent s' k) @ map t_task_id (waiting k s') = map t_task_id (tasks_for k s')" for k
  proof (cases "k = r")
    case True
    have "map r_task_id (cl_sent s r) @ map t_task_id (t # ts) = map t_task_id (tasks_for r s)"
      using cluster_invD(2) [OF inv, of r] unfolding wait .
    then show ?thesis by (simp add: True d s'(1) res)
  next
    case False
    then show ?thesis using cluster_invD(2) [OF inv, of k] by (simp add: d s'(1))
  qed
  moreover have "cl_sent s' k = collected_from k s' @ cl_back s' k" for k
    using cluster_invD(1) [OF inv] by (simp add: s' collected_from_def)
  moreover have "r_worker_id x = of_int k \<and> r_status x = 0" if "x \<in> set (cl_sent s' k)" for x k
    using that cluster_invD(3) [OF inv, of x k] res by (auto simp: s'(1) split: if_splits)
  ultimately show ?thesis
    using inv unfolding cluster_inv_def by (simp add: s'(3))
qed

interpretation mpi_cluster: inductive_invariant cluster_init cluster_step cluster_inv
proof
  fix s :: "'i mpi_cluster"
  assume "cluster_init s"
  then show "cluster_inv s"
    by (simp add: cluster_init_def cluster_inv_def collected_from_def waiting_def tasks_for_def rank_of_task_def)
next
  fix s s' :: "'i mpi_cluster"
  assume inv: "cluster_inv s" and "cluster_step s s'"
  from this(2) show "cluster_inv s'"
  proof cases
    case (rank_executes r t ts result start end_t)
    show ?thesis by (rule rank_step_inv [OF inv rank_executes(2,3)]) (simp_all add: rank_executes(1))
  next
    case (head_continues ve w)
    show ?thesis
      by (rule head_step_inv [OF inv head_continues(2), of w])
        (use cluster_invD(1) [OF inv] in \<open>simp_all add: head_continues(1) collected_from_def\<close>)
  next
    case (head_collects ve w rs left w')
    show ?thesis
      by (rule head_step_inv [OF inv head_collects(2), of w'])
        (use cluster_invD(1) [OF inv] finish_frame [OF head_collects(5)] delivers_conserves [OF head_collects(3)] in
          \<open>simp_all add: head_collects(1) collected_from_def\<close>)
  qed
qed

section \<open>Progress\<close>

lemma rank_finishes:
  "\<exists>s'. cluster_step\<^sup>*\<^sup>* s s' \<and> waiting r s' = [] \<and> cl_head s' = cl_head s \<and> (\<forall>k. k \<noteq> r \<longrightarrow> waiting k s' = waiting k s)"
proof (induction "waiting r s" arbitrary: s)
  case Nil
  then show ?case by (intro exI [of _ s]) auto
next
  case (Cons t ts)
  let ?x = "mpi_rank_execute r (0, 0) (0, 0) t"
  let ?s = "s\<lparr>cl_sent := (cl_sent s)(r := cl_sent s r @ [?x]), cl_back := (cl_back s)(r := cl_back s r @ [?x])\<rparr>"
  have step: "cluster_step s ?s" by (rule rank_executes [OF Cons.hyps(2) [symmetric] refl])
  have "waiting r ?s = tl (waiting r s)" by (simp add: waiting_def tasks_for_def drop_Suc tl_drop)
  then have "ts = waiting r ?s" unfolding Cons.hyps(2) [symmetric] by simp
  moreover have "waiting k ?s = waiting k s" if "k \<noteq> r" for k using that by (simp add: waiting_def tasks_for_def)
  moreover obtain s' where s': "cluster_step\<^sup>*\<^sup>* ?s s'" "waiting r s' = []" "cl_head s' = cl_head ?s"
      "\<forall>k. k \<noteq> r \<longrightarrow> waiting k s' = waiting k ?s"
    using Cons.hyps(1) [OF \<open>ts = waiting r ?s\<close>] by blast
  moreover have "cluster_step\<^sup>*\<^sup>* s s'" using step s'(1) by (rule converse_rtranclp_into_rtranclp)
  moreover have "cl_head ?s = cl_head s" by simp
  ultimately show ?case by (intro exI [of _ s']) metis
qed

lemma ranks_finish:
  "\<exists>s'. cluster_step\<^sup>*\<^sup>* s s' \<and> (\<forall>r. waiting r s' = []) \<and> cl_head s' = cl_head s"
proof -
  have "\<exists>s'. cluster_step\<^sup>*\<^sup>* s s' \<and> (\<forall>r \<in> set rs. waiting r s' = []) \<and> cl_head s' = cl_head s \<and>
      (\<forall>k. k \<notin> set rs \<longrightarrow> waiting k s' = waiting k s)" for rs
  proof (induction rs arbitrary: s)
    case Nil
    then show ?case by (intro exI [of _ s]) auto
  next
    case (Cons r rs)
    from rank_finishes [of s r] obtain s1 where s1: "cluster_step\<^sup>*\<^sup>* s s1" "waiting r s1 = []" "cl_head s1 = cl_head s"
      "\<forall>k. k \<noteq> r \<longrightarrow> waiting k s1 = waiting k s" by blast
    from Cons.IH [of s1] obtain s2 where s2: "cluster_step\<^sup>*\<^sup>* s1 s2" "\<forall>r \<in> set rs. waiting r s2 = []" "cl_head s2 = cl_head s1"
      "\<forall>k. k \<notin> set rs \<longrightarrow> waiting k s2 = waiting k s1" by blast
    show ?case using s1 s2 by (intro exI [of _ s2]) auto
  qed
  from this [of "map fst (wk_distributed (cl_head s))"] obtain s' where
    s': "cluster_step\<^sup>*\<^sup>* s s'" "\<forall>r \<in> fst ` set (wk_distributed (cl_head s)). waiting r s' = []" "cl_head s' = cl_head s" by auto
  have "waiting r s' = []" if "r \<notin> fst ` set (wk_distributed (cl_head s))" for r
  proof -
    have "filter (\<lambda>x. fst x = r) (wk_distributed (cl_head s)) = []" using that by (force simp: filter_empty_conv)
    then show ?thesis by (simp only: waiting_def tasks_for_def s'(3)) simp
  qed
  with s' show ?thesis by blast
qed

lemma cluster_reachable_steps:
  "cluster_step\<^sup>*\<^sup>* s s' \<Longrightarrow> reachable cluster_init cluster_step s \<Longrightarrow> reachable cluster_init cluster_step s'"
  by (induction rule: rtranclp_induct) (auto intro: reachable.next_state)

section \<open>The end of a rank\<close>

text \<open>
  What a rank sees when the head has sent the tag 999 behind the tasks that wait: its loop executes these
  and ends.
\<close>

definition shutdown_events :: "(task_t \<Rightarrow> timespec \<times> timespec) \<Rightarrow> task_t list \<Rightarrow> ((c_int \<times> task_t) option \<times> timespec \<times> timespec) list" where
  "shutdown_events clock ts = map (\<lambda>t. (Some (0, t), clock t)) ts @ [(Some (999, zero_task), (0, 0), (0, 0))]"

lemma rank_ends:
  "run_mpi_worker r (shutdown_events clock ts) = (map (\<lambda>t. mpi_rank_execute r (fst (clock t)) (snd (clock t)) t) ts, True)"
  unfolding shutdown_events_def
proof (induction ts)
  case (Cons t ts)
  then show ?case by (cases "clock t") simp
qed simp

end
