(* ===== verification/Mpi_Theorems.thy ===== *)
theory Mpi_Theorems
  imports Mpi_Cluster Cluster_Theorems
begin

text \<open>What is proved of the MPI cluster behind a worker.\<close>

text \<open>
  (C25) The head of a cluster and its ranks, in every interleaving of its passes with their work and of the
  deliveries of MPI: the head gives its tasks to the ranks in turn, and of the tasks given to a rank,
  in the order in which they were given, first those whose results the head has collected, then
  those whose results are on their way, then those that wait: none is lost, repeated or overtaken, and
  every result bears the number of its rank.  The ranks can always finish the tasks that wait, without
  the head; and a rank that finds the tag of the shutdown behind its tasks executes them all and ends.
\<close>

theorem mpi_cluster_outcome:
  assumes "reachable cluster_init cluster_step s"
  shows "(\<forall>r. map r_task_id (collected_from r s) @ map r_task_id (cl_back s r) @ map t_task_id (waiting r s) =
      map t_task_id (tasks_for r s)) \<and>
    map fst (wk_distributed (cl_head s)) =
      map (\<lambda>k. int k mod (wk_mpi_size (cl_head s) - 1) + 1) [0..<length (wk_distributed (cl_head s))] \<and>
    (\<forall>r. \<forall>x \<in> set (collected_from r s @ cl_back s r). r_worker_id x = of_int r \<and> r_status x = 0) \<and>
    (\<exists>s'. cluster_step\<^sup>*\<^sup>* s s' \<and> cl_head s' = cl_head s \<and> (\<forall>r. waiting r s' = [])) \<and>
    (\<forall>r clock. \<exists>sent. run_mpi_worker r (shutdown_events clock (waiting r s)) = (sent, True) \<and>
      map r_task_id sent = map t_task_id (waiting r s))"
proof (intro conjI allI ballI)
  have inv: "cluster_inv s" using assms by (rule mpi_cluster.inv_reachable)
  show "map r_task_id (collected_from r s) @ map r_task_id (cl_back s r) @ map t_task_id (waiting r s) =
      map t_task_id (tasks_for r s)" for r
    using cluster_invD(2) [OF inv, of r] unfolding cluster_invD(1) [OF inv] by simp
  show "map fst (wk_distributed (cl_head s)) =
      map (\<lambda>k. int k mod (wk_mpi_size (cl_head s) - 1) + 1) [0..<length (wk_distributed (cl_head s))]"
    using inv unfolding cluster_inv_def rank_of_task_def by blast
  show "r_worker_id x = of_int r" "r_status x = 0" if "x \<in> set (collected_from r s @ cl_back s r)" for r x
    using that cluster_invD(3) [OF inv, of x r] unfolding cluster_invD(1) [OF inv] by blast+
  show "\<exists>s'. cluster_step\<^sup>*\<^sup>* s s' \<and> cl_head s' = cl_head s \<and> (\<forall>r. waiting r s' = [])" using ranks_finish by blast
  show "\<exists>sent. run_mpi_worker r (shutdown_events clock (waiting r s)) = (sent, True) \<and>
      map r_task_id sent = map t_task_id (waiting r s)" for r clock
    by (simp add: rank_ends mpi_rank_execute_def)
qed

definition demo_head :: "zmq_transport worker" where
  "demo_head = demo_worker\<lparr>wk_mode := WORKER_MODE_CLUSTER_HEAD, wk_mpi_size := 3, wk_limits := Some demo_limits\<rparr>"

definition demo_cluster :: "zmq_transport mpi_cluster" where
  "demo_cluster = \<lparr>cl_head = demo_head, cl_sent = \<lambda>_. [], cl_back = \<lambda>_. [], cl_collected = []\<rparr>"

lemma demo_head_front:
  "\<exists>w. head_front demo_worker_env demo_head = Some (w, False) \<and> wk_distributed w = [(1, demo_task 1 0)]"
proof -
  have beat: "worker_heartbeat demo_worker_env demo_head = Some demo_head"
    by (simp add: worker_heartbeat_def demo_worker_env_def demo_head_def demo_worker_def)
  have recv: "worker_receive demo_worker_env demo_head = Some demo_head"
    by (simp add: worker_receive_def demo_head_def demo_worker_def demo_quiet)
  obtain q where q: "heap_deq demo_queue_1 = Some (0, q, demo_task 1 0)"
    using dequeue_ok [OF demo_queue_1_facts(2,3), of zero_task] by (auto simp: heap_deq_def simp del: task_queue_dequeue.simps)
  have "\<exists>w. worker_process demo_worker_env demo_head = Some (w, False) \<and> wk_distributed w = [(1, demo_task 1 0)]"
    using q demo_limits_facts
    by (simp add: worker_process_def demo_head_def demo_worker_def Let_def)
  with beat recv show ?thesis by (simp add: head_front_def)
qed

theorem mpi_cluster_outcome_witness:
  "\<exists>s :: zmq_transport mpi_cluster. reachable cluster_init cluster_step s \<and> wk_distributed (cl_head s) = [(1, demo_task 1 0)] \<and>
     map r_task_id (cl_back s 1) = [t_task_id (demo_task 1 0)] \<and> waiting 1 s = []"
proof -
  have "cluster_init demo_cluster" by (simp add: cluster_init_def demo_cluster_def demo_head_def demo_worker_def)
  then have r0: "reachable cluster_init cluster_step demo_cluster" by (rule reachable.start)
  obtain w where w: "head_front demo_worker_env demo_head = Some (w, False)" "wk_distributed w = [(1, demo_task 1 0)]"
    using demo_head_front by blast
  let ?s = "demo_cluster\<lparr>cl_head := w\<rparr>"
  have "cluster_step demo_cluster ?s" by (rule head_continues [of demo_worker_env]) (simp add: demo_cluster_def w(1))
  with r0 have r1: "reachable cluster_init cluster_step ?s" by (rule reachable.next_state)
  let ?x = "mpi_rank_execute 1 (0, 0) (0, 5000) (demo_task 1 0)"
  let ?t = "?s\<lparr>cl_sent := (cl_sent ?s)(1 := cl_sent ?s 1 @ [?x]), cl_back := (cl_back ?s)(1 := cl_back ?s 1 @ [?x])\<rparr>"
  have "cluster_step ?s ?t"
    by (rule rank_executes [of 1 ?s "demo_task 1 0" "[]"]) (simp_all add: waiting_def tasks_for_def demo_cluster_def w(2))
  with r1 have r2: "reachable cluster_init cluster_step ?t" by (rule reachable.next_state)
  have "map r_task_id (collected_from 1 ?t) @ map r_task_id (cl_back ?t 1) @ map t_task_id (waiting 1 ?t) = map t_task_id (tasks_for 1 ?t)"
    using mpi_cluster_outcome [OF r2] by blast
  then have "map r_task_id (cl_back ?t 1) = [t_task_id (demo_task 1 0)]"
    by (simp add: collected_from_def waiting_def tasks_for_def demo_cluster_def w(2))
  moreover have "wk_distributed (cl_head ?t) = [(1, demo_task 1 0)]" "waiting 1 ?t = []"
    by (simp_all add: waiting_def tasks_for_def demo_cluster_def w(2))
  ultimately show ?thesis using r2 by (intro exI [of _ ?t] conjI)
qed

end
