(* ===== verification/Spec2Isabelle.thy ===== *)
theory Spec2Isabelle
  imports Storage_Theorems Round_Theorems Hdf5_Theorems Common_Theorems Example_Theorems
    Example_Storage_Theorems Mpi_Theorems
begin

text \<open>
  \<^bold>\<open>A verification of the C runtime of the distributed computing project.\<close>

  \<^bold>\<open>The program.\<close>  A coordinator (\<open>src/coordinator/main.c\<close>) hands out tasks to workers
  (\<open>src/worker/main.c\<close>).  It keeps the waiting tasks in a queue (\<open>src/runtime/task_queue.c\<close>) and the
  workers and the tasks given to them in a scheduler (\<open>src/coordinator/scheduler.c\<close>, with the worker
  record of \<open>worker_registry.c\<close>).  A worker keeps the tasks it received in a queue of the same kind,
  takes a slot of the resource limiter (\<open>src/runtime/resource_limits.c\<close>) for each, executes it itself
  or passes it to the other ranks of its MPI cluster (\<open>src/worker/executor.c\<close>, \<open>worker/main.c\<close>), and
  sends the result back.  All messages go through \<open>src/net/transport.c\<close>, which dispatches to a
  ZeroMQ backend (\<open>transport_zmq.c\<close>) or an MPI backend (\<open>transport_mpi.c\<close>).  The coordinator writes
  what it learns of a finished task to the metadata store (\<open>src/storage/metadata.c\<close>), one file per key.
  Result files and an index over them are kept by \<open>src/storage/hdf5_index.c\<close> on HDF5 and SQLite.  Both
  programs log and report crashes with \<open>src/common\<close>.

  \<^bold>\<open>How code is modelled.\<close>  A structure is a \<open>record\<close>, an enumeration a \<open>datatype\<close> (or its bits, where
  the code reads it from a file or a message), a fixed-width integer a word of that width with its
  wrap-around.  An operation is a function from the state before to the return code and the state
  after.  The outcome is an \<open>option\<close> wherever the C code can be undefined or fail to return: \<open>None\<close> is
  a NULL or dangling dereference, an access outside an array, an unterminated string, an overflow of a
  signed integer, a mutex taken twice.  A theorem that a call yields \<open>Some\<close> is therefore a theorem of
  memory safety and termination.  Pointer structures live in an explicit store of nodes; buffers are
  lists of their bytes; structures that cross a process boundary or are written to a file have their
  byte layout.  There is no fuel: loops over arrays are structural recursions, the polling loop has a
  termination proof, and the walks along \<open>next\<close> pointers, which need not end on a corrupt list, are
  partial functions whose termination on well-formed lists is proved.

  \<^bold>\<open>What is a parameter.\<close>  Code outside the repository is never invented: what \<open>libzmq\<close> delivers and
  reports, what MPI delivers, the readings of the clocks, the results of \<open>malloc\<close> and \<open>calloc\<close>, the
  contents of \<open>/proc\<close>, the outcome of every file operation, SQLite, the HDF5 library and the Fortran
  kernel are arguments of the definitions.  Hypotheses about them state documented behaviour only (an
  allocated block is not in use, a multipart message arrives whole, a SELECT delivers the rows that
  satisfy its conditions) and each property that has one has an instance in its
  witness.  The bounds that occur: at most \<open>2 ^ 32\<close> queue nodes, so that an allocator of a 64-bit
  address space exists; batches of at most 100 tasks, the size of the coordinator's array; keys of at
  most 255 bytes and directory names that leave room for them.

  \<^bold>\<open>The theories.\<close>

  \<^item> \<open>Prelude\<close>, \<open>C_String\<close>, \<open>Decimal\<close>: C integers, pointers, array searches, free addresses, reachable
    states and invariants (locale \<open>inductive_invariant\<close>); strings in buffers; \<open>printf\<close> and \<open>scanf\<close> of
    decimal numbers.
  \<^item> \<open>Task_Types\<close>, \<open>Byte_Layout\<close>: \<open>include/*.h\<close>, and the bytes of a task, a result and an array of tasks.
  \<^item> \<open>Task_Queue\<close>: every operation of \<open>task_queue.c\<close>, the blocking dequeue as its critical sections.
    \<open>Task_Queue_Refine\<close>: a well-formed list and the priority order it represents.
    \<open>Task_Queue_Threads\<close>: any interleaving of threads.  \<open>Queue_Interface\<close>: the contract that clients
    use (locale \<open>task_queue_interface\<close>, interpreted on the linked list).  \<open>Queue_Client\<close>: the form in
    which worker and coordinator use it.
  \<^item> \<open>Worker_Registry\<close>, \<open>Scheduler\<close>: every operation of \<open>scheduler.c\<close> with its statistics.
    \<open>Scheduler_Registry\<close>, \<open>Scheduler_Refine\<close>: the array as a map from ids to workers (locale
    \<open>worker_update\<close> for the operations that change one worker).  \<open>Scheduler_Steps\<close>: sequences of calls.
  \<^item> \<open>Transport\<close>: messages and the table of functions.  \<open>Transport_ZMQ\<close>, \<open>Transport_ZMQ_Props\<close>,
    \<open>Transport_MPI\<close>: the backends.  \<open>Transport_Interface\<close>: what worker and coordinator rely on (locale
    \<open>transport_backend\<close>, interpreted on the ZeroMQ backend).
  \<^item> \<open>Resource_Limits\<close>, \<open>Resource_Limits_Props\<close>: the limiter (locale \<open>task_slots\<close> for the slots).
    \<open>Executor\<close>: a task and a batch.
  \<^item> \<open>Worker\<close>, \<open>Worker_Props\<close>, \<open>Worker_Liveness\<close>: the main loop of a worker in both modes, on any
    transport that meets the interface; progress on a silent connection (locale \<open>silent_backend\<close>).
    \<open>Mpi_Cluster\<close>: the head of an MPI cluster and its other ranks as interleaved steps.
  \<^item> \<open>Coordinator\<close>, \<open>Coordinator_Props\<close>: the handlers and the main loop.  \<open>Cluster_Links\<close>: what one end
    sends and the other receives.  \<open>Cluster_Round\<close>: the passes of both main loops joined by the frames on
    the wire.
  \<^item> \<open>Programs\<close>: both programs from their command lines on.  \<open>Common\<close>, \<open>Common_Theorems\<close>: sleeping,
    logging and crash reports.
  \<^item> \<open>Metadata\<close>: every operation of \<open>metadata.c\<close>.  \<open>Metadata_Props\<close>: file names and the contents of a
    file.  \<open>Metadata_Store\<close>: the store as a map (locale \<open>slot_store\<close>, interpreted on the files).
    \<open>Metadata_Tasks\<close>: the entries of a task.  \<open>Metadata_Query\<close>: queries.  \<open>Metadata_Typed\<close>: the typed
    put and get operations.
  \<^item> \<open>Hdf5_Index\<close>: every function of \<open>hdf5_index.c\<close>.  \<open>Hdf5_Props\<close>: the text of a query and what it means,
    the index as a set of rows under the laws of SQLite.  \<open>Hdf5_Files\<close>: the groups and datasets of the
    files under the laws of the HDF5 library.  Both have an instance of their laws.
  \<^item> \<open>Example_Runtime\<close>, \<open>Example_Threads\<close>, \<open>Example_Limits\<close>: the four examples of
    \<open>examples/minimal_cluster/runtime_example.c\<close>, the second as the interleavings of its producer and
    worker threads.  \<open>Example_Transport\<close>: both roles of
    \<open>examples/volunteer_computing/transport_example.c\<close> on both backends.  \<open>Example_Metadata\<close>,
    \<open>Example_Hdf5\<close>, \<open>Example_Hdf5_Props\<close>: the six examples of \<open>examples/minimal_cluster/storage_example.c\<close>.
    An example is a function to the values that it prints.
  \<^item> \<open>Task_Queue_Theorems\<close>, \<open>Scheduler_Theorems\<close>, \<open>Transport_Theorems\<close>, \<open>Runtime_Theorems\<close>,
    \<open>Cluster_Theorems\<close>, \<open>Round_Theorems\<close>, \<open>Storage_Theorems\<close>, \<open>Hdf5_Theorems\<close>, \<open>Example_Theorems\<close>,
    \<open>Example_Storage_Theorems\<close>, \<open>Mpi_Theorems\<close>: the main properties, each with a concrete instance.

  \<^bold>\<open>What is shown.\<close>
  The queue refines a two-level priority queue in every operation, on every error branch and under
  every interleaving, loses and duplicates no task and keeps the order within a priority.  The
  scheduler refines a map from worker ids to workers; its statistics are exact as long as no busy or
  dead worker registers again.  Messages of every kind survive the wire in both directions and on both
  backends, and whatever a peer sends, a receive call returns a complete valid message or none.  Slots
  are never oversubscribed, and measurements and checks are what they claim.  One pass of either main
  loop returns and conserves tasks; registrations, batches and results get from one end to the other;
  a worker on a silent connection empties its queue; the head of an MPI cluster gives its tasks to the
  ranks in turn, no interleaving loses, repeats or overtakes one, and the ranks can always finish; and
  in a whole round, from the coordinator's queue through a worker and back, every task is executed, completed in the scheduler and recorded.
  The metadata store is a map from file names to records, typed values are read back by the operation of
  their type and refused by the others, queries are exact, and what the coordinator records of a result
  can be read back.  A crash is reported once, with the end of the log, and sleeping is exact whatever
  interrupts it.  The index of result files is a set of rows with one row per path, its queries are relational selections, and
  stored arrays are read back.  The example programs do what their components promise: in every
  interleaving of producers and workers no task is lost, and the storage example prints what it stored.
  Where the code does not do what it means to, the failure is a theorem too: the broadcast that
  deadlocks, the batch that overflows its array, the count of a batch that is believed, the task file
  that is loaded after the run, the query for every type that finds nothing, the task id that the index
  loses, the transport example whose worker never registers over ZeroMQ and whose coordinator addresses
  itself over MPI.

  \<^bold>\<open>Not modelled.\<close>  The log messages of the components other than the crash reporter, which no code
  reads back; the signal handlers of the two programs, which only clear the flag that ends the main
  loop (the models take the passes that the loop makes).  The Fortran kernels, and the header
  \<open>include/fortran_api.h\<close> that only declares them, are numerical code in another language; the executor
  takes them as a parameter.  Rounding of \<open>double\<close> is not modelled: percentages and megabytes are read as
  reals, and where the bits of a \<open>double\<close> are stored or sent, the arithmetic of the machine is a
  parameter (\<open>c_floats\<close>, \<open>c_math\<close>).
\<close>

end
